(* ===== verification/Prelude.thy ===== *)
theory Prelude
  imports Main "HOL-Library.AList"
begin

text \<open>
  Shared vocabulary of the development.

  An \<open>async\<close> Python function is a program \<open>'w \<Rightarrow> outcome \<times> 'w\<close>: it runs in a world
  \<open>'w\<close> (the stores, the queue, the engine, the log) and either returns, raises an
  exception of type \<open>'e\<close>, or, for an unbounded loop run with fuel, has not returned yet.
  The world reached so far is kept in every case, because a raise does not undo effects.

  \<open>triple R P m Q E\<close> is the Hoare triple used for those programs: started in a world
  with \<open>P\<close>, the program returns or raises, it moves the world along \<open>R\<close>, a return satisfies
  \<open>Q\<close> and a raise satisfies \<open>E\<close>.
\<close>

named_theorems prog_simps "unfolding of the program combinators"
named_theorems field_frames "fields that an operation leaves alone"

section \<open>Programs with exceptions\<close>

datatype ('e, 'a) outcome = Done 'a | Raised 'e | Diverged

type_synonym ('w, 'e, 'a) prog = "'w \<Rightarrow> ('e, 'a) outcome \<times> 'w"

definition ret :: "'a \<Rightarrow> ('w, 'e, 'a) prog" where
  "ret x w = (Done x, w)"

definition raise_exc :: "'e \<Rightarrow> ('w, 'e, 'a) prog" where
  "raise_exc e w = (Raised e, w)"

definition diverge :: "('w, 'e, 'a) prog" where
  "diverge w = (Diverged, w)"

definition bind_prog :: "('w, 'e, 'a) prog \<Rightarrow> ('a \<Rightarrow> ('w, 'e, 'b) prog) \<Rightarrow> ('w, 'e, 'b) prog" where
  "bind_prog m k w =
     (case m w of
        (Done x, w') \<Rightarrow> k x w'
      | (Raised e, w') \<Rightarrow> (Raised e, w')
      | (Diverged, w') \<Rightarrow> (Diverged, w'))"

definition catch_prog :: "('w, 'e, 'a) prog \<Rightarrow> ('e \<Rightarrow> ('w, 'f, 'a) prog) \<Rightarrow> ('w, 'f, 'a) prog" where
  "catch_prog m h w =
     (case m w of
        (Done x, w') \<Rightarrow> (Done x, w')
      | (Raised e, w') \<Rightarrow> h e w'
      | (Diverged, w') \<Rightarrow> (Diverged, w'))"

text \<open>A pure step that may raise, such as a method of a domain object.\<close>

definition lift_sum :: "'e + 'a \<Rightarrow> ('w, 'e, 'a) prog" where
  "lift_sum r w = (case r of Inl e \<Rightarrow> (Raised e, w) | Inr x \<Rightarrow> (Done x, w))"

text \<open>
  The same program with every exception paired with a value: how a handler sees the
  local variable that its \<open>try\<close> block had bound when the exception was raised.
\<close>

definition at_local :: "'l \<Rightarrow> ('w, 'e, 'a) prog \<Rightarrow> ('w, 'e \<times> 'l, 'a) prog" where
  "at_local l m = catch_prog m (\<lambda>e. raise_exc (e, l))"

fun map_prog :: "('a \<Rightarrow> ('w, 'e, 'b) prog) \<Rightarrow> 'a list \<Rightarrow> ('w, 'e, 'b list) prog" where
  "map_prog f [] = ret []"
| "map_prog f (x # xs) =
     bind_prog (f x) (\<lambda>y. bind_prog (map_prog f xs) (\<lambda>ys. ret (y # ys)))"

lemma ret_apply [simp, prog_simps]: "ret x w = (Done x, w)"
  by (simp add: ret_def)

lemma raise_exc_apply [simp, prog_simps]: "raise_exc e w = (Raised e, w)"
  by (simp add: raise_exc_def)

lemma lift_sum_simps [simp, prog_simps]:
  "lift_sum (Inl e) = raise_exc e"
  "lift_sum (Inr x) = ret x"
  by (auto simp: lift_sum_def fun_eq_iff)

lemma bind_ret [simp, prog_simps]: "bind_prog (ret x) k = k x"
  by (simp add: bind_prog_def fun_eq_iff)

lemma bind_raise [simp, prog_simps]: "bind_prog (raise_exc e) k = raise_exc e"
  by (simp add: bind_prog_def fun_eq_iff)

lemma catch_ret [simp, prog_simps]: "catch_prog (ret x) h = ret x"
  by (simp add: catch_prog_def fun_eq_iff)

lemma catch_raise [simp, prog_simps]: "catch_prog (raise_exc e) h = h e"
  by (simp add: catch_prog_def fun_eq_iff)

lemma at_local_ret [simp, prog_simps]: "at_local l (ret x) = ret x"
  by (simp add: at_local_def)

lemma at_local_raise [simp, prog_simps]: "at_local l (raise_exc e) = raise_exc (e, l)"
  by (simp add: at_local_def catch_prog_def fun_eq_iff)

text \<open>Symbolic execution: one step of a program whose outcome is known.\<close>

lemma bind_Done: "m w = (Done x, w') \<Longrightarrow> bind_prog m k w = k x w'"
  by (simp add: bind_prog_def)

lemma bind_Raised: "m w = (Raised e, w') \<Longrightarrow> bind_prog m k w = (Raised e, w')"
  by (simp add: bind_prog_def)

lemma catch_Done: "m w = (Done x, w') \<Longrightarrow> catch_prog m h w = (Done x, w')"
  by (simp add: catch_prog_def)

lemma catch_Raised: "m w = (Raised e, w') \<Longrightarrow> catch_prog m h w = h e w'"
  by (simp add: catch_prog_def)

lemma at_local_Done: "m w = (Done x, w') \<Longrightarrow> at_local l m w = (Done x, w')"
  by (simp add: at_local_def catch_prog_def)

lemma at_local_Raised: "m w = (Raised e, w') \<Longrightarrow> at_local l m w = (Raised (e, l), w')"
  by (simp add: at_local_def catch_prog_def)

lemmas run_steps = bind_Done bind_Raised catch_Done catch_Raised at_local_Done at_local_Raised

lemma bind_prog_cases:
  assumes "bind_prog m k w = (r, w')"
  obtains (Done) x w1 where "m w = (Done x, w1)" and "k x w1 = (r, w')"
  | (Raised) e where "m w = (Raised e, w')" and "r = Raised e"
  | (Diverged) "m w = (Diverged, w')" and "r = Diverged"
  using assms by (auto simp: bind_prog_def split: prod.splits outcome.splits)

section \<open>Triples\<close>

definition triple :: "('w \<Rightarrow> 'w \<Rightarrow> bool) \<Rightarrow> ('w \<Rightarrow> bool) \<Rightarrow> ('w, 'e, 'a) prog \<Rightarrow>
    ('a \<Rightarrow> 'w \<Rightarrow> bool) \<Rightarrow> ('e \<Rightarrow> 'w \<Rightarrow> bool) \<Rightarrow> bool" where
  "triple R P m Q E \<longleftrightarrow>
     (\<forall>w. P w \<longrightarrow>
        R w (snd (m w)) \<and>
        (case fst (m w) of
           Done x \<Rightarrow> Q x (snd (m w))
         | Raised e \<Rightarrow> E e (snd (m w))
         | Diverged \<Rightarrow> False))"

lemma tripleI:
  assumes "\<And>w r w'. P w \<Longrightarrow> m w = (r, w') \<Longrightarrow> R w w' \<and>
    (case r of Done x \<Rightarrow> Q x w' | Raised e \<Rightarrow> E e w' | Diverged \<Rightarrow> False)"
  shows "triple R P m Q E"
  unfolding triple_def by (metis assms prod.collapse)

lemma tripleD:
  assumes "triple R P m Q E" and "P w" and "m w = (r, w')"
  shows "R w w'" and "r = Done x \<Longrightarrow> Q x w'" and "r = Raised e \<Longrightarrow> E e w'" and "r \<noteq> Diverged"
  using assms unfolding triple_def by force+

lemma triple_ret: "(\<And>w. R w w) \<Longrightarrow> (\<And>w. P w \<Longrightarrow> Q x w) \<Longrightarrow> triple R P (ret x) Q E"
  by (simp add: triple_def)

lemma triple_raise: "(\<And>w. R w w) \<Longrightarrow> (\<And>w. P w \<Longrightarrow> E e w) \<Longrightarrow> triple R P (raise_exc e) Q E"
  by (simp add: triple_def)

lemma triple_lift_sum:
  assumes "\<And>w. R w w"
    and "\<And>w e. P w \<Longrightarrow> r = Inl e \<Longrightarrow> E e w"
    and "\<And>w x. P w \<Longrightarrow> r = Inr x \<Longrightarrow> Q x w"
  shows "triple R P (lift_sum r) Q E"
  using assms by (cases r) (auto simp: triple_def)

lemma triple_bind:
  assumes tr: "\<And>u v w. R u v \<Longrightarrow> R v w \<Longrightarrow> R u w"
    and m: "triple R P m Q E"
    and k: "\<And>x. triple R (Q x) (k x) S E"
  shows "triple R P (bind_prog m k) S E"
proof (rule tripleI)
  fix w r w'
  assume P: "P w" and run: "bind_prog m k w = (r, w')"
  from run show "R w w' \<and> (case r of Done x \<Rightarrow> S x w' | Raised e \<Rightarrow> E e w' | Diverged \<Rightarrow> False)"
  proof (cases rule: bind_prog_cases)
    case (Done x w1)
    with m P have "R w w1" and "Q x w1" by (auto dest: tripleD)
    with Done k [of x] tr show ?thesis
      by (cases r) (auto dest: tripleD)
  next
    case (Raised e)
    with m P show ?thesis by (auto dest: tripleD)
  next
    case Diverged
    with m P show ?thesis by (auto dest: tripleD)
  qed
qed

lemma triple_catch:
  assumes tr: "\<And>u v w. R u v \<Longrightarrow> R v w \<Longrightarrow> R u w"
    and m: "triple R P m Q F"
    and h: "\<And>e. triple R (F e) (h e) Q E"
  shows "triple R P (catch_prog m h) Q E"
proof (rule tripleI)
  fix w r w'
  assume P: "P w" and run: "catch_prog m h w = (r, w')"
  obtain r1 w1 where m1: "m w = (r1, w1)" by (cases "m w") auto
  with m P have R1: "R w w1" by (auto dest: tripleD)
  show "R w w' \<and> (case r of Done x \<Rightarrow> Q x w' | Raised e \<Rightarrow> E e w' | Diverged \<Rightarrow> False)"
  proof (cases r1)
    case (Done x)
    with m P m1 run show ?thesis by (auto simp: catch_prog_def dest: tripleD)
  next
    case (Raised e)
    with m P m1 have "F e w1" by (auto dest: tripleD)
    with Raised m1 run h [of e] R1 tr show ?thesis
      by (cases r) (auto simp: catch_prog_def dest: tripleD)
  next
    case Diverged
    with m1 m P show ?thesis by (auto dest: tripleD(4))
  qed
qed

lemma triple_at_local:
  assumes "triple R P m Q (\<lambda>e. E (e, l))"
  shows "triple R P (at_local l m) Q E"
  using assms
  by (auto simp: triple_def at_local_def catch_prog_def split: prod.splits outcome.splits)

lemma triple_conseq:
  assumes "triple R P m Q E"
    and "\<And>w. P' w \<Longrightarrow> P w" and "\<And>x w. Q x w \<Longrightarrow> Q' x w" and "\<And>e w. E e w \<Longrightarrow> E' e w"
  shows "triple R P' m Q' E'"
  using assms unfolding triple_def by (auto split: outcome.splits)

lemma triple_pre: "triple R P m Q E \<Longrightarrow> (\<And>w. P' w \<Longrightarrow> P w) \<Longrightarrow> triple R P' m Q E"
  by (erule triple_conseq) auto

lemma triple_err:
  "triple R P m Q E \<Longrightarrow> (\<And>e w. E e w \<Longrightarrow> E' e w) \<Longrightarrow> triple R P m Q E'"
  by (erule triple_conseq) auto

lemma triple_frame:
  assumes "triple R P m Q E"
    and stable: "\<And>u v. R u v \<Longrightarrow> F u \<Longrightarrow> F v"
  shows "triple R (\<lambda>w. P w \<and> F w) m (\<lambda>x w. Q x w \<and> F w) (\<lambda>e w. E e w \<and> F w)"
proof (rule tripleI)
  fix w r w'
  assume "P w \<and> F w" and run: "m w = (r, w')"
  then have "R w w'" using assms(1) by (auto dest: tripleD)
  moreover have "F w'" using stable [OF \<open>R w w'\<close>] \<open>P w \<and> F w\<close> by simp
  ultimately show "R w w' \<and> (case r of Done x \<Rightarrow> Q x w' \<and> F w'
      | Raised e \<Rightarrow> E e w' \<and> F w' | Diverged \<Rightarrow> False)"
    using tripleD [OF assms(1) _ run] \<open>P w \<and> F w\<close> by (cases r) auto
qed

lemma triple_map_prog:
  assumes refl: "\<And>w. R w w" and tr: "\<And>u v w. R u v \<Longrightarrow> R v w \<Longrightarrow> R u w"
    and step: "\<And>x. x \<in> set xs \<Longrightarrow> triple R P (f x) (\<lambda>_. P) E"
  shows "triple R P (map_prog f xs) (\<lambda>_. P) E"
  using step
proof (induction xs)
  case Nil
  show ?case unfolding map_prog.simps by (rule triple_ret) (rule refl)
next
  case (Cons x xs)
  have "triple R P (map_prog f xs) (\<lambda>_. P) E" by (rule Cons.IH) (auto intro: Cons.prems)
  then show ?case
    using Cons.prems [of x] by (auto intro!: triple_bind [OF tr] triple_ret refl)
qed

section \<open>Partial correctness\<close>

text \<open>
  \<open>maintains I P m Q\<close>: from a world with the invariant \<open>I\<close> and \<open>P\<close>, the program keeps \<open>I\<close> however it
  ends, and a return satisfies \<open>Q\<close>.
\<close>

definition maintains ::
    "('w \<Rightarrow> bool) \<Rightarrow> ('w \<Rightarrow> bool) \<Rightarrow> ('w, 'e, 'a) prog \<Rightarrow> ('a \<Rightarrow> 'w \<Rightarrow> bool) \<Rightarrow> bool" where
  "maintains I P m Q \<longleftrightarrow>
     (\<forall>w r w'. I w \<longrightarrow> P w \<longrightarrow> m w = (r, w') \<longrightarrow> I w' \<and> (\<forall>x. r = Done x \<longrightarrow> Q x w'))"

lemma maintainsI:
  assumes "\<And>w r w'. I w \<Longrightarrow> P w \<Longrightarrow> m w = (r, w') \<Longrightarrow> I w' \<and> (\<forall>x. r = Done x \<longrightarrow> Q x w')"
  shows "maintains I P m Q"
  using assms by (auto simp: maintains_def)

lemma maintains_bind:
  assumes "maintains I P m Q" and "\<And>x. maintains I (Q x) (k x) S"
  shows "maintains I P (bind_prog m k) S"
proof (rule maintainsI)
  fix w r w'
  assume "I w" "P w" and run: "bind_prog m k w = (r, w')"
  from run show "I w' \<and> (\<forall>x. r = Done x \<longrightarrow> S x w')"
    by (cases rule: bind_prog_cases)
       (use assms \<open>I w\<close> \<open>P w\<close> in \<open>unfold maintains_def, blast+\<close>)
qed

lemma maintains_catch:
  assumes "maintains I P m Q" and "\<And>e. maintains I (\<lambda>_. True) (h e) Q"
  shows "maintains I P (catch_prog m h) Q"
proof (rule maintainsI)
  fix w r w'
  assume "I w" "P w" and run: "catch_prog m h w = (r, w')"
  obtain r1 w1 where m: "m w = (r1, w1)" by (cases "m w")
  with assms(1) \<open>I w\<close> \<open>P w\<close> have 1: "I w1" "\<And>x. r1 = Done x \<Longrightarrow> Q x w1" by (auto simp: maintains_def)
  show "I w' \<and> (\<forall>x. r = Done x \<longrightarrow> Q x w')"
  proof (cases r1)
    case (Raised e)
    with run m have "h e w1 = (r, w')" by (simp add: catch_prog_def)
    with assms(2) [of e] 1(1) show ?thesis by (auto simp: maintains_def)
  qed (use run m 1 in \<open>auto simp: catch_prog_def\<close>)
qed

text \<open>The case without conditions: the invariant alone.\<close>

lemma maintains_seq:
  assumes "maintains I (\<lambda>_. True) m (\<lambda>_ _. True)" and "\<And>x. maintains I (\<lambda>_. True) (k x) (\<lambda>_ _. True)"
  shows "maintains I (\<lambda>_. True) (bind_prog m k) (\<lambda>_ _. True)"
  using assms by (rule maintains_bind)

lemma maintains_at_local: "maintains I P m Q \<Longrightarrow> maintains I P (at_local l m) Q"
  unfolding at_local_def by (erule maintains_catch) (auto simp: maintains_def)

lemma maintains_ret: "(\<And>w. I w \<Longrightarrow> P w \<Longrightarrow> Q x w) \<Longrightarrow> maintains I P (ret x) Q"
  by (auto simp: maintains_def)

lemma maintains_raise: "maintains I P (raise_exc e) Q"
  by (auto simp: maintains_def)

lemma maintains_diverge: "maintains I P diverge Q"
  by (auto simp: maintains_def diverge_def)

lemma maintains_weaken:
  "maintains I P' m Q' \<Longrightarrow> (\<And>w. I w \<Longrightarrow> P w \<Longrightarrow> P' w) \<Longrightarrow> (\<And>x w. I w \<Longrightarrow> Q' x w \<Longrightarrow> Q x w) \<Longrightarrow> maintains I P m Q"
  unfolding maintains_def by blast

lemma maintains_map:
  "(\<And>x. x \<in> set xs \<Longrightarrow> maintains I P (f x) (\<lambda>_. P)) \<Longrightarrow> maintains I P (map_prog f xs) (\<lambda>_. P)"
  by (induction xs) (auto intro!: maintains_bind maintains_ret)

section \<open>Lists and association lists\<close>

text \<open>
  A Python \<open>dict\<close> keeps insertion order and assigning to a present key keeps its place:
  an association list with \<^const>\<open>AList.update\<close> and \<^const>\<open>map_of\<close>.
\<close>

lemma map_of_update [simp]: "map_of (AList.update k v al) = (map_of al)(k \<mapsto> v)"
  by (rule update_conv')

lemma set_update_snd:
  "x \<in> set (AList.update k v al) \<Longrightarrow> x = (k, v) \<or> x \<in> set al"
  by (induction al) (auto split: if_splits)

text \<open>
  A \<open>dict\<close> that files every object under the object's own key attribute is the list of the
  objects: assigning replaces the object with that key in place, or appends.
\<close>

definition lookup_by :: "('a \<Rightarrow> 'k) \<Rightarrow> 'a list \<Rightarrow> 'k \<Rightarrow> 'a option" where
  "lookup_by key xs k = find (\<lambda>x. key x = k) xs"

fun update_by :: "('a \<Rightarrow> 'k) \<Rightarrow> 'a \<Rightarrow> 'a list \<Rightarrow> 'a list" where
  "update_by key y [] = [y]"
| "update_by key y (x # xs) = (if key x = key y then y # xs else x # update_by key y xs)"

lemma lookup_update_by [simp]:
  "lookup_by key (update_by key y xs) k = (if k = key y then Some y else lookup_by key xs k)"
  by (induction xs) (auto simp: lookup_by_def)

lemma lookup_by_key: "lookup_by key xs k = Some x \<Longrightarrow> key x = k"
  by (auto simp: lookup_by_def find_Some_iff)

lemma lookup_by_set: "lookup_by key xs k = Some x \<Longrightarrow> x \<in> set xs"
  by (auto simp: lookup_by_def find_Some_iff)

lemma lookup_by_None: "lookup_by key xs k = None \<longleftrightarrow> k \<notin> key ` set xs"
  by (auto simp: lookup_by_def find_None_iff)

lemma set_update_by: "x \<in> set (update_by key y xs) \<Longrightarrow> x = y \<or> x \<in> set xs"
  by (induction xs) (auto split: if_splits)

lemma map_key_update_by:
  "map key (update_by key y xs) = (if key y \<in> key ` set xs then map key xs else map key xs @ [key y])"
  by (induction xs) auto

lemma distinct_update_by: "distinct (map key xs) \<Longrightarrow> distinct (map key (update_by key y xs))"
  by (auto simp: map_key_update_by simp del: map_map)

text \<open>Python's \<open>xs[i]\<close> for a non-negative index.\<close>

definition list_get :: "'a list \<Rightarrow> nat \<Rightarrow> 'a option" where
  "list_get xs i = (if i < length xs then Some (xs ! i) else None)"

lemma list_get_Some: "list_get xs i = Some x \<longleftrightarrow> i < length xs \<and> xs ! i = x"
  by (auto simp: list_get_def)

lemma list_get_update [simp]:
  "list_get (xs[i := y]) i = (if i < length xs then Some y else None)"
  by (simp add: list_get_def)

text \<open>\<open>xs[offset : offset + limit]\<close> for non-negative bounds.\<close>

definition page_slice :: "nat \<Rightarrow> nat \<Rightarrow> 'a list \<Rightarrow> 'a list" where
  "page_slice offset limit xs = take limit (drop offset xs)"

lemma set_page_slice_subset: "set (page_slice offset limit xs) \<subseteq> set xs"
  unfolding page_slice_def using set_take_subset set_drop_subset by (rule subset_trans)

lemma length_page_slice_le: "length (page_slice offset limit xs) \<le> limit"
  by (simp add: page_slice_def)

end
