(* ===== verification/Errors.thy ===== *)
theory Errors
  imports Prelude
begin

text \<open>
  The shared contracts of the backend: the status codes of
  \<^verbatim>\<open>shared/internal_status_codes.py\<close>, the response envelope of \<^verbatim>\<open>shared/api.py\<close>, the
  business outcome of \<^verbatim>\<open>shared/errors.py\<close> and the exception classes of
  \<^verbatim>\<open>application/exceptions.py\<close>. An exception is a value of \<open>exn\<close>; a Python
  class test is a predicate on it, and the class attributes are functions of it. The
  user-facing message of a business error is a fixed literal per raise site and is not
  carried; the site is identified by its code and its error reason.

  Strings are HOL strings: one character per byte of the UTF-8 text.
\<close>

section \<open>JSON values\<close>

text \<open>
  Values of type \<open>dict[str, Any]\<close>. An object keeps its keys in insertion order. A float
  is carried as the text Python prints for it.
\<close>

datatype json =
  JNull | JBool bool | JInt int | JFloat string | JStr string
| JList "json list" | JDict "(string \<times> json) list"

fun json_get :: "json \<Rightarrow> string \<Rightarrow> json option" where
  "json_get (JDict kvs) k = map_of kvs k"
| "json_get _ k = None"

text \<open>Python truth of a JSON value: \<open>x or y\<close> and \<open>if x\<close> depend on it.\<close>

fun json_truthy :: "json \<Rightarrow> bool" where
  "json_truthy JNull = False"
| "json_truthy (JBool b) = b"
| "json_truthy (JInt i) = (i \<noteq> 0)"
| "json_truthy (JFloat s) = (s \<noteq> ''0.0'' \<and> s \<noteq> ''-0.0'')"
| "json_truthy (JStr s) = (s \<noteq> [])"
| "json_truthy (JList xs) = (xs \<noteq> [])"
| "json_truthy (JDict kvs) = (kvs \<noteq> [])"

section \<open>Status codes\<close>

datatype internal_status_code =
  SUCCESS
| COMMON_INVALID_ARGUMENT | COMMON_RESOURCE_NOT_FOUND | COMMON_STATE_CONFLICT
| COMMON_IDEMPOTENCY_CONFLICT
| UPLOAD_NOT_FOUND | UPLOAD_NOT_COMPLETED | UPLOAD_HASH_MISMATCH
| UPLOAD_UNSUPPORTED_FILE_TYPE | UPLOAD_FILE_TOO_LARGE | UPLOAD_SECURITY_REJECTED
| JOB_NOT_FOUND | JOB_NOT_CANCELLABLE | JOB_NOT_RETRYABLE | JOB_PROCESSING_FAILED
| JOB_RESULT_NOT_READY
| USER_UNAUTHORIZED | API_KEY_REVOKED | API_KEY_RATE_LIMITED
| ENGINE_UNAVAILABLE | ENGINE_TIMEOUT | STORAGE_UNAVAILABLE | QUEUE_UNAVAILABLE
| DATABASE_UNAVAILABLE | INTERNAL_CONTROLLED_ERROR
| TRANSPORT_INTERNAL_ERROR | TRANSPORT_BAD_GATEWAY | TRANSPORT_GATEWAY_TIMEOUT

fun code_value :: "internal_status_code \<Rightarrow> int" where
  "code_value SUCCESS = 0"
| "code_value COMMON_INVALID_ARGUMENT = 10001"
| "code_value COMMON_RESOURCE_NOT_FOUND = 10002"
| "code_value COMMON_STATE_CONFLICT = 10003"
| "code_value COMMON_IDEMPOTENCY_CONFLICT = 10004"
| "code_value UPLOAD_NOT_FOUND = 20001"
| "code_value UPLOAD_NOT_COMPLETED = 20002"
| "code_value UPLOAD_HASH_MISMATCH = 20003"
| "code_value UPLOAD_UNSUPPORTED_FILE_TYPE = 20004"
| "code_value UPLOAD_FILE_TOO_LARGE = 20005"
| "code_value UPLOAD_SECURITY_REJECTED = 20006"
| "code_value JOB_NOT_FOUND = 30001"
| "code_value JOB_NOT_CANCELLABLE = 30002"
| "code_value JOB_NOT_RETRYABLE = 30003"
| "code_value JOB_PROCESSING_FAILED = 30004"
| "code_value JOB_RESULT_NOT_READY = 30005"
| "code_value USER_UNAUTHORIZED = 40001"
| "code_value API_KEY_REVOKED = 40002"
| "code_value API_KEY_RATE_LIMITED = 40003"
| "code_value ENGINE_UNAVAILABLE = 50001"
| "code_value ENGINE_TIMEOUT = 50002"
| "code_value STORAGE_UNAVAILABLE = 50003"
| "code_value QUEUE_UNAVAILABLE = 50004"
| "code_value DATABASE_UNAVAILABLE = 50005"
| "code_value INTERNAL_CONTROLLED_ERROR = 59999"
| "code_value TRANSPORT_INTERNAL_ERROR = 90000"
| "code_value TRANSPORT_BAD_GATEWAY = 90002"
| "code_value TRANSPORT_GATEWAY_TIMEOUT = 90004"

text \<open>The member name, \<open>code.name\<close>.\<close>

fun code_name :: "internal_status_code \<Rightarrow> string" where
  "code_name SUCCESS = ''SUCCESS''"
| "code_name COMMON_INVALID_ARGUMENT = ''COMMON_INVALID_ARGUMENT''"
| "code_name COMMON_RESOURCE_NOT_FOUND = ''COMMON_RESOURCE_NOT_FOUND''"
| "code_name COMMON_STATE_CONFLICT = ''COMMON_STATE_CONFLICT''"
| "code_name COMMON_IDEMPOTENCY_CONFLICT = ''COMMON_IDEMPOTENCY_CONFLICT''"
| "code_name UPLOAD_NOT_FOUND = ''UPLOAD_NOT_FOUND''"
| "code_name UPLOAD_NOT_COMPLETED = ''UPLOAD_NOT_COMPLETED''"
| "code_name UPLOAD_HASH_MISMATCH = ''UPLOAD_HASH_MISMATCH''"
| "code_name UPLOAD_UNSUPPORTED_FILE_TYPE = ''UPLOAD_UNSUPPORTED_FILE_TYPE''"
| "code_name UPLOAD_FILE_TOO_LARGE = ''UPLOAD_FILE_TOO_LARGE''"
| "code_name UPLOAD_SECURITY_REJECTED = ''UPLOAD_SECURITY_REJECTED''"
| "code_name JOB_NOT_FOUND = ''JOB_NOT_FOUND''"
| "code_name JOB_NOT_CANCELLABLE = ''JOB_NOT_CANCELLABLE''"
| "code_name JOB_NOT_RETRYABLE = ''JOB_NOT_RETRYABLE''"
| "code_name JOB_PROCESSING_FAILED = ''JOB_PROCESSING_FAILED''"
| "code_name JOB_RESULT_NOT_READY = ''JOB_RESULT_NOT_READY''"
| "code_name USER_UNAUTHORIZED = ''USER_UNAUTHORIZED''"
| "code_name API_KEY_REVOKED = ''API_KEY_REVOKED''"
| "code_name API_KEY_RATE_LIMITED = ''API_KEY_RATE_LIMITED''"
| "code_name ENGINE_UNAVAILABLE = ''ENGINE_UNAVAILABLE''"
| "code_name ENGINE_TIMEOUT = ''ENGINE_TIMEOUT''"
| "code_name STORAGE_UNAVAILABLE = ''STORAGE_UNAVAILABLE''"
| "code_name QUEUE_UNAVAILABLE = ''QUEUE_UNAVAILABLE''"
| "code_name DATABASE_UNAVAILABLE = ''DATABASE_UNAVAILABLE''"
| "code_name INTERNAL_CONTROLLED_ERROR = ''INTERNAL_CONTROLLED_ERROR''"
| "code_name TRANSPORT_INTERNAL_ERROR = ''TRANSPORT_INTERNAL_ERROR''"
| "code_name TRANSPORT_BAD_GATEWAY = ''TRANSPORT_BAD_GATEWAY''"
| "code_name TRANSPORT_GATEWAY_TIMEOUT = ''TRANSPORT_GATEWAY_TIMEOUT''"

lemma code_value_inject [simp]: "code_value a = code_value b \<longleftrightarrow> a = b"
  by (cases a; cases b) simp_all

lemma code_value_success [simp]: "code_value a = 0 \<longleftrightarrow> a = SUCCESS"
  using code_value_inject [of a SUCCESS] by simp

section \<open>Exceptions\<close>

datatype exn =
  BusinessError internal_status_code string "json option"
| DependencyError
| DatabaseUnavailableError
| StorageUnavailableError
| QueueUnavailableError
| EngineError
| TransientEngineError
| EngineUnavailableError
| EngineTimeoutError
| EngineProtocolError
| PreprocessingError string
| ConcurrentJobUpdateError
| DuplicateIdempotencyKeyError
| FileNotFoundError
| ValueError string
| RuntimeError string
| KeyError
| IndexError
| TypeError
| TimeoutError
| UnboundLocalError
| JSONDecodeError
| OSError string
| ResponseError string json
| SqlError string string
| OtherError string
| CancelledError

text \<open>
  The class name, \<open>type(exc).__name__\<close>. A \<open>ResponseError\<close> is an exception of a client library
  with a \<open>response\<close> attribute, a \<open>SqlError\<close> one of the database driver with its \<open>sqlstate\<close> and
  \<open>constraint_name\<close> (the driver has a subclass per state; the common base names it here).
\<close>

fun exn_name :: "exn \<Rightarrow> string" where
  "exn_name (BusinessError _ _ _) = ''BusinessError''"
| "exn_name DependencyError = ''DependencyError''"
| "exn_name DatabaseUnavailableError = ''DatabaseUnavailableError''"
| "exn_name StorageUnavailableError = ''StorageUnavailableError''"
| "exn_name QueueUnavailableError = ''QueueUnavailableError''"
| "exn_name EngineError = ''EngineError''"
| "exn_name TransientEngineError = ''TransientEngineError''"
| "exn_name EngineUnavailableError = ''EngineUnavailableError''"
| "exn_name EngineTimeoutError = ''EngineTimeoutError''"
| "exn_name EngineProtocolError = ''EngineProtocolError''"
| "exn_name (PreprocessingError _) = ''PreprocessingError''"
| "exn_name ConcurrentJobUpdateError = ''ConcurrentJobUpdateError''"
| "exn_name DuplicateIdempotencyKeyError = ''DuplicateIdempotencyKeyError''"
| "exn_name FileNotFoundError = ''FileNotFoundError''"
| "exn_name (ValueError _) = ''ValueError''"
| "exn_name (RuntimeError _) = ''RuntimeError''"
| "exn_name KeyError = ''KeyError''"
| "exn_name IndexError = ''IndexError''"
| "exn_name TypeError = ''TypeError''"
| "exn_name TimeoutError = ''TimeoutError''"
| "exn_name UnboundLocalError = ''UnboundLocalError''"
| "exn_name JSONDecodeError = ''JSONDecodeError''"
| "exn_name (OSError n) = n"
| "exn_name (ResponseError n _) = n"
| "exn_name (SqlError _ _) = ''PostgresError''"
| "exn_name (OtherError n) = n"
| "exn_name CancelledError = ''CancelledError''"

text \<open>\<open>except Exception\<close> does not catch the cancellation of a task.\<close>

fun is_exception :: "exn \<Rightarrow> bool" where
  "is_exception CancelledError = False"
| "is_exception _ = True"

fun is_business_error :: "exn \<Rightarrow> bool" where
  "is_business_error (BusinessError _ _ _) = True"
| "is_business_error _ = False"

fun is_dependency_error :: "exn \<Rightarrow> bool" where
  "is_dependency_error e =
     (e \<in> {DependencyError, DatabaseUnavailableError, StorageUnavailableError,
           QueueUnavailableError, EngineError, TransientEngineError, EngineUnavailableError,
           EngineTimeoutError, EngineProtocolError})"

fun is_transient_engine_error :: "exn \<Rightarrow> bool" where
  "is_transient_engine_error e =
     (e \<in> {TransientEngineError, EngineUnavailableError, EngineTimeoutError})"

text \<open>The class attributes \<open>internal_code\<close> and \<open>error_reason\<close> of the dependency errors.\<close>

fun dep_internal_code :: "exn \<Rightarrow> internal_status_code" where
  "dep_internal_code DatabaseUnavailableError = DATABASE_UNAVAILABLE"
| "dep_internal_code StorageUnavailableError = STORAGE_UNAVAILABLE"
| "dep_internal_code QueueUnavailableError = QUEUE_UNAVAILABLE"
| "dep_internal_code EngineError = ENGINE_UNAVAILABLE"
| "dep_internal_code TransientEngineError = ENGINE_UNAVAILABLE"
| "dep_internal_code EngineUnavailableError = ENGINE_UNAVAILABLE"
| "dep_internal_code EngineTimeoutError = ENGINE_TIMEOUT"
| "dep_internal_code EngineProtocolError = ENGINE_UNAVAILABLE"
| "dep_internal_code _ = INTERNAL_CONTROLLED_ERROR"

fun dep_error_reason :: "exn \<Rightarrow> string" where
  "dep_error_reason DatabaseUnavailableError = ''database_unavailable''"
| "dep_error_reason StorageUnavailableError = ''storage_unavailable''"
| "dep_error_reason QueueUnavailableError = ''queue_unavailable''"
| "dep_error_reason EngineError = ''engine_unavailable''"
| "dep_error_reason TransientEngineError = ''engine_unavailable''"
| "dep_error_reason EngineUnavailableError = ''engine_unavailable''"
| "dep_error_reason EngineTimeoutError = ''engine_timeout''"
| "dep_error_reason EngineProtocolError = ''engine_protocol_error''"
| "dep_error_reason _ = ''dependency_unavailable''"

lemma transient_is_dependency: "is_transient_engine_error e \<Longrightarrow> is_dependency_error e"
  by auto

lemma dependency_is_exception: "is_dependency_error e \<Longrightarrow> is_exception e"
  by auto

lemma dep_reason_nonempty: "dep_error_reason e \<noteq> []"
  by (cases e) auto

lemma dep_code_not_success: "dep_internal_code e \<noteq> SUCCESS"
  by (cases e) auto

section \<open>The response envelope\<close>

record api_envelope =
  env_internal_code :: internal_status_code
  env_message :: string
  env_data :: "json option"
  env_timestamp :: int
  env_request_id :: string
  env_error_reason :: "string option"

text \<open>
  Construction runs pydantic's validation: non-empty message and request id, then the
  model validator. A failed validation raises, which is \<open>None\<close> here. The time is the clock's.
\<close>

definition envelope_semantics :: "api_envelope \<Rightarrow> bool" where
  "envelope_semantics e =
     (if env_internal_code e = SUCCESS then env_error_reason e = None
      else env_error_reason e \<noteq> None \<and> env_error_reason e \<noteq> Some [])"

definition make_envelope ::
    "int \<Rightarrow> internal_status_code \<Rightarrow> string \<Rightarrow> json option \<Rightarrow> string \<Rightarrow> string option \<Rightarrow>
     api_envelope option"
where
  "make_envelope now code message data request_id reason =
     (let e = \<lparr>env_internal_code = code, env_message = message, env_data = data,
               env_timestamp = now, env_request_id = request_id, env_error_reason = reason\<rparr>
      in if message \<noteq> [] \<and> request_id \<noteq> [] \<and> envelope_semantics e then Some e else None)"

definition envelope_success :: "int \<Rightarrow> json \<Rightarrow> string \<Rightarrow> string \<Rightarrow> api_envelope option" where
  "envelope_success now data request_id message =
     make_envelope now SUCCESS message (Some data) request_id None"

definition envelope_failure ::
    "int \<Rightarrow> internal_status_code \<Rightarrow> string \<Rightarrow> string \<Rightarrow> string \<Rightarrow> json option \<Rightarrow>
     api_envelope option"
where
  "envelope_failure now code message request_id reason data =
     make_envelope now code message data request_id (Some reason)"

lemma make_envelope_Some:
  "make_envelope now c m d r e = Some v \<Longrightarrow> envelope_semantics v \<and> env_internal_code v = c \<and> env_error_reason v = e"
  by (auto simp: make_envelope_def Let_def split: if_splits)

end
