(* ===== verification/Domain.thy ===== *)
theory Domain
  imports Errors "HOL-Library.Word"
begin

text \<open>
  The OCR domain of \<^verbatim>\<open>contexts/ocr/domain/models.py\<close>: uploads, pages, artifacts, jobs
  and job events, with the methods that change them. A dataclass is a record, an enum is a
  datatype, and a method is a function from the old object to the new one. A method that
  raises \<open>ValueError\<close> returns \<open>Inl\<close>. The model validates a precondition before any
  field is written, as the code does, so a failed call leaves the object unchanged.

  Each call of \<open>utc_now()\<close> is an argument: a method that reads the clock twice takes two
  times. Times are integers (microseconds). Identifiers are 128-bit words. Progress, a float rounded to four
  digits, is kept as an integer number of ten-thousandths, rounded half to even; the
  rounding error of the binary division before it is not modelled.
\<close>

type_synonym uuid = "128 word"
type_synonym time = int
type_synonym bytes = string

section \<open>Data\<close>

datatype upload_state = UPLOADING | COMPLETED | REJECTED

datatype job_state =
  QUEUED | PREPROCESSING | RUNNING | ASSEMBLING | CANCEL_REQUESTED | CANCELLED
| RETRYING | SUCCEEDED | FAILED

datatype page_state = P_PENDING | P_RUNNING | P_SUCCEEDED | P_FAILED

datatype artifact_kind = MARKDOWN | STRUCTURED_JSON | PAGE_IMAGE | VISUALIZATION | MANIFEST

fun upload_state_str :: "upload_state \<Rightarrow> string" where
  "upload_state_str UPLOADING = ''uploading''"
| "upload_state_str COMPLETED = ''completed''"
| "upload_state_str REJECTED = ''rejected''"

fun job_state_str :: "job_state \<Rightarrow> string" where
  "job_state_str QUEUED = ''queued''"
| "job_state_str PREPROCESSING = ''preprocessing''"
| "job_state_str RUNNING = ''running''"
| "job_state_str ASSEMBLING = ''assembling''"
| "job_state_str CANCEL_REQUESTED = ''cancel_requested''"
| "job_state_str CANCELLED = ''cancelled''"
| "job_state_str RETRYING = ''retrying''"
| "job_state_str SUCCEEDED = ''succeeded''"
| "job_state_str FAILED = ''failed''"

fun page_state_str :: "page_state \<Rightarrow> string" where
  "page_state_str P_PENDING = ''pending''"
| "page_state_str P_RUNNING = ''running''"
| "page_state_str P_SUCCEEDED = ''succeeded''"
| "page_state_str P_FAILED = ''failed''"

fun artifact_kind_str :: "artifact_kind \<Rightarrow> string" where
  "artifact_kind_str MARKDOWN = ''markdown''"
| "artifact_kind_str STRUCTURED_JSON = ''json''"
| "artifact_kind_str PAGE_IMAGE = ''page_image''"
| "artifact_kind_str VISUALIZATION = ''visualization''"
| "artifact_kind_str MANIFEST = ''manifest''"

lemma upload_state_str_inject [simp]: "upload_state_str x = upload_state_str y \<longleftrightarrow> x = y"
  by (cases x; cases y; simp)

lemma job_state_str_inject [simp]: "job_state_str x = job_state_str y \<longleftrightarrow> x = y"
  by (cases x; cases y; simp)

lemma page_state_str_inject [simp]: "page_state_str x = page_state_str y \<longleftrightarrow> x = y"
  by (cases x; cases y; simp)

lemma artifact_kind_str_inject [simp]: "artifact_kind_str x = artifact_kind_str y \<longleftrightarrow> x = y"
  by (cases x; cases y; simp)

record upload =
  upload_owner_id :: string
  upload_filename :: string
  upload_size_bytes :: int
  upload_content_type :: string
  upload_sha256 :: string
  upload_object_key :: string
  upload_id :: uuid
  upload_state :: upload_state
  upload_created_at :: time
  upload_completed_at :: "time option"
  upload_detected_content_type :: "string option"
  upload_multipart_upload_id :: "string option"

record page =
  page_number :: int
  page_input_object_key :: string
  page_state :: page_state
  page_processing_attempts :: nat
  page_markdown :: "string option"
  page_structured :: "json option"
  page_result_object_key :: "string option"
  page_result_sha256 :: "string option"
  page_visualization_object_key :: "string option"
  page_internal_code :: int
  page_error_reason :: "string option"

record artifact =
  artifact_kind :: artifact_kind
  artifact_object_key :: string
  artifact_sha256 :: string
  artifact_size_bytes :: int
  artifact_content_type :: string
  artifact_page_number :: "int option"

record job =
  job_owner_id :: string
  job_upload_id :: uuid
  job_request_id :: string
  job_options :: json
  job_id :: uuid
  job_state :: job_state
  job_attempt :: int
  job_revision :: int
  job_pages :: "page list"
  job_artifacts :: "artifact list"
  job_idempotency_key :: "string option"
  job_engine_name :: "string option"
  job_engine_version :: "string option"
  job_model_name :: "string option"
  job_internal_code :: int
  job_error_reason :: "string option"
  job_created_at :: time
  job_updated_at :: time
  job_started_at :: "time option"
  job_completed_at :: "time option"

record job_event =
  ev_job_id :: uuid
  ev_event_type :: string
  ev_state :: job_state
  ev_progress :: int
  ev_request_id :: string
  ev_payload :: "(string \<times> json) list"
  ev_sequence :: int
  ev_occurred_at :: time

section \<open>Uploads\<close>

definition upload_complete :: "time \<Rightarrow> string \<Rightarrow> upload \<Rightarrow> exn + upload" where
  "upload_complete now detected u =
     (if upload_state u \<noteq> UPLOADING then Inl (ValueError ''upload is not awaiting completion'')
      else Inr (u\<lparr>upload_state := COMPLETED, upload_detected_content_type := Some detected,
                 upload_completed_at := Some now\<rparr>))"

definition upload_reject :: "upload \<Rightarrow> upload" where
  "upload_reject u = u\<lparr>upload_state := REJECTED\<rparr>"

section \<open>Pages\<close>

definition new_page :: "int \<Rightarrow> string \<Rightarrow> page" where
  "new_page number key =
     \<lparr>page_number = number, page_input_object_key = key, page_state = P_PENDING,
      page_processing_attempts = 0, page_markdown = None, page_structured = None,
      page_result_object_key = None, page_result_sha256 = None,
      page_visualization_object_key = None, page_internal_code = 0, page_error_reason = None\<rparr>"

definition page_start :: "page \<Rightarrow> page" where
  "page_start p =
     (if page_state p = P_SUCCEEDED then p
      else p\<lparr>page_state := P_RUNNING,
             page_processing_attempts := page_processing_attempts p + 1,
             page_internal_code := 0, page_error_reason := None\<rparr>)"

definition page_succeed ::
    "string \<Rightarrow> json \<Rightarrow> string \<Rightarrow> string \<Rightarrow> string option \<Rightarrow> page \<Rightarrow> page" where
  "page_succeed markdown structured key sha vis p =
     p\<lparr>page_state := P_SUCCEEDED, page_markdown := Some markdown,
       page_structured := Some structured, page_result_object_key := Some key,
       page_result_sha256 := Some sha, page_visualization_object_key := vis,
       page_internal_code := 0, page_error_reason := None\<rparr>"

definition page_fail :: "string \<Rightarrow> int \<Rightarrow> page \<Rightarrow> page" where
  "page_fail reason code p =
     p\<lparr>page_state := P_FAILED, page_internal_code := code, page_error_reason := Some reason\<rparr>"

definition page_prepare_retry :: "page \<Rightarrow> page" where
  "page_prepare_retry p =
     (if page_state p \<noteq> P_SUCCEEDED then
        p\<lparr>page_state := P_PENDING, page_processing_attempts := 0, page_error_reason := None,
          page_markdown := None, page_structured := None, page_result_object_key := None,
          page_result_sha256 := None, page_visualization_object_key := None,
          page_internal_code := 0\<rparr>
      else p)"

section \<open>Jobs\<close>

definition new_job ::
    "string \<Rightarrow> uuid \<Rightarrow> string \<Rightarrow> json \<Rightarrow> string option \<Rightarrow> uuid \<Rightarrow> time \<Rightarrow> time \<Rightarrow> job" where
  "new_job owner up request_id options key jid created updated =
     \<lparr>job_owner_id = owner, job_upload_id = up, job_request_id = request_id,
      job_options = options, job_id = jid, job_state = QUEUED, job_attempt = 1,
      job_revision = 0, job_pages = [], job_artifacts = [], job_idempotency_key = key,
      job_engine_name = None, job_engine_version = None, job_model_name = None,
      job_internal_code = 0, job_error_reason = None, job_created_at = created,
      job_updated_at = updated, job_started_at = None, job_completed_at = None\<rparr>"

definition job_total_pages :: "job \<Rightarrow> int" where
  "job_total_pages j = int (length (job_pages j))"

definition job_completed_pages :: "job \<Rightarrow> int" where
  "job_completed_pages j = int (length (filter (\<lambda>p. page_state p = P_SUCCEEDED) (job_pages j)))"

definition round_div_half_even :: "int \<Rightarrow> int \<Rightarrow> int" where
  "round_div_half_even a b =
     (let q = a div b; r = a mod b
      in if 2 * r < b then q else if 2 * r > b then q + 1 else if even q then q else q + 1)"

definition job_progress :: "job \<Rightarrow> int" where
  "job_progress j =
     (if job_pages j = [] then 0
      else round_div_half_even (job_completed_pages j * 10000) (job_total_pages j))"

definition job_terminal :: "job \<Rightarrow> bool" where
  "job_terminal j = (job_state j \<in> {CANCELLED, SUCCEEDED, FAILED})"

definition job_transition :: "time \<Rightarrow> job_state \<Rightarrow> job_state set \<Rightarrow> job \<Rightarrow> exn + job" where
  "job_transition now target allowed j =
     (if job_state j \<notin> allowed then
        Inl (ValueError (''cannot transition job from '' @ job_state_str (job_state j) @
                         '' to '' @ job_state_str target))
      else Inr (j\<lparr>job_state := target, job_updated_at := now\<rparr>))"

definition job_begin_preprocessing :: "time \<Rightarrow> time \<Rightarrow> job \<Rightarrow> exn + job" where
  "job_begin_preprocessing t1 t2 j =
     (case job_transition t1 PREPROCESSING {QUEUED, RETRYING} j of
        Inl e \<Rightarrow> Inl e
      | Inr j' \<Rightarrow> Inr (j'\<lparr>job_started_at :=
          (case job_started_at j' of Some s \<Rightarrow> Some s | None \<Rightarrow> Some t2)\<rparr>))"

definition job_set_pages :: "time \<Rightarrow> page list \<Rightarrow> job \<Rightarrow> exn + job" where
  "job_set_pages now pages j =
     (if job_state j \<noteq> PREPROCESSING then
        Inl (ValueError ''pages may only be prepared while preprocessing'')
      else if pages = [] then Inl (ValueError ''document must contain at least one page'')
      else Inr (j\<lparr>job_pages := pages, job_updated_at := now\<rparr>))"

definition job_begin_running :: "time \<Rightarrow> job \<Rightarrow> exn + job" where
  "job_begin_running now j = job_transition now RUNNING {PREPROCESSING} j"

definition job_request_cancel :: "time \<Rightarrow> job \<Rightarrow> exn + job" where
  "job_request_cancel now j =
     job_transition now CANCEL_REQUESTED {QUEUED, PREPROCESSING, RUNNING, ASSEMBLING, RETRYING} j"

definition job_cancel :: "time \<Rightarrow> time \<Rightarrow> job \<Rightarrow> exn + job" where
  "job_cancel t1 t2 j =
     (case job_transition t1 CANCELLED {CANCEL_REQUESTED} j of
        Inl e \<Rightarrow> Inl e
      | Inr j' \<Rightarrow> Inr (j'\<lparr>job_completed_at := Some t2\<rparr>))"

definition job_begin_assembling :: "time \<Rightarrow> job \<Rightarrow> exn + job" where
  "job_begin_assembling now j = job_transition now ASSEMBLING {RUNNING} j"

definition job_succeed :: "time \<Rightarrow> time \<Rightarrow> artifact list \<Rightarrow> job \<Rightarrow> exn + job" where
  "job_succeed t1 t2 artifacts j =
     (if job_pages j = [] \<or> (\<exists>p \<in> set (job_pages j). page_state p \<noteq> P_SUCCEEDED) then
        Inl (ValueError ''all pages must be complete before job success'')
      else
        (case job_transition t1 SUCCEEDED {ASSEMBLING} j of
           Inl e \<Rightarrow> Inl e
         | Inr j' \<Rightarrow> Inr (j'\<lparr>job_artifacts := artifacts, job_completed_at := Some t2,
             job_internal_code := 0, job_error_reason := None\<rparr>)))"

definition job_fail :: "time \<Rightarrow> time \<Rightarrow> string \<Rightarrow> int \<Rightarrow> job \<Rightarrow> exn + job" where
  "job_fail t1 t2 reason code j =
     (case job_transition t1 FAILED
             {QUEUED, PREPROCESSING, RUNNING, ASSEMBLING, RETRYING, CANCEL_REQUESTED} j of
        Inl e \<Rightarrow> Inl e
      | Inr j' \<Rightarrow> Inr (j'\<lparr>job_internal_code := code, job_error_reason := Some reason,
          job_completed_at := Some t2\<rparr>))"

definition job_retry :: "time \<Rightarrow> string \<Rightarrow> job \<Rightarrow> exn + job" where
  "job_retry now request_id j =
     (case job_transition now RETRYING {FAILED, CANCELLED} j of
        Inl e \<Rightarrow> Inl e
      | Inr j' \<Rightarrow> Inr (j'\<lparr>job_attempt := job_attempt j' + 1, job_request_id := request_id,
          job_internal_code := 0, job_error_reason := None, job_started_at := None,
          job_completed_at := None, job_artifacts := [],
          job_pages := map page_prepare_retry (job_pages j')\<rparr>))"

definition event_with_sequence :: "int \<Rightarrow> job_event \<Rightarrow> job_event" where
  "event_with_sequence n ev = ev\<lparr>ev_sequence := n\<rparr>"

end
