(* ===== verification/Ports.thy ===== *)
theory Ports
  imports Domain
begin

text \<open>
  The interfaces of \<^verbatim>\<open>application/ports.py\<close>. A \<open>Protocol\<close> with its async methods becomes
  the fields of one record of programs over a world \<open>'w\<close>: the service and the worker take that
  record as the code takes the adapters in its constructor, and run on every
  implementation of it. A method that updates its argument in place, as a save does with the
  revision of the job, also returns the updated object.

  The clock, the identifier supply and the digest function of the standard library are
  fields of the same record.
\<close>

type_synonym ('w, 'a) op = "('w, exn, 'a) prog"

section \<open>Values exchanged with the adapters\<close>

record upload_target =
  target_url :: string
  target_method :: string
  target_headers :: "(string \<times> string) list"
  target_upload_id :: "string option"
  target_part_size_bytes :: "int option"
  target_part_urls :: "(int \<times> string) list"

record object_info =
  info_object_key :: string
  info_size_bytes :: int
  info_sha256 :: "string option"
  info_content_type :: string

record stored_object =
  stored_object_key :: string
  stored_size_bytes :: int
  stored_sha256 :: string
  stored_content_type :: string

record prepared_page =
  prepared_page_number :: int
  prepared_object_key :: string

record ocr_result =
  result_markdown :: string
  result_structured :: "(string \<times> json) list"
  result_visualization :: "bytes option"
  result_visualization_content_type :: string
  result_engine_metadata :: "(string \<times> json) list"

record job_work_message =
  msg_job_id :: uuid
  msg_attempt :: int
  msg_request_id :: string
  msg_schema_version :: int

record outbox_event =
  ob_aggregate_id :: uuid
  ob_event_type :: string
  ob_payload :: "(string \<times> json) list"
  ob_request_id :: string
  ob_id :: uuid
  ob_created_at :: time
  ob_published_at :: "time option"

datatype aggregate_kind = AGG_JOB | AGG_UPLOAD

record retention_candidate =
  cand_aggregate_kind :: aggregate_kind
  cand_aggregate_id :: uuid
  cand_claim_token :: uuid
  cand_object_keys :: "string list"
  cand_multipart_upload_id :: "string option"

section \<open>The adapters\<close>

record 'w ports =
  p_utc_now :: "('w, time) op"
  p_uuid7 :: "('w, uuid) op"
  p_sha256 :: "bytes \<Rightarrow> string"
  p_uploads_add :: "upload \<Rightarrow> ('w, unit) op"
  p_uploads_get :: "uuid \<Rightarrow> ('w, upload option) op"
  p_uploads_save :: "upload \<Rightarrow> ('w, unit) op"
  p_jobs_get :: "uuid \<Rightarrow> ('w, job option) op"
  p_jobs_save_with_event :: "job \<Rightarrow> job_event \<Rightarrow> ('w, job_event \<times> job) op"
  p_jobs_find_by_idempotency_key :: "string \<Rightarrow> string \<Rightarrow> ('w, job option) op"
  p_jobs_list :: "string \<Rightarrow> nat \<Rightarrow> nat \<Rightarrow> ('w, job list \<times> int) op"
  p_jobs_add_with_outbox_and_event ::
    "job \<Rightarrow> outbox_event \<Rightarrow> job_event \<Rightarrow> ('w, job_event) op"
  p_jobs_save_with_outbox_and_event ::
    "job \<Rightarrow> outbox_event \<Rightarrow> job_event \<Rightarrow> ('w, job_event \<times> job) op"
  p_events_append :: "job_event \<Rightarrow> ('w, job_event) op"
  p_events_list_after :: "uuid \<Rightarrow> int \<Rightarrow> ('w, job_event list) op"
  p_outbox_pending :: "nat \<Rightarrow> ('w, outbox_event list) op"
  p_outbox_mark_published :: "uuid \<Rightarrow> ('w, unit) op"
  p_storage_create_upload_target ::
    "string \<Rightarrow> string \<Rightarrow> int \<Rightarrow> string \<Rightarrow> ('w, upload_target) op"
  p_storage_stat :: "string \<Rightarrow> ('w, object_info option) op"
  p_storage_complete_upload :: "string \<Rightarrow> string option \<Rightarrow> (int \<times> string) list \<Rightarrow> ('w, unit) op"
  p_storage_get_bytes :: "string \<Rightarrow> ('w, bytes) op"
  p_storage_put_bytes :: "string \<Rightarrow> bytes \<Rightarrow> string \<Rightarrow> ('w, stored_object) op"
  p_storage_create_download_url :: "string \<Rightarrow> ('w, string) op"
  p_validator_validate :: "upload \<Rightarrow> bytes \<Rightarrow> ('w, string) op"
  p_preprocessor_prepare :: "upload \<Rightarrow> job \<Rightarrow> ('w, prepared_page list) op"
  p_engine_recognize :: "bytes \<Rightarrow> int \<Rightarrow> json \<Rightarrow> string \<Rightarrow> ('w, ocr_result) op"
  p_publisher_publish :: "job_work_message \<Rightarrow> ('w, unit) op"
  p_logger_info :: "string \<Rightarrow> (string \<times> json) list \<Rightarrow> ('w, unit) op"
  p_logger_error :: "string \<Rightarrow> (string \<times> json) list \<Rightarrow> ('w, unit) op"
  p_sleeper :: "int \<Rightarrow> ('w, unit) op"

section \<open>Wrapping adapter failures\<close>

text \<open>
  The application layer lets its own exceptions through and turns every other
  \<open>Exception\<close> of an adapter into a dependency error. The worker and the service differ in
  the classes they let through.
\<close>

definition worker_database :: "('w, 'a) op \<Rightarrow> ('w, 'a) op" where
  "worker_database m = catch_prog m (\<lambda>e.
     if e = ConcurrentJobUpdateError \<or> is_dependency_error e then raise_exc e
     else if is_exception e then raise_exc DatabaseUnavailableError
     else raise_exc e)"

definition worker_storage :: "('w, 'a) op \<Rightarrow> ('w, 'a) op" where
  "worker_storage m = catch_prog m (\<lambda>e.
     if is_dependency_error e \<or> e = FileNotFoundError then raise_exc e
     else if is_exception e then raise_exc StorageUnavailableError
     else raise_exc e)"

definition service_database :: "('w, 'a) op \<Rightarrow> ('w, 'a) op" where
  "service_database m = catch_prog m (\<lambda>e.
     if is_business_error e \<or> e = ConcurrentJobUpdateError \<or> is_dependency_error e
        \<or> e = DuplicateIdempotencyKeyError then raise_exc e
     else if is_exception e then raise_exc DatabaseUnavailableError
     else raise_exc e)"

definition service_storage :: "('w, 'a) op \<Rightarrow> ('w, 'a) op" where
  "service_storage m = catch_prog m (\<lambda>e.
     if is_business_error e \<or> is_dependency_error e \<or> e = FileNotFoundError then raise_exc e
     else if is_exception e then raise_exc StorageUnavailableError
     else raise_exc e)"

lemmas wrapper_defs =
  worker_database_def worker_storage_def service_database_def service_storage_def

lemma wrapper_Done:
  assumes "m w = (Done x, w')"
  shows "worker_database m w = (Done x, w')" "worker_storage m w = (Done x, w')"
    "service_database m w = (Done x, w')" "service_storage m w = (Done x, w')"
  using assms by (simp_all add: wrapper_defs catch_Done)

lemma worker_database_Raised:
  assumes "m w = (Raised e, w')"
  shows "worker_database m w =
    (Raised (if e = ConcurrentJobUpdateError \<or> is_dependency_error e \<or> \<not> is_exception e
             then e else DatabaseUnavailableError), w')"
  using assms by (auto simp: worker_database_def catch_Raised simp del: is_dependency_error.simps)

lemma service_database_Raised:
  assumes "m w = (Raised e, w')"
  shows "service_database m w =
    (Raised (if is_business_error e \<or> e = ConcurrentJobUpdateError \<or> is_dependency_error e
                \<or> e = DuplicateIdempotencyKeyError \<or> \<not> is_exception e
             then e else DatabaseUnavailableError), w')"
  using assms by (auto simp: service_database_def catch_Raised simp del: is_dependency_error.simps)

lemma catch_reraise:
  assumes "\<And>e. \<exists>f. h e = raise_exc f"
  shows "snd (catch_prog m h w) = snd (m w)"
proof (cases "m w")
  case (Pair r w')
  show ?thesis
  proof (cases r)
    case (Raised e)
    obtain f where "h e = raise_exc f" using assms by blast
    with Pair Raised show ?thesis by (simp add: catch_prog_def)
  qed (simp_all add: catch_prog_def Pair)
qed

lemma catch_reraise_returns:
  assumes "\<And>e. \<exists>f. h e = raise_exc f"
  shows "fst (catch_prog m h w) = Diverged \<longleftrightarrow> fst (m w) = Diverged"
proof (cases "m w")
  case (Pair r w')
  show ?thesis
  proof (cases r)
    case (Raised e)
    obtain f where "h e = raise_exc f" using assms by blast
    with Pair Raised show ?thesis by (simp add: catch_prog_def)
  qed (simp_all add: catch_prog_def Pair)
qed

lemma service_database_returns: "fst (service_database m w) = Diverged \<longleftrightarrow> fst (m w) = Diverged"
  unfolding service_database_def by (rule catch_reraise_returns) metis

lemma wrapper_world:
  "snd (worker_database m w) = snd (m w)" "snd (worker_storage m w) = snd (m w)"
  "snd (service_database m w) = snd (m w)" "snd (service_storage m w) = snd (m w)"
  unfolding wrapper_defs by (rule catch_reraise; metis)+

text \<open>A wrapper changes neither the world nor a result: it only renames exceptions.\<close>

lemma triple_wrapper:
  assumes refl: "\<And>w. R w w" and tr: "\<And>u v w. R u v \<Longrightarrow> R v w \<Longrightarrow> R u w"
    and m: "triple R P m Q (\<lambda>_. E)"
  shows "triple R P (worker_database m) Q (\<lambda>_. E)" "triple R P (worker_storage m) Q (\<lambda>_. E)"
    "triple R P (service_database m) Q (\<lambda>_. E)" "triple R P (service_storage m) Q (\<lambda>_. E)"
  unfolding wrapper_defs
  by (rule triple_catch [OF tr m]; auto intro!: triple_raise refl)+

end
