(* ===== verification/Codec.thy ===== *)
theory Codec
  imports Domain
begin

text \<open>
  The text forms the backend relies on: decimal integers, zero-padded page numbers, the
  canonical text of a UUID, and the JSON of \<open>json.dumps(..., separators=(",", ":"))\<close> with
  \<open>json.loads\<close>. The reader keeps the text of a float; the reader of \<open>\u\<close> escapes encodes
  each code unit on its own, so a surrogate pair is not joined. \<open>UUID(text)\<close> accepts what the
  library accepts up to the lenient spellings of \<open>int(text, 16)\<close> (underscores, sign, blanks).
\<close>

section \<open>Integers\<close>

definition digit_char :: "nat \<Rightarrow> char" where
  "digit_char d = ''0123456789abcdef'' ! d"

fun str_nat :: "nat \<Rightarrow> string" where
  "str_nat n = (if n < 10 then [digit_char n] else str_nat (n div 10) @ [digit_char (n mod 10)])"

declare str_nat.simps [simp del]

definition str_int :: "int \<Rightarrow> string" where
  "str_int i = (if i < 0 then CHR ''-'' # str_nat (nat (- i)) else str_nat (nat i))"

text \<open>\<open>f"{number:06d}"\<close>: the sign counts towards the width.\<close>

definition pad_zeros :: "nat \<Rightarrow> string \<Rightarrow> string" where
  "pad_zeros k s = replicate (k - length s) CHR ''0'' @ s"

definition fmt06d :: "int \<Rightarrow> string" where
  "fmt06d i = (if i < 0 then CHR ''-'' # pad_zeros 5 (str_nat (nat (- i)))
               else pad_zeros 6 (str_nat (nat i)))"

definition char_digit :: "char \<Rightarrow> nat option" where
  "char_digit c = (let n = (of_char c :: nat) in
     if 48 \<le> n \<and> n \<le> 57 then Some (n - 48)
     else if 97 \<le> n \<and> n \<le> 102 then Some (n - 87)
     else if 65 \<le> n \<and> n \<le> 70 then Some (n - 55) else None)"

definition is_digit :: "char \<Rightarrow> bool" where
  "is_digit c = (48 \<le> (of_char c :: nat) \<and> (of_char c :: nat) \<le> 57)"

definition digit_value :: "char \<Rightarrow> nat" where
  "digit_value c = of_char c - 48"

fun digits_value :: "nat \<Rightarrow> string \<Rightarrow> nat" where
  "digits_value acc [] = acc"
| "digits_value acc (c # cs) = digits_value (acc * 10 + digit_value c) cs"

section \<open>UUIDs\<close>

fun hex_fixed :: "nat \<Rightarrow> nat \<Rightarrow> string" where
  "hex_fixed 0 n = []"
| "hex_fixed (Suc k) n = hex_fixed k (n div 16) @ [digit_char (n mod 16)]"

definition uuid_str :: "uuid \<Rightarrow> string" where
  "uuid_str u =
     (let h = hex_fixed 32 (unat u)
      in take 8 h @ ''-'' @ take 4 (drop 8 h) @ ''-'' @ take 4 (drop 12 h) @ ''-'' @
         take 4 (drop 16 h) @ ''-'' @ drop 20 h)"

fun starts_with :: "string \<Rightarrow> string \<Rightarrow> bool" where
  "starts_with [] s = True"
| "starts_with (p # ps) [] = False"
| "starts_with (p # ps) (c # cs) = (p = c \<and> starts_with ps cs)"

text \<open>\<open>s.replace(pat, "")\<close> for a non-empty pattern; the counter skips the matched text.\<close>

fun remove_all_from :: "nat \<Rightarrow> string \<Rightarrow> string \<Rightarrow> string" where
  "remove_all_from k pat [] = []"
| "remove_all_from (Suc k) pat (c # cs) = remove_all_from k pat cs"
| "remove_all_from 0 pat (c # cs) =
     (if starts_with pat (c # cs) then remove_all_from (length pat - 1) pat cs
      else c # remove_all_from 0 pat cs)"

definition strip_chars :: "string \<Rightarrow> string \<Rightarrow> string" where
  "strip_chars cs s =
     rev (dropWhile (\<lambda>c. c \<in> set cs) (rev (dropWhile (\<lambda>c. c \<in> set cs) s)))"

fun hex_value :: "nat \<Rightarrow> string \<Rightarrow> nat option" where
  "hex_value acc [] = Some acc"
| "hex_value acc (c # cs) =
     (case char_digit c of None \<Rightarrow> None | Some d \<Rightarrow> hex_value (acc * 16 + d) cs)"

definition uuid_parse :: "string \<Rightarrow> uuid option" where
  "uuid_parse s =
     (let h = remove_all_from 0 ''-''
                (strip_chars ''{}'' (remove_all_from 0 ''uuid:'' (remove_all_from 0 ''urn:'' s)))
      in if length h \<noteq> 32 then None else map_option of_nat (hex_value 0 h))"

section \<open>Text of Python values and times\<close>

definition to_lower :: "char \<Rightarrow> char" where
  "to_lower c = (let n = (of_char c :: nat) in if 65 \<le> n \<and> n \<le> 90 then char_of (n + 32) else c)"

definition is_upper :: "char \<Rightarrow> bool" where
  "is_upper c = (65 \<le> (of_char c :: nat) \<and> (of_char c :: nat) \<le> 90)"

definition py_space :: "char \<Rightarrow> bool" where
  "py_space c = (let n = (of_char c :: nat) in n = 32 \<or> (9 \<le> n \<and> n \<le> 13) \<or> (28 \<le> n \<and> n \<le> 31))"

definition py_strip :: "string \<Rightarrow> string" where
  "py_strip s = rev (dropWhile py_space (rev (dropWhile py_space s)))"

definition remove_suffix :: "string \<Rightarrow> string \<Rightarrow> string" where
  "remove_suffix suf s =
     (if suf \<noteq> [] \<and> starts_with (rev suf) (rev s) then take (length s - length suf) s else s)"

definition repr_char :: "char \<Rightarrow> char \<Rightarrow> string" where
  "repr_char q c =
     (if c = q \<or> c = CHR 0x5C then [CHR 0x5C, c]
      else if c = CHR 0x0A then [CHR 0x5C, CHR ''n'']
      else if c = CHR 0x0D then [CHR 0x5C, CHR ''r'']
      else if c = CHR 0x09 then [CHR 0x5C, CHR ''t'']
      else if (of_char c :: nat) < 32 \<or> c = CHR 0x7F
        then [CHR 0x5C, CHR ''x''] @ hex_fixed 2 (of_char c)
      else [c])"

definition repr_str :: "string \<Rightarrow> string" where
  "repr_str s =
     (let q = (if CHR 0x27 \<in> set s \<and> CHR 0x22 \<notin> set s then CHR 0x22 else CHR 0x27)
      in [q] @ concat (map (repr_char q) s) @ [q])"

fun py_repr :: "json \<Rightarrow> string"
  and py_repr_items :: "json list \<Rightarrow> string"
  and py_repr_members :: "(string \<times> json) list \<Rightarrow> string" where
  "py_repr JNull = ''None''"
| "py_repr (JBool b) = (if b then ''True'' else ''False'')"
| "py_repr (JInt i) = str_int i"
| "py_repr (JFloat s) = s"
| "py_repr (JStr s) = repr_str s"
| "py_repr (JList xs) = ''['' @ py_repr_items xs @ '']''"
| "py_repr (JDict kvs) = ''{'' @ py_repr_members kvs @ ''}''"
| "py_repr_items [] = []"
| "py_repr_items [x] = py_repr x"
| "py_repr_items (x # y # xs) = py_repr x @ '', '' @ py_repr_items (y # xs)"
| "py_repr_members [] = []"
| "py_repr_members [(k, v)] = repr_str k @ '': '' @ py_repr v"
| "py_repr_members ((k, v) # m # kvs) =
     repr_str k @ '': '' @ py_repr v @ '', '' @ py_repr_members (m # kvs)"

text \<open>\<open>str(value)\<close>.\<close>

fun py_str :: "json \<Rightarrow> string" where
  "py_str (JStr s) = s"
| "py_str v = py_repr v"

text \<open>
  \<open>datetime.isoformat()\<close> of a UTC time in microseconds: the civil date of a day number
  (400-year eras), the time of day, the microseconds when they are not zero.
\<close>

definition civil_from_days :: "int \<Rightarrow> int \<times> int \<times> int" where
  "civil_from_days days =
     (let z = days + 719468; era = z div 146097; doe = z mod 146097;
          yoe = (doe - doe div 1460 + doe div 36524 - doe div 146096) div 365;
          doy = doe - (365 * yoe + yoe div 4 - yoe div 100);
          mp = (5 * doy + 2) div 153; d = doy - (153 * mp + 2) div 5 + 1;
          m = (if mp < 10 then mp + 3 else mp - 9)
      in (yoe + era * 400 + (if m \<le> 2 then 1 else 0), m, d))"

definition pad_int :: "nat \<Rightarrow> int \<Rightarrow> string" where
  "pad_int k i = pad_zeros k (str_int i)"

definition isoformat :: "time \<Rightarrow> string" where
  "isoformat t =
     (let (y, m, d) = civil_from_days (t div 86400000000); us = t mod 86400000000; s = us div 1000000
      in pad_int 4 y @ ''-'' @ pad_int 2 m @ ''-'' @ pad_int 2 d @ ''T'' @
         pad_int 2 (s div 3600) @ '':'' @ pad_int 2 (s div 60 mod 60) @ '':'' @ pad_int 2 (s mod 60) @
         (if us mod 1000000 = 0 then [] else ''.'' @ pad_int 6 (us mod 1000000)) @ ''+00:00'')"

section \<open>Writing JSON\<close>

definition hex4 :: "nat \<Rightarrow> string" where
  "hex4 n = hex_fixed 4 n"

definition json_escape_char :: "char \<Rightarrow> string" where
  "json_escape_char c =
     (if c = CHR 0x22 then [CHR 0x5C, CHR 0x22]
      else if c = CHR 0x5C then [CHR 0x5C, CHR 0x5C]
      else if c = CHR 0x0A then [CHR 0x5C, CHR ''n'']
      else if c = CHR 0x0D then [CHR 0x5C, CHR ''r'']
      else if c = CHR 0x09 then [CHR 0x5C, CHR ''t'']
      else if c = CHR 0x0C then [CHR 0x5C, CHR ''f'']
      else if c = CHR 0x08 then [CHR 0x5C, CHR ''b'']
      else if (of_char c :: nat) < 32 then [CHR 0x5C, CHR ''u''] @ hex4 (of_char c)
      else [c])"

definition json_string :: "string \<Rightarrow> string" where
  "json_string s = [CHR 0x22] @ concat (map json_escape_char s) @ [CHR 0x22]"

fun dumps :: "json \<Rightarrow> string"
  and dumps_items :: "json list \<Rightarrow> string"
  and dumps_members :: "(string \<times> json) list \<Rightarrow> string" where
  "dumps JNull = ''null''"
| "dumps (JBool b) = (if b then ''true'' else ''false'')"
| "dumps (JInt i) = str_int i"
| "dumps (JFloat s) = s"
| "dumps (JStr s) = json_string s"
| "dumps (JList xs) = ''['' @ dumps_items xs @ '']''"
| "dumps (JDict kvs) = ''{'' @ dumps_members kvs @ ''}''"
| "dumps_items [] = []"
| "dumps_items [x] = dumps x"
| "dumps_items (x # y # xs) = dumps x @ '','' @ dumps_items (y # xs)"
| "dumps_members [] = []"
| "dumps_members [(k, v)] = json_string k @ '':'' @ dumps v"
| "dumps_members ((k, v) # m # kvs) = json_string k @ '':'' @ dumps v @ '','' @ dumps_members (m # kvs)"

section \<open>Reading JSON\<close>

definition is_ws :: "char \<Rightarrow> bool" where
  "is_ws c = (c = CHR 0x20 \<or> c = CHR 0x09 \<or> c = CHR 0x0A \<or> c = CHR 0x0D)"

definition skip_ws :: "string \<Rightarrow> string" where
  "skip_ws s = dropWhile is_ws s"

definition utf8_of_unit :: "nat \<Rightarrow> string" where
  "utf8_of_unit n =
     (if n < 128 then [char_of n]
      else if n < 2048 then [char_of (192 + n div 64), char_of (128 + n mod 64)]
      else [char_of (224 + n div 4096), char_of (128 + n div 64 mod 64), char_of (128 + n mod 64)])"

text \<open>The characters after the opening quote, up to and including the closing one.\<close>

fun read_string :: "string \<Rightarrow> (string \<times> string) option" where
  "read_string [] = None"
| "read_string (c # cs) =
     (if c = CHR 0x22 then Some ([], cs)
      else if c = CHR 0x5C then
        (case cs of
           [] \<Rightarrow> None
         | e # r \<Rightarrow>
             (if e = CHR ''u'' then
                (case r of
                   h1 # h2 # h3 # h4 # r' \<Rightarrow>
                     (case hex_value 0 [h1, h2, h3, h4] of
                        None \<Rightarrow> None
                      | Some n \<Rightarrow> map_option (\<lambda>(s, t). (utf8_of_unit n @ s, t)) (read_string r'))
                 | _ \<Rightarrow> None)
              else
                (case map_of [(CHR 0x22, CHR 0x22), (CHR 0x5C, CHR 0x5C), (CHR ''/'', CHR ''/''),
                              (CHR ''b'', CHR 0x08), (CHR ''f'', CHR 0x0C), (CHR ''n'', CHR 0x0A),
                              (CHR ''r'', CHR 0x0D), (CHR ''t'', CHR 0x09)] e of
                   None \<Rightarrow> None
                 | Some x \<Rightarrow> map_option (\<lambda>(s, t). (x # s, t)) (read_string r))))
      else if (of_char c :: nat) < 32 then None
      else map_option (\<lambda>(s, t). (c # s, t)) (read_string cs))"

definition is_num_char :: "char \<Rightarrow> bool" where
  "is_num_char c = (is_digit c \<or> c \<in> set ''+-.eE'')"

text \<open>A number token: an integer part, then an optional fraction and an optional exponent.\<close>

definition int_part_ok :: "string \<Rightarrow> bool" where
  "int_part_ok ds = (ds \<noteq> [] \<and> (hd ds = CHR ''0'' \<longrightarrow> length ds = 1))"

definition drop_sign :: "string \<Rightarrow> string" where
  "drop_sign s = (case s of [] \<Rightarrow> [] | c # r \<Rightarrow> if c \<in> set ''+-'' then r else s)"

definition exponent_ok :: "string \<Rightarrow> bool" where
  "exponent_ok s =
     (case s of [] \<Rightarrow> True
      | c # r \<Rightarrow> c \<in> set ''eE'' \<and> drop_sign r \<noteq> [] \<and> list_all is_digit (drop_sign r))"

definition fraction_ok :: "string \<Rightarrow> bool" where
  "fraction_ok s =
     (case s of [] \<Rightarrow> False
      | c # r \<Rightarrow>
          (if c = CHR ''.'' then
             takeWhile is_digit r \<noteq> [] \<and> exponent_ok (dropWhile is_digit r)
           else exponent_ok s))"

definition minus_split :: "string \<Rightarrow> bool \<times> string" where
  "minus_split s = (case s of [] \<Rightarrow> (False, []) | c # r \<Rightarrow> if c = CHR ''-'' then (True, r) else (False, s))"

definition int_token :: "string \<Rightarrow> int option" where
  "int_token s =
     (let (neg, ds) = minus_split s
      in if int_part_ok ds \<and> list_all is_digit ds
         then Some (if neg then - int (digits_value 0 ds) else int (digits_value 0 ds)) else None)"

definition float_token :: "string \<Rightarrow> bool" where
  "float_token s =
     (let (neg, r) = minus_split s
      in int_part_ok (takeWhile is_digit r) \<and> fraction_ok (dropWhile is_digit r))"

definition read_number :: "string \<Rightarrow> (json \<times> string) option" where
  "read_number s =
     (let t = takeWhile is_num_char s; r = dropWhile is_num_char s
      in case int_token t of
           Some i \<Rightarrow> Some (JInt i, r)
         | None \<Rightarrow> if float_token t then Some (JFloat t, r) else None)"

definition read_literal :: "string \<Rightarrow> (json \<times> string) option" where
  "read_literal s =
     (if starts_with ''null'' s then Some (JNull, drop 4 s)
      else if starts_with ''true'' s then Some (JBool True, drop 4 s)
      else if starts_with ''false'' s then Some (JBool False, drop 5 s)
      else if starts_with ''NaN'' s then Some (JFloat ''NaN'', drop 3 s)
      else if starts_with ''Infinity'' s then Some (JFloat ''Infinity'', drop 8 s)
      else if starts_with ''-Infinity'' s then Some (JFloat ''-Infinity'', drop 9 s)
      else None)"

text \<open>
  Nested values are read with fuel; every level and every element spends one unit and
  consumes a character, so the length of the text is enough (\<open>loads\<close>).
\<close>

fun read_value :: "nat \<Rightarrow> string \<Rightarrow> (json \<times> string) option"
  and read_items :: "nat \<Rightarrow> string \<Rightarrow> (json list \<times> string) option"
  and read_members :: "nat \<Rightarrow> string \<Rightarrow> ((string \<times> json) list \<times> string) option" where
  "read_value 0 s = None"
| "read_value (Suc n) s =
     (case skip_ws s of
        [] \<Rightarrow> None
      | c # r \<Rightarrow>
          (if c = CHR 0x22 then map_option (\<lambda>(x, t). (JStr x, t)) (read_string r)
           else if c = CHR ''['' then
             (case skip_ws r of
                [] \<Rightarrow> None
              | d # r' \<Rightarrow>
                  (if d = CHR '']'' then Some (JList [], r')
                   else map_option (\<lambda>(xs, t). (JList xs, t)) (read_items n (d # r'))))
           else if c = CHR ''{'' then
             (case skip_ws r of
                [] \<Rightarrow> None
              | d # r' \<Rightarrow>
                  (if d = CHR ''}'' then Some (JDict [], r')
                   else map_option (\<lambda>(kvs, t). (JDict (fold (\<lambda>(k, v). AList.update k v) kvs []), t))
                          (read_members n (d # r'))))
           else if is_digit c \<or> (c = CHR ''-'' \<and> \<not> starts_with ''-Infinity'' (c # r))
             then read_number (c # r)
           else read_literal (c # r)))"
| "read_items 0 s = None"
| "read_items (Suc n) s =
     (case read_value n s of
        None \<Rightarrow> None
      | Some (v, t) \<Rightarrow>
          (case skip_ws t of
             [] \<Rightarrow> None
           | c # r \<Rightarrow>
               (if c = CHR '']'' then Some ([v], r)
                else if c = CHR '','' then map_option (\<lambda>(vs, u). (v # vs, u)) (read_items n r)
                else None)))"
| "read_members 0 s = None"
| "read_members (Suc n) s =
     (case skip_ws s of
        [] \<Rightarrow> None
      | q # r0 \<Rightarrow>
          (if q \<noteq> CHR 0x22 then None
           else
             (case read_string r0 of
                None \<Rightarrow> None
              | Some (k, t0) \<Rightarrow>
                  (case skip_ws t0 of
                     [] \<Rightarrow> None
                   | d # r1 \<Rightarrow>
                       (if d \<noteq> CHR '':'' then None
                        else
                          (case read_value n r1 of
                             None \<Rightarrow> None
                           | Some (v, t) \<Rightarrow>
                               (case skip_ws t of
                                  [] \<Rightarrow> None
                                | c # r \<Rightarrow>
                                    (if c = CHR ''}'' then Some ([(k, v)], r)
                                     else if c = CHR '','' then
                                       map_option (\<lambda>(kvs, u). ((k, v) # kvs, u)) (read_members n r)
                                     else None))))))))"

definition loads :: "string \<Rightarrow> json option" where
  "loads s =
     (case read_value (Suc (length s)) s of
        None \<Rightarrow> None
      | Some (v, t) \<Rightarrow> if skip_ws t = [] then Some v else None)"

end
