(* ===== verification/Memory.thy ===== *)
theory Memory
  imports Ports Codec
begin

text \<open>
  The in-memory adapters of \<^verbatim>\<open>infrastructure/memory.py\<close> over one world \<open>mem\<close>: a dict is an
  association list in insertion order, or, when it files objects under their own identifier, the
  list of the objects; an append a list that grows at its end. A deep copy is
  the value itself. Each method runs under its lock, so it is one step. The fields after the log
  are the standard library's clock and identifier supply and the calls that the fake engine and
  the injected sleeper count.
\<close>

record mem =
  m_uploads :: "upload list"
  m_jobs :: "job list"
  m_events_configured :: bool
  m_events :: "(uuid \<times> job_event list) list"
  m_outbox :: "outbox_event list"
  m_objects :: "(string \<times> bytes \<times> string \<times> string) list"
  m_published :: "job_work_message list"
  m_log :: "(string \<times> json) list list"
  m_clock :: time
  m_next_id :: nat
  m_engine_calls :: nat
  m_sleeps :: "int list"

type_synonym 'a mop = "(mem, 'a) op"

definition empty_mem :: mem where
  "empty_mem = \<lparr>m_uploads = [], m_jobs = [], m_events_configured = True, m_events = [],
     m_outbox = [], m_objects = [], m_published = [], m_log = [], m_clock = 0, m_next_id = 1,
     m_engine_calls = 0, m_sleeps = []\<rparr>"

section \<open>Uploads\<close>

definition mem_uploads_add :: "upload \<Rightarrow> unit mop" where
  "mem_uploads_add u w =
     (if lookup_by upload_id (m_uploads w) (upload_id u) \<noteq> None then (Raised (ValueError ''duplicate upload''), w)
      else (Done (), w\<lparr>m_uploads := update_by upload_id u (m_uploads w)\<rparr>))"

definition mem_uploads_get :: "uuid \<Rightarrow> upload option mop" where
  "mem_uploads_get uid w = (Done (lookup_by upload_id (m_uploads w) uid), w)"

definition mem_uploads_save :: "upload \<Rightarrow> unit mop" where
  "mem_uploads_save u w =
     (if lookup_by upload_id (m_uploads w) (upload_id u) = None then (Raised (ValueError ''upload not found''), w)
      else (Done (), w\<lparr>m_uploads := update_by upload_id u (m_uploads w)\<rparr>))"

section \<open>Events\<close>

definition terminal_event_types :: "string list" where
  "terminal_event_types = [''job.cancelled'', ''job.failed'', ''job.succeeded'']"

definition events_of :: "mem \<Rightarrow> uuid \<Rightarrow> job_event list" where
  "events_of w jid = (case map_of (m_events w) jid of Some evs \<Rightarrow> evs | None \<Rightarrow> [])"

definition event_attempt :: "job_event \<Rightarrow> json option" where
  "event_attempt ev = map_of (ev_payload ev) ''attempt''"

text \<open>A terminal event of an attempt is stored once; the stored one is returned again.\<close>

definition find_terminal :: "job_event \<Rightarrow> job_event list \<Rightarrow> job_event option" where
  "find_terminal ev evs =
     (if ev_event_type ev \<in> set terminal_event_types
      then find (\<lambda>x. ev_event_type x = ev_event_type ev \<and> event_attempt x = event_attempt ev) evs
      else None)"

definition mem_events_append :: "job_event \<Rightarrow> job_event mop" where
  "mem_events_append ev w =
     (let evs = events_of w (ev_job_id ev)
      in case find_terminal ev evs of
           Some existing \<Rightarrow> (Done existing, w)
         | None \<Rightarrow>
             (let stored = event_with_sequence (int (length evs) + 1) ev
              in (Done stored,
                  w\<lparr>m_events := AList.update (ev_job_id ev) (evs @ [stored]) (m_events w)\<rparr>)))"

definition mem_events_list_after :: "uuid \<Rightarrow> int \<Rightarrow> job_event list mop" where
  "mem_events_list_after jid n w = (Done (filter (\<lambda>ev. n < ev_sequence ev) (events_of w jid)), w)"

section \<open>Jobs\<close>

definition truthy_str :: "string option \<Rightarrow> bool" where
  "truthy_str s \<longleftrightarrow> (case s of Some x \<Rightarrow> x \<noteq> [] | None \<Rightarrow> False)"

definition mem_jobs_add :: "job \<Rightarrow> unit mop" where
  "mem_jobs_add j w =
     (if lookup_by job_id (m_jobs w) (job_id j) \<noteq> None then (Raised (ValueError ''duplicate job''), w)
      else if truthy_str (job_idempotency_key j) \<and>
        list_ex (\<lambda>k. job_owner_id k = job_owner_id j \<and>
          job_idempotency_key k = job_idempotency_key j) (m_jobs w)
      then (Raised DuplicateIdempotencyKeyError, w)
      else (Done (), w\<lparr>m_jobs := update_by job_id j (m_jobs w)\<rparr>))"

definition mem_jobs_get :: "uuid \<Rightarrow> job option mop" where
  "mem_jobs_get jid w = (Done (lookup_by job_id (m_jobs w) jid), w)"

definition mem_jobs_save :: "job \<Rightarrow> job mop" where
  "mem_jobs_save j w =
     (case lookup_by job_id (m_jobs w) (job_id j) of
        None \<Rightarrow> (Raised (ValueError ''job not found''), w)
      | Some stored \<Rightarrow>
          if job_revision stored \<noteq> job_revision j then (Raised ConcurrentJobUpdateError, w)
          else
            (let j' = j\<lparr>job_revision := job_revision j + 1\<rparr>
             in (Done j', w\<lparr>m_jobs := update_by job_id j' (m_jobs w)\<rparr>)))"

text \<open>The candidate is stored before the event is appended and taken back if that raises.\<close>

definition mem_jobs_save_with_event :: "job \<Rightarrow> job_event \<Rightarrow> (job_event \<times> job) mop" where
  "mem_jobs_save_with_event j ev w =
     (if \<not> m_events_configured w
      then (Raised (RuntimeError ''job event repository is not configured''), w)
      else
        (case lookup_by job_id (m_jobs w) (job_id j) of
           None \<Rightarrow> (Raised (ValueError ''job not found''), w)
         | Some stored \<Rightarrow>
             if job_revision stored \<noteq> job_revision j then (Raised ConcurrentJobUpdateError, w)
             else
               (let candidate = j\<lparr>job_revision := job_revision j + 1\<rparr>;
                    store = (\<lambda>x v. v\<lparr>m_jobs := update_by job_id x (m_jobs v)\<rparr>)
                in case mem_events_append ev (store candidate w) of
                     (Done saved, w1) \<Rightarrow> (Done (saved, candidate), w1)
                   | (Raised e, w1) \<Rightarrow>
                       if is_exception e then (Raised e, store stored w1) else (Raised e, w1)
                   | (Diverged, w1) \<Rightarrow> (Diverged, w1))))"

definition mem_jobs_find :: "string \<Rightarrow> string \<Rightarrow> job option mop" where
  "mem_jobs_find owner key w =
     (Done (find (\<lambda>k. job_owner_id k = owner \<and> job_idempotency_key k = Some key) (m_jobs w)), w)"

text \<open>\<open>sorted(..., reverse=True)\<close> keeps the order of equal keys.\<close>

definition mem_jobs_list :: "string \<Rightarrow> nat \<Rightarrow> nat \<Rightarrow> (job list \<times> int) mop" where
  "mem_jobs_list owner offset limit w =
     (let items = sort_key (\<lambda>j. - job_created_at j)
                    (filter (\<lambda>j. job_owner_id j = owner) (m_jobs w))
      in (Done (page_slice offset limit items, int (length items)), w))"

section \<open>Outbox\<close>

definition mem_outbox_add :: "outbox_event \<Rightarrow> unit mop" where
  "mem_outbox_add ev w = (Done (), w\<lparr>m_outbox := update_by ob_id ev (m_outbox w)\<rparr>)"

definition mem_outbox_pending :: "nat \<Rightarrow> outbox_event list mop" where
  "mem_outbox_pending limit w =
     (Done (take limit (sort_key ob_created_at
        (filter (\<lambda>ev. ob_published_at ev = None) (m_outbox w)))), w)"

definition mem_outbox_mark_published :: "uuid \<Rightarrow> unit mop" where
  "mem_outbox_mark_published eid w =
     (case lookup_by ob_id (m_outbox w) eid of
        None \<Rightarrow> (Raised KeyError, w)
      | Some ev \<Rightarrow>
          (Done (), w\<lparr>m_outbox := update_by ob_id (ev\<lparr>ob_published_at := Some (m_clock w)\<rparr>) (m_outbox w),
                      m_clock := m_clock w + 1\<rparr>))"

definition mem_jobs_add_with_outbox_and_event ::
    "job \<Rightarrow> outbox_event \<Rightarrow> job_event \<Rightarrow> job_event mop" where
  "mem_jobs_add_with_outbox_and_event j ob ev =
     bind_prog (mem_jobs_add j) (\<lambda>_.
     bind_prog (mem_outbox_add ob) (\<lambda>_.
     (\<lambda>w. if m_events_configured w then mem_events_append ev w
          else (Raised (RuntimeError ''job event repository is not configured''), w))))"

definition mem_jobs_save_with_outbox_and_event ::
    "job \<Rightarrow> outbox_event \<Rightarrow> job_event \<Rightarrow> (job_event \<times> job) mop" where
  "mem_jobs_save_with_outbox_and_event j ob ev =
     bind_prog (mem_jobs_save_with_event j ev) (\<lambda>r.
     bind_prog (mem_outbox_add ob) (\<lambda>_. ret r))"

section \<open>Objects\<close>

definition mem_create_upload_target :: "string \<Rightarrow> string \<Rightarrow> int \<Rightarrow> string \<Rightarrow> upload_target mop" where
  "mem_create_upload_target key ct size_bytes sha =
     ret \<lparr>target_url = ''memory://'' @ key, target_method = ''PUT'',
          target_headers = [(''Content-Type'', ct), (''X-Content-SHA256'', sha)],
          target_upload_id = None, target_part_size_bytes = None, target_part_urls = []\<rparr>"

definition mem_stat :: "string \<Rightarrow> object_info option mop" where
  "mem_stat key w =
     (Done (case map_of (m_objects w) key of
        None \<Rightarrow> None
      | Some (data, ct, digest) \<Rightarrow>
          Some \<lparr>info_object_key = key, info_size_bytes = int (length data),
                info_sha256 = Some digest, info_content_type = ct\<rparr>), w)"

definition mem_complete_upload :: "string \<Rightarrow> string option \<Rightarrow> (int \<times> string) list \<Rightarrow> unit mop" where
  "mem_complete_upload key uid parts = ret ()"

definition mem_get_bytes :: "string \<Rightarrow> bytes mop" where
  "mem_get_bytes key w =
     (case map_of (m_objects w) key of
        None \<Rightarrow> (Raised FileNotFoundError, w)
      | Some (data, _, _) \<Rightarrow> (Done data, w))"

definition mem_put_bytes :: "(bytes \<Rightarrow> string) \<Rightarrow> string \<Rightarrow> bytes \<Rightarrow> string \<Rightarrow> stored_object mop" where
  "mem_put_bytes sha key data ct w =
     (Done \<lparr>stored_object_key = key, stored_size_bytes = int (length data),
            stored_sha256 = sha data, stored_content_type = ct\<rparr>,
      w\<lparr>m_objects := AList.update key (data, ct, sha data) (m_objects w)\<rparr>)"

definition mem_delete_object :: "string \<Rightarrow> unit mop" where
  "mem_delete_object key w = (Done (), w\<lparr>m_objects := AList.delete key (m_objects w)\<rparr>)"

definition mem_create_download_url :: "string \<Rightarrow> string mop" where
  "mem_create_download_url key =
     bind_prog (mem_stat key) (\<lambda>info.
     case info of None \<Rightarrow> raise_exc FileNotFoundError
     | Some _ \<Rightarrow> ret (''memory://'' @ key @ ''?download=1''))"

section \<open>Queue, log, clock, identifiers\<close>

definition mem_publish :: "job_work_message \<Rightarrow> unit mop" where
  "mem_publish msg w = (Done (), w\<lparr>m_published := m_published w @ [msg]\<rparr>)"

definition mem_log :: "string \<Rightarrow> string \<Rightarrow> (string \<times> json) list \<Rightarrow> unit mop" where
  "mem_log level event kvs w =
     (Done (), w\<lparr>m_log := m_log w @
        [[(''level'', JStr level), (''event'', JStr event)] @ kvs]\<rparr>)"

definition mem_utc_now :: "time mop" where
  "mem_utc_now w = (Done (m_clock w), w\<lparr>m_clock := m_clock w + 1\<rparr>)"

definition mem_uuid7 :: "uuid mop" where
  "mem_uuid7 w = (Done (of_nat (m_next_id w)), w\<lparr>m_next_id := m_next_id w + 1\<rparr>)"

definition mem_sleep :: "int \<Rightarrow> unit mop" where
  "mem_sleep delay w = (Done (), w\<lparr>m_sleeps := m_sleeps w @ [delay]\<rparr>)"

section \<open>The local engine and preprocessors\<close>

text \<open>\<open>FakeOCREngine\<close>: the first \<open>failures\<close> calls raise, the later ones succeed.\<close>

definition fake_result ::
    "(bytes \<Rightarrow> string) \<Rightarrow> bytes option \<Rightarrow> bytes \<Rightarrow> int \<Rightarrow> string \<Rightarrow> ocr_result" where
  "fake_result sha visualization img number request_id =
     (let digest = take 12 (sha img)
      in \<lparr>result_markdown = ''## Page '' @ str_int number @ [CHR 0x0A, CHR 0x0A] @ ''Fake OCR '' @ digest,
          result_structured =
            [(''page_number'', JInt number),
             (''blocks'', JList [JDict [(''type'', JStr ''text''), (''text'', JStr (''Fake OCR '' @ digest)),
                (''bbox'', JList [JInt 0, JInt 0, JInt 1, JInt 1]), (''confidence'', JFloat ''1.0'')]])],
          result_visualization = visualization,
          result_visualization_content_type = ''image/png'',
          result_engine_metadata =
            [(''engine'', JStr ''fake''), (''model'', JStr ''fake-local''), (''version'', JStr ''1''),
             (''request_id'', JStr request_id)]\<rparr>)"

definition fake_recognize ::
    "(bytes \<Rightarrow> string) \<Rightarrow> nat \<Rightarrow> bytes option \<Rightarrow> bytes \<Rightarrow> int \<Rightarrow> json \<Rightarrow> string \<Rightarrow> ocr_result mop" where
  "fake_recognize sha failures visualization img number options request_id w =
     (let calls = m_engine_calls w + 1; w' = w\<lparr>m_engine_calls := calls\<rparr>
      in if calls \<le> failures then (Raised EngineUnavailableError, w')
         else (Done (fake_result sha visualization img number request_id), w'))"

definition passthrough_prepare :: "upload \<Rightarrow> job \<Rightarrow> prepared_page list mop" where
  "passthrough_prepare u j =
     ret [\<lparr>prepared_page_number = 1, prepared_object_key = upload_object_key u\<rparr>]"

definition page_image_key :: "job \<Rightarrow> int \<Rightarrow> string" where
  "page_image_key j number =
     ''jobs/'' @ uuid_str (job_id j) @ ''/attempts/'' @ str_int (job_attempt j) @ ''/pages/'' @
     fmt06d number @ ''.png''"

definition static_prepare ::
    "(bytes \<Rightarrow> string) \<Rightarrow> bytes list \<Rightarrow> upload \<Rightarrow> job \<Rightarrow> prepared_page list mop" where
  "static_prepare sha images u j =
     map_prog (\<lambda>(number, img).
       (let key = page_image_key j (int number)
        in bind_prog (mem_put_bytes sha key img ''image/png'') (\<lambda>_.
           ret \<lparr>prepared_page_number = int number, prepared_object_key = key\<rparr>)))
       (enumerate 1 images)"

section \<open>The ports\<close>

text \<open>
  The in-memory runtime for a digest function, a validator, a preprocessor and an engine.
\<close>

definition mem_ports ::
    "(bytes \<Rightarrow> string) \<Rightarrow> (upload \<Rightarrow> bytes \<Rightarrow> string mop) \<Rightarrow> (upload \<Rightarrow> job \<Rightarrow> prepared_page list mop) \<Rightarrow>
     (bytes \<Rightarrow> int \<Rightarrow> json \<Rightarrow> string \<Rightarrow> ocr_result mop) \<Rightarrow> mem ports" where
  "mem_ports sha validator preprocessor engine =
     \<lparr>p_utc_now = mem_utc_now, p_uuid7 = mem_uuid7, p_sha256 = sha,
      p_uploads_add = mem_uploads_add, p_uploads_get = mem_uploads_get,
      p_uploads_save = mem_uploads_save, p_jobs_get = mem_jobs_get,
      p_jobs_save_with_event = mem_jobs_save_with_event,
      p_jobs_find_by_idempotency_key = mem_jobs_find, p_jobs_list = mem_jobs_list,
      p_jobs_add_with_outbox_and_event = mem_jobs_add_with_outbox_and_event,
      p_jobs_save_with_outbox_and_event = mem_jobs_save_with_outbox_and_event,
      p_events_append = mem_events_append, p_events_list_after = mem_events_list_after,
      p_outbox_pending = mem_outbox_pending, p_outbox_mark_published = mem_outbox_mark_published,
      p_storage_create_upload_target = mem_create_upload_target, p_storage_stat = mem_stat,
      p_storage_complete_upload = mem_complete_upload, p_storage_get_bytes = mem_get_bytes,
      p_storage_put_bytes = mem_put_bytes sha,
      p_storage_create_download_url = mem_create_download_url,
      p_validator_validate = validator, p_preprocessor_prepare = preprocessor,
      p_engine_recognize = engine, p_publisher_publish = mem_publish,
      p_logger_info = mem_log ''info'', p_logger_error = mem_log ''error'', p_sleeper = mem_sleep\<rparr>"

end
