(* ===== verification/File_Validation.thy ===== *)
theory File_Validation
  imports Ports "HOL-Library.Sublist"
begin

text \<open>
  \<open>MagicBytesFileValidator\<close> of \<^verbatim>\<open>infrastructure/file_validation.py\<close>: the type of a file is
  read from its first bytes, and has to be the declared one. The properties say what a file
  that passes looks like and that every rejection is a business error with a failure code.
\<close>

definition signatures :: "(bytes \<times> string) list" where
  "signatures =
     [(''%PDF-'', ''application/pdf''),
      (CHR 0x89 # ''PNG'' @ [CHR 0x0D, CHR 0x0A, CHR 0x1A, CHR 0x0A], ''image/png''),
      ([CHR 0xFF, CHR 0xD8, CHR 0xFF], ''image/jpeg''),
      (''BM'', ''image/bmp''),
      (''II*'' @ [CHR 0x00], ''image/tiff''),
      (''MM'' @ [CHR 0x00] @ ''*'', ''image/tiff''),
      (''RIFF'', ''image/webp'')]"

fun detect_among :: "(bytes \<times> string) list \<Rightarrow> bytes \<Rightarrow> string option" where
  "detect_among [] data = None"
| "detect_among ((sig, ct) # rest) data = (if prefix sig data then Some ct else detect_among rest data)"

definition detect :: "bytes \<Rightarrow> string option" where
  "detect data = detect_among signatures data"

definition security_rejected :: "string \<Rightarrow> json option \<Rightarrow> exn" where
  "security_rejected reason data = BusinessError UPLOAD_SECURITY_REJECTED reason data"

definition validate_file :: "upload \<Rightarrow> bytes \<Rightarrow> exn + string" where
  "validate_file u data =
     (if int (length data) \<noteq> upload_size_bytes u
      then Inl (BusinessError UPLOAD_HASH_MISMATCH ''upload_size_mismatch'' None)
      else
        (case detect data of
           None \<Rightarrow> Inl (BusinessError UPLOAD_UNSUPPORTED_FILE_TYPE ''unknown_magic_bytes'' None)
         | Some detected \<Rightarrow>
             if detected = ''image/webp'' \<and> take 4 (drop 8 data) \<noteq> ''WEBP''
             then Inl (security_rejected ''invalid_webp_signature'' None)
             else if detected \<noteq> upload_content_type u
             then Inl (security_rejected ''content_type_mismatch''
               (Some (JDict [(''declared'', JStr (upload_content_type u)), (''detected'', JStr detected)])))
             else if detected = ''application/pdf'' \<and> sublist ''/Encrypt'' (take (2 * 1024 * 1024) data)
             then Inl (security_rejected ''encrypted_pdf'' None)
             else Inr detected))"

definition magic_validate :: "upload \<Rightarrow> bytes \<Rightarrow> ('w, string) op" where
  "magic_validate u data = lift_sum (validate_file u data)"

section \<open>Lemmas\<close>

lemma detect_among_Some:
  "detect_among sigs data = Some ct \<Longrightarrow> \<exists>sig. (sig, ct) \<in> set sigs \<and> prefix sig data"
  by (induction sigs data rule: detect_among.induct) (auto split: if_splits)

lemma detect_among_None:
  "detect_among sigs data = None \<longleftrightarrow> (\<forall>(sig, ct) \<in> set sigs. \<not> prefix sig data)"
  by (induction sigs data rule: detect_among.induct) auto

text \<open>No signature is a prefix of another one, so the order of the table does not matter.\<close>

lemma signatures_checked:
  "list_all (\<lambda>(s1, c1). list_all (\<lambda>(s2, c2). prefix s1 s2 \<longrightarrow> s1 = s2 \<and> c1 = c2) signatures) signatures"
  by code_simp

lemma signatures_independent:
  assumes "(s1, c1) \<in> set signatures" and "(s2, c2) \<in> set signatures"
    and "prefix s1 data" and "prefix s2 data"
  shows "s1 = s2 \<and> c1 = c2"
proof -
  have "prefix s1 s2 \<or> prefix s2 s1" using assms(3,4) prefix_same_cases by blast
  then show ?thesis
    using assms(1,2) signatures_checked by (auto simp: list_all_iff)
qed

lemma detect_iff: "detect data = Some ct \<longleftrightarrow> (\<exists>sig. (sig, ct) \<in> set signatures \<and> prefix sig data)"
proof
  assume "\<exists>sig. (sig, ct) \<in> set signatures \<and> prefix sig data"
  then obtain sig where sig: "(sig, ct) \<in> set signatures" "prefix sig data" by blast
  then obtain ct' where ct': "detect data = Some ct'"
    using detect_among_None [of signatures data] by (cases "detect data") (auto simp: detect_def)
  with signatures_independent [OF sig(1) _ sig(2)] detect_among_Some [of signatures data ct']
  show "detect data = Some ct" by (auto simp: detect_def)
qed (auto simp: detect_def dest: detect_among_Some)

lemma validate_file_Inr:
  "validate_file u data = Inr ct \<longleftrightarrow>
     int (length data) = upload_size_bytes u \<and> ct = upload_content_type u \<and> detect data = Some ct \<and>
     (ct = ''image/webp'' \<longrightarrow> take 4 (drop 8 data) = ''WEBP'') \<and>
     (ct = ''application/pdf'' \<longrightarrow> \<not> sublist ''/Encrypt'' (take (2 * 1024 * 1024) data))"
  by (auto simp: validate_file_def split: if_splits option.splits)

end
