(* ===== verification/Services.thy ===== *)
theory Services
  imports Ports Codec
begin

text \<open>
  The use cases of \<^verbatim>\<open>application/services.py\<close> with the request and response models of
  \<^verbatim>\<open>application/dto.py\<close>. A method of \<open>OCRApplicationService\<close> is a program over the ports; a
  business outcome is the exception \<^const>\<open>BusinessError\<close> with its status code and reason.
  The retry loops of the cancellation and the retry run at most three times and are unrolled
  by a counter.
\<close>

section \<open>Requests and responses\<close>

record create_upload_request =
  cur_filename :: string
  cur_size_bytes :: int
  cur_content_type :: string
  cur_sha256 :: string

record upload_dto =
  ud_upload_id :: uuid
  ud_object_key :: string
  ud_upload_url :: string
  ud_upload_method :: string
  ud_upload_headers :: "(string \<times> string) list"
  ud_multipart_upload_id :: "string option"
  ud_part_size_bytes :: "int option"
  ud_parts :: "(int \<times> string) list"
  ud_status :: upload_state

record complete_upload_dto =
  cud_upload_id :: uuid
  cud_status :: upload_state
  cud_detected_content_type :: string

record create_job_request =
  cjr_upload_id :: uuid
  cjr_options :: json

record page_dto =
  pd_page_number :: int
  pd_status :: page_state
  pd_processing_attempts :: int
  pd_internal_code :: int
  pd_error_reason :: "string option"

record job_dto =
  jd_job_id :: uuid
  jd_upload_id :: uuid
  jd_filename :: string
  jd_status :: job_state
  jd_attempt :: int
  jd_progress :: int
  jd_completed_pages :: int
  jd_total_pages :: int
  jd_pages :: "page_dto list"
  jd_options :: json
  jd_engine :: "string option \<times> string option \<times> string option"
  jd_internal_code :: int
  jd_error_reason :: "string option"
  jd_times :: "time \<times> time \<times> time option \<times> time option"

record artifact_dto =
  ad_artifact :: artifact
  ad_download_url :: string

text \<open>\<open>validate_sha256\<close>: 64 hexadecimal digits after \<open>lower()\<close>.\<close>

definition validate_sha256 :: "string \<Rightarrow> string option" where
  "validate_sha256 value =
     (let normalized = map to_lower value
      in if length normalized \<noteq> 64 \<or> list_ex (\<lambda>c. c \<notin> set ''0123456789abcdef'') normalized
         then None else Some normalized)"

definition make_create_upload_request ::
    "string \<Rightarrow> int \<Rightarrow> string \<Rightarrow> string \<Rightarrow> create_upload_request option" where
  "make_create_upload_request filename size_bytes content_type sha =
     (case validate_sha256 sha of
        None \<Rightarrow> None
      | Some digest \<Rightarrow>
          if 1 \<le> length filename \<and> length filename \<le> 255 \<and> 0 < size_bytes
             \<and> 1 \<le> length content_type \<and> length content_type \<le> 128
          then Some \<lparr>cur_filename = filename, cur_size_bytes = size_bytes,
                     cur_content_type = content_type, cur_sha256 = digest\<rparr>
          else None)"

definition page_dto_of :: "page \<Rightarrow> page_dto" where
  "page_dto_of p =
     \<lparr>pd_page_number = page_number p, pd_status = page_state p,
      pd_processing_attempts = int (page_processing_attempts p),
      pd_internal_code = page_internal_code p, pd_error_reason = page_error_reason p\<rparr>"

definition job_dto_of :: "job \<Rightarrow> string \<Rightarrow> job_dto" where
  "job_dto_of j filename =
     \<lparr>jd_job_id = job_id j, jd_upload_id = job_upload_id j, jd_filename = filename,
      jd_status = job_state j, jd_attempt = job_attempt j, jd_progress = job_progress j,
      jd_completed_pages = job_completed_pages j, jd_total_pages = job_total_pages j,
      jd_pages = map page_dto_of (job_pages j), jd_options = job_options j,
      jd_engine = (job_engine_name j, job_engine_version j, job_model_name j),
      jd_internal_code = job_internal_code j, jd_error_reason = job_error_reason j,
      jd_times = (job_created_at j, job_updated_at j, job_started_at j, job_completed_at j)\<rparr>"

section \<open>Equality of options\<close>

text \<open>
  Python compares dicts as maps and numbers across types: \<open>True == 1 == 1.0\<close>. A whole
  float below \<open>10\<^sup>1\<^sup>6\<close> prints as its integer followed by \<open>.0\<close>; equality with larger
  floats in exponent notation is not modelled.
\<close>

fun number_text :: "json \<Rightarrow> string option" where
  "number_text (JInt i) = Some (str_int i @ ''.0'')"
| "number_text (JBool b) = Some (if b then ''1.0'' else ''0.0'')"
| "number_text (JFloat s) = Some (if s = ''-0.0'' then ''0.0'' else s)"
| "number_text _ = None"

fun json_eq :: "json \<Rightarrow> json \<Rightarrow> bool"
  and json_list_eq :: "json list \<Rightarrow> json list \<Rightarrow> bool"
  and json_dict_sub :: "(string \<times> json) list \<Rightarrow> (string \<times> json) list \<Rightarrow> bool"
where
  "json_eq JNull b = (b = JNull)"
| "json_eq (JStr s) b = (b = JStr s)"
| "json_eq (JBool x) b = (number_text b = number_text (JBool x))"
| "json_eq (JInt i) b = (number_text b = number_text (JInt i))"
| "json_eq (JFloat s) b = (number_text b = number_text (JFloat s))"
| "json_eq (JList xs) b = (case b of JList ys \<Rightarrow> json_list_eq xs ys | _ \<Rightarrow> False)"
| "json_eq (JDict kvs) b =
     (case b of JDict lvs \<Rightarrow> length kvs = length lvs \<and> json_dict_sub kvs lvs | _ \<Rightarrow> False)"
| "json_list_eq [] ys = (ys = [])"
| "json_list_eq (x # xs) ys =
     (case ys of [] \<Rightarrow> False | y # ys' \<Rightarrow> json_eq x y \<and> json_list_eq xs ys')"
| "json_dict_sub [] lvs = True"
| "json_dict_sub ((k, v) # kvs) lvs =
     ((case map_of lvs k of None \<Rightarrow> False | Some v' \<Rightarrow> json_eq v v') \<and> json_dict_sub kvs lvs)"

section \<open>Ownership\<close>

definition not_found_upload :: exn where
  "not_found_upload = BusinessError UPLOAD_NOT_FOUND ''upload_not_found'' None"

definition unauthorized :: exn where
  "unauthorized = BusinessError USER_UNAUTHORIZED ''user_unauthorized'' None"

definition owned_upload :: "'w ports \<Rightarrow> uuid \<Rightarrow> string \<Rightarrow> ('w, upload) op" where
  "owned_upload ps uid owner =
     bind_prog (service_database (p_uploads_get ps uid)) (\<lambda>r.
     case r of
       None \<Rightarrow> raise_exc not_found_upload
     | Some u \<Rightarrow> if upload_owner_id u \<noteq> owner then raise_exc unauthorized else ret u)"

definition owned_job :: "'w ports \<Rightarrow> uuid \<Rightarrow> string \<Rightarrow> ('w, job) op" where
  "owned_job ps jid owner =
     bind_prog (service_database (p_jobs_get ps jid)) (\<lambda>r.
     case r of
       None \<Rightarrow> raise_exc (BusinessError JOB_NOT_FOUND ''job_not_found'' None)
     | Some j \<Rightarrow> if job_owner_id j \<noteq> owner then raise_exc unauthorized else ret j)"

definition to_job_dto :: "'w ports \<Rightarrow> job \<Rightarrow> ('w, job_dto) op" where
  "to_job_dto ps j =
     bind_prog (service_database (p_uploads_get ps (job_upload_id j))) (\<lambda>r.
     ret (job_dto_of j (case r of Some u \<Rightarrow> upload_filename u | None \<Rightarrow> [])))"

definition service_job_event ::
    "'w ports \<Rightarrow> job \<Rightarrow> string \<Rightarrow> (string \<times> json) list \<Rightarrow> ('w, job_event) op" where
  "service_job_event ps j event_type payload =
     bind_prog (p_utc_now ps) (\<lambda>now.
     ret \<lparr>ev_job_id = job_id j, ev_event_type = event_type, ev_state = job_state j,
          ev_progress = job_progress j, ev_request_id = job_request_id j,
          ev_payload = (''attempt'', JInt (job_attempt j)) # payload,
          ev_sequence = 0, ev_occurred_at = now\<rparr>)"

definition service_save_and_emit :: "'w ports \<Rightarrow> job \<Rightarrow> string \<Rightarrow> ('w, job) op" where
  "service_save_and_emit ps j event_type =
     bind_prog (service_job_event ps j event_type []) (\<lambda>ev.
     bind_prog (service_database (p_jobs_save_with_event ps j ev)) (\<lambda>(ev', j').
     ret j'))"

section \<open>Uploads\<close>

text \<open>\<open>PurePath(filename).name\<close>: the last component that is neither empty nor \<open>.\<close>.\<close>

fun split_on :: "char \<Rightarrow> string \<Rightarrow> string list" where
  "split_on d [] = [[]]"
| "split_on d (c # cs) =
     (if c = d then [] # split_on d cs
      else (case split_on d cs of [] \<Rightarrow> [[c]] | s # ss \<Rightarrow> (c # s) # ss))"

definition path_name :: "string \<Rightarrow> string" where
  "path_name path =
     (case filter (\<lambda>s. s \<noteq> [] \<and> s \<noteq> ''.'') (split_on (CHR ''/'') path) of
        [] \<Rightarrow> [] | ss \<Rightarrow> last ss)"

definition allowed_content_types :: "string list" where
  "allowed_content_types =
     [''application/pdf'', ''image/jpeg'', ''image/png'', ''image/webp'', ''image/bmp'', ''image/tiff'']"

definition create_upload ::
    "'w ports \<Rightarrow> int \<Rightarrow> create_upload_request \<Rightarrow> string \<Rightarrow> ('w, upload_dto) op" where
  "create_upload ps max_upload_bytes req owner =
     (if cur_size_bytes req > max_upload_bytes then
        raise_exc (BusinessError UPLOAD_FILE_TOO_LARGE ''upload_file_too_large''
          (Some (JDict [(''max_size_bytes'', JInt max_upload_bytes)])))
      else if cur_content_type req \<notin> set allowed_content_types then
        raise_exc (BusinessError UPLOAD_UNSUPPORTED_FILE_TYPE ''upload_unsupported_file_type'' None)
      else
        bind_prog (p_uuid7 ps) (\<lambda>uid.
        bind_prog (p_utc_now ps) (\<lambda>created.
        let key = ''uploads/'' @ uuid_str uid @ ''/source''
        in bind_prog (service_storage (p_storage_create_upload_target ps key
               (cur_content_type req) (cur_size_bytes req) (cur_sha256 req))) (\<lambda>target.
           let u = \<lparr>upload_owner_id = owner, upload_filename = path_name (cur_filename req),
                    upload_size_bytes = cur_size_bytes req,
                    upload_content_type = cur_content_type req, upload_sha256 = cur_sha256 req,
                    upload_object_key = key, upload_id = uid, upload_state = UPLOADING,
                    upload_created_at = created, upload_completed_at = None,
                    upload_detected_content_type = None,
                    upload_multipart_upload_id = target_upload_id target\<rparr>
           in bind_prog (service_database (p_uploads_add ps u)) (\<lambda>_.
              ret \<lparr>ud_upload_id = uid, ud_object_key = key, ud_upload_url = target_url target,
                   ud_upload_method = target_method target,
                   ud_upload_headers = target_headers target,
                   ud_multipart_upload_id = target_upload_id target,
                   ud_part_size_bytes = target_part_size_bytes target,
                   ud_parts = target_part_urls target, ud_status = UPLOADING\<rparr>)))))"

definition hash_mismatch :: exn where
  "hash_mismatch = BusinessError UPLOAD_HASH_MISMATCH ''upload_hash_mismatch'' None"

definition object_missing :: exn where
  "object_missing = BusinessError UPLOAD_NOT_COMPLETED ''upload_object_missing'' None"

definition reject_upload :: "'w ports \<Rightarrow> upload \<Rightarrow> ('w, complete_upload_dto) op" where
  "reject_upload ps u =
     bind_prog (service_database (p_uploads_save ps (upload_reject u))) (\<lambda>_.
     raise_exc hash_mismatch)"

text \<open>The checks of the stored object, from the completion of the parts to the saved upload.\<close>

definition verify_upload ::
    "'w ports \<Rightarrow> upload \<Rightarrow> (int \<times> string) list \<Rightarrow> ('w, complete_upload_dto) op" where
  "verify_upload ps u parts =
     bind_prog (service_storage (p_storage_complete_upload ps (upload_object_key u)
        (upload_multipart_upload_id u) parts)) (\<lambda>_.
     bind_prog (service_storage (p_storage_stat ps (upload_object_key u))) (\<lambda>info.
     case info of
       None \<Rightarrow> raise_exc object_missing
     | Some i \<Rightarrow>
         if info_size_bytes i \<noteq> upload_size_bytes u
            \<or> (info_sha256 i \<noteq> None \<and> info_sha256 i \<noteq> Some []
               \<and> info_sha256 i \<noteq> Some (upload_sha256 u))
         then reject_upload ps u
         else
           bind_prog
             (catch_prog (service_storage (p_storage_get_bytes ps (upload_object_key u)))
               (\<lambda>e. if e = FileNotFoundError then raise_exc object_missing else raise_exc e))
             (\<lambda>data.
           if p_sha256 ps data \<noteq> upload_sha256 u then reject_upload ps u
           else
             bind_prog (p_validator_validate ps u data) (\<lambda>detected.
             bind_prog (p_utc_now ps) (\<lambda>now.
             bind_prog (lift_sum (upload_complete now detected u)) (\<lambda>u'.
             bind_prog (service_database (p_uploads_save ps u')) (\<lambda>_.
             ret \<lparr>cud_upload_id = upload_id u', cud_status = upload_state u',
                  cud_detected_content_type = detected\<rparr>)))))))"

definition complete_upload ::
    "'w ports \<Rightarrow> uuid \<Rightarrow> string \<Rightarrow> string option \<Rightarrow> string option \<Rightarrow> (int \<times> string) list \<Rightarrow>
     ('w, complete_upload_dto) op" where
  "complete_upload ps uid owner provided_sha multipart_id parts =
     bind_prog (owned_upload ps uid owner) (\<lambda>u.
     if provided_sha \<noteq> None \<and> provided_sha \<noteq> Some (upload_sha256 u) then
       raise_exc (BusinessError UPLOAD_HASH_MISMATCH ''completion_hash_mismatch'' None)
     else if upload_multipart_upload_id u \<noteq> None \<and> upload_multipart_upload_id u \<noteq> Some []
             \<and> multipart_id \<noteq> upload_multipart_upload_id u then
       raise_exc (BusinessError COMMON_STATE_CONFLICT ''multipart_upload_id_mismatch'' None)
     else if upload_state u = COMPLETED then
       ret \<lparr>cud_upload_id = upload_id u, cud_status = upload_state u,
            cud_detected_content_type = (case upload_detected_content_type u of
                Some ct \<Rightarrow> if ct \<noteq> [] then ct else upload_content_type u
              | None \<Rightarrow> upload_content_type u)\<rparr>
     else if upload_state u \<noteq> UPLOADING then
       raise_exc (BusinessError COMMON_STATE_CONFLICT ''upload_state_conflict'' None)
     else verify_upload ps u parts)"

section \<open>Jobs\<close>

definition idempotency_conflict :: exn where
  "idempotency_conflict = BusinessError COMMON_IDEMPOTENCY_CONFLICT ''idempotency_conflict'' None"

text \<open>The answer to a repeated request: the stored job, unless the request differs.\<close>

definition replay_job ::
    "'w ports \<Rightarrow> upload \<Rightarrow> create_job_request \<Rightarrow> job \<Rightarrow> ('w, job_dto) op" where
  "replay_job ps u req existing =
     (if job_upload_id existing \<noteq> upload_id u \<or> \<not> json_eq (job_options existing) (cjr_options req)
      then raise_exc idempotency_conflict
      else to_job_dto ps existing)"

definition work_request :: "uuid \<Rightarrow> time \<Rightarrow> job \<Rightarrow> string \<Rightarrow> outbox_event" where
  "work_request oid created j request_id =
     \<lparr>ob_aggregate_id = job_id j, ob_event_type = ''ocr.job.requested.v1'',
      ob_payload = [(''schema_version'', JInt 1), (''job_id'', JStr (uuid_str (job_id j))),
                    (''attempt'', JInt (job_attempt j)), (''request_id'', JStr request_id)],
      ob_request_id = request_id, ob_id = oid, ob_created_at = created, ob_published_at = None\<rparr>"

definition insert_job ::
    "'w ports \<Rightarrow> upload \<Rightarrow> create_job_request \<Rightarrow> string \<Rightarrow> string \<Rightarrow> string option \<Rightarrow> ('w, job_dto) op"
where
  "insert_job ps u req owner request_id key =
     bind_prog (p_uuid7 ps) (\<lambda>jid.
     bind_prog (p_utc_now ps) (\<lambda>created.
     bind_prog (p_utc_now ps) (\<lambda>updated.
     let j = new_job owner (upload_id u) request_id (cjr_options req) key jid created updated
     in bind_prog (p_uuid7 ps) (\<lambda>oid.
        bind_prog (p_utc_now ps) (\<lambda>requested.
        bind_prog
          (catch_prog
            (bind_prog (service_job_event ps j ''job.queued'' []) (\<lambda>ev.
             bind_prog (service_database (p_jobs_add_with_outbox_and_event ps j
                (work_request oid requested j request_id) ev)) (\<lambda>_. ret None)))
            (\<lambda>e. if e \<noteq> DuplicateIdempotencyKeyError then raise_exc e
                 else
                   (case key of
                      None \<Rightarrow> raise_exc e
                    | Some k \<Rightarrow> if k = [] then raise_exc e
                        else
                          bind_prog (service_database (p_jobs_find_by_idempotency_key ps owner k))
                            (\<lambda>existing.
                          case existing of
                            None \<Rightarrow> raise_exc DatabaseUnavailableError
                          | Some x \<Rightarrow> bind_prog (replay_job ps u req x) (\<lambda>d. ret (Some d))))))
          (\<lambda>r. case r of Some d \<Rightarrow> ret d | None \<Rightarrow> to_job_dto ps j))))))"

definition create_job ::
    "'w ports \<Rightarrow> create_job_request \<Rightarrow> string \<Rightarrow> string \<Rightarrow> string option \<Rightarrow> ('w, job_dto) op" where
  "create_job ps req owner request_id key =
     bind_prog (owned_upload ps (cjr_upload_id req) owner) (\<lambda>u.
     if upload_state u \<noteq> COMPLETED then
       raise_exc (BusinessError UPLOAD_NOT_COMPLETED ''upload_not_completed'' None)
     else
       (case key of
          None \<Rightarrow> insert_job ps u req owner request_id key
        | Some k \<Rightarrow>
            if k = [] then insert_job ps u req owner request_id key
            else
              bind_prog (service_database (p_jobs_find_by_idempotency_key ps owner k)) (\<lambda>existing.
              case existing of
                Some x \<Rightarrow> replay_job ps u req x
              | None \<Rightarrow> insert_job ps u req owner request_id key)))"

definition get_job :: "'w ports \<Rightarrow> uuid \<Rightarrow> string \<Rightarrow> ('w, job_dto) op" where
  "get_job ps jid owner = bind_prog (owned_job ps jid owner) (to_job_dto ps)"

record job_list_dto =
  jl_items :: "job_dto list"
  jl_total :: int
  jl_page :: int
  jl_page_size :: int

definition list_jobs :: "'w ports \<Rightarrow> string \<Rightarrow> int \<Rightarrow> int \<Rightarrow> ('w, job_list_dto) op" where
  "list_jobs ps owner page_no page_size =
     bind_prog (service_database (p_jobs_list ps owner (nat ((page_no - 1) * page_size)) (nat page_size)))
       (\<lambda>(jobs, total).
     bind_prog (map_prog (to_job_dto ps) jobs) (\<lambda>items.
     ret \<lparr>jl_items = items, jl_total = total, jl_page = page_no, jl_page_size = page_size\<rparr>))"

definition not_cancellable :: exn where
  "not_cancellable = BusinessError JOB_NOT_CANCELLABLE ''job_not_cancellable'' None"

definition not_retryable :: exn where
  "not_retryable = BusinessError JOB_NOT_RETRYABLE ''job_not_retryable'' None"

fun is_value_error :: "exn \<Rightarrow> bool" where
  "is_value_error (ValueError _) = True"
| "is_value_error _ = False"

text \<open>The \<open>try\<close> block of the cancellation. A waiting job is cancelled at once.\<close>

definition cancel_try :: "'w ports \<Rightarrow> string \<Rightarrow> job \<Rightarrow> ('w, job) op" where
  "cancel_try ps request_id j =
     bind_prog (p_utc_now ps) (\<lambda>t.
     bind_prog (lift_sum (job_request_cancel t (j\<lparr>job_request_id := request_id\<rparr>))) (\<lambda>j1.
     bind_prog
       (if job_state j \<in> {QUEUED, RETRYING} then
          bind_prog (p_utc_now ps) (\<lambda>t1.
          bind_prog (p_utc_now ps) (\<lambda>t2.
          lift_sum (job_cancel t1 t2 j1)))
        else ret j1) (\<lambda>j2.
     service_save_and_emit ps j2
       (if job_state j2 = CANCELLED then ''job.cancelled'' else ''job.cancel_requested''))))"

fun cancel_loop :: "'w ports \<Rightarrow> uuid \<Rightarrow> string \<Rightarrow> string \<Rightarrow> nat \<Rightarrow> ('w, job_dto) op" where
  "cancel_loop ps jid owner request_id 0 = raise_exc (OtherError ''AssertionError'')"
| "cancel_loop ps jid owner request_id (Suc n) =
     bind_prog (owned_job ps jid owner) (\<lambda>j.
     if job_state j \<in> {CANCELLED, SUCCEEDED} then raise_exc not_cancellable
     else if job_state j = CANCEL_REQUESTED then to_job_dto ps j
     else
       bind_prog
         (catch_prog (bind_prog (cancel_try ps request_id j) (\<lambda>j'. ret (Some j')))
           (\<lambda>e. if e = ConcurrentJobUpdateError then
                  (if n \<noteq> 0 then ret None else raise_exc DatabaseUnavailableError)
                else if is_value_error e then raise_exc not_cancellable
                else raise_exc e))
         (\<lambda>r. case r of
                Some j' \<Rightarrow> to_job_dto ps j'
              | None \<Rightarrow> cancel_loop ps jid owner request_id n))"

definition cancel_job :: "'w ports \<Rightarrow> uuid \<Rightarrow> string \<Rightarrow> string \<Rightarrow> ('w, job_dto) op" where
  "cancel_job ps jid owner request_id = cancel_loop ps jid owner request_id 3"

definition retry_save :: "'w ports \<Rightarrow> string \<Rightarrow> job \<Rightarrow> ('w, job) op" where
  "retry_save ps request_id j =
     bind_prog (p_uuid7 ps) (\<lambda>oid.
     bind_prog (p_utc_now ps) (\<lambda>requested.
     bind_prog (service_job_event ps j ''job.retrying'' []) (\<lambda>ev.
     bind_prog (service_database (p_jobs_save_with_outbox_and_event ps j
        (work_request oid requested j request_id) ev)) (\<lambda>(ev', j'). ret j'))))"

text \<open>\<open>n\<close> attempts are left; the first one has \<open>n = 3\<close>.\<close>

fun retry_loop :: "'w ports \<Rightarrow> uuid \<Rightarrow> string \<Rightarrow> string \<Rightarrow> nat \<Rightarrow> ('w, job_dto) op" where
  "retry_loop ps jid owner request_id 0 = raise_exc (OtherError ''AssertionError'')"
| "retry_loop ps jid owner request_id (Suc n) =
     bind_prog (owned_job ps jid owner) (\<lambda>j.
     bind_prog (p_utc_now ps) (\<lambda>now.
     case job_retry now request_id j of
       Inl e \<Rightarrow>
         if job_state j = RETRYING \<and> Suc n < 3 then to_job_dto ps j
         else raise_exc not_retryable
     | Inr j1 \<Rightarrow>
         bind_prog
           (catch_prog (bind_prog (retry_save ps request_id j1) (\<lambda>j'. ret (Some j')))
             (\<lambda>e. if e = ConcurrentJobUpdateError then
                    (if n \<noteq> 0 then ret None else raise_exc DatabaseUnavailableError)
                  else raise_exc e))
           (\<lambda>r. case r of
                  Some j' \<Rightarrow> to_job_dto ps j'
                | None \<Rightarrow> retry_loop ps jid owner request_id n)))"

definition retry_job :: "'w ports \<Rightarrow> uuid \<Rightarrow> string \<Rightarrow> string \<Rightarrow> ('w, job_dto) op" where
  "retry_job ps jid owner request_id = retry_loop ps jid owner request_id 3"

definition artifact_link :: "'w ports \<Rightarrow> artifact \<Rightarrow> ('w, artifact_dto) op" where
  "artifact_link ps a =
     bind_prog
       (catch_prog (service_storage (p_storage_create_download_url ps (artifact_object_key a)))
         (\<lambda>e. if e = FileNotFoundError
              then raise_exc (BusinessError JOB_RESULT_NOT_READY ''job_artifact_missing'' None)
              else raise_exc e))
       (\<lambda>url. ret \<lparr>ad_artifact = a, ad_download_url = url\<rparr>)"

definition list_artifacts :: "'w ports \<Rightarrow> uuid \<Rightarrow> string \<Rightarrow> ('w, artifact_dto list) op" where
  "list_artifacts ps jid owner =
     bind_prog (owned_job ps jid owner) (\<lambda>j.
     if job_state j \<noteq> SUCCEEDED then
       raise_exc (BusinessError JOB_RESULT_NOT_READY ''job_result_not_ready'' None)
     else map_prog (artifact_link ps) (job_artifacts j))"

end
