(* ===== verification/Lifecycle.thy ===== *)
theory Lifecycle
  imports Ports
begin

text \<open>
  The abstract specification of a stored job. \<open>abs_job\<close> forgets what the life cycle does not
  depend on (times, texts, the recognised content, which PostgreSQL does not store in the page
  row). \<open>api_step\<close> and \<open>worker_step\<close> say how one committed save of the HTTP API and of
  the worker may change what is left, and \<open>lifecycle\<close> is any sequence of such saves. The facts
  proved about \<open>lifecycle\<close> here are the promises of the README: a completed page is never
  processed again, a cancellation is never overwritten, the retry budget is kept.

  The methods of \<^verbatim>\<open>domain/models.py\<close> refine these steps (the lemmas \<open>refines_*\<close>).
\<close>

section \<open>Abstract jobs\<close>

record apage =
  ap_number :: int
  ap_key :: string
  ap_state :: page_state
  ap_attempts :: nat
  ap_result :: "string option"

record ajob =
  aj_id :: uuid
  aj_owner :: string
  aj_upload :: uuid
  aj_state :: job_state
  aj_attempt :: int
  aj_revision :: int
  aj_pages :: "apage list"
  aj_finished :: bool
  aj_error :: "string option"

definition abs_page :: "page \<Rightarrow> apage" where
  "abs_page p = \<lparr>ap_number = page_number p, ap_key = page_input_object_key p,
     ap_state = page_state p, ap_attempts = page_processing_attempts p,
     ap_result = page_result_object_key p\<rparr>"

definition abs_job :: "job \<Rightarrow> ajob" where
  "abs_job j = \<lparr>aj_id = job_id j, aj_owner = job_owner_id j, aj_upload = job_upload_id j,
     aj_state = job_state j, aj_attempt = job_attempt j, aj_revision = job_revision j,
     aj_pages = map abs_page (job_pages j), aj_finished = (job_completed_at j \<noteq> None),
     aj_error = job_error_reason j\<rparr>"

lemma abs_page_sel [simp]:
  "ap_number (abs_page p) = page_number p" "ap_key (abs_page p) = page_input_object_key p"
  "ap_state (abs_page p) = page_state p" "ap_attempts (abs_page p) = page_processing_attempts p"
  "ap_result (abs_page p) = page_result_object_key p"
  by (simp_all add: abs_page_def)

lemma abs_job_sel [simp]:
  "aj_id (abs_job j) = job_id j" "aj_owner (abs_job j) = job_owner_id j"
  "aj_upload (abs_job j) = job_upload_id j" "aj_state (abs_job j) = job_state j"
  "aj_attempt (abs_job j) = job_attempt j" "aj_revision (abs_job j) = job_revision j"
  "aj_pages (abs_job j) = map abs_page (job_pages j)"
  "aj_finished (abs_job j) = (job_completed_at j \<noteq> None)"
  "aj_error (abs_job j) = job_error_reason j"
  by (simp_all add: abs_job_def)

text \<open>A successful save stores the object with its revision increased by one.\<close>

definition bump :: "job \<Rightarrow> job" where
  "bump j = j\<lparr>job_revision := job_revision j + 1\<rparr>"

lemma bump_sel [simp]:
  "job_id (bump j) = job_id j" "job_state (bump j) = job_state j"
  "job_pages (bump j) = job_pages j" "job_attempt (bump j) = job_attempt j"
  "job_revision (bump j) = job_revision j + 1" "job_owner_id (bump j) = job_owner_id j"
  "job_upload_id (bump j) = job_upload_id j" "job_completed_at (bump j) = job_completed_at j"
  "job_error_reason (bump j) = job_error_reason j" "job_options (bump j) = job_options j"
  "job_artifacts (bump j) = job_artifacts j" "job_request_id (bump j) = job_request_id j"
  "job_idempotency_key (bump j) = job_idempotency_key j"
  by (simp_all add: bump_def)

definition next_rev :: "ajob \<Rightarrow> ajob" where
  "next_rev s = s\<lparr>aj_revision := aj_revision s + 1\<rparr>"

lemma next_rev_sel [simp]:
  "aj_revision (next_rev s) = aj_revision s + 1" "aj_state (next_rev s) = aj_state s"
  "aj_pages (next_rev s) = aj_pages s" "aj_attempt (next_rev s) = aj_attempt s"
  "aj_id (next_rev s) = aj_id s" "aj_owner (next_rev s) = aj_owner s"
  "aj_upload (next_rev s) = aj_upload s" "aj_finished (next_rev s) = aj_finished s"
  "aj_error (next_rev s) = aj_error s"
  by (simp_all add: next_rev_def)

section \<open>Steps\<close>

definition reset_page :: "apage \<Rightarrow> apage" where
  "reset_page p =
     (if ap_state p = P_SUCCEEDED then p
      else p\<lparr>ap_state := P_PENDING, ap_attempts := 0, ap_result := None\<rparr>)"

definition active_states :: "job_state set" where
  "active_states = {PREPROCESSING, RUNNING, ASSEMBLING}"

inductive api_step :: "ajob \<Rightarrow> ajob \<Rightarrow> bool" where
  cancel_waiting: "aj_state s \<in> {QUEUED, RETRYING} \<Longrightarrow>
    api_step s (next_rev (s\<lparr>aj_state := CANCELLED, aj_finished := True\<rparr>))"
| cancel_active: "aj_state s \<in> active_states \<Longrightarrow>
    api_step s (next_rev (s\<lparr>aj_state := CANCEL_REQUESTED\<rparr>))"
| retry: "aj_state s \<in> {FAILED, CANCELLED} \<Longrightarrow>
    api_step s (next_rev (s\<lparr>aj_state := RETRYING, aj_attempt := aj_attempt s + 1,
      aj_finished := False, aj_error := None, aj_pages := map reset_page (aj_pages s)\<rparr>))"

text \<open>One page may be started while budget is left, completed, or given up.\<close>

inductive page_step :: "int \<Rightarrow> apage \<Rightarrow> apage \<Rightarrow> bool" for budget where
  page_started: "int (ap_attempts p) < budget \<Longrightarrow>
    page_step budget p (p\<lparr>ap_state := P_RUNNING, ap_attempts := ap_attempts p + 1\<rparr>)"
| page_error_noted: "page_step budget p p"
| page_completed: "page_step budget p (p\<lparr>ap_state := P_SUCCEEDED, ap_result := Some key\<rparr>)"
| page_given_up: "page_step budget p (p\<lparr>ap_state := P_FAILED\<rparr>)"

inductive worker_step :: "int \<Rightarrow> ajob \<Rightarrow> ajob \<Rightarrow> bool" for budget where
  begin_preprocessing: "aj_state s \<in> {QUEUED, RETRYING} \<Longrightarrow>
    worker_step budget s (next_rev (s\<lparr>aj_state := PREPROCESSING\<rparr>))"
| pages_prepared: "aj_state s = PREPROCESSING \<Longrightarrow> aj_pages s = [] \<Longrightarrow> pgs \<noteq> [] \<Longrightarrow>
    list_all (\<lambda>p. ap_state p = P_PENDING \<and> ap_attempts p = 0 \<and> ap_result p = None) pgs \<Longrightarrow>
    worker_step budget s (next_rev (s\<lparr>aj_pages := pgs\<rparr>))"
| begin_running: "aj_state s = PREPROCESSING \<Longrightarrow> aj_pages s \<noteq> [] \<Longrightarrow>
    worker_step budget s (next_rev (s\<lparr>aj_state := RUNNING\<rparr>))"
| page_checkpoint: "aj_state s \<in> {RUNNING, CANCEL_REQUESTED} \<Longrightarrow> i < length (aj_pages s) \<Longrightarrow>
    ap_state (aj_pages s ! i) \<noteq> P_SUCCEEDED \<Longrightarrow> page_step budget (aj_pages s ! i) p \<Longrightarrow>
    worker_step budget s (next_rev (s\<lparr>aj_pages := (aj_pages s)[i := p]\<rparr>))"
| begin_assembling: "aj_state s = RUNNING \<Longrightarrow>
    list_all (\<lambda>p. ap_state p = P_SUCCEEDED) (aj_pages s) \<Longrightarrow>
    worker_step budget s (next_rev (s\<lparr>aj_state := ASSEMBLING\<rparr>))"
| succeed: "aj_state s = ASSEMBLING \<Longrightarrow> aj_pages s \<noteq> [] \<Longrightarrow>
    list_all (\<lambda>p. ap_state p = P_SUCCEEDED) (aj_pages s) \<Longrightarrow>
    worker_step budget s
      (next_rev (s\<lparr>aj_state := SUCCEEDED, aj_finished := True, aj_error := None\<rparr>))"
| fail: "aj_state s \<in> {QUEUED, RETRYING} \<union> active_states \<Longrightarrow>
    worker_step budget s
      (next_rev (s\<lparr>aj_state := FAILED, aj_finished := True, aj_error := Some r\<rparr>))"
| cancel: "aj_state s = CANCEL_REQUESTED \<Longrightarrow>
    worker_step budget s (next_rev (s\<lparr>aj_state := CANCELLED, aj_finished := True\<rparr>))"

text \<open>What a step was, from the states before and after.\<close>

inductive_cases api_stepE: "api_step s t"
inductive_cases page_stepE: "page_step budget p q"
inductive_cases worker_stepE: "worker_step budget s t"

definition job_step :: "int \<Rightarrow> ajob \<Rightarrow> ajob \<Rightarrow> bool" where
  "job_step budget s t \<longleftrightarrow> api_step s t \<or> worker_step budget s t"

abbreviation lifecycle :: "int \<Rightarrow> ajob \<Rightarrow> ajob \<Rightarrow> bool" where
  "lifecycle budget \<equiv> (job_step budget)\<^sup>*\<^sup>*"

section \<open>Revisions\<close>

lemma api_step_revision: "api_step s t \<Longrightarrow> aj_revision t = aj_revision s + 1"
  by (auto elim: api_stepE)

lemma worker_step_revision: "worker_step b s t \<Longrightarrow> aj_revision t = aj_revision s + 1"
  by (auto elim: worker_stepE)

lemma lifecycle_revision: "lifecycle b s t \<Longrightarrow> t = s \<or> aj_revision s < aj_revision t"
  by (induction rule: rtranclp_induct)
    (auto simp: job_step_def dest: api_step_revision worker_step_revision)

lemma api_steps_lifecycle: "api_step\<^sup>*\<^sup>* s t \<Longrightarrow> lifecycle b s t"
  by (erule rtranclp_mono [THEN predicate2D, rotated]) (auto simp: job_step_def)

lemma api_steps_revision: "api_step\<^sup>*\<^sup>* s t \<Longrightarrow> t = s \<or> aj_revision s < aj_revision t"
  by (blast dest: api_steps_lifecycle lifecycle_revision)

text \<open>While the worker owns a job, the API can only ask for its cancellation.\<close>

lemma api_step_active:
  assumes "api_step s t" and "st \<in> active_states" and "aj_state s \<in> {st, CANCEL_REQUESTED}"
  shows "aj_state t \<in> {st, CANCEL_REQUESTED} \<and> aj_pages t = aj_pages s"
  using assms by (auto elim!: api_stepE simp: active_states_def)

lemma api_steps_active:
  assumes "api_step\<^sup>*\<^sup>* s t" and "st \<in> active_states" and "aj_state s \<in> {st, CANCEL_REQUESTED}"
  shows "aj_state t \<in> {st, CANCEL_REQUESTED} \<and> aj_pages t = aj_pages s"
  using assms(1)
proof (induction rule: rtranclp_induct)
  case (step u v)
  with api_step_active [of u v st] assms(2) show ?case by metis
qed (use assms(3) in simp)

section \<open>What every life cycle keeps\<close>

definition apage_ok :: "int \<Rightarrow> apage \<Rightarrow> bool" where
  "apage_ok budget p \<longleftrightarrow> int (ap_attempts p) \<le> budget \<and>
     (ap_state p = P_SUCCEEDED \<longrightarrow> ap_result p \<noteq> None)"

definition all_done :: "apage list \<Rightarrow> bool" where
  "all_done pgs \<longleftrightarrow> pgs \<noteq> [] \<and> list_all (\<lambda>p. ap_state p = P_SUCCEEDED) pgs"

fun state_ok :: "job_state \<Rightarrow> ajob \<Rightarrow> bool" where
  "state_ok FAILED s = (aj_finished s \<and> aj_error s \<noteq> None)"
| "state_ok SUCCEEDED s = (aj_finished s \<and> aj_error s = None \<and> all_done (aj_pages s))"
| "state_ok CANCELLED s = aj_finished s"
| "state_ok RUNNING s = (\<not> aj_finished s \<and> aj_pages s \<noteq> [])"
| "state_ok ASSEMBLING s = (\<not> aj_finished s \<and> all_done (aj_pages s))"
| "state_ok st s = (\<not> aj_finished s)"

definition aj_ok :: "int \<Rightarrow> ajob \<Rightarrow> bool" where
  "aj_ok budget s \<longleftrightarrow>
     1 \<le> aj_attempt s \<and> state_ok (aj_state s) s \<and> list_all (apage_ok budget) (aj_pages s)"

lemma active_not_finished: "aj_state s \<in> active_states \<Longrightarrow> state_ok (aj_state s) s \<Longrightarrow> \<not> aj_finished s"
  by (auto simp: active_states_def)

lemma api_step_ok:
  assumes "api_step s t" and "aj_ok b s" and "0 \<le> b"
  shows "aj_ok b t"
  using assms(1)
proof cases
  case cancel_waiting
  with assms(2) show ?thesis by (simp add: aj_ok_def)
next
  case cancel_active
  with assms(2) active_not_finished [of s] show ?thesis by (simp add: aj_ok_def)
next
  case retry
  moreover from assms(3) have "apage_ok b p \<Longrightarrow> apage_ok b (reset_page p)" for p
    by (simp add: apage_ok_def reset_page_def)
  ultimately show ?thesis using assms(2) by (simp add: aj_ok_def list_all_iff)
qed

lemma page_step_ok:
  assumes "page_step b p q" and "apage_ok b p" and "ap_state p \<noteq> P_SUCCEEDED"
  shows "apage_ok b q"
  using assms by (auto elim!: page_stepE simp: apage_ok_def)

lemma list_all_update: "list_all P xs \<Longrightarrow> P x \<Longrightarrow> list_all P (xs[i := x])"
  by (auto simp: list_all_iff dest!: set_update_subset_insert [THEN subsetD])

lemma worker_step_ok:
  assumes "worker_step b s t" and "aj_ok b s" and "0 \<le> b"
  shows "aj_ok b t"
  using assms(1)
proof cases
  case (page_checkpoint i p)
  with assms(2) have "apage_ok b p"
    by (auto simp: aj_ok_def list_all_length intro: page_step_ok)
  moreover have "aj_pages s \<noteq> []" using page_checkpoint by auto
  ultimately show ?thesis
    using page_checkpoint(2) assms(2)
    by (auto simp: page_checkpoint(1) aj_ok_def intro: list_all_update)
next
  case (pages_prepared pgs)
  then have "list_all (apage_ok b) pgs" using assms(3) by (auto simp: list_all_iff apage_ok_def)
  with pages_prepared assms(2) show ?thesis by (simp add: aj_ok_def)
next
  case (fail r)
  with assms(2) show ?thesis by (simp add: aj_ok_def)
next
  case begin_assembling
  with assms(2) show ?thesis by (simp add: aj_ok_def all_done_def)
next
  case succeed
  with assms(2) show ?thesis by (simp add: aj_ok_def all_done_def)
next
  case begin_preprocessing
  with assms(2) show ?thesis by (auto simp: aj_ok_def)
qed (use assms(2) in \<open>simp add: aj_ok_def\<close>)+

lemma lifecycle_ok: "lifecycle b s t \<Longrightarrow> aj_ok b s \<Longrightarrow> 0 \<le> b \<Longrightarrow> aj_ok b t"
  by (induction rule: rtranclp_induct) (auto simp: job_step_def intro: api_step_ok worker_step_ok)

lemma api_step_attempt: "api_step s t \<Longrightarrow> aj_attempt s \<le> aj_attempt t"
  by (erule api_stepE) auto

lemma worker_step_attempt: "worker_step b s t \<Longrightarrow> aj_attempt t = aj_attempt s"
  by (erule worker_stepE) auto

lemma job_step_attempt: "job_step b s t \<Longrightarrow> aj_attempt s \<le> aj_attempt t"
  by (auto simp: job_step_def dest: api_step_attempt worker_step_attempt)

lemma lifecycle_attempt: "lifecycle b s t \<Longrightarrow> aj_attempt s \<le> aj_attempt t"
  by (induction rule: rtranclp_induct) (auto dest: job_step_attempt)

definition same_identity :: "ajob \<Rightarrow> ajob \<Rightarrow> bool" where
  "same_identity s t \<longleftrightarrow> aj_id t = aj_id s \<and> aj_owner t = aj_owner s \<and> aj_upload t = aj_upload s"

lemma job_step_identity: "job_step b s t \<Longrightarrow> same_identity s t"
  unfolding job_step_def
  by (erule disjE; erule api_stepE worker_stepE; simp add: same_identity_def)

lemma lifecycle_identity: "lifecycle b s t \<Longrightarrow> same_identity s t"
  by (induction rule: rtranclp_induct) (auto simp: same_identity_def dest!: job_step_identity)

text \<open>A success is final.\<close>

lemma job_step_not_succeeded:
  assumes "job_step b s t"
  shows "aj_state s \<noteq> SUCCEEDED"
  using assms unfolding job_step_def
  by (elim disjE; elim api_stepE worker_stepE; auto simp: active_states_def)

lemma lifecycle_succeeded: "lifecycle b s t \<Longrightarrow> aj_state s = SUCCEEDED \<Longrightarrow> t = s"
  by (erule converse_rtranclpE) (auto dest: job_step_not_succeeded)

text \<open>An accepted cancellation is never overwritten within its attempt.\<close>

definition cancel_kept :: "int \<Rightarrow> ajob \<Rightarrow> bool" where
  "cancel_kept attempt s \<longleftrightarrow> attempt < aj_attempt s \<or>
     (aj_attempt s = attempt \<and> aj_state s \<in> {CANCEL_REQUESTED, CANCELLED})"

lemma job_step_cancel_kept:
  assumes "job_step b s t" and "cancel_kept n s"
  shows "cancel_kept n t"
proof (cases "aj_attempt s = n")
  case False
  with assms job_step_attempt [OF assms(1)] show ?thesis by (auto simp: cancel_kept_def)
next
  case True
  with assms(2) have st: "aj_state s = CANCEL_REQUESTED \<or> aj_state s = CANCELLED"
    by (simp add: cancel_kept_def)
  from assms(1) True st show ?thesis
    unfolding job_step_def
    by (elim disjE [of "api_step s t"]; elim api_stepE worker_stepE;
        auto simp: active_states_def cancel_kept_def)
qed

lemma lifecycle_cancel_kept: "lifecycle b s t \<Longrightarrow> cancel_kept n s \<Longrightarrow> cancel_kept n t"
  by (induction rule: rtranclp_induct) (auto intro: job_step_cancel_kept)

text \<open>A completed page keeps its result, through every later save and every retry.\<close>

definition page_kept :: "nat \<Rightarrow> ajob \<Rightarrow> ajob \<Rightarrow> bool" where
  "page_kept i s t \<longleftrightarrow> i < length (aj_pages t) \<and> aj_pages t ! i = aj_pages s ! i"

lemma reset_page_succeeded [simp]: "ap_state p = P_SUCCEEDED \<Longrightarrow> reset_page p = p"
  by (simp add: reset_page_def)

lemma api_step_page_kept:
  assumes "api_step s t" and "i < length (aj_pages s)" and "ap_state (aj_pages s ! i) = P_SUCCEEDED"
  shows "page_kept i s t"
  using assms by (auto elim!: api_stepE simp: page_kept_def)

lemma worker_step_page_kept:
  assumes "worker_step b s t" and "i < length (aj_pages s)"
    and "ap_state (aj_pages s ! i) = P_SUCCEEDED"
  shows "page_kept i s t"
  using assms
  by (auto elim!: worker_stepE simp: page_kept_def nth_list_update)

lemma lifecycle_page_kept:
  assumes "lifecycle b s t" and "i < length (aj_pages s)" and "ap_state (aj_pages s ! i) = P_SUCCEEDED"
  shows "page_kept i s t"
  using assms(1)
proof (induction rule: rtranclp_induct)
  case base
  with assms(2) show ?case by (simp add: page_kept_def)
next
  case (step u v)
  with assms(3) have "page_kept i u v"
    by (auto simp: job_step_def page_kept_def [of i s u]
        intro: api_step_page_kept worker_step_page_kept)
  with step.IH show ?case by (simp add: page_kept_def)
qed

section \<open>The domain methods refine the steps\<close>

lemma job_transition_Inr:
  "job_transition now target allowed j = Inr j' \<longleftrightarrow>
     job_state j \<in> allowed \<and> j' = j\<lparr>job_state := target, job_updated_at := now\<rparr>"
  by (auto simp: job_transition_def)

lemma job_transition_Inl:
  "job_transition now target allowed j = Inl e \<longleftrightarrow> job_state j \<notin> allowed \<and>
     e = ValueError (''cannot transition job from '' @ job_state_str (job_state j) @ '' to '' @
       job_state_str target)"
  by (auto simp: job_transition_def)

lemmas job_method_defs =
  job_begin_preprocessing_def job_set_pages_def job_begin_running_def job_request_cancel_def
  job_cancel_def job_begin_assembling_def job_succeed_def job_fail_def job_retry_def

lemma abs_job_eqI:
  assumes "job_id a = aj_id s" "job_owner_id a = aj_owner s" "job_upload_id a = aj_upload s"
    "job_state a = aj_state s" "job_attempt a = aj_attempt s" "job_revision a = aj_revision s"
    "map abs_page (job_pages a) = aj_pages s" "(job_completed_at a \<noteq> None) = aj_finished s"
    "job_error_reason a = aj_error s"
  shows "abs_job a = s"
  using assms by (cases s) (simp add: abs_job_def)

lemma abs_page_prepare_retry: "abs_page (page_prepare_retry p) = reset_page (abs_page p)"
  by (simp add: abs_page_def page_prepare_retry_def reset_page_def)

lemma refines_begin_preprocessing:
  assumes "job_begin_preprocessing t1 t2 j = Inr j'"
  shows "worker_step b (abs_job j) (abs_job (bump j')) \<and> job_id j' = job_id j \<and>
    job_revision j' = job_revision j \<and> job_state j' = PREPROCESSING \<and> job_pages j' = job_pages j"
proof -
  from assms have st: "job_state j \<in> {QUEUED, RETRYING}"
    and fields: "job_id j' = job_id j" "job_revision j' = job_revision j" "job_state j' = PREPROCESSING"
      "job_pages j' = job_pages j"
    by (auto simp: job_begin_preprocessing_def job_transition_def split: if_splits option.splits)
  from assms have "abs_job (bump j') = next_rev ((abs_job j)\<lparr>aj_state := PREPROCESSING\<rparr>)"
    by (auto simp: job_begin_preprocessing_def job_transition_def split: if_splits option.splits
        intro!: abs_job_eqI)
  then have step: "worker_step b (abs_job j) (abs_job (bump j'))"
    using worker_step.begin_preprocessing [of "abs_job j" b] st by (simp add: list_all_iff)
  show ?thesis by (intro conjI step) (simp_all add: fields)
qed

lemma refines_set_pages:
  assumes "job_set_pages now pages j = Inr j'" and "job_pages j = []"
    and fresh: "list_all (\<lambda>p. page_state p = P_PENDING \<and> page_processing_attempts p = 0 \<and>
      page_result_object_key p = None) pages"
  shows "worker_step b (abs_job j) (abs_job (bump j')) \<and> job_id j' = job_id j \<and>
    job_revision j' = job_revision j \<and> job_state j' = PREPROCESSING \<and> job_pages j' = pages \<and> pages \<noteq> []"
proof -
  from assms(1) have eq: "j' = j\<lparr>job_pages := pages, job_updated_at := now\<rparr>"
    and st: "job_state j = PREPROCESSING" and ne: "pages \<noteq> []"
    by (auto simp: job_set_pages_def split: if_splits)
  have "abs_job (bump j') = next_rev ((abs_job j)\<lparr>aj_pages := map abs_page pages\<rparr>)"
    by (rule abs_job_eqI) (simp_all add: eq)
  moreover have "worker_step b (abs_job j) (next_rev ((abs_job j)\<lparr>aj_pages := map abs_page pages\<rparr>))"
    by (rule worker_step.pages_prepared) (use st ne assms(2) fresh in \<open>auto simp: list_all_iff\<close>)
  ultimately have step: "worker_step b (abs_job j) (abs_job (bump j'))" by simp
  show ?thesis by (intro conjI step) (simp_all add: eq st ne)
qed

lemma refines_begin_running:
  assumes "job_begin_running now j = Inr j'" and "job_pages j \<noteq> []"
  shows "worker_step b (abs_job j) (abs_job (bump j')) \<and> job_id j' = job_id j \<and>
    job_revision j' = job_revision j \<and> job_state j' = RUNNING \<and> job_pages j' = job_pages j"
proof -
  from assms(1) have eq: "j' = j\<lparr>job_state := RUNNING, job_updated_at := now\<rparr>"
    and st: "job_state j = PREPROCESSING"
    by (auto simp: job_begin_running_def job_transition_Inr)
  have "abs_job (bump j') = next_rev ((abs_job j)\<lparr>aj_state := RUNNING\<rparr>)"
    by (rule abs_job_eqI) (simp_all add: eq)
  then have step: "worker_step b (abs_job j) (abs_job (bump j'))"
    using worker_step.begin_running [of "abs_job j" b] st assms(2) by (simp add: list_all_iff)
  show ?thesis by (intro conjI step) (simp_all add: eq)
qed

lemma refines_begin_assembling:
  assumes "job_begin_assembling now j = Inr j'"
    and "list_all (\<lambda>p. page_state p = P_SUCCEEDED) (job_pages j)"
  shows "worker_step b (abs_job j) (abs_job (bump j')) \<and> job_id j' = job_id j \<and>
    job_revision j' = job_revision j \<and> job_state j' = ASSEMBLING \<and> job_pages j' = job_pages j"
proof -
  from assms(1) have eq: "j' = j\<lparr>job_state := ASSEMBLING, job_updated_at := now\<rparr>"
    and st: "job_state j = RUNNING"
    by (auto simp: job_begin_assembling_def job_transition_Inr)
  have "abs_job (bump j') = next_rev ((abs_job j)\<lparr>aj_state := ASSEMBLING\<rparr>)"
    by (rule abs_job_eqI) (simp_all add: eq)
  then have step: "worker_step b (abs_job j) (abs_job (bump j'))"
    using worker_step.begin_assembling [of "abs_job j" b] st assms(2) by (simp add: list_all_iff)
  show ?thesis by (intro conjI step) (simp_all add: eq)
qed

lemma refines_succeed:
  assumes "job_succeed t1 t2 artifacts j = Inr j'"
  shows "worker_step b (abs_job j) (abs_job (bump j')) \<and> job_id j' = job_id j \<and>
    job_revision j' = job_revision j \<and> job_state j' = SUCCEEDED"
proof -
  from assms have eq: "j' = j\<lparr>job_state := SUCCEEDED, job_updated_at := t1,
      job_artifacts := artifacts, job_completed_at := Some t2, job_internal_code := 0,
      job_error_reason := None\<rparr>" and st: "job_state j = ASSEMBLING" and ne: "job_pages j \<noteq> []"
    and all: "list_all (\<lambda>p. page_state p = P_SUCCEEDED) (job_pages j)"
    by (auto simp: job_succeed_def job_transition_def list_all_iff split: if_splits)
  have "abs_job (bump j') =
      next_rev ((abs_job j)\<lparr>aj_state := SUCCEEDED, aj_finished := True, aj_error := None\<rparr>)"
    by (rule abs_job_eqI) (simp_all add: eq)
  then have step: "worker_step b (abs_job j) (abs_job (bump j'))"
    using worker_step.succeed [of "abs_job j" b] st ne all by (simp add: list_all_iff)
  show ?thesis by (intro conjI step) (simp_all add: eq)
qed

lemma refines_fail:
  assumes "job_fail t1 t2 reason code j = Inr j'" and "job_state j \<noteq> CANCEL_REQUESTED"
  shows "worker_step b (abs_job j) (abs_job (bump j')) \<and> job_id j' = job_id j \<and>
    job_revision j' = job_revision j \<and> job_state j' = FAILED"
proof -
  from assms have eq: "j' = j\<lparr>job_state := FAILED, job_updated_at := t1,
      job_internal_code := code, job_error_reason := Some reason, job_completed_at := Some t2\<rparr>"
    and st: "job_state j \<in> {QUEUED, RETRYING} \<union> active_states"
    by (auto simp: job_fail_def job_transition_def active_states_def split: if_splits)
  have "abs_job (bump j') =
      next_rev ((abs_job j)\<lparr>aj_state := FAILED, aj_finished := True, aj_error := Some reason\<rparr>)"
    by (rule abs_job_eqI) (simp_all add: eq)
  then have step: "worker_step b (abs_job j) (abs_job (bump j'))"
    using worker_step.fail [of "abs_job j" b reason] st by (simp add: list_all_iff)
  show ?thesis by (intro conjI step) (simp_all add: eq)
qed

lemma refines_cancel:
  assumes "job_cancel t1 t2 j = Inr j'"
  shows "worker_step b (abs_job j) (abs_job (bump j')) \<and> job_id j' = job_id j \<and>
    job_revision j' = job_revision j \<and> job_state j' = CANCELLED"
proof -
  from assms have eq: "j' = j\<lparr>job_state := CANCELLED, job_updated_at := t1, job_completed_at := Some t2\<rparr>"
    and st: "job_state j = CANCEL_REQUESTED"
    by (auto simp: job_cancel_def job_transition_def split: if_splits)
  have "abs_job (bump j') = next_rev ((abs_job j)\<lparr>aj_state := CANCELLED, aj_finished := True\<rparr>)"
    by (rule abs_job_eqI) (simp_all add: eq)
  then have step: "worker_step b (abs_job j) (abs_job (bump j'))"
    using worker_step.cancel [of "abs_job j" b] st by (simp add: list_all_iff)
  show ?thesis by (intro conjI step) (simp_all add: eq)
qed

lemma refines_retry:
  assumes "job_retry now request_id j = Inr j'"
  shows "api_step (abs_job j) (abs_job (bump j')) \<and> job_id j' = job_id j \<and>
    job_revision j' = job_revision j \<and> job_state j' = RETRYING"
proof -
  from assms have st: "job_state j \<in> {FAILED, CANCELLED}" and
    eq: "j' = j\<lparr>job_state := RETRYING, job_updated_at := now, job_attempt := job_attempt j + 1,
      job_request_id := request_id, job_internal_code := 0, job_error_reason := None,
      job_started_at := None, job_completed_at := None, job_artifacts := [],
      job_pages := map page_prepare_retry (job_pages j)\<rparr>"
    by (auto simp: job_retry_def job_transition_def split: if_splits)
  have "abs_job (bump j') = next_rev ((abs_job j)\<lparr>aj_state := RETRYING,
      aj_attempt := aj_attempt (abs_job j) + 1, aj_finished := False, aj_error := None,
      aj_pages := map reset_page (aj_pages (abs_job j))\<rparr>)"
    by (rule abs_job_eqI) (simp_all add: eq abs_page_prepare_retry)
  then have step: "api_step (abs_job j) (abs_job (bump j'))"
    using api_step.retry [of "abs_job j"] st by simp
  show ?thesis by (intro conjI step) (simp_all add: eq)
qed

text \<open>A request to cancel: a waiting job is cancelled at once, an active one is marked.\<close>

lemma refines_request_cancel:
  assumes "job_request_cancel t j = Inr j'" and "job_state j \<notin> {QUEUED, RETRYING}"
  shows "api_step (abs_job j) (abs_job (bump j'))"
proof -
  from assms have st: "job_state j \<in> active_states"
    and eq: "j' = j\<lparr>job_state := CANCEL_REQUESTED, job_updated_at := t\<rparr>"
    by (auto simp: job_request_cancel_def job_transition_Inr active_states_def)
  have "abs_job (bump j') = next_rev ((abs_job j)\<lparr>aj_state := CANCEL_REQUESTED\<rparr>)"
    by (rule abs_job_eqI) (simp_all add: eq)
  with st show ?thesis using api_step.cancel_active [of "abs_job j"] by simp
qed

lemma refines_cancel_waiting:
  assumes "job_request_cancel t j = Inr j1" and "job_cancel t1 t2 j1 = Inr j2"
    and "job_state j \<in> {QUEUED, RETRYING}"
  shows "api_step (abs_job j) (abs_job (bump j2))"
proof -
  from assms(1,2) have eq: "j2 = j\<lparr>job_state := CANCELLED, job_updated_at := t1, job_completed_at := Some t2\<rparr>"
    by (auto simp: job_request_cancel_def job_cancel_def job_transition_Inr split: sum.splits)
  have "abs_job (bump j2) = next_rev ((abs_job j)\<lparr>aj_state := CANCELLED, aj_finished := True\<rparr>)"
    by (rule abs_job_eqI) (simp_all add: eq)
  with assms(3) show ?thesis using api_step.cancel_waiting [of "abs_job j"] by simp
qed

end
