(* ===== verification/Interference.thy ===== *)
theory Interference
  imports Lifecycle
begin

text \<open>
  Interference between the tasks that share a stored job. \<open>moves rel view\<close> says that the job
  that \<open>view\<close> reads from the world has moved along \<open>rel\<close>, or is gone (retention may delete it;
  an identifier is never used again). \<open>seen_by rel view j\<close> says that the stored job is \<open>j\<close>, or
  what steps of \<open>rel\<close> have made of it since, or gone: it is what a task still knows of a job it
  has read while others may take \<open>rel\<close> steps. The rules give triples whose relation is
  \<open>moves rel view\<close>.
\<close>

section \<open>Moves of the stored job\<close>

definition moves :: "(ajob \<Rightarrow> ajob \<Rightarrow> bool) \<Rightarrow> ('w \<Rightarrow> ajob option) \<Rightarrow> 'w \<Rightarrow> 'w \<Rightarrow> bool" where
  "moves rel view w w' \<longleftrightarrow>
     (case view w' of
        None \<Rightarrow> True
      | Some t \<Rightarrow> (case view w of None \<Rightarrow> False | Some s \<Rightarrow> rel\<^sup>*\<^sup>* s t))"

abbreviation evolves :: "int \<Rightarrow> ('w \<Rightarrow> ajob option) \<Rightarrow> 'w \<Rightarrow> 'w \<Rightarrow> bool" where
  "evolves b \<equiv> moves (job_step b)"

abbreviation api_evolves :: "('w \<Rightarrow> ajob option) \<Rightarrow> 'w \<Rightarrow> 'w \<Rightarrow> bool" where
  "api_evolves \<equiv> moves api_step"

definition seen_by :: "(ajob \<Rightarrow> ajob \<Rightarrow> bool) \<Rightarrow> ('w \<Rightarrow> ajob option) \<Rightarrow> job \<Rightarrow> 'w \<Rightarrow> bool" where
  "seen_by rel view j w \<longleftrightarrow> (case view w of None \<Rightarrow> True | Some t \<Rightarrow> rel\<^sup>*\<^sup>* (abs_job j) t)"

abbreviation seen :: "('w \<Rightarrow> ajob option) \<Rightarrow> job \<Rightarrow> 'w \<Rightarrow> bool" where
  "seen \<equiv> seen_by api_step"

lemma moves_refl: "moves rel view w w"
  by (auto simp: moves_def split: option.splits)

lemma moves_trans: "moves rel view u v \<Longrightarrow> moves rel view v w \<Longrightarrow> moves rel view u w"
  by (auto simp: moves_def split: option.splits)

lemma moves_mono:
  assumes "moves rel view u v" and "\<And>s t. rel s t \<Longrightarrow> rel' s t"
  shows "moves rel' view u v"
  using assms(1) rtranclp_mono [of rel rel'] assms(2)
  by (fastforce simp: moves_def split: option.splits)

lemma moves_same: "view u = view v \<Longrightarrow> moves rel view u v"
  by (auto simp: moves_def split: option.splits)

lemma api_evolves_evolves: "api_evolves view w w' \<Longrightarrow> evolves b view w w'"
  by (erule moves_mono) (simp add: job_step_def)

lemma seen_moves: "seen_by rel view j w \<Longrightarrow> moves rel view w w' \<Longrightarrow> seen_by rel view j w'"
  by (auto simp: seen_by_def moves_def split: option.splits)

lemma seen_revision:
  assumes "seen view j w" and "view w = Some s" and "aj_revision s = job_revision j"
  shows "s = abs_job j"
  using assms by (auto simp: seen_by_def dest: api_steps_revision)

lemma seen_abs_eq: "abs_job j = abs_job j' \<Longrightarrow> seen_by rel view j w = seen_by rel view j' w"
  by (simp add: seen_by_def split: option.split)

text \<open>A program during which the world moves along \<open>env\<close> only, and which returns or raises.\<close>

definition quiet :: "('w \<Rightarrow> 'w \<Rightarrow> bool) \<Rightarrow> ('w, 'e, 'a) prog \<Rightarrow> bool" where
  "quiet env m \<longleftrightarrow> (\<forall>w. env w (snd (m w)) \<and> fst (m w) \<noteq> Diverged)"

text \<open>The save of \<open>j\<close> was accepted: the stored revision was the one of \<open>j\<close>.\<close>

definition commits :: "('w \<Rightarrow> 'w \<Rightarrow> bool) \<Rightarrow> ('w \<Rightarrow> ajob option) \<Rightarrow> job \<Rightarrow> 'w \<Rightarrow> 'w \<Rightarrow> bool" where
  "commits env view j w w' \<longleftrightarrow>
     (\<exists>u v s. env w u \<and> view u = Some s \<and> aj_revision s = job_revision j \<and>
        view v = Some (abs_job (bump j)) \<and> env v w')"

section \<open>Triple rules\<close>

lemma triple_pure:
  assumes "\<And>w. P w \<Longrightarrow> C" and "C \<Longrightarrow> triple R P m Q E"
  shows "triple R P m Q E"
  using assms by (cases C) (auto simp: triple_def)

lemma ret_rule: "(\<And>w. P w \<Longrightarrow> Q x w) \<Longrightarrow> triple (moves rel view) P (ret x) Q E"
  by (intro triple_ret moves_refl)

lemma raise_rule: "(\<And>w. P w \<Longrightarrow> E e w) \<Longrightarrow> triple (moves rel view) P (raise_exc e) Q E"
  by (intro triple_raise moves_refl)

lemma bind_rule:
  assumes "triple (moves rel view) P m Q E" and "\<And>x. triple (moves rel view) (Q x) (k x) S E"
  shows "triple (moves rel view) P (bind_prog m k) S E"
  by (rule triple_bind [OF _ assms]) (rule moves_trans)

lemma catch_rule:
  assumes "triple (moves rel view) P m Q F" and "\<And>e. triple (moves rel view) (F e) (h e) Q E"
  shows "triple (moves rel view) P (catch_prog m h) Q E"
  by (rule triple_catch [OF _ assms]) (rule moves_trans)

lemma database_rule:
  assumes "triple (moves rel view) P m Q (\<lambda>_. E)"
  shows "triple (moves rel view) P (worker_database m) Q (\<lambda>_. E)"
    and "triple (moves rel view) P (service_database m) Q (\<lambda>_. E)"
  by (rule triple_wrapper [OF _ _ assms]; (rule moves_refl | erule (1) moves_trans))+

lemma lift_rule:
  assumes "\<And>e w. r = Inl e \<Longrightarrow> P w \<Longrightarrow> E e w"
    and "\<And>x. r = Inr x \<Longrightarrow> triple (moves rel view) P (k x) Q E"
  shows "triple (moves rel view) P (bind_prog (lift_sum r) k) Q E"
proof (cases r)
  case (Inl e)
  then have "bind_prog (lift_sum r) k = raise_exc e" by (simp only: lift_sum_simps bind_raise)
  then show ?thesis using assms(1) [OF Inl] by (simp only: raise_rule)
next
  case (Inr x)
  then have "bind_prog (lift_sum r) k = k x" by (simp only: lift_sum_simps bind_ret)
  then show ?thesis using assms(2) [OF Inr] by simp
qed

lemma lift_local_rule:
  assumes "\<And>e w. r = Inl e \<Longrightarrow> P w \<Longrightarrow> E (e, l) w"
    and "\<And>x. r = Inr x \<Longrightarrow> triple (moves rel view) P (k x) Q E"
  shows "triple (moves rel view) P (bind_prog (at_local l (lift_sum r)) k) Q E"
proof (cases r)
  case (Inl e)
  then have "bind_prog (at_local l (lift_sum r)) k = raise_exc (e, l)"
    by (simp only: lift_sum_simps at_local_raise bind_raise)
  then show ?thesis using assms(1) [OF Inl] by (simp only: raise_rule)
next
  case (Inr x)
  then have "bind_prog (at_local l (lift_sum r)) k = k x"
    by (simp only: lift_sum_simps at_local_ret bind_ret)
  then show ?thesis using assms(2) [OF Inr] by simp
qed

lemma triple_quiet_moves:
  assumes "quiet env m" and "\<And>u v. env u v \<Longrightarrow> moves rel view u v"
    and "\<And>u v. P u \<Longrightarrow> env u v \<Longrightarrow> P v"
  shows "triple (moves rel view) P m (\<lambda>_. P) (\<lambda>_. P)"
proof (rule tripleI)
  fix w r w'
  assume "P w" and m: "m w = (r, w')"
  with assms(1) have "env w w'" "r \<noteq> Diverged" by (metis quiet_def snd_conv fst_conv)+
  with \<open>P w\<close> assms(2,3)
  show "moves rel view w w' \<and> (case r of Done x \<Rightarrow> P w' | Raised e \<Rightarrow> P w' | Diverged \<Rightarrow> False)"
    by (auto split: outcome.split)
qed

lemma bind_quiet_moves:
  assumes "quiet env m" and "\<And>u v. env u v \<Longrightarrow> moves rel view u v"
    and "\<And>u v. P u \<Longrightarrow> env u v \<Longrightarrow> P v"
    and "\<And>x. triple (moves rel view) P (k x) S E" and "\<And>e w. P w \<Longrightarrow> E e w"
  shows "triple (moves rel view) P (bind_prog m k) S E"
  by (rule bind_rule [OF triple_err [OF triple_quiet_moves [OF assms(1-3)]]])
    (auto intro: assms(4,5))

end
