(* ===== verification/Service_Safety.thy ===== *)
theory Service_Safety
  imports Services Interference
begin

text \<open>
  Safety of the service against concurrent tasks. In \<open>service_world\<close> the other tasks move the
  stored job \<open>jid\<close> along \<open>rely\<close> (steps of the worker, steps of other requests, or none); the
  laws are optimistic locking and independence of other identifiers. Every use case then
  moves the stored job along \<open>rely\<close> and \<^const>\<open>api_step\<close> only, and a cancellation or a retry
  that returns has been recorded.
\<close>

definition with_api :: "(ajob \<Rightarrow> ajob \<Rightarrow> bool) \<Rightarrow> ajob \<Rightarrow> ajob \<Rightarrow> bool" where
  "with_api rely s t \<longleftrightarrow> rely s t \<or> api_step s t"

definition api_step_of :: "job \<Rightarrow> job \<Rightarrow> bool" where
  "api_step_of j j' \<longleftrightarrow> api_step (abs_job j) (abs_job (bump j')) \<and> job_id j' = job_id j \<and>
     job_revision j' = job_revision j"

text \<open>The job that a response describes is stored, or was and has been moved by others since.\<close>

definition reported :: "(ajob \<Rightarrow> ajob \<Rightarrow> bool) \<Rightarrow> ('w \<Rightarrow> ajob option) \<Rightarrow> uuid \<Rightarrow> job_state set \<Rightarrow> 'w \<Rightarrow> bool"
where
  "reported rely view jid states w \<longleftrightarrow>
     (\<exists>j. job_id j = jid \<and> job_state j \<in> states \<and> seen_by rely view j w)"

lemma seen_by_revision:
  assumes "seen_by rely view j w" and "view w = Some s" and "aj_revision s = job_revision j"
    and rev: "\<And>s t. rely s t \<Longrightarrow> aj_revision s < aj_revision t"
  shows "s = abs_job j"
proof -
  have "rely\<^sup>*\<^sup>* a b \<Longrightarrow> b = a \<or> aj_revision a < aj_revision b" for a b
    by (induction rule: rtranclp_induct) (auto dest: rev)
  moreover from assms(1,2) have "rely\<^sup>*\<^sup>* (abs_job j) s" by (simp add: seen_by_def)
  ultimately show ?thesis using assms(3) by fastforce
qed

lemma cancel_request_step:
  assumes "job_request_cancel t (j\<lparr>job_request_id := rid\<rparr>) = Inr j1" and "job_state j \<notin> {QUEUED, RETRYING}"
  shows "api_step_of j j1 \<and> job_state j1 = CANCEL_REQUESTED \<and> job_id j1 = job_id j"
proof -
  let ?j = "j\<lparr>job_request_id := rid\<rparr>"
  have abs: "abs_job ?j = abs_job j" by (rule abs_job_eqI) simp_all
  from assms have "api_step (abs_job ?j) (abs_job (bump j1))"
    by (intro refines_request_cancel [OF assms(1)]) simp
  with assms(1) show ?thesis
    unfolding abs by (auto simp: api_step_of_def job_request_cancel_def job_transition_Inr)
qed

lemma cancel_waiting_step:
  assumes "job_request_cancel t (j\<lparr>job_request_id := rid\<rparr>) = Inr j1" and "job_cancel t1 t2 j1 = Inr j2"
    and "job_state j \<in> {QUEUED, RETRYING}"
  shows "api_step_of j j2 \<and> job_state j2 = CANCELLED \<and> job_id j2 = job_id j"
proof -
  let ?j = "j\<lparr>job_request_id := rid\<rparr>"
  have abs: "abs_job ?j = abs_job j" by (rule abs_job_eqI) simp_all
  from assms have "api_step (abs_job ?j) (abs_job (bump j2))"
    by (intro refines_cancel_waiting [OF assms(1,2)]) simp
  with assms(1,2) show ?thesis
    unfolding abs
    by (auto simp: api_step_of_def job_request_cancel_def job_cancel_def job_transition_Inr split: sum.splits)
qed

locale service_world =
  fixes ps :: "'w ports" and rely :: "ajob \<Rightarrow> ajob \<Rightarrow> bool" and view :: "'w \<Rightarrow> ajob option"
    and jid :: uuid
  assumes rely_revision: "rely s t \<Longrightarrow> aj_revision s < aj_revision t"
    and get_quiet: "quiet (moves rely view) (p_jobs_get ps x)"
    and get_id: "p_jobs_get ps x w = (Done (Some j), w') \<Longrightarrow> job_id j = x"
    and get_view: "p_jobs_get ps jid w = (Done r, w') \<Longrightarrow> view w' = map_option abs_job r"
    and save_other: "job_id j \<noteq> jid \<Longrightarrow> quiet (moves rely view) (p_jobs_save_with_event ps j ev)"
    and save_done: "job_id j = jid \<Longrightarrow> p_jobs_save_with_event ps j ev w = (Done p, w') \<Longrightarrow>
      snd p = bump j \<and> commits (moves rely view) view j w w'"
    and save_raised: "job_id j = jid \<Longrightarrow> p_jobs_save_with_event ps j ev w = (Raised e, w') \<Longrightarrow>
      moves rely view w w' \<or> (e \<noteq> ConcurrentJobUpdateError \<and> commits (moves rely view) view j w w')"
    and save_returns: "job_id j = jid \<Longrightarrow> fst (p_jobs_save_with_event ps j ev w) \<noteq> Diverged"
    and save_id: "p_jobs_save_with_event ps j ev w = (Done p, w') \<Longrightarrow> snd p = bump j"
    and resave_other: "job_id j \<noteq> jid \<Longrightarrow> quiet (moves rely view) (p_jobs_save_with_outbox_and_event ps j ob ev)"
    and resave_done: "job_id j = jid \<Longrightarrow> p_jobs_save_with_outbox_and_event ps j ob ev w = (Done p, w') \<Longrightarrow>
      snd p = bump j \<and> commits (moves rely view) view j w w'"
    and resave_raised: "job_id j = jid \<Longrightarrow> p_jobs_save_with_outbox_and_event ps j ob ev w = (Raised e, w') \<Longrightarrow>
      moves rely view w w' \<or> (e \<noteq> ConcurrentJobUpdateError \<and> commits (moves rely view) view j w w')"
    and resave_returns: "job_id j = jid \<Longrightarrow> fst (p_jobs_save_with_outbox_and_event ps j ob ev w) \<noteq> Diverged"
    and resave_id: "p_jobs_save_with_outbox_and_event ps j ob ev w = (Done p, w') \<Longrightarrow> snd p = bump j"
    and clock_quiet: "quiet (moves rely view) (p_utc_now ps)"
    and uuid_quiet: "quiet (moves rely view) (p_uuid7 ps)"
    and uploads_quiet: "quiet (moves rely view) (p_uploads_get ps uid)"
begin

lemma rely_moves: "moves rely view u v \<Longrightarrow> moves (with_api rely) view u v"
  by (erule moves_mono) (simp add: with_api_def)

lemma bind_any:
  assumes "quiet (moves rely view) m"
    and "\<And>x. triple (moves (with_api rely) view) (\<lambda>_. True) (k x) S (\<lambda>_ _. True)"
  shows "triple (moves (with_api rely) view) (\<lambda>_. True) (bind_prog m k) S (\<lambda>_ _. True)"
  by (rule bind_quiet_moves [OF assms(1) rely_moves]) (auto intro: assms(2))

lemma bind_seen:
  assumes "quiet (moves rely view) m"
    and "\<And>x. triple (moves (with_api rely) view) (seen_by rely view j) (k x) S E"
    and "\<And>e w. E e w"
  shows "triple (moves (with_api rely) view) (seen_by rely view j) (bind_prog m k) S E"
  by (rule bind_quiet_moves [OF assms(1) rely_moves]) (auto intro: assms(2,3) seen_moves)

lemma commits_api:
  assumes step: "api_step_of j j'" and "seen_by rely view j w"
    and "commits (moves rely view) view j' w w'"
  shows "moves (with_api rely) view w w' \<and> seen_by rely view (bump j') w'"
proof -
  from assms(3) obtain u v s where env: "moves rely view w u" "moves rely view v w'" and u: "view u = Some s"
    and rev: "aj_revision s = job_revision j'" and v: "view v = Some (abs_job (bump j'))"
    by (auto simp: commits_def)
  from step rev have "aj_revision s = job_revision j" by (simp add: api_step_of_def)
  with seen_moves [OF assms(2) env(1)] u have "s = abs_job j" using rely_revision by (blast intro: seen_by_revision)
  with step have "api_step s (abs_job (bump j'))" by (simp add: api_step_of_def)
  then have "moves (with_api rely) view u v" by (auto simp: moves_def u v with_api_def)
  then have "moves (with_api rely) view w w'" using env by (meson rely_moves moves_trans)
  moreover have "seen_by rely view (bump j') v" by (simp add: seen_by_def v)
  then have "seen_by rely view (bump j') w'" using env(2) by (rule seen_moves)
  ultimately show ?thesis by simp
qed

section \<open>Reads and writes\<close>

text \<open>What a request knows of a job it has read; nothing, when it is another job.\<close>

definition tracked :: "job \<Rightarrow> 'w \<Rightarrow> bool" where
  "tracked j w \<longleftrightarrow> (job_id j = jid \<longrightarrow> seen_by rely view j w)"

lemma tracked_rely: "tracked j w \<Longrightarrow> moves rely view w w' \<Longrightarrow> tracked j w'"
  by (auto simp: tracked_def intro: seen_moves)

lemma bind_tracked:
  assumes "quiet (moves rely view) m"
    and "\<And>x. triple (moves (with_api rely) view) (tracked j) (k x) S (\<lambda>_ _. True)"
  shows "triple (moves (with_api rely) view) (tracked j) (bind_prog m k) S (\<lambda>_ _. True)"
  by (rule bind_quiet_moves [OF assms(1) rely_moves]) (auto intro: assms(2) tracked_rely)

lemma quiet_service_database: "quiet env m \<Longrightarrow> quiet env (service_database m)"
  by (simp add: quiet_def wrapper_world service_database_returns)

lemma write_triple:
  assumes other: "job_id j' \<noteq> jid \<Longrightarrow> quiet (moves rely view) m"
    and done_law: "\<And>w p w'. job_id j' = jid \<Longrightarrow> m w = (Done p, w') \<Longrightarrow> commits (moves rely view) view j' w w'"
    and raised_law: "\<And>w e w'. job_id j' = jid \<Longrightarrow> m w = (Raised e, w') \<Longrightarrow>
      moves rely view w w' \<or> commits (moves rely view) view j' w w'"
    and returns_law: "\<And>w. job_id j' = jid \<Longrightarrow> fst (m w) \<noteq> Diverged"
    and id: "\<And>w p w'. m w = (Done p, w') \<Longrightarrow> snd p = bump j'"
    and step: "api_step_of j j'"
  shows "triple (moves (with_api rely) view) (tracked j) m
    (\<lambda>r w. snd r = bump j' \<and> tracked (bump j') w) (\<lambda>_ _. True)"
proof (rule tripleI)
  fix w r w'
  assume P: "tracked j w" and run: "m w = (r, w')"
  have ids: "job_id j' = job_id j" using step by (simp add: api_step_of_def)
  show "moves (with_api rely) view w w' \<and>
    (case r of Done x \<Rightarrow> snd x = bump j' \<and> tracked (bump j') w' | Raised e \<Rightarrow> True | Diverged \<Rightarrow> False)"
  proof (cases "job_id j = jid")
    case False
    with other ids run have "moves rely view w w'" "r \<noteq> Diverged" by (metis quiet_def snd_conv fst_conv)+
    with False ids run id show ?thesis
      by (auto simp: tracked_def intro: rely_moves split: outcome.split)
  next
    case True
    with P have seen: "seen_by rely view j w" by (simp add: tracked_def)
    from True ids have jid: "job_id j' = jid" by simp
    have commit: "commits (moves rely view) view j' w w' \<Longrightarrow>
        moves (with_api rely) view w w' \<and> seen_by rely view (bump j') w'"
      by (rule commits_api [OF step seen])
    show ?thesis
    proof (cases r)
      case (Done p)
      with run commit [OF done_law [OF jid, of w p w']] id show ?thesis by (simp add: tracked_def)
    next
      case (Raised e)
      with run raised_law [OF jid, of w e w'] commit show ?thesis by (auto intro: rely_moves)
    next
      case Diverged
      with run returns_law [OF jid, of w] show ?thesis by simp
    qed
  qed
qed

lemma save_triple:
  assumes "api_step_of j j'"
  shows "triple (moves (with_api rely) view) (tracked j) (service_save_and_emit ps j' ty)
    (\<lambda>r w. r = bump j' \<and> tracked (bump j') w) (\<lambda>_ _. True)"
  unfolding service_save_and_emit_def service_job_event_def
proof (rule bind_rule [OF bind_tracked [OF clock_quiet]])
  fix now
  show "triple (moves (with_api rely) view) (tracked j)
    (ret \<lparr>ev_job_id = job_id j', ev_event_type = ty, ev_state = job_state j',
          ev_progress = job_progress j', ev_request_id = job_request_id j',
          ev_payload = (''attempt'', JInt (job_attempt j')) # [], ev_sequence = 0, ev_occurred_at = now\<rparr>)
    (\<lambda>_. tracked j) (\<lambda>_ _. True)"
    by (rule ret_rule)
next
  fix ev
  show "triple (moves (with_api rely) view) (tracked j)
    (bind_prog (service_database (p_jobs_save_with_event ps j' ev)) (\<lambda>(ev', j'). ret j'))
    (\<lambda>r w. r = bump j' \<and> tracked (bump j') w) (\<lambda>_ _. True)"
  proof (rule bind_rule [OF database_rule(2) [OF write_triple [OF save_other _ _ save_returns save_id assms]]])
    fix r :: "job_event \<times> job"
    show "triple (moves (with_api rely) view) (\<lambda>w. snd r = bump j' \<and> tracked (bump j') w)
      (case r of (ev', j') \<Rightarrow> ret j') (\<lambda>r w. r = bump j' \<and> tracked (bump j') w) (\<lambda>_ _. True)"
      unfolding split_def by (rule ret_rule) auto
  next
    fix w e w'
    assume "job_id j' = jid" and "p_jobs_save_with_event ps j' ev w = (Raised e, w')"
    then show "moves rely view w w' \<or> commits (moves rely view) view j' w w'"
      using save_raised by blast
  next
    fix w p w'
    assume "job_id j' = jid" and "p_jobs_save_with_event ps j' ev w = (Done p, w')"
    then show "commits (moves rely view) view j' w w'" using save_done by blast
  qed
qed

lemma owned_job_triple:
  "triple (moves (with_api rely) view) (\<lambda>_. True) (owned_job ps x owner)
     (\<lambda>j w. job_id j = x \<and> job_owner_id j = owner \<and> tracked j w) (\<lambda>_ _. True)"
  unfolding owned_job_def
proof (rule bind_rule [where Q = "\<lambda>r w. \<forall>j. r = Some j \<longrightarrow> job_id j = x \<and> tracked j w"])
  show "triple (moves (with_api rely) view) (\<lambda>_. True) (service_database (p_jobs_get ps x))
     (\<lambda>r w. \<forall>j. r = Some j \<longrightarrow> job_id j = x \<and> tracked j w) (\<lambda>_ _. True)"
  proof (rule database_rule(2), rule tripleI)
    fix w r w'
    assume run: "p_jobs_get ps x w = (r, w')"
    then have mv: "moves rely view w w'" "r \<noteq> Diverged" using get_quiet by (metis quiet_def snd_conv fst_conv)+
    have "tracked j w'" if "r = Done (Some j)" for j
      using get_view [of w "Some j" w'] get_id [of x w j w'] run that
      by (auto simp: tracked_def seen_by_def)
    then show "moves (with_api rely) view w w' \<and>
      (case r of Done x' \<Rightarrow> \<forall>j. x' = Some j \<longrightarrow> job_id j = x \<and> tracked j w' | Raised e \<Rightarrow> True | Diverged \<Rightarrow> False)"
      using mv run get_id by (auto intro: rely_moves split: outcome.split)
  qed
next
  fix r
  show "triple (moves (with_api rely) view) (\<lambda>w. \<forall>j. r = Some j \<longrightarrow> job_id j = x \<and> tracked j w)
    (case r of None \<Rightarrow> raise_exc (BusinessError JOB_NOT_FOUND ''job_not_found'' None)
     | Some j \<Rightarrow> if job_owner_id j \<noteq> owner then raise_exc unauthorized else ret j)
    (\<lambda>j w. job_id j = x \<and> job_owner_id j = owner \<and> tracked j w) (\<lambda>_ _. True)"
    by (cases r) (auto simp del: ret_apply raise_exc_apply intro!: ret_rule raise_rule)
qed

definition told :: "uuid \<Rightarrow> job_state set \<Rightarrow> job_dto \<Rightarrow> 'w \<Rightarrow> bool" where
  "told x states d w \<longleftrightarrow> jd_job_id d = x \<and> jd_status d \<in> states \<and>
     (x = jid \<longrightarrow> reported rely view jid states w)"

lemma to_job_dto_triple:
  assumes "job_id j = x" and "job_state j \<in> states"
  shows "triple (moves (with_api rely) view) (tracked j) (to_job_dto ps j) (told x states) (\<lambda>_ _. True)"
  unfolding to_job_dto_def
proof (rule bind_tracked [OF quiet_service_database [OF uploads_quiet]])
  fix r
  show "triple (moves (with_api rely) view) (tracked j)
    (ret (job_dto_of j (case r of Some u \<Rightarrow> upload_filename u | None \<Rightarrow> []))) (told x states) (\<lambda>_ _. True)"
    by (rule ret_rule) (use assms in \<open>auto simp: told_def tracked_def reported_def job_dto_of_def\<close>)
qed

section \<open>Cancelling and retrying\<close>

lemma cancel_try_triple:
  assumes x: "job_id j = x"
  shows "triple (moves (with_api rely) view) (tracked j) (cancel_try ps rid j)
    (\<lambda>r w. job_id r = x \<and> job_state r \<in> {CANCELLED, CANCEL_REQUESTED} \<and> tracked r w) (\<lambda>_ _. True)"
  unfolding cancel_try_def
proof (rule bind_tracked [OF clock_quiet], rule lift_rule)
  fix t j1
  assume req: "job_request_cancel t (j\<lparr>job_request_id := rid\<rparr>) = Inr j1"
  let ?ev = "\<lambda>j2. if job_state j2 = CANCELLED then ''job.cancelled'' else ''job.cancel_requested''"
  have save: "triple (moves (with_api rely) view) (tracked j) (service_save_and_emit ps j2 (?ev j2))
      (\<lambda>r w. job_id r = x \<and> job_state r \<in> {CANCELLED, CANCEL_REQUESTED} \<and> tracked r w) (\<lambda>_ _. True)"
    if "api_step_of j j2" "job_state j2 \<in> {CANCELLED, CANCEL_REQUESTED}" "job_id j2 = job_id j" for j2
    by (rule triple_conseq [OF save_triple [OF that(1)]]) (use that(2,3) x in auto)
  show "triple (moves (with_api rely) view) (tracked j)
    (bind_prog (if job_state j \<in> {QUEUED, RETRYING} then
          bind_prog (p_utc_now ps) (\<lambda>t1. bind_prog (p_utc_now ps) (\<lambda>t2. lift_sum (job_cancel t1 t2 j1)))
        else ret j1) (\<lambda>j2. service_save_and_emit ps j2 (?ev j2)))
    (\<lambda>r w. job_id r = x \<and> job_state r \<in> {CANCELLED, CANCEL_REQUESTED} \<and> tracked r w) (\<lambda>_ _. True)"
  proof (cases "job_state j \<in> {QUEUED, RETRYING}")
    case True
    show ?thesis
      unfolding if_P [OF True]
    proof (rule bind_rule [where Q = "\<lambda>j2 w. api_step_of j j2 \<and> job_state j2 = CANCELLED \<and>
          job_id j2 = job_id j \<and> tracked j w"])
      show "triple (moves (with_api rely) view) (tracked j)
        (bind_prog (p_utc_now ps) (\<lambda>t1. bind_prog (p_utc_now ps) (\<lambda>t2. lift_sum (job_cancel t1 t2 j1))))
        (\<lambda>j2 w. api_step_of j j2 \<and> job_state j2 = CANCELLED \<and> job_id j2 = job_id j \<and> tracked j w) (\<lambda>_ _. True)"
      proof (rule bind_tracked [OF clock_quiet], rule bind_tracked [OF clock_quiet])
        fix t1 t2
        show "triple (moves (with_api rely) view) (tracked j) (lift_sum (job_cancel t1 t2 j1))
          (\<lambda>j2 w. api_step_of j j2 \<and> job_state j2 = CANCELLED \<and> job_id j2 = job_id j \<and> tracked j w) (\<lambda>_ _. True)"
          by (rule triple_lift_sum [OF moves_refl]) (use cancel_waiting_step [OF req _ True] in auto)
      qed
      fix j2
      show "triple (moves (with_api rely) view)
        (\<lambda>w. api_step_of j j2 \<and> job_state j2 = CANCELLED \<and> job_id j2 = job_id j \<and> tracked j w)
        (service_save_and_emit ps j2 (?ev j2))
        (\<lambda>r w. job_id r = x \<and> job_state r \<in> {CANCELLED, CANCEL_REQUESTED} \<and> tracked r w) (\<lambda>_ _. True)"
        by (rule triple_pure [where C = "api_step_of j j2 \<and> job_state j2 = CANCELLED \<and> job_id j2 = job_id j"],
            simp, rule triple_pre [OF save]) auto
    qed
  next
    case False
    then show ?thesis
      unfolding if_not_P [OF False] bind_ret
      using cancel_request_step [OF req False] by (intro save) auto
  qed
qed simp

lemma cancel_loop_triple:
  "triple (moves (with_api rely) view) (\<lambda>_. True) (cancel_loop ps x owner rid n)
     (told x {CANCELLED, CANCEL_REQUESTED}) (\<lambda>_ _. True)"
proof (induction n)
  case 0
  show ?case unfolding cancel_loop.simps by (rule raise_rule) simp
next
  case (Suc n)
  show ?case
    unfolding cancel_loop.simps
  proof (rule bind_rule [OF owned_job_triple])
    fix j
    show "triple (moves (with_api rely) view) (\<lambda>w. job_id j = x \<and> job_owner_id j = owner \<and> tracked j w)
      (if job_state j \<in> {CANCELLED, SUCCEEDED} then raise_exc not_cancellable
       else if job_state j = CANCEL_REQUESTED then to_job_dto ps j
       else bind_prog
         (catch_prog (bind_prog (cancel_try ps rid j) (\<lambda>j'. ret (Some j')))
           (\<lambda>e. if e = ConcurrentJobUpdateError then
                  (if n \<noteq> 0 then ret None else raise_exc DatabaseUnavailableError)
                else if is_value_error e then raise_exc not_cancellable
                else raise_exc e))
         (\<lambda>r. case r of Some j' \<Rightarrow> to_job_dto ps j' | None \<Rightarrow> cancel_loop ps x owner rid n))
      (told x {CANCELLED, CANCEL_REQUESTED}) (\<lambda>_ _. True)" (is "triple _ _ ?m ?Q _")
    proof (rule triple_pure [where C = "job_id j = x"], simp, rule triple_pre [where P = "tracked j"])
      assume x: "job_id j = x"
      let ?S = "\<lambda>r w. case r of None \<Rightarrow> True | Some j' \<Rightarrow>
          job_id j' = x \<and> job_state j' \<in> {CANCELLED, CANCEL_REQUESTED} \<and> tracked j' w"
      have body: "triple (moves (with_api rely) view) (tracked j)
         (catch_prog (bind_prog (cancel_try ps rid j) (\<lambda>j'. ret (Some j')))
           (\<lambda>e. if e = ConcurrentJobUpdateError then
                  (if n \<noteq> 0 then ret None else raise_exc DatabaseUnavailableError)
                else if is_value_error e then raise_exc not_cancellable
                else raise_exc e)) ?S (\<lambda>_ _. True)"
      proof (rule catch_rule, rule bind_rule [OF cancel_try_triple [OF x]])
        fix r
        show "triple (moves (with_api rely) view)
          (\<lambda>w. job_id r = x \<and> job_state r \<in> {CANCELLED, CANCEL_REQUESTED} \<and> tracked r w)
          (ret (Some r)) ?S (\<lambda>_ _. True)" by (rule ret_rule) simp
      next
        fix e
        show "triple (moves (with_api rely) view) (\<lambda>_. True)
          (if e = ConcurrentJobUpdateError then
                  (if n \<noteq> 0 then ret None else raise_exc DatabaseUnavailableError)
                else if is_value_error e then raise_exc not_cancellable
                else raise_exc e) ?S (\<lambda>_ _. True)"
          by (auto simp del: ret_apply raise_exc_apply intro: ret_rule raise_rule)
      qed
      have rest: "triple (moves (with_api rely) view) (?S r)
          (case r of Some j' \<Rightarrow> to_job_dto ps j' | None \<Rightarrow> cancel_loop ps x owner rid n) ?Q (\<lambda>_ _. True)" for r
      proof (cases r)
        case None
        with Suc.IH show ?thesis by simp
      next
        case (Some j')
        show ?thesis
          unfolding Some option.case
          by (rule triple_pure [where C = "job_id j' = x \<and> job_state j' \<in> {CANCELLED, CANCEL_REQUESTED}"],
              simp, rule triple_pre [OF to_job_dto_triple]) auto
      qed
      show "triple (moves (with_api rely) view) (tracked j) ?m ?Q (\<lambda>_ _. True)"
        using bind_rule [OF body rest] to_job_dto_triple [OF x, of "{CANCELLED, CANCEL_REQUESTED}"]
        by (auto simp del: raise_exc_apply intro: raise_rule)
    qed simp
  qed
qed

lemma cancel_job_triple:
  "triple (moves (with_api rely) view) (\<lambda>_. True) (cancel_job ps x owner rid)
     (told x {CANCELLED, CANCEL_REQUESTED}) (\<lambda>_ _. True)"
  unfolding cancel_job_def by (rule cancel_loop_triple)

lemma service_job_event_triple:
  "triple (moves (with_api rely) view) (tracked j) (service_job_event ps j' ty pl) (\<lambda>_. tracked j) (\<lambda>_ _. True)"
  unfolding service_job_event_def by (rule bind_tracked [OF clock_quiet]) (rule ret_rule)

lemma retry_save_triple:
  assumes step: "api_step_of j j'"
  shows "triple (moves (with_api rely) view) (tracked j) (retry_save ps rid j')
    (\<lambda>r w. r = bump j' \<and> tracked (bump j') w) (\<lambda>_ _. True)"
  unfolding retry_save_def
proof (rule bind_tracked [OF uuid_quiet], rule bind_tracked [OF clock_quiet],
    rule bind_rule [OF service_job_event_triple],
    rule bind_rule [OF database_rule(2) [OF write_triple [OF resave_other _ _ resave_returns resave_id step]]])
  fix r :: "job_event \<times> job"
  show "triple (moves (with_api rely) view) (\<lambda>w. snd r = bump j' \<and> tracked (bump j') w)
    (case r of (ev', j') \<Rightarrow> ret j') (\<lambda>r w. r = bump j' \<and> tracked (bump j') w) (\<lambda>_ _. True)"
    unfolding split_def by (rule ret_rule) auto
next
  fix oid requested ev w e w'
  assume "job_id j' = jid"
    and "p_jobs_save_with_outbox_and_event ps j' (work_request oid requested j' rid) ev w = (Raised e, w')"
  then show "moves rely view w w' \<or> commits (moves rely view) view j' w w'"
    using resave_raised by blast
next
  fix oid requested ev w p w'
  assume "job_id j' = jid"
    and "p_jobs_save_with_outbox_and_event ps j' (work_request oid requested j' rid) ev w = (Done p, w')"
  then show "commits (moves rely view) view j' w w'" using resave_done by blast
qed

lemma retry_loop_triple:
  "triple (moves (with_api rely) view) (\<lambda>_. True) (retry_loop ps x owner rid n)
     (told x {RETRYING}) (\<lambda>_ _. True)"
proof (induction n)
  case 0
  show ?case unfolding retry_loop.simps by (rule raise_rule) simp
next
  case (Suc n)
  show ?case
    unfolding retry_loop.simps
  proof (rule bind_rule [OF owned_job_triple])
    fix j
    show "triple (moves (with_api rely) view) (\<lambda>w. job_id j = x \<and> job_owner_id j = owner \<and> tracked j w)
      (bind_prog (p_utc_now ps) (\<lambda>now.
       case job_retry now rid j of
         Inl e \<Rightarrow>
           if job_state j = RETRYING \<and> Suc n < 3 then to_job_dto ps j else raise_exc not_retryable
       | Inr j1 \<Rightarrow>
           bind_prog
             (catch_prog (bind_prog (retry_save ps rid j1) (\<lambda>j'. ret (Some j')))
               (\<lambda>e. if e = ConcurrentJobUpdateError then
                      (if n \<noteq> 0 then ret None else raise_exc DatabaseUnavailableError)
                    else raise_exc e))
             (\<lambda>r. case r of Some j' \<Rightarrow> to_job_dto ps j' | None \<Rightarrow> retry_loop ps x owner rid n)))
      (told x {RETRYING}) (\<lambda>_ _. True)"
    proof (rule triple_pure [where C = "job_id j = x"], simp, rule triple_pre [where P = "tracked j"],
        rule bind_tracked [OF clock_quiet])
      fix now
      assume x: "job_id j = x"
      let ?S = "\<lambda>r w. case r of None \<Rightarrow> True | Some j' \<Rightarrow>
          job_id j' = x \<and> job_state j' \<in> {RETRYING} \<and> tracked j' w"
      have again: "triple (moves (with_api rely) view) (?S r)
          (case r of Some j' \<Rightarrow> to_job_dto ps j' | None \<Rightarrow> retry_loop ps x owner rid n)
          (told x {RETRYING}) (\<lambda>_ _. True)" for r
      proof (cases r)
        case None
        with Suc.IH show ?thesis by simp
      next
        case (Some j')
        show ?thesis
          unfolding Some option.case
          by (rule triple_pure [where C = "job_id j' = x \<and> job_state j' \<in> {RETRYING}"],
              simp, rule triple_pre [OF to_job_dto_triple]) auto
      qed
      show "triple (moves (with_api rely) view) (tracked j)
        (case job_retry now rid j of
           Inl e \<Rightarrow>
             if job_state j = RETRYING \<and> Suc n < 3 then to_job_dto ps j else raise_exc not_retryable
         | Inr j1 \<Rightarrow>
             bind_prog
               (catch_prog (bind_prog (retry_save ps rid j1) (\<lambda>j'. ret (Some j')))
                 (\<lambda>e. if e = ConcurrentJobUpdateError then
                        (if n \<noteq> 0 then ret None else raise_exc DatabaseUnavailableError)
                      else raise_exc e))
               (\<lambda>r. case r of Some j' \<Rightarrow> to_job_dto ps j' | None \<Rightarrow> retry_loop ps x owner rid n))
        (told x {RETRYING}) (\<lambda>_ _. True)"
      proof (cases "job_retry now rid j")
        case (Inl e)
        then show ?thesis
          using to_job_dto_triple [OF x, of "{RETRYING}"]
          by (auto simp del: raise_exc_apply intro: raise_rule)
      next
        case (Inr j1)
        note step = refines_retry [OF Inr]
        then have api: "api_step_of j j1" by (simp add: api_step_of_def)
        have body: "triple (moves (with_api rely) view) (tracked j)
          (catch_prog (bind_prog (retry_save ps rid j1) (\<lambda>j'. ret (Some j')))
             (\<lambda>e. if e = ConcurrentJobUpdateError then
                    (if n \<noteq> 0 then ret None else raise_exc DatabaseUnavailableError)
                  else raise_exc e)) ?S (\<lambda>_ _. True)"
        proof (rule catch_rule, rule bind_rule [OF retry_save_triple [OF api]])
          fix r
          show "triple (moves (with_api rely) view) (\<lambda>w. r = bump j1 \<and> tracked (bump j1) w)
            (ret (Some r)) ?S (\<lambda>_ _. True)"
            by (rule ret_rule) (use step x in auto)
        next
          fix e
          show "triple (moves (with_api rely) view) (\<lambda>_. True)
            (if e = ConcurrentJobUpdateError then
               (if n \<noteq> 0 then ret None else raise_exc DatabaseUnavailableError)
             else raise_exc e) ?S (\<lambda>_ _. True)"
            by (auto simp del: ret_apply raise_exc_apply intro: ret_rule raise_rule)
        qed
        show ?thesis unfolding Inr sum.case by (rule bind_rule [OF body again])
      qed
    qed simp
  qed
qed

lemma retry_job_triple:
  "triple (moves (with_api rely) view) (\<lambda>_. True) (retry_job ps x owner rid) (told x {RETRYING}) (\<lambda>_ _. True)"
  unfolding retry_job_def by (rule retry_loop_triple)

end

end
