(* ===== verification/Worker.thy ===== *)
theory Worker
  imports Ports Codec
begin

text \<open>
  The OCR worker of \<^verbatim>\<open>application/worker.py\<close>: \<open>process\<close> takes one work message, moves the
  job through preprocessing, the pages and the assembly, and saves a checkpoint with its
  event after every step.

  Objects are passed by value. A job read from the repository is a copy, so the only
  aliasing of the source that matters is between the local names \<open>job\<close>, \<open>latest\<close> and
  \<open>page\<close>: it is followed explicitly, and the handler of \<open>process\<close> receives the job that the
  name \<open>job\<close> was bound to when the exception was raised. (Changes that a
  callee makes in place to the object bound to \<open>job\<close> are not handed to that handler: it reads
  its own \<open>job\<close> only when \<open>jobs.get\<close> returns nothing, that is, when the job is gone and no
  further save can succeed.) A method that reads the clock conditionally is given a time
  that it then ignores. The \<open>while True\<close> of \<open>_process_page\<close> runs on fuel, one unit per turn; running out is
  \<^const>\<open>Diverged\<close>.
\<close>

record worker_config =
  max_page_retries :: int
  retry_base_seconds :: int

definition make_worker :: "int \<Rightarrow> int \<Rightarrow> exn + worker_config" where
  "make_worker retries base =
     (if retries < 0 then Inl (ValueError ''max_page_retries must not be negative'')
      else Inr \<lparr>max_page_retries = retries, retry_base_seconds = base\<rparr>)"

section \<open>Error texts and metadata\<close>

text \<open>\<open>_reason\<close>: the class name in snake case without a trailing \<open>_error\<close>.\<close>

fun snake_tail :: "string \<Rightarrow> string" where
  "snake_tail [] = []"
| "snake_tail (c # cs) = (if is_upper c then [CHR ''_''] else []) @ to_lower c # snake_tail cs"

fun snake_case :: "string \<Rightarrow> string" where
  "snake_case [] = []"
| "snake_case (c # cs) = to_lower c # snake_tail cs"

definition exn_reason :: "exn \<Rightarrow> string" where
  "exn_reason e =
     (if is_dependency_error e then dep_error_reason e
      else remove_suffix ''_error'' (snake_case (exn_name e)))"

definition exn_internal_code :: "exn \<Rightarrow> internal_status_code" where
  "exn_internal_code e =
     (if is_dependency_error e then dep_internal_code e else JOB_PROCESSING_FAILED)"

definition metadata_text :: "json option \<Rightarrow> nat \<Rightarrow> string option" where
  "metadata_text value max_length =
     (case value of
        None \<Rightarrow> None
      | Some JNull \<Rightarrow> None
      | Some v \<Rightarrow>
          (let normalized = py_strip (py_str v)
           in if normalized \<noteq> [] then Some (take max_length normalized) else None))"

section \<open>Events and saves\<close>

definition make_job_event :: "time \<Rightarrow> job \<Rightarrow> string \<Rightarrow> (string \<times> json) list \<Rightarrow> job_event" where
  "make_job_event now j event_type payload =
     \<lparr>ev_job_id = job_id j, ev_event_type = event_type, ev_state = job_state j,
      ev_progress = job_progress j, ev_request_id = job_request_id j,
      ev_payload = (''attempt'', JInt (job_attempt j)) # payload,
      ev_sequence = 0, ev_occurred_at = now\<rparr>"

definition save_and_emit ::
    "'w ports \<Rightarrow> job \<Rightarrow> string \<Rightarrow> (string \<times> json) list \<Rightarrow> ('w, job) op" where
  "save_and_emit ps j event_type payload =
     bind_prog (p_utc_now ps) (\<lambda>now.
     bind_prog (worker_database
         (p_jobs_save_with_event ps j (make_job_event now j event_type payload))) (\<lambda>(ev, j').
     ret j'))"

definition emit :: "'w ports \<Rightarrow> job \<Rightarrow> string \<Rightarrow> (string \<times> json) list \<Rightarrow> ('w, job_event) op" where
  "emit ps j event_type payload =
     bind_prog (p_utc_now ps) (\<lambda>now.
     worker_database (p_events_append ps (make_job_event now j event_type payload)))"

text \<open>\<open>latest.cancel(); await self._save_and_emit(latest, "job.cancelled")\<close>.\<close>

definition cancel_and_save :: "'w ports \<Rightarrow> job \<Rightarrow> ('w, job) op" where
  "cancel_and_save ps latest =
     bind_prog (p_utc_now ps) (\<lambda>t1.
     bind_prog (p_utc_now ps) (\<lambda>t2.
     bind_prog (lift_sum (job_cancel t1 t2 latest)) (\<lambda>j.
     save_and_emit ps j ''job.cancelled'' [])))"

text \<open>\<open>await self._database(self.jobs.get(job.id)) or job\<close>.\<close>

definition reload :: "'w ports \<Rightarrow> job \<Rightarrow> ('w, job) op" where
  "reload ps j =
     bind_prog (worker_database (p_jobs_get ps (job_id j))) (\<lambda>r.
     ret (case r of Some l \<Rightarrow> l | None \<Rightarrow> j))"

definition cancel_if_requested :: "'w ports \<Rightarrow> job \<Rightarrow> ('w, job option) op" where
  "cancel_if_requested ps j =
     bind_prog (worker_database (p_jobs_get ps (job_id j))) (\<lambda>r.
     case r of
       None \<Rightarrow> ret None
     | Some latest \<Rightarrow>
         if job_state latest = CANCEL_REQUESTED
         then bind_prog (cancel_and_save ps latest) (\<lambda>j'. ret (Some j'))
         else ret None)"

definition fail_job :: "'w ports \<Rightarrow> job \<Rightarrow> string \<Rightarrow> internal_status_code \<Rightarrow> ('w, job) op" where
  "fail_job ps j reason code =
     bind_prog (p_utc_now ps) (\<lambda>t1.
     bind_prog (p_utc_now ps) (\<lambda>t2.
     if job_state j = CANCEL_REQUESTED then
       bind_prog (lift_sum (job_cancel t1 t2 j)) (\<lambda>j'.
       save_and_emit ps j' ''job.cancelled''
         [(''internal_code'', JInt 0), (''error_reason'', JStr reason)])
     else
       bind_prog (lift_sum (job_fail t1 t2 reason (code_value code) j)) (\<lambda>j'.
       save_and_emit ps j' ''job.failed''
         [(''internal_code'', JInt (code_value code)), (''error_reason'', JStr reason)])))"

definition repair_terminal_event :: "'w ports \<Rightarrow> job \<Rightarrow> ('w, job_event) op" where
  "repair_terminal_event ps j =
     (if job_state j = CANCELLED then emit ps j ''job.cancelled'' []
      else if job_state j = FAILED then
        emit ps j ''job.failed''
          [(''internal_code'', JInt (job_internal_code j)),
           (''error_reason'', JStr (case job_error_reason j of
              Some r \<Rightarrow> if r \<noteq> [] then r else ''job_processing_failed''
            | None \<Rightarrow> ''job_processing_failed''))]
      else if job_state j = SUCCEEDED then
        emit ps j ''job.succeeded'' [(''artifact_count'', JInt (int (length (job_artifacts j))))]
      else raise_exc KeyError)"

section \<open>One page\<close>

definition set_page :: "nat \<Rightarrow> page \<Rightarrow> job \<Rightarrow> job" where
  "set_page i p j = j\<lparr>job_pages := (job_pages j)[i := p]\<rparr>"

definition pages_prefix :: "job \<Rightarrow> string" where
  "pages_prefix j =
     ''jobs/'' @ uuid_str (job_id j) @ ''/attempts/'' @ str_int (job_attempt j) @ ''/pages/''"

definition visualization_extension :: "string \<Rightarrow> string" where
  "visualization_extension ct =
     (case map_of [(''image/jpeg'', ''jpg''), (''image/png'', ''png''), (''image/webp'', ''webp'')] ct of
        Some e \<Rightarrow> e | None \<Rightarrow> ''bin'')"

definition put_visualization ::
    "'w ports \<Rightarrow> job \<Rightarrow> page \<Rightarrow> ocr_result \<Rightarrow> ('w, string option) op" where
  "put_visualization ps j p result =
     (case result_visualization result of
        None \<Rightarrow> ret None
      | Some img \<Rightarrow>
          (let key = pages_prefix j @ fmt06d (page_number p) @ ''.visualization.'' @
                     visualization_extension (result_visualization_content_type result)
           in bind_prog (worker_storage (p_storage_put_bytes ps key img
                           (result_visualization_content_type result))) (\<lambda>_.
              ret (Some key))))"

definition result_payload :: "page \<Rightarrow> ocr_result \<Rightarrow> json" where
  "result_payload p result =
     JDict [(''schema_version'', JInt 1), (''page_number'', JInt (page_number p)),
            (''markdown'', JStr (result_markdown result)),
            (''structured'', JDict (result_structured result)),
            (''engine_metadata'', JDict (result_engine_metadata result))]"

definition put_page_result ::
    "'w ports \<Rightarrow> job \<Rightarrow> page \<Rightarrow> ocr_result \<Rightarrow> ('w, stored_object) op" where
  "put_page_result ps j p result =
     worker_storage (p_storage_put_bytes ps (pages_prefix j @ fmt06d (page_number p) @ ''.json'')
       (dumps (result_payload p result)) ''application/json'')"

definition apply_engine_metadata :: "ocr_result \<Rightarrow> job \<Rightarrow> job" where
  "apply_engine_metadata result j =
     (let meta = map_of (result_engine_metadata result)
      in j\<lparr>job_engine_name := metadata_text (meta ''engine'') 80,
           job_engine_version := metadata_text (meta ''version'') 80,
           job_model_name := metadata_text (meta ''model'') 160\<rparr>)"

definition page_with_result :: "ocr_result \<Rightarrow> stored_object \<Rightarrow> string option \<Rightarrow> page \<Rightarrow> page" where
  "page_with_result result stored vis p =
     page_succeed (result_markdown result)
       (JDict (AList.update ''engine_metadata'' (JDict (result_engine_metadata result))
                 (result_structured result)))
       (stored_object_key stored) (stored_sha256 stored) vis p"

text \<open>
  The body of the \<open>try\<close>. An exception leaves with the page that the name \<open>page\<close> is bound to
  and with whether that page is the one inside \<open>job\<close> (it is the one inside \<open>latest\<close> after
  the second read).
\<close>

definition page_try ::
    "'w ports \<Rightarrow> bytes \<Rightarrow> nat \<Rightarrow> job \<Rightarrow> page \<Rightarrow> ('w, exn \<times> bool \<times> page, job) prog" where
  "page_try ps img i j p =
     bind_prog (at_local (True, p)
       (p_engine_recognize ps img (page_number p) (job_options j) (job_request_id j))) (\<lambda>result.
     bind_prog (at_local (True, p) (reload ps j)) (\<lambda>latest.
     if job_state latest = CANCEL_REQUESTED then at_local (True, p) (cancel_and_save ps latest)
     else
       (case list_get (job_pages latest) i of
          None \<Rightarrow> raise_exc (IndexError, True, p)
        | Some q \<Rightarrow>
            (let latest1 = apply_engine_metadata result latest
             in at_local (False, q)
                 (bind_prog (put_visualization ps j q result) (\<lambda>vis.
                  bind_prog (put_page_result ps j q result) (\<lambda>stored.
                  let latest2 = set_page i (page_with_result result stored vis q) latest1
                  in bind_prog (save_and_emit ps latest2 ''page.succeeded''
                         [(''page_number'', JInt (page_number q)),
                          (''completed_pages'', JInt (job_completed_pages latest2)),
                          (''total_pages'', JInt (job_total_pages latest2))]) (\<lambda>latest3.
                     if job_state latest3 = CANCEL_REQUESTED then cancel_and_save ps latest3
                     else ret latest3))))))))"

text \<open>
  One turn of the loop either returns a job (\<open>Inr\<close>) or breaks (\<open>Inl\<close>) with the last error and
  the job that the name \<open>job\<close> is bound to; \<open>again\<close> is the next turn. \<open>turn_failed\<close> is the
  handler of the \<open>try\<close>.
\<close>

definition turn_failed ::
    "'w ports \<Rightarrow> worker_config \<Rightarrow> nat \<Rightarrow> job \<Rightarrow> (job \<Rightarrow> exn \<Rightarrow> ('w, (exn option \<times> job) + job) op) \<Rightarrow>
     exn \<times> bool \<times> page \<Rightarrow> ('w, (exn option \<times> job) + job) op" where
  "turn_failed ps cfg i j1 again = (\<lambda>(e, in_job, q).
     if e = ConcurrentJobUpdateError \<or> e = DatabaseUnavailableError \<or> \<not> is_exception e
     then raise_exc e
     else
       (let code = code_value (exn_internal_code e);
            q' = q\<lparr>page_internal_code := code, page_error_reason := Some (exn_reason e)\<rparr>;
            j2 = (if in_job then set_page i q' j1 else j1)
        in if \<not> is_transient_engine_error e
              \<or> int (page_processing_attempts q') \<ge> max_page_retries cfg + 1
           then ret (Inl (Some e, j2))
           else
             bind_prog (save_and_emit ps j2 ''page.retry_scheduled''
               [(''page_number'', JInt (page_number q')),
                (''processing_attempt'', JInt (int (page_processing_attempts q'))),
                (''retry_number'', JInt (int (page_processing_attempts q'))),
                (''internal_code'', JInt code),
                (''error_reason'', JStr (exn_reason e))]) (\<lambda>j3.
             bind_prog (p_sleeper ps (retry_base_seconds cfg *
                 2 ^ (page_processing_attempts q' - 1))) (\<lambda>_.
             again j3 e))))"

definition page_turn ::
    "'w ports \<Rightarrow> worker_config \<Rightarrow> bytes \<Rightarrow> nat \<Rightarrow> exn option \<Rightarrow>
     (job \<Rightarrow> exn \<Rightarrow> ('w, (exn option \<times> job) + job) op) \<Rightarrow> job \<Rightarrow>
     ('w, (exn option \<times> job) + job) op" where
  "page_turn ps cfg img i last_error again latest =
     (if job_state latest = CANCEL_REQUESTED
      then bind_prog (cancel_and_save ps latest) (\<lambda>j'. ret (Inr j'))
      else
        (case list_get (job_pages latest) i of
           None \<Rightarrow> raise_exc IndexError
         | Some p0 \<Rightarrow>
             if int (page_processing_attempts p0) \<ge> max_page_retries cfg + 1
             then ret (Inl (last_error, latest))
             else
               (let p = page_start p0
                in bind_prog (save_and_emit ps (set_page i p latest) ''page.running''
                     [(''page_number'', JInt (page_number p)),
                      (''processing_attempt'', JInt (int (page_processing_attempts p)))]) (\<lambda>j1.
                   catch_prog
                     (bind_prog (page_try ps img i j1 p) (\<lambda>j'. ret (Inr j')))
                     (turn_failed ps cfg i j1 again)))))"

fun page_loop ::
    "'w ports \<Rightarrow> worker_config \<Rightarrow> bytes \<Rightarrow> nat \<Rightarrow> nat \<Rightarrow> job \<Rightarrow> exn option \<Rightarrow>
     ('w, (exn option \<times> job) + job) op" where
  "page_loop ps cfg img i 0 j last_error = diverge"
| "page_loop ps cfg img i (Suc fuel) j last_error =
     bind_prog (reload ps j)
       (page_turn ps cfg img i last_error (\<lambda>j3 e. page_loop ps cfg img i fuel j3 (Some e)))"

definition process_page ::
    "'w ports \<Rightarrow> worker_config \<Rightarrow> nat \<Rightarrow> job \<Rightarrow> nat \<Rightarrow> page \<Rightarrow> ('w, job) op" where
  "process_page ps cfg fuel j i p =
     bind_prog (worker_storage (p_storage_get_bytes ps (page_input_object_key p))) (\<lambda>img.
     bind_prog (page_loop ps cfg img i fuel j None) (\<lambda>r.
     case r of
       Inr completed \<Rightarrow> ret completed
     | Inl (last_error, j1) \<Rightarrow>
         bind_prog (reload ps j1) (\<lambda>latest.
         case list_get (job_pages latest) i of
           None \<Rightarrow> raise_exc IndexError
         | Some q \<Rightarrow>
             (let reason = (case last_error of
                              Some e \<Rightarrow> exn_reason e
                            | None \<Rightarrow>
                                (case page_error_reason q of
                                   Some r \<Rightarrow> if r \<noteq> [] then r else ''engine_retry_budget_exhausted''
                                 | None \<Rightarrow> ''engine_retry_budget_exhausted''));
                  code = (case last_error of
                            Some e \<Rightarrow> exn_internal_code e
                          | None \<Rightarrow> exn_internal_code (RuntimeError ''engine retry budget exhausted''));
                  q' = page_fail reason (code_value code) q
              in bind_prog (save_and_emit ps (set_page i q' latest) ''page.failed''
                   [(''page_number'', JInt (page_number q')),
                    (''internal_code'', JInt (code_value code)),
                    (''error_reason'', JStr reason)]) (\<lambda>j2.
                 bind_prog (p_logger_error ps ''ocr_job_failed''
                   [(''job_id'', JStr (uuid_str (job_id j2))), (''attempt'', JInt (job_attempt j2)),
                    (''request_id'', JStr (job_request_id j2)),
                    (''page_number'', JInt (page_number q')),
                    (''internal_code'', JInt (code_value code)),
                    (''internal_status_name'', JStr (code_name code)),
                    (''error_reason'', JStr reason),
                    (''error_type'', JStr (case last_error of
                        Some e \<Rightarrow> exn_name e | None \<Rightarrow> ''RuntimeError''))]) (\<lambda>_.
                 fail_job ps j2 reason code))))))"

section \<open>Assembly\<close>

record page_result =
  pr_markdown :: string
  pr_structured :: json
  pr_engine_metadata :: json

definition decoded_page_result :: "json \<Rightarrow> page_result option" where
  "decoded_page_result payload =
     (case (json_get payload ''markdown'', json_get payload ''structured'') of
        (Some (JStr md), Some (JDict st)) \<Rightarrow>
          Some \<lparr>pr_markdown = md, pr_structured = JDict st,
                pr_engine_metadata =
                  (case json_get payload ''engine_metadata'' of
                     Some m \<Rightarrow> if json_truthy m then m else JDict []
                   | None \<Rightarrow> JDict [])\<rparr>
      | _ \<Rightarrow> None)"

definition page_checkpoint_result :: "page \<Rightarrow> exn + page_result" where
  "page_checkpoint_result p =
     (case (page_markdown p, page_structured p) of
        (Some md, Some st) \<Rightarrow>
          Inr \<lparr>pr_markdown = md, pr_structured = st,
               pr_engine_metadata = (case json_get st ''engine_metadata'' of
                   Some m \<Rightarrow> m | None \<Rightarrow> JDict [])\<rparr>
      | _ \<Rightarrow> Inl (RuntimeError (''page '' @ str_int (page_number p) @ '' checkpoint is missing'')))"

definition load_page_result :: "'w ports \<Rightarrow> page \<Rightarrow> ('w, page_result) op" where
  "load_page_result ps p =
     (case page_result_object_key p of
        None \<Rightarrow> lift_sum (page_checkpoint_result p)
      | Some key \<Rightarrow>
          if key = [] then lift_sum (page_checkpoint_result p)
          else
            bind_prog (worker_storage (p_storage_get_bytes ps key)) (\<lambda>data.
            case loads data of
              None \<Rightarrow> raise_exc (OtherError ''JSONDecodeError'')
            | Some payload \<Rightarrow>
                (case decoded_page_result payload of
                   Some r \<Rightarrow> ret r
                 | None \<Rightarrow> lift_sum (page_checkpoint_result p))))"

definition stored_artifact :: "artifact_kind \<Rightarrow> stored_object \<Rightarrow> artifact" where
  "stored_artifact kind s =
     \<lparr>artifact_kind = kind, artifact_object_key = stored_object_key s,
      artifact_sha256 = stored_sha256 s, artifact_size_bytes = stored_size_bytes s,
      artifact_content_type = stored_content_type s, artifact_page_number = None\<rparr>"

text \<open>An artifact for an object already in the store; a missing object gives none.\<close>

definition stat_artifact ::
    "'w ports \<Rightarrow> artifact_kind \<Rightarrow> int \<Rightarrow> string \<Rightarrow> ('w, artifact list) op" where
  "stat_artifact ps kind number key =
     bind_prog (worker_storage (p_storage_stat ps key)) (\<lambda>info.
     case info of
       None \<Rightarrow> ret []
     | Some i \<Rightarrow>
         bind_prog
           (if info_sha256 i \<noteq> None \<and> info_sha256 i \<noteq> Some []
            then ret (the (info_sha256 i))
            else bind_prog (worker_storage (p_storage_get_bytes ps key)) (\<lambda>data.
                 ret (p_sha256 ps data))) (\<lambda>sha.
         ret [\<lparr>artifact_kind = kind, artifact_object_key = info_object_key i,
               artifact_sha256 = sha, artifact_size_bytes = info_size_bytes i,
               artifact_content_type = info_content_type i,
               artifact_page_number = Some number\<rparr>]))"

definition page_artifacts :: "'w ports \<Rightarrow> page \<Rightarrow> ('w, artifact list) op" where
  "page_artifacts ps p =
     bind_prog (stat_artifact ps PAGE_IMAGE (page_number p) (page_input_object_key p)) (\<lambda>as1.
     bind_prog
       (case page_visualization_object_key p of
          None \<Rightarrow> ret []
        | Some key \<Rightarrow> if key = [] then ret []
            else stat_artifact ps VISUALIZATION (page_number p) key) (\<lambda>as2.
     ret (as1 @ as2)))"

fun join_with :: "string \<Rightarrow> string list \<Rightarrow> string" where
  "join_with sep [] = []"
| "join_with sep [x] = x"
| "join_with sep (x # y # xs) = x @ sep @ join_with sep (y # xs)"

definition structured_document :: "job \<Rightarrow> page_result list \<Rightarrow> json" where
  "structured_document j results =
     JDict [(''job_id'', JStr (uuid_str (job_id j))), (''attempt'', JInt (job_attempt j)),
            (''pages'', JList (map (\<lambda>(p, r).
                JDict [(''page_number'', JInt (page_number p)), (''markdown'', JStr (pr_markdown r)),
                       (''blocks'', pr_structured r)]) (zip (job_pages j) results)))]"

definition manifest_document ::
    "time \<Rightarrow> job \<Rightarrow> upload \<Rightarrow> page_result list \<Rightarrow> artifact list \<Rightarrow> json" where
  "manifest_document now j u results artifacts =
     JDict [(''schema_version'', JInt 1), (''job_id'', JStr (uuid_str (job_id j))),
            (''upload_id'', JStr (uuid_str (job_upload_id j))), (''attempt'', JInt (job_attempt j)),
            (''page_count'', JInt (job_total_pages j)), (''generated_at'', JStr (isoformat now)),
            (''input'', JDict [(''sha256'', JStr (upload_sha256 u)),
               (''size_bytes'', JInt (upload_size_bytes u)),
               (''content_type'', JStr (case upload_detected_content_type u of
                   Some ct \<Rightarrow> if ct \<noteq> [] then ct else upload_content_type u
                 | None \<Rightarrow> upload_content_type u))]),
            (''engines'', JList (map pr_engine_metadata results)),
            (''artifacts'', JList (map (\<lambda>a.
               JDict [(''kind'', JStr (artifact_kind_str (artifact_kind a))),
                      (''object_key'', JStr (artifact_object_key a)),
                      (''sha256'', JStr (artifact_sha256 a)),
                      (''size_bytes'', JInt (artifact_size_bytes a)),
                      (''content_type'', JStr (artifact_content_type a)),
                      (''page_number'', (case artifact_page_number a of
                         None \<Rightarrow> JNull | Some n \<Rightarrow> JInt n))]) artifacts))]"

definition assemble :: "'w ports \<Rightarrow> job \<Rightarrow> upload \<Rightarrow> ('w, artifact list) op" where
  "assemble ps j u =
     (let prefix = ''jobs/'' @ uuid_str (job_id j) @ ''/attempts/'' @ str_int (job_attempt j)
      in bind_prog (map_prog (load_page_result ps) (job_pages j)) (\<lambda>results.
         bind_prog (worker_storage (p_storage_put_bytes ps (prefix @ ''/document.md'')
             (join_with [CHR 0x0A, CHR 0x0A] (map pr_markdown results))
             ''text/markdown; charset=utf-8'')) (\<lambda>markdown_object.
         bind_prog (worker_storage (p_storage_put_bytes ps (prefix @ ''/document.json'')
             (dumps (structured_document j results)) ''application/json'')) (\<lambda>json_object.
         bind_prog (map_prog (page_artifacts ps) (job_pages j)) (\<lambda>per_page.
         let artifacts = [stored_artifact MARKDOWN markdown_object,
                          stored_artifact STRUCTURED_JSON json_object] @ concat per_page
         in bind_prog (p_utc_now ps) (\<lambda>now.
            bind_prog (worker_storage (p_storage_put_bytes ps (prefix @ ''/manifest.json'')
                (dumps (manifest_document now j u results artifacts)) ''application/json''))
              (\<lambda>manifest_object.
            ret (artifacts @ [stored_artifact MANIFEST manifest_object]))))))))"

section \<open>One message\<close>

text \<open>
  The assembled artifacts are committed unless the job was cancelled meanwhile; the job is
  read once more so that the commit is made on its newest revision.
\<close>

definition commit_success ::
    "'w ports \<Rightarrow> job \<Rightarrow> upload \<Rightarrow> bool \<Rightarrow> ('w, exn \<times> job option, job option) prog" where
  "commit_success ps j u log =
     bind_prog (at_local (Some j) (assemble ps j u)) (\<lambda>artifacts.
     bind_prog (at_local (Some j) (cancel_if_requested ps j)) (\<lambda>refreshed.
     case refreshed of
       Some j' \<Rightarrow> ret (Some j')
     | None \<Rightarrow>
         bind_prog (at_local (Some j) (reload ps j)) (\<lambda>j1.
         bind_prog (at_local (Some j1) (p_utc_now ps)) (\<lambda>t1.
         bind_prog (at_local (Some j1) (p_utc_now ps)) (\<lambda>t2.
         bind_prog (at_local (Some j1) (lift_sum (job_succeed t1 t2 artifacts j1))) (\<lambda>j2.
         bind_prog (at_local (Some j2) (save_and_emit ps j2 ''job.succeeded''
             [(''artifact_count'', JInt (int (length artifacts)))])) (\<lambda>j3.
         if log then
           bind_prog (at_local (Some j3) (p_logger_info ps ''ocr_job_succeeded''
             [(''job_id'', JStr (uuid_str (job_id j3))), (''attempt'', JInt (job_attempt j3)),
              (''request_id'', JStr (job_request_id j3)),
              (''total_pages'', JInt (job_total_pages j3))])) (\<lambda>_. ret (Some j3))
         else ret (Some j3))))))))"

text \<open>
  The loop over the pages of the snapshot it starts with: \<open>Inl\<close> is an early return,
  \<open>Inr\<close> the job after the last page.
\<close>

fun pages_loop ::
    "'w ports \<Rightarrow> worker_config \<Rightarrow> nat \<Rightarrow> (nat \<times> page) list \<Rightarrow> job \<Rightarrow>
     ('w, exn \<times> job option, job + job) prog" where
  "pages_loop ps cfg fuel [] j = ret (Inr j)"
| "pages_loop ps cfg fuel ((i, p) # rest) j =
     (if page_state p = P_SUCCEEDED then pages_loop ps cfg fuel rest j
      else
        bind_prog (at_local (Some j) (cancel_if_requested ps j)) (\<lambda>refreshed.
        case refreshed of
          Some j' \<Rightarrow> ret (Inl j')
        | None \<Rightarrow>
            bind_prog (at_local (Some j) (reload ps j)) (\<lambda>j1.
            case list_get (job_pages j1) i of
              None \<Rightarrow> raise_exc (IndexError, Some j1)
            | Some q \<Rightarrow>
                bind_prog (at_local (Some j1) (process_page ps cfg fuel j1 i q)) (\<lambda>completed.
                if job_state completed \<in> {FAILED, CANCELLED} then ret (Inl completed)
                else pages_loop ps cfg fuel rest completed))))"

definition prepared_to_pages :: "prepared_page list \<Rightarrow> page list" where
  "prepared_to_pages prepared =
     map (\<lambda>p. new_page (prepared_page_number p) (prepared_object_key p))
       (sort_key prepared_page_number prepared)"

text \<open>\<open>begin_preprocessing\<close> and the pages, up to the job with a list of pages.\<close>

definition start_job :: "'w ports \<Rightarrow> job \<Rightarrow> ('w, exn \<times> job option, job) prog" where
  "start_job ps j =
     (if job_state j \<in> {QUEUED, RETRYING} then
        bind_prog (at_local (Some j) (p_utc_now ps)) (\<lambda>t1.
        bind_prog (at_local (Some j) (p_utc_now ps)) (\<lambda>t2.
        bind_prog (at_local (Some j) (lift_sum (job_begin_preprocessing t1 t2 j))) (\<lambda>j1.
        at_local (Some j1) (save_and_emit ps j1 ''job.preprocessing'' []))))
      else ret j)"

definition prepare_pages :: "'w ports \<Rightarrow> upload \<Rightarrow> job \<Rightarrow> ('w, exn \<times> job option, job) prog" where
  "prepare_pages ps u j =
     (if job_pages j = [] then
        if job_state j \<noteq> PREPROCESSING
        then raise_exc (RuntimeError ''job checkpoint has no prepared pages'', Some j)
        else
          bind_prog (at_local (Some j) (p_preprocessor_prepare ps u j)) (\<lambda>prepared.
          bind_prog (at_local (Some j) (p_utc_now ps)) (\<lambda>now.
          bind_prog (at_local (Some j) (lift_sum (job_set_pages now (prepared_to_pages prepared) j)))
            (\<lambda>j1.
          at_local (Some j1) (save_and_emit ps j1 ''job.pages_prepared''
            [(''total_pages'', JInt (job_total_pages j1))]))))
      else ret j)"

definition run_pages ::
    "'w ports \<Rightarrow> worker_config \<Rightarrow> nat \<Rightarrow> job \<Rightarrow> upload \<Rightarrow> ('w, exn \<times> job option, job option) prog"
where
  "run_pages ps cfg fuel j u =
     bind_prog (pages_loop ps cfg fuel (enumerate 0 (job_pages j)) j) (\<lambda>r.
     case r of
       Inl j' \<Rightarrow> ret (Some j')
     | Inr j1 \<Rightarrow>
         bind_prog (at_local (Some j1) (p_utc_now ps)) (\<lambda>t.
         bind_prog (at_local (Some j1) (lift_sum (job_begin_assembling t j1))) (\<lambda>j2.
         bind_prog (at_local (Some j2) (save_and_emit ps j2 ''job.assembling'' [])) (\<lambda>j3.
         commit_success ps j3 u True))))"

text \<open>The job with its upload: from its checkpoint to its end.\<close>

definition work_job ::
    "'w ports \<Rightarrow> worker_config \<Rightarrow> nat \<Rightarrow> job \<Rightarrow> upload \<Rightarrow> ('w, exn \<times> job option, job option) prog"
where
  "work_job ps cfg fuel j2 u =
     (if job_state j2 = PREPROCESSING then
        bind_prog (at_local (Some j2) (p_utc_now ps)) (\<lambda>t.
        bind_prog (at_local (Some j2) (lift_sum (job_begin_running t j2))) (\<lambda>j3.
        bind_prog (at_local (Some j3) (save_and_emit ps j3 ''job.running'' [])) (\<lambda>j4.
        run_pages ps cfg fuel j4 u)))
      else if job_state j2 = ASSEMBLING then commit_success ps j2 u False
      else if job_state j2 \<noteq> RUNNING then
        raise_exc (RuntimeError (''cannot recover job from '' @
           job_state_str (job_state j2)), Some j2)
      else run_pages ps cfg fuel j2 u)"

definition process_job ::
    "'w ports \<Rightarrow> worker_config \<Rightarrow> nat \<Rightarrow> job \<Rightarrow> upload \<Rightarrow> ('w, exn \<times> job option, job option) prog"
where
  "process_job ps cfg fuel j u =
     bind_prog (start_job ps j) (\<lambda>j1.
     bind_prog (prepare_pages ps u j1) (\<lambda>j2.
     bind_prog (at_local (Some j2) (cancel_if_requested ps j2)) (\<lambda>refreshed.
     case refreshed of
       Some j' \<Rightarrow> ret (Some j')
     | None \<Rightarrow> work_job ps cfg fuel j2 u)))"

definition process_body ::
    "'w ports \<Rightarrow> worker_config \<Rightarrow> nat \<Rightarrow> job_work_message \<Rightarrow>
     ('w, exn \<times> job option, job option) prog" where
  "process_body ps cfg fuel msg =
     bind_prog (at_local None (worker_database (p_jobs_get ps (msg_job_id msg)))) (\<lambda>found.
     case found of
       None \<Rightarrow>
         bind_prog (at_local None (p_logger_error ps ''ocr_job_missing''
           [(''job_id'', JStr (uuid_str (msg_job_id msg))),
            (''request_id'', JStr (msg_request_id msg))])) (\<lambda>_. ret None)
     | Some j \<Rightarrow>
         if job_attempt j \<noteq> msg_attempt msg then ret (Some j)
         else if job_terminal j then
           bind_prog (at_local (Some j) (repair_terminal_event ps j)) (\<lambda>_. ret (Some j))
         else
           bind_prog (at_local (Some j) (worker_database (p_uploads_get ps (job_upload_id j)))) (\<lambda>up.
           case up of
             None \<Rightarrow>
               bind_prog (at_local (Some j)
                 (fail_job ps j ''upload_not_found'' JOB_PROCESSING_FAILED)) (\<lambda>j'. ret (Some j'))
           | Some u \<Rightarrow> process_job ps cfg fuel j u))"

text \<open>The two \<open>except\<close> clauses.\<close>

definition handle_conflict :: "'w ports \<Rightarrow> job_work_message \<Rightarrow> ('w, job option) op" where
  "handle_conflict ps msg =
     bind_prog (worker_database (p_jobs_get ps (msg_job_id msg))) (\<lambda>found.
     case found of
       None \<Rightarrow> ret None
     | Some latest \<Rightarrow>
         if job_state latest = CANCEL_REQUESTED
         then bind_prog (cancel_and_save ps latest) (\<lambda>j. ret (Some j))
         else if job_terminal latest \<or> job_attempt latest \<noteq> msg_attempt msg then ret (Some latest)
         else raise_exc DatabaseUnavailableError)"

definition handle_failure ::
    "'w ports \<Rightarrow> job_work_message \<Rightarrow> exn \<Rightarrow> job option \<Rightarrow> ('w, job option) op" where
  "handle_failure ps msg e local =
     (let code = exn_internal_code e; reason = exn_reason e
      in bind_prog (p_logger_error ps ''ocr_job_failed''
           [(''job_id'', JStr (uuid_str (msg_job_id msg))), (''attempt'', JInt (msg_attempt msg)),
            (''request_id'', JStr (msg_request_id msg)), (''internal_code'', JInt (code_value code)),
            (''internal_status_name'', JStr (code_name code)), (''error_reason'', JStr reason),
            (''error_type'', JStr (exn_name e))]) (\<lambda>_.
         if e = DatabaseUnavailableError then raise_exc e
         else
           (case local of
              None \<Rightarrow> raise_exc UnboundLocalError
            | Some j \<Rightarrow>
                bind_prog (reload ps j) (\<lambda>latest.
                if job_state latest = CANCEL_REQUESTED
                then bind_prog (cancel_and_save ps latest) (\<lambda>j'. ret (Some j'))
                else if job_terminal latest then ret (Some latest)
                else bind_prog (fail_job ps latest reason code) (\<lambda>j'. ret (Some j'))))))"

definition process ::
    "'w ports \<Rightarrow> worker_config \<Rightarrow> nat \<Rightarrow> job_work_message \<Rightarrow> ('w, job option) op" where
  "process ps cfg fuel msg =
     (if msg_schema_version msg \<noteq> 1 then
        bind_prog (p_logger_error ps ''ocr_job_schema_unsupported''
          [(''job_id'', JStr (uuid_str (msg_job_id msg))),
           (''schema_version'', JInt (msg_schema_version msg)),
           (''request_id'', JStr (msg_request_id msg))]) (\<lambda>_. ret None)
      else
        catch_prog (process_body ps cfg fuel msg) (\<lambda>(e, local).
          if e = ConcurrentJobUpdateError then handle_conflict ps msg
          else if is_exception e then handle_failure ps msg e local
          else raise_exc e))"

end
