(* ===== verification/Worker_Safety.thy ===== *)
theory Worker_Safety
  imports Worker Interference
begin

text \<open>
  Safety of the worker against every interleaving of its awaits with the HTTP API. The locale
  \<open>worker_world\<close> is the interface between the worker and the store of jobs: \<open>view\<close> is the
  stored job of one identifier, \<open>env\<close> what other tasks may do to the world while the worker
  waits. The laws say that they only make API steps, that a read returns the stored job, and that
  a save is accepted only on the stored revision (optimistic locking). A save that raises may
  have been committed nevertheless, as a lost connection does, unless it raises an error that the
  page loop would survive.

  Inside the locale every operation of the worker is given a triple whose relation is
  \<open>evolves\<close>: the stored job moves along \<^const>\<open>lifecycle\<close>.
\<close>

section \<open>Predicates\<close>

text \<open>Errors that \<open>_process_page\<close> passes on without another turn of its loop.\<close>

definition fatal :: "exn \<Rightarrow> bool" where
  "fatal e \<longleftrightarrow> e = ConcurrentJobUpdateError \<or> e = DatabaseUnavailableError \<or> \<not> is_exception e"

text \<open>\<open>j'\<close>, made from \<open>j\<close>, may be saved over it.\<close>

definition step_of :: "int \<Rightarrow> job \<Rightarrow> job \<Rightarrow> bool" where
  "step_of b j j' \<longleftrightarrow> worker_step b (abs_job j) (abs_job (bump j')) \<and> job_id j' = job_id j \<and>
     job_revision j' = job_revision j"

text \<open>What the return value of \<open>process\<close> promises about the job.\<close>

definition finished :: "('w \<Rightarrow> ajob option) \<Rightarrow> int \<Rightarrow> job \<Rightarrow> 'w \<Rightarrow> bool" where
  "finished view attempt j w \<longleftrightarrow> seen view j w \<and> (job_terminal j \<or> job_attempt j \<noteq> attempt)"

text \<open>While a job is \<open>RUNNING\<close> the API leaves its pages alone.\<close>

lemma api_steps_running:
  assumes "api_step\<^sup>*\<^sup>* (abs_job j) (abs_job r)" and "job_state j \<in> {RUNNING, CANCEL_REQUESTED}"
  shows "job_state r \<in> {RUNNING, CANCEL_REQUESTED} \<and>
    map abs_page (job_pages r) = map abs_page (job_pages j)"
  using api_steps_active [OF assms(1), of RUNNING] assms(2) by (simp add: active_states_def)

lemma map_abs_page_nth:
  assumes "map abs_page ps = map abs_page qs" and "i < length qs"
  shows "i < length ps" and "abs_page (ps ! i) = abs_page (qs ! i)"
  using assms by (metis length_map, metis length_map nth_map)

lemma abs_page_eq_sel:
  assumes "abs_page p = abs_page q"
  shows "page_state p = page_state q" and "page_processing_attempts p = page_processing_attempts q"
  using assms by (metis abs_page_sel)+

lemma set_page_sel [simp]:
  "job_pages (set_page i p j) = (job_pages j)[i := p]" "job_state (set_page i p j) = job_state j"
  "job_id (set_page i p j) = job_id j" "job_revision (set_page i p j) = job_revision j"
  "job_attempt (set_page i p j) = job_attempt j"
  by (simp_all add: set_page_def)

lemma apply_engine_metadata_sel [simp]:
  "job_pages (apply_engine_metadata r j) = job_pages j"
  "job_state (apply_engine_metadata r j) = job_state j"
  "job_id (apply_engine_metadata r j) = job_id j"
  "job_revision (apply_engine_metadata r j) = job_revision j"
  "job_attempt (apply_engine_metadata r j) = job_attempt j"
  "abs_job (apply_engine_metadata r j) = abs_job j"
  by (simp_all add: apply_engine_metadata_def Let_def abs_job_def)

lemma abs_set_page:
  "abs_job (bump (set_page i p j)) =
     next_rev ((abs_job j)\<lparr>aj_pages := (aj_pages (abs_job j))[i := abs_page p]\<rparr>)"
  by (rule abs_job_eqI) (simp_all add: set_page_def map_update)

lemma step_of_page:
  assumes "job_state j \<in> {RUNNING, CANCEL_REQUESTED}" and "i < length (job_pages j)"
    and "page_state (job_pages j ! i) \<noteq> P_SUCCEEDED"
    and "page_step b (abs_page (job_pages j ! i)) (abs_page p)"
  shows "step_of b j (set_page i p j)"
  using worker_step.page_checkpoint [of "abs_job j" i b "abs_page p"] assms
  by (simp add: step_of_def abs_set_page)

lemma abs_bump: "abs_job (bump j) = next_rev (abs_job j)"
  by (rule abs_job_eqI) simp_all

lemma step_of_abs:
  assumes "step_of b j j'" and "abs_job k = abs_job j'"
  shows "step_of b j k"
proof -
  from assms(2) have "job_id k = job_id j'" "job_revision k = job_revision j'"
    by (metis abs_job_sel)+
  with assms show ?thesis by (simp add: step_of_def abs_bump)
qed

lemma page_start_step:
  assumes "int (page_processing_attempts p) < b" and "page_state p \<noteq> P_SUCCEEDED"
  shows "page_step b (abs_page p) (abs_page (page_start p))"
    and "page_state (page_start p) = P_RUNNING"
proof -
  have "abs_page (page_start p) =
      (abs_page p)\<lparr>ap_state := P_RUNNING, ap_attempts := ap_attempts (abs_page p) + 1\<rparr>"
    using assms(2) by (simp add: abs_page_def page_start_def)
  with assms(1) show "page_step b (abs_page p) (abs_page (page_start p))"
    using page_step.page_started [of "abs_page p" b] by simp
  show "page_state (page_start p) = P_RUNNING" using assms(2) by (simp add: page_start_def)
qed

lemma page_succeed_step: "page_step b (abs_page p) (abs_page (page_with_result r st vis p))"
proof -
  have "abs_page (page_with_result r st vis p) =
      (abs_page p)\<lparr>ap_state := P_SUCCEEDED, ap_result := Some (stored_object_key st)\<rparr>"
    by (simp add: abs_page_def page_with_result_def page_succeed_def)
  then show ?thesis using page_step.page_completed [of b "abs_page p" "stored_object_key st"] by simp
qed

lemma page_fail_step: "page_step b (abs_page p) (abs_page (page_fail reason code p))"
proof -
  have "abs_page (page_fail reason code p) = (abs_page p)\<lparr>ap_state := P_FAILED\<rparr>"
    by (simp add: abs_page_def page_fail_def)
  then show ?thesis using page_step.page_given_up [of b "abs_page p"] by simp
qed

lemma prepared_pages_fresh:
  "list_all (\<lambda>p. page_state p = P_PENDING \<and> page_processing_attempts p = 0 \<and>
     page_result_object_key p = None) (prepared_to_pages prepared)"
  by (simp add: prepared_to_pages_def new_page_def list_all_iff)

section \<open>The interface\<close>

definition local_ok :: "uuid \<Rightarrow> exn \<times> job option \<Rightarrow> 'w \<Rightarrow> bool" where
  "local_ok jid el w \<longleftrightarrow> (\<forall>j. snd el = Some j \<longrightarrow> job_id j = jid)"

text \<open>The page that the loop works on, and what a return of the loop leaves.\<close>

definition open_page :: "nat \<Rightarrow> job \<Rightarrow> bool" where
  "open_page i j \<longleftrightarrow> job_state j = RUNNING \<and> i < length (job_pages j) \<and>
     page_state (job_pages j ! i) \<noteq> P_SUCCEEDED"

definition page_done :: "nat \<Rightarrow> apage list \<Rightarrow> job \<Rightarrow> bool" where
  "page_done i pgs r \<longleftrightarrow> job_state r \<in> {FAILED, CANCELLED} \<or>
     (job_state r = RUNNING \<and>
      (\<exists>q. ap_state q = P_SUCCEEDED \<and> map abs_page (job_pages r) = pgs[i := q]))"

locale worker_world =
  fixes ps :: "'w ports" and env :: "'w \<Rightarrow> 'w \<Rightarrow> bool" and view :: "'w \<Rightarrow> ajob option"
    and jid :: uuid
  assumes env_refl: "env w w"
    and env_trans: "env u v \<Longrightarrow> env v w \<Longrightarrow> env u w"
    and env_api: "env u v \<Longrightarrow> api_evolves view u v"
    and get_quiet: "quiet env (p_jobs_get ps jid)"
    and get_view: "p_jobs_get ps jid w = (Done r, w') \<Longrightarrow>
      view w' = map_option abs_job r \<and> (\<forall>j. r = Some j \<longrightarrow> job_id j = jid)"
    and save_done: "job_id j = jid \<Longrightarrow> p_jobs_save_with_event ps j ev w = (Done (ev', j'), w') \<Longrightarrow>
      j' = bump j \<and> commits env view j w w'"
    and save_raised: "job_id j = jid \<Longrightarrow> p_jobs_save_with_event ps j ev w = (Raised e, w') \<Longrightarrow>
      env w w' \<or> ((is_dependency_error e \<longrightarrow> e = DatabaseUnavailableError) \<and> commits env view j w w')"
    and save_returns: "job_id j = jid \<Longrightarrow> fst (p_jobs_save_with_event ps j ev w) \<noteq> Diverged"
    and clock_quiet: "quiet env (p_utc_now ps)"
    and uploads_quiet: "quiet env (p_uploads_get ps uid)"
    and append_quiet: "quiet env (p_events_append ps ev)"
    and stat_quiet: "quiet env (p_storage_stat ps key)"
    and get_bytes_quiet: "quiet env (p_storage_get_bytes ps key)"
    and put_bytes_quiet: "quiet env (p_storage_put_bytes ps key data ct)"
    and prepare_quiet: "quiet env (p_preprocessor_prepare ps up j)"
    and recognize_quiet: "quiet env (p_engine_recognize ps img n opts rid)"
    and info_quiet: "quiet env (p_logger_info ps name kvs)"
    and error_quiet: "quiet env (p_logger_error ps name kvs)"
    and sleeper_quiet: "quiet env (p_sleeper ps delay)"
begin

lemma quiet_ret: "quiet env (ret x)"
  by (simp add: quiet_def env_refl)

lemma quiet_raise: "quiet env (raise_exc e)"
  by (simp add: quiet_def env_refl)

lemma quiet_lift_sum: "quiet env (lift_sum r)"
  by (cases r) (simp_all add: quiet_ret quiet_raise)

lemma quiet_bind:
  assumes "quiet env m" and "\<And>x. quiet env (k x)"
  shows "quiet env (bind_prog m k)"
  unfolding quiet_def
proof
  fix w
  obtain r w1 where m: "m w = (r, w1)" by (cases "m w") auto
  with assms(1) have "env w w1" "r \<noteq> Diverged" by (metis quiet_def snd_conv fst_conv)+
  with m assms(2) show "env w (snd (bind_prog m k w)) \<and> fst (bind_prog m k w) \<noteq> Diverged"
    by (cases r) (auto simp: bind_prog_def quiet_def intro: env_trans)
qed

lemma quietD: "quiet env m \<Longrightarrow> m w = (r, w') \<Longrightarrow> env w w'"
  by (metis quiet_def snd_conv)

lemma quiet_returns: "quiet env m \<Longrightarrow> m w = (r, w') \<Longrightarrow> r \<noteq> Diverged"
  by (metis quiet_def fst_conv)

lemma quiet_Pair: "quiet env (Pair (Done x))" "quiet env (Pair (Raised e))"
  by (simp_all add: quiet_def env_refl)

lemma quiet_catch:
  assumes "quiet env m" and "\<And>e. quiet env (h e)"
  shows "quiet env (catch_prog m h)"
  unfolding quiet_def
proof
  fix w
  obtain r w1 where m: "m w = (r, w1)" by (cases "m w") auto
  with assms(1) have "env w w1" "r \<noteq> Diverged" by (auto dest: quietD quiet_returns)
  with m assms(2) show "env w (snd (catch_prog m h w)) \<and> fst (catch_prog m h w) \<noteq> Diverged"
    by (cases r) (auto simp: catch_prog_def quiet_def intro: env_trans)
qed

lemma quiet_wrapper: "quiet env m \<Longrightarrow> quiet env (worker_database m)"
  "quiet env m \<Longrightarrow> quiet env (worker_storage m)" "quiet env m \<Longrightarrow> quiet env (at_local l m)"
  unfolding wrapper_defs at_local_def by (rule quiet_catch; auto intro: quiet_raise quiet_Pair)+

lemma quiet_map_prog: "(\<And>x. quiet env (f x)) \<Longrightarrow> quiet env (map_prog f xs)"
  by (induction xs) (auto intro!: quiet_ret quiet_bind)

lemmas quiet_ports = get_quiet clock_quiet uploads_quiet append_quiet stat_quiet get_bytes_quiet
  put_bytes_quiet prepare_quiet recognize_quiet info_quiet error_quiet sleeper_quiet

lemmas quiet_rules = quiet_ports quiet_ret quiet_Pair quiet_raise quiet_lift_sum quiet_bind quiet_wrapper
  quiet_map_prog

lemma stat_artifact_quiet: "quiet env (stat_artifact ps kind n key)"
  unfolding stat_artifact_def by (intro quiet_rules) (auto intro!: quiet_rules split: option.split)

lemma page_artifacts_quiet: "quiet env (page_artifacts ps p)"
  unfolding page_artifacts_def
  by (intro quiet_rules stat_artifact_quiet) (auto intro!: quiet_rules stat_artifact_quiet split: option.split)

lemma load_page_result_quiet: "quiet env (load_page_result ps p)"
  unfolding load_page_result_def
  by (auto intro!: quiet_rules split: option.split)

lemma assemble_quiet: "quiet env (assemble ps j u)"
  unfolding assemble_def Let_def
  by (intro quiet_rules load_page_result_quiet page_artifacts_quiet)

lemma put_visualization_quiet: "quiet env (put_visualization ps j p result)"
  unfolding put_visualization_def Let_def by (auto intro!: quiet_rules split: option.split)

lemma put_page_result_quiet: "quiet env (put_page_result ps j p result)"
  unfolding put_page_result_def by (intro quiet_rules)

lemma repair_quiet: "quiet env (repair_terminal_event ps j)"
  unfolding repair_terminal_event_def emit_def by (auto intro!: quiet_rules)

text \<open>Triples of quiet programs.\<close>

lemma seen_env: "seen view j w \<Longrightarrow> env w w' \<Longrightarrow> seen view j w'"
  by (blast intro: seen_moves env_api)

lemma quiet_evolves: "quiet env m \<Longrightarrow> m w = (r, w') \<Longrightarrow> evolves b view w w'"
  by (metis api_evolves_evolves env_api quiet_def snd_conv)

lemma triple_quiet:
  assumes "quiet env m" and "\<And>w w'. P w \<Longrightarrow> env w w' \<Longrightarrow> P w'"
  shows "triple (evolves b view) P m (\<lambda>_. P) (\<lambda>_. P)"
proof (rule tripleI)
  fix w r w'
  assume "P w" and m: "m w = (r, w')"
  with assms(1) have "env w w'" "r \<noteq> Diverged" by (auto dest: quietD quiet_returns)
  with \<open>P w\<close> assms(2) quiet_evolves [OF assms(1) m]
  show "evolves b view w w' \<and> (case r of Done x \<Rightarrow> P w' | Raised e \<Rightarrow> P w' | Diverged \<Rightarrow> False)"
    by (auto split: outcome.split)
qed

lemma bind_quiet:
  assumes "quiet env m" and "\<And>w w'. P w \<Longrightarrow> env w w' \<Longrightarrow> P w'"
    and "\<And>x. triple (evolves b view) P (k x) S E" and "\<And>e w. P w \<Longrightarrow> E e w"
  shows "triple (evolves b view) P (bind_prog m k) S E"
proof (rule triple_bind [OF moves_trans])
  show "triple (evolves b view) P m (\<lambda>_. P) E"
    by (rule triple_conseq [OF triple_quiet [OF assms(1,2)]]) (auto intro: assms(4))
qed (auto intro: assms(3))

lemma bind_seen:
  assumes "quiet env m" and "\<And>x. triple (evolves b view) (seen view j) (k x) S E"
    and "\<And>e w. seen view j w \<Longrightarrow> E e w"
  shows "triple (evolves b view) (seen view j) (bind_prog m k) S E"
  by (rule bind_quiet) (auto intro: assms seen_env)

lemma bind_any:
  assumes "quiet env m" and "\<And>x. triple (evolves b view) (\<lambda>_. True) (k x) S (\<lambda>_ _. True)"
  shows "triple (evolves b view) (\<lambda>_. True) (bind_prog m k) S (\<lambda>_ _. True)"
  by (rule bind_quiet) (auto intro: assms)

section \<open>Saves and reads\<close>

lemma commits_step:
  assumes "step_of b j j'" and "seen view j w" and "commits env view j' w w'"
  shows "evolves b view w w' \<and> seen view (bump j') w'"
proof -
  from assms(3) obtain u v s where env: "env w u" "env v w'" and u: "view u = Some s"
    and rev: "aj_revision s = job_revision j'" and v: "view v = Some (abs_job (bump j'))"
    by (auto simp: commits_def)
  from assms(1) rev have "aj_revision s = job_revision j" by (simp add: step_of_def)
  with seen_env [OF assms(2) env(1)] u have "s = abs_job j" by (blast intro: seen_revision)
  with assms(1) have "worker_step b s (abs_job (bump j'))" by (simp add: step_of_def)
  then have "evolves b view u v" by (auto simp: moves_def u v job_step_def)
  then have "evolves b view w w'"
    by (meson env api_evolves_evolves env_api moves_trans)
  moreover have "seen view (bump j') v" by (simp add: seen_by_def v)
  then have "seen view (bump j') w'" using env(2) by (rule seen_env)
  ultimately show ?thesis by simp
qed

lemma save_triple:
  assumes step: "step_of b j j'" and "job_id j = jid"
  shows "triple (evolves b view) (seen view j) (save_and_emit ps j' ty pl)
    (\<lambda>r w. r = bump j' \<and> seen view (bump j') w) (\<lambda>e w. fatal e \<or> seen view j w)"
  unfolding save_and_emit_def
proof (rule bind_seen [OF clock_quiet])
  fix now
  let ?save = "p_jobs_save_with_event ps j' (make_job_event now j' ty pl)"
  have jid: "job_id j' = jid" using assms by (simp add: step_of_def)
  show "triple (evolves b view) (seen view j)
     (bind_prog (worker_database ?save) (\<lambda>(ev, j'). ret j'))
     (\<lambda>r w. r = bump j' \<and> seen view (bump j') w) (\<lambda>e w. fatal e \<or> seen view j w)"
  proof (rule bind_rule [where Q = "\<lambda>x w. snd x = bump j' \<and> seen view (bump j') w"])
    show "triple (evolves b view) (seen view j) (worker_database ?save)
      (\<lambda>x w. snd x = bump j' \<and> seen view (bump j') w) (\<lambda>e w. fatal e \<or> seen view j w)"
    proof (rule tripleI)
    fix w r w'
    assume P: "seen view j w" and run: "worker_database ?save w = (r, w')"
    obtain r0 where r0: "?save w = (r0, w')"
      using run by (cases "?save w") (auto simp: worker_database_def catch_prog_def
          split: outcome.splits if_splits)
    show "evolves b view w w' \<and> (case r of Done x \<Rightarrow> snd x = bump j' \<and> seen view (bump j') w'
        | Raised e \<Rightarrow> fatal e \<or> seen view j w' | Diverged \<Rightarrow> False)"
    proof (cases r0)
      case (Done x)
      with r0 save_done [OF jid] have "snd x = bump j'" "commits env view j' w w'"
        by (metis prod.collapse)+
      with Done r0 run commits_step [OF step P] show ?thesis by (auto simp: wrapper_Done)
    next
      case (Raised e)
      define e' where "e' = (if e = ConcurrentJobUpdateError \<or> is_dependency_error e \<or> \<not> is_exception e
             then e else DatabaseUnavailableError)"
      have r: "r = Raised e'" using run r0 Raised worker_database_Raised [of ?save w e w'] by (simp add: e'_def)
      from r0 Raised have "?save w = (Raised e, w')" by simp
      from save_raised [OF jid this] show ?thesis
      proof
        assume "env w w'"
        with P r show ?thesis by (auto intro: seen_env api_evolves_evolves env_api)
      next
        assume c: "(is_dependency_error e \<longrightarrow> e = DatabaseUnavailableError) \<and> commits env view j' w w'"
        then have "fatal e'" by (cases "is_dependency_error e") (auto simp: e'_def fatal_def simp del: is_dependency_error.simps)
        with c r commits_step [OF step P] show ?thesis by simp
      qed
    next
      case Diverged
      with r0 save_returns [OF jid] show ?thesis by (metis fst_conv)
    qed
    qed
  next
    fix x :: "job_event \<times> job"
    show "triple (evolves b view) (\<lambda>w. snd x = bump j' \<and> seen view (bump j') w)
       (case x of (ev, j') \<Rightarrow> ret j') (\<lambda>r w. r = bump j' \<and> seen view (bump j') w)
       (\<lambda>e w. fatal e \<or> seen view j w)"
      unfolding split_def by (rule ret_rule) auto
  qed
qed auto

end

end
