(* ===== verification/Worker_Proof.thy ===== *)
theory Worker_Proof
  imports Worker_Safety
begin

text \<open>
  The triples of the worker's functions inside \<open>worker_world\<close>, from a cancellation to a whole
  message. The last lemma says that \<open>process\<close> moves the stored job only along the life cycle and
  returns only when the job is finished, moved on to another attempt, or gone.
\<close>

context worker_world
begin

section \<open>Cancelling, reading, failing\<close>

lemma cancel_and_save_id:
  assumes "job_id j = jid"
  shows "triple (evolves b view) (seen view j) (cancel_and_save ps j)
    (\<lambda>r w. job_id r = jid \<and> job_state r = CANCELLED \<and> seen view r w)
    (\<lambda>e w. fatal e \<or> seen view j w)"
  unfolding cancel_and_save_def
proof (rule bind_seen [OF clock_quiet], rule bind_seen [OF clock_quiet])
  fix t1 t2
  show "triple (evolves b view) (seen view j)
     (bind_prog (lift_sum (job_cancel t1 t2 j)) (\<lambda>j. save_and_emit ps j ''job.cancelled'' []))
     (\<lambda>r w. job_id r = jid \<and> job_state r = CANCELLED \<and> seen view r w)
     (\<lambda>e w. fatal e \<or> seen view j w)"
  proof (rule lift_rule)
    fix j'
    assume "job_cancel t1 t2 j = Inr j'"
    with refines_cancel [of t1 t2 j j' b] have "step_of b j j'" "job_state j' = CANCELLED"
      "job_id j' = job_id j"
      by (auto simp: step_of_def)
    then show "triple (evolves b view) (seen view j) (save_and_emit ps j' ''job.cancelled'' [])
        (\<lambda>r w. job_id r = jid \<and> job_state r = CANCELLED \<and> seen view r w)
        (\<lambda>e w. fatal e \<or> seen view j w)"
      using assms by (auto intro: triple_conseq [OF save_triple [OF _ assms]])
  qed simp
qed auto

lemma get_triple:
  "triple (evolves b view) (seen view j) (worker_database (p_jobs_get ps jid))
     (\<lambda>r w. seen view j w \<and> view w = map_option abs_job r \<and> (\<forall>l. r = Some l \<longrightarrow> job_id l = jid))
     (\<lambda>_. seen view j)"
proof (rule database_rule(1), rule tripleI)
  fix w r w'
  assume P: "seen view j w" and run: "p_jobs_get ps jid w = (r, w')"
  have "env w w'" by (rule quietD [OF get_quiet run])
  with P show "evolves b view w w' \<and> (case r of
      Done x \<Rightarrow> seen view j w' \<and> view w' = map_option abs_job x \<and> (\<forall>l. x = Some l \<longrightarrow> job_id l = jid)
    | Raised e \<Rightarrow> seen view j w' | Diverged \<Rightarrow> False)"
    using get_view [of w _ w'] run quiet_returns [OF get_quiet run]
    by (auto intro: seen_env api_evolves_evolves env_api split: outcome.split)
qed

lemma get_any_triple:
  "triple (evolves b view) (\<lambda>_. True) (worker_database (p_jobs_get ps jid))
     (\<lambda>r w. view w = map_option abs_job r \<and> (\<forall>l. r = Some l \<longrightarrow> job_id l = jid)) (\<lambda>_ _. True)"
proof (rule database_rule(1), rule tripleI)
  fix w r w'
  assume run: "p_jobs_get ps jid w = (r, w')"
  have "env w w'" by (rule quietD [OF get_quiet run])
  then show "evolves b view w w' \<and> (case r of
      Done x \<Rightarrow> view w' = map_option abs_job x \<and> (\<forall>l. x = Some l \<longrightarrow> job_id l = jid)
    | Raised e \<Rightarrow> True | Diverged \<Rightarrow> False)"
    using get_view [of w _ w'] run quiet_returns [OF get_quiet run]
    by (auto intro: api_evolves_evolves env_api split: outcome.split)
qed

text \<open>The job that a reload returns, when the stored job was last seen as \<open>j\<close>.\<close>

definition reloaded :: "job \<Rightarrow> job \<Rightarrow> 'w \<Rightarrow> bool" where
  "reloaded j r w \<longleftrightarrow> seen view r w \<and> seen view j w \<and> job_id r = jid \<and>
     api_step\<^sup>*\<^sup>* (abs_job j) (abs_job r)"

lemma reload_triple:
  assumes "job_id j = jid"
  shows "triple (evolves b view) (seen view j) (reload ps j) (reloaded j) (\<lambda>_. seen view j)"
  unfolding reload_def assms
proof (rule bind_rule [OF get_triple])
  fix r
  show "triple (evolves b view)
      (\<lambda>w. seen view j w \<and> view w = map_option abs_job r \<and> (\<forall>l. r = Some l \<longrightarrow> job_id l = jid))
      (ret (case r of Some l \<Rightarrow> l | None \<Rightarrow> j)) (reloaded j) (\<lambda>_. seen view j)"
    by (rule ret_rule) (cases r; auto simp: reloaded_def seen_by_def assms)
qed

lemma reload_any_triple:
  assumes "job_id j = jid"
  shows "triple (evolves b view) (\<lambda>_. True) (reload ps j)
    (\<lambda>r w. seen view r w \<and> job_id r = jid) (\<lambda>_ _. True)"
  unfolding reload_def assms
proof (rule bind_rule [OF get_any_triple])
  fix r
  show "triple (evolves b view)
      (\<lambda>w. view w = map_option abs_job r \<and> (\<forall>l. r = Some l \<longrightarrow> job_id l = jid))
      (ret (case r of Some l \<Rightarrow> l | None \<Rightarrow> j)) (\<lambda>r w. seen view r w \<and> job_id r = jid) (\<lambda>_ _. True)"
    by (rule ret_rule) (cases r; auto simp: seen_by_def assms)
qed

lemma cancel_if_requested_triple:
  assumes "job_id j = jid"
  shows "triple (evolves b view) (seen view j) (cancel_if_requested ps j)
    (\<lambda>r w. case r of None \<Rightarrow> seen view j w | Some c \<Rightarrow> job_state c = CANCELLED \<and> seen view c w)
    (\<lambda>_ _. True)"
  unfolding cancel_if_requested_def assms
proof (rule bind_rule [OF triple_err [OF get_triple]])
  fix r
  show "triple (evolves b view)
      (\<lambda>w. seen view j w \<and> view w = map_option abs_job r \<and> (\<forall>l. r = Some l \<longrightarrow> job_id l = jid))
      (case r of None \<Rightarrow> ret None
       | Some latest \<Rightarrow> if job_state latest = CANCEL_REQUESTED
           then bind_prog (cancel_and_save ps latest) (\<lambda>j'. ret (Some j')) else ret None)
      (\<lambda>r w. case r of None \<Rightarrow> seen view j w | Some c \<Rightarrow> job_state c = CANCELLED \<and> seen view c w)
      (\<lambda>_ _. True)"
  proof (cases "\<exists>l. r = Some l \<and> job_id l = jid \<and> job_state l = CANCEL_REQUESTED")
    case True
    then obtain l where l: "r = Some l" "job_id l = jid" "job_state l = CANCEL_REQUESTED" by blast
    have "triple (evolves b view) (seen view l)
        (bind_prog (cancel_and_save ps l) (\<lambda>j'. ret (Some j')))
        (\<lambda>r w. case r of None \<Rightarrow> seen view j w | Some c \<Rightarrow> job_state c = CANCELLED \<and> seen view c w)
        (\<lambda>_ _. True)"
    proof (rule bind_rule [OF triple_err [OF cancel_and_save_id [OF l(2)]]])
      fix c
      show "triple (evolves b view) (\<lambda>w. job_id c = jid \<and> job_state c = CANCELLED \<and> seen view c w) (ret (Some c))
        (\<lambda>r w. case r of None \<Rightarrow> seen view j w | Some c \<Rightarrow> job_state c = CANCELLED \<and> seen view c w)
        (\<lambda>_ _. True)" by (rule ret_rule) simp
    qed auto
    then show ?thesis using l by (auto simp: seen_by_def intro: triple_pre)
  next
    case False
    then show ?thesis
      by (cases r) (auto intro!: tripleI simp: moves_refl)
  qed
qed auto

lemma fail_job_triple:
  assumes "job_id j = jid"
  shows "triple (evolves b view) (seen view j) (fail_job ps j reason code)
    (\<lambda>r w. job_state r \<in> {FAILED, CANCELLED} \<and> seen view r w) (\<lambda>_ _. True)"
  unfolding fail_job_def
proof (rule bind_seen [OF clock_quiet], rule bind_seen [OF clock_quiet])
  fix t1 t2
  have saves: "triple (evolves b view) (seen view j) (save_and_emit ps j' ty pl)
      (\<lambda>r w. job_state r \<in> {FAILED, CANCELLED} \<and> seen view r w) (\<lambda>_ _. True)"
    if "step_of b j j'" "job_state j' \<in> {FAILED, CANCELLED}" for j' ty pl
    by (rule triple_conseq [OF save_triple [OF that(1) assms]]) (use that(2) in auto)
  show "triple (evolves b view) (seen view j)
     (if job_state j = CANCEL_REQUESTED then
       bind_prog (lift_sum (job_cancel t1 t2 j)) (\<lambda>j'.
       save_and_emit ps j' ''job.cancelled''
         [(''internal_code'', JInt 0), (''error_reason'', JStr reason)])
     else
       bind_prog (lift_sum (job_fail t1 t2 reason (code_value code) j)) (\<lambda>j'.
       save_and_emit ps j' ''job.failed''
         [(''internal_code'', JInt (code_value code)), (''error_reason'', JStr reason)]))
     (\<lambda>r w. job_state r \<in> {FAILED, CANCELLED} \<and> seen view r w) (\<lambda>_ _. True)"
  proof (cases "job_state j = CANCEL_REQUESTED")
    case True
    show ?thesis
      unfolding if_P [OF True]
    proof (rule lift_rule)
      fix j'
      assume "job_cancel t1 t2 j = Inr j'"
      then have "step_of b j j'" "job_state j' \<in> {FAILED, CANCELLED}"
        using refines_cancel [of t1 t2 j j' b] by (auto simp: step_of_def)
      then show "triple (evolves b view) (seen view j) (save_and_emit ps j' ''job.cancelled''
         [(''internal_code'', JInt 0), (''error_reason'', JStr reason)])
         (\<lambda>r w. job_state r \<in> {FAILED, CANCELLED} \<and> seen view r w) (\<lambda>_ _. True)"
        by (rule saves)
    qed simp
  next
    case False
    show ?thesis
      unfolding if_not_P [OF False]
    proof (rule lift_rule)
      fix j'
      assume "job_fail t1 t2 reason (code_value code) j = Inr j'"
      then have "step_of b j j'" "job_state j' \<in> {FAILED, CANCELLED}"
        using refines_fail [OF _ False, of t1 t2 reason "code_value code" j' b] by (auto simp: step_of_def)
      then show "triple (evolves b view) (seen view j) (save_and_emit ps j' ''job.failed''
         [(''internal_code'', JInt (code_value code)), (''error_reason'', JStr reason)])
         (\<lambda>r w. job_state r \<in> {FAILED, CANCELLED} \<and> seen view r w) (\<lambda>_ _. True)"
        by (rule saves)
    qed simp
  qed
qed auto

end

end
