(* ===== verification/Worker_Pages.thy ===== *)
theory Worker_Pages
  imports Worker_Proof
begin

text \<open>
  The triples of the page loop and of the loop over the pages. A page that the loop returns
  normally is succeeded and the other pages are as they were; otherwise the job is failed or
  cancelled, or an error leaves with the stored job on its life cycle.
\<close>

lemma seen_from: "api_step\<^sup>*\<^sup>* (abs_job j) (abs_job l) \<Longrightarrow> seen view l w \<Longrightarrow> seen view j w"
  by (auto simp: seen_by_def split: option.splits)

lemma open_page_later:
  assumes "open_page i j" and "api_step\<^sup>*\<^sup>* (abs_job j) (abs_job r)" and "job_state r \<noteq> CANCEL_REQUESTED"
  shows "open_page i r" and "map abs_page (job_pages r) = map abs_page (job_pages j)"
proof -
  from assms(1) have run: "job_state j \<in> {RUNNING, CANCEL_REQUESTED}" and i: "i < length (job_pages j)"
    by (auto simp: open_page_def)
  from api_steps_running [OF assms(2) run] assms(3) have st: "job_state r = RUNNING"
    and pages: "map abs_page (job_pages r) = map abs_page (job_pages j)" by auto
  from map_abs_page_nth [OF pages i] have "i < length (job_pages r)"
    "page_state (job_pages r ! i) = page_state (job_pages j ! i)"
    by (auto dest: abs_page_eq_sel)
  with assms(1) st show "open_page i r" by (simp add: open_page_def)
  show "map abs_page (job_pages r) = map abs_page (job_pages j)" by (rule pages)
qed

lemma abs_bump_set_page:
  "map abs_page (job_pages (bump (set_page i p j))) = (map abs_page (job_pages j))[i := abs_page p]"
  by (simp add: map_update)

context worker_world
begin

section \<open>Rules for the worker's sequences\<close>

lemma bind_local:
  assumes "triple (evolves b view) P m Q (\<lambda>e. E (e, l))"
    and "\<And>x. triple (evolves b view) (Q x) (k x) S E"
  shows "triple (evolves b view) P (bind_prog (at_local l m) k) S E"
  by (rule bind_rule [OF triple_at_local [OF assms(1)] assms(2)])

lemma bind_local_seen:
  assumes "quiet env m" and "\<And>x. triple (evolves b view) (seen view j) (k x) S E"
    and "\<And>e w. seen view j w \<Longrightarrow> E (e, l) w"
  shows "triple (evolves b view) (seen view j) (bind_prog (at_local l m) k) S E"
proof (rule bind_local [OF _ assms(2)])
  show "triple (evolves b view) (seen view j) m (\<lambda>_. seen view j) (\<lambda>e. E (e, l))"
    by (rule triple_err [OF triple_quiet [OF assms(1)]]) (auto intro: seen_env assms(3))
qed

lemma after_reload:
  assumes jid: "job_id j = jid"
    and k: "\<And>r. job_id r = jid \<Longrightarrow> api_step\<^sup>*\<^sup>* (abs_job j) (abs_job r) \<Longrightarrow>
      triple (evolves b view) (seen view r) (k r) S E"
    and e: "\<And>e w. seen view j w \<Longrightarrow> E e w"
  shows "triple (evolves b view) (seen view j) (bind_prog (reload ps j) k) S E"
proof (rule bind_rule [OF triple_err [OF reload_triple [OF jid]]])
  fix r
  show "triple (evolves b view) (reloaded j r) (k r) S E"
    by (rule triple_pure [where C = "job_id r = jid \<and> api_step\<^sup>*\<^sup>* (abs_job j) (abs_job r)"])
      (simp add: reloaded_def, rule triple_pre [OF k], auto simp: reloaded_def)
qed (rule e)

lemma after_reload_local:
  assumes jid: "job_id j = jid"
    and k: "\<And>r. job_id r = jid \<Longrightarrow> api_step\<^sup>*\<^sup>* (abs_job j) (abs_job r) \<Longrightarrow>
      triple (evolves b view) (seen view r) (k r) S E"
    and e: "\<And>e w. seen view j w \<Longrightarrow> E (e, l) w"
  shows "triple (evolves b view) (seen view j) (bind_prog (at_local l (reload ps j)) k) S E"
proof (rule bind_local [OF triple_err [OF reload_triple [OF jid]]])
  fix r
  show "triple (evolves b view) (reloaded j r) (k r) S E"
    by (rule triple_pure [where C = "job_id r = jid \<and> api_step\<^sup>*\<^sup>* (abs_job j) (abs_job r)"])
      (simp add: reloaded_def, rule triple_pre [OF k], auto simp: reloaded_def)
qed (rule e)

lemma after_save:
  assumes "step_of b j j'" and "job_id j = jid"
    and "triple (evolves b view) (seen view (bump j')) (k (bump j')) S E"
    and "\<And>e w. fatal e \<or> seen view j w \<Longrightarrow> E e w"
  shows "triple (evolves b view) (seen view j) (bind_prog (save_and_emit ps j' ty pl) k) S E"
proof (rule bind_rule [OF triple_err [OF save_triple [OF assms(1,2)]]])
  fix r
  show "triple (evolves b view) (\<lambda>w. r = bump j' \<and> seen view (bump j') w) (k r) S E"
    by (rule triple_pure [where C = "r = bump j'"]) (auto intro: triple_pre [OF assms(3)])
qed (rule assms(4))

lemma after_save_local:
  assumes "step_of b j j'" and "job_id j = jid"
    and "triple (evolves b view) (seen view (bump j')) (k (bump j')) S E"
    and "\<And>e w. fatal e \<or> seen view j w \<Longrightarrow> E (e, l) w"
  shows "triple (evolves b view) (seen view j)
    (bind_prog (at_local l (save_and_emit ps j' ty pl)) k) S E"
proof (rule bind_local [OF triple_err [OF save_triple [OF assms(1,2)]]])
  fix r
  show "triple (evolves b view) (\<lambda>w. r = bump j' \<and> seen view (bump j') w) (k r) S E"
    by (rule triple_pure [where C = "r = bump j'"]) (auto intro: triple_pre [OF assms(3)])
qed (rule assms(4))

section \<open>The try block of a page\<close>

definition try_error :: "job \<Rightarrow> page \<Rightarrow> exn \<times> bool \<times> page \<Rightarrow> 'w \<Rightarrow> bool" where
  "try_error j p x w \<longleftrightarrow> fatal (fst x) \<or>
     (seen view j w \<and> (fst (snd x) \<longrightarrow> snd (snd x) = p))"

lemma finish_page_triple:
  assumes jid: "job_id latest = jid" and opn: "open_page i latest"
    and q: "job_pages latest ! i = q"
  shows "triple (evolves b view) (seen view latest)
    (save_and_emit ps (set_page i (page_with_result result stored vis q)
       (apply_engine_metadata result latest)) ty pl)
    (\<lambda>r w. job_id r = jid \<and> seen view r w \<and> job_state r = RUNNING \<and>
       page_done i (map abs_page (job_pages latest)) r)
    (\<lambda>e w. fatal e \<or> seen view latest w)"
proof -
  let ?n = "set_page i (page_with_result result stored vis q) (apply_engine_metadata result latest)"
  from opn have run: "job_state latest = RUNNING" by (simp add: open_page_def)
  have step: "step_of b latest (set_page i (page_with_result result stored vis q) latest)"
    by (rule step_of_page) (use opn q page_succeed_step in \<open>auto simp: open_page_def\<close>)
  have "abs_job ?n = abs_job (set_page i (page_with_result result stored vis q) latest)"
    by (rule abs_job_eqI) (simp_all add: set_page_def apply_engine_metadata_def Let_def)
  with step have step': "step_of b latest ?n" by (rule step_of_abs)
  have "page_state (page_with_result result stored vis q) = P_SUCCEEDED"
    by (simp add: page_with_result_def page_succeed_def)
  then have "page_done i (map abs_page (job_pages latest)) (bump ?n)"
    using run unfolding page_done_def
    by (intro disjI2 conjI exI [of _ "abs_page (page_with_result result stored vis q)"])
      (simp_all add: map_update)
  with run jid show ?thesis
    by (intro triple_conseq [OF save_triple [OF step' jid]]) auto
qed

lemma page_try_triple:
  assumes jid: "job_id j = jid" and opn: "open_page i j" and p: "job_pages j ! i = p"
  shows "triple (evolves b view) (seen view j) (page_try ps img i j p)
    (\<lambda>r w. job_id r = jid \<and> seen view r w \<and> page_done i (map abs_page (job_pages j)) r)
    (try_error j p)"
  unfolding page_try_def
proof (rule bind_local_seen [OF recognize_quiet], rule after_reload_local [OF jid])
  fix result latest
  assume lid: "job_id latest = jid" and since: "api_step\<^sup>*\<^sup>* (abs_job j) (abs_job latest)"
  note from_latest = seen_from [OF since]
  show "triple (evolves b view) (seen view latest)
     (if job_state latest = CANCEL_REQUESTED then at_local (True, p) (cancel_and_save ps latest)
      else case list_get (job_pages latest) i of None \<Rightarrow> raise_exc (IndexError, True, p)
        | Some q \<Rightarrow> let latest1 = apply_engine_metadata result latest
             in at_local (False, q)
                 (bind_prog (put_visualization ps j q result) (\<lambda>vis.
                  bind_prog (put_page_result ps j q result) (\<lambda>stored.
                  let latest2 = set_page i (page_with_result result stored vis q) latest1
                  in bind_prog (save_and_emit ps latest2 ''page.succeeded''
                         [(''page_number'', JInt (page_number q)),
                          (''completed_pages'', JInt (job_completed_pages latest2)),
                          (''total_pages'', JInt (job_total_pages latest2))]) (\<lambda>latest3.
                     if job_state latest3 = CANCEL_REQUESTED then cancel_and_save ps latest3
                     else ret latest3)))))
     (\<lambda>r w. job_id r = jid \<and> seen view r w \<and> page_done i (map abs_page (job_pages j)) r)
     (try_error j p)" (is "triple _ _ ?m ?Q _")
  proof (cases "job_state latest = CANCEL_REQUESTED")
    case True
    show ?thesis
      unfolding if_P [OF True]
      by (rule triple_at_local, rule triple_conseq [OF cancel_and_save_id [OF lid]])
        (auto simp: page_done_def try_error_def intro: from_latest)
  next
    case False
    note opn' = open_page_later [OF opn since False]
    then have i: "i < length (job_pages latest)" by (simp add: open_page_def)
    let ?q = "job_pages latest ! i"
    have body: "triple (evolves b view) (seen view latest)
       (bind_prog (put_visualization ps j ?q result) (\<lambda>vis.
        bind_prog (put_page_result ps j ?q result) (\<lambda>stored.
        let latest2 = set_page i (page_with_result result stored vis ?q) (apply_engine_metadata result latest)
        in bind_prog (save_and_emit ps latest2 ''page.succeeded''
                         [(''page_number'', JInt (page_number ?q)),
                          (''completed_pages'', JInt (job_completed_pages latest2)),
                          (''total_pages'', JInt (job_total_pages latest2))]) (\<lambda>latest3.
                     if job_state latest3 = CANCEL_REQUESTED then cancel_and_save ps latest3
                     else ret latest3))))
       ?Q (\<lambda>e w. fatal e \<or> seen view latest w)"
      unfolding Let_def
    proof (rule bind_seen [OF put_visualization_quiet], rule bind_seen [OF put_page_result_quiet],
        rule bind_rule [OF finish_page_triple [OF lid opn'(1) refl]])
      fix r
      show "triple (evolves b view) (\<lambda>w. job_id r = jid \<and> seen view r w \<and> job_state r = RUNNING \<and>
           page_done i (map abs_page (job_pages latest)) r)
         (if job_state r = CANCEL_REQUESTED then cancel_and_save ps r else ret r)
         ?Q (\<lambda>e w. fatal e \<or> seen view latest w)"
        by (rule triple_pure [where C = "job_state r = RUNNING"])
          (auto simp: opn'(2) simp del: ret_apply intro: ret_rule)
    qed auto
    show ?thesis
      unfolding if_not_P [OF False] list_get_def if_P [OF i] option.case Let_def
      by (rule triple_at_local, rule triple_err [OF body [unfolded Let_def]])
        (auto simp: try_error_def intro: from_latest)
  qed
qed (auto simp: try_error_def)

end

end
