(* ===== verification/Worker_Loop.thy ===== *)
theory Worker_Loop
  imports Worker_Pages
begin

text \<open>
  The triples of \<open>_process_page\<close>, of the loop over the pages, of \<open>_assemble\<close> with its commit
  and of \<open>process\<close>.
\<close>

text \<open>What \<open>page_loop\<close> returns: a job, or the break with the job at hand.\<close>

definition loop_result ::
    "uuid \<Rightarrow> nat \<Rightarrow> apage list \<Rightarrow> (exn option \<times> job) + job \<Rightarrow> job option" where
  "loop_result jid i pgs r =
     (case r of
        Inr d \<Rightarrow> if job_id d = jid \<and> page_done i pgs d then Some d else None
      | Inl (_, d) \<Rightarrow> if job_id d = jid \<and> open_page i d then Some d else None)"

definition loop_ok ::
    "('w \<Rightarrow> ajob option) \<Rightarrow> uuid \<Rightarrow> nat \<Rightarrow> apage list \<Rightarrow> (exn option \<times> job) + job \<Rightarrow> 'w \<Rightarrow> bool" where
  "loop_ok view jid i pgs r w \<longleftrightarrow>
     (case loop_result jid i pgs r of Some d \<Rightarrow> seen view d w | None \<Rightarrow> False)"

lemma page_done_update: "page_done i (pgs[i := x]) r \<longleftrightarrow> page_done i pgs r"
  by (simp add: page_done_def)

lemma loop_ok_update: "loop_ok view jid i (pgs[i := x]) r w \<longleftrightarrow> loop_ok view jid i pgs r w"
  by (simp add: loop_ok_def loop_result_def page_done_update split: sum.split)

text \<open>The job that the handler of a failed turn saves again.\<close>

lemma noted_page:
  fixes c :: int and r :: "string option"
  assumes "open_page i j" and "in_job \<longrightarrow> q = job_pages j ! i"
  defines "j2 \<equiv> (if in_job then set_page i (q\<lparr>page_internal_code := c, page_error_reason := r\<rparr>) j else j)"
  shows "abs_job j2 = abs_job j" and "open_page i j2" and "job_id j2 = job_id j" and "step_of b j j2"
proof -
  let ?q = "q\<lparr>page_internal_code := c, page_error_reason := r\<rparr>"
  show abs: "abs_job j2 = abs_job j"
  proof (cases in_job)
    case True
    with assms have "abs_page ?q = abs_page (job_pages j ! i)" by (simp add: abs_page_def)
    with True assms(1) show ?thesis
      unfolding j2_def set_page_def
      by (intro abs_job_eqI) (auto simp: map_update open_page_def list_update_same_conv)
  qed (simp add: j2_def)
  from assms show "open_page i j2" and "job_id j2 = job_id j"
    by (auto simp: j2_def open_page_def nth_list_update)
  have "step_of b j (set_page i (job_pages j ! i) j)"
    by (rule step_of_page) (use assms(1) in \<open>auto simp: open_page_def intro: page_step.page_error_noted\<close>)
  moreover have "set_page i (job_pages j ! i) j = j" by (simp add: set_page_def)
  ultimately show "step_of b j j2" using abs by (auto intro: step_of_abs)
qed

lemma started_page:
  assumes "open_page i j" and "int (page_processing_attempts (job_pages j ! i)) < b"
  shows "step_of b j (set_page i (page_start (job_pages j ! i)) j)"
    and "open_page i (bump (set_page i (page_start (job_pages j ! i)) j))"
    and "job_pages (bump (set_page i (page_start (job_pages j ! i)) j)) ! i = page_start (job_pages j ! i)"
    and "map abs_page (job_pages (bump (set_page i (page_start (job_pages j ! i)) j))) =
      (map abs_page (job_pages j))[i := abs_page (page_start (job_pages j ! i))]"
proof -
  let ?p = "job_pages j ! i"
  from assms(1) have np: "page_state ?p \<noteq> P_SUCCEEDED" and i: "i < length (job_pages j)"
    and run: "job_state j = RUNNING" by (auto simp: open_page_def)
  note start = page_start_step [OF assms(2) np]
  show "step_of b j (set_page i (page_start ?p) j)"
    by (rule step_of_page [OF _ i np start(1)]) (simp add: run)
  show "open_page i (bump (set_page i (page_start ?p) j))"
    using run i start(2) by (simp add: open_page_def)
  show "job_pages (bump (set_page i (page_start ?p) j)) ! i = page_start ?p"
    using i by simp
  show "map abs_page (job_pages (bump (set_page i (page_start ?p) j))) =
      (map abs_page (job_pages j))[i := abs_page (page_start ?p)]"
    by (simp add: map_update)
qed

context worker_world
begin

text \<open>The handler of one turn: it gives up, or saves and takes the next turn.\<close>

lemma turn_failed_triple:
  assumes jid: "job_id j = jid" and opn: "open_page i j" and p: "job_pages j ! i = p"
    and again: "\<And>j3 e. job_id j3 = jid \<Longrightarrow> open_page i j3 \<Longrightarrow>
      page_processing_attempts (job_pages j3 ! i) = page_processing_attempts p \<Longrightarrow>
      triple (evolves b view) (seen view j3) (again j3 e)
        (loop_ok view jid i (map abs_page (job_pages j3))) (\<lambda>_ _. True)"
  shows "triple (evolves b view) (try_error j p x) (turn_failed ps cfg i j again x)
    (loop_ok view jid i (map abs_page (job_pages j))) (\<lambda>_ _. True)"
proof -
  obtain e in_job q where x: "x = (e, in_job, q)" by (cases x) auto
  let ?q' = "q\<lparr>page_internal_code := code_value (exn_internal_code e),
      page_error_reason := Some (exn_reason e)\<rparr>"
  let ?j2 = "if in_job then set_page i ?q' j else j"
  show ?thesis
  proof (cases "e = ConcurrentJobUpdateError \<or> e = DatabaseUnavailableError \<or> \<not> is_exception e")
    case True
    show ?thesis unfolding turn_failed_def x prod.case if_P [OF True] by (rule raise_rule) simp
  next
    case False
    then have alive: "\<not> fatal e" by (simp add: fatal_def)
    show ?thesis
    proof (rule triple_pure [where C = "in_job \<longrightarrow> q = job_pages j ! i"])
      fix w
      assume "try_error j p x w"
      with alive p show "in_job \<longrightarrow> q = job_pages j ! i" by (simp add: try_error_def x)
    next
      assume q: "in_job \<longrightarrow> q = job_pages j ! i"
      note noted = noted_page [OF opn q, where c = "code_value (exn_internal_code e)" and
          r = "Some (exn_reason e)"]
      have pages: "map abs_page (job_pages ?j2) = map abs_page (job_pages j)"
        using noted(1) by (metis abs_job_sel(7))
      have "page_processing_attempts (job_pages ?j2 ! i) = page_processing_attempts p"
        using map_abs_page_nth(2) [OF pages, of i] opn p
        by (auto simp: open_page_def dest: abs_page_eq_sel(2))
      then have same: "page_processing_attempts (job_pages (bump ?j2) ! i) = page_processing_attempts p"
        by simp
      have bumped: "open_page i (bump ?j2)" "job_id (bump ?j2) = jid"
        "map abs_page (job_pages (bump ?j2)) = map abs_page (job_pages j)"
        using noted(2,3) pages jid by (auto simp: open_page_def simp del: set_page_sel split del: if_split)
      have seen: "try_error j p x w \<Longrightarrow> seen view j w" for w
        using alive by (simp add: try_error_def x)
      show ?thesis
      proof (rule triple_pre [OF _ seen])
        show "triple (evolves b view) (seen view j) (turn_failed ps cfg i j again x)
          (loop_ok view jid i (map abs_page (job_pages j))) (\<lambda>_ _. True)"
        proof (cases "\<not> is_transient_engine_error e \<or> int (page_processing_attempts ?q') \<ge> max_page_retries cfg + 1")
          case True
          show ?thesis
            unfolding turn_failed_def x prod.case if_not_P [OF False] Let_def if_P [OF True]
            using noted(2,3) jid seen_abs_eq [OF noted(1), of api_step view]
            by (intro ret_rule) (simp add: loop_ok_def loop_result_def split del: if_split)
        next
          case go: False
          show ?thesis
            unfolding turn_failed_def x prod.case if_not_P [OF False] Let_def if_not_P [OF go]
          proof (rule after_save [OF noted(4) jid], rule bind_seen [OF sleeper_quiet])
            show "triple (evolves b view) (seen view (bump ?j2)) (again (bump ?j2) e)
               (loop_ok view jid i (map abs_page (job_pages j))) (\<lambda>_ _. True)"
              using again [OF bumped(2,1) same] unfolding bumped(3) .
          qed auto
        qed
      qed
    qed
  qed
qed

text \<open>One turn, from the job it has read.\<close>

lemma page_turn_triple:
  assumes jid: "job_id j = jid" and opn: "open_page i j" and b: "b = max_page_retries cfg + 1"
    and lid: "job_id l = jid" and since: "api_step\<^sup>*\<^sup>* (abs_job j) (abs_job l)"
    and again: "\<And>j3 e. job_id j3 = jid \<Longrightarrow> open_page i j3 \<Longrightarrow>
      int (page_processing_attempts (job_pages j ! i)) < b \<Longrightarrow>
      page_processing_attempts (job_pages j3 ! i) = page_processing_attempts (job_pages j ! i) + 1 \<Longrightarrow>
      triple (evolves b view) (seen view j3) (again j3 e)
        (loop_ok view jid i (map abs_page (job_pages j3))) (\<lambda>_ _. True)"
  shows "triple (evolves b view) (seen view l) (page_turn ps cfg img i err0 again l)
    (loop_ok view jid i (map abs_page (job_pages j))) (\<lambda>_ _. True)"
proof (cases "job_state l = CANCEL_REQUESTED")
  case True
  show ?thesis
    unfolding page_turn_def if_P [OF True]
  proof (rule bind_rule [OF triple_err [OF cancel_and_save_id [OF lid]]])
    fix r
    show "triple (evolves b view) (\<lambda>w. job_id r = jid \<and> job_state r = CANCELLED \<and> seen view r w)
      (ret (Inr r)) (loop_ok view jid i (map abs_page (job_pages j))) (\<lambda>_ _. True)"
      by (rule ret_rule) (simp add: loop_ok_def loop_result_def page_done_def)
  qed simp
next
  case False
  note opl = open_page_later [OF opn since False]
  let ?p0 = "job_pages l ! i"
  from opl(1) have get: "list_get (job_pages l) i = Some ?p0"
    by (simp add: list_get_def open_page_def)
  show ?thesis
  proof (cases "int (page_processing_attempts ?p0) \<ge> max_page_retries cfg + 1")
    case True
    show ?thesis
      unfolding page_turn_def if_not_P [OF False] get option.case if_P [OF True]
      by (rule ret_rule) (simp add: loop_ok_def loop_result_def lid opl(1))
  next
    case go: False
    then have less: "int (page_processing_attempts ?p0) < b" using b by simp
    note started = started_page [OF opl(1) less]
    have att: "page_processing_attempts ?p0 = page_processing_attempts (job_pages j ! i)"
      using map_abs_page_nth(2) [OF opl(2), of i] opn by (auto simp: open_page_def dest: abs_page_eq_sel(2))
    have att1: "page_processing_attempts (page_start ?p0) = page_processing_attempts (job_pages j ! i) + 1"
      using att opl(1) by (simp add: page_start_def open_page_def)
    let ?j1 = "bump (set_page i (page_start ?p0) l)"
    have j1: "job_id ?j1 = jid" using lid by simp
    show ?thesis
      unfolding page_turn_def if_not_P [OF False] get option.case if_not_P [OF go] Let_def
    proof (rule after_save [OF started(1) lid], rule catch_rule,
        rule bind_rule [OF page_try_triple [OF j1 started(2,3)]])
      fix r
      show "triple (evolves b view)
        (\<lambda>w. job_id r = jid \<and> seen view r w \<and> page_done i (map abs_page (job_pages ?j1)) r)
        (ret (Inr r)) (loop_ok view jid i (map abs_page (job_pages j)))
        (try_error ?j1 (page_start ?p0))"
        unfolding started(4) page_done_update opl(2)
        by (rule ret_rule) (simp add: loop_ok_def loop_result_def)
    next
      fix x
      show "triple (evolves b view) (try_error ?j1 (page_start ?p0) x)
        (turn_failed ps cfg i ?j1 again x) (loop_ok view jid i (map abs_page (job_pages j))) (\<lambda>_ _. True)"
        proof -
        have "triple (evolves b view) (try_error ?j1 (page_start ?p0) x) (turn_failed ps cfg i ?j1 again x)
          (loop_ok view jid i (map abs_page (job_pages ?j1))) (\<lambda>_ _. True)"
        proof (rule turn_failed_triple [OF j1 started(2,3)])
          fix j3 e
          assume "job_id j3 = jid" "open_page i j3"
            "page_processing_attempts (job_pages j3 ! i) = page_processing_attempts (page_start ?p0)"
          then show "triple (evolves b view) (seen view j3) (again j3 e)
            (loop_ok view jid i (map abs_page (job_pages j3))) (\<lambda>_ _. True)"
            using less [unfolded att] att1 by (intro again) simp_all
        qed
        then show ?thesis unfolding started(4) loop_ok_update opl(2) .
      qed
    qed auto
  qed
qed

lemma page_loop_triple:
  assumes "job_id j = jid" and "open_page i j" and "b = max_page_retries cfg + 1"
    and "nat (b - int (page_processing_attempts (job_pages j ! i))) < fuel"
  shows "triple (evolves b view) (seen view j) (page_loop ps cfg img i fuel j err0)
    (loop_ok view jid i (map abs_page (job_pages j))) (\<lambda>_ _. True)"
  using assms(1,2,4)
proof (induction fuel arbitrary: j err0)
  case 0
  then show ?case by simp
next
  case (Suc fuel)
  show ?case
    unfolding page_loop.simps
  proof (rule after_reload [OF Suc.prems(1)])
    fix r
    assume "job_id r = jid" and "api_step\<^sup>*\<^sup>* (abs_job j) (abs_job r)"
    then show "triple (evolves b view) (seen view r)
      (page_turn ps cfg img i err0 (\<lambda>j3 e. page_loop ps cfg img i fuel j3 (Some e)) r)
      (loop_ok view jid i (map abs_page (job_pages j))) (\<lambda>_ _. True)"
      by (rule page_turn_triple [OF Suc.prems(1,2) assms(3)])
        (rule Suc.IH, assumption+, use Suc.prems(3) in linarith)
  qed simp
qed

text \<open>The loop may start from a job that the API has asked to cancel since.\<close>

lemma page_loop_later:
  assumes jid: "job_id j = jid" and opn: "open_page i j" and b: "b = max_page_retries cfg + 1"
    and j1: "job_id j1 = jid" and since: "api_step\<^sup>*\<^sup>* (abs_job j) (abs_job j1)"
    and fuel: "nat b < fuel"
  shows "triple (evolves b view) (seen view j1) (page_loop ps cfg img i fuel j1 err0)
    (loop_ok view jid i (map abs_page (job_pages j))) (\<lambda>_ _. True)"
proof (cases fuel)
  case 0
  with fuel show ?thesis by simp
next
  case (Suc m)
  show ?thesis
    unfolding Suc page_loop.simps
  proof (rule after_reload [OF j1])
    fix r
    assume "job_id r = jid" and "api_step\<^sup>*\<^sup>* (abs_job j1) (abs_job r)"
    with since have "api_step\<^sup>*\<^sup>* (abs_job j) (abs_job r)" by simp
    then show "triple (evolves b view) (seen view r)
      (page_turn ps cfg img i err0 (\<lambda>j3 e. page_loop ps cfg img i m j3 (Some e)) r)
      (loop_ok view jid i (map abs_page (job_pages j))) (\<lambda>_ _. True)"
      by (rule page_turn_triple [OF jid opn b \<open>job_id r = jid\<close>])
        (rule page_loop_triple [OF _ _ b], assumption+, use fuel Suc in linarith)
  qed simp
qed

section \<open>A page and the pages\<close>

lemma failed_page:
  assumes "open_page i j" and "api_step\<^sup>*\<^sup>* (abs_job j) (abs_job l)"
  shows "list_get (job_pages l) i = Some (job_pages l ! i)"
    and "step_of b l (set_page i (page_fail reason code (job_pages l ! i)) l)"
proof -
  from assms(1) have run: "job_state j \<in> {RUNNING, CANCEL_REQUESTED}" and i: "i < length (job_pages j)"
    and np: "page_state (job_pages j ! i) \<noteq> P_SUCCEEDED" by (auto simp: open_page_def)
  note st = api_steps_running [OF assms(2) run]
  note nth = map_abs_page_nth [OF conjunct2 [OF st] i]
  show "list_get (job_pages l) i = Some (job_pages l ! i)" using nth(1) by (simp add: list_get_def)
  have "page_state (job_pages l ! i) \<noteq> P_SUCCEEDED" using np abs_page_eq_sel(1) [OF nth(2)] by simp
  then show "step_of b l (set_page i (page_fail reason code (job_pages l ! i)) l)"
    by (intro step_of_page conjunct1 [OF st] nth(1) page_fail_step)
qed

lemma process_page_triple:
  assumes jid: "job_id j = jid" and opn: "open_page i j" and b: "b = max_page_retries cfg + 1"
    and j0: "job_id j0 = jid" and from_j: "api_step\<^sup>*\<^sup>* (abs_job j) (abs_job j0)"
    and fuel: "nat b < fuel"
  shows "triple (evolves b view) (seen view j0) (process_page ps cfg fuel j0 i p)
    (\<lambda>r w. seen view r w \<and> page_done i (map abs_page (job_pages j)) r \<and>
       (job_state r = RUNNING \<longrightarrow> job_id r = jid)) (\<lambda>_ _. True)"
  unfolding process_page_def
proof (rule bind_seen [OF quiet_wrapper(2) [OF get_bytes_quiet]],
    rule bind_rule [OF page_loop_later [OF jid opn b j0 from_j fuel]])
  fix img r
  let ?Q = "\<lambda>r w. seen view r w \<and> page_done i (map abs_page (job_pages j)) r \<and>
       (job_state r = RUNNING \<longrightarrow> job_id r = jid)"
  let ?tail = "\<lambda>err0 j1 latest. case list_get (job_pages latest) i of
           None \<Rightarrow> raise_exc IndexError
         | Some q \<Rightarrow>
             (let reason = (case err0 of
                              Some e \<Rightarrow> exn_reason e
                            | None \<Rightarrow>
                                (case page_error_reason q of
                                   Some r \<Rightarrow> if r \<noteq> [] then r else ''engine_retry_budget_exhausted''
                                 | None \<Rightarrow> ''engine_retry_budget_exhausted''));
                  code = (case err0 of
                            Some e \<Rightarrow> exn_internal_code e
                          | None \<Rightarrow> exn_internal_code (RuntimeError ''engine retry budget exhausted''));
                  q' = page_fail reason (code_value code) q
              in bind_prog (save_and_emit ps (set_page i q' latest) ''page.failed''
                   [(''page_number'', JInt (page_number q')),
                    (''internal_code'', JInt (code_value code)),
                    (''error_reason'', JStr reason)]) (\<lambda>j2.
                 bind_prog (p_logger_error ps ''ocr_job_failed''
                   [(''job_id'', JStr (uuid_str (job_id j2))), (''attempt'', JInt (job_attempt j2)),
                    (''request_id'', JStr (job_request_id j2)),
                    (''page_number'', JInt (page_number q')),
                    (''internal_code'', JInt (code_value code)),
                    (''internal_status_name'', JStr (code_name code)),
                    (''error_reason'', JStr reason),
                    (''error_type'', JStr (case err0 of
                        Some e \<Rightarrow> exn_name e | None \<Rightarrow> ''RuntimeError''))]) (\<lambda>_.
                 fail_job ps j2 reason code)))"
  show "triple (evolves b view) (loop_ok view jid i (map abs_page (job_pages j)) r)
    (case r of Inr completed \<Rightarrow> ret completed
     | Inl (err0, j1) \<Rightarrow> bind_prog (reload ps j1) (\<lambda>latest. ?tail err0 j1 latest)) ?Q (\<lambda>_ _. True)"
  proof (cases r)
    case (Inr d)
    show ?thesis
      unfolding Inr sum.case
      by (rule ret_rule) (auto simp: loop_ok_def loop_result_def split: if_splits)
  next
    case (Inl x)
    obtain err0 j1 where x: "x = (err0, j1)" by (cases x)
    show ?thesis
      unfolding Inl x sum.case prod.case
    proof (rule triple_pure [where C = "job_id j1 = jid \<and> open_page i j1"])
      fix w
      assume "loop_ok view jid i (map abs_page (job_pages j)) (Inl (err0, j1)) w"
      then show "job_id j1 = jid \<and> open_page i j1"
        by (auto simp: loop_ok_def loop_result_def split: if_splits)
    next
      assume j1: "job_id j1 = jid \<and> open_page i j1"
      show "triple (evolves b view) (loop_ok view jid i (map abs_page (job_pages j)) (Inl (err0, j1)))
        (bind_prog (reload ps j1) (\<lambda>latest. ?tail err0 j1 latest)) ?Q (\<lambda>_ _. True)"
      proof (rule triple_pre, rule after_reload [OF conjunct1 [OF j1]])
        fix latest
        assume lid: "job_id latest = jid" and since: "api_step\<^sup>*\<^sup>* (abs_job j1) (abs_job latest)"
        note failed = failed_page [OF conjunct2 [OF j1] since]
        show "triple (evolves b view) (seen view latest) (?tail err0 j1 latest) ?Q (\<lambda>_ _. True)"
          unfolding failed(1) option.case Let_def
        proof (rule after_save [OF failed(2) lid], rule bind_seen [OF error_quiet],
            rule triple_conseq [OF fail_job_triple])
        qed (auto simp: lid page_done_def)
      qed (auto simp: loop_ok_def loop_result_def split: if_splits)
    qed
  qed
qed auto

end

end
