(* ===== verification/Worker_Process.thy ===== *)
theory Worker_Process
  imports Worker_Loop
begin

text \<open>
  The triples of the loop over the pages, of the commit and of a whole message. \<open>process_triple\<close>
  is the contract of the worker in \<open>worker_world\<close>.
\<close>

text \<open>The worker's answers that end a message.\<close>

definition ended :: "('w \<Rightarrow> ajob option) \<Rightarrow> job option \<Rightarrow> 'w \<Rightarrow> bool" where
  "ended view r w \<longleftrightarrow> (case r of None \<Rightarrow> False | Some j \<Rightarrow> seen view j w \<and> job_terminal j)"

definition pages_result :: "('w \<Rightarrow> ajob option) \<Rightarrow> uuid \<Rightarrow> job + job \<Rightarrow> 'w \<Rightarrow> bool" where
  "pages_result view jid r w \<longleftrightarrow>
     (case r of
        Inl c \<Rightarrow> seen view c w \<and> job_terminal c
      | Inr d \<Rightarrow> seen view d w \<and> job_id d = jid \<and> job_state d = RUNNING \<and>
          list_all (\<lambda>p. page_state p = P_SUCCEEDED) (job_pages d))"

lemma list_all_abs:
  "list_all (\<lambda>a. ap_state a = P_SUCCEEDED) (map abs_page pgs) = list_all (\<lambda>p. page_state p = P_SUCCEEDED) pgs"
  by (simp add: list_all_iff)

lemma refines_step_of:
  "worker_step b (abs_job j) (abs_job (bump j')) \<and> job_id j' = job_id j \<and>
     job_revision j' = job_revision j \<and> C \<Longrightarrow> step_of b j j'"
  by (simp add: step_of_def)

context worker_world
begin

lemma after_cancel_check:
  assumes jid: "job_id j = jid"
    and k: "triple (evolves b view) (seen view j) (k None) S E"
    and c: "\<And>c :: job. job_state c = CANCELLED \<Longrightarrow> triple (evolves b view) (seen view c) (k (Some c)) S E"
    and e: "\<And>e w. E (e, l) w"
  shows "triple (evolves b view) (seen view j) (bind_prog (at_local l (cancel_if_requested ps j)) k) S E"
proof (rule bind_local [OF triple_err [OF cancel_if_requested_triple [OF jid]]])
  fix r
  show "triple (evolves b view)
    (\<lambda>w. case r of None \<Rightarrow> seen view j w | Some c \<Rightarrow> job_state c = CANCELLED \<and> seen view c w) (k r) S E"
  proof (cases r)
    case None
    with k show ?thesis by simp
  next
    case (Some d)
    show ?thesis
      unfolding Some option.case
      by (rule triple_pure [where C = "job_state d = CANCELLED"]) (auto intro: triple_pre [OF c])
  qed
qed (rule e)

section \<open>The pages\<close>

lemma pages_loop_triple:
  assumes "b = max_page_retries cfg + 1" and fuel: "nat b < fuel"
    and "job_id j = jid" and "job_state j = RUNNING"
    and "map abs_page (job_pages j) = pre @ map abs_page pgs"
    and "list_all (\<lambda>a. ap_state a = P_SUCCEEDED) pre" and "n = length pre"
  shows "triple (evolves b view) (seen view j) (pages_loop ps cfg fuel (enumerate n pgs) j)
    (pages_result view jid) (local_ok jid)"
  using assms(3-)
proof (induction pgs arbitrary: pre j n)
  case Nil
  have "list_all (\<lambda>p. page_state p = P_SUCCEEDED) (job_pages j)"
    using Nil.prems(3,4) unfolding list_all_abs [symmetric] by simp
  with Nil.prems(1,2) show ?case
    unfolding enumerate_simps pages_loop.simps
    by (intro ret_rule) (simp add: pages_result_def)
next
  case (Cons p pgs)
  note jid = Cons.prems(1)
  have keep: "triple (evolves b view) (seen view k) (pages_loop ps cfg fuel (enumerate (Suc n) pgs) k)
      (pages_result view jid) (local_ok jid)"
    if "job_id k = jid" "job_state k = RUNNING" "ap_state q = P_SUCCEEDED"
      "map abs_page (job_pages k) = (pre @ [q]) @ map abs_page pgs" for k q
    by (rule Cons.IH [OF that(1,2,4)]) (use Cons.prems(4,5) that(3) in simp_all)
  show ?case
  proof (cases "page_state p = P_SUCCEEDED")
    case True
    show ?thesis
      unfolding enumerate_simps pages_loop.simps if_P [OF True]
      by (rule keep [of j "abs_page p"]) (use Cons.prems True in simp_all)
  next
    case False
    have nth: "abs_page (job_pages j ! n) = abs_page p" "n < length (job_pages j)"
    proof -
      have len: "length (job_pages j) = length pre + Suc (length pgs)"
        using arg_cong [OF Cons.prems(3), of length] by simp
      then show "n < length (job_pages j)" using Cons.prems(5) by simp
      then have "abs_page (job_pages j ! n) = map abs_page (job_pages j) ! n" by simp
      then show "abs_page (job_pages j ! n) = abs_page p"
        unfolding Cons.prems(3) using Cons.prems(5) by simp
    qed
    have opn: "open_page n j"
      using nth False Cons.prems(2) abs_page_eq_sel(1) [OF nth(1)] by (simp add: open_page_def)
    have local: "local_ok jid (e, Some j) w" for e :: exn and w :: 'w
      using jid by (simp add: local_ok_def)
    show ?thesis
      unfolding enumerate_simps pages_loop.simps if_not_P [OF False]
    proof (rule after_cancel_check [OF jid], unfold option.case, rule after_reload_local [OF jid])
      fix j1
      assume j1: "job_id j1 = jid" and since: "api_step\<^sup>*\<^sup>* (abs_job j) (abs_job j1)"
      have local1: "local_ok jid (e, Some j1) w" for e :: exn and w :: 'w
        using j1 by (simp add: local_ok_def)
      have run: "job_state j \<in> {RUNNING, CANCEL_REQUESTED}" using Cons.prems(2) by simp
      note st = api_steps_running [OF since run]
      note nth1 = map_abs_page_nth [OF conjunct2 [OF st] nth(2)]
      then have get: "list_get (job_pages j1) n = Some (job_pages j1 ! n)" by (simp add: list_get_def)
      show "triple (evolves b view) (seen view j1)
        (case list_get (job_pages j1) n of None \<Rightarrow> raise_exc (IndexError, Some j1)
         | Some q \<Rightarrow> bind_prog (at_local (Some j1) (process_page ps cfg fuel j1 n q)) (\<lambda>completed.
             if job_state completed \<in> {FAILED, CANCELLED} then ret (Inl completed)
             else pages_loop ps cfg fuel (enumerate (Suc n) pgs) completed))
        (pages_result view jid) (local_ok jid)"
        unfolding get option.case
      proof (rule bind_local [OF triple_err])
        show "triple (evolves b view) (seen view j1) (process_page ps cfg fuel j1 n (job_pages j1 ! n))
          (\<lambda>r w. seen view r w \<and> page_done n (map abs_page (job_pages j)) r \<and>
             (job_state r = RUNNING \<longrightarrow> job_id r = jid)) (\<lambda>_ _. True)"
          by (rule process_page_triple [OF jid opn assms(1) j1 since fuel])
        fix r
        show "triple (evolves b view)
          (\<lambda>w. seen view r w \<and> page_done n (map abs_page (job_pages j)) r \<and>
             (job_state r = RUNNING \<longrightarrow> job_id r = jid))
          (if job_state r \<in> {FAILED, CANCELLED} then ret (Inl r)
           else pages_loop ps cfg fuel (enumerate (Suc n) pgs) r)
          (pages_result view jid) (local_ok jid)"
        proof (cases "job_state r \<in> {FAILED, CANCELLED}")
          case True
          show ?thesis
            unfolding if_P [OF True]
            by (rule ret_rule) (use True in \<open>auto simp: pages_result_def job_terminal_def\<close>)
        next
          case go: False
          show ?thesis
            unfolding if_not_P [OF go]
          proof (rule triple_pure [where C = "page_done n (map abs_page (job_pages j)) r \<and>
              (job_state r = RUNNING \<longrightarrow> job_id r = jid)"])
            assume C: "page_done n (map abs_page (job_pages j)) r \<and> (job_state r = RUNNING \<longrightarrow> job_id r = jid)"
            then obtain q where q: "job_state r = RUNNING" "ap_state q = P_SUCCEEDED" "job_id r = jid"
              "map abs_page (job_pages r) = (pre @ map abs_page (p # pgs))[n := q]"
              using go unfolding page_done_def Cons.prems(3) by auto
            then have "map abs_page (job_pages r) = (pre @ [q]) @ map abs_page pgs"
              using Cons.prems(5) by simp
            from keep [OF q(3,1,2) this]
            show "triple (evolves b view) (\<lambda>w. seen view r w \<and> page_done n (map abs_page (job_pages j)) r \<and>
                 (job_state r = RUNNING \<longrightarrow> job_id r = jid))
              (pages_loop ps cfg fuel (enumerate (Suc n) pgs) r) (pages_result view jid) (local_ok jid)"
              by (rule triple_pre) simp
          qed simp
        qed
      qed (rule local1)
    next
      fix c :: job
      assume "job_state c = CANCELLED"
      then show "triple (evolves b view) (seen view c) (ret (Inl c)) (pages_result view jid) (local_ok jid)"
        by (intro ret_rule) (simp add: pages_result_def job_terminal_def)
    qed (rule local)+
  qed
qed

section \<open>The steps of a message\<close>

lemma local_ok_Some: "job_id j = jid \<Longrightarrow> local_ok jid (e, Some j) w"
  by (simp add: local_ok_def)

lemma save_local_triple:
  assumes "step_of b j j'" and "job_id j = jid" and "\<And>w. seen view (bump j') w \<Longrightarrow> Q (bump j') w"
  shows "triple (evolves b view) (seen view j) (at_local (Some j') (save_and_emit ps j' ty pl)) Q (local_ok jid)"
proof (rule triple_at_local, rule triple_conseq [OF save_triple [OF assms(1,2)]])
  fix e w
  from assms(1,2) show "local_ok jid (e, Some j') w" by (simp add: local_ok_def step_of_def)
qed (auto intro: assms(3))

lemma start_job_triple:
  assumes jid: "job_id j = jid"
  shows "triple (evolves b view) (seen view j) (start_job ps j)
    (\<lambda>r w. seen view r w \<and> job_id r = jid) (local_ok jid)"
proof (cases "job_state j \<in> {QUEUED, RETRYING}")
  case True
  show ?thesis
    unfolding start_job_def if_P [OF True]
  proof (rule bind_local_seen [OF clock_quiet], rule bind_local_seen [OF clock_quiet], rule lift_local_rule)
    fix t1 t2 j1
    assume "job_begin_preprocessing t1 t2 j = Inr j1"
    note step = refines_begin_preprocessing [OF this, of b]
    then have "job_id j1 = jid" using jid by simp
    then show "triple (evolves b view) (seen view j)
       (at_local (Some j1) (save_and_emit ps j1 ''job.preprocessing'' []))
       (\<lambda>r w. seen view r w \<and> job_id r = jid) (local_ok jid)"
      by (intro save_local_triple [OF refines_step_of [OF step] jid]) simp
  qed (auto simp: local_ok_def jid)
next
  case False
  show ?thesis unfolding start_job_def if_not_P [OF False] by (rule ret_rule) (simp add: jid)
qed

lemma prepare_pages_triple:
  assumes jid: "job_id j = jid"
  shows "triple (evolves b view) (seen view j) (prepare_pages ps u j)
    (\<lambda>r w. seen view r w \<and> job_id r = jid \<and> job_pages r \<noteq> []) (local_ok jid)"
proof (cases "job_pages j = []")
  case none: True
  show ?thesis
  proof (cases "job_state j \<noteq> PREPROCESSING")
    case True
    show ?thesis
      unfolding prepare_pages_def if_P [OF none] if_P [OF True]
      by (rule raise_rule) (simp add: local_ok_def jid)
  next
    case False
    show ?thesis
      unfolding prepare_pages_def if_P [OF none] if_not_P [OF False]
    proof (rule bind_local_seen [OF prepare_quiet], rule bind_local_seen [OF clock_quiet], rule lift_local_rule)
      fix prepared now j1
      assume "job_set_pages now (prepared_to_pages prepared) j = Inr j1"
      note step = refines_set_pages [OF this none prepared_pages_fresh, of b]
      then have "job_id j1 = jid" "job_pages j1 \<noteq> []" using jid by simp_all
      then show "triple (evolves b view) (seen view j)
         (at_local (Some j1) (save_and_emit ps j1 ''job.pages_prepared''
            [(''total_pages'', JInt (job_total_pages j1))]))
         (\<lambda>r w. seen view r w \<and> job_id r = jid \<and> job_pages r \<noteq> []) (local_ok jid)"
        by (intro save_local_triple [OF refines_step_of [OF step] jid]) simp
    qed (auto simp: local_ok_def jid)
  qed
next
  case False
  then show ?thesis unfolding prepare_pages_def if_not_P [OF False] by (intro ret_rule) (simp add: jid)
qed

lemma commit_success_triple:
  assumes jid: "job_id j = jid"
  shows "triple (evolves b view) (seen view j) (commit_success ps j u log) (ended view) (local_ok jid)"
  unfolding commit_success_def
proof (rule bind_local_seen [OF assemble_quiet], rule after_cancel_check [OF jid],
    unfold option.case, rule after_reload_local [OF jid])
  fix artifacts and j1 :: job
  assume j1: "job_id j1 = jid"
  show "triple (evolves b view) (seen view j1)
     (bind_prog (at_local (Some j1) (p_utc_now ps)) (\<lambda>t1.
         bind_prog (at_local (Some j1) (p_utc_now ps)) (\<lambda>t2.
         bind_prog (at_local (Some j1) (lift_sum (job_succeed t1 t2 artifacts j1))) (\<lambda>j2.
         bind_prog (at_local (Some j2) (save_and_emit ps j2 ''job.succeeded''
             [(''artifact_count'', JInt (int (length artifacts)))])) (\<lambda>j3.
         if log then
           bind_prog (at_local (Some j3) (p_logger_info ps ''ocr_job_succeeded''
             [(''job_id'', JStr (uuid_str (job_id j3))), (''attempt'', JInt (job_attempt j3)),
              (''request_id'', JStr (job_request_id j3)),
              (''total_pages'', JInt (job_total_pages j3))])) (\<lambda>_. ret (Some j3))
         else ret (Some j3))))))
     (ended view) (local_ok jid)"
  proof (rule bind_local_seen [OF clock_quiet], rule bind_local_seen [OF clock_quiet], rule lift_local_rule)
    fix t1 t2 j2
    assume "job_succeed t1 t2 artifacts j1 = Inr j2"
    note step = refines_succeed [OF this, of b]
    have fin: "job_terminal (bump j2)" and j2: "job_id (bump j2) = jid"
      using step j1 by (simp_all add: job_terminal_def)
    show "triple (evolves b view) (seen view j1)
       (bind_prog (at_local (Some j2) (save_and_emit ps j2 ''job.succeeded''
             [(''artifact_count'', JInt (int (length artifacts)))])) (\<lambda>j3.
         if log then
           bind_prog (at_local (Some j3) (p_logger_info ps ''ocr_job_succeeded''
             [(''job_id'', JStr (uuid_str (job_id j3))), (''attempt'', JInt (job_attempt j3)),
              (''request_id'', JStr (job_request_id j3)),
              (''total_pages'', JInt (job_total_pages j3))])) (\<lambda>_. ret (Some j3))
         else ret (Some j3)))
       (ended view) (local_ok jid)"
    proof (rule after_save_local [OF refines_step_of [OF step] j1])
      have plain: "triple (evolves b view) (seen view (bump j2)) (ret (Some (bump j2))) (ended view) (local_ok jid)"
        by (rule ret_rule) (simp add: ended_def fin)
      have logged: "triple (evolves b view) (seen view (bump j2))
        (bind_prog (at_local (Some (bump j2)) (p_logger_info ps name kvs)) (\<lambda>_. ret (Some (bump j2))))
        (ended view) (local_ok jid)" for name kvs
        by (rule bind_local_seen [OF info_quiet plain]) (rule local_ok_Some [OF j2])
      show "triple (evolves b view) (seen view (bump j2))
        (if log then
           bind_prog (at_local (Some (bump j2)) (p_logger_info ps ''ocr_job_succeeded''
             [(''job_id'', JStr (uuid_str (job_id (bump j2)))), (''attempt'', JInt (job_attempt (bump j2))),
              (''request_id'', JStr (job_request_id (bump j2))),
              (''total_pages'', JInt (job_total_pages (bump j2)))])) (\<lambda>_. ret (Some (bump j2)))
         else ret (Some (bump j2)))
        (ended view) (local_ok jid)"
        by (cases log; simp only: if_True if_False logged plain)
    qed (use j2 in \<open>simp add: local_ok_def\<close>)
  qed (auto simp: local_ok_def j1)
next
  fix c :: job
  assume "job_state c = CANCELLED"
  then show "triple (evolves b view) (seen view c) (ret (Some c)) (ended view) (local_ok jid)"
    by (intro ret_rule) (simp add: ended_def job_terminal_def)
qed (auto simp: local_ok_def jid)

lemma run_pages_triple:
  assumes jid: "job_id j = jid" and run: "job_state j = RUNNING" and b: "b = max_page_retries cfg + 1"
    and fuel: "nat b < fuel"
  shows "triple (evolves b view) (seen view j) (run_pages ps cfg fuel j u) (ended view) (local_ok jid)"
  unfolding run_pages_def
proof (rule bind_rule [OF pages_loop_triple [OF b fuel jid run, where pre = "[]"]])
  fix r
  show "triple (evolves b view) (pages_result view jid r)
    (case r of Inl j' \<Rightarrow> ret (Some j')
     | Inr j1 \<Rightarrow>
         bind_prog (at_local (Some j1) (p_utc_now ps)) (\<lambda>t.
         bind_prog (at_local (Some j1) (lift_sum (job_begin_assembling t j1))) (\<lambda>j2.
         bind_prog (at_local (Some j2) (save_and_emit ps j2 ''job.assembling'' [])) (\<lambda>j3.
         commit_success ps j3 u True))))
    (ended view) (local_ok jid)"
  proof (cases r)
    case (Inl c)
    show ?thesis unfolding Inl sum.case by (rule ret_rule) (simp add: pages_result_def ended_def)
  next
    case (Inr j1)
    show ?thesis
      unfolding Inr sum.case
    proof (rule triple_pure [where C = "job_id j1 = jid \<and> list_all (\<lambda>p. page_state p = P_SUCCEEDED) (job_pages j1)"])
      assume C: "job_id j1 = jid \<and> list_all (\<lambda>p. page_state p = P_SUCCEEDED) (job_pages j1)"
      show "triple (evolves b view) (pages_result view jid (Inr j1))
        (bind_prog (at_local (Some j1) (p_utc_now ps)) (\<lambda>t.
         bind_prog (at_local (Some j1) (lift_sum (job_begin_assembling t j1))) (\<lambda>j2.
         bind_prog (at_local (Some j2) (save_and_emit ps j2 ''job.assembling'' [])) (\<lambda>j3.
         commit_success ps j3 u True))))
        (ended view) (local_ok jid)"
      proof (rule triple_pre, rule bind_local_seen [OF clock_quiet], rule lift_local_rule)
        fix t j2
        assume "job_begin_assembling t j1 = Inr j2"
        note step = refines_begin_assembling [OF this conjunct2 [OF C], of b]
        then have j2: "job_id j2 = jid" using C by simp
        show "triple (evolves b view) (seen view j1)
           (bind_prog (at_local (Some j2) (save_and_emit ps j2 ''job.assembling'' [])) (\<lambda>j3.
            commit_success ps j3 u True)) (ended view) (local_ok jid)"
          by (rule after_save_local [OF refines_step_of [OF step] conjunct1 [OF C]],
              rule commit_success_triple) (simp_all add: j2 local_ok_def)
      qed (auto simp: local_ok_def C pages_result_def)
    qed (simp add: pages_result_def)
  qed
qed simp_all

section \<open>A message\<close>

definition answered :: "int \<Rightarrow> job option \<Rightarrow> 'w \<Rightarrow> bool" where
  "answered attempt r w \<longleftrightarrow>
     (case r of None \<Rightarrow> view w = None | Some j \<Rightarrow> finished view attempt j w)"

lemma ended_answer: "ended view r w \<Longrightarrow> answered n r w"
  by (auto simp: ended_def answered_def finished_def split: option.splits)

lemma terminal_answer: "seen view r w \<Longrightarrow> job_state r \<in> {CANCELLED, SUCCEEDED, FAILED} \<Longrightarrow> answered n (Some r) w"
  by (simp add: answered_def finished_def job_terminal_def)

lemma bind_Some_triple:
  assumes "triple (evolves b view) P m Q E" and "\<And>r w. Q r w \<Longrightarrow> S (Some r) w"
  shows "triple (evolves b view) P (bind_prog m (\<lambda>r. ret (Some r))) S E"
  by (rule bind_rule [OF assms(1)]) (rule ret_rule, rule assms(2))

lemma work_job_triple:
  assumes jid: "job_id j2 = jid" and pages: "job_pages j2 \<noteq> []" and b: "b = max_page_retries cfg + 1"
    and fuel: "nat b < fuel"
  shows "triple (evolves b view) (seen view j2)
    (if job_state j2 = PREPROCESSING then
       bind_prog (at_local (Some j2) (p_utc_now ps)) (\<lambda>t.
       bind_prog (at_local (Some j2) (lift_sum (job_begin_running t j2))) (\<lambda>j3.
       bind_prog (at_local (Some j3) (save_and_emit ps j3 ''job.running'' [])) (\<lambda>j4.
       run_pages ps cfg fuel j4 u)))
     else if job_state j2 = ASSEMBLING then commit_success ps j2 u False
     else if job_state j2 \<noteq> RUNNING then
       raise_exc (RuntimeError (''cannot recover job from '' @ job_state_str (job_state j2)), Some j2)
     else run_pages ps cfg fuel j2 u)
    (ended view) (local_ok jid)"
proof (cases "job_state j2 = PREPROCESSING")
  case True
  show ?thesis
    unfolding if_P [OF True]
  proof (rule bind_local_seen [OF clock_quiet], rule lift_local_rule)
    fix t j3
    assume "job_begin_running t j2 = Inr j3"
    note step = refines_begin_running [OF this pages, of b]
    then have j3: "job_id j3 = jid" "job_state j3 = RUNNING" using jid by simp_all
    show "triple (evolves b view) (seen view j2)
      (bind_prog (at_local (Some j3) (save_and_emit ps j3 ''job.running'' [])) (\<lambda>j4.
       run_pages ps cfg fuel j4 u)) (ended view) (local_ok jid)"
      by (rule after_save_local [OF refines_step_of [OF step] jid], rule run_pages_triple)
        (use fuel in \<open>simp_all add: j3 b local_ok_def\<close>)
  qed (auto simp: local_ok_def jid)
next
  case np: False
  show ?thesis
  proof (cases "job_state j2 = ASSEMBLING \<or> job_state j2 \<noteq> RUNNING")
    case True
    then show ?thesis
      using commit_success_triple [OF jid, of b u False] np
      by (auto simp: local_ok_def jid simp del: raise_exc_apply intro!: raise_rule)
  next
    case False
    then show ?thesis
      using run_pages_triple [OF jid _ b fuel, of u] np by simp
  qed
qed

lemma process_job_triple:
  assumes jid: "job_id j = jid" and b: "b = max_page_retries cfg + 1" and fuel: "nat b < fuel"
  shows "triple (evolves b view) (seen view j) (process_job ps cfg fuel j u) (ended view) (local_ok jid)"
  unfolding process_job_def
proof (rule bind_rule [OF start_job_triple [OF jid]])
  fix j1
  show "triple (evolves b view) (\<lambda>w. seen view j1 w \<and> job_id j1 = jid)
    (bind_prog (prepare_pages ps u j1) (\<lambda>j2.
     bind_prog (at_local (Some j2) (cancel_if_requested ps j2)) (\<lambda>refreshed.
     case refreshed of
       Some j' \<Rightarrow> ret (Some j')
     | None \<Rightarrow> work_job ps cfg fuel j2 u)))
    (ended view) (local_ok jid)"
  proof (rule triple_pure [where C = "job_id j1 = jid"], simp,
      rule triple_pre [where P = "seen view j1"], rule bind_rule [OF prepare_pages_triple])
    fix j2
    show "triple (evolves b view) (\<lambda>w. seen view j2 w \<and> job_id j2 = jid \<and> job_pages j2 \<noteq> [])
      (bind_prog (at_local (Some j2) (cancel_if_requested ps j2)) (\<lambda>refreshed.
       case refreshed of Some j' \<Rightarrow> ret (Some j') | None \<Rightarrow> work_job ps cfg fuel j2 u))
      (ended view) (local_ok jid)"
    proof (rule triple_pure [where C = "job_id j2 = jid \<and> job_pages j2 \<noteq> []"], simp,
        rule triple_pre [where P = "seen view j2"], rule after_cancel_check, unfold option.case)
      assume C: "job_id j2 = jid \<and> job_pages j2 \<noteq> []"
      then show "triple (evolves b view) (seen view j2) (work_job ps cfg fuel j2 u) (ended view) (local_ok jid)"
        unfolding work_job_def by (intro work_job_triple b fuel) auto
    next
      fix c :: job
      assume "job_state c = CANCELLED"
      then show "triple (evolves b view) (seen view c) (ret (Some c)) (ended view) (local_ok jid)"
        by (intro ret_rule) (simp add: ended_def job_terminal_def)
    qed (auto simp: local_ok_def)
  qed auto
qed

lemma view_gone: "view w = None \<Longrightarrow> env w w' \<Longrightarrow> view w' = None"
  using env_api [of w w'] by (auto simp: moves_def split: option.splits)

lemma process_body_triple:
  assumes jid: "msg_job_id msg = jid" and b: "b = max_page_retries cfg + 1" and fuel: "nat b < fuel"
  shows "triple (evolves b view) (\<lambda>_. True) (process_body ps cfg fuel msg)
    (answered (msg_attempt msg)) (local_ok jid)"
  unfolding process_body_def jid
proof (rule bind_local [OF triple_err [OF get_any_triple]])
  fix r
  show "triple (evolves b view)
    (\<lambda>w. view w = map_option abs_job r \<and> (\<forall>l. r = Some l \<longrightarrow> job_id l = jid))
    (case r of
       None \<Rightarrow> bind_prog (at_local None (p_logger_error ps ''ocr_job_missing''
           [(''job_id'', JStr (uuid_str jid)), (''request_id'', JStr (msg_request_id msg))]))
           (\<lambda>_. ret None)
     | Some j \<Rightarrow>
         if job_attempt j \<noteq> msg_attempt msg then ret (Some j)
         else if job_terminal j then
           bind_prog (at_local (Some j) (repair_terminal_event ps j)) (\<lambda>_. ret (Some j))
         else
           bind_prog (at_local (Some j) (worker_database (p_uploads_get ps (job_upload_id j)))) (\<lambda>up.
           case up of
             None \<Rightarrow>
               bind_prog (at_local (Some j)
                 (fail_job ps j ''upload_not_found'' JOB_PROCESSING_FAILED)) (\<lambda>j'. ret (Some j'))
           | Some u \<Rightarrow> process_job ps cfg fuel j u))
    (answered (msg_attempt msg)) (local_ok jid)"
  proof (cases r)
    case None
    have "triple (evolves b view) (\<lambda>w. view w = None)
      (bind_prog (at_local None (p_logger_error ps name kvs)) (\<lambda>_. ret None))
      (answered (msg_attempt msg)) (local_ok jid)" for name kvs
    proof (rule bind_local [OF triple_err [OF triple_quiet [OF error_quiet]]])
      show "triple (evolves b view) (\<lambda>w. view w = None) (ret None) (answered (msg_attempt msg)) (local_ok jid)"
        by (rule ret_rule) (simp add: answered_def)
    qed (auto simp: local_ok_def intro: view_gone)
    then show ?thesis unfolding None by (auto intro: triple_pre)
  next
    case (Some j)
    show ?thesis
      unfolding Some option.case
    proof (rule triple_pure [where C = "job_id j = jid"], simp, rule triple_pre [where P = "seen view j"])
      assume id: "job_id j = jid"
      note lok = local_ok_Some [OF id]
      show "triple (evolves b view) (seen view j)
        (if job_attempt j \<noteq> msg_attempt msg then ret (Some j)
         else if job_terminal j then
           bind_prog (at_local (Some j) (repair_terminal_event ps j)) (\<lambda>_. ret (Some j))
         else
           bind_prog (at_local (Some j) (worker_database (p_uploads_get ps (job_upload_id j)))) (\<lambda>up.
           case up of
             None \<Rightarrow>
               bind_prog (at_local (Some j)
                 (fail_job ps j ''upload_not_found'' JOB_PROCESSING_FAILED)) (\<lambda>j'. ret (Some j'))
           | Some u \<Rightarrow> process_job ps cfg fuel j u))
        (answered (msg_attempt msg)) (local_ok jid)"
      proof (cases "job_attempt j \<noteq> msg_attempt msg")
        case True
        show ?thesis
          unfolding if_P [OF True] by (rule ret_rule) (use True in \<open>simp add: answered_def finished_def\<close>)
      next
        case same: False
        show ?thesis
          unfolding if_not_P [OF same]
        proof (cases "job_terminal j")
          case True
          show "triple (evolves b view) (seen view j) (if job_terminal j then
             bind_prog (at_local (Some j) (repair_terminal_event ps j)) (\<lambda>_. ret (Some j)) else X)
            (answered (msg_attempt msg)) (local_ok jid)" for X
            unfolding if_P [OF True]
            by (rule bind_local_seen [OF repair_quiet], rule ret_rule)
              (use True in \<open>simp_all add: answered_def finished_def lok\<close>)
        next
          case False
          have failed: "triple (evolves b view) (seen view j)
             (bind_prog (at_local (Some j) (fail_job ps j reason code)) (\<lambda>j'. ret (Some j')))
             (answered (msg_attempt msg)) (local_ok jid)" for reason code
            by (rule bind_Some_triple [OF triple_at_local [OF triple_err [OF fail_job_triple [OF id]]]])
              (auto intro: terminal_answer lok)
          have job: "triple (evolves b view) (seen view j) (process_job ps cfg fuel j u)
             (answered (msg_attempt msg)) (local_ok jid)" for u
            by (rule triple_conseq [OF process_job_triple [OF id b fuel]]) (auto intro: ended_answer)
          show "triple (evolves b view) (seen view j) (if job_terminal j then Y else
             bind_prog (at_local (Some j) (worker_database (p_uploads_get ps (job_upload_id j)))) (\<lambda>up.
               case up of None \<Rightarrow> bind_prog (at_local (Some j)
                   (fail_job ps j ''upload_not_found'' JOB_PROCESSING_FAILED)) (\<lambda>j'. ret (Some j'))
               | Some u \<Rightarrow> process_job ps cfg fuel j u))
            (answered (msg_attempt msg)) (local_ok jid)" for Y
            unfolding if_not_P [OF False]
            by (rule bind_local_seen [OF quiet_wrapper(1) [OF uploads_quiet]])
              (auto simp: lok intro: failed job split: option.split)
        qed
      qed
    qed (simp add: seen_by_def)
  qed
qed (simp add: local_ok_def)

lemma cancel_latest_triple:
  assumes "job_id l = jid"
  shows "triple (evolves b view) (seen view l)
    (bind_prog (cancel_and_save ps l) (\<lambda>j. ret (Some j))) (answered n) (\<lambda>_ _. True)"
  by (rule bind_Some_triple [OF triple_err [OF cancel_and_save_id [OF assms]]])
    (auto intro: terminal_answer)

lemma handle_conflict_triple:
  assumes jid: "msg_job_id msg = jid"
  shows "triple (evolves b view) (\<lambda>_. True) (handle_conflict ps msg) (answered (msg_attempt msg)) (\<lambda>_ _. True)"
  unfolding handle_conflict_def jid
proof (rule bind_rule [OF get_any_triple])
  fix r
  show "triple (evolves b view)
    (\<lambda>w. view w = map_option abs_job r \<and> (\<forall>l. r = Some l \<longrightarrow> job_id l = jid))
    (case r of None \<Rightarrow> ret None
     | Some latest \<Rightarrow>
         if job_state latest = CANCEL_REQUESTED
         then bind_prog (cancel_and_save ps latest) (\<lambda>j. ret (Some j))
         else if job_terminal latest \<or> job_attempt latest \<noteq> msg_attempt msg then ret (Some latest)
         else raise_exc DatabaseUnavailableError)
    (answered (msg_attempt msg)) (\<lambda>_ _. True)"
  proof (cases r)
    case None
    show ?thesis unfolding None option.case by (rule ret_rule) (simp add: answered_def)
  next
    case (Some l)
    show ?thesis
      unfolding Some option.case
    proof (rule triple_pure [where C = "job_id l = jid"], simp, rule triple_pre [where P = "seen view l"])
      assume id: "job_id l = jid"
      show "triple (evolves b view) (seen view l)
        (if job_state l = CANCEL_REQUESTED
         then bind_prog (cancel_and_save ps l) (\<lambda>j. ret (Some j))
         else if job_terminal l \<or> job_attempt l \<noteq> msg_attempt msg then ret (Some l)
         else raise_exc DatabaseUnavailableError)
        (answered (msg_attempt msg)) (\<lambda>_ _. True)"
      proof (cases "job_state l = CANCEL_REQUESTED")
        case True
        show ?thesis unfolding if_P [OF True] by (rule cancel_latest_triple [OF id])
      next
        case False
        show ?thesis
          unfolding if_not_P [OF False]
          by (cases "job_terminal l \<or> job_attempt l \<noteq> msg_attempt msg")
            (simp_all add: answered_def finished_def ret_rule raise_rule del: ret_apply raise_exc_apply)
      qed
    qed (simp add: seen_by_def)
  qed
qed

lemma handle_failure_triple:
  assumes jid: "msg_job_id msg = jid"
  shows "triple (evolves b view) (local_ok jid (e, local)) (handle_failure ps msg e local)
    (answered (msg_attempt msg)) (\<lambda>_ _. True)"
  unfolding handle_failure_def Let_def
proof (rule bind_quiet [OF error_quiet])
  show "triple (evolves b view) (local_ok jid (e, local))
    (if e = DatabaseUnavailableError then raise_exc e
     else case local of None \<Rightarrow> raise_exc UnboundLocalError
        | Some j \<Rightarrow> bind_prog (reload ps j) (\<lambda>latest.
            if job_state latest = CANCEL_REQUESTED
            then bind_prog (cancel_and_save ps latest) (\<lambda>j'. ret (Some j'))
            else if job_terminal latest then ret (Some latest)
            else bind_prog (fail_job ps latest (exn_reason e) (exn_internal_code e)) (\<lambda>j'. ret (Some j'))))
    (answered (msg_attempt msg)) (\<lambda>_ _. True)"
  proof (cases "e = DatabaseUnavailableError \<or> local = None")
    case True
    then show ?thesis by (auto simp del: raise_exc_apply intro: raise_rule)
  next
    case False
    then obtain j where j: "local = Some j" "e \<noteq> DatabaseUnavailableError" by auto
    show ?thesis
      unfolding j(1) option.case if_not_P [OF j(2)]
    proof (rule triple_pure [where C = "job_id j = jid"], simp add: local_ok_def,
        rule triple_pre [where P = "\<lambda>_. True"], rule bind_rule [OF reload_any_triple], assumption)
      fix l
      show "triple (evolves b view) (\<lambda>w. seen view l w \<and> job_id l = jid)
        (if job_state l = CANCEL_REQUESTED
         then bind_prog (cancel_and_save ps l) (\<lambda>j'. ret (Some j'))
         else if job_terminal l then ret (Some l)
         else bind_prog (fail_job ps l (exn_reason e) (exn_internal_code e)) (\<lambda>j'. ret (Some j')))
        (answered (msg_attempt msg)) (\<lambda>_ _. True)"
      proof (rule triple_pure [where C = "job_id l = jid"], simp, rule triple_pre [where P = "seen view l"])
        assume id: "job_id l = jid"
        have failed: "triple (evolves b view) (seen view l)
            (bind_prog (fail_job ps l reason code) (\<lambda>j'. ret (Some j')))
            (answered (msg_attempt msg)) (\<lambda>_ _. True)" for reason code
          by (rule bind_Some_triple [OF fail_job_triple [OF id]]) (auto intro: terminal_answer)
        show "triple (evolves b view) (seen view l)
          (if job_state l = CANCEL_REQUESTED
           then bind_prog (cancel_and_save ps l) (\<lambda>j'. ret (Some j'))
           else if job_terminal l then ret (Some l)
           else bind_prog (fail_job ps l (exn_reason e) (exn_internal_code e)) (\<lambda>j'. ret (Some j')))
          (answered (msg_attempt msg)) (\<lambda>_ _. True)"
          using cancel_latest_triple [OF id, of b "msg_attempt msg"] failed
          by (cases "job_state l = CANCEL_REQUESTED"; cases "job_terminal l")
            (simp_all add: ret_rule answered_def finished_def del: ret_apply)
      qed simp
    qed simp
  qed
qed (auto simp: local_ok_def)

lemma process_triple:
  assumes jid: "msg_job_id msg = jid" and b: "b = max_page_retries cfg + 1"
    and fuel: "nat b < fuel" and schema: "msg_schema_version msg = 1"
  shows "triple (evolves b view) (\<lambda>_. True) (process ps cfg fuel msg)
    (answered (msg_attempt msg)) (\<lambda>_ _. True)"
  unfolding process_def if_not_P [OF iffD2 [OF not_not schema]]
proof (rule catch_rule [OF process_body_triple [OF jid b fuel]])
  fix x :: "exn \<times> job option"
  obtain e l where x: "x = (e, l)" by (cases x)
  show "triple (evolves b view) (local_ok jid x)
    (case x of (e, local) \<Rightarrow>
       if e = ConcurrentJobUpdateError then handle_conflict ps msg
       else if is_exception e then handle_failure ps msg e local else raise_exc e)
    (answered (msg_attempt msg)) (\<lambda>_ _. True)"
    using handle_conflict_triple [OF jid] handle_failure_triple [OF jid, of b e l]
    unfolding x prod.case
    by (auto simp del: raise_exc_apply intro: raise_rule triple_pre)
qed

end

end
