(* ===== verification/Interleaving.thy ===== *)
theory Interleaving
  imports Memory File_Validation Service_Safety Worker_Process
begin

text \<open>
  The worker and the service run together on the in-memory runtime. \<open>local_ports\<close> is the
  runtime of the local mode: the in-memory adapters, the magic-bytes validator, the static
  preprocessor and the fake engine. \<open>sim_ports\<close> puts tasks between the awaits: before each
  operation of a port the tasks that the schedule holds for that moment run to completion. The
  interpretations discharge the laws of \<open>worker_world\<close> and \<open>service_world\<close> for both.
\<close>

definition local_ports :: "(bytes \<Rightarrow> string) \<Rightarrow> bytes list \<Rightarrow> nat \<Rightarrow> bytes option \<Rightarrow> mem ports" where
  "local_ports sha images failures vis =
     mem_ports sha magic_validate (static_prepare sha images) (fake_recognize sha failures vis)"

definition mem_view :: "uuid \<Rightarrow> mem \<Rightarrow> ajob option" where
  "mem_view jid w = map_option abs_job (lookup_by job_id (m_jobs w) jid)"

section \<open>The jobs of the memory\<close>

definition jobs_kept :: "(mem, 'e, 'a) prog \<Rightarrow> bool" where
  "jobs_kept m \<longleftrightarrow> (\<forall>w. m_jobs (snd (m w)) = m_jobs w \<and> fst (m w) \<noteq> Diverged)"

lemma jobs_keptD: "jobs_kept m \<Longrightarrow> m w = (r, w') \<Longrightarrow> m_jobs w' = m_jobs w"
  by (metis jobs_kept_def snd_conv)

lemma jobs_kept_bind: "jobs_kept m \<Longrightarrow> (\<And>x. jobs_kept (k x)) \<Longrightarrow> jobs_kept (bind_prog m k)"
  unfolding jobs_kept_def bind_prog_def
  by (auto split: prod.split outcome.split) (metis snd_conv fst_conv)+

lemma jobs_kept_ret: "jobs_kept (ret x)" "jobs_kept (raise_exc e)" "jobs_kept (lift_sum r)"
  by (auto simp: jobs_kept_def lift_sum_def split: sum.split)

lemma jobs_kept_map_prog: "(\<And>x. jobs_kept (f x)) \<Longrightarrow> jobs_kept (map_prog f xs)"
  by (induction xs) (auto intro!: jobs_kept_bind jobs_kept_ret simp del: ret_apply)

lemma jobs_kept_mem:
  "jobs_kept (mem_utc_now)"
  "jobs_kept (mem_uuid7)"
  "jobs_kept (mem_uploads_add u)"
  "jobs_kept (mem_uploads_get x)"
  "jobs_kept (mem_uploads_save u)"
  "jobs_kept (mem_jobs_get x)"
  "jobs_kept (mem_jobs_find owner key)"
  "jobs_kept (mem_jobs_list owner offset limit)"
  "jobs_kept (mem_events_append ev)"
  "jobs_kept (mem_events_list_after x n)"
  "jobs_kept (mem_outbox_add ob)"
  "jobs_kept (mem_outbox_pending limit)"
  "jobs_kept (mem_outbox_mark_published x)"
  "jobs_kept (mem_stat key)"
  "jobs_kept (mem_get_bytes key)"
  "jobs_kept (mem_put_bytes sha key data ct)"
  "jobs_kept (mem_publish msg)"
  "jobs_kept (mem_log level name kvs)"
  "jobs_kept (mem_sleep d)"
  "jobs_kept (fake_recognize sha failures vis img n opts rid)"
  subgoal by (simp add: jobs_kept_def mem_utc_now_def Let_def split: option.split prod.split)
  subgoal by (simp add: jobs_kept_def mem_uuid7_def Let_def split: option.split prod.split)
  subgoal by (simp add: jobs_kept_def mem_uploads_add_def Let_def split: option.split prod.split)
  subgoal by (simp add: jobs_kept_def mem_uploads_get_def Let_def split: option.split prod.split)
  subgoal by (simp add: jobs_kept_def mem_uploads_save_def Let_def split: option.split prod.split)
  subgoal by (simp add: jobs_kept_def mem_jobs_get_def Let_def split: option.split prod.split)
  subgoal by (simp add: jobs_kept_def mem_jobs_find_def Let_def split: option.split prod.split)
  subgoal by (simp add: jobs_kept_def mem_jobs_list_def Let_def split: option.split prod.split)
  subgoal by (simp add: jobs_kept_def mem_events_append_def Let_def split: option.split prod.split)
  subgoal by (simp add: jobs_kept_def mem_events_list_after_def Let_def split: option.split prod.split)
  subgoal by (simp add: jobs_kept_def mem_outbox_add_def Let_def split: option.split prod.split)
  subgoal by (simp add: jobs_kept_def mem_outbox_pending_def Let_def split: option.split prod.split)
  subgoal by (simp add: jobs_kept_def mem_outbox_mark_published_def Let_def split: option.split prod.split)
  subgoal by (simp add: jobs_kept_def mem_stat_def Let_def split: option.split prod.split)
  subgoal by (simp add: jobs_kept_def mem_get_bytes_def Let_def split: option.split prod.split)
  subgoal by (simp add: jobs_kept_def mem_put_bytes_def Let_def split: option.split prod.split)
  subgoal by (simp add: jobs_kept_def mem_publish_def Let_def split: option.split prod.split)
  subgoal by (simp add: jobs_kept_def mem_log_def Let_def split: option.split prod.split)
  subgoal by (simp add: jobs_kept_def mem_sleep_def Let_def split: option.split prod.split)
  subgoal by (simp add: jobs_kept_def fake_recognize_def Let_def split: option.split prod.split)
  done

lemma jobs_kept_prepare: "jobs_kept (static_prepare sha images u j)"
  unfolding static_prepare_def split_def Let_def
  by (intro jobs_kept_map_prog jobs_kept_bind jobs_kept_mem jobs_kept_ret)

lemma jobs_kept_validate: "jobs_kept (magic_validate u data)"
  unfolding magic_validate_def by (rule jobs_kept_ret)

text \<open>What a save does to the jobs.\<close>

lemma mem_append_Done: "\<exists>saved w1. mem_events_append ev w = (Done saved, w1) \<and> m_jobs w1 = m_jobs w"
  by (cases "find_terminal ev (events_of w (ev_job_id ev))") (simp_all add: mem_events_append_def Let_def)

lemma mem_save_cases:
  assumes "mem_jobs_save_with_event j ev w = (r, w')"
  obtains (refused) e where "r = Raised e" and "w' = w"
  | (accepted) saved stored where "r = Done (saved, bump j)" and "lookup_by job_id (m_jobs w) (job_id j) = Some stored"
      and "job_revision stored = job_revision j"
      and "m_jobs w' = update_by job_id (bump j) (m_jobs w)"
proof (cases "m_events_configured w \<and>
    (\<exists>s. lookup_by job_id (m_jobs w) (job_id j) = Some s \<and> job_revision s = job_revision j)")
  case False
  with assms refused show ?thesis
    by (auto simp: mem_jobs_save_with_event_def split: option.splits if_splits)
next
  case True
  then obtain s where s: "lookup_by job_id (m_jobs w) (job_id j) = Some s" "job_revision s = job_revision j" by blast
  let ?w = "w\<lparr>m_jobs := update_by job_id (bump j) (m_jobs w)\<rparr>"
  obtain saved w1 where app: "mem_events_append ev ?w = (Done saved, w1)" "m_jobs w1 = m_jobs ?w"
    using mem_append_Done by blast
  with True s assms have "r = Done (saved, bump j)" "w' = w1"
    by (auto simp: mem_jobs_save_with_event_def Let_def bump_def)
  with s app(2) accepted show ?thesis by simp
qed

lemma mem_resave_cases:
  assumes "mem_jobs_save_with_outbox_and_event j ob ev w = (r, w')"
  obtains (refused) e where "r = Raised e" and "w' = w"
  | (accepted) saved stored where "r = Done (saved, bump j)" and "lookup_by job_id (m_jobs w) (job_id j) = Some stored"
      and "job_revision stored = job_revision j"
      and "m_jobs w' = update_by job_id (bump j) (m_jobs w)"
proof -
  obtain r1 w1 where save: "mem_jobs_save_with_event j ev w = (r1, w1)" by (cases "mem_jobs_save_with_event j ev w")
  from save show thesis
  proof (cases rule: mem_save_cases)
    case (refused e)
    with save assms that(1) show thesis
      by (auto simp: mem_jobs_save_with_outbox_and_event_def bind_prog_def)
  next
    case (accepted saved stored)
    with save assms that(2) show thesis
      by (auto simp: mem_jobs_save_with_outbox_and_event_def bind_prog_def mem_outbox_add_def)
  qed
qed

section \<open>The memory provides the laws\<close>

definition same_view :: "uuid \<Rightarrow> mem \<Rightarrow> mem \<Rightarrow> bool" where
  "same_view jid u v \<longleftrightarrow> mem_view jid u = mem_view jid v"

lemma jobs_kept_view: "jobs_kept m \<Longrightarrow> mem_view jid (snd (m w)) = mem_view jid w"
  by (simp add: jobs_kept_def mem_view_def)

lemma jobs_kept_returns: "jobs_kept m \<Longrightarrow> fst (m w) \<noteq> Diverged"
  by (simp add: jobs_kept_def)

lemma quiet_kept: "jobs_kept m \<Longrightarrow> quiet (same_view jid) m"
  by (simp add: quiet_def same_view_def jobs_kept_view jobs_kept_returns)

lemma quiet_kept_moves: "jobs_kept m \<Longrightarrow> quiet (moves rel (mem_view jid)) m"
  by (simp add: quiet_def moves_same jobs_kept_view jobs_kept_returns)

lemma local_ports_sel [simp]:
  "p_utc_now (local_ports sha images failures vis) = mem_utc_now"
  "p_uuid7 (local_ports sha images failures vis) = mem_uuid7"
  "p_uploads_get (local_ports sha images failures vis) = mem_uploads_get"
  "p_jobs_get (local_ports sha images failures vis) = mem_jobs_get"
  "p_jobs_save_with_event (local_ports sha images failures vis) = mem_jobs_save_with_event"
  "p_jobs_save_with_outbox_and_event (local_ports sha images failures vis) =
     mem_jobs_save_with_outbox_and_event"
  "p_events_append (local_ports sha images failures vis) = mem_events_append"
  "p_storage_stat (local_ports sha images failures vis) = mem_stat"
  "p_storage_get_bytes (local_ports sha images failures vis) = mem_get_bytes"
  "p_storage_put_bytes (local_ports sha images failures vis) = mem_put_bytes sha"
  "p_preprocessor_prepare (local_ports sha images failures vis) = static_prepare sha images"
  "p_engine_recognize (local_ports sha images failures vis) = fake_recognize sha failures vis"
  "p_logger_info (local_ports sha images failures vis) = mem_log ''info''"
  "p_logger_error (local_ports sha images failures vis) = mem_log ''error''"
  "p_sleeper (local_ports sha images failures vis) = mem_sleep"
  by (simp_all add: local_ports_def mem_ports_def)

lemma mem_save_done:
  assumes "job_id j = jid" and "mem_jobs_save_with_event j ev w = (Done (ev', j'), w')"
  shows "j' = bump j \<and> mem_view jid w = Some (abs_job (the (lookup_by job_id (m_jobs w) jid))) \<and>
    job_revision (the (lookup_by job_id (m_jobs w) jid)) = job_revision j \<and>
    mem_view jid w' = Some (abs_job (bump j))"
  using assms(2) by (cases rule: mem_save_cases) (use assms(1) in \<open>auto simp: mem_view_def\<close>)

lemma mem_save_other:
  assumes "job_id j \<noteq> jid"
  shows "mem_view jid (snd (mem_jobs_save_with_event j ev w)) = mem_view jid w"
proof -
  obtain r w' where run: "mem_jobs_save_with_event j ev w = (r, w')" by (cases "mem_jobs_save_with_event j ev w")
  then show ?thesis by (cases rule: mem_save_cases) (use run assms in \<open>auto simp: mem_view_def\<close>)
qed

lemma mem_save_not_done:
  assumes "mem_jobs_save_with_event j ev w = (r, w')" and "\<nexists>x. r = Done x"
  shows "w' = w \<and> (\<exists>e. r = Raised e)"
  using assms(1) by (cases rule: mem_save_cases) (use assms(2) in auto)

lemma mem_save_returns: "fst (mem_jobs_save_with_event j ev w) \<noteq> Diverged"
  using mem_save_not_done [of j ev w Diverged] by (metis outcome.distinct(3) outcome.distinct(5) prod.collapse)

lemma commits_direct:
  assumes "\<And>u. env u u" and "view w = Some s" and "aj_revision s = job_revision j"
    and "view w' = Some (abs_job (bump j))"
  shows "commits env view j w w'"
  using assms by (auto simp: commits_def)

interpretation mem_worker: worker_world "local_ports sha images failures vis" "same_view jid"
    "mem_view jid" jid
  for sha images failures vis jid
proof (unfold_locales, goal_cases)
  case (3 u v)
  then show ?case by (auto simp: same_view_def intro: moves_same)
next
  case (5 w r w')
  then show ?case by (auto simp: mem_jobs_get_def mem_view_def dest: lookup_by_key)
next
  case (6 j ev w ev' j' w')
  then show ?case
    using mem_save_done [of j jid ev w ev' j' w']
    by (auto simp: same_view_def intro: commits_direct)
next
  case (7 j ev w e w')
  then show ?case using mem_save_not_done [of j ev w "Raised e" w'] by (auto simp: same_view_def)
next
  case (8 j ev w)
  show ?case by (simp add: mem_save_returns)
qed (simp_all add: same_view_def [abs_def] quiet_kept [unfolded same_view_def [abs_def]]
      jobs_kept_mem jobs_kept_prepare)

lemma mem_resave_done:
  assumes "job_id j = jid" and "mem_jobs_save_with_outbox_and_event j ob ev w = (Done p, w')"
  shows "snd p = bump j \<and> commits (moves rel (mem_view jid)) (mem_view jid) j w w'"
  using assms(2)
  by (cases rule: mem_resave_cases)
    (use assms(1) in \<open>auto simp: mem_view_def intro!: commits_direct moves_refl\<close>)

lemma mem_resave_other:
  assumes "job_id j \<noteq> jid"
  shows "mem_view jid (snd (mem_jobs_save_with_outbox_and_event j ob ev w)) = mem_view jid w"
proof -
  obtain r w' where run: "mem_jobs_save_with_outbox_and_event j ob ev w = (r, w')"
    by (cases "mem_jobs_save_with_outbox_and_event j ob ev w")
  then show ?thesis by (cases rule: mem_resave_cases) (use run assms in \<open>auto simp: mem_view_def\<close>)
qed

lemma mem_resave_not_done:
  assumes "mem_jobs_save_with_outbox_and_event j ob ev w = (r, w')" and "\<nexists>x. r = Done x"
  shows "w' = w \<and> (\<exists>e. r = Raised e)"
  using assms(1) by (cases rule: mem_resave_cases) (use assms(2) in auto)

lemma mem_resave_returns: "fst (mem_jobs_save_with_outbox_and_event j ob ev w) \<noteq> Diverged"
  using mem_resave_not_done [of j ob ev w Diverged]
  by (metis outcome.distinct(3) outcome.distinct(5) prod.collapse)

section \<open>Tasks between the awaits\<close>

record 'k sim =
  sim_mem :: mem
  sim_tasks :: "'k list list"

definition sim_view :: "uuid \<Rightarrow> 'k sim \<Rightarrow> ajob option" where
  "sim_view jid s = mem_view jid (sim_mem s)"

text \<open>The tasks of one await point run, in their order, before the operation.\<close>

definition lift_sim :: "('k \<Rightarrow> mem \<Rightarrow> mem) \<Rightarrow> (mem, 'e, 'a) prog \<Rightarrow> ('k sim, 'e, 'a) prog" where
  "lift_sim run m s =
     (let now = (case sim_tasks s of [] \<Rightarrow> [] | ts # _ \<Rightarrow> ts);
          (r, w) = m (fold run now (sim_mem s))
      in (r, s\<lparr>sim_mem := w, sim_tasks := tl (sim_tasks s)\<rparr>))"

definition sim_ports :: "('k \<Rightarrow> mem \<Rightarrow> mem) \<Rightarrow> mem ports \<Rightarrow> 'k sim ports" where
  "sim_ports run ps =
     \<lparr>p_utc_now = lift_sim run (p_utc_now ps), p_uuid7 = lift_sim run (p_uuid7 ps),
      p_sha256 = p_sha256 ps,
      p_uploads_add = (\<lambda>u. lift_sim run (p_uploads_add ps u)),
      p_uploads_get = (\<lambda>x. lift_sim run (p_uploads_get ps x)),
      p_uploads_save = (\<lambda>u. lift_sim run (p_uploads_save ps u)),
      p_jobs_get = (\<lambda>x. lift_sim run (p_jobs_get ps x)),
      p_jobs_save_with_event = (\<lambda>j ev. lift_sim run (p_jobs_save_with_event ps j ev)),
      p_jobs_find_by_idempotency_key = (\<lambda>x k. lift_sim run (p_jobs_find_by_idempotency_key ps x k)),
      p_jobs_list = (\<lambda>x m n. lift_sim run (p_jobs_list ps x m n)),
      p_jobs_add_with_outbox_and_event =
        (\<lambda>j ob ev. lift_sim run (p_jobs_add_with_outbox_and_event ps j ob ev)),
      p_jobs_save_with_outbox_and_event =
        (\<lambda>j ob ev. lift_sim run (p_jobs_save_with_outbox_and_event ps j ob ev)),
      p_events_append = (\<lambda>ev. lift_sim run (p_events_append ps ev)),
      p_events_list_after = (\<lambda>x n. lift_sim run (p_events_list_after ps x n)),
      p_outbox_pending = (\<lambda>n. lift_sim run (p_outbox_pending ps n)),
      p_outbox_mark_published = (\<lambda>x. lift_sim run (p_outbox_mark_published ps x)),
      p_storage_create_upload_target =
        (\<lambda>k ct n sha. lift_sim run (p_storage_create_upload_target ps k ct n sha)),
      p_storage_stat = (\<lambda>k. lift_sim run (p_storage_stat ps k)),
      p_storage_complete_upload = (\<lambda>k u parts. lift_sim run (p_storage_complete_upload ps k u parts)),
      p_storage_get_bytes = (\<lambda>k. lift_sim run (p_storage_get_bytes ps k)),
      p_storage_put_bytes = (\<lambda>k d ct. lift_sim run (p_storage_put_bytes ps k d ct)),
      p_storage_create_download_url = (\<lambda>k. lift_sim run (p_storage_create_download_url ps k)),
      p_validator_validate = (\<lambda>u d. lift_sim run (p_validator_validate ps u d)),
      p_preprocessor_prepare = (\<lambda>u j. lift_sim run (p_preprocessor_prepare ps u j)),
      p_engine_recognize = (\<lambda>img n opts rid. lift_sim run (p_engine_recognize ps img n opts rid)),
      p_publisher_publish = (\<lambda>m. lift_sim run (p_publisher_publish ps m)),
      p_logger_info = (\<lambda>e kvs. lift_sim run (p_logger_info ps e kvs)),
      p_logger_error = (\<lambda>e kvs. lift_sim run (p_logger_error ps e kvs)),
      p_sleeper = (\<lambda>d. lift_sim run (p_sleeper ps d))\<rparr>"

definition tasks_move :: "(ajob \<Rightarrow> ajob \<Rightarrow> bool) \<Rightarrow> uuid \<Rightarrow> ('k \<Rightarrow> mem \<Rightarrow> mem) \<Rightarrow> bool" where
  "tasks_move rel jid run \<longleftrightarrow> (\<forall>k w. moves rel (mem_view jid) w (run k w))"

lemma fold_moves: "tasks_move rel jid run \<Longrightarrow> moves rel (mem_view jid) w (fold run ks w)"
  by (induction ks arbitrary: w) (auto simp: tasks_move_def intro: moves_refl moves_trans)

lemma lift_sim_run:
  assumes "lift_sim run m s = (r, s')" and "tasks_move rel jid run"
  obtains u v where "moves rel (mem_view jid) (sim_mem s) u" and "m u = (r, v)" and "sim_mem s' = v"
proof -
  let ?now = "case sim_tasks s of [] \<Rightarrow> [] | ts # _ \<Rightarrow> ts"
  obtain r1 v where m: "m (fold run ?now (sim_mem s)) = (r1, v)"
    by (cases "m (fold run ?now (sim_mem s))") auto
  with assms(1) have "r1 = r" "sim_mem s' = v" by (auto simp: lift_sim_def Let_def)
  with m that fold_moves [OF assms(2)] show thesis by blast
qed

lemma moves_sim: "moves rel (sim_view jid) s s' = moves rel (mem_view jid) (sim_mem s) (sim_mem s')"
  by (simp add: moves_def sim_view_def cong: option.case_cong)

lemma quiet_lift_view:
  assumes "tasks_move rel jid run"
    and "\<And>w. mem_view jid (snd (m w)) = mem_view jid w \<and> fst (m w) \<noteq> Diverged"
  shows "quiet (moves rel (sim_view jid)) (lift_sim run m)"
  unfolding quiet_def
proof
  fix s
  obtain r s' where run: "lift_sim run m s = (r, s')" by (cases "lift_sim run m s")
  from run assms(1) obtain u v where "moves rel (mem_view jid) (sim_mem s) u" "m u = (r, v)" "sim_mem s' = v"
    by (rule lift_sim_run)
  moreover from this have "moves rel (mem_view jid) u v" using assms(2) [of u] by (simp add: moves_same)
  moreover from \<open>m u = (r, v)\<close> have "r \<noteq> Diverged" using assms(2) by (metis fst_conv)
  ultimately show "moves rel (sim_view jid) s (snd (lift_sim run m s)) \<and> fst (lift_sim run m s) \<noteq> Diverged"
    unfolding run moves_sim by (auto intro: moves_trans)
qed

lemma quiet_lift: "tasks_move rel jid run \<Longrightarrow> jobs_kept m \<Longrightarrow> quiet (moves rel (sim_view jid)) (lift_sim run m)"
  by (rule quiet_lift_view) (simp_all add: jobs_kept_view jobs_kept_returns)

lemma lift_returns: "(\<And>w. fst (m w) \<noteq> Diverged) \<Longrightarrow> fst (lift_sim run m s) \<noteq> Diverged"
  by (auto simp: lift_sim_def Let_def split: prod.split list.split) (metis fst_conv)+

text \<open>An accepted save is accepted after the tasks of its await point.\<close>

lemma lift_commits:
  assumes "lift_sim run m s = (Done p, s')" and "tasks_move rel jid run"
    and law: "\<And>w w'. m w = (Done p, w') \<Longrightarrow> commits (moves rel (mem_view jid)) (mem_view jid) j w w'"
  shows "commits (moves rel (sim_view jid)) (sim_view jid) j s s'"
proof -
  from assms(1,2) obtain u v where mv: "moves rel (mem_view jid) (sim_mem s) u" and m: "m u = (Done p, v)"
    and s': "sim_mem s' = v" by (rule lift_sim_run)
  from law [OF m] obtain x y a where c: "moves rel (mem_view jid) u x" "mem_view jid x = Some a"
    "aj_revision a = job_revision j" "mem_view jid y = Some (abs_job (bump j))" "moves rel (mem_view jid) y v"
    by (auto simp: commits_def)
  let ?at = "\<lambda>w. s\<lparr>sim_mem := w\<rparr>"
  have "moves rel (sim_view jid) s (?at x)" "moves rel (sim_view jid) (?at y) s'"
    using mv c(1,5) s' by (auto simp: moves_sim intro: moves_trans)
  moreover have "sim_view jid (?at x) = Some a" "sim_view jid (?at y) = Some (abs_job (bump j))"
    using c by (simp_all add: sim_view_def)
  ultimately show ?thesis using c(3) unfolding commits_def by blast
qed

lemma lift_not_done:
  assumes "lift_sim run m s = (r, s')" and "tasks_move rel jid run" and "\<nexists>x. r = Done x"
    and law: "\<And>w w'. m w = (r, w') \<Longrightarrow> w' = w"
  shows "moves rel (sim_view jid) s s'"
proof -
  from assms(1,2) obtain u v where "moves rel (mem_view jid) (sim_mem s) u" "m u = (r, v)" "sim_mem s' = v"
    by (rule lift_sim_run)
  with law [of u v] show ?thesis by (simp add: moves_sim)
qed

section \<open>Interpretations\<close>

lemma sim_ports_sel [simp]:
  "p_utc_now (sim_ports run ps) = lift_sim run (p_utc_now ps)"
  "p_uuid7 (sim_ports run ps) = lift_sim run (p_uuid7 ps)"
  "p_uploads_get (sim_ports run ps) = (\<lambda>x. lift_sim run (p_uploads_get ps x))"
  "p_jobs_get (sim_ports run ps) = (\<lambda>x. lift_sim run (p_jobs_get ps x))"
  "p_jobs_save_with_event (sim_ports run ps) = (\<lambda>j ev. lift_sim run (p_jobs_save_with_event ps j ev))"
  "p_jobs_save_with_outbox_and_event (sim_ports run ps) =
     (\<lambda>j ob ev. lift_sim run (p_jobs_save_with_outbox_and_event ps j ob ev))"
  "p_events_append (sim_ports run ps) = (\<lambda>ev. lift_sim run (p_events_append ps ev))"
  "p_storage_stat (sim_ports run ps) = (\<lambda>k. lift_sim run (p_storage_stat ps k))"
  "p_storage_get_bytes (sim_ports run ps) = (\<lambda>k. lift_sim run (p_storage_get_bytes ps k))"
  "p_storage_put_bytes (sim_ports run ps) = (\<lambda>k d ct. lift_sim run (p_storage_put_bytes ps k d ct))"
  "p_preprocessor_prepare (sim_ports run ps) = (\<lambda>u j. lift_sim run (p_preprocessor_prepare ps u j))"
  "p_engine_recognize (sim_ports run ps) =
     (\<lambda>img n opts rid. lift_sim run (p_engine_recognize ps img n opts rid))"
  "p_logger_info (sim_ports run ps) = (\<lambda>e kvs. lift_sim run (p_logger_info ps e kvs))"
  "p_logger_error (sim_ports run ps) = (\<lambda>e kvs. lift_sim run (p_logger_error ps e kvs))"
  "p_sleeper (sim_ports run ps) = (\<lambda>d. lift_sim run (p_sleeper ps d))"
  by (simp_all add: sim_ports_def)

definition no_step :: "ajob \<Rightarrow> ajob \<Rightarrow> bool" where
  "no_step s t = False"

lemma with_api_no_step: "with_api no_step = api_step"
  by (simp add: fun_eq_iff with_api_def no_step_def)

lemma mem_get_law: "mem_jobs_get jid w = (Done r, w') \<Longrightarrow>
    mem_view jid w' = map_option abs_job r \<and> (\<forall>j. r = Some j \<longrightarrow> job_id j = jid)"
  by (auto simp: mem_jobs_get_def mem_view_def dest: lookup_by_key)

lemma mem_save_commits:
  assumes "job_id j = jid" and "mem_jobs_save_with_event j ev w = (Done p, w')"
  shows "snd p = bump j \<and> commits (moves rel (mem_view jid)) (mem_view jid) j w w'"
  using assms(2)
  by (cases rule: mem_save_cases)
    (use assms(1) in \<open>auto simp: mem_view_def intro!: commits_direct moves_refl\<close>)

lemma mem_save_bump:
  "mem_jobs_save_with_event j ev w = (Done p, w') \<Longrightarrow> snd p = bump j"
  "mem_jobs_save_with_outbox_and_event j ob ev w = (Done p, w') \<Longrightarrow> snd p = bump j"
  by (erule mem_save_cases; simp) (erule mem_resave_cases; simp)

interpretation mem_service: service_world "local_ports sha images failures vis" no_step "mem_view jid" jid
  for sha images failures vis jid
proof (unfold_locales, goal_cases)
  case (5 j ev)
  then show ?case by (simp add: quiet_def moves_same mem_save_other mem_save_returns)
next
  case (7 j ev w e w')
  then show ?case using mem_save_not_done [of j ev w "Raised e" w'] by (auto intro: moves_refl)
next
  case (8 j ev w)
  show ?case by (simp add: mem_save_returns)
next
  case (10 j ob ev)
  then show ?case by (simp add: quiet_def moves_same mem_resave_other mem_resave_returns)
next
  case (12 j ob ev w e w')
  then show ?case using mem_resave_not_done [of j ob ev w "Raised e" w'] by (auto intro: moves_refl)
next
  case (13 j ob ev w)
  show ?case by (simp add: mem_resave_returns)
qed (simp_all add: no_step_def quiet_kept_moves jobs_kept_mem mem_get_law mem_save_commits
      mem_resave_done mem_save_bump)

text \<open>The requests that change a stored job, as tasks.\<close>

datatype api_task = Ask_Cancel uuid string string | Ask_Retry uuid string string

definition api_run :: "mem ports \<Rightarrow> api_task \<Rightarrow> mem \<Rightarrow> mem" where
  "api_run ps task w =
     (case task of
        Ask_Cancel x owner rid \<Rightarrow> snd (cancel_job ps x owner rid w)
      | Ask_Retry x owner rid \<Rightarrow> snd (retry_job ps x owner rid w))"

lemma triple_moves:
  "triple R (\<lambda>_. True) m Q E \<Longrightarrow> R w (snd (m w))"
  by (simp add: triple_def)

lemma api_tasks_move: "tasks_move api_step jid (api_run (local_ports sha images failures vis))"
  unfolding tasks_move_def api_run_def
  using triple_moves [OF mem_service.cancel_job_triple] triple_moves [OF mem_service.retry_job_triple]
  by (auto simp: with_api_no_step split: api_task.split)

interpretation sim_worker: worker_world
    "sim_ports (api_run (local_ports sha images failures vis)) (local_ports sha images failures vis)"
    "moves api_step (sim_view jid)" "sim_view jid" jid
  for sha images failures vis jid
proof (unfold_locales, goal_cases)
  case (1 w)
  then show ?case by (rule moves_refl)
next
  case (2 u v w)
  then show ?case by (rule moves_trans)
next
  case (5 s r s')
  then obtain u v where "mem_jobs_get jid u = (Done r, v)" "sim_mem s' = v"
    by (auto elim: lift_sim_run [OF _ api_tasks_move])
  then show ?case using mem_get_law [of jid u r v] by (simp add: sim_view_def)
next
  case (6 j ev s ev' j' s')
  then have run: "lift_sim (api_run (local_ports sha images failures vis))
      (mem_jobs_save_with_event j ev) s = (Done (ev', j'), s')" by simp
  then obtain u v where "mem_jobs_save_with_event j ev u = (Done (ev', j'), v)"
    by (auto elim: lift_sim_run [OF _ api_tasks_move])
  then have "j' = bump j" using mem_save_bump(1) by fastforce
  moreover have "commits (moves api_step (sim_view jid)) (sim_view jid) j s s'"
    by (rule lift_commits [OF run api_tasks_move]) (use 6(1) mem_save_commits in blast)
  ultimately show ?case by simp
next
  case (7 j ev s e s')
  then have "moves api_step (sim_view jid) s s'"
    by (intro lift_not_done [OF _ api_tasks_move, of _ _ _ _ "mem_jobs_save_with_event j ev"])
      (auto dest: mem_save_not_done)
  then show ?case by simp
next
  case (8 j ev s)
  show ?case by (simp add: lift_returns mem_save_returns)
qed (simp_all add: quiet_lift [OF api_tasks_move] jobs_kept_mem jobs_kept_prepare)

end
