(* ===== verification/Concurrency.thy ===== *)
theory Concurrency
  imports Interleaving
begin

text \<open>
  What the interpretations give for the program: the worker against every schedule of
  cancellations and retries (\<open>local_sim\<close>), the service against every schedule of requests and
  work messages of the job (\<open>busy_sim\<close>), and whole runs of the system. The fuel
  \<open>enough_fuel\<close> is one turn more than the retry budget of a page; the results include that the
  worker returns or raises with it.
\<close>

definition enough_fuel :: "worker_config \<Rightarrow> nat" where
  "enough_fuel cfg = Suc (nat (max_page_retries cfg + 1))"

definition local_sim :: "(bytes \<Rightarrow> string) \<Rightarrow> bytes list \<Rightarrow> nat \<Rightarrow> bytes option \<Rightarrow> api_task sim ports" where
  "local_sim sha images failures vis =
     sim_ports (api_run (local_ports sha images failures vis)) (local_ports sha images failures vis)"

text \<open>The outcome of one message.\<close>

definition acknowledged ::
    "('w \<Rightarrow> ajob option) \<Rightarrow> job_work_message \<Rightarrow> (exn, job option) outcome \<Rightarrow> 'w \<Rightarrow> bool" where
  "acknowledged view msg r w \<longleftrightarrow>
     (case r of
        Done x \<Rightarrow>
          if msg_schema_version msg = 1 then
            (case x of None \<Rightarrow> view w = None | Some j \<Rightarrow> finished view (msg_attempt msg) j w)
          else x = None
      | Raised e \<Rightarrow> True
      | Diverged \<Rightarrow> False)"

text \<open>A relation between the job stored before and after, if it is stored both times.\<close>

definition between :: "(ajob \<Rightarrow> ajob \<Rightarrow> bool) \<Rightarrow> ajob option \<Rightarrow> ajob option \<Rightarrow> bool" where
  "between rel a b \<longleftrightarrow>
     (case b of None \<Rightarrow> True | Some t \<Rightarrow> (case a of None \<Rightarrow> False | Some s \<Rightarrow> rel s t))"

lemma moves_between: "moves rel view w w' = between rel\<^sup>*\<^sup>* (view w) (view w')"
  by (simp add: moves_def between_def)

lemma between_mono: "between rel a b \<Longrightarrow> (\<And>s t. rel s t \<Longrightarrow> rel' s t) \<Longrightarrow> between rel' a b"
  by (auto simp: between_def split: option.splits)

context worker_world
begin

text \<open>A message of an unknown schema is only logged.\<close>

lemma process_outcome:
  assumes jid: "msg_job_id msg = jid" and run: "process ps cfg (enough_fuel cfg) msg w = (r, w')"
  shows "evolves (max_page_retries cfg + 1) view w w' \<and> acknowledged view msg r w'"
proof (cases "msg_schema_version msg = 1")
  case True
  have fuel: "nat (max_page_retries cfg + 1) < enough_fuel cfg" by (simp add: enough_fuel_def)
  note t = tripleD [OF process_triple [OF jid refl fuel True] TrueI run]
  show ?thesis
    using t True by (cases r) (auto simp: acknowledged_def answered_def split: option.splits)
next
  case False
  have q: "quiet env (process ps cfg (enough_fuel cfg) msg)"
    unfolding process_def if_P [OF False] by (intro quiet_bind error_quiet quiet_ret)
  have "evolves (max_page_retries cfg + 1) view w w'"
    by (rule api_evolves_evolves [OF env_api]) (rule quietD [OF q run])
  moreover have "acknowledged view msg r w'"
    using run quiet_returns [OF q run] False
    unfolding process_def if_P [OF False] acknowledged_def
    by (auto simp: bind_prog_def split: prod.splits outcome.splits)
  ultimately show ?thesis by simp
qed

end

section \<open>The worker against the API\<close>

lemma worker_outcome:
  "evolves (max_page_retries cfg + 1) (sim_view (msg_job_id msg)) s
     (snd (process (local_sim sha images failures vis) cfg (enough_fuel cfg) msg s)) \<and>
   acknowledged (sim_view (msg_job_id msg)) msg
     (fst (process (local_sim sha images failures vis) cfg (enough_fuel cfg) msg s))
     (snd (process (local_sim sha images failures vis) cfg (enough_fuel cfg) msg s))"
  unfolding local_sim_def by (rule sim_worker.process_outcome [OF refl]) simp

lemma worker_between:
  assumes "\<And>s t. lifecycle (max_page_retries cfg + 1) s t \<Longrightarrow> rel s t"
  shows "between rel (sim_view (msg_job_id msg) s)
    (sim_view (msg_job_id msg) (snd (process (local_sim sha images failures vis) cfg (enough_fuel cfg) msg s)))"
  using worker_outcome [of cfg msg s sha images failures vis] assms
  by (auto simp: moves_between intro: between_mono)

definition keeps_completed_pages :: "ajob \<Rightarrow> ajob \<Rightarrow> bool" where
  "keeps_completed_pages s t \<longleftrightarrow>
     (\<forall>i < length (aj_pages s). ap_state (aj_pages s ! i) = P_SUCCEEDED \<longrightarrow> page_kept i s t)"

definition keeps_cancellation :: "ajob \<Rightarrow> ajob \<Rightarrow> bool" where
  "keeps_cancellation s t \<longleftrightarrow>
     (aj_state s \<in> {CANCEL_REQUESTED, CANCELLED} \<longrightarrow> cancel_kept (aj_attempt s) t)"

definition keeps_order :: "int \<Rightarrow> ajob \<Rightarrow> ajob \<Rightarrow> bool" where
  "keeps_order b s t \<longleftrightarrow> (aj_ok b s \<longrightarrow> aj_ok b t) \<and> aj_attempt s \<le> aj_attempt t \<and>
     aj_revision s \<le> aj_revision t \<and> same_identity s t \<and> (aj_state s = SUCCEEDED \<longrightarrow> t = s)"

lemma lifecycle_keeps_completed_pages: "lifecycle b s t \<Longrightarrow> keeps_completed_pages s t"
  by (auto simp: keeps_completed_pages_def intro: lifecycle_page_kept)

lemma lifecycle_keeps_cancellation: "lifecycle b s t \<Longrightarrow> keeps_cancellation s t"
  unfolding keeps_cancellation_def
  by (intro impI, erule lifecycle_cancel_kept) (simp add: cancel_kept_def)

lemma lifecycle_keeps_order: "0 \<le> b \<Longrightarrow> lifecycle b s t \<Longrightarrow> keeps_order b s t"
  using lifecycle_revision [of b s t]
  by (auto simp: keeps_order_def intro: lifecycle_ok lifecycle_attempt lifecycle_identity
      dest: lifecycle_succeeded)

section \<open>The service against everything\<close>

text \<open>Work messages of the job itself are tasks too, so a request may meet a whole run of the worker.\<close>

datatype job_task = Ask api_task | Work int string

definition job_message :: "uuid \<Rightarrow> int \<Rightarrow> string \<Rightarrow> job_work_message" where
  "job_message jid attempt rid =
     \<lparr>msg_job_id = jid, msg_attempt = attempt, msg_request_id = rid, msg_schema_version = 1\<rparr>"

definition job_run :: "mem ports \<Rightarrow> worker_config \<Rightarrow> uuid \<Rightarrow> job_task \<Rightarrow> mem \<Rightarrow> mem" where
  "job_run ps cfg jid task w =
     (case task of
        Ask t \<Rightarrow> api_run ps t w
      | Work attempt rid \<Rightarrow> snd (process ps cfg (enough_fuel cfg) (job_message jid attempt rid) w))"

definition busy_sim ::
    "(bytes \<Rightarrow> string) \<Rightarrow> bytes list \<Rightarrow> nat \<Rightarrow> bytes option \<Rightarrow> worker_config \<Rightarrow> uuid \<Rightarrow> job_task sim ports"
where
  "busy_sim sha images failures vis cfg jid =
     sim_ports (job_run (local_ports sha images failures vis) cfg jid) (local_ports sha images failures vis)"

lemma job_tasks_move:
  "tasks_move (job_step (max_page_retries cfg + 1)) jid (job_run (local_ports sha images failures vis) cfg jid)"
  unfolding tasks_move_def
proof (intro allI)
  fix k w
  show "evolves (max_page_retries cfg + 1) (mem_view jid) w
    (job_run (local_ports sha images failures vis) cfg jid k w)"
  proof (cases k)
    case (Ask t)
    then show ?thesis
      using api_tasks_move [of jid sha images failures vis]
      by (simp add: job_run_def tasks_move_def api_evolves_evolves)
  next
    case (Work attempt rid)
    have "msg_job_id (job_message jid attempt rid) = jid" by (simp add: job_message_def)
    from mem_worker.process_outcome [OF this surjective_pairing] Work
    show ?thesis by (simp add: job_run_def)
  qed
qed

lemma job_step_revision: "job_step b s t \<Longrightarrow> aj_revision s < aj_revision t"
  by (auto simp: job_step_def dest: api_step_revision worker_step_revision)

interpretation sim_service: service_world "busy_sim sha images failures vis cfg jid"
    "job_step (max_page_retries cfg + 1)" "sim_view jid" jid
  for sha images failures vis cfg jid
proof (unfold_locales, goal_cases)
  case (1 s t)
  then show ?case by (rule job_step_revision)
next
  case (3 x s j s')
  then obtain u v where "mem_jobs_get x u = (Done (Some j), v)"
    by (auto simp: busy_sim_def elim: lift_sim_run [OF _ job_tasks_move])
  then show ?case using mem_get_law [of x u "Some j" v] by simp
next
  case (4 s r s')
  then obtain u v where "mem_jobs_get jid u = (Done r, v)" "sim_mem s' = v"
    by (auto simp: busy_sim_def elim: lift_sim_run [OF _ job_tasks_move])
  then show ?case using mem_get_law [of jid u r v] by (simp add: sim_view_def)
next
  case (5 j ev)
  then show ?case
    by (simp add: busy_sim_def quiet_lift_view [OF job_tasks_move] mem_save_other mem_save_returns)
next
  case (6 j ev s p s')
  then have run: "lift_sim (job_run (local_ports sha images failures vis) cfg jid)
      (mem_jobs_save_with_event j ev) s = (Done p, s')" by (simp add: busy_sim_def)
  then obtain u v where "mem_jobs_save_with_event j ev u = (Done p, v)"
    by (auto elim: lift_sim_run [OF _ job_tasks_move])
  then have "snd p = bump j" by (rule mem_save_bump(1))
  moreover have "commits (evolves (max_page_retries cfg + 1) (sim_view jid)) (sim_view jid) j s s'"
    by (rule lift_commits [OF run job_tasks_move]) (use 6(1) mem_save_commits in blast)
  ultimately show ?case by simp
next
  case (7 j ev s e s')
  then have "evolves (max_page_retries cfg + 1) (sim_view jid) s s'"
    by (intro lift_not_done [OF _ job_tasks_move, where m = "mem_jobs_save_with_event j ev"])
      (auto simp: busy_sim_def dest: mem_save_not_done)
  then show ?case by simp
next
  case (8 j ev s)
  show ?case by (simp add: busy_sim_def lift_returns mem_save_returns)
next
  case (9 j ev s p s')
  then obtain u v where "mem_jobs_save_with_event j ev u = (Done p, v)"
    by (auto simp: busy_sim_def elim: lift_sim_run [OF _ job_tasks_move])
  then show ?case by (rule mem_save_bump(1))
next
  case (10 j ob ev)
  then show ?case
    by (simp add: busy_sim_def quiet_lift_view [OF job_tasks_move] mem_resave_other mem_resave_returns)
next
  case (11 j ob ev s p s')
  then have run: "lift_sim (job_run (local_ports sha images failures vis) cfg jid)
      (mem_jobs_save_with_outbox_and_event j ob ev) s = (Done p, s')" by (simp add: busy_sim_def)
  then obtain u v where "mem_jobs_save_with_outbox_and_event j ob ev u = (Done p, v)"
    by (auto elim: lift_sim_run [OF _ job_tasks_move])
  then have "snd p = bump j" by (rule mem_save_bump(2))
  moreover have "commits (evolves (max_page_retries cfg + 1) (sim_view jid)) (sim_view jid) j s s'"
    by (rule lift_commits [OF run job_tasks_move]) (use 11(1) mem_resave_done in blast)
  ultimately show ?case by simp
next
  case (12 j ob ev s e s')
  then have "evolves (max_page_retries cfg + 1) (sim_view jid) s s'"
    by (intro lift_not_done [OF _ job_tasks_move, where m = "mem_jobs_save_with_outbox_and_event j ob ev"])
      (auto simp: busy_sim_def dest: mem_resave_not_done)
  then show ?case by simp
next
  case (13 j ob ev s)
  show ?case by (simp add: busy_sim_def lift_returns mem_resave_returns)
next
  case (14 j ob ev s p s')
  then obtain u v where "mem_jobs_save_with_outbox_and_event j ob ev u = (Done p, v)"
    by (auto simp: busy_sim_def elim: lift_sim_run [OF _ job_tasks_move])
  then show ?case by (rule mem_save_bump(2))
qed (simp_all add: busy_sim_def quiet_lift [OF job_tasks_move] jobs_kept_mem)

section \<open>Properties\<close>


text \<open>
  C2. The worker returns or raises after at most one turn of the page loop more than the retry
  budget. It returns normally, so that the message is acknowledged, only when the job is gone,
  terminal, or at another attempt than the message, or when the schema is unknown.
\<close>

theorem worker_acknowledges_finished_jobs:
  "acknowledged (sim_view (msg_job_id msg)) msg
     (fst (process (local_sim sha images failures vis) cfg (enough_fuel cfg) msg s))
     (snd (process (local_sim sha images failures vis) cfg (enough_fuel cfg) msg s))"
  by (rule conjunct2 [OF worker_outcome])

text \<open>
  C3. A page that has been recognised is never processed again and keeps its result, through
  the rest of the job, its failure, its cancellation and every retry.
\<close>

theorem worker_keeps_completed_pages:
  "between keeps_completed_pages (sim_view (msg_job_id msg) s)
     (sim_view (msg_job_id msg)
       (snd (process (local_sim sha images failures vis) cfg (enough_fuel cfg) msg s)))"
  by (rule worker_between) (rule lifecycle_keeps_completed_pages)


text \<open>
  C7. The worker keeps the stored job well formed: a terminal job and no other has a completion
  time, a failed job has a reason, a running job has pages, an assembling or succeeded job has
  pages that all succeeded with a stored result, and no page exceeds its retry budget. Attempts
  and revisions do not decrease, owner and upload stay, and a success is final.
\<close>

theorem worker_keeps_order:
  assumes "make_worker retries base = Inr cfg"
  shows "between (keeps_order (max_page_retries cfg + 1)) (sim_view (msg_job_id msg) s)
    (sim_view (msg_job_id msg)
      (snd (process (local_sim sha images failures vis) cfg (enough_fuel cfg) msg s)))"
  by (rule worker_between, rule lifecycle_keeps_order) 
    (use assms in \<open>auto simp: make_worker_def split: if_splits\<close>)

lemma worker_keeps_order_witness:
  "between (keeps_order 3) (sim_view 1 (\<lparr>sim_mem = empty_mem, sim_tasks = []\<rparr> :: api_task sim))
    (sim_view 1 (snd (process (local_sim (\<lambda>d. d) [] 0 None) \<lparr>max_page_retries = 2, retry_base_seconds = 1\<rparr>
      (enough_fuel \<lparr>max_page_retries = 2, retry_base_seconds = 1\<rparr>) (job_message 1 1 ''r'')
      \<lparr>sim_mem = empty_mem, sim_tasks = []\<rparr>)))"
  using worker_keeps_order [of 2 1 "\<lparr>max_page_retries = 2, retry_base_seconds = 1\<rparr>" "job_message 1 1 ''r''"
      "\<lparr>sim_mem = empty_mem, sim_tasks = []\<rparr>" "\<lambda>d. d" "[]" 0 None]
  by (simp add: job_message_def make_worker_def)

text \<open>What a use case leaves when it returns, and how it moves the job in any case.\<close>

definition recorded ::
    "int \<Rightarrow> uuid \<Rightarrow> uuid \<Rightarrow> job_state set \<Rightarrow> 'k sim \<Rightarrow> (exn, job_dto) outcome \<times> 'k sim \<Rightarrow> bool" where
  "recorded b jid x states s result \<longleftrightarrow>
     evolves b (sim_view jid) s (snd result) \<and>
     (case fst result of
        Done d \<Rightarrow> jd_job_id d = x \<and> jd_status d \<in> states \<and>
          (x = jid \<longrightarrow> reported (job_step b) (sim_view jid) jid states (snd result))
      | Raised e \<Rightarrow> True
      | Diverged \<Rightarrow> False)"

lemma with_api_job_step: "with_api (job_step b) = job_step b"
  by (auto simp: fun_eq_iff with_api_def job_step_def)

lemma recorded_triple:
  fixes s :: "'k sim"
  assumes "triple (moves (with_api (job_step b)) (sim_view jid)) (\<lambda>_. True) m
    (service_world.told (job_step b) (sim_view jid) jid x states) (\<lambda>_ _. True)"
    and told: "\<And>d (w :: 'k sim). service_world.told (job_step b) (sim_view jid) jid x states d w \<longleftrightarrow>
      jd_job_id d = x \<and> jd_status d \<in> states \<and> (x = jid \<longrightarrow> reported (job_step b) (sim_view jid) jid states w)"
  shows "recorded b jid x states s (m s)"
  using tripleD [OF assms(1) TrueI surjective_pairing, of s] told
  unfolding recorded_def with_api_job_step
  by (cases "fst (m s)") auto



end
