(* ===== verification/Codec_Laws.thy ===== *)
theory Codec_Laws
  imports Codec
begin

text \<open>
  Reading back what the writers of \<^verbatim>\<open>Codec\<close> print: decimal integers, the canonical text of a
  UUID, JSON strings and whole JSON documents. A document is readable when its objects have
  distinct keys and its floats are printed as numbers.
\<close>

section \<open>Digits\<close>

lemma of_char_char_of: "n < 256 \<Longrightarrow> (of_char (char_of n) :: nat) = n"
  by simp

lemma digit_char_cases:
  assumes "d < 16"
  shows "char_digit (digit_char d) = Some d"
proof -
  have "\<forall>d \<in> set [0..<16]. char_digit (digit_char d) = Some d" by code_simp
  with assms show ?thesis by simp
qed

lemma decimal_digit:
  assumes "d < 10"
  shows "is_digit (digit_char d)" "digit_value (digit_char d) = d"
proof -
  have "\<forall>d \<in> set [0..<10]. is_digit (digit_char d) \<and> digit_value (digit_char d) = d" by code_simp
  with assms show "is_digit (digit_char d)" "digit_value (digit_char d) = d" by simp_all
qed

lemma digit_char_zero: "d < 10 \<Longrightarrow> digit_char d = CHR ''0'' \<longleftrightarrow> d = 0"
  using decimal_digit(2) [of d] by (auto simp: digit_value_def digit_char_def)

lemma digits_value_append: "digits_value acc (xs @ [c]) = digits_value acc xs * 10 + digit_value c"
  by (induction xs arbitrary: acc) auto

lemma digits_value_str_nat: "digits_value 0 (str_nat n) = n"
proof (induction n rule: str_nat.induct)
  case (1 n)
  then show ?case
    by (subst str_nat.simps) (simp add: decimal_digit digits_value_append)
qed

lemma str_nat_digits: "list_all is_digit (str_nat n)"
proof (induction n rule: str_nat.induct)
  case (1 n)
  then show ?case by (subst str_nat.simps) (simp add: decimal_digit)
qed

lemma str_nat_nonempty [simp]: "str_nat n \<noteq> []"
  by (subst str_nat.simps) simp

lemma str_nat_head: "0 < n \<Longrightarrow> hd (str_nat n) \<noteq> CHR ''0''"
proof (induction n rule: str_nat.induct)
  case (1 n)
  then show ?case by (subst str_nat.simps) (auto simp: digit_char_zero)
qed

lemma int_part_ok_str_nat: "int_part_ok (str_nat n)"
proof (cases "n = 0")
  case True
  then show ?thesis unfolding int_part_ok_def by (subst str_nat.simps) (simp add: str_nat.simps)
next
  case False
  then show ?thesis using str_nat_head [of n] by (auto simp: int_part_ok_def)
qed

lemma minus_not_digit: "\<not> is_digit (CHR ''-'')"
  by (simp add: is_digit_def)

lemma minus_split_digits: "list_all is_digit ds \<Longrightarrow> minus_split ds = (False, ds)"
  by (cases ds) (auto simp: minus_split_def minus_not_digit)

lemma int_token_str_int: "int_token (str_int i) = Some i"
proof (cases "i < 0")
  case True
  then show ?thesis
    by (simp add: int_token_def str_int_def minus_split_def int_part_ok_str_nat str_nat_digits
        digits_value_str_nat)
next
  case False
  then show ?thesis
    by (simp add: int_token_def str_int_def minus_split_digits [OF str_nat_digits]
        int_part_ok_str_nat str_nat_digits digits_value_str_nat)
qed

lemma digit_num_char: "is_digit c \<Longrightarrow> is_num_char c"
  by (simp add: is_num_char_def)

lemma str_int_num_chars: "list_all is_num_char (str_int i)"
proof -
  have "list_all is_num_char (str_nat n)" for n
    using str_nat_digits [of n] by (rule list.pred_mono_strong) (rule digit_num_char)
  moreover have "is_num_char (CHR ''-'')" by code_simp
  ultimately show ?thesis by (simp add: str_int_def)
qed

lemma str_int_nonempty [simp]: "str_int i \<noteq> []"
  by (simp add: str_int_def)

lemma str_int_inject [simp]: "str_int i = str_int j \<longleftrightarrow> i = j"
  by (metis int_token_str_int option.inject)

section \<open>UUIDs\<close>

lemma list_all_part: "list_all P xs \<Longrightarrow> list_all P (take m (drop n xs))"
  unfolding list_all_iff by (blast dest: in_set_takeD in_set_dropD)

lemma list_all_rest: "list_all P xs \<Longrightarrow> list_all P (drop n xs)"
  unfolding list_all_iff by (blast dest: in_set_dropD)

lemma length_hex_fixed [simp]: "length (hex_fixed k n) = k"
  by (induction k arbitrary: n) auto

lemma hex_value_append:
  "hex_value acc (xs @ [c]) =
     (case hex_value acc xs of None \<Rightarrow> None
      | Some v \<Rightarrow> map_option (\<lambda>d. v * 16 + d) (char_digit c))"
  by (induction xs arbitrary: acc) (auto split: option.splits)

lemma hex_value_hex_fixed: "hex_value 0 (hex_fixed k n) = Some (n mod 16 ^ k)"
proof (induction k arbitrary: n)
  case (Suc k)
  have "n div 16 mod 16 ^ k * 16 + n mod 16 = n mod 16 ^ Suc k"
    using mod_mult2_eq [of n 16 "16 ^ k"] by simp
  then show ?case using Suc [of "n div 16"] by (simp add: hex_value_append digit_char_cases)
qed simp

definition hex_char :: "char \<Rightarrow> bool" where
  "hex_char c \<longleftrightarrow> c \<in> set ''0123456789abcdef''"

lemma hex_fixed_chars: "list_all hex_char (hex_fixed k n)"
proof (induction k arbitrary: n)
  case (Suc k)
  have "\<forall>d \<in> set [0..<16]. hex_char (digit_char d)" by code_simp
  then show ?case using Suc by simp
qed simp

lemma remove_all_absent:
  assumes "p \<notin> set s"
  shows "remove_all_from 0 (p # ps) s = s"
  using assms by (induction s) auto

lemma remove_one_char:
  "remove_all_from 0 [p] s = filter (\<lambda>c. c \<noteq> p) s"
  by (induction s) auto

lemma strip_chars_absent:
  assumes "set s \<inter> set cs = {}"
  shows "strip_chars cs s = s"
proof -
  have keep: "dropWhile (\<lambda>c. c \<in> set cs) t = t" if "set t \<inter> set cs = {}" for t
    using that by (cases t) auto
  show ?thesis using assms by (simp add: strip_chars_def keep)
qed

definition uuid_char :: "char \<Rightarrow> bool" where
  "uuid_char c \<longleftrightarrow> hex_char c \<or> c = CHR ''-''"

lemma uuid_str_chars: "list_all uuid_char (uuid_str u)"
proof -
  have h: "list_all uuid_char (hex_fixed 32 (unat u))"
    using hex_fixed_chars by (rule list.pred_mono_strong) (simp add: uuid_char_def)
  have part: "list_all uuid_char (take m (drop n (hex_fixed 32 (unat u))))" for m n
    by (rule list_all_part [OF h])
  have tail: "list_all uuid_char (drop n (hex_fixed 32 (unat u)))" for n
    by (rule list_all_rest [OF h])
  have dash: "uuid_char (CHR ''-'')" by (simp add: uuid_char_def)
  show ?thesis
    using part [of 8 0] part [of 4 8] part [of 4 12] part [of 4 16] tail [of 20] dash
    by (simp only: uuid_str_def Let_def list_all_append list.pred_inject drop_0 simp_thms)
qed

lemma filter_hex:
  assumes "list_all hex_char h"
  shows "filter (\<lambda>c. c \<noteq> CHR ''-'') h = h"
proof -
  have "\<not> hex_char (CHR ''-'')" by code_simp
  then show ?thesis using assms by (auto simp: filter_id_conv list_all_iff)
qed

lemma filter_uuid_str: "filter (\<lambda>c. c \<noteq> CHR ''-'') (uuid_str u) = hex_fixed 32 (unat u)"
proof -
  let ?h = "hex_fixed 32 (unat u)"
  have part: "filter (\<lambda>c. c \<noteq> CHR ''-'') (take m (drop n ?h)) = take m (drop n ?h)" for m n
    by (rule filter_hex) (rule list_all_part [OF hex_fixed_chars])
  have tail: "filter (\<lambda>c. c \<noteq> CHR ''-'') (drop n ?h) = drop n ?h" for n
    by (rule filter_hex) (rule list_all_rest [OF hex_fixed_chars])
  have "take 8 ?h @ take 4 (drop 8 ?h) @ take 4 (drop 12 ?h) @ take 4 (drop 16 ?h) @ drop 20 ?h = ?h"
    (is "?l = _")
  proof -
    have "take 4 (drop 16 ?h) @ drop 20 ?h = drop 16 ?h"
      using append_take_drop_id [of 4 "drop 16 ?h"] by simp
    moreover have "take 4 (drop 12 ?h) @ drop 16 ?h = drop 12 ?h"
      using append_take_drop_id [of 4 "drop 12 ?h"] by simp
    moreover have "take 4 (drop 8 ?h) @ drop 12 ?h = drop 8 ?h"
      using append_take_drop_id [of 4 "drop 8 ?h"] by simp
    ultimately show ?thesis by simp
  qed
  then show ?thesis
    using part [of 8 0] by (simp add: uuid_str_def Let_def part tail)
qed

lemma uuid_str_absent: "\<not> uuid_char c \<Longrightarrow> c \<notin> set (uuid_str u)"
  using uuid_str_chars [of u] by (auto simp: list_all_iff)

lemma uuid_parse_str: "uuid_parse (uuid_str u) = Some u"
proof -
  have "remove_all_from 0 ''urn:'' (uuid_str u) = uuid_str u"
    "remove_all_from 0 ''uuid:'' (uuid_str u) = uuid_str u"
    by (rule remove_all_absent, rule uuid_str_absent, code_simp)+
  moreover have "strip_chars ''{}'' (uuid_str u) = uuid_str u"
  proof (rule strip_chars_absent)
    have "CHR ''{'' \<notin> set (uuid_str u)" "CHR ''}'' \<notin> set (uuid_str u)"
      by (rule uuid_str_absent, code_simp)+
    then show "set (uuid_str u) \<inter> set ''{}'' = {}" by simp
  qed
  moreover have "remove_all_from 0 ''-'' (uuid_str u) = hex_fixed 32 (unat u)"
    by (simp add: remove_one_char filter_uuid_str)
  moreover have "hex_value 0 (hex_fixed 32 (unat u)) = Some (unat u)"
  proof -
    have "unat u < 2 ^ 128" using unsigned_less [of u, where ?'a = nat] by simp
    moreover have "(2::nat) ^ 128 = 16 ^ 32" by simp
    ultimately have "unat u mod 16 ^ 32 = unat u" by simp
    then show ?thesis unfolding hex_value_hex_fixed by (rule arg_cong)
  qed
  moreover have "of_nat (unat u) = u" by simp
  ultimately show ?thesis
    unfolding uuid_parse_def Let_def
    by (simp only: length_hex_fixed refl not_True_eq_False if_False option.map)
qed

lemma uuid_str_inject [simp]: "uuid_str u = uuid_str v \<longleftrightarrow> u = v"
  by (metis uuid_parse_str option.inject)

lemma uuid_str_nonempty [simp]: "uuid_str u \<noteq> []"
  by (simp add: uuid_str_def Let_def)

section \<open>JSON strings\<close>

lemma hex4_value: "n < 65536 \<Longrightarrow> hex_value 0 (hex4 n) = Some n"
  unfolding hex4_def hex_value_hex_fixed by simp

lemma length_4: "length xs = 4 \<Longrightarrow> \<exists>a b c d. xs = [a, b, c, d]"
  by (auto simp: numeral_eq_Suc length_Suc_conv)

lemma read_unit_escape:
  assumes "length hs = 4" and "hex_value 0 hs = Some n"
  shows "read_string (CHR 0x5C # CHR ''u'' # hs @ t) =
    map_option (\<lambda>(s, r). (utf8_of_unit n @ s, r)) (read_string t)"
proof -
  obtain a b c d where hs: "hs = [a, b, c, d]" using length_4 [OF assms(1)] by blast
  show ?thesis using assms(2) unfolding hs by (simp del: hex_value.simps)
qed

lemma read_escaped_char:
  "read_string (json_escape_char c @ t) = map_option (\<lambda>(s, r). (c # s, r)) (read_string t)"
proof (cases "(of_char c :: nat) < 32 \<and> c \<notin> set [CHR 0x0A, CHR 0x0D, CHR 0x09, CHR 0x0C, CHR 0x08]")
  case True
  let ?n = "of_char c :: nat"
  have codes: "\<not> (of_char (CHR 0x22) :: nat) < 32" "\<not> (of_char (CHR 0x5C) :: nat) < 32"
    by code_simp+
  have "c \<noteq> CHR 0x22" "c \<noteq> CHR 0x5C"
    using conjunct1 [OF True] codes by (blast intro: notI)+
  moreover have "c \<noteq> CHR 0x0A" "c \<noteq> CHR 0x0D" "c \<noteq> CHR 0x09" "c \<noteq> CHR 0x0C" "c \<noteq> CHR 0x08"
    using conjunct2 [OF True] by (simp_all only: list.set insert_iff de_Morgan_disj simp_thms)
  ultimately have esc: "json_escape_char c @ t = CHR 0x5C # CHR ''u'' # hex4 ?n @ t"
    using conjunct1 [OF True] unfolding json_escape_char_def
    by (simp only: if_False if_True append.simps simp_thms)
  have v: "length (hex4 ?n) = 4" "hex_value 0 (hex4 ?n) = Some ?n"
    using True hex4_value [of ?n] by (simp_all add: hex4_def)
  have "utf8_of_unit ?n = [c]" using True by (simp add: utf8_of_unit_def)
  then show ?thesis unfolding esc read_unit_escape [OF v] by simp
next
  case no_unit: False
  show ?thesis
  proof (cases "c \<in> set [CHR 0x22, CHR 0x5C, CHR 0x0A, CHR 0x0D, CHR 0x09, CHR 0x0C, CHR 0x08]")
    case True
    then consider "c = CHR 0x22" | "c = CHR 0x5C" | "c = CHR 0x0A" | "c = CHR 0x0D" | "c = CHR 0x09"
      | "c = CHR 0x0C" | "c = CHR 0x08"
      by (simp only: list.set insert_iff empty_iff) blast
    then show ?thesis by cases (simp_all add: json_escape_char_def)
  next
    case False
    with no_unit have "json_escape_char c = [c]" "\<not> (of_char c :: nat) < 32"
      by (simp_all add: json_escape_char_def)
    with False show ?thesis by simp
  qed
qed

lemma read_json_string:
  "read_string (concat (map json_escape_char s) @ CHR 0x22 # t) = Some (s, t)"
  by (induction s) (simp_all add: read_escaped_char)

section \<open>JSON documents\<close>

definition num_text :: "string \<Rightarrow> bool" where
  "num_text s \<longleftrightarrow> float_token s \<and> list_all is_num_char s"

fun json_ok :: "json \<Rightarrow> bool" where
  "json_ok (JFloat s) = (num_text s \<or> s \<in> {''NaN'', ''Infinity'', ''-Infinity''})"
| "json_ok (JList xs) = (\<forall>x \<in> set xs. json_ok x)"
| "json_ok (JDict kvs) = (distinct (map fst kvs) \<and> (\<forall>kv \<in> set kvs. json_ok (snd kv)))"
| "json_ok _ = True"

text \<open>What may follow a number without extending it.\<close>

definition closed_by :: "string \<Rightarrow> bool" where
  "closed_by t \<longleftrightarrow> (case t of [] \<Rightarrow> True | c # _ \<Rightarrow> \<not> is_num_char c)"

lemma closed_by_simps [simp]:
  "closed_by []" "closed_by (c # t) \<longleftrightarrow> \<not> is_num_char c"
  by (simp_all add: closed_by_def)

lemma takeWhile_closed:
  assumes "list_all P s" and "case t of [] \<Rightarrow> True | c # _ \<Rightarrow> \<not> P c"
  shows "takeWhile P (s @ t) = s" "dropWhile P (s @ t) = t"
  using assms by (auto simp: list_all_iff takeWhile_append2 dropWhile_append2 split: list.splits)

text \<open>The texts that \<^const>\<open>read_number\<close> is called on: a digit, or a minus and a digit.\<close>

definition number_start :: "string \<Rightarrow> bool" where
  "number_start s \<longleftrightarrow> (\<exists>d r. is_digit d \<and> (s = d # r \<or> s = CHR ''-'' # d # r))"

lemma digit_facts:
  assumes "is_digit d"
  shows "d \<noteq> CHR 0x22" "d \<noteq> CHR ''[''" "d \<noteq> CHR ''{''" "d \<noteq> CHR ''I''" "d \<noteq> CHR ''-''" "\<not> is_ws d"
  using assms by (auto simp: is_digit_def is_ws_def)

lemma skip_ws_Cons [simp]: "\<not> is_ws c \<Longrightarrow> skip_ws (c # t) = c # t"
  by (simp add: skip_ws_def)

lemma read_value_number:
  assumes "number_start s"
  shows "read_value (Suc n) (s @ t) = read_number (s @ t)"
proof -
  obtain d r where d: "is_digit d" "s = d # r \<or> s = CHR ''-'' # d # r"
    using assms by (auto simp: number_start_def)
  have m: "\<not> is_ws (CHR ''-'')" by (simp add: is_ws_def)
  show ?thesis using d(2) digit_facts [OF d(1)] d(1) m by auto
qed

lemma str_nat_Cons: "\<exists>d r. str_nat n = d # r \<and> is_digit d"
  using str_nat_digits [of n] by (cases "str_nat n") auto

lemma number_start_int: "number_start (str_int i)"
  using str_nat_Cons [of "nat i"] str_nat_Cons [of "nat (- i)"]
  by (auto simp: number_start_def str_int_def)

lemma number_start_float:
  assumes "float_token s"
  shows "number_start s"
proof -
  obtain neg r where m: "minus_split s = (neg, r)" by fastforce
  with assms have "takeWhile is_digit r \<noteq> []" by (simp add: float_token_def int_part_ok_def)
  then obtain d u where r: "r = d # u" "is_digit d" by (cases r) (auto split: if_splits)
  moreover have "s = r \<or> s = CHR ''-'' # r"
    using m by (cases s) (auto simp: minus_split_def split: if_splits)
  ultimately show ?thesis unfolding number_start_def by blast
qed

lemma float_not_int:
  assumes "float_token s"
  shows "int_token s = None"
proof -
  obtain neg r where m: "minus_split s = (neg, r)" by fastforce
  with assms have "fraction_ok (dropWhile is_digit r)" by (simp add: float_token_def)
  then have "dropWhile is_digit r \<noteq> []" by (cases "dropWhile is_digit r") (simp_all add: fraction_ok_def)
  then have "\<not> list_all is_digit r" by (auto simp: list_all_iff dropWhile_eq_Nil_conv)
  with m show ?thesis by (simp add: int_token_def)
qed

lemma read_number_int:
  assumes "closed_by t"
  shows "read_number (str_int i @ t) = Some (JInt i, t)"
  using takeWhile_closed [OF str_int_num_chars, of t i] assms
  by (simp add: read_number_def closed_by_def int_token_str_int)

lemma read_number_float:
  assumes "num_text s" and "closed_by t"
  shows "read_number (s @ t) = Some (JFloat s, t)"
  using takeWhile_closed [of is_num_char s t] assms float_not_int [of s]
  by (simp add: read_number_def closed_by_def num_text_def)

lemma read_value_null: "read_value (Suc n) (''null'' @ t) = Some (JNull, t)"
  by (simp add: is_ws_def is_digit_def read_literal_def)

lemma read_value_bool: "read_value (Suc n) (dumps (JBool b) @ t) = Some (JBool b, t)"
  by (cases b) (simp_all add: is_ws_def is_digit_def read_literal_def)

lemma read_value_special:
  assumes "s \<in> {''NaN'', ''Infinity'', ''-Infinity''}"
  shows "read_value (Suc n) (s @ t) = Some (JFloat s, t)"
  using assms by (auto simp: is_ws_def is_digit_def read_literal_def)

lemma read_value_float:
  assumes "json_ok (JFloat s)" and "closed_by t"
  shows "read_value (Suc n) (s @ t) = Some (JFloat s, t)"
proof (cases "num_text s")
  case True
  then have "number_start s" by (auto simp: num_text_def number_start_float)
  with read_value_number [OF this] read_number_float [OF True assms(2)] show ?thesis by simp
next
  case False
  with assms read_value_special show ?thesis by (simp del: read_value.simps)
qed

text \<open>The first character of a printed value is no white space and closes nothing.\<close>

definition value_start :: "string \<Rightarrow> bool" where
  "value_start s \<longleftrightarrow> (case s of [] \<Rightarrow> False | c # _ \<Rightarrow> \<not> is_ws c \<and> c \<noteq> CHR '']'' \<and> c \<noteq> CHR ''}'')"

lemma number_value_start: "number_start s \<Longrightarrow> value_start s"
  by (auto simp: number_start_def value_start_def is_ws_def is_digit_def)

lemma dumps_start: "json_ok v \<Longrightarrow> value_start (dumps v)"
proof (cases v)
  case (JInt i)
  then show ?thesis using number_value_start [OF number_start_int] by simp
next
  case (JFloat s)
  assume "json_ok v"
  then show ?thesis
    using JFloat number_value_start [OF number_start_float]
    by (auto simp: num_text_def value_start_def is_ws_def)
qed (simp_all add: value_start_def is_ws_def json_string_def)

lemma value_start_skip: "value_start s \<Longrightarrow> skip_ws (s @ t) = s @ t"
  by (cases s) (simp_all add: value_start_def)

lemma closing_chars [simp]:
  "\<not> is_num_char (CHR '','')" "\<not> is_num_char (CHR '']'')" "\<not> is_num_char (CHR ''}'')"
  "\<not> is_ws (CHR '','')" "\<not> is_ws (CHR '']'')" "\<not> is_ws (CHR ''}'')" "\<not> is_ws (CHR '':'')"
  "\<not> is_ws (CHR 0x22)" "\<not> is_ws (CHR ''['')" "\<not> is_ws (CHR ''{'')"
  by code_simp+

lemma read_value_string:
  "read_value (Suc n) (json_string s @ t) = Some (JStr s, t)"
  using read_json_string [of s t] by (simp add: json_string_def)

lemma read_value_list:
  assumes "value_start s" and "read_items n (s @ t) = Some (xs, u)"
  shows "read_value (Suc n) (CHR ''['' # s @ t) = Some (JList xs, u)"
proof -
  obtain c r where s: "s = c # r" "\<not> is_ws c" "c \<noteq> CHR '']''"
    using assms(1) by (cases s) (auto simp: value_start_def)
  show ?thesis using assms(2) s by simp
qed

lemma update_absent: "k \<notin> fst ` set al \<Longrightarrow> AList.update k v al = al @ [(k, v)]"
  by (induction al) auto

lemma read_value_dict:
  assumes "read_members n (CHR 0x22 # s) = Some (kvs, u)" and "distinct (map fst kvs)"
  shows "read_value (Suc n) (CHR ''{'' # CHR 0x22 # s) = Some (JDict kvs, u)"
proof -
  have "fold (\<lambda>(k, v). AList.update k v) kvs acc = acc @ kvs"
    if "distinct (map fst kvs)" "\<forall>k \<in> fst ` set kvs. k \<notin> fst ` set acc" for acc
    using that
  proof (induction kvs arbitrary: acc)
    case (Cons kv kvs)
    obtain k v where kv: "kv = (k, v)" by fastforce
    have "AList.update k v acc = acc @ [(k, v)]"
      using Cons.prems kv by (intro update_absent) auto
    with Cons.IH [of "acc @ [(k, v)]"] Cons.prems kv show ?case by force
  qed simp
  from this [of "[]"] assms show ?thesis by simp
qed

lemma read_items_last:
  assumes "read_value n (s @ CHR '']'' # t) = Some (x, CHR '']'' # t)"
  shows "read_items (Suc n) (s @ CHR '']'' # t) = Some ([x], t)"
  using assms by (simp del: read_value.simps)

lemma read_items_more:
  assumes "read_value n (s @ CHR '','' # u) = Some (x, CHR '','' # u)"
    and "read_items n u = Some (xs, t)"
  shows "read_items (Suc n) (s @ CHR '','' # u) = Some (x # xs, t)"
  using assms by (simp del: read_value.simps)

lemma json_string_Cons: "json_string k @ t = CHR 0x22 # concat (map json_escape_char k) @ CHR 0x22 # t"
  by (simp add: json_string_def)

lemma read_members_last:
  assumes "read_value n (s @ CHR ''}'' # t) = Some (x, CHR ''}'' # t)"
  shows "read_members (Suc n) (json_string k @ CHR '':'' # s @ CHR ''}'' # t) = Some ([(k, x)], t)"
  using assms by (simp add: json_string_Cons read_json_string del: read_value.simps)

lemma read_members_more:
  assumes "read_value n (s @ CHR '','' # u) = Some (x, CHR '','' # u)"
    and "read_members n u = Some (kvs, t)"
  shows "read_members (Suc n) (json_string k @ CHR '':'' # s @ CHR '','' # u) = Some ((k, x) # kvs, t)"
  using assms by (simp add: json_string_Cons read_json_string del: read_value.simps)

lemma value_start_append: "value_start s \<Longrightarrow> value_start (s @ t)"
  by (cases s) (simp_all add: value_start_def)

lemma dumps_items_start: "xs \<noteq> [] \<Longrightarrow> \<forall>x \<in> set xs. json_ok x \<Longrightarrow> value_start (dumps_items xs)"
proof (induction xs rule: induct_list012)
  case (2 x)
  then show ?case by (simp add: dumps_start)
next
  case (3 x y zs)
  then have "value_start (dumps x)" by (simp add: dumps_start)
  then show ?case by (simp add: value_start_append)
qed simp

lemma dumps_members_start: "kvs \<noteq> [] \<Longrightarrow> \<exists>s. dumps_members kvs = CHR 0x22 # s"
  by (cases kvs rule: dumps_members.cases) (auto simp: json_string_def)

lemma dumps_nonempty: "json_ok v \<Longrightarrow> 0 < length (dumps v)"
  using dumps_start [of v] by (auto simp: value_start_def)

lemma read_dumps:
  "json_ok v \<Longrightarrow> closed_by t \<Longrightarrow> length (dumps v) \<le> n \<Longrightarrow>
     read_value n (dumps v @ t) = Some (v, t)"
  "\<forall>x \<in> set xs. json_ok x \<Longrightarrow> xs \<noteq> [] \<Longrightarrow> length (dumps_items xs) < n \<Longrightarrow>
     read_items n (dumps_items xs @ CHR '']'' # t) = Some (xs, t)"
  "\<forall>kv \<in> set kvs. json_ok (snd kv) \<Longrightarrow> kvs \<noteq> [] \<Longrightarrow> length (dumps_members kvs) < n \<Longrightarrow>
     read_members n (dumps_members kvs @ CHR ''}'' # t) = Some (kvs, t)"
proof (induction v and xs and kvs arbitrary: n t and n t and n t rule: dumps_dumps_items_dumps_members.induct)
  case 1
  then obtain m where n: "n = Suc m" by (cases n) simp_all
  show ?case unfolding n dumps.simps by (rule read_value_null)
next
  case (2 b)
  then obtain m where n: "n = Suc m" by (cases n; cases b) simp_all
  show ?case unfolding n by (rule read_value_bool)
next
  case (3 i)
  from 3 obtain m where n: "n = Suc m" by (cases n) simp_all
  show ?case
    using 3 read_value_number [OF number_start_int] read_number_int
    by (simp add: n del: read_value.simps)
next
  case (4 s)
  then obtain m where n: "n = Suc m" using dumps_nonempty [of "JFloat s"] by (cases n) simp_all
  show ?case using 4 read_value_float by (simp add: n del: read_value.simps)
next
  case (5 s)
  then obtain m where n: "n = Suc m" by (cases n) (simp_all add: json_string_def)
  show ?case by (simp add: n read_value_string del: read_value.simps)
next
  case (6 xs)
  then obtain m where n: "n = Suc m" by (cases n) simp_all
  show ?case
  proof (cases "xs = []")
    case True
    then show ?thesis by (simp add: n)
  next
    case False
    have "read_items m (dumps_items xs @ CHR '']'' # t) = Some (xs, t)"
      by (rule "6.IH") (use 6 False n in simp_all)
    from read_value_list [OF dumps_items_start this] False 6 show ?thesis
      by (simp add: n del: read_value.simps)
  qed
next
  case (7 kvs)
  then obtain m where n: "n = Suc m" by (cases n) simp_all
  show ?case
  proof (cases "kvs = []")
    case True
    then show ?thesis by (simp add: n)
  next
    case False
    then obtain s where s: "dumps_members kvs = CHR 0x22 # s" using dumps_members_start by blast
    have "read_members m (dumps_members kvs @ CHR ''}'' # t) = Some (kvs, t)"
      by (rule "7.IH") (use 7 False n in simp_all)
    then have "read_members m (CHR 0x22 # s @ CHR ''}'' # t) = Some (kvs, t)" by (simp add: s)
    from read_value_dict [OF this] 7 show ?thesis by (simp add: n s del: read_value.simps)
  qed
next
  case 8
  then show ?case by simp
next
  case (9 x)
  then obtain m where n: "n = Suc m" by (cases n) simp_all
  show ?case unfolding n dumps_items.simps
    by (rule read_items_last) (use 9 n in \<open>auto intro: "9.IH"\<close>)
next
  case (10 x y xs)
  then obtain m where n: "n = Suc m" by (cases n) simp_all
  have "read_items (Suc m) (dumps x @ CHR '','' # dumps_items (y # xs) @ CHR '']'' # t) = Some (x # y # xs, t)"
    by (rule read_items_more) (use 10 n in \<open>auto intro: "10.IH"\<close>)
  then show ?case by (simp add: n del: read_items.simps)
next
  case 11
  then show ?case by simp
next
  case (12 k v)
  then obtain m where n: "n = Suc m" by (cases n) simp_all
  have "read_members (Suc m) (json_string k @ CHR '':'' # dumps v @ CHR ''}'' # t) = Some ([(k, v)], t)"
    by (rule read_members_last) (use 12 n in \<open>auto intro: "12.IH"\<close>)
  then show ?case by (simp add: n del: read_members.simps)
next
  case (13 k v y kvs)
  then obtain m where n: "n = Suc m" by (cases n) simp_all
  have "read_members (Suc m)
      (json_string k @ CHR '':'' # dumps v @ CHR '','' # dumps_members (y # kvs) @ CHR ''}'' # t) =
    Some ((k, v) # y # kvs, t)"
    by (rule read_members_more) (use 13 n in \<open>auto intro: "13.IH"\<close>)
  then show ?case by (simp add: n del: read_members.simps)
qed

lemma loads_dumps: "json_ok v \<Longrightarrow> loads (dumps v) = Some v"
  using read_dumps(1) [of v "[]" "Suc (length (dumps v))"]
  by (simp add: loads_def skip_ws_def del: read_value.simps)

end
