(* ===== verification/Wire.thy ===== *)
theory Wire
  imports Codec_Laws Ports
begin

text \<open>
  Conversions at the edges of the process: \<open>int(...)\<close> of a decoded value, UTF-8, the ASCII form
  that \<open>json.dumps\<close> prints by default, base64, and the HTTP client and response that the adapters
  are given. The client is a parameter of every definition that calls it.
\<close>

section \<open>Integers from values\<close>

fun int_digits_ok :: "string \<Rightarrow> bool"
  and int_digits_tail :: "string \<Rightarrow> bool" where
  "int_digits_ok [] = False"
| "int_digits_ok (c # cs) = (is_digit c \<and> int_digits_tail cs)"
| "int_digits_tail [] = True"
| "int_digits_tail (c # cs) = (if c = CHR ''_'' then int_digits_ok cs else is_digit c \<and> int_digits_tail cs)"

definition int_text :: "string \<Rightarrow> int option" where
  "int_text s =
     (let t = py_strip s;
          neg = starts_with ''-'' t;
          ds = (if neg \<or> starts_with ''+'' t then drop 1 t else t);
          v = int (digits_value 0 (filter is_digit ds))
      in if int_digits_ok ds then Some (if neg then - v else v) else None)"

text \<open>
  A float from its decimal text (sign, digits, point, exponent), times \<open>10 ^ k\<close> and truncated:
  \<open>int(x)\<close> is the case \<open>k = 0\<close>, and microseconds of a number of seconds \<open>k = 6\<close>.
\<close>

definition float_scaled :: "nat \<Rightarrow> string \<Rightarrow> exn + int" where
  "float_scaled k s =
     (let (neg, r) = minus_split s; ip = takeWhile is_digit r; r1 = dropWhile is_digit r;
          fp = (if starts_with ''.'' r1 then takeWhile is_digit (drop 1 r1) else []);
          r2 = (if starts_with ''.'' r1 then dropWhile is_digit (drop 1 r1) else r1);
          e = (case int_text (drop 1 r2) of Some x \<Rightarrow> x | None \<Rightarrow> 0) - int (length fp) + int k;
          m = int (digits_value 0 (ip @ fp));
          v = (if 0 \<le> e then m * 10 ^ nat e else m div 10 ^ nat (- e))
      in if s = ''NaN'' then Inl (ValueError ''cannot convert float NaN to integer'')
         else if s = ''Infinity'' \<or> s = ''-Infinity'' then Inl (OtherError ''OverflowError'')
         else Inr (if neg then - v else v))"

definition float_trunc :: "string \<Rightarrow> exn + int" where
  "float_trunc s = float_scaled 0 s"

fun py_int :: "json \<Rightarrow> exn + int" where
  "py_int (JInt i) = Inr i"
| "py_int (JBool b) = Inr (if b then 1 else 0)"
| "py_int (JStr s) =
     (case int_text s of Some i \<Rightarrow> Inr i
      | None \<Rightarrow> Inl (ValueError ''invalid literal for int() with base 10''))"
| "py_int (JFloat s) = float_trunc s"
| "py_int _ = Inl TypeError"

text \<open>\<open>float(x)\<close>, times \<open>10 ^ k\<close> and truncated.\<close>

fun float_at :: "nat \<Rightarrow> json \<Rightarrow> exn + int" where
  "float_at k (JInt i) = Inr (i * 10 ^ k)"
| "float_at k (JBool b) = Inr (if b then 10 ^ k else 0)"
| "float_at k (JFloat s) = float_scaled k s"
| "float_at k (JStr s) =
     (if float_token (py_strip s) \<or> int_token (py_strip s) \<noteq> None then float_scaled k (py_strip s)
      else Inl (ValueError ''could not convert string to float''))"
| "float_at k _ = Inl TypeError"

text \<open>\<open>d["key"]\<close>.\<close>

definition json_item :: "json \<Rightarrow> string \<Rightarrow> exn + json" where
  "json_item v k =
     (case v of
        JDict kvs \<Rightarrow> (case map_of kvs k of Some x \<Rightarrow> Inr x | None \<Rightarrow> Inl KeyError)
      | _ \<Rightarrow> Inl TypeError)"

text \<open>\<open>x or {}\<close>, and \<open>d.get("key")\<close> of a value that may be no object.\<close>

definition or_empty :: "json \<Rightarrow> json" where
  "or_empty v = (if json_truthy v then v else JDict [])"

definition json_lookup :: "json \<Rightarrow> string \<Rightarrow> exn + json" where
  "json_lookup v k =
     (case v of
        JDict kvs \<Rightarrow> Inr (case map_of kvs k of Some x \<Rightarrow> x | None \<Rightarrow> JNull)
      | _ \<Rightarrow> Inl (OtherError ''AttributeError''))"

definition bind_sum :: "'e + 'a \<Rightarrow> ('a \<Rightarrow> 'e + 'b) \<Rightarrow> 'e + 'b" where
  "bind_sum r k = (case r of Inl e \<Rightarrow> Inl e | Inr x \<Rightarrow> k x)"

lemma bind_sum_simps [simp, prog_simps]:
  "bind_sum (Inl e) k = Inl e" "bind_sum (Inr x) k = k x"
  by (simp_all add: bind_sum_def)

lemma bind_sum_Inr: "bind_sum r k = Inr y \<longleftrightarrow> (\<exists>x. r = Inr x \<and> k x = Inr y)"
  by (cases r) simp_all

lemma bind_sum_Inl: "bind_sum r k = Inl e \<longleftrightarrow> r = Inl e \<or> (\<exists>x. r = Inr x \<and> k x = Inl e)"
  by (cases r) simp_all

section \<open>UTF-8\<close>

definition cont_byte :: "char \<Rightarrow> bool" where
  "cont_byte c \<longleftrightarrow> 128 \<le> (of_char c :: nat) \<and> (of_char c :: nat) < 192"

text \<open>The code points of strict UTF-8: no overlong form, no surrogate, at most \<open>0x10FFFF\<close>.\<close>

fun utf8_points :: "string \<Rightarrow> nat list option" where
  "utf8_points [] = Some []"
| "utf8_points (c # cs) =
     (let n = of_char c :: nat; low = (\<lambda>d. (of_char d :: nat) - 128) in
      if n < 128 then map_option ((#) n) (utf8_points cs)
      else if 194 \<le> n \<and> n < 224 then
        (case cs of
           d # r \<Rightarrow>
             if cont_byte d then map_option ((#) ((n - 192) * 64 + low d)) (utf8_points r) else None
         | _ \<Rightarrow> None)
      else if 224 \<le> n \<and> n < 240 then
        (case cs of
           d # e # r \<Rightarrow>
             (let p = (n - 224) * 4096 + low d * 64 + low e
              in if cont_byte d \<and> cont_byte e \<and> 2048 \<le> p \<and> \<not> (55296 \<le> p \<and> p < 57344)
                 then map_option ((#) p) (utf8_points r) else None)
         | _ \<Rightarrow> None)
      else if 240 \<le> n \<and> n < 245 then
        (case cs of
           d # e # f # r \<Rightarrow>
             (let p = (n - 240) * 262144 + low d * 4096 + low e * 64 + low f
              in if cont_byte d \<and> cont_byte e \<and> cont_byte f \<and> 65536 \<le> p \<and> p < 1114112
                 then map_option ((#) p) (utf8_points r) else None)
         | _ \<Rightarrow> None)
      else None)"

text \<open>\<open>json.dumps\<close> with its default \<open>ensure_ascii\<close> escapes every other point, in pairs above 16 bits.\<close>

definition ascii_point :: "nat \<Rightarrow> string" where
  "ascii_point p =
     (if p < 127 then [char_of p]
      else if p < 65536 then [CHR 0x5C, CHR ''u''] @ hex4 p
      else [CHR 0x5C, CHR ''u''] @ hex4 (55296 + (p - 65536) div 1024) @
           [CHR 0x5C, CHR ''u''] @ hex4 (56320 + (p - 65536) mod 1024))"

definition to_ascii :: "string \<Rightarrow> string" where
  "to_ascii s = (case utf8_points s of None \<Rightarrow> s | Some ps \<Rightarrow> concat (map ascii_point ps))"

text \<open>\<open>json.loads\<close> of bytes decodes them first.\<close>

definition loads_bytes :: "bytes \<Rightarrow> exn + json" where
  "loads_bytes data =
     (case utf8_points data of
        None \<Rightarrow> Inl (ValueError ''invalid utf-8'')
      | Some _ \<Rightarrow> (case loads data of None \<Rightarrow> Inl JSONDecodeError | Some v \<Rightarrow> Inr v))"

definition plain_ascii :: "string \<Rightarrow> bool" where
  "plain_ascii s \<longleftrightarrow> list_all (\<lambda>c. (of_char c :: nat) < 127) s"

lemma plain_ascii_simps [simp]:
  "plain_ascii []" "plain_ascii (c # s) \<longleftrightarrow> (of_char c :: nat) < 127 \<and> plain_ascii s"
  "plain_ascii (s @ t) \<longleftrightarrow> plain_ascii s \<and> plain_ascii t"
  by (simp_all add: plain_ascii_def)

lemma utf8_plain: "plain_ascii s \<Longrightarrow> utf8_points s = Some (map of_char s)"
  by (induction s) (simp_all add: Let_def)

lemma to_ascii_plain: "plain_ascii s \<Longrightarrow> to_ascii s = s"
proof -
  assume plain: "plain_ascii s"
  then have "concat (map ascii_point (map of_char s)) = s"
    by (induction s) (simp_all add: ascii_point_def)
  with plain show ?thesis by (simp add: to_ascii_def utf8_plain)
qed

lemma plain_digit: "d < 16 \<Longrightarrow> (of_char (digit_char d) :: nat) < 127"
proof -
  have "\<forall>d \<in> set [0..<16]. (of_char (digit_char d) :: nat) < 127" by code_simp
  then show "d < 16 \<Longrightarrow> (of_char (digit_char d) :: nat) < 127" by simp
qed

lemma plain_str_int: "plain_ascii (str_int i)"
proof -
  have "list_all (\<lambda>c. (of_char c :: nat) < 127) (str_nat n)" for n
    using str_nat_digits [of n] by (rule list.pred_mono_strong) (simp add: is_digit_def)
  then show ?thesis by (simp add: str_int_def plain_ascii_def)
qed

lemma plain_uuid: "plain_ascii (uuid_str u)"
  unfolding plain_ascii_def
proof (rule list.pred_mono_strong [OF uuid_str_chars])
  fix c
  assume "uuid_char c"
  then have "c \<in> set ''0123456789abcdef'' \<or> c = CHR ''-''" by (simp only: uuid_char_def hex_char_def)
  moreover have "\<forall>c \<in> set ''0123456789abcdef''. (of_char c :: nat) < 127" by code_simp
  moreover have "(of_char (CHR ''-'') :: nat) < 127" by code_simp
  ultimately show "(of_char c :: nat) < 127" by blast
qed

lemma plain_hex_fixed: "plain_ascii (hex_fixed k n)"
  by (induction k arbitrary: n) (simp_all add: plain_digit)

lemma plain_escaped: "(of_char c :: nat) < 127 \<Longrightarrow> plain_ascii (json_escape_char c)"
  by (simp add: json_escape_char_def hex4_def plain_hex_fixed)

lemma plain_json_string: "plain_ascii s \<Longrightarrow> plain_ascii (json_string s)"
proof -
  assume "plain_ascii s"
  then have "plain_ascii (concat (map json_escape_char s))"
    by (induction s) (simp_all add: plain_escaped)
  then show "plain_ascii (json_string s)" by (simp add: json_string_def)
qed

section \<open>Base64\<close>

definition b64_char :: "nat \<Rightarrow> char" where
  "b64_char n = ''ABCDEFGHIJKLMNOPQRSTUVWXYZabcdefghijklmnopqrstuvwxyz0123456789+/'' ! n"

fun b64encode :: "bytes \<Rightarrow> string" where
  "b64encode [] = []"
| "b64encode [a] =
     (let n = of_char a :: nat in [b64_char (n div 4), b64_char (n mod 4 * 16), CHR ''='', CHR ''=''])"
| "b64encode [a, b] =
     (let n = of_char a :: nat; m = of_char b :: nat
      in [b64_char (n div 4), b64_char (n mod 4 * 16 + m div 16), b64_char (m mod 16 * 4), CHR ''=''])"
| "b64encode (a # b # c # r) =
     (let n = of_char a :: nat; m = of_char b :: nat; k = of_char c :: nat
      in [b64_char (n div 4), b64_char (n mod 4 * 16 + m div 16), b64_char (m mod 16 * 4 + k div 64),
          b64_char (k mod 64)] @ b64encode r)"

definition b64_value :: "char \<Rightarrow> nat option" where
  "b64_value c =
     (let n = of_char c :: nat in
      if 65 \<le> n \<and> n \<le> 90 then Some (n - 65)
      else if 97 \<le> n \<and> n \<le> 122 then Some (n - 71)
      else if 48 \<le> n \<and> n \<le> 57 then Some (n + 4)
      else if n = 43 then Some 62 else if n = 47 then Some 63 else None)"

text \<open>\<open>b64decode(value, validate=True)\<close>: only the alphabet, padded groups of four.\<close>

fun b64decode :: "string \<Rightarrow> bytes option" where
  "b64decode [] = Some []"
| "b64decode (a # b # c # d # r) =
     (case (b64_value a, b64_value b) of
        (Some x, Some y) \<Rightarrow>
          (if c = CHR ''='' \<and> d = CHR ''='' \<and> r = [] then Some [char_of (x * 4 + y div 16)]
           else
             (case b64_value c of
                None \<Rightarrow> None
              | Some z \<Rightarrow>
                  if d = CHR ''='' \<and> r = []
                  then Some [char_of (x * 4 + y div 16), char_of (y mod 16 * 16 + z div 4)]
                  else
                    (case b64_value d of
                       None \<Rightarrow> None
                     | Some w \<Rightarrow>
                         map_option ((@) [char_of (x * 4 + y div 16), char_of (y mod 16 * 16 + z div 4),
                             char_of (z mod 4 * 64 + w)]) (b64decode r))))
      | _ \<Rightarrow> None)"
| "b64decode _ = None"

section \<open>Percent encoding\<close>

text \<open>\<open>urllib.parse.quote(s, safe)\<close> of UTF-8 text: every byte that is not unreserved is \<open>%XX\<close>.\<close>

definition unreserved :: "string \<Rightarrow> char \<Rightarrow> bool" where
  "unreserved safe c \<longleftrightarrow>
     (let n = of_char c :: nat
      in 65 \<le> n \<and> n \<le> 90 \<or> 97 \<le> n \<and> n \<le> 122 \<or> 48 \<le> n \<and> n \<le> 57 \<or> n \<in> {95, 46, 45, 126})
     \<or> c \<in> set safe"

definition upper_hex :: "nat \<Rightarrow> char" where
  "upper_hex d = ''0123456789ABCDEF'' ! d"

definition quote_char :: "string \<Rightarrow> char \<Rightarrow> string" where
  "quote_char safe c =
     (if unreserved safe c then [c]
      else [CHR 0x25, upper_hex (of_char c div 16), upper_hex (of_char c mod 16)])"

definition quote :: "string \<Rightarrow> string \<Rightarrow> string" where
  "quote safe s = concat (map (quote_char safe) s)"

section \<open>HTTP\<close>

record http_response =
  http_status :: int
  http_json :: "exn + json"
  http_content :: bytes
  http_headers :: "(string \<times> string) list"

type_synonym headers = "(string \<times> string) list"

record 'w http_client =
  http_post :: "string \<Rightarrow> headers \<Rightarrow> json \<Rightarrow> ('w, http_response) op"
  http_get :: "string \<Rightarrow> headers \<Rightarrow> ('w, http_response) op"
  http_put :: "string \<Rightarrow> headers \<Rightarrow> bytes \<Rightarrow> ('w, http_response) op"

text \<open>\<open>s.rstrip("/")\<close> and \<open>s.lstrip("/")\<close>.\<close>

definition rstrip_slash :: "string \<Rightarrow> string" where
  "rstrip_slash s = rev (dropWhile (\<lambda>c. c = CHR ''/'') (rev s))"

definition lstrip_slash :: "string \<Rightarrow> string" where
  "lstrip_slash s = dropWhile (\<lambda>c. c = CHR ''/'') s"

text \<open>\<open>needle in s\<close>.\<close>

fun contains :: "string \<Rightarrow> string \<Rightarrow> bool" where
  "contains p [] = (p = [])"
| "contains p (c # cs) = (starts_with p (c # cs) \<or> contains p cs)"

lemma starts_with_iff: "starts_with p s \<longleftrightarrow> (\<exists>t. s = p @ t)"
  by (induction p s rule: starts_with.induct) auto

end
