(* ===== verification/Preprocessing.thy ===== *)
theory Preprocessing
  imports Wire Memory Worker Services
begin

text \<open>
  The document preprocessors of \<^verbatim>\<open>infrastructure/preprocessor.py\<close> that hand a file to an isolated
  parser: over HTTP, through a shared directory, and as a subprocess. Files, processes and the
  monotonic clock are records of programs. A path is the list of its components below the root;
  resolving links is a program of the file system. What an adapter writes to the object storage
  goes through the storage it is given.
\<close>

section \<open>Files\<close>

type_synonym path = "string list"

record 'w files =
  f_read :: "path \<Rightarrow> ('w, bytes) op"
  f_write :: "path \<Rightarrow> bytes \<Rightarrow> ('w, unit) op"
  f_replace :: "path \<Rightarrow> path \<Rightarrow> ('w, unit) op"
  f_exists :: "path \<Rightarrow> ('w, bool) op"
  f_mkdir :: "path \<Rightarrow> ('w, unit) op"
  f_rmtree :: "path \<Rightarrow> ('w, unit) op"
  f_resolve :: "path \<Rightarrow> ('w, path) op"

fun split_slash :: "string \<Rightarrow> string list" where
  "split_slash [] = [[]]"
| "split_slash (c # s) =
     (if c = CHR ''/'' then [] # split_slash s
      else (case split_slash s of p # ps \<Rightarrow> (c # p) # ps | [] \<Rightarrow> [[c]]))"

text \<open>\<open>directory / text\<close>: an absolute text replaces the directory.\<close>

definition path_parts :: "string \<Rightarrow> path" where
  "path_parts s = filter (\<lambda>p. p \<noteq> [] \<and> p \<noteq> ''.'') (split_slash s)"

definition path_join :: "path \<Rightarrow> string \<Rightarrow> path" where
  "path_join dir s = (if starts_with ''/'' s then path_parts s else dir @ path_parts s)"

text \<open>\<open>root in path.parents\<close>.\<close>

definition below :: "path \<Rightarrow> path \<Rightarrow> bool" where
  "below root p \<longleftrightarrow> length root < length p \<and> take (length root) p = root"

definition path_text :: "path \<Rightarrow> string" where
  "path_text p = concat (map (\<lambda>c. CHR ''/'' # c) p)"

text \<open>\<open>json.loads(path.read_text("utf-8"))\<close>.\<close>

definition read_json :: "'w files \<Rightarrow> path \<Rightarrow> ('w, json) op" where
  "read_json fs p = bind_prog (f_read fs p) (\<lambda>data. lift_sum (loads_bytes data))"

text \<open>A \<open>finally\<close> block: it runs however the body ends, and its own failure wins.\<close>

definition finally_prog :: "('w, 'e, 'a) prog \<Rightarrow> ('w, 'e, unit) prog \<Rightarrow> ('w, 'e, 'a) prog" where
  "finally_prog m f =
     bind_prog (catch_prog (bind_prog m (\<lambda>x. ret (Inr x))) (\<lambda>e. ret (Inl e))) (\<lambda>r.
     bind_prog f (\<lambda>_. lift_sum r))"

section \<open>Over HTTP\<close>

record 'w sandbox_http =
  sb_base_url :: string
  sb_client :: "'w http_client"

definition sandbox_request :: "upload \<Rightarrow> job \<Rightarrow> json" where
  "sandbox_request u j =
     JDict [(''schema_version'', JInt 1), (''source_object_key'', JStr (upload_object_key u)),
       (''source_content_type'', (case upload_detected_content_type u of Some t \<Rightarrow> JStr t | None \<Rightarrow> JNull)),
       (''output_prefix'', JStr (''jobs/'' @ uuid_str (job_id j) @ ''/attempts/'' @ str_int (job_attempt j) @ ''/pages'')),
       (''request_id'', JStr (job_request_id j))]"

definition described_page :: "string \<Rightarrow> int \<Rightarrow> json \<Rightarrow> exn + prepared_page" where
  "described_page prefix expected page =
     bind_sum (bind_sum (json_item page ''page_number'') py_int) (\<lambda>number.
     bind_sum (json_item page ''object_key'') (\<lambda>key.
     if number \<noteq> expected then Inl (ValueError ''sandbox pages must be contiguous'')
     else if \<not> starts_with prefix (py_str key) then Inl (ValueError ''sandbox page is outside the job prefix'')
     else Inr \<lparr>prepared_page_number = number, prepared_object_key = py_str key\<rparr>))"

fun described_pages :: "string \<Rightarrow> int \<Rightarrow> json list \<Rightarrow> exn + prepared_page list" where
  "described_pages prefix n [] = Inr []"
| "described_pages prefix n (p # ps) =
     bind_sum (described_page prefix n p) (\<lambda>x.
     bind_sum (described_pages prefix (n + 1) ps) (\<lambda>xs. Inr (x # xs)))"

definition sandbox_answer :: "job \<Rightarrow> http_response \<Rightarrow> exn + prepared_page list" where
  "sandbox_answer j response =
     (if http_status response \<noteq> 200 then
        Inl (PreprocessingError (''sandbox preprocessor returned '' @ str_int (http_status response)))
      else
        bind_sum (http_json response) (\<lambda>payload.
        case json_get payload ''pages'' of
          Some (JList descriptors) \<Rightarrow>
            (case described_pages (pages_prefix j) 1 descriptors of
               Inl e \<Rightarrow>
                 Inl (if e = KeyError \<or> e = TypeError \<or> is_value_error e
                      then PreprocessingError ''sandbox page descriptor is invalid'' else e)
             | Inr pages \<Rightarrow>
                 if pages = [] then Inl (PreprocessingError ''sandbox produced no pages'') else Inr pages)
        | _ \<Rightarrow> Inl (PreprocessingError ''sandbox preprocessor response is invalid'')))"

definition sandbox_prepare :: "'w sandbox_http \<Rightarrow> upload \<Rightarrow> job \<Rightarrow> ('w, prepared_page list) op" where
  "sandbox_prepare env u j =
     bind_prog
       (catch_prog
          (http_post (sb_client env) (rstrip_slash (sb_base_url env) @ ''/v1/documents/prepare'')
             [(''X-Request-ID'', job_request_id j)] (sandbox_request u j))
          (\<lambda>e. raise_exc (if is_exception e then PreprocessingError ''sandbox preprocessor unavailable'' else e)))
       (\<lambda>response. lift_sum (sandbox_answer j response))"

section \<open>Pages of a directory\<close>

text \<open>One descriptor of the manifest: the number, the path inside the output directory, the bytes.\<close>

definition import_page ::
    "'w files \<Rightarrow> (string \<Rightarrow> bytes \<Rightarrow> string \<Rightarrow> ('w, stored_object) op) \<Rightarrow> ('w, path) op \<Rightarrow> path \<Rightarrow> job \<Rightarrow>
     int \<Rightarrow> json \<Rightarrow> ('w, prepared_page) op" where
  "import_page fs put root output j expected descriptor =
     (case descriptor of
        JDict kvs \<Rightarrow>
          bind_prog (lift_sum (py_int (case map_of kvs ''page_number'' of Some v \<Rightarrow> v | None \<Rightarrow> JInt expected))) (\<lambda>number.
          if number \<noteq> expected then raise_exc (PreprocessingError ''sandbox pages must be contiguous and one-based'')
          else
            (case map_of kvs ''path'' of
               Some (JStr relative) \<Rightarrow>
                 bind_prog (f_resolve fs (path_join output relative)) (\<lambda>p.
                 bind_prog root (\<lambda>r.
                 if \<not> below r p then raise_exc (PreprocessingError ''sandbox page path escapes output directory'')
                 else
                   bind_prog (f_read fs p) (\<lambda>data.
                   if data = [] then raise_exc (PreprocessingError ''sandbox produced an empty page'')
                   else
                     bind_prog (put (page_image_key j number) data ''image/png'') (\<lambda>_.
                     ret \<lparr>prepared_page_number = number, prepared_object_key = page_image_key j number\<rparr>))))
             | _ \<Rightarrow> raise_exc (PreprocessingError ''sandbox page path is missing'')))
      | _ \<Rightarrow> raise_exc (PreprocessingError ''sandbox page descriptor is invalid''))"

fun import_pages ::
    "'w files \<Rightarrow> (string \<Rightarrow> bytes \<Rightarrow> string \<Rightarrow> ('w, stored_object) op) \<Rightarrow> ('w, path) op \<Rightarrow> path \<Rightarrow> job \<Rightarrow>
     int \<Rightarrow> json list \<Rightarrow> ('w, prepared_page list) op" where
  "import_pages fs put root output j n [] = ret []"
| "import_pages fs put root output j n (d # ds) =
     bind_prog (import_page fs put root output j n d) (\<lambda>x.
     bind_prog (import_pages fs put root output j (n + 1) ds) (\<lambda>xs. ret (x # xs)))"

text \<open>The manifest; an unreadable or invalid one is a preprocessing error.\<close>

fun is_os_error :: "exn \<Rightarrow> bool" where
  "is_os_error (OSError _) = True"
| "is_os_error FileNotFoundError = True"
| "is_os_error TimeoutError = True"
| "is_os_error _ = False"

definition read_manifest :: "'w files \<Rightarrow> path \<Rightarrow> ('w, json) op" where
  "read_manifest fs output =
     catch_prog (read_json fs (output @ [''manifest.json''])) (\<lambda>e.
       if is_os_error e \<or> e = JSONDecodeError
       then raise_exc (PreprocessingError ''sandbox did not produce a valid manifest'') else raise_exc e)"

definition descriptors_of :: "int \<Rightarrow> json \<Rightarrow> exn + json list" where
  "descriptors_of max_pages manifest =
     (case json_get manifest ''pages'' of
        Some (JList ds) \<Rightarrow>
          if 1 \<le> int (length ds) \<and> int (length ds) \<le> max_pages then Inr ds
          else Inl (PreprocessingError ''sandbox page count is invalid'')
      | _ \<Rightarrow> Inl (PreprocessingError ''sandbox page count is invalid''))"

section \<open>Through a shared directory\<close>

record 'w directory_sandbox =
  ds_get_bytes :: "string \<Rightarrow> ('w, bytes) op"
  ds_put_bytes :: "string \<Rightarrow> bytes \<Rightarrow> string \<Rightarrow> ('w, stored_object) op"
  ds_files :: "'w files"
  ds_uuid4 :: "('w, uuid) op"
  ds_clock :: "('w, time) op"
  ds_sleep :: "time \<Rightarrow> ('w, unit) op"
  ds_exchange_dir :: path
  ds_timeout :: time
  ds_poll_interval :: time
  ds_max_pages :: int
  ds_max_pixels :: int
  ds_dpi :: int

definition upload_pages :: "'w directory_sandbox \<Rightarrow> path \<Rightarrow> job \<Rightarrow> ('w, prepared_page list) op" where
  "upload_pages env output j =
     bind_prog (read_manifest (ds_files env) output) (\<lambda>manifest.
     bind_prog (lift_sum (descriptors_of (ds_max_pages env) manifest)) (\<lambda>ds.
     bind_prog (f_resolve (ds_files env) output) (\<lambda>root.
     import_pages (ds_files env) (ds_put_bytes env) (ret root) output j 1 ds)))"

definition exchange_request :: "'w directory_sandbox \<Rightarrow> upload \<Rightarrow> job \<Rightarrow> json" where
  "exchange_request env u j =
     JDict [(''input'', JStr ''input''), (''sha256'', JStr (upload_sha256 u)), (''max_pages'', JInt (ds_max_pages env)),
       (''max_pixels'', JInt (ds_max_pixels env)), (''dpi'', JInt (ds_dpi env)),
       (''request_id'', JStr (job_request_id j))]"

fun wait_response :: "'w directory_sandbox \<Rightarrow> path \<Rightarrow> time \<Rightarrow> nat \<Rightarrow> ('w, unit) op" where
  "wait_response env p deadline 0 = diverge"
| "wait_response env p deadline (Suc n) =
     bind_prog (f_exists (ds_files env) p) (\<lambda>there.
     if there then ret ()
     else
       bind_prog (ds_clock env) (\<lambda>now.
       if deadline \<le> now then raise_exc (PreprocessingError ''sandbox preprocessor timed out'')
       else bind_prog (ds_sleep env (ds_poll_interval env)) (\<lambda>_. wait_response env p deadline n)))"

text \<open>The answer of the parser: \<open>ok\<close>, or the reason cut to 160 characters.\<close>

definition check_response :: "json \<Rightarrow> exn + unit" where
  "check_response response =
     bind_sum (json_lookup response ''ok'') (\<lambda>ok.
     if json_truthy ok then Inr ()
     else
       bind_sum (json_lookup response ''error_reason'') (\<lambda>reason.
       Inl (PreprocessingError (''sandbox preprocessor rejected input: '' @
         take 160 (if json_truthy reason then py_str reason else ''sandbox_failed'')))))"

definition exchange_dir :: "'w directory_sandbox \<Rightarrow> job \<Rightarrow> uuid \<Rightarrow> path" where
  "exchange_dir env j u =
     ds_exchange_dir env @ [uuid_str (job_id j) @ ''-'' @ str_int (job_attempt j) @ ''-'' @ hex_fixed 32 (unat u)]"

definition exchange :: "'w directory_sandbox \<Rightarrow> nat \<Rightarrow> path \<Rightarrow> upload \<Rightarrow> job \<Rightarrow> ('w, prepared_page list) op" where
  "exchange env fuel dir u j =
     bind_prog (f_mkdir (ds_files env) dir) (\<lambda>_.
     bind_prog (ds_get_bytes env (upload_object_key u)) (\<lambda>source.
     bind_prog (f_write (ds_files env) (dir @ [''input'']) source) (\<lambda>_.
     bind_prog (f_write (ds_files env) (dir @ [''request.tmp'']) (dumps (exchange_request env u j))) (\<lambda>_.
     bind_prog (f_replace (ds_files env) (dir @ [''request.tmp'']) (dir @ [''request.json''])) (\<lambda>_.
     bind_prog (ds_clock env) (\<lambda>now.
     bind_prog (wait_response env (dir @ [''response.json'']) (now + ds_timeout env) fuel) (\<lambda>_.
     bind_prog (read_json (ds_files env) (dir @ [''response.json''])) (\<lambda>response.
     bind_prog (lift_sum (check_response response)) (\<lambda>_.
     upload_pages env (dir @ [''output'']) j)))))))))"

definition directory_prepare :: "'w directory_sandbox \<Rightarrow> nat \<Rightarrow> upload \<Rightarrow> job \<Rightarrow> ('w, prepared_page list) op" where
  "directory_prepare env fuel u j =
     bind_prog (ds_uuid4 env) (\<lambda>nonce.
     let dir = exchange_dir env j nonce
     in finally_prog
          (catch_prog (exchange env fuel dir u j) (\<lambda>e. case e of
             PreprocessingError m \<Rightarrow> raise_exc e
           | _ \<Rightarrow> if is_exception e then raise_exc (PreprocessingError ''sandbox exchange failed'') else raise_exc e))
          (f_rmtree (ds_files env) dir))"

section \<open>As a subprocess\<close>

text \<open>
  \<open>shlex.split\<close>: the state is between words (\<open>None\<close>), in a word, in quotes, or after a backslash
  with the state to return to.
\<close>

datatype shell_state = Between | In_Word | In_Quotes char | Escaped shell_state

definition shell_space :: "char \<Rightarrow> bool" where
  "shell_space c \<longleftrightarrow> c \<in> {CHR '' '', CHR 0x09, CHR 0x0D, CHR 0x0A}"

definition is_quote :: "char \<Rightarrow> bool" where
  "is_quote c \<longleftrightarrow> c = CHR 0x27 \<or> c = CHR 0x22"

definition backslash :: char where
  "backslash = CHR 0x5C"

fun shlex_run :: "shell_state \<Rightarrow> string \<Rightarrow> string \<Rightarrow> exn + string list" where
  "shlex_run Between word [] = Inr []"
| "shlex_run In_Word word [] = Inr [word]"
| "shlex_run (In_Quotes q) word [] = Inl (ValueError ''No closing quotation'')"
| "shlex_run (Escaped st) word [] = Inl (ValueError ''No escaped character'')"
| "shlex_run Between word (c # s) =
     (if shell_space c then shlex_run Between [] s
      else if c = backslash then shlex_run (Escaped In_Word) [] s
      else if is_quote c then shlex_run (In_Quotes c) [] s
      else shlex_run In_Word [c] s)"
| "shlex_run In_Word word (c # s) =
     (if shell_space c then bind_sum (shlex_run Between [] s) (\<lambda>ws. Inr (word # ws))
      else if c = backslash then shlex_run (Escaped In_Word) word s
      else if is_quote c then shlex_run (In_Quotes c) word s
      else shlex_run In_Word (word @ [c]) s)"
| "shlex_run (In_Quotes q) word (c # s) =
     (if c = q then shlex_run In_Word word s
      else if c = backslash \<and> q = CHR 0x22 then shlex_run (Escaped (In_Quotes q)) word s
      else shlex_run (In_Quotes q) (word @ [c]) s)"
| "shlex_run (Escaped st) word (c # s) =
     (case st of
        In_Quotes q \<Rightarrow> shlex_run st (word @ (if c \<noteq> backslash \<and> c \<noteq> q then [backslash] else []) @ [c]) s
      | _ \<Rightarrow> shlex_run st (word @ [c]) s)"

definition shlex_split :: "string \<Rightarrow> exn + string list" where
  "shlex_split s = shlex_run Between [] s"

text \<open>
  \<open>format_map\<close> with fields that are plain names; a conversion, a format specification or an access
  in a field is refused here.
\<close>

fun format_map :: "(string \<times> string) list \<Rightarrow> string \<Rightarrow> exn + string" and
    format_field :: "(string \<times> string) list \<Rightarrow> string \<Rightarrow> string \<Rightarrow> exn + string" where
  "format_map vs [] = Inr []"
| "format_map vs [c] =
     (if c = CHR 0x7B \<or> c = CHR 0x7D then Inl (ValueError ''Single brace encountered in format string'') else Inr [c])"
| "format_map vs (c # d # s) =
     (if c = CHR 0x7B \<and> d = CHR 0x7B then bind_sum (format_map vs s) (\<lambda>r. Inr (c # r))
      else if c = CHR 0x7D \<and> d = CHR 0x7D then bind_sum (format_map vs s) (\<lambda>r. Inr (c # r))
      else if c = CHR 0x7D then Inl (ValueError ''Single brace encountered in format string'')
      else if c = CHR 0x7B then format_field vs [] (d # s)
      else bind_sum (format_map vs (d # s)) (\<lambda>r. Inr (c # r)))"
| "format_field vs name [] = Inl (ValueError ''expected a closing brace before end of string'')"
| "format_field vs name (c # s) =
     (if c = CHR 0x7D then
        (case map_of vs name of
           Some v \<Rightarrow> bind_sum (format_map vs s) (\<lambda>r. Inr (v @ r))
         | None \<Rightarrow> Inl KeyError)
      else if c \<in> {CHR 0x7B, CHR 0x21, CHR 0x3A, CHR 0x2E, CHR 0x5B} then Inl (ValueError ''unsupported field'')
      else format_field vs (name @ [c]) s)"

record 'w subprocess_sandbox =
  sp_get_bytes :: "string \<Rightarrow> ('w, bytes) op"
  sp_put_bytes :: "string \<Rightarrow> bytes \<Rightarrow> string \<Rightarrow> ('w, stored_object) op"
  sp_files :: "'w files"
  sp_make_temp :: "('w, path) op"
  sp_path_variable :: "('w, string) op"
  sp_spawn :: "string list \<Rightarrow> path \<Rightarrow> (string \<times> string) list \<Rightarrow> ('w, unit) op"
  sp_communicate :: "time \<Rightarrow> ('w, int \<times> bytes) op"
  sp_kill :: "('w, unit) op"
  sp_command :: "string list"
  sp_timeout :: time
  sp_max_pages :: int

text \<open>The constructor splits the command and requires both placeholders.\<close>

definition make_command :: "string \<Rightarrow> exn + string list" where
  "make_command command =
     bind_sum (shlex_split command) (\<lambda>words.
     if words = [] \<or> \<not> list_ex (contains ''{input}'') words then
       Inl (ValueError ''sandbox command must contain {input}'')
     else if \<not> list_ex (contains ''{output_dir}'') words then
       Inl (ValueError ''sandbox command must contain {output_dir}'')
     else Inr words)"

fun map_words :: "(string \<Rightarrow> exn + string) \<Rightarrow> string list \<Rightarrow> exn + string list" where
  "map_words f [] = Inr []"
| "map_words f (x # xs) = bind_sum (f x) (\<lambda>y. bind_sum (map_words f xs) (\<lambda>ys. Inr (y # ys)))"

definition input_name :: "upload \<Rightarrow> string" where
  "input_name u =
     (if upload_detected_content_type u = Some ''application/pdf'' then ''input.pdf'' else ''input.image'')"

definition command_values :: "path \<Rightarrow> upload \<Rightarrow> job \<Rightarrow> (string \<times> string) list" where
  "command_values root u j =
     [(''input'', path_text (root @ [input_name u])), (''output_dir'', path_text (root @ [''output''])),
      (''content_type'',
        (case upload_detected_content_type u of Some t \<Rightarrow> if t = [] then upload_content_type u else t
         | None \<Rightarrow> upload_content_type u)),
      (''request_id'', job_request_id j), (''sha256'', upload_sha256 u)]"

text \<open>
  The exit status of the process; a timeout kills it. The text of a failure, the tail of its error
  output, is kept undecoded.
\<close>

definition run_process :: "'w subprocess_sandbox \<Rightarrow> path \<Rightarrow> string list \<Rightarrow> ('w, unit) op" where
  "run_process env root argv =
     bind_prog (sp_path_variable env) (\<lambda>search.
     bind_prog (sp_spawn env argv root [(''PATH'', search), (''HOME'', path_text root),
        (''TMPDIR'', path_text root), (''LANG'', ''C.UTF-8'')]) (\<lambda>_.
     bind_prog
       (catch_prog (sp_communicate env (sp_timeout env)) (\<lambda>e.
          if e = TimeoutError
          then bind_prog (sp_kill env) (\<lambda>_. raise_exc (PreprocessingError ''sandbox preprocessor timed out''))
          else raise_exc e)) (\<lambda>(status, err).
     if status \<noteq> 0
     then raise_exc (PreprocessingError (''sandbox preprocessor failed with exit '' @ str_int status @ '': '' @
            drop (length err - 500) err))
     else ret ())))"

definition subprocess_body :: "'w subprocess_sandbox \<Rightarrow> path \<Rightarrow> bytes \<Rightarrow> upload \<Rightarrow> job \<Rightarrow> ('w, prepared_page list) op" where
  "subprocess_body env root source u j =
     (let output = root @ [''output'']
      in bind_prog (f_mkdir (sp_files env) output) (\<lambda>_.
         bind_prog (f_write (sp_files env) (root @ [input_name u]) source) (\<lambda>_.
         bind_prog (lift_sum (map_words (format_map (command_values root u j)) (sp_command env))) (\<lambda>argv.
         bind_prog (run_process env root argv) (\<lambda>_.
         bind_prog (read_manifest (sp_files env) output) (\<lambda>manifest.
         bind_prog (lift_sum (descriptors_of (sp_max_pages env) manifest)) (\<lambda>ds.
         import_pages (sp_files env) (sp_put_bytes env) (f_resolve (sp_files env) output) output j 1 ds)))))))"

definition subprocess_prepare :: "'w subprocess_sandbox \<Rightarrow> upload \<Rightarrow> job \<Rightarrow> ('w, prepared_page list) op" where
  "subprocess_prepare env u j =
     bind_prog (sp_get_bytes env (upload_object_key u)) (\<lambda>source.
     bind_prog (sp_make_temp env) (\<lambda>root.
     finally_prog (subprocess_body env root source u j) (f_rmtree (sp_files env) root)))"

end
