(* ===== verification/Preprocessing_Laws.thy ===== *)
theory Preprocessing_Laws
  imports Preprocessing
begin

text \<open>
  Whatever an isolated parser answers, the pages that enter the job are numbered from one and lie
  under the prefix of the attempt, only files inside its output directory are read, and a failure is a
  preprocessing error.
\<close>

section \<open>Contiguous pages under the prefix of the attempt\<close>

definition pages_from :: "job \<Rightarrow> int \<Rightarrow> prepared_page list \<Rightarrow> bool" where
  "pages_from j n pages \<longleftrightarrow>
     map prepared_page_number pages = map (\<lambda>i. n + int i) [0..<length pages] \<and>
     (\<forall>p \<in> set pages. starts_with (pages_prefix j) (prepared_object_key p))"

lemma pages_from_Nil: "pages_from j n []"
  by (simp add: pages_from_def)

lemma pages_from_Cons:
  assumes "prepared_page_number p = n" and "starts_with (pages_prefix j) (prepared_object_key p)"
    and "pages_from j (n + 1) ps"
  shows "pages_from j n (p # ps)"
proof -
  have "map (\<lambda>i. n + int i) [0..<Suc (length ps)] = n # map (\<lambda>i. n + 1 + int i) [0..<length ps]"
    by (simp add: upt_conv_Cons map_Suc_upt [symmetric] o_def algebra_simps del: upt_Suc map_Suc_upt)
  with assms show ?thesis by (simp add: pages_from_def del: upt_Suc)
qed

lemma described_pages_ok:
  "described_pages (pages_prefix j) n ds = Inr pages \<Longrightarrow> pages_from j n pages"
proof (induction ds arbitrary: n pages)
  case (Cons d ds)
  then obtain p ps where "described_page (pages_prefix j) n d = Inr p"
    "described_pages (pages_prefix j) (n + 1) ds = Inr ps" "pages = p # ps"
    by (auto simp: bind_sum_Inr)
  with Cons.IH [of "n + 1" ps] show ?case
    by (auto simp: described_page_def bind_sum_Inr split: if_splits intro!: pages_from_Cons)
qed (simp add: pages_from_Nil)

lemma image_key_prefix: "starts_with (pages_prefix j) (page_image_key j n)"
  unfolding starts_with_iff by (simp add: pages_prefix_def page_image_key_def)

lemma import_page_Done:
  "import_page fs put root output j n d w = (Done p, w') \<Longrightarrow>
     prepared_page_number p = n \<and> prepared_object_key p = page_image_key j n"
  by (auto simp: import_page_def elim!: bind_prog_cases split: json.splits option.splits if_splits)

lemma import_pages_Done:
  "import_pages fs put root output j n ds w = (Done pages, w') \<Longrightarrow>
     pages_from j n pages \<and> length pages = length ds \<and>
     map prepared_object_key pages = map (page_image_key j) (map prepared_page_number pages)"
proof (induction ds arbitrary: n pages w)
  case (Cons d ds)
  then obtain p ps w1 where 1: "import_page fs put root output j n d w = (Done p, w1)"
    and 2: "import_pages fs put root output j (n + 1) ds w1 = (Done ps, w')" and "pages = p # ps"
    by (auto elim!: bind_prog_cases)
  with import_page_Done [OF 1] Cons.IH [OF 2] show ?case
    by (auto intro!: pages_from_Cons simp: image_key_prefix)
qed (simp add: pages_from_Nil)

definition imported :: "job \<Rightarrow> int \<Rightarrow> prepared_page list \<Rightarrow> bool" where
  "imported j limit pages \<longleftrightarrow>
     pages_from j 1 pages \<and> 1 \<le> length pages \<and> int (length pages) \<le> limit \<and>
     map prepared_object_key pages = map (page_image_key j) (map prepared_page_number pages)"

lemma finally_Done:
  assumes "finally_prog m f w = (Done x, w')"
  obtains w1 where "m w = (Done x, w1)"
  using assms
  by (auto simp: finally_prog_def bind_prog_def catch_prog_def lift_sum_def split: prod.splits outcome.splits sum.splits)

lemma descriptors_length: "descriptors_of n m = Inr ds \<Longrightarrow> 1 \<le> length ds \<and> int (length ds) \<le> n"
  by (auto simp: descriptors_of_def split: option.splits json.splits if_splits)

lemma lift_sum_Done: "lift_sum r w = (Done x, w') \<longleftrightarrow> r = Inr x \<and> w' = w"
  by (auto simp: lift_sum_def split: sum.splits)

lemma catch_raise_Done:
  assumes "catch_prog m h w = (Done x, w')" and "\<And>e w x w'. h e w \<noteq> (Done x, w')"
  shows "m w = (Done x, w')"
  using assms by (auto simp: catch_prog_def split: prod.splits outcome.splits)

lemma upload_pages_Done:
  assumes "upload_pages env output j w = (Done pages, w')"
  shows "imported j (ds_max_pages env) pages"
proof -
  from assms obtain m ds root w1 w2 where "descriptors_of (ds_max_pages env) m = Inr ds"
      "import_pages (ds_files env) (ds_put_bytes env) (ret root) output j 1 ds w1 = (Done pages, w2)"
    by (auto simp: upload_pages_def lift_sum_Done elim!: bind_prog_cases)
  with descriptors_length import_pages_Done show ?thesis unfolding imported_def by metis
qed

lemma exchange_Done:
  assumes "exchange env fuel dir u j w = (Done pages, w')"
  obtains w1 where "upload_pages env (dir @ [''output'']) j w1 = (Done pages, w')"
  using assms by (auto simp: exchange_def elim!: bind_prog_cases)

lemma directory_Done:
  assumes "directory_prepare env fuel u j w = (Done pages, w')"
  shows "imported j (ds_max_pages env) pages"
proof -
  from assms obtain nonce w0 w1 where fin: "finally_prog
          (catch_prog (exchange env fuel (exchange_dir env j nonce) u j) (\<lambda>e. case e of
             PreprocessingError m \<Rightarrow> raise_exc e
           | _ \<Rightarrow> if is_exception e then raise_exc (PreprocessingError ''sandbox exchange failed'') else raise_exc e))
          (f_rmtree (ds_files env) (exchange_dir env j nonce)) w0 = (Done pages, w1)"
    by (auto simp: directory_prepare_def Let_def elim!: bind_prog_cases)
  then obtain w2 where "catch_prog (exchange env fuel (exchange_dir env j nonce) u j) (\<lambda>e. case e of
             PreprocessingError m \<Rightarrow> raise_exc e
           | _ \<Rightarrow> if is_exception e then raise_exc (PreprocessingError ''sandbox exchange failed'') else raise_exc e)
          w0 = (Done pages, w2)"
    by (rule finally_Done)
  then have "exchange env fuel (exchange_dir env j nonce) u j w0 = (Done pages, w2)"
    by (rule catch_raise_Done) (auto split: exn.splits if_splits)
  then show ?thesis by (rule exchange_Done) (rule upload_pages_Done)
qed

lemma subprocess_Done:
  assumes "subprocess_prepare env u j w = (Done pages, w')"
  shows "imported j (sp_max_pages env) pages"
proof -
  from assms obtain source root w0 w1 where
      "finally_prog (subprocess_body env root source u j) (f_rmtree (sp_files env) root) w0 = (Done pages, w1)"
    by (auto simp: subprocess_prepare_def elim!: bind_prog_cases)
  then obtain w2 where "subprocess_body env root source u j w0 = (Done pages, w2)" by (rule finally_Done)
  then obtain m ds w3 where "descriptors_of (sp_max_pages env) m = Inr ds"
      "import_pages (sp_files env) (sp_put_bytes env) (f_resolve (sp_files env) (root @ [''output'']))
        (root @ [''output'']) j 1 ds w3 = (Done pages, w2)"
    by (auto simp: subprocess_body_def Let_def lift_sum_Done elim!: bind_prog_cases)
  with descriptors_length import_pages_Done show ?thesis unfolding imported_def by metis
qed

lemma sandbox_answer_pages:
  assumes "sandbox_answer j response = Inr pages"
  shows "pages_from j 1 pages \<and> pages \<noteq> []"
proof -
  from assms obtain payload where 1: "(case json_get payload ''pages'' of
          Some (JList descriptors) \<Rightarrow>
            (case described_pages (pages_prefix j) 1 descriptors of
               Inl e \<Rightarrow>
                 Inl (if e = KeyError \<or> e = TypeError \<or> is_value_error e
                      then PreprocessingError ''sandbox page descriptor is invalid'' else e)
             | Inr pages \<Rightarrow>
                 if pages = [] then Inl (PreprocessingError ''sandbox produced no pages'') else Inr pages)
        | _ \<Rightarrow> Inl (PreprocessingError ''sandbox preprocessor response is invalid'')) = Inr pages"
    unfolding sandbox_answer_def by (auto simp: bind_sum_Inr split: if_splits)
  then obtain ds where "json_get payload ''pages'' = Some (JList ds)"
    by (cases "json_get payload ''pages''") (auto split: json.splits)
  with 1 have "described_pages (pages_prefix j) 1 ds = Inr pages" "pages \<noteq> []"
    by (cases "described_pages (pages_prefix j) 1 ds"; auto split: if_splits)+
  then show ?thesis by (simp add: described_pages_ok)
qed

lemma sandbox_Done:
  assumes "sandbox_prepare env u j w = (Done pages, w')"
  shows "pages_from j 1 pages \<and> pages \<noteq> []"
proof -
  from assms obtain response where "sandbox_answer j response = Inr pages"
    by (auto simp: sandbox_prepare_def lift_sum_Done elim!: bind_prog_cases)
  then show ?thesis by (rule sandbox_answer_pages)
qed

text \<open>Numbers of six digits and more are padded apart.\<close>

lemma digits_value_pad: "digits_value 0 (pad_zeros k s) = digits_value 0 s"
proof -
  have "digits_value 0 (replicate m (CHR ''0'') @ s) = digits_value 0 s" for m
  proof (induction m)
    case (Suc m)
    have "digit_value (CHR ''0'') = 0" by code_simp
    with Suc show ?case by simp
  qed simp
  then show ?thesis by (simp add: pad_zeros_def)
qed

lemma page_image_key_inject:
  assumes "1 \<le> a" and "1 \<le> b" and "page_image_key j a = page_image_key j b"
  shows "a = b"
proof -
  have "fmt06d a = fmt06d b" using assms(3) by (simp add: page_image_key_def)
  then have "digits_value 0 (pad_zeros 6 (str_nat (nat a))) = digits_value 0 (pad_zeros 6 (str_nat (nat b)))"
    using assms(1,2) by (simp add: fmt06d_def)
  then show ?thesis using assms(1,2) by (simp add: digits_value_pad digits_value_str_nat)
qed

text \<open>
  C24. The pages that any of the three sandboxes hands to the worker: at least one, numbered from
  one without a gap in their order, each key under the prefix of this job and attempt. From the two
  adapters that import files, no more pages than the limit of the adapter, and no two pages share an
  object.
\<close>

theorem prepared_pages:
  assumes "sandbox_prepare h u j w = (Done pages, w') \<or> directory_prepare d fuel u j w = (Done pages, w') \<or>
      subprocess_prepare s u j w = (Done pages, w')"
  shows "pages \<noteq> [] \<and> map prepared_page_number pages = map int [1..<Suc (length pages)] \<and>
    (\<forall>p \<in> set pages. starts_with (pages_prefix j) (prepared_object_key p)) \<and>
    (directory_prepare d fuel u j w = (Done pages, w') \<longrightarrow>
       int (length pages) \<le> ds_max_pages d \<and> distinct (map prepared_object_key pages)) \<and>
    (subprocess_prepare s u j w = (Done pages, w') \<longrightarrow>
       int (length pages) \<le> sp_max_pages s \<and> distinct (map prepared_object_key pages))"
proof -
  have numbers: "map prepared_page_number pages = map int [1..<Suc (length pages)]" if "pages_from j 1 pages"
  proof -
    have "map (\<lambda>i. 1 + int i) [0..<length pages] = map int [1..<Suc (length pages)]"
      by (simp add: map_Suc_upt [symmetric] o_def del: upt_Suc map_Suc_upt)
    with that show ?thesis by (simp add: pages_from_def del: upt_Suc)
  qed
  have dist: "distinct (map prepared_object_key pages)" if "imported j limit pages" for limit
  proof -
    have "map prepared_object_key pages = map (page_image_key j) (map int [1..<Suc (length pages)])"
      using that numbers unfolding imported_def by metis
    then show ?thesis
      by (auto simp: distinct_map simp del: upt_Suc intro!: inj_onI dest!: page_image_key_inject [rotated 2])
  qed
  have sandbox: "pages \<noteq> [] \<and> pages_from j 1 pages" if "sandbox_prepare h u j w = (Done pages, w')"
    using sandbox_Done [OF that] by simp
  have directory: "imported j (ds_max_pages d) pages" if "directory_prepare d fuel u j w = (Done pages, w')"
    using that by (rule directory_Done)
  have subprocess: "imported j (sp_max_pages s) pages" if "subprocess_prepare s u j w = (Done pages, w')"
    using that by (rule subprocess_Done)
  from assms sandbox directory subprocess have "pages \<noteq> [] \<and> pages_from j 1 pages"
    by (elim disjE) (auto simp: imported_def)
  moreover have "int (length pages) \<le> ds_max_pages d" if "directory_prepare d fuel u j w = (Done pages, w')"
    using directory [OF that] by (simp add: imported_def)
  moreover have "int (length pages) \<le> sp_max_pages s" if "subprocess_prepare s u j w = (Done pages, w')"
    using subprocess [OF that] by (simp add: imported_def)
  moreover note dist [OF directory] dist [OF subprocess] numbers
  ultimately show ?thesis by (simp add: pages_from_def del: upt_Suc)
qed

definition pdf_upload :: upload where
  "pdf_upload =
     \<lparr>upload_owner_id = ''o'', upload_filename = ''a.pdf'', upload_size_bytes = 9,
      upload_content_type = ''application/pdf'', upload_sha256 = ''abc'', upload_object_key = ''k'', upload_id = 7,
      upload_state = COMPLETED, upload_created_at = 0, upload_completed_at = Some 1,
      upload_detected_content_type = Some ''application/pdf'', upload_multipart_upload_id = None\<rparr>"

definition one_page_client :: "unit http_client" where
  "one_page_client =
     \<lparr>http_post = (\<lambda>url hs body. ret \<lparr>http_status = 200,
        http_json = Inr (JDict [(''pages'', JList [JDict [(''page_number'', JInt 1),
          (''object_key'', JStr (page_image_key (new_job ''o'' 7 ''r'' (JDict []) None 11 40 41) 1))]])]),
        http_content = [], http_headers = []\<rparr>),
      http_get = (\<lambda>url hs. raise_exc TimeoutError), http_put = (\<lambda>url hs data. raise_exc TimeoutError)\<rparr>"

lemma prepared_pages_witness:
  "\<exists>pages. fst (sandbox_prepare \<lparr>sb_base_url = ''http://sandbox'', sb_client = one_page_client\<rparr> pdf_upload
       (new_job ''o'' 7 ''r'' (JDict []) None 11 40 41) ()) = Done pages \<and>
     map prepared_page_number pages = [1]"
proof -
  let ?j = "new_job ''o'' 7 ''r'' (JDict []) None 11 40 41"
  let ?page = "\<lparr>prepared_page_number = 1, prepared_object_key = page_image_key ?j 1\<rparr>"
  have "described_pages (pages_prefix ?j) 1 [JDict [(''page_number'', JInt 1), (''object_key'', JStr (page_image_key ?j 1))]] =
      Inr [?page]"
    using image_key_prefix [of ?j 1] by (simp add: described_page_def json_item_def)
  then have run: "sandbox_prepare \<lparr>sb_base_url = ''http://sandbox'', sb_client = one_page_client\<rparr> pdf_upload ?j () = (Done [?page], ())"
    by (simp add: sandbox_prepare_def one_page_client_def bind_prog_def catch_prog_def sandbox_answer_def)
  with prepared_pages [OF disjI1 [OF run]] show ?thesis by auto
qed

section \<open>Confinement\<close>

text \<open>
  C25. The parser chooses the paths of its manifest, and may leave links in its output directory. What
  the import does depends only on files that resolve below the root it was given: two file systems
  that resolve alike and agree on the files below the root give the same program. A file outside
  never reaches the object storage.
\<close>

theorem import_is_confined:
  assumes "\<And>p. f_resolve fs p = f_resolve fs' p" and "\<And>p. below root p \<Longrightarrow> f_read fs p = f_read fs' p"
  shows "import_pages fs put (ret root) output j n ds = import_pages fs' put (ret root) output j n ds"
proof (induction ds arbitrary: n)
  case (Cons d ds)
  have read: "(if \<not> below root p then m else bind_prog (f_read fs p) k) =
      (if \<not> below root p then m else bind_prog (f_read fs' p) k)" for p m and k :: "bytes \<Rightarrow> ('a, prepared_page) op"
    by (simp add: assms(2))
  have "import_page fs put (ret root) output j n d = import_page fs' put (ret root) output j n d"
    unfolding import_page_def bind_ret assms(1) read ..
  with Cons.IH show ?case by (simp del: ret_apply)
qed simp

definition mapped_files :: "(path \<Rightarrow> bytes option) \<Rightarrow> unit files" where
  "mapped_files m =
     \<lparr>f_read = (\<lambda>p. case m p of Some b \<Rightarrow> ret b | None \<Rightarrow> raise_exc FileNotFoundError),
      f_write = (\<lambda>p b. ret ()), f_replace = (\<lambda>p q. ret ()), f_exists = (\<lambda>p. ret (m p \<noteq> None)),
      f_mkdir = (\<lambda>p. ret ()), f_rmtree = (\<lambda>p. ret ()), f_resolve = ret\<rparr>"

lemma import_is_confined_witness:
  "import_pages (mapped_files [[''x'', ''secret''] \<mapsto> ''key'', [''x'', ''out'', ''p''] \<mapsto> ''png''])
      (\<lambda>k b t. raise_exc TimeoutError) (ret [''x'', ''out'']) [''x'', ''out''] (new_job ''o'' 7 ''r'' (JDict []) None 11 40 41) 1
      [JDict [(''path'', JStr ''../secret'')]] =
   import_pages (mapped_files [[''x'', ''out'', ''p''] \<mapsto> ''png''])
      (\<lambda>k b t. raise_exc TimeoutError) (ret [''x'', ''out'']) [''x'', ''out''] (new_job ''o'' 7 ''r'' (JDict []) None 11 40 41) 1
      [JDict [(''path'', JStr ''../secret'')]]"
  by (rule import_is_confined) (auto simp: mapped_files_def below_def)

end
