(* ===== verification/Worker_Success.thy ===== *)
theory Worker_Success
  imports Concurrency Preprocessing_Laws
begin

text \<open>
  A job that nobody disturbs succeeds. The safety of the worker would also hold for one that fails every
  job; here the whole path of \<open>process\<close> is followed on the local runtime, through the retries that the
  engine needs, to the assembled document. \<open>succeeds P m Q\<close> is total correctness: from a world with
  \<open>P\<close> the program returns, and \<open>Q\<close> holds of what it returns.
\<close>

section \<open>Programs that return\<close>

definition succeeds :: "('w \<Rightarrow> bool) \<Rightarrow> ('w, 'e, 'a) prog \<Rightarrow> ('a \<Rightarrow> 'w \<Rightarrow> bool) \<Rightarrow> bool" where
  "succeeds P m Q \<longleftrightarrow> (\<forall>w. P w \<longrightarrow> (\<exists>x w'. m w = (Done x, w') \<and> Q x w'))"

lemma succeedsI: "(\<And>w. P w \<Longrightarrow> \<exists>x w'. m w = (Done x, w') \<and> Q x w') \<Longrightarrow> succeeds P m Q"
  by (simp add: succeeds_def)

lemma succeedsD: "succeeds P m Q \<Longrightarrow> P w \<Longrightarrow> \<exists>x w'. m w = (Done x, w') \<and> Q x w'"
  by (simp add: succeeds_def)

lemma succeeds_bind:
  assumes "succeeds P m Q" and "\<And>x. succeeds (Q x) (k x) S"
  shows "succeeds P (bind_prog m k) S"
  using assms by (fastforce simp: succeeds_def bind_prog_def)

lemma succeeds_ret: "(\<And>w. P w \<Longrightarrow> Q x w) \<Longrightarrow> succeeds P (ret x) Q"
  by (simp add: succeeds_def)

lemma succeeds_lift: "r = Inr x \<Longrightarrow> (\<And>w. P w \<Longrightarrow> Q x w) \<Longrightarrow> succeeds P (lift_sum r) Q"
  by (simp add: succeeds_def)

lemma succeeds_catch: "succeeds P m Q \<Longrightarrow> succeeds P (catch_prog m h) Q"
  by (fastforce simp: succeeds_def catch_prog_def)

lemma succeeds_caught:
  assumes "\<And>w. P w \<Longrightarrow> \<exists>w'. m w = (Raised e, w') \<and> R w'" and "succeeds R (h e) Q"
  shows "succeeds P (catch_prog m h) Q"
  using assms by (fastforce simp: succeeds_def catch_prog_def)

lemma succeeds_local: "succeeds P m Q \<Longrightarrow> succeeds P (at_local l m) Q"
  unfolding at_local_def by (rule succeeds_catch)

lemma succeeds_weaken:
  "succeeds P' m Q' \<Longrightarrow> (\<And>w. P w \<Longrightarrow> P' w) \<Longrightarrow> (\<And>x w. Q' x w \<Longrightarrow> Q x w) \<Longrightarrow> succeeds P m Q"
  unfolding succeeds_def by meson

lemma succeeds_given: "(A \<Longrightarrow> succeeds P m Q) \<Longrightarrow> succeeds (\<lambda>w. A \<and> P w) m Q"
  by (auto simp: succeeds_def)

lemma succeeds_some: "(\<And>x. succeeds (P x) m Q) \<Longrightarrow> succeeds (\<lambda>w. \<exists>x. P x w) m Q"
  by (auto simp: succeeds_def)

text \<open>A step whose result is known: the rest of the program runs on it.\<close>

lemma succeeds_step:
  assumes "succeeds P m (\<lambda>r w. r = x \<and> R w)" and "succeeds R (k x) S"
  shows "succeeds P (bind_prog m k) S"
  using assms(1) by (rule succeeds_bind) (rule succeeds_given, simp add: assms(2))

lemma succeeds_skip:
  assumes "succeeds P m (\<lambda>_. R)" and "\<And>x. succeeds R (k x) S"
  shows "succeeds P (bind_prog m k) S"
  using assms by (rule succeeds_bind)

section \<open>The world of one job\<close>

type_synonym objects = "string \<Rightarrow> (bytes \<times> string \<times> string) option"

definition at_job :: "job \<Rightarrow> upload \<Rightarrow> objects \<Rightarrow> nat \<Rightarrow> mem \<Rightarrow> bool" where
  "at_job j u obs calls w \<longleftrightarrow>
     lookup_by job_id (m_jobs w) (job_id j) = Some j \<and>
     lookup_by upload_id (m_uploads w) (job_upload_id j) = Some u \<and>
     m_events_configured w \<and> map_of (m_objects w) = obs \<and> m_engine_calls w = calls"

declare local_ports_sel [simp del]

lemma clock_returns: "succeeds (at_job j u obs c) (p_utc_now (local_ports sha images failures vis)) (\<lambda>_. at_job j u obs c)"
  by (simp add: succeeds_def local_ports_sel mem_utc_now_def at_job_def)

lemma log_returns:
  "succeeds (at_job j u obs c) (p_logger_info (local_ports sha images failures vis) e kvs) (\<lambda>_. at_job j u obs c)"
  by (simp add: succeeds_def local_ports_sel mem_log_def at_job_def)

lemma sleep_returns:
  "succeeds (at_job j u obs c) (p_sleeper (local_ports sha images failures vis) t) (\<lambda>_. at_job j u obs c)"
  by (simp add: succeeds_def local_ports_sel mem_sleep_def at_job_def)

lemma append_returns:
  "\<exists>ev'. fst (mem_events_append ev w) = Done ev' \<and> at_job j u obs c (snd (mem_events_append ev w)) = at_job j u obs c w"
  by (simp add: mem_events_append_def Let_def at_job_def split: option.split)

lemma save_returns:
  assumes "job_id j' = job_id j" "job_revision j' = job_revision j" "job_upload_id j' = job_upload_id j"
  shows "succeeds (at_job j u obs c) (save_and_emit (local_ports sha images failures vis) j' ty pl)
    (\<lambda>r w. r = bump j' \<and> at_job (bump j') u obs c w)"
  unfolding save_and_emit_def
proof (rule succeeds_skip [OF clock_returns])
  fix now
  let ?ev = "make_job_event now j' ty pl"
  have "succeeds (at_job j u obs c) (mem_jobs_save_with_event j' ?ev) (\<lambda>r w. snd r = bump j' \<and> at_job (bump j') u obs c w)"
  proof (rule succeedsI)
    fix w
    assume w: "at_job j u obs c w"
    let ?w = "w\<lparr>m_jobs := update_by job_id (bump j') (m_jobs w)\<rparr>"
    obtain ev' w' where append: "mem_events_append ?ev ?w = (Done ev', w')"
      using append_returns [of ?ev ?w] by (metis prod.collapse)
    have "at_job (bump j') u obs c ?w" using w assms by (simp add: at_job_def)
    then have "at_job (bump j') u obs c w'" using append_returns [of ?ev ?w] append by simp
    with w assms append show "\<exists>r w'. mem_jobs_save_with_event j' ?ev w = (Done r, w') \<and> snd r = bump j' \<and> at_job (bump j') u obs c w'"
      by (auto simp: mem_jobs_save_with_event_def at_job_def Let_def bump_def)
  qed
  then show "succeeds (at_job j u obs c)
      (bind_prog (worker_database (p_jobs_save_with_event (local_ports sha images failures vis) j' ?ev)) (\<lambda>(ev, j'). ret j'))
      (\<lambda>r w. r = bump j' \<and> at_job (bump j') u obs c w)"
    unfolding local_ports_sel worker_database_def
    by (rule succeeds_bind [OF succeeds_catch]) (auto simp: succeeds_def split: prod.split)
qed

lemma reload_returns:
  "job_id k = job_id j \<Longrightarrow> succeeds (at_job j u obs c) (reload (local_ports sha images failures vis) k)
     (\<lambda>r w. r = j \<and> at_job j u obs c w)"
  by (simp add: succeeds_def reload_def worker_database_def local_ports_sel mem_jobs_get_def at_job_def bind_prog_def catch_prog_def)

lemma not_cancelled_returns:
  assumes "job_id k = job_id j" "job_state j \<noteq> CANCEL_REQUESTED"
  shows "succeeds (at_job j u obs c) (cancel_if_requested (local_ports sha images failures vis) k)
    (\<lambda>r w. r = None \<and> at_job j u obs c w)"
  using assms
  by (simp add: succeeds_def cancel_if_requested_def worker_database_def local_ports_sel mem_jobs_get_def at_job_def
      bind_prog_def catch_prog_def)

lemma put_returns:
  "succeeds (at_job j u obs c) (worker_storage (p_storage_put_bytes (local_ports sha images failures vis) key data ct))
     (\<lambda>r w. r = \<lparr>stored_object_key = key, stored_size_bytes = int (length data), stored_sha256 = sha data,
         stored_content_type = ct\<rparr> \<and> at_job j u (obs(key \<mapsto> (data, ct, sha data))) c w)"
  by (simp add: succeeds_def worker_storage_def local_ports_sel mem_put_bytes_def at_job_def catch_prog_def)

lemma get_returns:
  "obs key = Some (data, ct, digest) \<Longrightarrow>
   succeeds (at_job j u obs c) (worker_storage (p_storage_get_bytes (local_ports sha images failures vis) key))
     (\<lambda>r w. r = data \<and> at_job j u obs c w)"
  by (simp add: succeeds_def worker_storage_def local_ports_sel mem_get_bytes_def at_job_def catch_prog_def)

lemma stat_returns:
  "succeeds (at_job j u obs c) (stat_artifact (local_ports sha images failures vis) kind n key) (\<lambda>_. at_job j u obs c)"
  by (auto simp: succeeds_def stat_artifact_def worker_storage_def local_ports_sel mem_stat_def mem_get_bytes_def at_job_def
      catch_prog_def bind_prog_def split: option.split)

section \<open>One page\<close>

definition result_key :: "job \<Rightarrow> int \<Rightarrow> string" where
  "result_key j n = pages_prefix j @ fmt06d n @ ''.json''"

definition picture_key :: "job \<Rightarrow> int \<Rightarrow> string" where
  "picture_key j n = pages_prefix j @ fmt06d n @ ''.visualization.png''"

definition page_document :: "(bytes \<Rightarrow> string) \<Rightarrow> bytes option \<Rightarrow> string \<Rightarrow> int \<Rightarrow> bytes \<Rightarrow> string" where
  "page_document sha vis rid n img =
     dumps (result_payload (new_page n []) (fake_result sha vis img n rid))"

text \<open>The objects after a page was recognised.\<close>

definition page_objects :: "(bytes \<Rightarrow> string) \<Rightarrow> bytes option \<Rightarrow> job \<Rightarrow> int \<Rightarrow> bytes \<Rightarrow> objects \<Rightarrow> objects" where
  "page_objects sha vis j n img obs =
     (let obs' = (case vis of None \<Rightarrow> obs | Some v \<Rightarrow> obs(picture_key j n \<mapsto> (v, ''image/png'', sha v)));
          text = page_document sha vis (job_request_id j) n img
      in obs'(result_key j n \<mapsto> (text, ''application/json'', sha text)))"

text \<open>What the worker changes of a job while it runs: nothing of this.\<close>

definition same_run :: "job \<Rightarrow> job \<Rightarrow> bool" where
  "same_run j j' \<longleftrightarrow> job_id j' = job_id j \<and> job_upload_id j' = job_upload_id j \<and> job_attempt j' = job_attempt j \<and>
     job_request_id j' = job_request_id j"

lemma same_run_trans: "same_run a b \<Longrightarrow> same_run b c \<Longrightarrow> same_run a c"
  by (simp add: same_run_def)

lemma same_run_keys:
  "same_run j j' \<Longrightarrow> result_key j' n = result_key j n" "same_run j j' \<Longrightarrow> picture_key j' n = picture_key j n"
  "same_run j j' \<Longrightarrow> page_image_key j' n = page_image_key j n"
  "same_run j j' \<Longrightarrow> page_objects sha vis j' n img obs = page_objects sha vis j n img obs"
  by (simp_all add: same_run_def result_key_def picture_key_def pages_prefix_def page_image_key_def page_objects_def
      cong: option.case_cong)

definition recognised :: "nat \<Rightarrow> job \<Rightarrow> job \<Rightarrow> bool" where
  "recognised i j j' \<longleftrightarrow> same_run j j' \<and> job_state j' = RUNNING \<and>
     (\<exists>q. job_pages j' = (job_pages j)[i := q] \<and> page_state q = P_SUCCEEDED \<and>
        page_number q = page_number (job_pages j ! i) \<and>
        page_input_object_key q = page_input_object_key (job_pages j ! i) \<and>
        page_result_object_key q = Some (result_key j (page_number q)))"

lemma page_start_sel:
  assumes "page_state p \<noteq> P_SUCCEEDED"
  shows "page_number (page_start p) = page_number p" "page_input_object_key (page_start p) = page_input_object_key p"
    "page_processing_attempts (page_start p) = page_processing_attempts p + 1"
    "page_state (page_start p) = P_RUNNING"
  using assms by (simp_all add: page_start_def)

lemma written_page_sel [simp]:
  "job_id (set_page i p j) = job_id j" "job_upload_id (set_page i p j) = job_upload_id j"
  "job_state (set_page i p j) = job_state j" "job_attempt (set_page i p j) = job_attempt j"
  "job_request_id (set_page i p j) = job_request_id j" "job_pages (set_page i p j) = (job_pages j)[i := p]"
  "job_revision (set_page i p j) = job_revision j" "job_options (set_page i p j) = job_options j"
  by (simp_all add: set_page_def)

lemma metadata_sel [simp]:
  "job_id (apply_engine_metadata r j) = job_id j" "job_upload_id (apply_engine_metadata r j) = job_upload_id j"
  "job_state (apply_engine_metadata r j) = job_state j" "job_attempt (apply_engine_metadata r j) = job_attempt j"
  "job_request_id (apply_engine_metadata r j) = job_request_id j" "job_pages (apply_engine_metadata r j) = job_pages j"
  "job_revision (apply_engine_metadata r j) = job_revision j"
  by (simp_all add: apply_engine_metadata_def Let_def)

lemma list_get_nth: "i < length xs \<Longrightarrow> list_get xs i = Some (xs ! i)"
  by (simp add: list_get_def)

lemma put_visualization_returns:
  assumes "result_visualization r = vis" "result_visualization_content_type r = ''image/png''"
  shows "succeeds (at_job j u obs c) (put_visualization (local_ports sha images failures vis') j q r)
     (\<lambda>_. at_job j u (case vis of None \<Rightarrow> obs
        | Some v \<Rightarrow> obs(picture_key j (page_number q) \<mapsto> (v, ''image/png'', sha v))) c)"
proof (cases vis)
  case (Some v)
  have "visualization_extension ''image/png'' = ''png''" by (simp add: visualization_extension_def)
  then show ?thesis
    using assms Some
    unfolding put_visualization_def Let_def
    by simp (rule succeeds_step [OF put_returns], rule succeeds_ret, simp add: picture_key_def fun_upd_def)
qed (use assms in \<open>simp add: put_visualization_def succeeds_ret\<close>)

text \<open>The engine refuses the first \<open>failures\<close> calls and answers the others.\<close>

lemma engine_returns:
  "failures \<le> c \<Longrightarrow> succeeds (at_job j u obs c)
     (p_engine_recognize (local_ports sha images failures vis) img n opts rid)
     (\<lambda>r w. r = fake_result sha vis img n rid \<and> at_job j u obs (Suc c) w)"
  by (simp add: succeeds_def local_ports_sel fake_recognize_def Let_def at_job_def)

lemma page_try_returns:
  assumes engine: "failures \<le> c" and i: "i < length (job_pages j)" and state: "job_state j = RUNNING"
    and p: "p = job_pages j ! i"
  shows "succeeds (at_job j u obs c) (page_try (local_ports sha images failures vis) img i j p)
    (\<lambda>r w. recognised i j r \<and> at_job r u (page_objects sha vis j (page_number p) img obs) (Suc c) w)"
proof -
  let ?ps = "local_ports sha images failures vis"
  let ?r = "fake_result sha vis img (page_number p) (job_request_id j)"
  let ?obs = "case vis of None \<Rightarrow> obs | Some v \<Rightarrow> obs(picture_key j (page_number p) \<mapsto> (v, ''image/png'', sha v))"
  let ?text = "page_document sha vis (job_request_id j) (page_number p) img"
  let ?key = "result_key j (page_number p)"
  define stored where "stored = \<lparr>stored_object_key = ?key, stored_size_bytes = int (length ?text), stored_sha256 = sha ?text,
      stored_content_type = ''application/json''\<rparr>"
  have put: "succeeds (at_job j u ?obs (Suc c)) (put_page_result ?ps j p ?r)
      (\<lambda>s w. s = stored \<and> at_job j u (page_objects sha vis j (page_number p) img obs) (Suc c) w)"
    using put_returns [of j u ?obs "Suc c" sha images failures vis ?key ?text "''application/json''"]
    by (simp add: put_page_result_def stored_def result_key_def page_document_def page_objects_def Let_def result_payload_def
        new_page_def)
  have picture: "result_visualization ?r = vis" "result_visualization_content_type ?r = ''image/png''"
    by (simp_all add: fake_result_def Let_def)
  have finish: "succeeds (at_job j u (page_objects sha vis j (page_number p) img obs) (Suc c))
      (let latest2 = set_page i (page_with_result ?r stored v p) (apply_engine_metadata ?r j)
       in bind_prog (save_and_emit ?ps latest2 ''page.succeeded''
              [(''page_number'', JInt (page_number p)), (''completed_pages'', JInt (job_completed_pages latest2)),
               (''total_pages'', JInt (job_total_pages latest2))]) (\<lambda>latest3.
          if job_state latest3 = CANCEL_REQUESTED then cancel_and_save ?ps latest3 else ret latest3))
      (\<lambda>r w. recognised i j r \<and> at_job r u (page_objects sha vis j (page_number p) img obs) (Suc c) w)" for v
    unfolding Let_def
    by (rule succeeds_step [OF save_returns])
       (use i in \<open>auto simp: state recognised_def same_run_def page_with_result_def page_succeed_def stored_def p intro!: succeeds_ret\<close>)
  have step: "job_state j \<noteq> CANCEL_REQUESTED" "list_get (job_pages j) i = Some p"
    using state i p by (simp_all add: list_get_nth)
  show ?thesis
    unfolding page_try_def
  proof (rule succeeds_step [OF succeeds_local [OF engine_returns [OF engine]]],
      rule succeeds_step [OF succeeds_local [OF reload_returns [OF refl]]])
    show "succeeds (at_job j u obs (Suc c))
      (if job_state j = CANCEL_REQUESTED then at_local (True, p) (cancel_and_save ?ps j)
       else case list_get (job_pages j) i of None \<Rightarrow> raise_exc (IndexError, True, p)
         | Some q \<Rightarrow> let latest1 = apply_engine_metadata ?r j
             in at_local (False, q)
                 (bind_prog (put_visualization ?ps j q ?r) (\<lambda>v.
                  bind_prog (put_page_result ?ps j q ?r) (\<lambda>stored.
                  let latest2 = set_page i (page_with_result ?r stored v q) latest1
                  in bind_prog (save_and_emit ?ps latest2 ''page.succeeded''
                         [(''page_number'', JInt (page_number q)),
                          (''completed_pages'', JInt (job_completed_pages latest2)),
                          (''total_pages'', JInt (job_total_pages latest2))]) (\<lambda>latest3.
                     if job_state latest3 = CANCEL_REQUESTED then cancel_and_save ?ps latest3
                     else ret latest3)))))
      (\<lambda>r w. recognised i j r \<and> at_job r u (page_objects sha vis j (page_number p) img obs) (Suc c) w)"
      unfolding step(2) option.case if_not_P [OF step(1)] Let_def [where s = "apply_engine_metadata ?r j"]
      by (intro succeeds_local succeeds_skip [OF put_visualization_returns [OF picture]] succeeds_step [OF put] finish)
  qed
qed

text \<open>A call that the engine refuses leaves the page for another turn.\<close>

lemma page_try_refused:
  assumes "c < failures" and w: "at_job j u obs c w"
  shows "\<exists>w'. page_try (local_ports sha images failures vis) img i j p w =
    (Raised (EngineUnavailableError, True, p), w') \<and> at_job j u obs (Suc c) w'"
proof -
  obtain w' where "p_engine_recognize (local_ports sha images failures vis) img (page_number p) (job_options j) (job_request_id j) w
      = (Raised EngineUnavailableError, w')" "at_job j u obs (Suc c) w'"
    using assms by (simp add: local_ports_sel fake_recognize_def Let_def at_job_def)
  then show ?thesis
    unfolding page_try_def by (auto intro!: exI [of _ w'] simp: bind_Raised at_local_Raised)
qed

text \<open>
  The turns of a page: \<open>failures - c\<close> of them are refused, and when these and the attempts already made
  are within the retries of the configuration, the page is recognised.
\<close>

text \<open>A turn that the engine refused is followed by another one while the budget lasts.\<close>

definition noted :: "page \<Rightarrow> page" where
  "noted p = p\<lparr>page_internal_code := code_value (exn_internal_code EngineUnavailableError),
     page_error_reason := Some (exn_reason EngineUnavailableError)\<rparr>"

lemma retried_turn_returns:
  assumes budget: "int (page_processing_attempts p) < max_page_retries cfg + 1"
    and again: "succeeds (at_job (bump (set_page i (noted p) j)) u obs c)
      (again (bump (set_page i (noted p) j)) EngineUnavailableError) Q"
  shows "succeeds (at_job j u obs c)
    (turn_failed (local_ports sha images failures vis) cfg i j again (EngineUnavailableError, True, p)) Q"
proof -
  let ?ps = "local_ports sha images failures vis"
  obtain kvs t where "turn_failed ?ps cfg i j again (EngineUnavailableError, True, p) =
      bind_prog (save_and_emit ?ps (set_page i (noted p) j) ''page.retry_scheduled'' kvs) (\<lambda>j3.
      bind_prog (p_sleeper ?ps t) (\<lambda>_. again j3 EngineUnavailableError))"
    using budget by (auto simp: turn_failed_def Let_def noted_def)
  then show ?thesis
    by (simp only:) (rule succeeds_step [OF save_returns], simp, simp, simp, rule succeeds_skip [OF sleep_returns again])
qed

lemma page_loop_returns:
  assumes "i < length (job_pages j)" and "job_state j = RUNNING" and "page_state (job_pages j ! i) \<noteq> P_SUCCEEDED"
    and "int (page_processing_attempts (job_pages j ! i)) + int (failures - c) \<le> max_page_retries cfg"
    and "failures - c < fuel"
  shows "succeeds (at_job j u obs c) (page_loop (local_ports sha images failures vis) cfg img i fuel j last_error)
    (\<lambda>r w. \<exists>j' c'. r = Inr j' \<and> failures \<le> c' \<and> recognised i j j' \<and>
       at_job j' u (page_objects sha vis j (page_number (job_pages j ! i)) img obs) c' w)"
    (is "succeeds _ _ (?Q j)")
  using assms
proof (induction fuel arbitrary: j c last_error)
  case (Suc fuel)
  let ?ps = "local_ports sha images failures vis"
  let ?p = "job_pages j ! i"
  let ?p1 = "page_start ?p"
  let ?j1 = "bump (set_page i ?p1 j)"
  note p1 = page_start_sel [OF Suc.prems(3)]
  have skips: "job_state j \<noteq> CANCEL_REQUESTED" "list_get (job_pages j) i = Some ?p"
      "\<not> max_page_retries cfg + 1 \<le> int (page_processing_attempts ?p)"
    using Suc.prems by (simp_all add: list_get_nth)
  have again: "succeeds (at_job ?j1 u obs c)
      (catch_prog (bind_prog (page_try ?ps img i ?j1 ?p1) (\<lambda>j'. ret (Inr j')))
        (turn_failed ?ps cfg i ?j1 (\<lambda>j3 e. page_loop ?ps cfg img i fuel j3 (Some e)))) (?Q j)"
  proof (cases "failures \<le> c")
    case True
    have "succeeds (at_job ?j1 u obs c) (page_try ?ps img i ?j1 ?p1)
        (\<lambda>r w. recognised i ?j1 r \<and> at_job r u (page_objects sha vis ?j1 (page_number ?p1) img obs) (Suc c) w)"
      using Suc.prems by (intro page_try_returns [OF True]) simp_all
    moreover have "page_objects sha vis ?j1 (page_number ?p1) img obs = page_objects sha vis j (page_number ?p) img obs"
      using p1(1) same_run_keys(4) [of j ?j1] by (simp add: same_run_def)
    moreover have "recognised i j r" if "recognised i ?j1 r" for r
      using that p1 Suc.prems(1) by (auto simp: recognised_def same_run_def result_key_def pages_prefix_def)
    ultimately show ?thesis
      by (intro succeeds_catch, elim succeeds_bind) (rule succeeds_ret, use True in \<open>auto intro!: exI [of _ "Suc c"]\<close>)
  next
    case False
    define q where "q = noted ?p1"
    let ?j2 = "set_page i q ?j1"
    have q: "page_number q = page_number ?p" "page_input_object_key q = page_input_object_key ?p"
        "page_processing_attempts q = page_processing_attempts ?p + 1" "page_state q \<noteq> P_SUCCEEDED"
      using p1 by (simp_all add: q_def noted_def)
    have j2: "job_pages (bump ?j2) ! i = q" using Suc.prems(1) by simp
    have IH: "succeeds (at_job (bump ?j2) u obs (Suc c)) (page_loop ?ps cfg img i fuel (bump ?j2) (Some EngineUnavailableError))
        (?Q (bump ?j2))"
      using Suc.prems False by (intro Suc.IH) (simp_all add: q(3,4))
    have same: "same_run j (bump ?j2)" by (simp add: same_run_def)
    have weaker: "?Q j r w" if "?Q (bump ?j2) r w" for r w
      using that same_run_keys(1,4) [OF same] same_run_trans [OF same] Suc.prems(1) q(1,2) unfolding j2
      by (fastforce simp: recognised_def)
    have IH': "succeeds (at_job (bump ?j2) u obs (Suc c))
        (page_loop ?ps cfg img i fuel (bump ?j2) (Some EngineUnavailableError)) (?Q j)"
      using IH by (rule succeeds_weaken) (assumption, rule weaker)
    have handler: "succeeds (at_job ?j1 u obs (Suc c))
        (turn_failed ?ps cfg i ?j1 (\<lambda>j3 e. page_loop ?ps cfg img i fuel j3 (Some e)) (EngineUnavailableError, True, ?p1)) (?Q j)"
      by (rule retried_turn_returns) (use Suc.prems(4) False p1(3) IH' q_def in simp_all)
    have "c < failures" using False by simp
    have refused: "\<exists>w'. bind_prog (page_try ?ps img i ?j1 ?p1) (\<lambda>j'. ret (Inr j' :: (exn option \<times> job) + job)) w =
        (Raised (EngineUnavailableError, True, ?p1), w') \<and> at_job ?j1 u obs (Suc c) w'" if here: "at_job ?j1 u obs c w" for w
    proof -
      obtain w' where "page_try ?ps img i ?j1 ?p1 w = (Raised (EngineUnavailableError, True, ?p1), w')" "at_job ?j1 u obs (Suc c) w'"
        using page_try_refused [OF \<open>c < failures\<close> here] by blast
      then show ?thesis by (simp add: bind_Raised)
    qed
    show ?thesis
      by (rule succeeds_caught [where e = "(EngineUnavailableError, True, ?p1)" and R = "at_job ?j1 u obs (Suc c)"])
         (erule refused, rule handler)
  qed
  show ?case
    unfolding page_loop.simps
  proof (rule succeeds_step [OF reload_returns [OF refl]])
    show "succeeds (at_job j u obs c)
        (page_turn ?ps cfg img i last_error (\<lambda>j3 e. page_loop ?ps cfg img i fuel j3 (Some e)) j) (?Q j)"
      unfolding page_turn_def if_not_P [OF skips(1)] skips(2) option.case if_not_P [OF skips(3)] Let_def
      by (rule succeeds_step [OF save_returns], simp, simp, simp) (rule again)
  qed
qed simp

section \<open>All pages\<close>

lemma process_page_returns:
  assumes "i < length (job_pages j)" and "job_state j = RUNNING" and "page_state (job_pages j ! i) \<noteq> P_SUCCEEDED"
    and "int (page_processing_attempts (job_pages j ! i)) + int (failures - c) \<le> max_page_retries cfg"
    and "failures - c < fuel" and "obs (page_input_object_key (job_pages j ! i)) = Some (img, ct, d)"
  shows "succeeds (at_job j u obs c) (process_page (local_ports sha images failures vis) cfg fuel j i (job_pages j ! i))
    (\<lambda>j' w. \<exists>c'. failures \<le> c' \<and> recognised i j j' \<and>
       at_job j' u (page_objects sha vis j (page_number (job_pages j ! i)) img obs) c' w)"
  unfolding process_page_def
  by (rule succeeds_step [OF get_returns [where obs = obs, OF assms(6)]], rule succeeds_bind [OF page_loop_returns [OF assms(1-5)]])
     (auto simp: succeeds_def)

text \<open>The keys of an attempt: two objects share one only when they are the same object.\<close>

lemma key_ends: "last (result_key j n) = CHR ''n''" "last (picture_key j n) = CHR ''g''" "last (page_image_key j n) = CHR ''g''"
  by (simp_all add: result_key_def picture_key_def page_image_key_def)

lemma fmt06d_digits: "0 \<le> n \<Longrightarrow> list_all is_digit (fmt06d n)"
proof -
  have "is_digit (CHR ''0'')" by code_simp
  then show "0 \<le> n \<Longrightarrow> ?thesis" using str_nat_digits [of "nat n"]
    by (auto simp: fmt06d_def pad_zeros_def list_all_iff)
qed

lemma keys_apart:
  "result_key j n \<noteq> page_image_key j m" "result_key j n \<noteq> picture_key j m"
  "0 \<le> n \<Longrightarrow> 0 \<le> m \<Longrightarrow> page_image_key j n \<noteq> picture_key j m"
  "1 \<le> n \<Longrightarrow> 1 \<le> m \<Longrightarrow> result_key j n = result_key j m \<longleftrightarrow> n = m"
proof -
  have "last (result_key j n) \<noteq> last (page_image_key j m)" "last (result_key j n) \<noteq> last (picture_key j m)"
    by (simp_all add: key_ends)
  then show "result_key j n \<noteq> page_image_key j m" "result_key j n \<noteq> picture_key j m" by metis+
next
  assume n: "0 \<le> n"
  show "page_image_key j n \<noteq> picture_key j m"
  proof
    assume "page_image_key j n = picture_key j m"
    then have "fmt06d n = fmt06d m @ ''.visualization''"
      by (simp add: page_image_key_def picture_key_def pages_prefix_def)
    with fmt06d_digits [OF n] have "is_digit (CHR ''.'')" by simp
    then show False by (simp add: is_digit_def)
  qed
next
  assume n: "1 \<le> n" and m: "1 \<le> m"
  have "result_key j n = result_key j m \<Longrightarrow> page_image_key j n = page_image_key j m"
    by (simp add: result_key_def page_image_key_def)
  then show "result_key j n = result_key j m \<longleftrightarrow> n = m"
    using page_image_key_inject [OF n m] by auto
qed

text \<open>\<open>m\<close> pages of a running job are recognised; the rest is untouched, and every object is in its place.\<close>

definition page_ready :: "(bytes \<Rightarrow> string) \<Rightarrow> bytes option \<Rightarrow> job \<Rightarrow> bytes list \<Rightarrow> nat \<Rightarrow> page \<Rightarrow> objects \<Rightarrow> nat \<Rightarrow> bool" where
  "page_ready sha vis j images m p obs i \<longleftrightarrow>
     page_number p = int i + 1 \<and> page_input_object_key p = page_image_key j (int i + 1) \<and>
     (\<exists>d. obs (page_image_key j (int i + 1)) = Some (images ! i, ''image/png'', d)) \<and>
     (if i < m then
        page_state p = P_SUCCEEDED \<and> page_result_object_key p = Some (result_key j (int i + 1)) \<and>
        (\<exists>d. obs (result_key j (int i + 1)) =
           Some (page_document sha vis (job_request_id j) (int i + 1) (images ! i), ''application/json'', d))
      else page_state p = P_PENDING \<and> page_processing_attempts p = 0)"

definition progressed :: "(bytes \<Rightarrow> string) \<Rightarrow> bytes option \<Rightarrow> job \<Rightarrow> bytes list \<Rightarrow> nat \<Rightarrow> job \<Rightarrow> objects \<Rightarrow> bool" where
  "progressed sha vis j0 images m j obs \<longleftrightarrow>
     same_run j0 j \<and> length (job_pages j) = length images \<and>
     (\<forall>i < length images. page_ready sha vis j0 images m (job_pages j ! i) obs i)"

lemma page_objects_sel:
  assumes "1 \<le> n" "1 \<le> m"
  shows "page_objects sha vis j n img obs (page_image_key j m) = obs (page_image_key j m)"
    "page_objects sha vis j n img obs (result_key j m) =
      (if m = n then Some (page_document sha vis (job_request_id j) n img, ''application/json'',
         sha (page_document sha vis (job_request_id j) n img)) else obs (result_key j m))"
  using keys_apart(1,2) [of j] keys_apart(1,2) [of j, THEN not_sym] keys_apart(3,4) [of _ _ j] assms
  by (auto simp: page_objects_def Let_def split: option.split)

lemma progressed_step:
  assumes before: "progressed sha vis j0 images m j obs" and m: "m < length images" and page: "recognised m j j'"
  shows "progressed sha vis j0 images (Suc m) j' (page_objects sha vis j (int m + 1) (images ! m) obs)"
proof -
  obtain q where q: "job_pages j' = (job_pages j)[m := q]" "page_state q = P_SUCCEEDED"
      "page_number q = page_number (job_pages j ! m)" "page_input_object_key q = page_input_object_key (job_pages j ! m)"
      "page_result_object_key q = Some (result_key j (page_number q))" and same: "same_run j j'"
    using page by (auto simp: recognised_def)
  have run: "same_run j0 j" using before by (simp add: progressed_def)
  have ready: "page_ready sha vis j0 images m (job_pages j ! i) obs i" if "i < length images" for i
    using before that by (simp add: progressed_def)
  have objects: "page_objects sha vis j (int m + 1) (images ! m) obs = page_objects sha vis j0 (int m + 1) (images ! m) obs"
    by (rule same_run_keys(4) [OF run])
  have "page_ready sha vis j0 images (Suc m) (job_pages j' ! i) (page_objects sha vis j (int m + 1) (images ! m) obs) i"
    if i: "i < length images" for i
  proof (cases "i = m")
    case True
    have "job_pages j' ! i = q" using True m q(1) before by (simp add: progressed_def)
    then show ?thesis
      using ready [OF i] q(2-5) True unfolding objects page_ready_def
      by (simp add: page_objects_sel same_run_keys(1) [OF run])
  next
    case False
    have "job_pages j' ! i = job_pages j ! i" using False q(1) by simp
    then show ?thesis
      using ready [OF i] False unfolding objects page_ready_def
      by (auto simp: page_objects_sel split: if_splits)
  qed
  then show ?thesis
    using q(1) before same_run_trans [OF run same] by (simp add: progressed_def)
qed

lemma pages_loop_returns:
  assumes "progressed sha vis j0 images m j obs" and "job_state j = RUNNING" and "m + length rest = length images"
    and "map fst rest = [m..<length images]" and "\<forall>(i, p) \<in> set rest. page_state p \<noteq> P_SUCCEEDED"
    and "int (failures - c) \<le> max_page_retries cfg" and "failures - c < fuel"
  shows "succeeds (at_job j u obs c) (pages_loop (local_ports sha images failures vis) cfg fuel rest j)
    (\<lambda>r w. \<exists>j' obs' c'. r = Inr j' \<and> job_state j' = RUNNING \<and> progressed sha vis j0 images (length images) j' obs' \<and>
       at_job j' u obs' c' w)"
  using assms
proof (induction rest arbitrary: m j obs c)
  case Nil
  then show ?case by (auto simp: succeeds_def)
next
  case (Cons x rest)
  let ?ps = "local_ports sha images failures vis"
  obtain p where x: "x = (m, p)" and rest: "map fst rest = [Suc m..<length images]" and pending: "page_state p \<noteq> P_SUCCEEDED"
    using Cons.prems(3-5) by (cases x) (auto simp: upt_rec)
  have m: "m < length images" "m < length (job_pages j)" using Cons.prems(1,3) by (auto simp: progressed_def)
  have ready: "page_ready sha vis j0 images m (job_pages j ! m) obs m" using Cons.prems(1) m by (simp add: progressed_def)
  then have page: "page_state (job_pages j ! m) \<noteq> P_SUCCEEDED" "page_processing_attempts (job_pages j ! m) = 0"
      "page_number (job_pages j ! m) = int m + 1"
    by (simp_all add: page_ready_def)
  from ready obtain d where image: "obs (page_input_object_key (job_pages j ! m)) = Some (images ! m, ''image/png'', d)"
    by (auto simp: page_ready_def)
  have completed: "succeeds (at_job j u obs c) (process_page ?ps cfg fuel j m (job_pages j ! m))
      (\<lambda>j' w. \<exists>c'. failures \<le> c' \<and> recognised m j j' \<and>
         at_job j' u (page_objects sha vis j (int m + 1) (images ! m) obs) c' w)"
    using process_page_returns [where obs = obs, OF m(2) Cons.prems(2) page(1) _ Cons.prems(7) image] Cons.prems(6) page by simp
  have more: "succeeds (at_job j' u (page_objects sha vis j (int m + 1) (images ! m) obs) c')
      (if job_state j' \<in> {FAILED, CANCELLED} then ret (Inl j') else pages_loop ?ps cfg fuel rest j')
      (\<lambda>r w. \<exists>j' obs' c'. r = Inr j' \<and> job_state j' = RUNNING \<and> progressed sha vis j0 images (length images) j' obs' \<and>
        at_job j' u obs' c' w)" if c': "failures \<le> c'" and j': "recognised m j j'" for j' c'
  proof -
    have "job_state j' = RUNNING" using j' by (simp add: recognised_def)
    then show ?thesis
      using Cons.IH [OF progressed_step [OF Cons.prems(1) m(1) j'], of c'] Cons.prems(3,5-7) rest c' by simp
  qed
  show ?case
    unfolding x pages_loop.simps if_not_P [OF pending]
  proof (rule succeeds_step [OF succeeds_local [OF not_cancelled_returns [OF refl]]])
    show "job_state j \<noteq> CANCEL_REQUESTED" using Cons.prems(2) by simp
    show "succeeds (at_job j u obs c)
       (case None of Some j' \<Rightarrow> ret (Inl j')
        | None \<Rightarrow> bind_prog (at_local (Some j) (reload ?ps j)) (\<lambda>j1.
            case list_get (job_pages j1) m of None \<Rightarrow> raise_exc (IndexError, Some j1)
            | Some q \<Rightarrow> bind_prog (at_local (Some j1) (process_page ?ps cfg fuel j1 m q)) (\<lambda>completed.
                if job_state completed \<in> {FAILED, CANCELLED} then ret (Inl completed)
                else pages_loop ?ps cfg fuel rest completed)))
       (\<lambda>r w. \<exists>j' obs' c'. r = Inr j' \<and> job_state j' = RUNNING \<and> progressed sha vis j0 images (length images) j' obs' \<and>
         at_job j' u obs' c' w)"
      unfolding option.case
    proof (rule succeeds_step [OF succeeds_local [OF reload_returns [OF refl]]])
      show "succeeds (at_job j u obs c)
        (case list_get (job_pages j) m of None \<Rightarrow> raise_exc (IndexError, Some j)
            | Some q \<Rightarrow> bind_prog (at_local (Some j) (process_page ?ps cfg fuel j m q)) (\<lambda>completed.
                if job_state completed \<in> {FAILED, CANCELLED} then ret (Inl completed)
                else pages_loop ?ps cfg fuel rest completed))
        (\<lambda>r w. \<exists>j' obs' c'. r = Inr j' \<and> job_state j' = RUNNING \<and> progressed sha vis j0 images (length images) j' obs' \<and>
          at_job j' u obs' c' w)"
        unfolding list_get_nth [OF m(2)] option.case
        by (rule succeeds_bind [OF succeeds_local [OF completed]], rule succeeds_some, rule succeeds_given, rule succeeds_given)
           (rule more)
    qed
  qed
qed

end
