(* ===== verification/Worker_Delivers.thy ===== *)
theory Worker_Delivers
  imports Worker_Success
begin

text \<open>
  From the message to the document: preparing the pages, assembling the artifacts, and the commit of a job
  that nobody disturbs.
\<close>

section \<open>Preparing\<close>

definition prepared_of :: "job \<Rightarrow> nat \<times> bytes \<Rightarrow> prepared_page" where
  "prepared_of j x = \<lparr>prepared_page_number = int (fst x), prepared_object_key = page_image_key j (int (fst x))\<rparr>"

definition prepare_one :: "(bytes \<Rightarrow> string) \<Rightarrow> job \<Rightarrow> nat \<times> bytes \<Rightarrow> prepared_page mop" where
  "prepare_one sha j x =
     bind_prog (mem_put_bytes sha (page_image_key j (int (fst x))) (snd x) ''image/png'') (\<lambda>_. ret (prepared_of j x))"

lemma static_prepare_steps: "static_prepare sha images u j = map_prog (prepare_one sha j) (enumerate 1 images)"
  unfolding static_prepare_def
  by (rule arg_cong [of _ _ "\<lambda>f. map_prog f (enumerate 1 images)"])
     (auto simp: prepare_one_def prepared_of_def Let_def fun_eq_iff)

text \<open>Every image is in its place, and nothing else has changed.\<close>

definition images_put :: "(bytes \<Rightarrow> string) \<Rightarrow> job \<Rightarrow> (nat \<times> bytes) list \<Rightarrow> objects \<Rightarrow> objects \<Rightarrow> bool" where
  "images_put sha j xs obs obs' \<longleftrightarrow>
     (\<forall>x \<in> set xs. obs' (page_image_key j (int (fst x))) = Some (snd x, ''image/png'', sha (snd x))) \<and>
     (\<forall>key. key \<notin> (\<lambda>x. page_image_key j (int (fst x))) ` set xs \<longrightarrow> obs' key = obs key)"

lemma prepare_returns:
  assumes "distinct (map fst xs)" and "\<forall>x \<in> set xs. 1 \<le> fst x"
  shows "succeeds (at_job k u obs c) (map_prog (prepare_one sha j) xs)
    (\<lambda>r w. \<exists>obs'. r = map (prepared_of j) xs \<and> images_put sha j xs obs obs' \<and> at_job k u obs' c w)"
  using assms
proof (induction xs arbitrary: obs)
  case Nil
  show ?case by (auto simp: succeeds_def images_put_def)
next
  case (Cons x xs)
  let ?key = "page_image_key j (int (fst x))"
  let ?obs = "obs(?key \<mapsto> (snd x, ''image/png'', sha (snd x)))"
  have fresh: "?key \<notin> (\<lambda>x. page_image_key j (int (fst x))) ` set xs"
  proof
    assume "?key \<in> (\<lambda>x. page_image_key j (int (fst x))) ` set xs"
    then obtain y where y: "y \<in> set xs" "?key = page_image_key j (int (fst y))" by auto
    then have "int (fst x) = int (fst y)"
      using Cons.prems(2) by (intro page_image_key_inject [of _ _ j]) auto
    with y(1) Cons.prems(1) show False by auto
  qed
  have put: "succeeds (at_job k u obs c) (prepare_one sha j x) (\<lambda>r w. r = prepared_of j x \<and> at_job k u ?obs c w)"
    by (simp add: succeeds_def prepare_one_def mem_put_bytes_def at_job_def bind_prog_def)
  have all: "images_put sha j (x # xs) obs obs'" if "images_put sha j xs ?obs obs'" for obs'
    using that fresh by (auto simp: images_put_def)
  have rest: "succeeds (at_job k u ?obs c) (map_prog (prepare_one sha j) xs)
    (\<lambda>r w. \<exists>obs'. r = map (prepared_of j) xs \<and> images_put sha j xs ?obs obs' \<and> at_job k u obs' c w)"
    using Cons.prems by (intro Cons.IH) auto
  show ?case
    unfolding map_prog.simps
    by (rule succeeds_step [OF put], rule succeeds_bind [OF rest], rule succeeds_ret) (auto intro: all)
qed

lemma enumerate_pages:
  "map fst (enumerate 1 images) = [Suc 0..<Suc (length images)]" "x \<in> set (enumerate 1 images) \<Longrightarrow> 1 \<le> fst x"
  "i < length images \<Longrightarrow> enumerate 1 images ! i = (i + 1, images ! i)"
proof -
  show numbers: "map fst (enumerate 1 images) = [Suc 0..<Suc (length images)]"
    by (simp add: enumerate_eq_zip del: upt_Suc)
  show "1 \<le> fst x" if "x \<in> set (enumerate 1 images)"
    using that by (simp add: in_set_enumerate_eq)
qed (simp add: nth_enumerate_eq)

lemma sorted_numbers: "sorted (map int [a..<b])"
  by (induction b) (auto simp: sorted_append)

lemma prepared_pages_of:
  "prepared_to_pages (map (prepared_of j) (enumerate 1 images)) =
     map (\<lambda>x. new_page (int (fst x)) (page_image_key j (int (fst x)))) (enumerate 1 images)"
proof -
  have "map prepared_page_number (map (prepared_of j) (enumerate 1 images)) = map int (map fst (enumerate 1 images))"
    by (simp only: map_map o_def prepared_of_def prepared_page.simps)
  also have "\<dots> = map int [Suc 0..<Suc (length images)]" by (simp only: enumerate_pages(1))
  finally have "sorted (map prepared_page_number (map (prepared_of j) (enumerate 1 images)))"
    by (simp only: sorted_numbers)
  then show ?thesis
    by (simp add: prepared_to_pages_def sort_key_id_if_sorted) (simp add: prepared_of_def)
qed

text \<open>Every save is \<open>at_local\<close> of a job; what the steps of \<open>process_job\<close> do to it.\<close>

lemma start_job_returns:
  assumes "job_state j \<in> {QUEUED, RETRYING}"
  shows "succeeds (at_job j u obs c) (start_job (local_ports sha images failures vis) j)
    (\<lambda>r w. same_run j r \<and> job_state r = PREPROCESSING \<and> job_pages r = job_pages j \<and> at_job r u obs c w)"
  unfolding start_job_def if_P [OF assms]
proof (rule succeeds_skip [OF succeeds_local [OF clock_returns]], rule succeeds_skip [OF succeeds_local [OF clock_returns]])
  fix t1 t2
  obtain j1 where j1: "job_begin_preprocessing t1 t2 j = Inr j1" "same_run j j1" "job_state j1 = PREPROCESSING"
      "job_pages j1 = job_pages j" "job_revision j1 = job_revision j"
    using assms by (auto simp: job_begin_preprocessing_def job_transition_def same_run_def)
  show "succeeds (at_job j u obs c)
      (bind_prog (at_local (Some j) (lift_sum (job_begin_preprocessing t1 t2 j))) (\<lambda>j1.
        at_local (Some j1) (save_and_emit (local_ports sha images failures vis) j1 ''job.preprocessing'' [])))
      (\<lambda>r w. same_run j r \<and> job_state r = PREPROCESSING \<and> job_pages r = job_pages j \<and> at_job r u obs c w)"
    unfolding j1(1) lift_sum_simps at_local_ret bind_ret
    by (rule succeeds_weaken [OF succeeds_local [OF save_returns]]) (use j1 in \<open>auto simp: same_run_def\<close>)
qed

definition fresh_pages :: "job \<Rightarrow> bytes list \<Rightarrow> page list" where
  "fresh_pages j images = map (\<lambda>x. new_page (int (fst x)) (page_image_key j (int (fst x)))) (enumerate 1 images)"

lemma prepare_pages_returns:
  assumes "job_state j = PREPROCESSING" "job_pages j = []" "images \<noteq> []"
  shows "succeeds (at_job j u obs c) (prepare_pages (local_ports sha images failures vis) u j)
    (\<lambda>r w. \<exists>obs'. same_run j r \<and> job_state r = PREPROCESSING \<and> job_pages r = fresh_pages j images \<and>
       images_put sha j (enumerate 1 images) obs obs' \<and> at_job r u obs' c w)"
proof -
  let ?ps = "local_ports sha images failures vis"
  let ?prepared = "map (prepared_of j) (enumerate 1 images)"
  have pages: "prepared_to_pages ?prepared = fresh_pages j images"
    unfolding prepared_pages_of fresh_pages_def by (rule refl)
  have "fresh_pages j images \<noteq> []" using assms(3) by (cases images) (simp_all add: fresh_pages_def)
  then have set: "job_set_pages now (fresh_pages j images) j = Inr (j\<lparr>job_pages := fresh_pages j images, job_updated_at := now\<rparr>)" for now
    using assms(1) by (simp add: job_set_pages_def)
  have prepare: "succeeds (at_job j u obs c) (p_preprocessor_prepare ?ps u j)
      (\<lambda>r w. \<exists>obs'. r = ?prepared \<and> images_put sha j (enumerate 1 images) obs obs' \<and> at_job j u obs' c w)"
    unfolding local_ports_sel static_prepare_steps
    by (rule prepare_returns) (simp del: upt_Suc, use enumerate_pages(2) in blast)
  have save: "succeeds (at_job j u obs' c)
      (bind_prog (at_local (Some j) (p_utc_now ?ps)) (\<lambda>now.
       bind_prog (at_local (Some j) (lift_sum (job_set_pages now (fresh_pages j images) j))) (\<lambda>j1.
       at_local (Some j1) (save_and_emit ?ps j1 ''job.pages_prepared'' [(''total_pages'', JInt (job_total_pages j1))]))))
      (\<lambda>r w. \<exists>obs'. same_run j r \<and> job_state r = PREPROCESSING \<and> job_pages r = fresh_pages j images \<and>
         images_put sha j (enumerate 1 images) obs obs' \<and> at_job r u obs' c w)"
    if "images_put sha j (enumerate 1 images) obs obs'" for obs'
  proof (rule succeeds_skip [OF succeeds_local [OF clock_returns]])
    fix now
    show "succeeds (at_job j u obs' c)
        (bind_prog (at_local (Some j) (lift_sum (job_set_pages now (fresh_pages j images) j))) (\<lambda>j1.
         at_local (Some j1) (save_and_emit ?ps j1 ''job.pages_prepared'' [(''total_pages'', JInt (job_total_pages j1))])))
        (\<lambda>r w. \<exists>obs'. same_run j r \<and> job_state r = PREPROCESSING \<and> job_pages r = fresh_pages j images \<and>
           images_put sha j (enumerate 1 images) obs obs' \<and> at_job r u obs' c w)"
      unfolding set lift_sum_simps at_local_ret bind_ret
      by (rule succeeds_weaken [OF succeeds_local [OF save_returns]]) (use that assms in \<open>auto simp: same_run_def\<close>)
  qed
  have "\<not> job_state j \<noteq> PREPROCESSING" using assms(1) by simp
  then show ?thesis
    unfolding prepare_pages_def if_P [OF assms(2)]
    by (simp only: if_False simp_thms, intro succeeds_bind [OF succeeds_local [OF prepare]] succeeds_some succeeds_given)
       (hypsubst, unfold pages, erule save)
qed

lemma fresh_progress:
  assumes "images_put sha j (enumerate 1 images) obs obs'" "job_pages r = fresh_pages j images" "same_run j r"
  shows "progressed sha vis j images 0 r obs'"
proof -
  have "page_ready sha vis j images 0 (job_pages r ! i) obs' i" if i: "i < length images" for i
  proof -
    have member: "(i + 1, images ! i) \<in> set (enumerate 1 images)"
      using i enumerate_pages(3) [OF i] by (metis length_enumerate nth_mem)
    have "\<forall>x \<in> set (enumerate 1 images). obs' (page_image_key j (int (fst x))) = Some (snd x, ''image/png'', sha (snd x))"
      using assms(1) by (simp add: images_put_def)
    from bspec [OF this member] have "obs' (page_image_key j (int i + 1)) = Some (images ! i, ''image/png'', sha (images ! i))"
      by (simp add: add.commute)
    moreover have "job_pages r ! i = new_page (int i + 1) (page_image_key j (int i + 1))"
      using i enumerate_pages(3) [OF i] assms(2) by (simp add: fresh_pages_def add.commute)
    ultimately show ?thesis by (simp add: page_ready_def new_page_def)
  qed
  then show ?thesis using assms(2,3) by (simp add: progressed_def fresh_pages_def)
qed

section \<open>Assembling\<close>

text \<open>The text that the fake engine reads on a page, and the document.\<close>

definition page_text :: "(bytes \<Rightarrow> string) \<Rightarrow> int \<Rightarrow> bytes \<Rightarrow> string" where
  "page_text sha n img = ''## Page '' @ str_int n @ [CHR 0x0A, CHR 0x0A] @ ''Fake OCR '' @ take 12 (sha img)"

definition document_text :: "(bytes \<Rightarrow> string) \<Rightarrow> bytes list \<Rightarrow> string" where
  "document_text sha images =
     join_with [CHR 0x0A, CHR 0x0A] (map (\<lambda>i. page_text sha (int i + 1) (images ! i)) [0..<length images])"

definition document_key :: "job \<Rightarrow> string" where
  "document_key j = ''jobs/'' @ uuid_str (job_id j) @ ''/attempts/'' @ str_int (job_attempt j) @ ''/document.md''"

definition document_object :: "(bytes \<Rightarrow> string) \<Rightarrow> job \<Rightarrow> bytes list \<Rightarrow> stored_object" where
  "document_object sha j images =
     \<lparr>stored_object_key = document_key j, stored_size_bytes = int (length (document_text sha images)),
      stored_sha256 = sha (document_text sha images), stored_content_type = ''text/markdown; charset=utf-8''\<rparr>"

lemma succeeds_map:
  assumes "\<And>x. x \<in> set xs \<Longrightarrow> succeeds P (f x) (\<lambda>r w. G x r \<and> P w)"
  shows "succeeds P (map_prog f xs) (\<lambda>rs w. list_all2 G xs rs \<and> P w)"
  using assms
proof (induction xs)
  case (Cons x xs)
  have "succeeds P (map_prog f xs) (\<lambda>rs w. list_all2 G xs rs \<and> P w)" using Cons by simp
  then show ?case
    unfolding map_prog.simps
    by (intro succeeds_bind [OF Cons.prems] succeeds_given succeeds_bind [of P "map_prog f xs"])
       (auto simp: succeeds_def)
qed (simp add: succeeds_def)

lemma document_ok: "json_ok (result_payload p (fake_result sha vis img n rid))"
proof -
  have "num_text ''1.0''" by code_simp
  then show ?thesis by (simp add: result_payload_def fake_result_def Let_def)
qed

lemma load_returns:
  assumes "page_ready sha vis j0 images m p obs i" "i < m"
  shows "succeeds (at_job j u obs c) (load_page_result (local_ports sha images failures vis) p)
    (\<lambda>r w. pr_markdown r = page_text sha (int i + 1) (images ! i) \<and> at_job j u obs c w)"
proof -
  let ?r = "fake_result sha vis (images ! i) (int i + 1) (job_request_id j0)"
  obtain d where key: "page_result_object_key p = Some (result_key j0 (int i + 1))"
      "obs (result_key j0 (int i + 1)) =
         Some (page_document sha vis (job_request_id j0) (int i + 1) (images ! i), ''application/json'', d)"
    using assms by (auto simp: page_ready_def)
  have loads: "loads (page_document sha vis (job_request_id j0) (int i + 1) (images ! i)) =
      Some (result_payload (new_page (int i + 1) []) ?r)"
    unfolding page_document_def by (rule loads_dumps [OF document_ok])
  have decoded: "\<exists>x. decoded_page_result (result_payload (new_page (int i + 1) []) ?r) = Some x \<and>
      pr_markdown x = page_text sha (int i + 1) (images ! i)"
    by (simp add: decoded_page_result_def result_payload_def fake_result_def page_text_def Let_def)
  have "result_key j0 (int i + 1) \<noteq> []" by (simp add: result_key_def pages_prefix_def)
  then show ?thesis
    unfolding load_page_result_def key(1) option.case
    by (simp, intro succeeds_step [OF get_returns [where obs = obs, OF key(2)]])
       (use decoded in \<open>auto simp: loads intro!: succeeds_ret\<close>)
qed

lemma page_artifacts_returns:
  "succeeds (at_job j u obs c) (page_artifacts (local_ports sha images failures vis) p) (\<lambda>_. at_job j u obs c)"
  unfolding page_artifacts_def
  by (rule succeeds_skip [OF stat_returns], rule succeeds_skip [where R = "at_job j u obs c"])
     (auto simp: succeeds_ret intro: stat_returns split: option.split)

text \<open>An object is in the store, whatever else is.\<close>

definition has_object :: "string \<Rightarrow> bytes \<times> string \<times> string \<Rightarrow> job \<Rightarrow> upload \<Rightarrow> nat \<Rightarrow> mem \<Rightarrow> bool" where
  "has_object key entry j u c w \<longleftrightarrow> (\<exists>obs. obs key = Some entry \<and> at_job j u obs c w)"

lemma has_objectI: "at_job j u obs c w \<Longrightarrow> obs key = Some entry \<Longrightarrow> has_object key entry j u c w"
  by (auto simp: has_object_def)

lemma has_object_keeps:
  assumes "\<And>obs. succeeds (at_job j u obs c) m (\<lambda>_. at_job j u obs c)"
  shows "succeeds (has_object key entry j u c) m (\<lambda>_. has_object key entry j u c)"
  using assms unfolding succeeds_def has_object_def by meson

lemma has_object_put:
  assumes "key' \<noteq> key"
  shows "succeeds (has_object key entry j u c)
    (worker_storage (p_storage_put_bytes (local_ports sha images failures vis) key' data ct)) (\<lambda>_. has_object key entry j u c)"
proof (rule succeedsI)
  fix w
  assume "has_object key entry j u c w"
  then obtain obs where obs: "obs key = Some entry" "at_job j u obs c w" by (auto simp: has_object_def)
  obtain r w' where run: "worker_storage (p_storage_put_bytes (local_ports sha images failures vis) key' data ct) w = (Done r, w')"
      "at_job j u (obs(key' \<mapsto> (data, ct, sha data))) c w'"
    using succeedsD [OF put_returns obs(2)] by blast
  from run(2) have "has_object key entry j u c w'" by (rule has_objectI) (use assms obs(1) in simp)
  with run(1) show "\<exists>r w'. worker_storage (p_storage_put_bytes (local_ports sha images failures vis) key' data ct) w = (Done r, w') \<and>
      has_object key entry j u c w'" by blast
qed

lemma assemble_returns:
  assumes progress: "progressed sha vis j0 images (length images) j obs"
  shows "succeeds (at_job j u obs c) (assemble (local_ports sha images failures vis) j u)
    (\<lambda>r w. stored_artifact MARKDOWN (document_object sha j images) \<in> set r \<and>
       has_object (document_key j) (document_text sha images, ''text/markdown; charset=utf-8'',
         sha (document_text sha images)) j u c w)"
proof -
  let ?ps = "local_ports sha images failures vis"
  let ?text = "\<lambda>i. page_text sha (int i + 1) (images ! i)"
  have len: "length (job_pages j) = length images" using progress by (simp add: progressed_def)
  have ready: "page_ready sha vis j0 images (length images) (job_pages j ! i) obs i" if "i < length images" for i
    using progress that by (simp add: progressed_def)
  have "succeeds (at_job j u obs c) (load_page_result ?ps p)
      (\<lambda>r w. pr_markdown r = ?text (nat (page_number p - 1)) \<and> at_job j u obs c w)" if member: "p \<in> set (job_pages j)" for p
  proof -
    obtain i where i: "i < length images" "p = job_pages j ! i" using member len by (auto simp: in_set_conv_nth)
    have "nat (page_number p - 1) = i" using ready [OF i(1)] i(2) by (simp add: page_ready_def)
    with load_returns [OF ready [OF i(1)] i(1), of j u c failures] i(2) show ?thesis by simp
  qed
  then have load: "succeeds (at_job j u obs c) (map_prog (load_page_result ?ps) (job_pages j))
      (\<lambda>rs w. list_all2 (\<lambda>p r. pr_markdown r = ?text (nat (page_number p - 1))) (job_pages j) rs \<and> at_job j u obs c w)"
    by (rule succeeds_map)
  have texts: "map pr_markdown rs = map ?text [0..<length images]"
    if rs: "list_all2 (\<lambda>p r. pr_markdown r = ?text (nat (page_number p - 1))) (job_pages j) rs" for rs :: "page_result list"
  proof (rule nth_equalityI)
    show lengths: "length (map pr_markdown rs) = length (map ?text [0..<length images])"
      using rs len by (simp add: list_all2_lengthD)
    fix i
    assume "i < length (map pr_markdown rs)"
    then have i: "i < length images" "i < length rs" using lengths by simp_all
    have "page_number (job_pages j ! i) = int i + 1" using ready [OF i(1)] by (simp add: page_ready_def)
    then show "map pr_markdown rs ! i = map ?text [0..<length images] ! i"
      using list_all2_nthD2 [OF rs i(2)] i by simp
  qed
  let ?stored = "\<lambda>w. has_object (document_key j) (document_text sha images, ''text/markdown; charset=utf-8'',
      sha (document_text sha images)) j u c w"
  have artifacts: "succeeds ?stored (map_prog (page_artifacts ?ps) (job_pages j)) (\<lambda>_. ?stored)"
    using succeeds_map [of "job_pages j" ?stored "page_artifacts ?ps" "\<lambda>_ _. True"]
      has_object_keeps [OF page_artifacts_returns] by (auto simp: succeeds_def)
  have put: "succeeds ?stored (worker_storage (p_storage_put_bytes ?ps (''jobs/'' @ uuid_str (job_id j) @ ''/attempts/'' @
      str_int (job_attempt j) @ name) data ct)) (\<lambda>_. ?stored)" if "name \<noteq> ''/document.md''" for name data ct
    by (rule has_object_put) (use that in \<open>simp add: document_key_def\<close>)
  have document: "succeeds (at_job j u obs c) (worker_storage (p_storage_put_bytes ?ps (document_key j)
      (document_text sha images) ''text/markdown; charset=utf-8'')) (\<lambda>r w. r = document_object sha j images \<and> ?stored w)"
    by (rule succeeds_weaken [OF put_returns])
       (assumption, elim conjE, rule conjI, simp add: document_object_def, erule has_objectI, simp)
  have key: "(''jobs/'' @ uuid_str (job_id j) @ ''/attempts/'' @ str_int (job_attempt j)) @ name =
      ''jobs/'' @ uuid_str (job_id j) @ ''/attempts/'' @ str_int (job_attempt j) @ name" for name
    by simp
  show ?thesis
    unfolding assemble_def Let_def key
  proof (rule succeeds_bind [OF load], rule succeeds_given)
    fix rs :: "page_result list"
    assume "list_all2 (\<lambda>p r. pr_markdown r = ?text (nat (page_number p - 1))) (job_pages j) rs"
    note joined = texts [OF this]
    show "succeeds (at_job j u obs c)
        (bind_prog (worker_storage (p_storage_put_bytes ?ps
            (''jobs/'' @ uuid_str (job_id j) @ ''/attempts/'' @ str_int (job_attempt j) @ ''/document.md'')
            (join_with [CHR 0x0A, CHR 0x0A] (map pr_markdown rs)) ''text/markdown; charset=utf-8''))
          (\<lambda>markdown_object. bind_prog (worker_storage (p_storage_put_bytes ?ps
             (''jobs/'' @ uuid_str (job_id j) @ ''/attempts/'' @ str_int (job_attempt j) @ ''/document.json'')
             (dumps (structured_document j rs)) ''application/json''))
           (\<lambda>json_object. bind_prog (map_prog (page_artifacts ?ps) (job_pages j))
            (\<lambda>per_page. bind_prog (p_utc_now ?ps)
             (\<lambda>now. bind_prog (worker_storage (p_storage_put_bytes ?ps
               (''jobs/'' @ uuid_str (job_id j) @ ''/attempts/'' @ str_int (job_attempt j) @ ''/manifest.json'')
               (dumps (manifest_document now j u rs ([stored_artifact MARKDOWN markdown_object,
                  stored_artifact STRUCTURED_JSON json_object] @ concat per_page))) ''application/json''))
              (\<lambda>manifest_object. ret (([stored_artifact MARKDOWN markdown_object,
                  stored_artifact STRUCTURED_JSON json_object] @ concat per_page) @
                  [stored_artifact MANIFEST manifest_object])))))))
        (\<lambda>r w. stored_artifact MARKDOWN (document_object sha j images) \<in> set r \<and> ?stored w)"
      unfolding joined document_text_def [symmetric] document_key_def [symmetric]
      by (rule succeeds_step [OF document], rule succeeds_skip [OF put [of "''/document.json''"]], simp,
          rule succeeds_skip [OF artifacts], rule succeeds_skip [OF has_object_keeps [OF clock_returns]],
          rule succeeds_skip [OF put [of "''/manifest.json''"]], simp, rule succeeds_ret, simp)
  qed
qed

section \<open>One message\<close>

lemma has_object_step:
  assumes "\<And>obs. succeeds (at_job j u obs c) m (\<lambda>r w. r = x \<and> at_job j' u obs c w)"
  shows "succeeds (has_object key entry j u c) m (\<lambda>r w. r = x \<and> has_object key entry j' u c w)"
  using assms unfolding succeeds_def has_object_def by meson

text \<open>An event of the attempt is in the log of the job.\<close>

definition announced :: "uuid \<Rightarrow> string \<Rightarrow> int \<Rightarrow> mem \<Rightarrow> bool" where
  "announced jid ty attempt w \<longleftrightarrow>
     (\<exists>ev \<in> set (events_of w jid). ev_event_type ev = ty \<and> event_attempt ev = Some (JInt attempt))"

lemma append_announces:
  "mem_events_append (make_job_event now j ty kvs) w = (Done ev', w') \<Longrightarrow> announced (job_id j) ty (job_attempt j) w'"
  by (auto simp: mem_events_append_def Let_def announced_def events_of_def find_terminal_def find_Some_iff make_job_event_def
      event_attempt_def event_with_sequence_def split: option.splits if_splits dest!: nth_mem)

lemma save_announces:
  assumes "save_and_emit (local_ports sha images failures vis) j ty kvs w = (Done j', w')"
  shows "announced (job_id j) ty (job_attempt j) w'"
proof -
  obtain now ev w1 where "mem_jobs_save_with_event j (make_job_event now j ty kvs) w1 = (Done (ev, j'), w')"
    using assms
    by (auto simp: save_and_emit_def worker_database_def local_ports_sel catch_prog_def elim!: bind_prog_cases
        split: prod.splits outcome.splits if_splits)
  then show ?thesis
    by (auto simp: mem_jobs_save_with_event_def Let_def split: if_splits option.splits prod.splits outcome.splits
        intro: append_announces)
qed

lemma save_both:
  assumes "job_id j' = job_id j" "job_revision j' = job_revision j" "job_upload_id j' = job_upload_id j"
  shows "succeeds (has_object key entry j u c) (save_and_emit (local_ports sha images failures vis) j' ty kvs)
    (\<lambda>r w. r = bump j' \<and> has_object key entry (bump j') u c w \<and> announced (job_id j') ty (job_attempt j') w)"
  using has_object_step [OF save_returns [OF assms], of key entry u c sha images failures vis ty kvs]
  by (fastforce simp: succeeds_def intro: save_announces)

text \<open>What the commit leaves: the finished job, the document in the store, the announcement.\<close>

definition committed ::
    "(bytes \<Rightarrow> string) \<Rightarrow> bytes list \<Rightarrow> job \<Rightarrow> upload \<Rightarrow> nat \<Rightarrow> job option \<Rightarrow> mem \<Rightarrow> bool" where
  "committed sha images j u c r w \<longleftrightarrow> (\<exists>j'. r = Some j' \<and> job_state j' = SUCCEEDED \<and> same_run j j' \<and>
     job_pages j' = job_pages j \<and> stored_artifact MARKDOWN (document_object sha j images) \<in> set (job_artifacts j') \<and>
     has_object (document_key j) (document_text sha images, ''text/markdown; charset=utf-8'', sha (document_text sha images)) j' u c w \<and>
     announced (job_id j) ''job.succeeded'' (job_attempt j) w)"

lemma finish_returns:
  fixes sha images failures vis j u c
  defines "ps \<equiv> local_ports sha images failures vis"
    and "stored \<equiv> has_object (document_key j)
      (document_text sha images, ''text/markdown; charset=utf-8'', sha (document_text sha images))"
  assumes j2: "job_succeed t1 t2 artifacts j = Inr j2"
    and artifacts: "stored_artifact MARKDOWN (document_object sha j images) \<in> set artifacts"
  shows "succeeds (stored j u c)
      (bind_prog (at_local (Some j2) (save_and_emit ps j2 ''job.succeeded'' [(''artifact_count'', JInt (int (length artifacts)))])) (\<lambda>j3.
         if True then
           bind_prog (at_local (Some j3) (p_logger_info ps ''ocr_job_succeeded''
             [(''job_id'', JStr (uuid_str (job_id j3))), (''attempt'', JInt (job_attempt j3)),
              (''request_id'', JStr (job_request_id j3)), (''total_pages'', JInt (job_total_pages j3))])) (\<lambda>_. ret (Some j3))
         else ret (Some j3)))
      (committed sha images j u c)"
proof -
  have j2': "job_state j2 = SUCCEEDED" "same_run j j2" "job_pages j2 = job_pages j" "job_artifacts j2 = artifacts"
      "job_revision j2 = job_revision j"
    using j2 by (auto simp: job_succeed_def job_transition_def same_run_def split: if_splits)
  have log: "succeeds (\<lambda>w. stored (bump j2) u c w \<and> announced (job_id j) ''job.succeeded'' (job_attempt j) w)
      (p_logger_info ps e kvs) (\<lambda>_ w. stored (bump j2) u c w \<and> announced (job_id j) ''job.succeeded'' (job_attempt j) w)" for e kvs
    by (simp add: succeeds_def ps_def stored_def local_ports_sel mem_log_def has_object_def at_job_def announced_def events_of_def)
  have save: "succeeds (stored j u c)
      (save_and_emit ps j2 ''job.succeeded'' [(''artifact_count'', JInt (int (length artifacts)))])
      (\<lambda>r w. r = bump j2 \<and> stored (bump j2) u c w \<and> announced (job_id j) ''job.succeeded'' (job_attempt j) w)"
    unfolding ps_def stored_def using save_both [of j2 j] j2'(2,5) by (simp add: same_run_def)
  show ?thesis
    unfolding if_True
    by (rule succeeds_step [OF succeeds_local [OF save]], rule succeeds_skip [OF succeeds_local [OF log]], rule succeeds_ret)
       (use j2' artifacts in \<open>auto simp: same_run_def committed_def stored_def\<close>)
qed

lemma commit_returns:
  assumes progress: "progressed sha vis j0 images (length images) j obs" and images: "images \<noteq> []"
    and state: "job_state j = ASSEMBLING"
  shows "succeeds (at_job j u obs c) (commit_success (local_ports sha images failures vis) j u True) (committed sha images j u c)"
proof -
  let ?ps = "local_ports sha images failures vis"
  have pages: "job_pages j \<noteq> []" "\<forall>p \<in> set (job_pages j). page_state p = P_SUCCEEDED"
    using progress images by (auto simp: progressed_def page_ready_def all_set_conv_all_nth)
  have succeed: "\<exists>j2. job_succeed t1 t2 artifacts j = Inr j2" for t1 t2 artifacts
    using pages state by (auto simp: job_succeed_def job_transition_def)
  show ?thesis
    unfolding commit_success_def
  proof (rule succeeds_bind [OF succeeds_local [OF assemble_returns [OF progress]]], rule succeeds_given,
      rule succeeds_step [OF succeeds_local [OF has_object_step [OF not_cancelled_returns [OF refl]]]], goal_cases)
    case (1 artifacts)
    show ?case using state by simp
  next
    case (2 artifacts)
    show ?case
      unfolding option.case
    proof (rule succeeds_step [OF succeeds_local [OF has_object_step [OF reload_returns [OF refl]]]],
        rule succeeds_skip [OF succeeds_local [OF has_object_keeps [OF clock_returns]]],
        rule succeeds_skip [OF succeeds_local [OF has_object_keeps [OF clock_returns]]], goal_cases)
      case (1 t1 t2)
      obtain j2 where j2: "job_succeed t1 t2 artifacts j = Inr j2" using succeed by blast
      show ?case unfolding j2 lift_sum_simps at_local_ret bind_ret by (rule finish_returns [OF j2 2])
    qed
  qed
qed

text \<open>What a delivered job is: succeeded in its attempt, every page recognised, the document in the store.\<close>

definition delivered_job :: "(bytes \<Rightarrow> string) \<Rightarrow> bytes list \<Rightarrow> job \<Rightarrow> job \<Rightarrow> mem \<Rightarrow> bool" where
  "delivered_job sha images j j' w \<longleftrightarrow>
     lookup_by job_id (m_jobs w) (job_id j) = Some j' \<and> job_state j' = SUCCEEDED \<and> same_run j j' \<and>
     map page_number (job_pages j') = map (\<lambda>i. int i + 1) [0..<length images] \<and>
     (\<forall>p \<in> set (job_pages j'). page_state p = P_SUCCEEDED) \<and>
     stored_artifact MARKDOWN (document_object sha j images) \<in> set (job_artifacts j') \<and>
     map_of (m_objects w) (document_key j) = Some (document_text sha images, ''text/markdown; charset=utf-8'',
       sha (document_text sha images)) \<and>
     announced (job_id j) ''job.succeeded'' (job_attempt j) w"

lemma committed_delivered:
  assumes "same_run j j1" "progressed sha vis j images (length images) j1 obs" "job_pages j' = job_pages j1"
    "job_state j' = SUCCEEDED" "same_run j1 j'" "stored_artifact MARKDOWN (document_object sha j1 images) \<in> set (job_artifacts j')"
    "has_object (document_key j1) (document_text sha images, ''text/markdown; charset=utf-8'', sha (document_text sha images)) j' u c w"
    "announced (job_id j1) ''job.succeeded'' (job_attempt j1) w"
  shows "delivered_job sha images j j' w"
proof -
  have keys: "document_key j1 = document_key j" "document_object sha j1 images = document_object sha j images"
    using assms(1) by (simp_all add: document_key_def document_object_def same_run_def)
  have "map page_number (job_pages j') = map (\<lambda>i. int i + 1) [0..<length images]"
    using assms(2,3) by (intro nth_equalityI) (simp_all add: progressed_def page_ready_def)
  moreover have "\<forall>p \<in> set (job_pages j'). page_state p = P_SUCCEEDED"
    using assms(2,3) by (auto simp: all_set_conv_all_nth progressed_def page_ready_def)
  ultimately show ?thesis
    using assms same_run_trans [OF assms(1,5)]
    by (auto simp: delivered_job_def keys has_object_def at_job_def same_run_def)
qed

lemma run_pages_returns:
  assumes progress: "progressed sha vis j0 images 0 j obs" and j: "job_state j = RUNNING" "same_run j0 j" and images: "images \<noteq> []"
    and pending: "\<forall>p \<in> set (job_pages j). page_state p \<noteq> P_SUCCEEDED"
    and budget: "int (failures - c) \<le> max_page_retries cfg" "failures - c < fuel"
  shows "succeeds (at_job j u obs c) (run_pages (local_ports sha images failures vis) cfg fuel j u)
    (\<lambda>r w. \<exists>j'. r = Some j' \<and> delivered_job sha images j0 j' w)"
proof -
  let ?ps = "local_ports sha images failures vis"
  have len: "length (job_pages j) = length images" using progress by (simp add: progressed_def)
  have pages: "succeeds (at_job j u obs c) (pages_loop ?ps cfg fuel (enumerate 0 (job_pages j)) j)
    (\<lambda>r w. \<exists>j' obs' c'. r = Inr j' \<and> job_state j' = RUNNING \<and> progressed sha vis j0 images (length images) j' obs' \<and>
       at_job j' u obs' c' w)"
  proof (rule pages_loop_returns [OF progress j(1) _ _ _ budget])
    show "\<forall>(i, p) \<in> set (enumerate 0 (job_pages j)). page_state p \<noteq> P_SUCCEEDED"
      using pending by (auto simp: in_set_enumerate_eq)
  qed (simp_all add: len)
  have rest: "succeeds (at_job j1 u obs' c')
     (case Inr j1 of Inl j' \<Rightarrow> ret (Some j') | Inr j1 \<Rightarrow>
         bind_prog (at_local (Some j1) (p_utc_now ?ps)) (\<lambda>t.
         bind_prog (at_local (Some j1) (lift_sum (job_begin_assembling t j1))) (\<lambda>j2.
         bind_prog (at_local (Some j2) (save_and_emit ?ps j2 ''job.assembling'' [])) (\<lambda>j3.
         commit_success ?ps j3 u True))))
     (\<lambda>r w. \<exists>j'. r = Some j' \<and> delivered_job sha images j0 j' w)"
    if j1: "job_state j1 = RUNNING" "progressed sha vis j0 images (length images) j1 obs'" for j1 obs' c'
    unfolding sum.case
  proof (rule succeeds_skip [OF succeeds_local [OF clock_returns]])
    fix t
    let ?j2 = "j1\<lparr>job_state := ASSEMBLING, job_updated_at := t\<rparr>"
    have step: "job_begin_assembling t j1 = Inr ?j2"
      using j1(1) by (simp add: job_begin_assembling_def job_transition_def)
    have j2: "progressed sha vis j0 images (length images) (bump ?j2) obs'" "job_state (bump ?j2) = ASSEMBLING"
      using j1 by (simp_all add: progressed_def same_run_def)
    then have same: "same_run j0 (bump ?j2)" by (simp add: progressed_def)
    show "succeeds (at_job j1 u obs' c')
         (bind_prog (at_local (Some j1) (lift_sum (job_begin_assembling t j1))) (\<lambda>j2.
         bind_prog (at_local (Some j2) (save_and_emit ?ps j2 ''job.assembling'' [])) (\<lambda>j3.
         commit_success ?ps j3 u True)))
       (\<lambda>r w. \<exists>j'. r = Some j' \<and> delivered_job sha images j0 j' w)"
      unfolding step lift_sum_simps at_local_ret bind_ret
      by (rule succeeds_step [OF succeeds_local [OF save_returns]], simp, simp, simp,
          rule succeeds_weaken [OF commit_returns [OF j2(1) images j2(2)]], assumption)
         (unfold committed_def, blast intro: committed_delivered [OF same j2(1)])
  qed
  show ?thesis
    unfolding run_pages_def
    by (rule succeeds_bind [OF pages], rule succeeds_some, rule succeeds_some, rule succeeds_some, rule succeeds_given,
        rule succeeds_given, rule succeeds_given, hypsubst, rule rest, assumption, assumption)
qed

lemma process_job_returns:
  assumes job: "job_state j \<in> {QUEUED, RETRYING}" "job_pages j = []" and images: "images \<noteq> []"
    and budget: "int (failures - c) \<le> max_page_retries cfg" "failures - c < fuel"
  shows "succeeds (at_job j u obs c) (process_job (local_ports sha images failures vis) cfg fuel j u)
    (\<lambda>r w. \<exists>j'. r = Some j' \<and> delivered_job sha images j j' w)"
proof -
  let ?ps = "local_ports sha images failures vis"
  let ?Q = "\<lambda>r w. \<exists>j'. r = Some j' \<and> delivered_job sha images j j' w"
  have work: "succeeds (at_job j2 u obs' c) (work_job ?ps cfg fuel j2 u) ?Q"
    if j2: "same_run j j2" "job_state j2 = PREPROCESSING" "job_pages j2 = fresh_pages j images"
      "images_put sha j (enumerate 1 images) obs1 obs'" for j2 obs1 obs'
    unfolding work_job_def if_P [OF j2(2)]
  proof (rule succeeds_skip [OF succeeds_local [OF clock_returns]])
    fix t
    let ?j3 = "j2\<lparr>job_state := RUNNING, job_updated_at := t\<rparr>"
    have step: "job_begin_running t j2 = Inr ?j3"
      using j2(2) by (simp add: job_begin_running_def job_transition_def)
    have j3: "same_run j (bump ?j3)" "job_state (bump ?j3) = RUNNING" "job_pages (bump ?j3) = fresh_pages j images"
      using j2 by (simp_all add: same_run_def)
    have "\<forall>p \<in> set (job_pages (bump ?j3)). page_state p \<noteq> P_SUCCEEDED"
      unfolding j3(3) by (auto simp: fresh_pages_def new_page_def)
    then have run: "succeeds (at_job (bump ?j3) u obs' c) (run_pages ?ps cfg fuel (bump ?j3) u) ?Q"
      by (rule run_pages_returns [OF fresh_progress [OF j2(4) j3(3,1)] j3(2,1) images _ budget])
    show "succeeds (at_job j2 u obs' c)
        (bind_prog (at_local (Some j2) (lift_sum (job_begin_running t j2))) (\<lambda>j3.
         bind_prog (at_local (Some j3) (save_and_emit ?ps j3 ''job.running'' [])) (\<lambda>j4. run_pages ?ps cfg fuel j4 u))) ?Q"
      unfolding step lift_sum_simps at_local_ret bind_ret
      by (rule succeeds_step [OF succeeds_local [OF save_returns]], simp, simp, simp, rule run)
  qed
  have prepared: "succeeds (at_job j1 u obs c)
      (bind_prog (prepare_pages ?ps u j1) (\<lambda>j2.
       bind_prog (at_local (Some j2) (cancel_if_requested ?ps j2)) (\<lambda>refreshed.
       case refreshed of Some j' \<Rightarrow> ret (Some j') | None \<Rightarrow> work_job ?ps cfg fuel j2 u))) ?Q"
    if j1: "same_run j j1" "job_state j1 = PREPROCESSING" "job_pages j1 = job_pages j" for j1
  proof (rule succeeds_bind [OF prepare_pages_returns [OF j1(2) _ images]], simp add: j1(3) job(2), rule succeeds_some,
      rule succeeds_given, rule succeeds_given, rule succeeds_given, rule succeeds_given)
    fix j2 obs'
    assume j2: "same_run j1 j2" "job_state j2 = PREPROCESSING" "job_pages j2 = fresh_pages j1 images"
      "images_put sha j1 (enumerate 1 images) obs obs'"
    have keys: "page_image_key j1 n = page_image_key j n" for n by (rule same_run_keys(3) [OF j1(1)])
    have "fresh_pages j1 images = fresh_pages j images" "images_put sha j1 xs a b = images_put sha j xs a b" for xs a b
      by (simp_all add: fresh_pages_def images_put_def keys)
    then have run: "succeeds (at_job j2 u obs' c) (work_job ?ps cfg fuel j2 u) ?Q"
      using work [OF same_run_trans [OF j1(1) j2(1)] j2(2), of obs obs'] j2(3,4) by simp
    show "succeeds (at_job j2 u obs' c)
       (bind_prog (at_local (Some j2) (cancel_if_requested ?ps j2)) (\<lambda>refreshed.
       case refreshed of Some j' \<Rightarrow> ret (Some j') | None \<Rightarrow> work_job ?ps cfg fuel j2 u)) ?Q"
      by (rule succeeds_step [OF succeeds_local [OF not_cancelled_returns [OF refl]]]) (simp_all add: j2(2) run)
  qed
  show ?thesis
    unfolding process_job_def
    by (rule succeeds_bind [OF start_job_returns [OF job(1)]], rule succeeds_given, rule succeeds_given, rule succeeds_given)
       (rule prepared)
qed

text \<open>From the claim of the message to the commit: the message reaches \<open>process_job\<close> and nothing interferes.\<close>

lemma undisturbed_run:
  assumes job: "lookup_by job_id (m_jobs w) (job_id j) = Some j" "job_state j \<in> {QUEUED, RETRYING}" "job_pages j = []"
    and upload: "lookup_by upload_id (m_uploads w) (job_upload_id j) = Some u" and events: "m_events_configured w"
    and images: "images \<noteq> []" and budget: "int (failures - m_engine_calls w) \<le> max_page_retries cfg"
    and message: "msg_job_id msg = job_id j" "msg_attempt msg = job_attempt j" "msg_schema_version msg = 1"
  shows "\<exists>j' w'. process (local_ports sha images failures vis) cfg (enough_fuel cfg) msg w = (Done (Some j'), w') \<and>
    delivered_job sha images j j' w'"
proof -
  let ?ps = "local_ports sha images failures vis"
  have "failures - m_engine_calls w < enough_fuel cfg" using budget by (simp add: enough_fuel_def)
  note delivers = process_job_returns [OF job(2,3) images budget this]
  have w: "at_job j u (map_of (m_objects w)) (m_engine_calls w) w" using job(1) upload events by (simp add: at_job_def)
  obtain j' w' where run: "process_job ?ps cfg (enough_fuel cfg) j u w = (Done (Some j'), w')" and j': "delivered_job sha images j j' w'"
    using succeedsD [OF delivers w] by blast
  have "process_body ?ps cfg (enough_fuel cfg) msg w = process_job ?ps cfg (enough_fuel cfg) j u w"
    using job upload message
    by (auto simp: process_body_def local_ports_sel mem_jobs_get_def mem_uploads_get_def worker_database_def at_local_def
        bind_prog_def catch_prog_def job_terminal_def)
  with run have "process ?ps cfg (enough_fuel cfg) msg w = (Done (Some j'), w')"
    using message(3) by (simp add: process_def catch_prog_def)
  with j' show ?thesis by blast
qed

text \<open>
  C5. A job that nobody disturbs succeeds. On the local runtime, when the engine refuses no more calls than
  the configuration allows retries, the message of a queued job runs it to the end: the job is stored as
  succeeded, its pages are numbered from one and all recognised, the document is the text of the pages in
  order and is an artifact of the job, and the log announces the success for this attempt. The fuel
  \<open>enough_fuel\<close> bounds the turns of a page.
\<close>

theorem undisturbed_job_succeeds:
  assumes job: "lookup_by job_id (m_jobs w) (job_id j) = Some j" "job_state j \<in> {QUEUED, RETRYING}" "job_pages j = []"
    and upload: "lookup_by upload_id (m_uploads w) (job_upload_id j) = Some u" and events: "m_events_configured w"
    and images: "images \<noteq> []" and budget: "int (failures - m_engine_calls w) \<le> max_page_retries cfg"
    and message: "msg_job_id msg = job_id j" "msg_attempt msg = job_attempt j" "msg_schema_version msg = 1"
  shows "\<exists>j' w'. process (local_ports sha images failures vis) cfg (enough_fuel cfg) msg w = (Done (Some j'), w') \<and>
    delivered_job sha images j j' w'"
  by (rule undisturbed_run [OF job upload events images budget message])

definition waiting_upload :: upload where
  "waiting_upload = \<lparr>upload_owner_id = ''owner'', upload_filename = ''a.png'', upload_size_bytes = 4,
     upload_content_type = ''image/png'', upload_sha256 = ''digest'', upload_object_key = ''uploads/7'',
     upload_id = 7, upload_state = COMPLETED, upload_created_at = 0, upload_completed_at = Some 1,
     upload_detected_content_type = Some ''image/png'', upload_multipart_upload_id = None\<rparr>"

definition waiting_job :: job where
  "waiting_job = new_job ''owner'' 7 ''request'' (JDict []) None 11 5 5"

definition waiting_mem :: mem where
  "waiting_mem = empty_mem\<lparr>m_uploads := [waiting_upload], m_jobs := [waiting_job]\<rparr>"

lemma undisturbed_job_succeeds_witness:
  "\<exists>j' w'. process (local_ports (\<lambda>d. ''digest'') [''one'', ''two''] 2 None) \<lparr>max_page_retries = 2, retry_base_seconds = 1\<rparr>
      (enough_fuel \<lparr>max_page_retries = 2, retry_base_seconds = 1\<rparr>) (job_message 11 1 ''request'') waiting_mem = (Done (Some j'), w') \<and>
    delivered_job (\<lambda>d. ''digest'') [''one'', ''two''] waiting_job j' w'"
  by (rule undisturbed_job_succeeds [of waiting_mem waiting_job waiting_upload])
     (simp_all add: waiting_mem_def waiting_job_def waiting_upload_def new_job_def empty_mem_def lookup_by_def job_message_def)

end
