(* ===== verification/Messaging.thy ===== *)
theory Messaging
  imports Wire Services Memory File_Validation
begin

text \<open>
  \<^verbatim>\<open>infrastructure/messaging.py\<close>: the Kafka publisher, the outbox dispatcher and the decoder of
  the worker's messages. The producer is a parameter: \<open>send topic value key\<close>. A loop over the
  pending events is a recursion on their list with the count of the published ones.
\<close>

section \<open>Publishing\<close>

definition job_message_payload :: "job_work_message \<Rightarrow> json" where
  "job_message_payload m =
     JDict [(''schema_version'', JInt (msg_schema_version m)),
            (''job_id'', JStr (uuid_str (msg_job_id m))),
            (''attempt'', JInt (msg_attempt m)),
            (''request_id'', JStr (msg_request_id m))]"

definition job_message_bytes :: "job_work_message \<Rightarrow> bytes" where
  "job_message_bytes m = to_ascii (dumps (job_message_payload m))"

definition kafka_publish ::
    "(string \<Rightarrow> bytes \<Rightarrow> bytes \<Rightarrow> ('w, unit) op) \<Rightarrow> string \<Rightarrow> job_work_message \<Rightarrow> ('w, unit) op" where
  "kafka_publish send topic m =
     catch_prog (send topic (job_message_bytes m) (uuid_str (msg_job_id m))) (\<lambda>e.
       if is_dependency_error e then raise_exc e
       else if is_exception e then raise_exc QueueUnavailableError
       else raise_exc e)"

section \<open>Dispatching the outbox\<close>

definition read_item :: "(string \<times> json) list \<Rightarrow> string \<Rightarrow> exn + json" where
  "read_item kvs k = json_item (JDict kvs) k"

text \<open>\<open>UUID(str(value))\<close>.\<close>

definition read_uuid :: "json \<Rightarrow> exn + uuid" where
  "read_uuid v =
     (case uuid_parse (py_str v) of
        Some u \<Rightarrow> Inr u
      | None \<Rightarrow> Inl (ValueError ''badly formed hexadecimal UUID string''))"

definition read_job_message :: "(string \<times> json) list \<Rightarrow> exn + job_work_message" where
  "read_job_message payload =
     bind_sum (bind_sum (read_item payload ''job_id'') read_uuid) (\<lambda>jid.
     bind_sum (bind_sum (read_item payload ''attempt'') py_int) (\<lambda>attempt.
     bind_sum (read_item payload ''request_id'') (\<lambda>request_id.
     bind_sum (py_int (case map_of payload ''schema_version'' of Some v \<Rightarrow> v | None \<Rightarrow> JInt 1)) (\<lambda>schema.
     Inr \<lparr>msg_job_id = jid, msg_attempt = attempt, msg_request_id = py_str request_id,
          msg_schema_version = schema\<rparr>))))"

definition dispatcher_database :: "('w, 'a) op \<Rightarrow> ('w, 'a) op" where
  "dispatcher_database m = catch_prog m (\<lambda>e.
     if is_dependency_error e then raise_exc e
     else if is_exception e then raise_exc DatabaseUnavailableError
     else raise_exc e)"

fun dispatch_events :: "'w ports \<Rightarrow> outbox_event list \<Rightarrow> nat \<Rightarrow> ('w, nat) op" where
  "dispatch_events ps [] published = ret published"
| "dispatch_events ps (ev # evs) published =
     (if ob_event_type ev \<noteq> ''ocr.job.requested.v1'' then dispatch_events ps evs published
      else
        bind_prog (lift_sum (read_job_message (ob_payload ev))) (\<lambda>m.
        bind_prog (p_publisher_publish ps m) (\<lambda>_.
        bind_prog (dispatcher_database (p_outbox_mark_published ps (ob_id ev))) (\<lambda>_.
        dispatch_events ps evs (published + 1)))))"

definition dispatch_once :: "'w ports \<Rightarrow> nat \<Rightarrow> ('w, nat) op" where
  "dispatch_once ps limit =
     bind_prog (dispatcher_database (p_outbox_pending ps limit)) (\<lambda>evs. dispatch_events ps evs 0)"

section \<open>Decoding\<close>

definition decode_job_message :: "bytes \<Rightarrow> exn + job_work_message" where
  "decode_job_message value =
     bind_sum (loads_bytes value) (\<lambda>payload.
     case payload of
       JDict kvs \<Rightarrow> read_job_message kvs
     | _ \<Rightarrow> Inl (ValueError ''job message must be an object''))"

section \<open>Round trip\<close>

lemma py_int_str_roundtrip: "py_int (JInt i) = Inr i"
  by simp

lemma payload_ok: "json_ok (job_message_payload m)"
  by (simp add: job_message_payload_def)

lemma plain_quoted: "plain_ascii s \<Longrightarrow> plain_ascii (json_string s @ t) \<longleftrightarrow> plain_ascii t"
  by (simp add: plain_json_string)

lemma payload_plain:
  assumes "plain_ascii (msg_request_id m)"
  shows "plain_ascii (dumps (job_message_payload m))"
proof -
  have keys: "plain_ascii (json_string ''schema_version'')" "plain_ascii (json_string ''job_id'')"
    "plain_ascii (json_string ''attempt'')" "plain_ascii (json_string ''request_id'')"
    by (rule plain_json_string; simp)+
  show ?thesis
    using assms
    by (simp add: job_message_payload_def keys plain_json_string plain_str_int plain_uuid)
qed

lemma read_payload: "read_job_message
    [(''schema_version'', JInt v), (''job_id'', JStr (uuid_str i)), (''attempt'', JInt a),
     (''request_id'', JStr r)] =
  Inr \<lparr>msg_job_id = i, msg_attempt = a, msg_request_id = r, msg_schema_version = v\<rparr>"
  by (simp add: read_job_message_def read_item_def json_item_def read_uuid_def uuid_parse_str)

lemma decode_encoded:
  assumes "plain_ascii (msg_request_id m)"
  shows "decode_job_message (job_message_bytes m) = Inr m"
proof -
  have bytes: "job_message_bytes m = dumps (job_message_payload m)"
    unfolding job_message_bytes_def by (rule to_ascii_plain [OF payload_plain [OF assms]])
  have "loads_bytes (job_message_bytes m) = Inr (job_message_payload m)"
    unfolding bytes loads_bytes_def utf8_plain [OF payload_plain [OF assms]] loads_dumps [OF payload_ok]
    by simp
  then show ?thesis
    by (simp add: decode_job_message_def job_message_payload_def read_payload)
qed

text \<open>
  C10. Whatever job request the API stores in the outbox, the dispatcher reads a message from it,
  and the worker decodes from the bytes of that message the same job, attempt and request id.
\<close>

theorem job_request_roundtrip:
  assumes "plain_ascii rid"
  shows "\<exists>m. read_job_message (ob_payload (work_request oid t j rid)) = Inr m \<and>
    decode_job_message (job_message_bytes m) = Inr m \<and>
    msg_job_id m = job_id j \<and> msg_attempt m = job_attempt j \<and> msg_request_id m = rid \<and>
    msg_schema_version m = 1"
proof -
  let ?m = "\<lparr>msg_job_id = job_id j, msg_attempt = job_attempt j, msg_request_id = rid,
    msg_schema_version = 1\<rparr>"
  have "read_job_message (ob_payload (work_request oid t j rid)) = Inr ?m"
    by (simp add: work_request_def read_payload)
  moreover have "decode_job_message (job_message_bytes ?m) = Inr ?m"
    by (rule decode_encoded) (simp add: assms)
  ultimately show ?thesis by (intro exI [of _ ?m]) simp
qed

definition sample_job :: job where
  "sample_job = new_job ''owner'' 7 ''req'' (JDict []) None 11 5 5"

lemma job_request_roundtrip_witness:
  "\<exists>m. read_job_message (ob_payload (work_request 3 9 sample_job ''req-1'')) = Inr m \<and>
    decode_job_message (job_message_bytes m) = Inr m \<and>
    msg_job_id m = job_id sample_job \<and> msg_attempt m = job_attempt sample_job \<and>
    msg_request_id m = ''req-1'' \<and> msg_schema_version m = 1"
  by (rule job_request_roundtrip) simp

section \<open>The dispatcher on the in-memory outbox\<close>

text \<open>
  The in-memory runtime with any publisher. \<open>records_publication\<close> is what a producer
  promises: a call that returns has the message on the topic, and the outbox is none of its
  business.
\<close>

definition publishing ::
    "(job_work_message \<Rightarrow> unit mop) \<Rightarrow> mem ports \<Rightarrow> mem ports" where
  "publishing pub ps = ps\<lparr>p_publisher_publish := pub\<rparr>"

definition records_publication :: "(job_work_message \<Rightarrow> unit mop) \<Rightarrow> bool" where
  "records_publication pub \<longleftrightarrow>
     (\<forall>m w. m_outbox (snd (pub m w)) = m_outbox w \<and>
        set (m_published w) \<subseteq> set (m_published (snd (pub m w))) \<and>
        (fst (pub m w) = Done () \<longrightarrow> m \<in> set (m_published (snd (pub m w)))))"

lemma mem_publish_records: "records_publication mem_publish"
  by (auto simp: records_publication_def mem_publish_def)

text \<open>An entry is as before, or marked after its message reached the topic.\<close>

definition settled :: "mem \<Rightarrow> outbox_event \<Rightarrow> outbox_event \<Rightarrow> bool" where
  "settled w x y \<longleftrightarrow>
     y = x \<or> (ob_published_at y \<noteq> None \<and> y = x\<lparr>ob_published_at := ob_published_at y\<rparr> \<and>
        (\<exists>m. read_job_message (ob_payload x) = Inr m \<and> m \<in> set (m_published w)))"

lemma settled_mono:
  "settled w x y \<Longrightarrow> set (m_published w) \<subseteq> set (m_published w') \<Longrightarrow> settled w' x y"
  by (auto simp: settled_def)

lemma settled_id: "settled w x y \<Longrightarrow> ob_id y = ob_id x \<and> ob_payload y = ob_payload x"
  by (cases x; cases y) (auto simp: settled_def)

lemma list_all2_update_by:
  assumes "list_all2 P xs ys" and "distinct (map key ys)"
    and "y' \<in> set ys" and "key y = key y'"
    and "\<And>x. P x y' \<Longrightarrow> P x y"
  shows "list_all2 P xs (update_by key y ys)"
  using assms
proof (induction xs ys rule: list_all2_induct)
  case (Cons x xs z zs)
  then show ?case by (cases "z = y'") (auto simp: image_iff)
qed simp

lemma settled_ids: "list_all2 (settled w) xs ys \<Longrightarrow> map ob_id ys = map ob_id xs"
  by (induction rule: list_all2_induct) (auto dest: settled_id)

lemma settled_member:
  assumes "list_all2 (settled w) xs ys" and "x \<in> set xs"
  obtains y where "y \<in> set ys" and "settled w x y"
  using assms by (fastforce simp: in_set_conv_nth list_all2_conv_all_nth)

lemma lookup_by_distinct:
  "distinct (map key xs) \<Longrightarrow> x \<in> set xs \<Longrightarrow> lookup_by key xs (key x) = Some x"
  by (induction xs) (auto simp: lookup_by_def image_iff)

lemma mark_published_settles:
  assumes "list_all2 (settled w) xs (m_outbox w)" and "distinct (map ob_id xs)"
    and "ev \<in> set xs" and "read_job_message (ob_payload ev) = Inr m" and "m \<in> set (m_published w)"
  shows "list_all2 (settled (snd (mem_outbox_mark_published (ob_id ev) w))) xs
    (m_outbox (snd (mem_outbox_mark_published (ob_id ev) w)))"
proof -
  obtain y where y: "y \<in> set (m_outbox w)" "settled w ev y"
    using settled_member [OF assms(1,3)] by blast
  have distinct: "distinct (map ob_id (m_outbox w))"
    using settled_ids [OF assms(1)] assms(2) by simp
  have id: "ob_id ev = ob_id y" using settled_id [OF y(2)] by simp
  have found: "lookup_by ob_id (m_outbox w) (ob_id ev) = Some y"
    unfolding id by (rule lookup_by_distinct [OF distinct y(1)])
  let ?y = "y\<lparr>ob_published_at := Some (m_clock w)\<rparr>"
  have "list_all2 (settled w) xs (update_by ob_id ?y (m_outbox w))"
  proof (rule list_all2_update_by [OF assms(1) distinct y(1)])
    fix x
    assume x: "settled w x y"
    then have "ob_payload x = ob_payload ev" using settled_id [OF x] settled_id [OF y(2)] by simp
    with x assms(4,5) show "settled w x ?y" by (cases x; cases y) (auto simp: settled_def)
  qed simp
  then have "list_all2 (settled (snd (mem_outbox_mark_published (ob_id ev) w))) xs
    (update_by ob_id ?y (m_outbox w))"
    by (rule list_all2_mono) (auto simp: mem_outbox_mark_published_def found elim: settled_mono)
  then show ?thesis by (simp add: mem_outbox_mark_published_def found)
qed

lemma dispatcher_database_world: "snd (dispatcher_database m w) = snd (m w)"
  unfolding dispatcher_database_def by (rule catch_reraise) metis

lemma dispatch_events_settles:
  assumes pub: "records_publication pub"
    and "set evs \<subseteq> set xs" and "distinct (map ob_id xs)"
    and "list_all2 (settled w) xs (m_outbox w)"
  shows "list_all2 (settled (snd (dispatch_events (publishing pub (mem_ports sha v p e)) evs k w))) xs
    (m_outbox (snd (dispatch_events (publishing pub (mem_ports sha v p e)) evs k w)))"
  using assms(2,4)
proof (induction evs arbitrary: k w)
  case (Cons ev evs)
  let ?ps = "publishing pub (mem_ports sha v p e)"
  have pub_field: "p_publisher_publish ?ps = pub" by (simp add: publishing_def)
  have mark_field: "p_outbox_mark_published ?ps = mem_outbox_mark_published"
    by (simp add: publishing_def mem_ports_def)
  show ?case
  proof (cases "ob_event_type ev = ''ocr.job.requested.v1''")
    case False
    with Cons show ?thesis by simp
  next
    case job: True
    show ?thesis
    proof (cases "read_job_message (ob_payload ev)")
      case (Inl x)
      with job Cons.prems show ?thesis by simp
    next
      case (Inr m)
      obtain r1 w1 where run1: "pub m w = (r1, w1)" by fastforce
      have pub1: "m_outbox w1 = m_outbox w" "set (m_published w) \<subseteq> set (m_published w1)"
        "r1 = Done () \<Longrightarrow> m \<in> set (m_published w1)"
        using pub run1 unfolding records_publication_def by (metis fst_conv snd_conv)+
      have inv1: "list_all2 (settled w1) xs (m_outbox w1)"
        using Cons.prems(2) unfolding pub1(1)
        by (rule list_all2_mono) (rule settled_mono [OF _ pub1(2)])
      show ?thesis
      proof (cases r1)
        case (Done u)
        obtain r2 w2 where run2: "dispatcher_database (mem_outbox_mark_published (ob_id ev)) w1 = (r2, w2)"
          by fastforce
        have "w2 = snd (mem_outbox_mark_published (ob_id ev) w1)"
          using dispatcher_database_world run2 by (metis snd_conv)
        then have inv2: "list_all2 (settled w2) xs (m_outbox w2)"
          using mark_published_settles [OF inv1 assms(3) _ Inr] Cons.prems(1) pub1(3) Done by auto
        show ?thesis
        proof (cases r2)
          case (Done u2)
          then show ?thesis
            using job Inr run1 \<open>r1 = Done u\<close> run2 Cons.IH [OF _ inv2] Cons.prems(1)
            by (simp add: pub_field mark_field bind_Done)
        qed (use job Inr run1 Done run2 inv2 in
          \<open>simp_all add: pub_field mark_field bind_prog_def\<close>)
      qed (use job Inr run1 inv1 in \<open>simp_all add: pub_field bind_prog_def\<close>)
    qed
  qed
qed simp

lemma settled_refl: "list_all2 (settled w) xs xs"
  by (rule list_all2_refl) (simp add: settled_def)

text \<open>
  C11. The outbox is delivered at least once: whatever the publisher does, an entry that a
  dispatcher run leaves marked as published was so before, or its message reached the topic;
  and no entry is lost or altered otherwise, also when the run fails half way.
\<close>

theorem dispatch_at_least_once:
  assumes "records_publication pub" and "distinct (map ob_id (m_outbox w))"
  shows "list_all2 (settled (snd (dispatch_once (publishing pub (mem_ports sha v p e)) limit w)))
    (m_outbox w) (m_outbox (snd (dispatch_once (publishing pub (mem_ports sha v p e)) limit w)))"
proof -
  let ?ps = "publishing pub (mem_ports sha v p e)"
  let ?evs = "take limit (sort_key ob_created_at (filter (\<lambda>ev. ob_published_at ev = None) (m_outbox w)))"
  have pending: "dispatcher_database (p_outbox_pending ?ps limit) w = (Done ?evs, w)"
    by (simp add: publishing_def mem_ports_def mem_outbox_pending_def dispatcher_database_def catch_Done)
  have subset: "set ?evs \<subseteq> set (m_outbox w)" by (auto dest: in_set_takeD)
  have run: "dispatch_once ?ps limit w = dispatch_events ?ps ?evs 0 w"
    unfolding dispatch_once_def by (rule bind_Done) (rule pending)
  show ?thesis
    unfolding run
    by (rule dispatch_events_settles [OF assms(1) subset assms(2) settled_refl])
qed

definition sample_engine :: "bytes \<Rightarrow> int \<Rightarrow> json \<Rightarrow> string \<Rightarrow> ocr_result mop" where
  "sample_engine = fake_recognize (\<lambda>_. ''digest'') 0 None"

definition sample_outbox :: mem where
  "sample_outbox = empty_mem\<lparr>m_outbox := [work_request 1 5 sample_job ''req-1'',
     work_request 2 4 sample_job ''req-2'']\<rparr>"

lemma dispatch_at_least_once_witness:
  "list_all2 (settled (snd (dispatch_once (publishing mem_publish
       (mem_ports (\<lambda>_. ''digest'') magic_validate passthrough_prepare sample_engine)) 10 sample_outbox)))
     (m_outbox sample_outbox)
     (m_outbox (snd (dispatch_once (publishing mem_publish
       (mem_ports (\<lambda>_. ''digest'') magic_validate passthrough_prepare sample_engine)) 10 sample_outbox)))"
  by (rule dispatch_at_least_once [OF mem_publish_records])
     (simp add: sample_outbox_def work_request_def)

section \<open>Draining\<close>

definition unpublished :: "outbox_event list \<Rightarrow> outbox_event list" where
  "unpublished xs = filter (\<lambda>ev. ob_published_at ev = None) xs"

lemma unpublished_mark:
  assumes "distinct (map ob_id xs)" and "y \<in> set xs"
  shows "unpublished (update_by ob_id (y\<lparr>ob_published_at := Some t\<rparr>) xs) =
    filter (\<lambda>x. ob_id x \<noteq> ob_id y) (unpublished xs)"
  using assms
proof (induction xs)
  case (Cons x xs)
  show ?case
  proof (cases "x = y")
    case True
    with Cons.prems(1) have "\<forall>z \<in> set xs. ob_id z \<noteq> ob_id y" by (auto simp: image_iff)
    then have "filter (\<lambda>x. ob_id x \<noteq> ob_id y) (unpublished xs) = unpublished xs"
      unfolding unpublished_def filter_filter by (intro filter_cong) auto
    with True show ?thesis by (simp add: unpublished_def)
  next
    case False
    with Cons.prems have "ob_id x \<noteq> ob_id y" by (auto simp: image_iff)
    with False Cons show ?thesis by (simp add: unpublished_def)
  qed
qed simp

text \<open>The entries that the dispatcher can send: job requests with a readable payload.\<close>

definition sendable :: "outbox_event \<Rightarrow> job_work_message \<Rightarrow> bool" where
  "sendable ev m \<longleftrightarrow>
     ob_event_type ev = ''ocr.job.requested.v1'' \<and> read_job_message (ob_payload ev) = Inr m"

lemma dispatch_events_drain:
  assumes "list_all2 sendable evs ms" and "distinct (map ob_id evs)"
    and "distinct (map ob_id (m_outbox w))" and "set evs \<subseteq> set (m_outbox w)"
  shows "\<exists>w'. dispatch_events (mem_ports sha v p e) evs k w = (Done (k + length evs), w') \<and>
    m_published w' = m_published w @ ms \<and>
    unpublished (m_outbox w') = filter (\<lambda>x. ob_id x \<notin> ob_id ` set evs) (unpublished (m_outbox w))"
  using assms
proof (induction evs ms arbitrary: k w rule: list_all2_induct)
  case (Cons ev evs m ms)
  let ?ps = "mem_ports sha v p e"
  let ?y = "ev\<lparr>ob_published_at := Some (m_clock w)\<rparr>"
  let ?w2 = "w\<lparr>m_published := m_published w @ [m], m_outbox := update_by ob_id ?y (m_outbox w),
    m_clock := m_clock w + 1\<rparr>"
  have found: "lookup_by ob_id (m_outbox w) (ob_id ev) = Some ev"
    by (rule lookup_by_distinct) (use Cons.prems in auto)
  have fields: "p_publisher_publish ?ps = mem_publish"
    "p_outbox_mark_published ?ps = mem_outbox_mark_published"
    by (simp_all add: mem_ports_def)
  have step: "dispatch_events ?ps (ev # evs) k w = dispatch_events ?ps evs (k + 1) ?w2"
    using Cons.hyps(1)
    by (simp add: sendable_def fields bind_prog_def mem_publish_def dispatcher_database_def
        catch_prog_def mem_outbox_mark_published_def found)
  have keys: "map ob_id (m_outbox ?w2) = map ob_id (m_outbox w)"
    using Cons.prems(3) by (simp add: map_key_update_by image_iff) (force)
  have subset: "set evs \<subseteq> set (m_outbox ?w2)"
  proof
    fix x
    assume x: "x \<in> set evs"
    then have ne: "ob_id x \<noteq> ob_id ev" using Cons.prems(1) by (auto simp: image_iff)
    have "lookup_by ob_id (m_outbox w) (ob_id x) = Some x"
      by (rule lookup_by_distinct) (use Cons.prems x in auto)
    with ne have "lookup_by ob_id (m_outbox ?w2) (ob_id x) = Some x" by simp
    then show "x \<in> set (m_outbox ?w2)" by (rule lookup_by_set)
  qed
  obtain w' where w': "dispatch_events ?ps evs (k + 1) ?w2 = (Done (k + 1 + length evs), w')"
    "m_published w' = m_published ?w2 @ ms"
    "unpublished (m_outbox w') = filter (\<lambda>x. ob_id x \<notin> ob_id ` set evs) (unpublished (m_outbox ?w2))"
    using Cons.IH [of ?w2 "k + 1", OF _ _ subset] Cons.prems(1,2) keys by auto
  have "unpublished (m_outbox ?w2) = filter (\<lambda>x. ob_id x \<noteq> ob_id ev) (unpublished (m_outbox w))"
    using unpublished_mark [of "m_outbox w" ev] Cons.prems by simp
  then show ?case using w' step by (auto intro!: exI [of _ w'] filter_cong)
qed (simp add: unpublished_def)

text \<open>
  C12. When every pending entry is a readable job request, at most \<open>limit\<close> of them are pending and
  the queue accepts messages, one run of the dispatcher returns their number, has put exactly their
  messages on the topic in the order of creation, and leaves nothing pending.
\<close>

theorem dispatch_drains_outbox:
  assumes "distinct (map ob_id (m_outbox w))"
    and "length (unpublished (m_outbox w)) \<le> limit"
    and "list_all2 sendable (sort_key ob_created_at (unpublished (m_outbox w))) ms"
  shows "\<exists>w'. dispatch_once (mem_ports sha v p e) limit w = (Done (length ms), w') \<and>
    m_published w' = m_published w @ ms \<and> mem_outbox_pending limit w' = (Done [], w')"
proof -
  let ?ps = "mem_ports sha v p e"
  let ?evs = "sort_key ob_created_at (unpublished (m_outbox w))"
  have pending: "dispatcher_database (p_outbox_pending ?ps limit) w = (Done ?evs, w)"
    using assms(2)
    by (simp add: mem_ports_def mem_outbox_pending_def unpublished_def dispatcher_database_def
        catch_Done)
  have run: "dispatch_once ?ps limit w = dispatch_events ?ps ?evs 0 w"
    unfolding dispatch_once_def by (rule bind_Done) (rule pending)
  have "distinct (map ob_id (unpublished (m_outbox w)))"
    using assms(1) by (simp add: unpublished_def distinct_map_filter)
  then have distinct: "distinct (map ob_id ?evs)"
    by (simp add: distinct_map)
  obtain w' where w': "dispatch_events ?ps ?evs 0 w = (Done (0 + length ?evs), w')"
    "m_published w' = m_published w @ ms"
    "unpublished (m_outbox w') = filter (\<lambda>x. ob_id x \<notin> ob_id ` set ?evs) (unpublished (m_outbox w))"
    using dispatch_events_drain [OF assms(3) distinct assms(1), of sha v p e 0]
    by (auto simp: unpublished_def)
  have "unpublished (m_outbox w') = []" unfolding w'(3) by (auto simp: filter_empty_conv)
  moreover have "length ?evs = length ms" using assms(3) by (rule list_all2_lengthD)
  ultimately show ?thesis
    using w' run by (auto simp: mem_outbox_pending_def unpublished_def)
qed

lemma dispatch_drains_outbox_witness:
  "\<exists>w'. dispatch_once (mem_ports (\<lambda>_. ''digest'') magic_validate passthrough_prepare sample_engine) 100
      sample_outbox = (Done (length
        [\<lparr>msg_job_id = 11, msg_attempt = 1, msg_request_id = ''req-2'', msg_schema_version = 1\<rparr>,
         \<lparr>msg_job_id = 11, msg_attempt = 1, msg_request_id = ''req-1'', msg_schema_version = 1\<rparr>]), w') \<and>
    m_published w' = m_published sample_outbox @
        [\<lparr>msg_job_id = 11, msg_attempt = 1, msg_request_id = ''req-2'', msg_schema_version = 1\<rparr>,
         \<lparr>msg_job_id = 11, msg_attempt = 1, msg_request_id = ''req-1'', msg_schema_version = 1\<rparr>] \<and>
    mem_outbox_pending 100 w' = (Done [], w')"
proof (rule dispatch_drains_outbox)
  show "distinct (map ob_id (m_outbox sample_outbox))"
    by (simp add: sample_outbox_def work_request_def)
  show "length (unpublished (m_outbox sample_outbox)) \<le> 100"
    by (simp add: sample_outbox_def work_request_def unpublished_def)
  show "list_all2 sendable (sort_key ob_created_at (unpublished (m_outbox sample_outbox)))
     [\<lparr>msg_job_id = 11, msg_attempt = 1, msg_request_id = ''req-2'', msg_schema_version = 1\<rparr>,
      \<lparr>msg_job_id = 11, msg_attempt = 1, msg_request_id = ''req-1'', msg_schema_version = 1\<rparr>]"
    by (simp add: sample_outbox_def work_request_def unpublished_def sendable_def read_payload
        sample_job_def new_job_def)
qed

end
