(* ===== verification/End_To_End.thy ===== *)
theory End_To_End
  imports Worker_Delivers Messaging
begin

text \<open>
  The way of one request through the system: the service stores the job and the request in the outbox, the
  dispatcher publishes it, the worker decodes the message and delivers the document.
\<close>

section \<open>The request\<close>

text \<open>The job that the service makes of a request, with the identifier and the times it draws.\<close>

definition requested_job :: "string \<Rightarrow> create_job_request \<Rightarrow> string \<Rightarrow> string option \<Rightarrow> mem \<Rightarrow> job" where
  "requested_job owner req rid key w =
     new_job owner (cjr_upload_id req) rid (cjr_options req) key (of_nat (m_next_id w)) (m_clock w) (m_clock w + 1)"

lemma requested_sel [simp]:
  "job_id (requested_job owner req rid key w) = of_nat (m_next_id w)" "job_state (requested_job owner req rid key w) = QUEUED"
  "job_attempt (requested_job owner req rid key w) = 1" "job_pages (requested_job owner req rid key w) = []"
  "job_upload_id (requested_job owner req rid key w) = cjr_upload_id req"
  "job_owner_id (requested_job owner req rid key w) = owner" "job_idempotency_key (requested_job owner req rid key w) = key"
  "job_request_id (requested_job owner req rid key w) = rid"
  by (simp_all add: requested_job_def new_job_def)

text \<open>A world that can take the request: the upload is complete, the key is free, the identifiers are unused.\<close>

definition accepts :: "string \<Rightarrow> create_job_request \<Rightarrow> string option \<Rightarrow> upload \<Rightarrow> mem \<Rightarrow> bool" where
  "accepts owner req key u w \<longleftrightarrow>
     lookup_by upload_id (m_uploads w) (cjr_upload_id req) = Some u \<and> upload_owner_id u = owner \<and>
     upload_state u = COMPLETED \<and> m_events_configured w \<and>
     (\<forall>j \<in> set (m_jobs w). job_id j \<noteq> of_nat (m_next_id w) \<and>
        \<not> (truthy_str key \<and> job_owner_id j = owner \<and> job_idempotency_key j = key)) \<and>
     (\<forall>ob \<in> set (m_outbox w). ob_id ob \<noteq> 1 + of_nat (m_next_id w)) \<and> distinct (map ob_id (m_outbox w))"

lemma create_job_stores:
  assumes accepts: "accepts owner req key u w"
  shows "\<exists>w1 d. create_job (local_ports sha images failures vis) req owner rid key w = (Done d, w1) \<and>
    jd_job_id d = of_nat (m_next_id w) \<and> jd_status d = QUEUED \<and>
    m_jobs w1 = m_jobs w @ [requested_job owner req rid key w] \<and> m_uploads w1 = m_uploads w \<and>
    m_outbox w1 = m_outbox w @ [work_request (1 + of_nat (m_next_id w)) (2 + m_clock w) (requested_job owner req rid key w) rid] \<and>
    m_events_configured w1 \<and> m_engine_calls w1 = m_engine_calls w \<and> m_published w1 = m_published w"
proof -
  let ?ps = "local_ports sha images failures vis"
  let ?j = "requested_job owner req rid key w"
  let ?oid = "1 + of_nat (m_next_id w) :: uuid"
  have upload: "upload_id u = cjr_upload_id req"
    using accepts by (auto simp: accepts_def dest: lookup_by_key)
  have fresh: "lookup_by job_id (m_jobs w) (of_nat (m_next_id w)) = None" "lookup_by ob_id (m_outbox w) ?oid = None"
    using accepts by (auto simp: accepts_def lookup_by_None)
  have "update_by key x xs = xs @ [x]" if "lookup_by key xs (key x) = None" for key :: "'a \<Rightarrow> 'b" and x xs
    using that by (induction xs) (auto simp: lookup_by_def split: if_splits)
  note appended = this
  have unused: "\<not> list_ex (\<lambda>k. job_owner_id k = owner \<and> job_idempotency_key k = key) (m_jobs w)" if "truthy_str key"
    using accepts that by (auto simp: accepts_def list_ex_iff)
  have added: "mem_jobs_add ?j v = (Done (), v\<lparr>m_jobs := m_jobs w @ [?j]\<rparr>)" if "m_jobs v = m_jobs w" for v
    using that fresh(1) unused by (simp add: mem_jobs_add_def appended)
  have queued: "mem_outbox_add (work_request ?oid t ?j rid) v = (Done (), v\<lparr>m_outbox := m_outbox w @ [work_request ?oid t ?j rid]\<rparr>)"
    if "m_outbox v = m_outbox w" for t v
    using that fresh(2) by (simp add: mem_outbox_add_def appended work_request_def)
  have new: "new_job owner (upload_id u) rid (cjr_options req) key (of_nat (m_next_id w)) (m_clock w) (m_clock w + 1) = ?j"
    by (simp add: requested_job_def upload)
  have insert: "\<exists>w1 d. insert_job ?ps u req owner rid key w = (Done d, w1) \<and>
    jd_job_id d = of_nat (m_next_id w) \<and> jd_status d = QUEUED \<and>
    m_jobs w1 = m_jobs w @ [?j] \<and> m_uploads w1 = m_uploads w \<and>
    m_outbox w1 = m_outbox w @ [work_request ?oid (2 + m_clock w) ?j rid] \<and>
    m_events_configured w1 \<and> m_engine_calls w1 = m_engine_calls w \<and> m_published w1 = m_published w"
    using accepts [unfolded accepts_def]
    by (simp add: insert_job_def local_ports_def mem_ports_def mem_uuid7_def mem_utc_now_def bind_prog_def new Let_def
        service_job_event_def catch_prog_def service_database_def mem_jobs_add_with_outbox_and_event_def added queued
        mem_events_append_def find_terminal_def terminal_event_types_def to_job_dto_def mem_uploads_get_def
        job_dto_of_def)
  have found: "mem_jobs_find owner k w = (Done None, w)" if "key = Some k" "k \<noteq> []" for k
    using accepts that by (auto simp: mem_jobs_find_def accepts_def find_None_iff truthy_str_def)
  have "create_job ?ps req owner rid key w = insert_job ?ps u req owner rid key w"
    using accepts found
    by (auto simp: create_job_def owned_upload_def local_ports_def mem_ports_def mem_uploads_get_def service_database_def
        bind_prog_def catch_prog_def accepts_def split: option.split)
  with insert show ?thesis by simp
qed

section \<open>The message\<close>

lemma dispatch_publishes:
  assumes outbox: "m_outbox w = xs @ [work_request oid t j rid]" and idle: "unpublished xs = []"
    and fresh: "\<forall>ob \<in> set xs. ob_id ob \<noteq> oid" and limit: "1 \<le> limit"
  shows "\<exists>w'. dispatch_once (local_ports sha images failures vis) limit w = (Done 1, w') \<and>
    m_published w' = m_published w @ [job_message (job_id j) (job_attempt j) rid] \<and> m_jobs w' = m_jobs w \<and>
    m_uploads w' = m_uploads w \<and> m_events_configured w' = m_events_configured w \<and> m_engine_calls w' = m_engine_calls w"
proof -
  let ?ob = "work_request oid t j rid"
  have pending: "take limit (sort_key ob_created_at (filter (\<lambda>ev. ob_published_at ev = None) (m_outbox w))) = [?ob]"
    using outbox idle limit by (simp add: unpublished_def work_request_def)
  have found: "lookup_by ob_id (m_outbox w) oid = Some ?ob"
    using outbox fresh by (auto simp: lookup_by_def work_request_def find_Some_iff nth_append intro!: exI [of _ "length xs"])
  have message: "read_job_message (ob_payload ?ob) = Inr (job_message (job_id j) (job_attempt j) rid)"
    by (simp add: work_request_def read_payload job_message_def)
  have fields: "ob_event_type ?ob = ''ocr.job.requested.v1''" "ob_id ?ob = oid" by (simp_all add: work_request_def)
  show ?thesis
    using message found
    by (simp add: dispatch_once_def dispatcher_database_def catch_prog_def bind_prog_def local_ports_def mem_ports_def
        mem_outbox_pending_def pending fields mem_publish_def mem_outbox_mark_published_def)
qed

section \<open>The whole way\<close>

text \<open>
  C6. An accepted request is delivered. When the upload is complete and nothing else is waiting in the
  outbox, the service answers with a queued job, the dispatcher publishes one message, the bytes of the message
  decode to it, and the worker, if the engine refuses no more calls than there are retries, delivers
  the document of exactly this job.
\<close>

theorem accepted_request_delivered:
  assumes accepts: "accepts owner req key u w" and idle: "unpublished (m_outbox w) = []" "1 \<le> limit"
    and rid: "plain_ascii rid" and images: "images \<noteq> []"
    and budget: "int (failures - m_engine_calls w) \<le> max_page_retries cfg"
  shows "\<exists>d w1 msg w2 j w3.
    create_job (local_ports sha images failures vis) req owner rid key w = (Done d, w1) \<and> jd_status d = QUEUED \<and>
    dispatch_once (local_ports sha images failures vis) limit w1 = (Done 1, w2) \<and>
    m_published w2 = m_published w @ [msg] \<and> decode_job_message (job_message_bytes msg) = Inr msg \<and>
    process (local_ports sha images failures vis) cfg (enough_fuel cfg) msg w2 = (Done (Some j), w3) \<and>
    job_id j = jd_job_id d \<and> job_upload_id j = cjr_upload_id req \<and> job_request_id j = rid \<and>
    delivered_job sha images j j w3"
proof -
  let ?ps = "local_ports sha images failures vis"
  let ?j = "requested_job owner req rid key w"
  let ?msg = "job_message (of_nat (m_next_id w)) 1 rid"
  obtain d w1 where created: "create_job ?ps req owner rid key w = (Done d, w1)" "jd_job_id d = of_nat (m_next_id w)"
      "jd_status d = QUEUED" "m_jobs w1 = m_jobs w @ [?j]" "m_uploads w1 = m_uploads w"
      "m_outbox w1 = m_outbox w @ [work_request (1 + of_nat (m_next_id w)) (2 + m_clock w) ?j rid]"
      "m_events_configured w1" "m_engine_calls w1 = m_engine_calls w" "m_published w1 = m_published w"
    using create_job_stores [OF accepts] by blast
  have "\<forall>ob \<in> set (m_outbox w). ob_id ob \<noteq> 1 + of_nat (m_next_id w)" using accepts by (simp add: accepts_def)
  from dispatch_publishes [OF created(6) idle(1) this idle(2), of sha images failures vis]
  obtain w2 where dispatched: "dispatch_once ?ps limit w1 = (Done 1, w2)" "m_published w2 = m_published w @ [?msg]"
      "m_jobs w2 = m_jobs w1" "m_uploads w2 = m_uploads w1" "m_events_configured w2" "m_engine_calls w2 = m_engine_calls w"
    using created(7-9) by auto
  have stored: "lookup_by job_id (m_jobs w2) (job_id ?j) = Some ?j"
    using accepts created(4) dispatched(3)
    by (auto simp: accepts_def lookup_by_def find_Some_iff nth_append intro!: exI [of _ "length (m_jobs w)"])
  have upload: "lookup_by upload_id (m_uploads w2) (job_upload_id ?j) = Some u"
    using accepts created(5) dispatched(4) by (simp add: accepts_def)
  obtain j w3 where delivered: "process ?ps cfg (enough_fuel cfg) ?msg w2 = (Done (Some j), w3)" "delivered_job sha images ?j j w3"
    using undisturbed_run [OF stored _ _ upload dispatched(5) images, of failures cfg ?msg sha vis] budget dispatched(6)
    by (auto simp: job_message_def)
  have "decode_job_message (job_message_bytes ?msg) = Inr ?msg"
    using decode_encoded [of ?msg] rid by (simp add: job_message_def)
  moreover have "same_run ?j j" using delivered(2) by (simp add: delivered_job_def)
  moreover have "delivered_job sha images j j w3"
    using delivered(2) by (auto simp: delivered_job_def same_run_def document_key_def document_object_def)
  ultimately show ?thesis
    using created(1-3) dispatched(1,2) delivered(1) by (intro exI conjI) (auto simp: same_run_def)
qed

lemma accepted_request_delivered_witness:
  "\<exists>d w1 msg w2 j w3.
    create_job (local_ports (\<lambda>d. ''digest'') [''one'', ''two''] 2 None) \<lparr>cjr_upload_id = 7, cjr_options = JDict []\<rparr>
      ''owner'' ''request'' (Some ''key'') (waiting_mem\<lparr>m_jobs := []\<rparr>) = (Done d, w1) \<and> jd_status d = QUEUED \<and>
    dispatch_once (local_ports (\<lambda>d. ''digest'') [''one'', ''two''] 2 None) 100 w1 = (Done 1, w2) \<and>
    m_published w2 = m_published (waiting_mem\<lparr>m_jobs := []\<rparr>) @ [msg] \<and> decode_job_message (job_message_bytes msg) = Inr msg \<and>
    process (local_ports (\<lambda>d. ''digest'') [''one'', ''two''] 2 None) \<lparr>max_page_retries = 2, retry_base_seconds = 1\<rparr>
      (enough_fuel \<lparr>max_page_retries = 2, retry_base_seconds = 1\<rparr>) msg w2 = (Done (Some j), w3) \<and>
    job_id j = jd_job_id d \<and> job_upload_id j = cjr_upload_id \<lparr>cjr_upload_id = 7, cjr_options = JDict []\<rparr> \<and>
    job_request_id j = ''request'' \<and> delivered_job (\<lambda>d. ''digest'') [''one'', ''two''] j j w3"
  by (rule accepted_request_delivered [of _ _ _ waiting_upload])
     (simp_all add: waiting_mem_def waiting_upload_def empty_mem_def lookup_by_def accepts_def unpublished_def)

end
