(* ===== verification/Config.thy ===== *)
theory Config
  imports Wire
begin

text \<open>
  The settings of \<^verbatim>\<open>config.py\<close>: the fields with their defaults and bounds, the normalising
  validators, the inference of the durable adapters and the checks of a production deployment.
  A setting of \<open>Literal\<close> type is its text, checked by \<open>literals_ok\<close>. A duration in seconds of
  type \<open>float\<close> is a number of microseconds. Reading the environment variables is not modelled:
  \<open>load_settings\<close> starts from the typed values.
\<close>

section \<open>Fields\<close>

record settings =
  environment :: string
  host :: string
  port :: int
  max_upload_bytes :: int
  require_gateway_identity :: bool
  dev_api_key_id :: string
  repository_adapter :: string
  storage_adapter :: string
  engine_adapter :: string
  preprocessor_adapter :: string
  database_url :: "string option"
  database_pool_size :: int
  kafka_bootstrap_servers :: "string option"
  kafka_jobs_topic :: string
  kafka_jobs_dlq_topic :: string
  kafka_consumer_group :: string
  kafka_client_id :: string
  s3_endpoint_url :: "string option"
  s3_region :: string
  s3_access_key_id :: "string option"
  s3_secret_access_key :: "string option"
  s3_bucket :: string
  s3_presign_ttl_seconds :: int
  multipart_part_size_bytes :: int
  upload_session_ttl_seconds :: int
  storage_service_url :: "string option"
  storage_service_token :: "string option"
  paddleocr_vl_base_url :: "string option"
  paddleocr_vl_model_name :: string
  paddleocr_vl_engine_version :: string
  paddleocr_vl_endpoint_path :: string
  paddleocr_vl_timeout :: int
  sandbox_base_url :: "string option"
  sandbox_command :: "string option"
  sandbox_exchange_dir :: "string option"
  sandbox_timeout :: int
  sandbox_max_pages :: int
  sandbox_max_pixels :: int
  sandbox_pdf_dpi :: int
  logging_service_url :: "string option"
  logging_service_token :: "string option"
  logging_service_name :: string
  logging_service_timeout :: int
  api_key_pepper :: "string option"
  worker_max_page_retries :: int
  worker_retry_base :: int
  worker_readiness_timeout :: int
  worker_readiness_poll :: int
  job_retention_days :: int
  retention_cleanup_interval :: int
  retention_cleanup_batch_size :: int
  retention_cleanup_lease_seconds :: int
  retention_cleanup_retry_seconds :: int
  retention_cleanup_delete_concurrency :: int
  sse_heartbeat :: int

definition default_settings :: settings where
  "default_settings =
     \<lparr>environment = ''dev'', host = ''0.0.0.0'', port = 13001, max_upload_bytes = 100 * 1024 * 1024,
      require_gateway_identity = False, dev_api_key_id = ''development'',
      repository_adapter = ''memory'', storage_adapter = ''memory'', engine_adapter = ''fake'',
      preprocessor_adapter = ''passthrough'', database_url = None, database_pool_size = 10,
      kafka_bootstrap_servers = None, kafka_jobs_topic = ''monkeyocr.events.jobs'',
      kafka_jobs_dlq_topic = ''monkeyocr.events.jobs.dlq'',
      kafka_consumer_group = ''monkeyocr-ocr-workers'', kafka_client_id = ''monkeyocr-backend'',
      s3_endpoint_url = None, s3_region = ''us-east-1'', s3_access_key_id = None,
      s3_secret_access_key = None, s3_bucket = ''monkeyocr-documents'',
      s3_presign_ttl_seconds = 900, multipart_part_size_bytes = 8 * 1024 * 1024,
      upload_session_ttl_seconds = 3600, storage_service_url = None, storage_service_token = None,
      paddleocr_vl_base_url = None, paddleocr_vl_model_name = ''PaddleOCR-VL-1.6'',
      paddleocr_vl_engine_version = ''3.6'', paddleocr_vl_endpoint_path = ''/layout-parsing'',
      paddleocr_vl_timeout = 300 * 1000000, sandbox_base_url = None, sandbox_command = None,
      sandbox_exchange_dir = None, sandbox_timeout = 120 * 1000000, sandbox_max_pages = 500,
      sandbox_max_pixels = 100000000, sandbox_pdf_dpi = 180, logging_service_url = None,
      logging_service_token = None, logging_service_name = ''monkeyocr-backend'',
      logging_service_timeout = 2 * 1000000, api_key_pepper = None, worker_max_page_retries = 3,
      worker_retry_base = 1000000, worker_readiness_timeout = 900 * 1000000,
      worker_readiness_poll = 5 * 1000000, job_retention_days = 30,
      retention_cleanup_interval = 300 * 1000000, retention_cleanup_batch_size = 20,
      retention_cleanup_lease_seconds = 3600, retention_cleanup_retry_seconds = 30,
      retention_cleanup_delete_concurrency = 8, sse_heartbeat = 15 * 1000000\<rparr>"

definition literals_ok :: "settings \<Rightarrow> bool" where
  "literals_ok s \<longleftrightarrow>
     environment s \<in> {''dev'', ''test'', ''production''} \<and>
     repository_adapter s \<in> {''memory'', ''postgres''} \<and>
     storage_adapter s \<in> {''memory'', ''s3'', ''storage-service''} \<and>
     engine_adapter s \<in> {''fake'', ''paddleocr-vl''} \<and>
     preprocessor_adapter s \<in> {''passthrough'', ''sandbox''}"

definition bounds_ok :: "settings \<Rightarrow> bool" where
  "bounds_ok s \<longleftrightarrow>
     2 \<le> database_pool_size s \<and> database_pool_size s \<le> 100 \<and>
     60 \<le> s3_presign_ttl_seconds s \<and> s3_presign_ttl_seconds s \<le> 86400 \<and>
     5 * 1024 * 1024 \<le> multipart_part_size_bytes s \<and> 60 \<le> upload_session_ttl_seconds s \<and>
     1 \<le> sandbox_max_pages s \<and> sandbox_max_pages s \<le> 5000 \<and> 1000000 \<le> sandbox_max_pixels s \<and>
     72 \<le> sandbox_pdf_dpi s \<and> sandbox_pdf_dpi s \<le> 600 \<and>
     0 < logging_service_timeout s \<and> logging_service_timeout s \<le> 30 * 1000000 \<and>
     0 \<le> worker_max_page_retries s \<and> 0 < worker_readiness_timeout s \<and>
     0 < worker_readiness_poll s \<and> 1 \<le> job_retention_days s \<and>
     0 < retention_cleanup_interval s \<and> 1 \<le> retention_cleanup_batch_size s \<and>
     retention_cleanup_batch_size s \<le> 1000 \<and> 1 \<le> retention_cleanup_lease_seconds s \<and>
     1 \<le> retention_cleanup_retry_seconds s \<and> 1 \<le> retention_cleanup_delete_concurrency s \<and>
     retention_cleanup_delete_concurrency s \<le> 64"

section \<open>Validators\<close>

definition normalize_engine :: "string \<Rightarrow> string" where
  "normalize_engine value =
     (if map to_lower value \<in> {''paddle'', ''paddleocr'', ''paddleocr_vl'', ''paddleocr_vl_hps''}
      then ''paddleocr-vl'' else value)"

definition normalize_environment :: "string \<Rightarrow> string" where
  "normalize_environment value = (if value = ''development'' then ''dev'' else value)"

text \<open>\<open>s.replace(pat, rep)\<close> for a non-empty pattern; the counter skips the matched text.\<close>

fun replace_all_from :: "nat \<Rightarrow> string \<Rightarrow> string \<Rightarrow> string \<Rightarrow> string" where
  "replace_all_from k pat rep [] = []"
| "replace_all_from (Suc k) pat rep (c # cs) = replace_all_from k pat rep cs"
| "replace_all_from 0 pat rep (c # cs) =
     (if starts_with pat (c # cs) then rep @ replace_all_from (length pat - 1) pat rep cs
      else c # replace_all_from 0 pat rep cs)"

definition normalize_asyncpg_url :: "string option \<Rightarrow> string option" where
  "normalize_asyncpg_url value =
     map_option (\<lambda>u. replace_all_from 0 ''postgresql+asyncpg://'' ''postgresql://''
       (replace_all_from 0 ''postgresql+psycopg://'' ''postgresql://'' u)) value"

text \<open>Truth of an optional text: present and not empty.\<close>

definition given :: "string option \<Rightarrow> bool" where
  "given v \<longleftrightarrow> v \<noteq> None \<and> v \<noteq> Some []"

definition infer_storage :: "settings \<Rightarrow> string" where
  "infer_storage s =
     (if given (storage_service_url s) \<and> storage_adapter s = ''memory'' \<and> environment s \<noteq> ''test''
      then ''storage-service''
      else if given (s3_endpoint_url s) \<and> storage_adapter s = ''memory'' \<and> environment s \<noteq> ''test''
      then ''s3'' else storage_adapter s)"

definition infer_durable_adapters :: "settings \<Rightarrow> settings" where
  "infer_durable_adapters s =
     s\<lparr>repository_adapter :=
         (if given (database_url s) \<and> repository_adapter s = ''memory'' \<and> environment s \<noteq> ''test''
          then ''postgres'' else repository_adapter s),
       storage_adapter := infer_storage s,
       preprocessor_adapter :=
         (if (given (sandbox_exchange_dir s) \<or> given (sandbox_command s) \<or> given (sandbox_base_url s))
             \<and> preprocessor_adapter s = ''passthrough'' \<and> environment s = ''production''
          then ''sandbox'' else preprocessor_adapter s),
       require_gateway_identity := (environment s = ''production'' \<or> require_gateway_identity s)\<rparr>"

text \<open>A secret of production: at least 32 characters and not the placeholder.\<close>

definition weak_secret :: "string option \<Rightarrow> bool" where
  "weak_secret v =
     (case v of None \<Rightarrow> False
      | Some t \<Rightarrow> contains ''change-me'' (map to_lower t) \<or> length t < 32)"

text \<open>The checks in their order; the first one that holds raises its message.\<close>

definition production_checks :: "settings \<Rightarrow> (bool \<times> string) list" where
  "production_checks s =
     [(repository_adapter s \<noteq> ''postgres'' \<or> \<not> given (database_url s),
       ''production requires PostgreSQL repository configuration''),
      (storage_adapter s = ''storage-service'' \<and>
         (\<not> given (storage_service_url s) \<or> \<not> given (storage_service_token s)),
       ''production storage-service requires URL and token''),
      (storage_adapter s = ''s3'' \<and> \<not> given (s3_endpoint_url s),
       ''production S3 adapter requires an endpoint''),
      (storage_adapter s \<noteq> ''storage-service'' \<and> storage_adapter s \<noteq> ''s3'',
       ''production requires durable object storage''),
      (engine_adapter s \<noteq> ''paddleocr-vl'' \<or> \<not> given (paddleocr_vl_base_url s),
       ''production requires the PaddleOCR-VL engine adapter''),
      (preprocessor_adapter s \<noteq> ''sandbox'' \<or>
         \<not> (given (sandbox_exchange_dir s) \<or> given (sandbox_command s) \<or> given (sandbox_base_url s)),
       ''production requires the sandbox preprocessor''),
      (\<not> require_gateway_identity s, ''production must require gateway identity''),
      (\<not> given (api_key_pepper s), ''production requires API_KEY_PEPPER''),
      (weak_secret (api_key_pepper s), ''production API_KEY_PEPPER must be a non-placeholder secret''),
      (\<not> given (logging_service_url s) \<or> \<not> given (logging_service_token s),
       ''production requires the logging service URL and token''),
      (weak_secret (logging_service_token s), ''production logging token must be a non-placeholder secret''),
      (storage_adapter s = ''storage-service'' \<and> given (storage_service_token s) \<and>
         weak_secret (storage_service_token s),
       ''production storage token must be a non-placeholder secret''),
      (\<not> given (kafka_bootstrap_servers s), ''production requires Kafka brokers'')]"

definition production_must_not_use_dev_adapters :: "settings \<Rightarrow> exn + settings" where
  "production_must_not_use_dev_adapters s =
     (if environment s \<noteq> ''production'' then Inr s
      else
        (case find fst (production_checks s) of
           Some (_, message) \<Rightarrow> Inl (ValueError message)
         | None \<Rightarrow> Inr s))"

definition load_settings :: "settings \<Rightarrow> exn + settings" where
  "load_settings raw =
     (let s = raw\<lparr>engine_adapter := normalize_engine (engine_adapter raw),
                  environment := normalize_environment (environment raw),
                  database_url := normalize_asyncpg_url (database_url raw)\<rparr>
      in if \<not> literals_ok s \<or> \<not> bounds_ok s then Inl (OtherError ''ValidationError'')
         else production_must_not_use_dev_adapters (infer_durable_adapters s))"

lemma find_fst_None: "find fst xs = None \<longleftrightarrow> list_all (\<lambda>(b, _). \<not> b) xs"
  by (induction xs) auto

lemma load_settings_production:
  assumes "load_settings raw = Inr s" and "environment s = ''production''"
  shows "list_all (\<lambda>(b, _). \<not> b) (production_checks s)"
proof -
  have "production_must_not_use_dev_adapters s' = Inr s \<Longrightarrow> s' = s" for s'
    by (auto simp: production_must_not_use_dev_adapters_def split: if_splits option.splits)
  then have "production_must_not_use_dev_adapters s = Inr s"
    using assms(1) by (auto simp: load_settings_def Let_def split: if_splits)
  with assms(2) show ?thesis
    unfolding find_fst_None [symmetric]
    by (auto simp: production_must_not_use_dev_adapters_def split: option.splits)
qed

end
