(* ===== verification/Tables.thy ===== *)
theory Tables
  imports Wire "HOL-Library.Product_Lexorder" "HOL-Library.List_Lexorder" "HOL-Library.Char_ord"
begin

text \<open>
  The PostgreSQL schema of the initial migration
  (\<^verbatim>\<open>alembic/versions/20260711_0001_initial_ocr_platform.py\<close>) and the connection that the
  repositories use. A table is the list of its rows, a row a record of the columns that the
  backend reads or writes; statements are functions on the lists. A row that breaks a column
  length, a check, a key or a reference makes its statement raise \<^const>\<open>SqlError\<close> with the SQL
  state and the constraint. Integer column ranges are not modelled.

  The database is a record that can be extended, so that every statement runs in any world that
  contains the tables. \<open>db_now\<close> is the clock: the server's \<open>now()\<close> reads it, the backend's own
  \<open>datetime.now(UTC)\<close> reads and advances it.
\<close>

section \<open>Rows\<close>

record api_key_row =
  ak_id :: uuid
  ak_name :: string
  ak_key_prefix :: string
  ak_key_hash :: bytes
  ak_salt :: bytes
  ak_status :: string
  ak_last_used_at :: "time option"
  ak_revoked_at :: "time option"
  ak_created_at :: time
  ak_updated_at :: time

record upload_row =
  ur_id :: uuid
  ur_api_key_id :: uuid
  ur_object_key :: string
  ur_filename :: string
  ur_declared_content_type :: string
  ur_detected_content_type :: "string option"
  ur_expected_sha256 :: string
  ur_verified_sha256 :: "string option"
  ur_expected_size :: int
  ur_verified_size :: "int option"
  ur_multipart_upload_id :: "string option"
  ur_status :: string
  ur_expires_at :: time
  ur_claim_token :: "uuid option"
  ur_lease_expires_at :: "time option"
  ur_completed_at :: "time option"
  ur_created_at :: time
  ur_updated_at :: time

record job_row =
  jr_id :: uuid
  jr_api_key_id :: uuid
  jr_upload_id :: uuid
  jr_request_id :: string
  jr_idempotency_key :: "string option"
  jr_status :: string
  jr_current_attempt :: int
  jr_revision :: int
  jr_total_pages :: "int option"
  jr_completed_pages :: int
  jr_progress_percent :: int
  jr_options :: string
  jr_cancel_requested_at :: "time option"
  jr_finished_at :: "time option"
  jr_expires_at :: time
  jr_claim_token :: "uuid option"
  jr_lease_expires_at :: "time option"
  jr_last_internal_code :: int
  jr_last_error_reason :: "string option"
  jr_created_at :: time
  jr_updated_at :: time

record attempt_row =
  ar_job_id :: uuid
  ar_attempt :: int
  ar_status :: string
  ar_started_at :: "time option"
  ar_finished_at :: "time option"
  ar_engine_name :: "string option"
  ar_engine_version :: "string option"
  ar_model_name :: "string option"

record page_row =
  pr_job_id :: uuid
  pr_attempt :: int
  pr_page_number :: int
  pr_status :: string
  pr_retry_count :: int
  pr_source_object_key :: string
  pr_result_object_key :: "string option"
  pr_visualization_object_key :: "string option"
  pr_result_sha256 :: "string option"
  pr_last_internal_code :: int
  pr_last_error_reason :: "string option"

record artifact_row =
  tr_job_id :: uuid
  tr_attempt :: int
  tr_page_number :: "int option"
  tr_kind :: string
  tr_object_key :: string
  tr_content_type :: string
  tr_size_bytes :: int
  tr_sha256 :: string

record outbox_row =
  or_id :: uuid
  or_aggregate_type :: string
  or_aggregate_id :: uuid
  or_event_type :: string
  or_topic :: string
  or_partition_key :: string
  or_schema_version :: int
  or_payload :: string
  or_published_at :: "time option"
  or_publish_attempts :: int
  or_created_at :: time

record event_row =
  er_job_id :: uuid
  er_sequence :: int
  er_event_type :: string
  er_internal_code :: int
  er_payload :: string
  er_created_at :: time

section \<open>The database\<close>

record db =
  db_up :: bool
  db_api_keys :: "api_key_row list"
  db_uploads :: "upload_row list"
  db_jobs :: "job_row list"
  db_attempts :: "attempt_row list"
  db_pages :: "page_row list"
  db_artifacts :: "artifact_row list"
  db_outbox :: "outbox_row list"
  db_events :: "event_row list"
  db_now :: time
  db_next_id :: nat

type_synonym ('z, 'a) sql = "('z db_scheme, exn, 'a) prog"

definition empty_db :: db where
  "empty_db = \<lparr>db_up = True, db_api_keys = [], db_uploads = [], db_jobs = [], db_attempts = [],
     db_pages = [], db_artifacts = [], db_outbox = [], db_events = [], db_now = 0, db_next_id = 1\<rparr>"

text \<open>Taking a connection from the pool fails while the server is away.\<close>

definition connected :: "('z, 'a) sql \<Rightarrow> ('z, 'a) sql" where
  "connected m w = (if db_up w then m w else (Raised (OSError ''ConnectionRefusedError''), w))"

text \<open>A transaction that raises leaves every table as it was.\<close>

definition rollback :: "'z db_scheme \<Rightarrow> 'z db_scheme \<Rightarrow> 'z db_scheme" where
  "rollback w w' = w'\<lparr>db_api_keys := db_api_keys w, db_uploads := db_uploads w,
     db_jobs := db_jobs w, db_attempts := db_attempts w, db_pages := db_pages w,
     db_artifacts := db_artifacts w, db_outbox := db_outbox w, db_events := db_events w\<rparr>"

definition transaction :: "('z, 'a) sql \<Rightarrow> ('z, 'a) sql" where
  "transaction m w =
     (case m w of
        (Done x, w') \<Rightarrow> (Done x, w')
      | (r, w') \<Rightarrow> (r, rollback w w'))"

definition clock_now :: "('z, time) sql" where
  "clock_now w = (Done (db_now w), w\<lparr>db_now := db_now w + 1\<rparr>)"

definition fresh_uuid :: "('z, uuid) sql" where
  "fresh_uuid w = (Done (of_nat (db_next_id w)), w\<lparr>db_next_id := db_next_id w + 1\<rparr>)"

definition sql_get :: "('z db_scheme \<Rightarrow> 'a) \<Rightarrow> ('z, 'a) sql" where
  "sql_get f w = (Done (f w), w)"

definition sql_put :: "('z db_scheme \<Rightarrow> 'z db_scheme) \<Rightarrow> ('z, unit) sql" where
  "sql_put f w = (Done (), f w)"

definition sql_check :: "bool \<Rightarrow> string \<Rightarrow> string \<Rightarrow> ('z, unit) sql" where
  "sql_check ok state constraint w =
     (if ok then (Done (), w) else (Raised (SqlError state constraint), w))"

section \<open>Constraints\<close>

text \<open>A \<open>VARCHAR(n)\<close> counts characters.\<close>

definition char_count :: "string \<Rightarrow> nat" where
  "char_count s = (case utf8_points s of Some ps \<Rightarrow> length ps | None \<Rightarrow> length s)"

definition fits :: "nat \<Rightarrow> string \<Rightarrow> bool" where
  "fits n s \<longleftrightarrow> char_count s \<le> n"

definition fits_opt :: "nat \<Rightarrow> string option \<Rightarrow> bool" where
  "fits_opt n s \<longleftrightarrow> (case s of None \<Rightarrow> True | Some t \<Rightarrow> fits n t)"

definition api_key_row_ok :: "api_key_row \<Rightarrow> bool" where
  "api_key_row_ok r \<longleftrightarrow> fits 120 (ak_name r) \<and> fits 24 (ak_key_prefix r) \<and> fits 24 (ak_status r) \<and>
     ak_status r \<in> {''active'', ''revoked''}"

definition upload_row_ok :: "upload_row \<Rightarrow> bool" where
  "upload_row_ok r \<longleftrightarrow> fits 160 (ur_declared_content_type r) \<and>
     fits_opt 160 (ur_detected_content_type r) \<and> fits 64 (ur_expected_sha256 r) \<and>
     fits_opt 64 (ur_verified_sha256 r) \<and> fits 32 (ur_status r) \<and> 0 < ur_expected_size r \<and>
     (ur_claim_token r = None \<longleftrightarrow> ur_lease_expires_at r = None)"

definition job_row_ok :: "job_row \<Rightarrow> bool" where
  "job_row_ok r \<longleftrightarrow> fits 128 (jr_request_id r) \<and> fits_opt 160 (jr_idempotency_key r) \<and>
     fits 32 (jr_status r) \<and> fits_opt 160 (jr_last_error_reason r) \<and> 0 < jr_current_attempt r \<and>
     0 \<le> jr_completed_pages r \<and> 0 \<le> jr_progress_percent r \<and> jr_progress_percent r \<le> 10000 \<and>
     (jr_claim_token r = None \<longleftrightarrow> jr_lease_expires_at r = None)"

definition attempt_row_ok :: "attempt_row \<Rightarrow> bool" where
  "attempt_row_ok r \<longleftrightarrow> fits 32 (ar_status r) \<and> fits_opt 80 (ar_engine_name r) \<and>
     fits_opt 80 (ar_engine_version r) \<and> fits_opt 160 (ar_model_name r)"

definition page_row_ok :: "page_row \<Rightarrow> bool" where
  "page_row_ok r \<longleftrightarrow> fits 32 (pr_status r) \<and> fits_opt 64 (pr_result_sha256 r) \<and>
     fits_opt 160 (pr_last_error_reason r) \<and> 0 < pr_page_number r \<and> 0 \<le> pr_retry_count r"

definition artifact_row_ok :: "artifact_row \<Rightarrow> bool" where
  "artifact_row_ok r \<longleftrightarrow> fits 48 (tr_kind r) \<and> fits 160 (tr_content_type r) \<and> fits 64 (tr_sha256 r)"

definition outbox_row_ok :: "outbox_row \<Rightarrow> bool" where
  "outbox_row_ok r \<longleftrightarrow> fits 80 (or_aggregate_type r) \<and> fits 120 (or_event_type r) \<and>
     fits 200 (or_topic r) \<and> fits 200 (or_partition_key r)"

text \<open>
  The unique keys and the references. \<open>uq_ocr_artifacts_logical\<close> treats missing page numbers as
  distinct, and \<open>uq_ocr_jobs_api_key_idempotency\<close> ignores jobs without a key.
\<close>

definition schema_ok :: "'z db_scheme \<Rightarrow> bool" where
  "schema_ok w \<longleftrightarrow>
     distinct (map ak_id (db_api_keys w)) \<and> distinct (map ak_key_prefix (db_api_keys w)) \<and>
     distinct (map ur_id (db_uploads w)) \<and> distinct (map ur_object_key (db_uploads w)) \<and>
     distinct (map jr_id (db_jobs w)) \<and>
     distinct (map (\<lambda>r. (jr_api_key_id r, jr_idempotency_key r))
       (filter (\<lambda>r. jr_idempotency_key r \<noteq> None) (db_jobs w))) \<and>
     distinct (map (\<lambda>r. (ar_job_id r, ar_attempt r)) (db_attempts w)) \<and>
     distinct (map (\<lambda>r. (pr_job_id r, pr_attempt r, pr_page_number r)) (db_pages w)) \<and>
     distinct (map (\<lambda>r. (er_job_id r, er_sequence r)) (db_events w)) \<and>
     ur_api_key_id ` set (db_uploads w) \<subseteq> ak_id ` set (db_api_keys w) \<and>
     jr_api_key_id ` set (db_jobs w) \<subseteq> ak_id ` set (db_api_keys w) \<and>
     jr_upload_id ` set (db_jobs w) \<subseteq> ur_id ` set (db_uploads w) \<and>
     ar_job_id ` set (db_attempts w) \<subseteq> jr_id ` set (db_jobs w) \<and>
     pr_job_id ` set (db_pages w) \<subseteq> jr_id ` set (db_jobs w) \<and>
     tr_job_id ` set (db_artifacts w) \<subseteq> jr_id ` set (db_jobs w) \<and>
     er_job_id ` set (db_events w) \<subseteq> jr_id ` set (db_jobs w)"

section \<open>Statements on tables\<close>

definition update_where :: "('r \<Rightarrow> bool) \<Rightarrow> ('r \<Rightarrow> 'r) \<Rightarrow> 'r list \<Rightarrow> 'r list" where
  "update_where p f rows = map (\<lambda>r. if p r then f r else r) rows"

definition count_where :: "('r \<Rightarrow> bool) \<Rightarrow> 'r list \<Rightarrow> nat" where
  "count_where p rows = length (filter p rows)"

lemma update_where_keys:
  "(\<And>r. p r \<Longrightarrow> key (f r) = key r) \<Longrightarrow> map key (update_where p f rows) = map key rows"
  by (simp add: update_where_def)

lemma set_update_where: "set (update_where p f rows) = (\<lambda>r. if p r then f r else r) ` set rows"
  by (simp add: update_where_def)

lemma find_update_where:
  assumes "\<And>r. p r \<Longrightarrow> q (f r) = q r"
  shows "find q (update_where p f rows) = map_option (\<lambda>r. if p r then f r else r) (find q rows)"
  using assms by (induction rows) (auto simp: update_where_def)

lemma filter_update_where:
  assumes "\<And>r. p r \<Longrightarrow> q (f r) = q r"
  shows "filter q (update_where p f rows) = update_where p f (filter q rows)"
  using assms by (induction rows) (auto simp: update_where_def)

lemma update_where_none: "(\<And>r. r \<in> set rows \<Longrightarrow> \<not> p r) \<Longrightarrow> update_where p f rows = rows"
  by (induction rows) (auto simp: update_where_def)

lemma sql_simps [simp, prog_simps]:
  "sql_get g w = (Done (g w), w)" "sql_put h w = (Done (), h w)"
  "clock_now w = (Done (db_now w), w\<lparr>db_now := db_now w + 1\<rparr>)"
  "fresh_uuid w = (Done (of_nat (db_next_id w)), w\<lparr>db_next_id := db_next_id w + 1\<rparr>)"
  by (simp_all add: sql_get_def sql_put_def clock_now_def fresh_uuid_def)

lemma rollback_sel [simp]:
  "db_api_keys (rollback w w') = db_api_keys w" "db_uploads (rollback w w') = db_uploads w"
  "db_jobs (rollback w w') = db_jobs w" "db_attempts (rollback w w') = db_attempts w"
  "db_pages (rollback w w') = db_pages w" "db_artifacts (rollback w w') = db_artifacts w"
  "db_outbox (rollback w w') = db_outbox w" "db_events (rollback w w') = db_events w"
  by (simp_all add: rollback_def)

lemma transaction_Done: "transaction m w = (Done x, w') \<longleftrightarrow> m w = (Done x, w')"
  by (auto simp: transaction_def split: prod.splits outcome.splits)

lemma connected_Done: "connected m w = (Done x, w') \<longleftrightarrow> db_up w \<and> m w = (Done x, w')"
  by (auto simp: connected_def)

lemma bind_Done_iff:
  "bind_prog m k w = (Done y, w') \<longleftrightarrow> (\<exists>x w1. m w = (Done x, w1) \<and> k x w1 = (Done y, w'))"
  by (auto simp: bind_prog_def split: prod.splits outcome.splits)

lemma sql_check_Done: "sql_check ok st c w = (Done x, w') \<longleftrightarrow> ok \<and> w' = w"
  by (auto simp: sql_check_def)

lemmas sql_steps = transaction_Done connected_Done bind_Done_iff sql_check_Done

end
