(* ===== verification/Persistence.thy ===== *)
theory Persistence
  imports Tables Services
begin

text \<open>
  The repositories of \<^verbatim>\<open>infrastructure/persistence.py\<close> over the tables: uploads, jobs with
  their attempts, pages and artifacts, the outbox and the job events. The attributes of the
  repository objects are the record \<open>pg\<close>; \<open>pg_jsonb\<close> is the server's normal form of a JSON text
  (\<open>None\<close>: refused), of which nothing is assumed. Where \<open>ORDER BY\<close> leaves ties, the rows keep the order of the table.
\<close>

record pg =
  pg_topic :: string
  pg_retention_days :: int
  pg_upload_ttl :: int
  pg_jsonb :: "string \<Rightarrow> string option"

definition days :: "int \<Rightarrow> time" where
  "days n = n * 86400000000"

definition sql_json :: "pg \<Rightarrow> json \<Rightarrow> ('z, string) sql" where
  "sql_json cfg v =
     (case pg_jsonb cfg (dumps v) of
        Some t \<Rightarrow> ret t
      | None \<Rightarrow> raise_exc (SqlError ''22P02'' []))"

text \<open>\<open>_decode_json(value)\<close> of a text column.\<close>

definition decode_json :: "string \<Rightarrow> exn + json" where
  "decode_json t = (case loads t of Some v \<Rightarrow> Inr v | None \<Rightarrow> Inl JSONDecodeError)"

definition parse_owner :: "string \<Rightarrow> exn + uuid" where
  "parse_owner s =
     (case uuid_parse s of Some u \<Rightarrow> Inr u
      | None \<Rightarrow> Inl (ValueError ''badly formed hexadecimal UUID string''))"

text \<open>The members of an enum by their text; an unknown text raises.\<close>

definition enum_of :: "('e \<Rightarrow> string) \<Rightarrow> 'e list \<Rightarrow> string \<Rightarrow> exn + 'e" where
  "enum_of str members s =
     (case find (\<lambda>x. str x = s) members of
        Some x \<Rightarrow> Inr x | None \<Rightarrow> Inl (ValueError ''not a valid enum value''))"

definition upload_state_of :: "string \<Rightarrow> exn + upload_state" where
  "upload_state_of = enum_of upload_state_str [UPLOADING, COMPLETED, REJECTED]"

definition job_state_of :: "string \<Rightarrow> exn + job_state" where
  "job_state_of = enum_of job_state_str
     [QUEUED, PREPROCESSING, RUNNING, ASSEMBLING, CANCEL_REQUESTED, CANCELLED, RETRYING, SUCCEEDED, FAILED]"

definition page_state_of :: "string \<Rightarrow> exn + page_state" where
  "page_state_of = enum_of page_state_str [P_PENDING, P_RUNNING, P_SUCCEEDED, P_FAILED]"

definition artifact_kind_of :: "string \<Rightarrow> exn + artifact_kind" where
  "artifact_kind_of = enum_of artifact_kind_str [MARKDOWN, STRUCTURED_JSON, PAGE_IMAGE, VISUALIZATION, MANIFEST]"

lemma enum_of_str:
  assumes "\<And>x y. str x = str y \<longleftrightarrow> x = y" and "x \<in> set members"
  shows "enum_of str members (str x) = Inr x"
proof -
  have "find (\<lambda>y. str y = str x) members = Some x"
    using assms(2) by (induction members) (auto simp: assms(1))
  then show ?thesis by (simp add: enum_of_def)
qed

lemma state_of_str [simp]:
  "upload_state_of (upload_state_str u) = Inr u" "job_state_of (job_state_str s) = Inr s"
  "page_state_of (page_state_str p) = Inr p" "artifact_kind_of (artifact_kind_str k) = Inr k"
  unfolding upload_state_of_def job_state_of_def page_state_of_def artifact_kind_of_def
  subgoal by (rule enum_of_str) (cases u; simp)+
  subgoal by (rule enum_of_str) (cases s; simp)+
  subgoal by (rule enum_of_str) (cases p; simp)+
  subgoal by (rule enum_of_str) (cases k; simp)+
  done

fun map_sum :: "('a \<Rightarrow> 'e + 'b) \<Rightarrow> 'a list \<Rightarrow> 'e + 'b list" where
  "map_sum f [] = Inr []"
| "map_sum f (x # xs) = bind_sum (f x) (\<lambda>y. bind_sum (map_sum f xs) (\<lambda>ys. Inr (y # ys)))"

lemma map_sum_Inr: "(\<And>x. x \<in> set xs \<Longrightarrow> f x = Inr (g x)) \<Longrightarrow> map_sum f xs = Inr (map g xs)"
  by (induction xs) simp_all

section \<open>Uploads\<close>

definition upload_db_status :: "upload_state \<Rightarrow> string" where
  "upload_db_status s = (if s = UPLOADING then ''pending'' else upload_state_str s)"

definition upload_of_row :: "upload_row \<Rightarrow> exn + upload" where
  "upload_of_row r =
     bind_sum (upload_state_of (if ur_status r = ''pending'' then ''uploading'' else ur_status r)) (\<lambda>state.
     Inr \<lparr>upload_owner_id = uuid_str (ur_api_key_id r), upload_filename = ur_filename r,
          upload_size_bytes = ur_expected_size r, upload_content_type = ur_declared_content_type r,
          upload_sha256 = ur_expected_sha256 r, upload_object_key = ur_object_key r,
          upload_id = ur_id r, upload_state = state, upload_created_at = ur_created_at r,
          upload_completed_at = ur_completed_at r,
          upload_detected_content_type = ur_detected_content_type r,
          upload_multipart_upload_id = ur_multipart_upload_id r\<rparr>)"

definition new_upload_row :: "pg \<Rightarrow> uuid \<Rightarrow> upload \<Rightarrow> upload_row" where
  "new_upload_row cfg owner u =
     \<lparr>ur_id = upload_id u, ur_api_key_id = owner, ur_object_key = upload_object_key u,
      ur_filename = upload_filename u, ur_declared_content_type = upload_content_type u,
      ur_detected_content_type = None, ur_expected_sha256 = upload_sha256 u,
      ur_verified_sha256 = None, ur_expected_size = upload_size_bytes u, ur_verified_size = None,
      ur_multipart_upload_id = upload_multipart_upload_id u,
      ur_status = upload_db_status (upload_state u),
      ur_expires_at = upload_created_at u + pg_upload_ttl cfg * 1000000,
      ur_claim_token = None, ur_lease_expires_at = None, ur_completed_at = None,
      ur_created_at = upload_created_at u, ur_updated_at = upload_created_at u\<rparr>"

definition sql_uploads_add :: "pg \<Rightarrow> upload \<Rightarrow> ('z, unit) sql" where
  "sql_uploads_add cfg u =
     connected
       (bind_prog (lift_sum (parse_owner (upload_owner_id u))) (\<lambda>owner.
        let row = new_upload_row cfg owner u
        in bind_prog (sql_check (upload_row_ok row) ''23514'' ''upload_sessions'') (\<lambda>_.
           bind_prog (sql_get db_uploads) (\<lambda>rows.
           bind_prog (sql_check (ur_id row \<notin> ur_id ` set rows) ''23505'' ''upload_sessions_pkey'') (\<lambda>_.
           bind_prog (sql_check (ur_object_key row \<notin> ur_object_key ` set rows)
              ''23505'' ''uq_upload_sessions_object_key'') (\<lambda>_.
           bind_prog (sql_get db_api_keys) (\<lambda>keys.
           bind_prog (sql_check (owner \<in> ak_id ` set keys) ''23503''
              ''upload_sessions_api_key_id_fkey'') (\<lambda>_.
           sql_put (\<lambda>w. w\<lparr>db_uploads := db_uploads w @ [row]\<rparr>)))))))))"

definition sql_uploads_get :: "uuid \<Rightarrow> ('z, upload option) sql" where
  "sql_uploads_get uid =
     bind_prog
       (connected (sql_get (\<lambda>w. find (\<lambda>r. ur_id r = uid \<and> ur_claim_token r = None) (db_uploads w))))
       (\<lambda>row.
     case row of
       None \<Rightarrow> ret None
     | Some r \<Rightarrow> bind_prog (lift_sum (upload_of_row r)) (\<lambda>u. ret (Some u)))"

definition set_upload_row :: "upload \<Rightarrow> time \<Rightarrow> upload_row \<Rightarrow> upload_row" where
  "set_upload_row u now r =
     (let status = upload_db_status (upload_state u) in
      r\<lparr>ur_status := status, ur_detected_content_type := upload_detected_content_type u,
        ur_verified_sha256 := (if status = ''completed'' then Some (ur_expected_sha256 r)
                               else ur_verified_sha256 r),
        ur_verified_size := (if status = ''completed'' then Some (ur_expected_size r)
                             else ur_verified_size r),
        ur_completed_at := upload_completed_at u, ur_updated_at := now\<rparr>)"

definition sql_uploads_save :: "upload \<Rightarrow> ('z, unit) sql" where
  "sql_uploads_save u =
     bind_prog
       (connected
         (bind_prog clock_now (\<lambda>now.
          let hit = (\<lambda>r. ur_id r = upload_id u \<and> ur_claim_token r = None)
          in bind_prog (sql_get (\<lambda>w. filter hit (db_uploads w))) (\<lambda>rows.
             bind_prog (sql_check (\<forall>r \<in> set rows. upload_row_ok (set_upload_row u now r))
                ''23514'' ''upload_sessions'') (\<lambda>_.
             bind_prog (sql_put (\<lambda>w. w\<lparr>db_uploads :=
                update_where hit (set_upload_row u now) (db_uploads w)\<rparr>)) (\<lambda>_.
             ret (length rows)))))))
       (\<lambda>n. if n \<noteq> 1 then raise_exc (RuntimeError ''upload is unavailable for retention cleanup'')
            else ret ())"

section \<open>Jobs: reading\<close>

definition page_of_row :: "page_row \<Rightarrow> exn + page" where
  "page_of_row r =
     bind_sum (page_state_of (pr_status r)) (\<lambda>state.
     Inr \<lparr>page_number = pr_page_number r, page_input_object_key = pr_source_object_key r,
          page_state = state, page_processing_attempts = nat (pr_retry_count r),
          page_markdown = None, page_structured = None,
          page_result_object_key = pr_result_object_key r, page_result_sha256 = pr_result_sha256 r,
          page_visualization_object_key = pr_visualization_object_key r,
          page_internal_code = pr_last_internal_code r, page_error_reason = pr_last_error_reason r\<rparr>)"

definition artifact_of_row :: "artifact_row \<Rightarrow> exn + artifact" where
  "artifact_of_row r =
     bind_sum (artifact_kind_of (tr_kind r)) (\<lambda>kind.
     Inr \<lparr>artifact_kind = kind, artifact_object_key = tr_object_key r, artifact_sha256 = tr_sha256 r,
          artifact_size_bytes = tr_size_bytes r, artifact_content_type = tr_content_type r,
          artifact_page_number = tr_page_number r\<rparr>)"

text \<open>The left join gives no attempt columns when the attempt has no row.\<close>

definition job_of_rows ::
    "job_row \<Rightarrow> attempt_row option \<Rightarrow> page_row list \<Rightarrow> artifact_row list \<Rightarrow> exn + job" where
  "job_of_rows r a pages artifacts =
     bind_sum (decode_json (jr_options r)) (\<lambda>options.
     bind_sum (job_state_of (jr_status r)) (\<lambda>state.
     bind_sum (map_sum page_of_row pages) (\<lambda>ps.
     bind_sum (map_sum artifact_of_row artifacts) (\<lambda>ts.
     Inr \<lparr>job_owner_id = uuid_str (jr_api_key_id r), job_upload_id = jr_upload_id r,
          job_request_id = jr_request_id r, job_options = or_empty options, job_id = jr_id r,
          job_state = state, job_attempt = jr_current_attempt r, job_revision = jr_revision r,
          job_pages = ps, job_artifacts = ts, job_idempotency_key = jr_idempotency_key r,
          job_engine_name = Option.bind a ar_engine_name,
          job_engine_version = Option.bind a ar_engine_version,
          job_model_name = Option.bind a ar_model_name,
          job_internal_code = jr_last_internal_code r, job_error_reason = jr_last_error_reason r,
          job_created_at = jr_created_at r, job_updated_at = jr_updated_at r,
          job_started_at = Option.bind a ar_started_at, job_completed_at = jr_finished_at r\<rparr>))))"

definition of_attempt :: "uuid \<Rightarrow> int \<Rightarrow> attempt_row \<Rightarrow> bool" where
  "of_attempt jid n a \<longleftrightarrow> ar_job_id a = jid \<and> ar_attempt a = n"

definition page_rows :: "uuid \<Rightarrow> int \<Rightarrow> 'z db_scheme \<Rightarrow> page_row list" where
  "page_rows jid n w =
     sort_key pr_page_number (filter (\<lambda>p. pr_job_id p = jid \<and> pr_attempt p = n) (db_pages w))"

text \<open>\<open>ORDER BY page_number NULLS FIRST, kind\<close>.\<close>

definition artifact_order :: "artifact_row \<Rightarrow> (nat \<times> int) \<times> string" where
  "artifact_order r = ((case tr_page_number r of None \<Rightarrow> (0, 0) | Some n \<Rightarrow> (1, n)), tr_kind r)"

definition artifact_rows :: "uuid \<Rightarrow> int \<Rightarrow> 'z db_scheme \<Rightarrow> artifact_row list" where
  "artifact_rows jid n w =
     sort_key artifact_order (filter (\<lambda>t. tr_job_id t = jid \<and> tr_attempt t = n) (db_artifacts w))"

definition sql_jobs_get :: "uuid \<Rightarrow> ('z, job option) sql" where
  "sql_jobs_get jid =
     connected
       (bind_prog (sql_get (\<lambda>w. find (\<lambda>r. jr_id r = jid \<and> jr_claim_token r = None) (db_jobs w))) (\<lambda>row.
        case row of
          None \<Rightarrow> ret None
        | Some r \<Rightarrow>
            bind_prog (sql_get (\<lambda>w. find (of_attempt jid (jr_current_attempt r)) (db_attempts w))) (\<lambda>a.
            bind_prog (sql_get (page_rows jid (jr_current_attempt r))) (\<lambda>pages.
            bind_prog (sql_get (artifact_rows jid (jr_current_attempt r))) (\<lambda>artifacts.
            bind_prog (lift_sum (job_of_rows r a pages artifacts)) (\<lambda>j. ret (Some j)))))))"

definition sql_jobs_find :: "string \<Rightarrow> string \<Rightarrow> ('z, job option) sql" where
  "sql_jobs_find owner_id key =
     bind_prog
       (connected
         (bind_prog (lift_sum (parse_owner owner_id)) (\<lambda>owner.
          sql_get (\<lambda>w. find (\<lambda>r. jr_api_key_id r = owner \<and> jr_idempotency_key r = Some key) (db_jobs w)))))
       (\<lambda>row. case row of None \<Rightarrow> ret None | Some r \<Rightarrow> sql_jobs_get (jr_id r))"

fun get_present :: "job_row list \<Rightarrow> ('z, job list) sql" where
  "get_present [] = ret []"
| "get_present (r # rows) =
     bind_prog (sql_jobs_get (jr_id r)) (\<lambda>j.
     bind_prog (get_present rows) (\<lambda>js. ret (case j of Some x \<Rightarrow> x # js | None \<Rightarrow> js)))"

definition owned_rows :: "uuid \<Rightarrow> 'z db_scheme \<Rightarrow> job_row list" where
  "owned_rows owner w = filter (\<lambda>r. jr_api_key_id r = owner \<and> jr_claim_token r = None) (db_jobs w)"

definition sql_jobs_list :: "string \<Rightarrow> nat \<Rightarrow> nat \<Rightarrow> ('z, job list \<times> int) sql" where
  "sql_jobs_list owner_id offset limit =
     bind_prog
       (connected
         (bind_prog (lift_sum (parse_owner owner_id)) (\<lambda>owner.
          bind_prog (sql_get (owned_rows owner)) (\<lambda>rows.
          ret (page_slice offset limit (sort_key (\<lambda>r. - jr_created_at r) rows), int (length rows))))))
       (\<lambda>(rows, total). bind_prog (get_present rows) (\<lambda>jobs. ret (jobs, total)))"

section \<open>Jobs: writing\<close>

definition positive_pages :: "job \<Rightarrow> int option" where
  "positive_pages j = (if job_total_pages j = 0 then None else Some (job_total_pages j))"

definition merge_attempt :: "job \<Rightarrow> attempt_row \<Rightarrow> attempt_row" where
  "merge_attempt j a =
     a\<lparr>ar_status := job_state_str (job_state j),
       ar_started_at := (if ar_started_at a \<noteq> None then ar_started_at a else job_started_at j),
       ar_finished_at := job_completed_at j,
       ar_engine_name := (if job_engine_name j \<noteq> None then job_engine_name j else ar_engine_name a),
       ar_engine_version :=
         (if job_engine_version j \<noteq> None then job_engine_version j else ar_engine_version a),
       ar_model_name := (if job_model_name j \<noteq> None then job_model_name j else ar_model_name a)\<rparr>"

definition new_attempt_row :: "job \<Rightarrow> attempt_row" where
  "new_attempt_row j =
     \<lparr>ar_job_id = job_id j, ar_attempt = job_attempt j, ar_status = job_state_str (job_state j),
      ar_started_at = job_started_at j, ar_finished_at = job_completed_at j,
      ar_engine_name = job_engine_name j, ar_engine_version = job_engine_version j,
      ar_model_name = job_model_name j\<rparr>"

text \<open>\<open>INSERT ... ON CONFLICT (job_id, attempt) DO UPDATE\<close>.\<close>

definition upsert_attempt :: "job \<Rightarrow> ('z, unit) sql" where
  "upsert_attempt j =
     bind_prog (sql_get (\<lambda>w. find (of_attempt (job_id j) (job_attempt j)) (db_attempts w))) (\<lambda>found.
     case found of
       None \<Rightarrow>
         bind_prog (sql_check (attempt_row_ok (new_attempt_row j)) ''22001'' ''ocr_job_attempts'') (\<lambda>_.
         sql_put (\<lambda>w. w\<lparr>db_attempts := db_attempts w @ [new_attempt_row j]\<rparr>))
     | Some a \<Rightarrow>
         bind_prog (sql_check (attempt_row_ok (merge_attempt j a)) ''22001'' ''ocr_job_attempts'') (\<lambda>_.
         sql_put (\<lambda>w. w\<lparr>db_attempts :=
           update_where (of_attempt (job_id j) (job_attempt j)) (merge_attempt j) (db_attempts w)\<rparr>)))"

definition new_job_row :: "pg \<Rightarrow> uuid \<Rightarrow> string \<Rightarrow> job \<Rightarrow> job_row" where
  "new_job_row cfg owner options j =
     \<lparr>jr_id = job_id j, jr_api_key_id = owner, jr_upload_id = job_upload_id j,
      jr_request_id = job_request_id j, jr_idempotency_key = job_idempotency_key j,
      jr_status = job_state_str (job_state j), jr_current_attempt = job_attempt j, jr_revision = 0,
      jr_total_pages = positive_pages j, jr_completed_pages = job_completed_pages j,
      jr_progress_percent = job_progress j, jr_options = options, jr_cancel_requested_at = None,
      jr_finished_at = None, jr_expires_at = job_created_at j + days (pg_retention_days cfg),
      jr_claim_token = None, jr_lease_expires_at = None, jr_last_internal_code = 0,
      jr_last_error_reason = job_error_reason j, jr_created_at = job_created_at j,
      jr_updated_at = job_created_at j\<rparr>"

definition sql_insert_job :: "pg \<Rightarrow> job \<Rightarrow> ('z, unit) sql" where
  "sql_insert_job cfg j =
     bind_prog (lift_sum (parse_owner (job_owner_id j))) (\<lambda>owner.
     bind_prog (sql_json cfg (job_options j)) (\<lambda>options.
     let row = new_job_row cfg owner options j
     in bind_prog (sql_check (job_row_ok row) ''23514'' ''ocr_jobs'') (\<lambda>_.
        bind_prog (sql_get db_jobs) (\<lambda>rows.
        bind_prog (sql_check (jr_id row \<notin> jr_id ` set rows) ''23505'' ''ocr_jobs_pkey'') (\<lambda>_.
        bind_prog (sql_check (jr_idempotency_key row = None \<or>
            \<not> (\<exists>r \<in> set rows. jr_api_key_id r = owner \<and> jr_idempotency_key r = jr_idempotency_key row))
           ''23505'' ''uq_ocr_jobs_api_key_idempotency'') (\<lambda>_.
        bind_prog (sql_get db_api_keys) (\<lambda>keys.
        bind_prog (sql_check (owner \<in> ak_id ` set keys) ''23503'' ''ocr_jobs_api_key_id_fkey'') (\<lambda>_.
        bind_prog (sql_get db_uploads) (\<lambda>uploads.
        bind_prog (sql_check (jr_upload_id row \<in> ur_id ` set uploads) ''23503''
           ''ocr_jobs_upload_id_fkey'') (\<lambda>_.
        bind_prog (sql_put (\<lambda>w. w\<lparr>db_jobs := db_jobs w @ [row]\<rparr>)) (\<lambda>_.
        upsert_attempt j)))))))))))"

definition set_job_row :: "pg \<Rightarrow> job \<Rightarrow> string \<Rightarrow> time option \<Rightarrow> job_row \<Rightarrow> job_row" where
  "set_job_row cfg j options cancel_at r =
     r\<lparr>jr_request_id := job_request_id j, jr_status := job_state_str (job_state j),
       jr_current_attempt := job_attempt j, jr_total_pages := positive_pages j,
       jr_completed_pages := job_completed_pages j, jr_progress_percent := job_progress j,
       jr_options := options,
       jr_cancel_requested_at :=
         (if jr_cancel_requested_at r \<noteq> None then jr_cancel_requested_at r else cancel_at),
       jr_finished_at := job_completed_at j, jr_last_internal_code := job_internal_code j,
       jr_last_error_reason := job_error_reason j, jr_updated_at := job_updated_at j,
       jr_expires_at := (case job_completed_at j of Some t \<Rightarrow> t | None \<Rightarrow> job_created_at j)
                        + days (pg_retention_days cfg),
       jr_revision := jr_revision r + 1\<rparr>"

text \<open>The row that an optimistic update hits: not claimed, and at the revision that was read.\<close>

definition current_row :: "job \<Rightarrow> job_row \<Rightarrow> bool" where
  "current_row j r \<longleftrightarrow> jr_id r = job_id j \<and> jr_claim_token r = None \<and> jr_revision r = job_revision j"

definition row_of_page :: "job \<Rightarrow> page \<Rightarrow> page_row" where
  "row_of_page j p =
     \<lparr>pr_job_id = job_id j, pr_attempt = job_attempt j, pr_page_number = page_number p,
      pr_status = page_state_str (page_state p), pr_retry_count = int (page_processing_attempts p),
      pr_source_object_key = page_input_object_key p, pr_result_object_key = page_result_object_key p,
      pr_visualization_object_key = page_visualization_object_key p,
      pr_result_sha256 = page_result_sha256 p, pr_last_internal_code = page_internal_code p,
      pr_last_error_reason = page_error_reason p\<rparr>"

definition page_key :: "page_row \<Rightarrow> uuid \<times> int \<times> int" where
  "page_key r = (pr_job_id r, pr_attempt r, pr_page_number r)"

definition upsert_page :: "job \<Rightarrow> page \<Rightarrow> ('z, unit) sql" where
  "upsert_page j p =
     bind_prog (sql_check (page_row_ok (row_of_page j p)) ''23514'' ''ocr_job_pages'') (\<lambda>_.
     sql_put (\<lambda>w. w\<lparr>db_pages := update_by page_key (row_of_page j p) (db_pages w)\<rparr>))"

definition row_of_artifact :: "job \<Rightarrow> artifact \<Rightarrow> artifact_row" where
  "row_of_artifact j a =
     \<lparr>tr_job_id = job_id j, tr_attempt = job_attempt j, tr_page_number = artifact_page_number a,
      tr_kind = artifact_kind_str (artifact_kind a), tr_object_key = artifact_object_key a,
      tr_content_type = artifact_content_type a, tr_size_bytes = artifact_size_bytes a,
      tr_sha256 = artifact_sha256 a\<rparr>"

definition same_artifact :: "artifact_row \<Rightarrow> artifact_row \<Rightarrow> bool" where
  "same_artifact r s \<longleftrightarrow> tr_page_number r \<noteq> None \<and> tr_job_id r = tr_job_id s \<and>
     tr_attempt r = tr_attempt s \<and> tr_kind r = tr_kind s \<and> tr_page_number r = tr_page_number s"

definition insert_artifact :: "job \<Rightarrow> artifact \<Rightarrow> ('z, unit) sql" where
  "insert_artifact j a =
     bind_prog (sql_check (artifact_row_ok (row_of_artifact j a)) ''22001'' ''ocr_artifacts'') (\<lambda>_.
     bind_prog (sql_get db_artifacts) (\<lambda>rows.
     bind_prog (sql_check (\<not> (\<exists>r \<in> set rows. same_artifact r (row_of_artifact j a)))
        ''23505'' ''uq_ocr_artifacts_logical'') (\<lambda>_.
     sql_put (\<lambda>w. w\<lparr>db_artifacts := db_artifacts w @ [row_of_artifact j a]\<rparr>))))"

definition replace_artifacts :: "job \<Rightarrow> ('z, unit) sql" where
  "replace_artifacts j =
     (if job_artifacts j = [] then ret ()
      else
        bind_prog (sql_put (\<lambda>w. w\<lparr>db_artifacts :=
            filter (\<lambda>t. \<not> (tr_job_id t = job_id j \<and> tr_attempt t = job_attempt j)) (db_artifacts w)\<rparr>)) (\<lambda>_.
        bind_prog (map_prog (insert_artifact j) (job_artifacts j)) (\<lambda>_. ret ())))"

text \<open>The statements of a save, from the update of the row that was hit.\<close>

definition store_job :: "pg \<Rightarrow> job \<Rightarrow> string \<Rightarrow> time option \<Rightarrow> job_row \<Rightarrow> ('z, job) sql" where
  "store_job cfg j options cancel_at old =
     (let row = set_job_row cfg j options cancel_at old;
          j' = j\<lparr>job_revision := jr_revision row\<rparr>
      in bind_prog (sql_check (job_row_ok row) ''23514'' ''ocr_jobs'') (\<lambda>_.
         bind_prog (sql_put (\<lambda>w. w\<lparr>db_jobs :=
            update_where (current_row j) (set_job_row cfg j options cancel_at) (db_jobs w)\<rparr>)) (\<lambda>_.
         bind_prog (upsert_attempt j') (\<lambda>_.
         bind_prog (map_prog (upsert_page j') (job_pages j')) (\<lambda>_.
         bind_prog (replace_artifacts j') (\<lambda>_.
         ret j'))))))"

definition cancel_stamp :: "job \<Rightarrow> ('z, time option) sql" where
  "cancel_stamp j =
     (if job_state j \<in> {CANCEL_REQUESTED, CANCELLED}
      then bind_prog clock_now (\<lambda>t. ret (Some t)) else ret None)"

definition sql_save_job :: "pg \<Rightarrow> job \<Rightarrow> ('z, job) sql" where
  "sql_save_job cfg j =
     bind_prog (cancel_stamp j) (\<lambda>cancel_at.
     bind_prog (sql_json cfg (job_options j)) (\<lambda>options.
     bind_prog (sql_get (\<lambda>w. find (current_row j) (db_jobs w))) (\<lambda>found.
     case found of
       None \<Rightarrow> raise_exc ConcurrentJobUpdateError
     | Some old \<Rightarrow> store_job cfg j options cancel_at old)))"

section \<open>Outbox\<close>

definition row_of_outbox :: "pg \<Rightarrow> string \<Rightarrow> outbox_event \<Rightarrow> outbox_row" where
  "row_of_outbox cfg payload ev =
     \<lparr>or_id = ob_id ev, or_aggregate_type = ''ocr_job'', or_aggregate_id = ob_aggregate_id ev,
      or_event_type = ob_event_type ev, or_topic = pg_topic cfg,
      or_partition_key = uuid_str (ob_aggregate_id ev), or_schema_version = 1, or_payload = payload,
      or_published_at = None, or_publish_attempts = 0, or_created_at = ob_created_at ev\<rparr>"

definition sql_insert_outbox :: "pg \<Rightarrow> outbox_event \<Rightarrow> ('z, unit) sql" where
  "sql_insert_outbox cfg ev =
     bind_prog (sql_json cfg (JDict (ob_payload ev))) (\<lambda>payload.
     let row = row_of_outbox cfg payload ev
     in bind_prog (sql_check (outbox_row_ok row) ''22001'' ''outbox_events'') (\<lambda>_.
        bind_prog (sql_get db_outbox) (\<lambda>rows.
        bind_prog (sql_check (or_id row \<notin> or_id ` set rows) ''23505'' ''outbox_events_pkey'') (\<lambda>_.
        sql_put (\<lambda>w. w\<lparr>db_outbox := db_outbox w @ [row]\<rparr>)))))"

definition sql_outbox_add :: "pg \<Rightarrow> outbox_event \<Rightarrow> ('z, unit) sql" where
  "sql_outbox_add cfg ev = connected (sql_insert_outbox cfg ev)"

text \<open>\<open>payload.get("request_id", "")\<close> raises when the payload is no object.\<close>

definition outbox_of_row :: "outbox_row \<Rightarrow> exn + outbox_event" where
  "outbox_of_row r =
     bind_sum (decode_json (or_payload r)) (\<lambda>payload.
     case payload of
       JDict kvs \<Rightarrow>
         Inr \<lparr>ob_aggregate_id = or_aggregate_id r, ob_event_type = or_event_type r, ob_payload = kvs,
              ob_request_id = (case map_of kvs ''request_id'' of Some v \<Rightarrow> py_str v | None \<Rightarrow> []),
              ob_id = or_id r, ob_created_at = or_created_at r, ob_published_at = or_published_at r\<rparr>
     | _ \<Rightarrow> Inl (OtherError ''AttributeError''))"

definition sql_outbox_pending :: "nat \<Rightarrow> ('z, outbox_event list) sql" where
  "sql_outbox_pending limit =
     bind_prog
       (connected (sql_get (\<lambda>w. take limit (sort_key or_created_at
          (filter (\<lambda>r. or_published_at r = None) (db_outbox w)))))) (\<lambda>rows.
     lift_sum (map_sum outbox_of_row rows))"

definition sql_outbox_mark_published :: "uuid \<Rightarrow> ('z, unit) sql" where
  "sql_outbox_mark_published eid =
     connected (sql_put (\<lambda>w. w\<lparr>db_outbox := update_where (\<lambda>r. or_id r = eid)
       (\<lambda>r. r\<lparr>or_published_at := Some (db_now w), or_publish_attempts := or_publish_attempts r + 1\<rparr>)
       (db_outbox w)\<rparr>))"

section \<open>Job events\<close>

text \<open>\<open>str(progress)\<close> of a number of ten-thousandths.\<close>

definition progress_text :: "int \<Rightarrow> string" where
  "progress_text p =
     (let frac = rev (dropWhile (\<lambda>c. c = CHR ''0'') (rev (pad_zeros 4 (str_nat (nat (p mod 10000))))))
      in str_int (p div 10000) @ ''.'' @ (if frac = [] then ''0'' else frac))"

definition event_payload :: "job_event \<Rightarrow> json" where
  "event_payload ev =
     JDict [(''state'', JStr (job_state_str (ev_state ev))),
            (''progress'', JFloat (progress_text (ev_progress ev))),
            (''request_id'', JStr (ev_request_id ev)), (''data'', JDict (ev_payload ev))]"

text \<open>\<open>payload->'data'->>'attempt'\<close>: the text of a member of a member; a JSON null is no text.\<close>

fun json_text :: "json \<Rightarrow> string option" where
  "json_text JNull = None"
| "json_text (JStr s) = Some s"
| "json_text v = Some (dumps v)"

definition row_attempt :: "event_row \<Rightarrow> string option" where
  "row_attempt r =
     Option.bind (loads (er_payload r)) (\<lambda>payload.
     Option.bind (json_get payload ''data'') (\<lambda>data.
     Option.bind (json_get data ''attempt'') json_text))"

definition attempt_text :: "job_event \<Rightarrow> string" where
  "attempt_text ev = (case map_of (ev_payload ev) ''attempt'' of Some v \<Rightarrow> py_str v | None \<Rightarrow> [])"

definition repeats :: "job_event \<Rightarrow> event_row \<Rightarrow> bool" where
  "repeats ev r \<longleftrightarrow> er_job_id r = ev_job_id ev \<and> er_event_type r = ev_event_type ev \<and>
     row_attempt r = Some (attempt_text ev)"

definition stored_terminal :: "job_event \<Rightarrow> event_row list \<Rightarrow> event_row option" where
  "stored_terminal ev rows =
     (if ev_event_type ev \<in> {''job.cancelled'', ''job.failed'', ''job.succeeded''}
      then find (repeats ev) rows else None)"

definition next_sequence :: "uuid \<Rightarrow> event_row list \<Rightarrow> int" where
  "next_sequence jid rows =
     fold max (map er_sequence (filter (\<lambda>r. er_job_id r = jid) rows)) 0 + 1"

text \<open>\<open>int(payload.get("internal_code", default))\<close>, with the default when it is no integer.\<close>

definition event_internal_code :: "job_event \<Rightarrow> exn + int" where
  "event_internal_code ev =
     (let default = (if ev_state ev = FAILED then 30004 else 0)
      in case map_of (ev_payload ev) ''internal_code'' of
           None \<Rightarrow> Inr default
         | Some v \<Rightarrow>
             (case py_int v of
                Inr i \<Rightarrow> Inr i
              | Inl e \<Rightarrow> if e = TypeError \<or> is_value_error e then Inr default else Inl e))"

text \<open>The advisory lock makes the two reads and the insert one step per job.\<close>

definition append_event :: "pg \<Rightarrow> job_event \<Rightarrow> ('z, job_event) sql" where
  "append_event cfg ev =
     bind_prog (sql_get (\<lambda>w. stored_terminal ev (db_events w))) (\<lambda>existing.
     case existing of
       Some r \<Rightarrow> ret (event_with_sequence (er_sequence r) ev)
     | None \<Rightarrow>
         bind_prog (sql_get (\<lambda>w. next_sequence (ev_job_id ev) (db_events w))) (\<lambda>seq.
         bind_prog (lift_sum (event_internal_code ev)) (\<lambda>code.
         bind_prog (sql_json cfg (event_payload ev)) (\<lambda>payload.
         bind_prog (sql_check (fits 120 (ev_event_type ev)) ''22001'' ''job_events'') (\<lambda>_.
         bind_prog (sql_get db_jobs) (\<lambda>jobs.
         bind_prog (sql_check (ev_job_id ev \<in> jr_id ` set jobs) ''23503'' ''job_events_job_id_fkey'') (\<lambda>_.
         bind_prog (sql_put (\<lambda>w. w\<lparr>db_events := db_events w @
            [\<lparr>er_job_id = ev_job_id ev, er_sequence = seq, er_event_type = ev_event_type ev,
              er_internal_code = code, er_payload = payload, er_created_at = ev_occurred_at ev\<rparr>]\<rparr>)) (\<lambda>_.
         ret (event_with_sequence seq ev)))))))))"

definition sql_events_append :: "pg \<Rightarrow> job_event \<Rightarrow> ('z, job_event) sql" where
  "sql_events_append cfg ev = connected (transaction (append_event cfg ev))"

definition event_of_row :: "event_row \<Rightarrow> exn + job_event" where
  "event_of_row r =
     bind_sum (decode_json (er_payload r)) (\<lambda>payload.
     bind_sum (bind_sum (json_item payload ''state'')
        (\<lambda>v. case v of JStr s \<Rightarrow> job_state_of s | _ \<Rightarrow> Inl (ValueError ''not a valid enum value''))) (\<lambda>state.
     bind_sum (bind_sum (json_item payload ''progress'') (float_at 4)) (\<lambda>progress.
     bind_sum (json_item payload ''request_id'') (\<lambda>request_id.
     let data = or_empty (case json_get payload ''data'' of Some v \<Rightarrow> v | None \<Rightarrow> JNull)
     in Inr \<lparr>ev_job_id = er_job_id r, ev_event_type = er_event_type r, ev_state = state,
             ev_progress = progress, ev_request_id = py_str request_id,
             ev_payload = (case data of JDict kvs \<Rightarrow> kvs | _ \<Rightarrow> []),
             ev_sequence = er_sequence r, ev_occurred_at = er_created_at r\<rparr>))))"

definition sql_events_list_after :: "uuid \<Rightarrow> int \<Rightarrow> ('z, job_event list) sql" where
  "sql_events_list_after jid seq =
     bind_prog
       (connected (sql_get (\<lambda>w. take 100 (sort_key er_sequence
          (filter (\<lambda>r. er_job_id r = jid \<and> seq < er_sequence r) (db_events w)))))) (\<lambda>rows.
     lift_sum (map_sum event_of_row rows))"

text \<open>
  The loop of \<open>wait_after\<close> with fuel; the monotonic clock and the sleep of the event loop are
  parameters.
\<close>

fun wait_loop ::
    "('z, time) sql \<Rightarrow> (time \<Rightarrow> ('z, unit) sql) \<Rightarrow> uuid \<Rightarrow> int \<Rightarrow> time \<Rightarrow> nat \<Rightarrow> ('z, job_event list) sql" where
  "wait_loop clock sleep jid seq deadline 0 = diverge"
| "wait_loop clock sleep jid seq deadline (Suc n) =
     bind_prog clock (\<lambda>now.
     if \<not> now < deadline then ret []
     else
       bind_prog (sql_events_list_after jid seq) (\<lambda>events.
       if events \<noteq> [] then ret events
       else
         bind_prog clock (\<lambda>now'.
         bind_prog (sleep (min 250000 (max 0 (deadline - now')))) (\<lambda>_.
         wait_loop clock sleep jid seq deadline n))))"

definition sql_events_wait_after ::
    "('z, time) sql \<Rightarrow> (time \<Rightarrow> ('z, unit) sql) \<Rightarrow> nat \<Rightarrow> uuid \<Rightarrow> int \<Rightarrow> time \<Rightarrow> ('z, job_event list) sql" where
  "sql_events_wait_after clock sleep fuel jid seq timeout =
     bind_prog clock (\<lambda>now. wait_loop clock sleep jid seq (now + timeout) fuel)"

section \<open>Jobs with their events\<close>

definition sql_jobs_add :: "pg \<Rightarrow> job \<Rightarrow> ('z, unit) sql" where
  "sql_jobs_add cfg j = connected (transaction (sql_insert_job cfg j))"

definition sql_jobs_save :: "pg \<Rightarrow> job \<Rightarrow> ('z, job) sql" where
  "sql_jobs_save cfg j = connected (transaction (sql_save_job cfg j))"

definition sql_jobs_save_with_event :: "pg \<Rightarrow> job \<Rightarrow> job_event \<Rightarrow> ('z, job_event \<times> job) sql" where
  "sql_jobs_save_with_event cfg j ev =
     connected (transaction
       (bind_prog (sql_save_job cfg j) (\<lambda>j'.
        bind_prog (append_event cfg ev) (\<lambda>ev'. ret (ev', j')))))"

definition sql_jobs_save_with_outbox_and_event ::
    "pg \<Rightarrow> job \<Rightarrow> outbox_event \<Rightarrow> job_event \<Rightarrow> ('z, job_event \<times> job) sql" where
  "sql_jobs_save_with_outbox_and_event cfg j ob ev =
     connected (transaction
       (bind_prog (sql_save_job cfg j) (\<lambda>j'.
        bind_prog (sql_insert_outbox cfg ob) (\<lambda>_.
        bind_prog (append_event cfg ev) (\<lambda>ev'. ret (ev', j'))))))"

definition sql_jobs_add_with_outbox_and_event ::
    "pg \<Rightarrow> job \<Rightarrow> outbox_event \<Rightarrow> job_event \<Rightarrow> ('z, job_event) sql" where
  "sql_jobs_add_with_outbox_and_event cfg j ob ev =
     catch_prog
       (connected (transaction
         (bind_prog (sql_insert_job cfg j) (\<lambda>_.
          bind_prog (sql_insert_outbox cfg ob) (\<lambda>_.
          append_event cfg ev)))))
       (\<lambda>e. if e = SqlError ''23505'' ''uq_ocr_jobs_api_key_idempotency''
            then raise_exc DuplicateIdempotencyKeyError else raise_exc e)"

end
