(* ===== verification/Persistence_Laws.thy ===== *)
theory Persistence_Laws
  imports Persistence Memory
begin

text \<open>
  What the repositories guarantee: an optimistic save hits exactly one revision and is read back,
  up to the page text that only lives in the object store and the order of the rows; an inserted
  job is read back; the event log of a job is numbered without gaps and has one terminal event of
  each kind per attempt; a transaction that raises changes no table.
\<close>

section \<open>Sorted tables\<close>

lemma insort_key_map: "insort_key f (g x) (map g xs) = map g (insort_key (\<lambda>y. f (g y)) x xs)"
  by (induction xs) auto

lemma sort_key_map: "sort_key f (map g xs) = map g (sort_key (\<lambda>y. f (g y)) xs)"
  by (induction xs) (simp_all add: insort_key_map)

lemma sort_key_unique:
  assumes "set xs = set ys" and "distinct (map f xs)" and "distinct (map f ys)"
  shows "sort_key f xs = sort_key f ys"
  using assms
  by (intro map_sorted_distinct_set_unique [where f = f]) (auto simp: distinct_map inj_on_def)

lemma set_update_by_distinct:
  "distinct (map key rows) \<Longrightarrow> set (update_by key y rows) = insert y {x \<in> set rows. key x \<noteq> key y}"
  by (induction rows) (auto simp: image_iff)

text \<open>Upserting objects with distinct keys: they are there, and the rows with other keys.\<close>

lemma upserts:
  assumes "distinct (map key rows)" and "distinct (map (\<lambda>x. key (f x)) xs)"
  shows "distinct (map key (fold (\<lambda>x. update_by key (f x)) xs rows)) \<and>
    set (fold (\<lambda>x. update_by key (f x)) xs rows) =
      f ` set xs \<union> {r \<in> set rows. key r \<notin> (\<lambda>x. key (f x)) ` set xs}"
  using assms
proof (induction xs arbitrary: rows)
  case (Cons x xs)
  have step: "distinct (map key (update_by key (f x) rows))"
    by (rule distinct_update_by) (rule Cons.prems(1))
  have "set (update_by key (f x) rows) = insert (f x) {r \<in> set rows. key r \<noteq> key (f x)}"
    by (rule set_update_by_distinct) (rule Cons.prems(1))
  with Cons.IH [OF step] Cons.prems(2) show ?case by auto
qed simp

section \<open>What a save does to the tables\<close>

definition saved_attempts :: "job \<Rightarrow> attempt_row list \<Rightarrow> attempt_row list" where
  "saved_attempts j rows =
     (if \<exists>a \<in> set rows. of_attempt (job_id j) (job_attempt j) a
      then update_where (of_attempt (job_id j) (job_attempt j)) (merge_attempt j) rows
      else rows @ [new_attempt_row j])"

definition saved_pages :: "job \<Rightarrow> page_row list \<Rightarrow> page_row list" where
  "saved_pages j rows = fold (\<lambda>p. update_by page_key (row_of_page j p)) (job_pages j) rows"

definition saved_artifacts :: "job \<Rightarrow> artifact_row list \<Rightarrow> artifact_row list" where
  "saved_artifacts j rows =
     (if job_artifacts j = [] then rows
      else filter (\<lambda>t. \<not> (tr_job_id t = job_id j \<and> tr_attempt t = job_attempt j)) rows @
           map (row_of_artifact j) (job_artifacts j))"

lemma find_exists: "find p xs = None \<longleftrightarrow> \<not> (\<exists>x \<in> set xs. p x)"
  by (auto simp: find_None_iff)

lemma upsert_attempt_Done:
  "upsert_attempt j w = (Done u, w') \<Longrightarrow>
     w' = w\<lparr>db_attempts := saved_attempts j (db_attempts w)\<rparr>"
  by (auto simp: upsert_attempt_def sql_steps saved_attempts_def find_exists find_Some_iff
      split: option.splits dest: nth_mem)

lemma upsert_page_Done:
  "upsert_page j p w = (Done u, w') \<Longrightarrow>
     w' = w\<lparr>db_pages := update_by page_key (row_of_page j p) (db_pages w)\<rparr>"
  by (auto simp: upsert_page_def sql_steps)

lemma insert_artifact_Done:
  "insert_artifact j t w = (Done u, w') \<Longrightarrow>
     w' = w\<lparr>db_artifacts := db_artifacts w @ [row_of_artifact j t]\<rparr>"
  by (auto simp: insert_artifact_def sql_steps)

lemma upsert_pages_Done:
  "map_prog (upsert_page j) ps w = (Done us, w') \<Longrightarrow>
     w' = w\<lparr>db_pages := fold (\<lambda>p. update_by page_key (row_of_page j p)) ps (db_pages w)\<rparr>"
proof (induction ps arbitrary: w us)
  case (Cons p ps)
  from Cons.prems obtain vs where
    "map_prog (upsert_page j) ps (w\<lparr>db_pages := update_by page_key (row_of_page j p) (db_pages w)\<rparr>) =
      (Done vs, w')"
    by (auto simp: sql_steps dest!: upsert_page_Done)
  from Cons.IH [OF this] show ?case by simp
qed simp

lemma insert_artifacts_Done:
  "map_prog (insert_artifact j) ts w = (Done us, w') \<Longrightarrow>
     w' = w\<lparr>db_artifacts := db_artifacts w @ map (row_of_artifact j) ts\<rparr>"
proof (induction ts arbitrary: w us)
  case (Cons t ts)
  from Cons.prems obtain vs where
    "map_prog (insert_artifact j) ts (w\<lparr>db_artifacts := db_artifacts w @ [row_of_artifact j t]\<rparr>) =
      (Done vs, w')"
    by (auto simp: sql_steps dest!: insert_artifact_Done)
  from Cons.IH [OF this] show ?case by simp
qed simp

lemma replace_artifacts_Done:
  "replace_artifacts j w = (Done u, w') \<Longrightarrow>
     w' = w\<lparr>db_artifacts := saved_artifacts j (db_artifacts w)\<rparr>"
  by (auto simp: replace_artifacts_def saved_artifacts_def sql_steps dest!: insert_artifacts_Done
      split: if_splits)

lemma sql_json_Done: "sql_json cfg v w = (Done t, w') \<longleftrightarrow> pg_jsonb cfg (dumps v) = Some t \<and> w' = w"
  by (auto simp: sql_json_def split: option.splits)

lemma rows_rev [simp]:
  "merge_attempt (j\<lparr>job_revision := n\<rparr>) = merge_attempt j"
  "new_attempt_row (j\<lparr>job_revision := n\<rparr>) = new_attempt_row j"
  "row_of_page (j\<lparr>job_revision := n\<rparr>) = row_of_page j"
  "row_of_artifact (j\<lparr>job_revision := n\<rparr>) = row_of_artifact j"
  by (simp_all add: fun_eq_iff merge_attempt_def new_attempt_row_def row_of_page_def row_of_artifact_def)

lemma saved_rev [simp]:
  "saved_attempts (j\<lparr>job_revision := n\<rparr>) = saved_attempts j"
  "saved_pages (j\<lparr>job_revision := n\<rparr>) = saved_pages j"
  "saved_artifacts (j\<lparr>job_revision := n\<rparr>) = saved_artifacts j"
  by (simp_all add: fun_eq_iff saved_attempts_def saved_pages_def saved_artifacts_def)

lemma store_job_Done:
  assumes "store_job cfg j options cancel_at old w = (Done j', w')"
    and "jr_revision old = job_revision j"
  shows "j' = j\<lparr>job_revision := job_revision j + 1\<rparr>"
    and "w' = w\<lparr>
       db_jobs := update_where (current_row j) (set_job_row cfg j options cancel_at) (db_jobs w),
       db_attempts := saved_attempts j (db_attempts w), db_pages := saved_pages j (db_pages w),
       db_artifacts := saved_artifacts j (db_artifacts w)\<rparr>"
proof -
  let ?j = "j\<lparr>job_revision := job_revision j + 1\<rparr>"
  have rev: "jr_revision (set_job_row cfg j options cancel_at old) = job_revision j + 1"
    by (simp add: set_job_row_def assms(2))
  obtain u2 u3 u4 w2 w3 where steps:
    "upsert_attempt ?j (w\<lparr>db_jobs := update_where (current_row j) (set_job_row cfg j options cancel_at)
       (db_jobs w)\<rparr>) = (Done u2, w2)"
    "map_prog (upsert_page ?j) (job_pages ?j) w2 = (Done u3, w3)"
    "replace_artifacts ?j w3 = (Done u4, w')" "j' = ?j"
    using assms(1) unfolding store_job_def Let_def rev
    by (simp add: sql_steps) blast
  show "j' = ?j" by (rule steps(4))
  show "w' = w\<lparr>
       db_jobs := update_where (current_row j) (set_job_row cfg j options cancel_at) (db_jobs w),
       db_attempts := saved_attempts j (db_attempts w), db_pages := saved_pages j (db_pages w),
       db_artifacts := saved_artifacts j (db_artifacts w)\<rparr>"
    using upsert_attempt_Done [OF steps(1)] upsert_pages_Done [OF steps(2)]
      replace_artifacts_Done [OF steps(3)]
    by (simp add: saved_pages_def)
qed

lemma sql_save_job_Done:
  assumes "sql_save_job cfg j w = (Done j', w')"
  obtains options cancel_at old now where
    "pg_jsonb cfg (dumps (job_options j)) = Some options"
    "find (current_row j) (db_jobs w) = Some old"
    "j' = j\<lparr>job_revision := job_revision j + 1\<rparr>"
    "w' = w\<lparr>db_now := now,
       db_jobs := update_where (current_row j) (set_job_row cfg j options cancel_at) (db_jobs w),
       db_attempts := saved_attempts j (db_attempts w), db_pages := saved_pages j (db_pages w),
       db_artifacts := saved_artifacts j (db_artifacts w)\<rparr>"
proof -
  obtain cancel_at w1 options old where pre:
    "cancel_stamp j w = (Done cancel_at, w1)"
    "pg_jsonb cfg (dumps (job_options j)) = Some options"
    "find (current_row j) (db_jobs w1) = Some old"
    and rest: "store_job cfg j options cancel_at old w1 = (Done j', w')"
    using assms
    by (simp add: sql_save_job_def sql_steps sql_json_Done split: option.splits) (metis option.exhaust)
  have w1: "w1 = w\<lparr>db_now := db_now w1\<rparr>"
    using pre(1) by (auto simp: cancel_stamp_def sql_steps split: if_splits)
  have "jr_revision old = job_revision j"
    using pre(3) by (auto simp: find_Some_iff current_row_def)
  note stored = store_job_Done [OF rest this]
  have "find (current_row j) (db_jobs w) = Some old"
    using pre(3) by (subst (asm) w1) simp
  moreover have "w' = w\<lparr>db_now := db_now w1,
       db_jobs := update_where (current_row j) (set_job_row cfg j options cancel_at) (db_jobs w),
       db_attempts := saved_attempts j (db_attempts w), db_pages := saved_pages j (db_pages w),
       db_artifacts := saved_artifacts j (db_artifacts w)\<rparr>"
    unfolding stored(2) by (subst w1, subst (1 2 3 4) w1) simp
  ultimately show ?thesis using that pre(2) stored(1) by blast
qed

section \<open>Reading a saved job back\<close>

lemma distinct_key_eq: "distinct (map key xs) \<Longrightarrow> x \<in> set xs \<Longrightarrow> y \<in> set xs \<Longrightarrow> key x = key y \<Longrightarrow> x = y"
  by (auto simp: distinct_map inj_on_def)

text \<open>
  The form in which a job comes back: without the recognised text of its pages, pages by number,
  artifacts by page and kind, the options as the server stores them.
\<close>

definition stored_page :: "page \<Rightarrow> page" where
  "stored_page p = p\<lparr>page_markdown := None, page_structured := None\<rparr>"

definition artifact_sort :: "artifact \<Rightarrow> (nat \<times> int) \<times> string" where
  "artifact_sort a =
     ((case artifact_page_number a of None \<Rightarrow> (0, 0) | Some n \<Rightarrow> (1, n)),
      artifact_kind_str (artifact_kind a))"

definition stored_job :: "json \<Rightarrow> job \<Rightarrow> job" where
  "stored_job options j =
     j\<lparr>job_options := or_empty options,
       job_pages := map stored_page (sort_key page_number (job_pages j)),
       job_artifacts := sort_key artifact_sort (job_artifacts j)\<rparr>"

text \<open>
  The save covers what the tables hold for the attempt: it numbers its pages apart and has every
  page that is stored, it brings artifacts or none are stored, and it does not forget the start
  or the engine of the attempt.
\<close>

definition keeps_text :: "string option \<Rightarrow> string option \<Rightarrow> bool" where
  "keeps_text new old \<longleftrightarrow> new \<noteq> None \<or> old = None"

definition covers :: "job \<Rightarrow> 'z db_scheme \<Rightarrow> bool" where
  "covers j w \<longleftrightarrow>
     distinct (map page_number (job_pages j)) \<and>
     (\<forall>r \<in> set (db_pages w). pr_job_id r = job_id j \<and> pr_attempt r = job_attempt j \<longrightarrow>
        pr_page_number r \<in> page_number ` set (job_pages j)) \<and>
     (job_artifacts j = [] \<longrightarrow>
        \<not> (\<exists>t \<in> set (db_artifacts w). tr_job_id t = job_id j \<and> tr_attempt t = job_attempt j)) \<and>
     (\<forall>a \<in> set (db_attempts w). of_attempt (job_id j) (job_attempt j) a \<longrightarrow>
        ar_started_at a \<in> {None, job_started_at j} \<and>
        keeps_text (job_engine_name j) (ar_engine_name a) \<and>
        keeps_text (job_engine_version j) (ar_engine_version a) \<and>
        keeps_text (job_model_name j) (ar_model_name a))"

lemma page_of_row_of_page: "page_of_row (row_of_page j p) = Inr (stored_page p)"
  by (simp add: page_of_row_def row_of_page_def stored_page_def)

lemma artifact_of_row_of_artifact: "artifact_of_row (row_of_artifact j a) = Inr a"
  by (simp add: artifact_of_row_def row_of_artifact_def)

lemma page_key_row: "page_key (row_of_page j p) = (job_id j, job_attempt j, page_number p)"
  by (simp add: page_key_def row_of_page_def)

lemma page_number_row [simp]:
  "pr_page_number (row_of_page j p) = page_number p" "pr_job_id (row_of_page j p) = job_id j"
  "pr_attempt (row_of_page j p) = job_attempt j"
  by (simp_all add: row_of_page_def)

lemma artifact_order_row [simp]: "artifact_order (row_of_artifact j a) = artifact_sort a"
  by (simp add: artifact_order_def row_of_artifact_def artifact_sort_def)

lemma saved_page_rows:
  assumes keys: "distinct (map page_key rows)" and numbers: "distinct (map page_number (job_pages j))"
    and covered: "\<forall>r \<in> set rows. pr_job_id r = job_id j \<and> pr_attempt r = job_attempt j \<longrightarrow>
        pr_page_number r \<in> page_number ` set (job_pages j)"
  shows "sort_key pr_page_number
      (filter (\<lambda>p. pr_job_id p = job_id j \<and> pr_attempt p = job_attempt j) (saved_pages j rows)) =
    map (row_of_page j) (sort_key page_number (job_pages j))" (is "sort_key _ ?mine = _")
proof -
  have "distinct (map (\<lambda>p. page_key (row_of_page j p)) (job_pages j))"
    using numbers by (simp add: page_key_row distinct_map inj_on_def)
  note up = upserts [OF keys this, folded saved_pages_def]
  have key: "page_key r = page_key r' \<longleftrightarrow> pr_page_number r = pr_page_number r'"
    if "r \<in> set ?mine" "r' \<in> set ?mine" for r r'
    using that by (simp add: page_key_def)
  have "set ?mine = row_of_page j ` set (job_pages j)"
  proof
    show "set ?mine \<subseteq> row_of_page j ` set (job_pages j)"
      using up covered by (force simp: page_key_def)
    show "row_of_page j ` set (job_pages j) \<subseteq> set ?mine"
      using up by auto
  qed
  moreover have "distinct (map pr_page_number ?mine)"
  proof -
    have "distinct (map page_key ?mine)" using up by (simp add: distinct_map_filter)
    then show ?thesis using key by (auto simp: distinct_map inj_on_def)
  qed
  ultimately have "sort_key pr_page_number ?mine = sort_key pr_page_number (map (row_of_page j) (job_pages j))"
    using numbers by (intro sort_key_unique) (simp_all add: comp_def)
  then show ?thesis by (simp add: sort_key_map)
qed

lemma saved_artifact_rows:
  assumes "job_artifacts j = [] \<longrightarrow> \<not> (\<exists>t \<in> set rows. tr_job_id t = job_id j \<and> tr_attempt t = job_attempt j)"
  shows "sort_key artifact_order
      (filter (\<lambda>t. tr_job_id t = job_id j \<and> tr_attempt t = job_attempt j) (saved_artifacts j rows)) =
    map (row_of_artifact j) (sort_key artifact_sort (job_artifacts j))"
proof -
  have "filter (\<lambda>t. tr_job_id t = job_id j \<and> tr_attempt t = job_attempt j) (saved_artifacts j rows) =
    map (row_of_artifact j) (job_artifacts j)"
    using assms by (auto simp: saved_artifacts_def row_of_artifact_def filter_empty_conv)
  then show ?thesis by (simp add: sort_key_map)
qed

lemma find_saved_attempt:
  "find (of_attempt (job_id j) (job_attempt j)) (saved_attempts j rows) =
    Some (case find (of_attempt (job_id j) (job_attempt j)) rows of
            Some a \<Rightarrow> merge_attempt j a | None \<Rightarrow> new_attempt_row j)"
proof (cases "find (of_attempt (job_id j) (job_attempt j)) rows")
  case None
  then have none: "\<not> (\<exists>a \<in> set rows. of_attempt (job_id j) (job_attempt j) a)" by (simp add: find_exists)
  have "find q (xs @ [x]) = Some x" if "\<not> (\<exists>a \<in> set xs. q a)" "q x" for q and x :: attempt_row and xs
    using that by (induction xs) auto
  moreover have "of_attempt (job_id j) (job_attempt j) (new_attempt_row j)"
    by (simp add: of_attempt_def new_attempt_row_def)
  ultimately show ?thesis using none None by (simp add: saved_attempts_def)
next
  case (Some a)
  then have "\<exists>a \<in> set rows. of_attempt (job_id j) (job_attempt j) a"
    by (auto simp: find_Some_iff dest: nth_mem)
  moreover have "of_attempt (job_id j) (job_attempt j) a" using Some by (auto simp: find_Some_iff)
  ultimately show ?thesis
    using Some by (simp add: saved_attempts_def find_update_where of_attempt_def merge_attempt_def)
qed

lemma saved_attempt_fields:
  assumes "\<forall>a \<in> set rows. of_attempt (job_id j) (job_attempt j) a \<longrightarrow>
        ar_started_at a \<in> {None, job_started_at j} \<and>
        keeps_text (job_engine_name j) (ar_engine_name a) \<and>
        keeps_text (job_engine_version j) (ar_engine_version a) \<and>
        keeps_text (job_model_name j) (ar_model_name a)"
    and "find (of_attempt (job_id j) (job_attempt j)) (saved_attempts j rows) = Some b"
  shows "ar_started_at b = job_started_at j" "ar_engine_name b = job_engine_name j"
    "ar_engine_version b = job_engine_version j" "ar_model_name b = job_model_name j"
proof -
  have "ar_started_at b = job_started_at j \<and> ar_engine_name b = job_engine_name j \<and>
    ar_engine_version b = job_engine_version j \<and> ar_model_name b = job_model_name j"
  proof (cases "find (of_attempt (job_id j) (job_attempt j)) rows")
    case None
    with assms(2) show ?thesis by (auto simp: find_saved_attempt new_attempt_row_def)
  next
    case (Some a)
    then have "a \<in> set rows" "of_attempt (job_id j) (job_attempt j) a"
      by (auto simp: find_Some_iff dest: nth_mem)
    with assms Some show ?thesis
      by (auto simp: find_saved_attempt merge_attempt_def keeps_text_def)
  qed
  then show "ar_started_at b = job_started_at j" "ar_engine_name b = job_engine_name j"
    "ar_engine_version b = job_engine_version j" "ar_model_name b = job_model_name j" by simp_all
qed

lemma current_row_unique:
  assumes keys: "distinct (map jr_id rows)" and row: "r \<in> set rows" "jr_id r = job_id j"
    and old: "find (current_row j) rows = Some old"
  shows "old = r \<and> current_row j old \<and> find (\<lambda>r. jr_id r = job_id j \<and> jr_claim_token r = None) rows = Some old"
proof -
  have hit: "old \<in> set rows" "current_row j old" using old by (auto simp: find_Some_iff dest: nth_mem)
  then have same: "old = r"
    using row by (intro distinct_key_eq [OF keys]) (simp_all add: current_row_def)
  let ?q = "\<lambda>r. jr_id r = job_id j \<and> jr_claim_token r = None"
  obtain x where x: "find ?q rows = Some x"
    using hit by (cases "find ?q rows") (auto simp: find_None_iff current_row_def)
  then have "x \<in> set rows" "jr_id x = job_id j" by (auto simp: find_Some_iff dest: nth_mem)
  with row same have "x = old" by (intro distinct_key_eq [OF keys]) simp_all
  with x same hit show ?thesis by simp
qed

text \<open>
  C14. A save that returns is read back: it bumped the revision it was based on, and the next read
  of the job gives the saved job in stored form.
\<close>

theorem sql_save_then_get:
  assumes saved: "sql_jobs_save cfg j w = (Done j', w')"
    and keys: "distinct (map jr_id (db_jobs w))" "distinct (map page_key (db_pages w))"
    and row: "r \<in> set (db_jobs w)" "jr_id r = job_id j" "jr_api_key_id r = owner"
      "jr_upload_id r = job_upload_id j" "jr_idempotency_key r = job_idempotency_key j"
      "jr_created_at r = job_created_at j" "job_owner_id j = uuid_str owner"
    and cov: "covers j w"
    and options: "pg_jsonb cfg (dumps (job_options j)) = Some t" "loads t = Some options"
  shows "job_revision j' = job_revision j + 1 \<and> jr_revision r = job_revision j \<and>
    sql_jobs_get (job_id j) w' = (Done (Some (stored_job options j')), w')"
proof -
  have up: "db_up w" and run: "sql_save_job cfg j w = (Done j', w')"
    using saved by (simp_all add: sql_jobs_save_def sql_steps)
  from run obtain cancel_at old now where old: "find (current_row j) (db_jobs w) = Some old"
    and j': "j' = j\<lparr>job_revision := job_revision j + 1\<rparr>"
    and w': "w' = w\<lparr>db_now := now,
       db_jobs := update_where (current_row j) (set_job_row cfg j t cancel_at) (db_jobs w),
       db_attempts := saved_attempts j (db_attempts w), db_pages := saved_pages j (db_pages w),
       db_artifacts := saved_artifacts j (db_artifacts w)\<rparr>"
    using options(1) by (auto elim!: sql_save_job_Done)
  note current = current_row_unique [OF keys(1) row(1,2) old]
  then have same: "old = r" and hit: "current_row j old" by blast+
  let ?q = "\<lambda>r. jr_id r = job_id j \<and> jr_claim_token r = None"
  have "find ?q (db_jobs w) = Some old" using current by blast
  then have found: "find ?q (db_jobs w') = Some (set_job_row cfg j t cancel_at old)"
    using hit by (simp add: w' find_update_where current_row_def set_job_row_def)
  have attempt: "jr_current_attempt (set_job_row cfg j t cancel_at old) = job_attempt j"
    by (simp add: set_job_row_def)
  obtain b where b: "find (of_attempt (job_id j) (job_attempt j)) (db_attempts w') = Some b"
    by (simp add: w' find_saved_attempt)
  have fields: "ar_started_at b = job_started_at j" "ar_engine_name b = job_engine_name j"
    "ar_engine_version b = job_engine_version j" "ar_model_name b = job_model_name j"
    using saved_attempt_fields [of "db_attempts w" j b] cov b unfolding covers_def w' by auto
  have pages: "page_rows (job_id j) (job_attempt j) w' =
      map (row_of_page j) (sort_key page_number (job_pages j))"
    using saved_page_rows [OF keys(2)] cov by (simp add: page_rows_def w' covers_def)
  have artifacts: "artifact_rows (job_id j) (job_attempt j) w' =
      map (row_of_artifact j) (sort_key artifact_sort (job_artifacts j))"
    using saved_artifact_rows cov by (simp add: artifact_rows_def w' covers_def)
  have "map_sum page_of_row (map (row_of_page j) ps) = Inr (map stored_page ps)" for ps
    by (induction ps) (simp_all add: page_of_row_of_page)
  moreover have "map_sum artifact_of_row (map (row_of_artifact j) ts) = Inr ts" for ts
    by (induction ts) (simp_all add: artifact_of_row_of_artifact)
  ultimately have "job_of_rows (set_job_row cfg j t cancel_at old) (Some b)
      (page_rows (job_id j) (job_attempt j) w') (artifact_rows (job_id j) (job_attempt j) w') =
    Inr (stored_job options j')"
    using fields row same hit options(2)
    by (simp add: pages artifacts job_of_rows_def decode_json_def set_job_row_def stored_job_def j'
        current_row_def)
  then have "sql_jobs_get (job_id j) w' = (Done (Some (stored_job options j')), w')"
    using up by (simp add: sql_jobs_get_def connected_def w' [symmetric] bind_prog_def found attempt b)
      (simp add: w')
  moreover have "jr_revision r = job_revision j" using hit same by (simp add: current_row_def)
  ultimately show ?thesis by (simp add: j')
qed

definition sample_pg :: pg where
  "sample_pg = \<lparr>pg_topic = ''jobs'', pg_retention_days = 30, pg_upload_ttl = 3600, pg_jsonb = Some\<rparr>"

definition sample_row :: job_row where
  "sample_row = new_job_row sample_pg 5 ''{}'' (new_job (uuid_str 5) 7 ''req'' (JDict []) None 11 40 41)"

definition sample_db :: db where
  "sample_db = empty_db\<lparr>db_jobs := [sample_row],
     db_attempts := [\<lparr>ar_job_id = 11, ar_attempt = 1, ar_status = ''queued'', ar_started_at = None,
       ar_finished_at = None, ar_engine_name = None, ar_engine_version = None, ar_model_name = None\<rparr>]\<rparr>"

definition running_job :: job where
  "running_job = (new_job (uuid_str 5) 7 ''req'' (JDict []) None 11 40 41)
     \<lparr>job_state := RUNNING, job_started_at := Some 50,
      job_pages := [new_page 1 ''jobs/11/1.png'', new_page 2 ''jobs/11/2.png'']\<rparr>"

lemma sample_save:
  "sql_jobs_save sample_pg running_job sample_db =
     (Done (running_job\<lparr>job_revision := 1\<rparr>), snd (sql_jobs_save sample_pg running_job sample_db))"
proof -
  have "fst (sql_jobs_save sample_pg running_job sample_db) = Done (running_job\<lparr>job_revision := 1\<rparr>)"
    by code_simp
  then show ?thesis by (metis prod.collapse)
qed

lemma sql_save_then_get_witness:
  "job_revision (running_job\<lparr>job_revision := 1\<rparr>) = job_revision running_job + 1 \<and>
    jr_revision sample_row = job_revision running_job \<and>
    sql_jobs_get (job_id running_job) (snd (sql_jobs_save sample_pg running_job sample_db)) =
      (Done (Some (stored_job (JDict []) (running_job\<lparr>job_revision := 1\<rparr>))),
       snd (sql_jobs_save sample_pg running_job sample_db))"
proof (rule sql_save_then_get [OF sample_save, where owner = 5 and t = "''{}''"])
  show "distinct (map jr_id (db_jobs sample_db))" "distinct (map page_key (db_pages sample_db))"
    "sample_row \<in> set (db_jobs sample_db)" "jr_id sample_row = job_id running_job"
    "jr_api_key_id sample_row = 5" "jr_upload_id sample_row = job_upload_id running_job"
    "jr_idempotency_key sample_row = job_idempotency_key running_job"
    "jr_created_at sample_row = job_created_at running_job" "job_owner_id running_job = uuid_str 5"
    by (simp_all add: sample_db_def empty_db_def sample_row_def new_job_row_def running_job_def new_job_def)
  show "covers running_job sample_db"
    by (simp add: covers_def sample_db_def empty_db_def running_job_def new_job_def new_page_def
        keeps_text_def)
  show "pg_jsonb sample_pg (dumps (job_options running_job)) = Some ''{}''"
    by (simp add: sample_pg_def running_job_def new_job_def)
  show "loads ''{}'' = Some (JDict [])" by code_simp
qed

section \<open>The event log\<close>

definition events_of_job :: "uuid \<Rightarrow> 'z db_scheme \<Rightarrow> event_row list" where
  "events_of_job jid w = filter (\<lambda>r. er_job_id r = jid) (db_events w)"

definition log_ok :: "'z db_scheme \<Rightarrow> bool" where
  "log_ok w \<longleftrightarrow> (\<forall>jid. map er_sequence (events_of_job jid w) = map int [1..<Suc (length (events_of_job jid w))])"

lemma fold_max_upto: "fold max (map int [1..<Suc n]) 0 = int n"
  by (induction n) auto

lemma next_sequence_ok:
  assumes "log_ok w"
  shows "next_sequence jid (db_events w) = int (length (events_of_job jid w)) + 1"
proof -
  have "map er_sequence (events_of_job jid w) = map int [1..<Suc (length (events_of_job jid w))]"
    using assms by (simp add: log_ok_def)
  then show ?thesis
    unfolding next_sequence_def events_of_job_def [symmetric] by (simp only: fold_max_upto)
qed

lemma append_event_Done:
  assumes "append_event cfg ev w = (Done ev', w')"
  obtains (repeated) r where "stored_terminal ev (db_events w) = Some r" "r \<in> set (db_events w)"
      "repeats ev r" "w' = w" "ev' = event_with_sequence (er_sequence r) ev"
  | (appended) row where "stored_terminal ev (db_events w) = None" "er_job_id row = ev_job_id ev"
      "er_sequence row = next_sequence (ev_job_id ev) (db_events w)"
      "er_event_type row = ev_event_type ev" "pg_jsonb cfg (dumps (event_payload ev)) = Some (er_payload row)"
      "w' = w\<lparr>db_events := db_events w @ [row]\<rparr>"
      "ev' = event_with_sequence (er_sequence row) ev" "er_created_at row = ev_occurred_at ev"
proof (cases "stored_terminal ev (db_events w)")
  case (Some r)
  then have "r \<in> set (db_events w)" "repeats ev r"
    by (auto simp: stored_terminal_def find_Some_iff dest: nth_mem split: if_splits)
  moreover have "w' = w" "ev' = event_with_sequence (er_sequence r) ev"
    using assms Some by (simp_all add: append_event_def bind_prog_def)
  ultimately show ?thesis using repeated Some by blast
next
  case None
  let ?seq = "next_sequence (ev_job_id ev) (db_events w)"
  obtain code payload where row:
    "pg_jsonb cfg (dumps (event_payload ev)) = Some payload"
    "w' = w\<lparr>db_events := db_events w @ [\<lparr>er_job_id = ev_job_id ev, er_sequence = ?seq,
        er_event_type = ev_event_type ev, er_internal_code = code, er_payload = payload,
        er_created_at = ev_occurred_at ev\<rparr>]\<rparr>"
    "ev' = event_with_sequence ?seq ev"
    using assms None unfolding append_event_def
    by (auto simp: sql_steps sql_json_Done lift_sum_def split: sum.splits)
  show ?thesis
    by (rule appended [OF None _ _ _ _ row(2)]) (use row(1,3) in simp_all)
qed

text \<open>At most one stored event of each terminal kind per attempt.\<close>

definition same_terminal :: "event_row \<Rightarrow> event_row \<Rightarrow> bool" where
  "same_terminal r s \<longleftrightarrow> er_job_id r = er_job_id s \<and> er_event_type r = er_event_type s \<and>
     er_event_type r \<in> {''job.cancelled'', ''job.failed'', ''job.succeeded''} \<and>
     row_attempt r = row_attempt s"

lemma same_terminal_sym: "same_terminal r s \<Longrightarrow> same_terminal s r"
  by (auto simp: same_terminal_def)

definition terminal_once :: "'z db_scheme \<Rightarrow> bool" where
  "terminal_once w \<longleftrightarrow>
     (\<forall>r \<in> set (db_events w). \<forall>s \<in> set (db_events w). same_terminal r s \<longrightarrow> r = s)"

text \<open>
  Documented of \<open>jsonb\<close>: the stored text is a JSON document again, and an integer member of a member
  is the same integer. Order, duplicates and spacing may change.
\<close>

definition member_of :: "json \<Rightarrow> string \<Rightarrow> string \<Rightarrow> json option" where
  "member_of v k l = Option.bind (json_get v k) (\<lambda>x. json_get x l)"

definition jsonb_keeps_integers :: "pg \<Rightarrow> bool" where
  "jsonb_keeps_integers cfg \<longleftrightarrow>
     (\<forall>v t. json_ok v \<longrightarrow> pg_jsonb cfg (dumps v) = Some t \<longrightarrow>
        (\<exists>v'. loads t = Some v' \<and>
          (\<forall>k l i. member_of v k l = Some (JInt i) \<longrightarrow> member_of v' k l = Some (JInt i))))"

lemma jsonb_identity: "jsonb_keeps_integers (cfg\<lparr>pg_jsonb := Some\<rparr>)"
  by (simp add: jsonb_keeps_integers_def loads_dumps)

lemma zeros_digits: "list_all is_digit (replicate k (CHR ''0''))"
  by (simp add: list_all_iff is_digit_def)

lemma progress_num:
  assumes "0 \<le> p"
  shows "num_text (progress_text p)"
proof -
  define four where "four = pad_zeros 4 (str_nat (nat (p mod 10000)))"
  define frac where "frac = (let f = rev (dropWhile (\<lambda>c. c = CHR ''0'') (rev four)) in if f = [] then ''0'' else f)"
  have four: "list_all is_digit four"
    using str_nat_digits zeros_digits by (simp add: four_def pad_zeros_def)
  have frac: "list_all is_digit frac" "frac \<noteq> []"
    using four set_dropWhileD [of _ _ "rev four"]
    by (auto simp: frac_def Let_def list_all_iff is_digit_def)
  have shape: "progress_text p = str_nat (nat (p div 10000)) @ CHR ''.'' # frac"
    using assms
    by (simp add: progress_text_def frac_def four_def Let_def str_int_def pos_imp_zdiv_neg_iff)
  have dot: "\<not> is_digit (CHR ''.'')" by (simp add: is_digit_def)
  have tw: "takeWhile is_digit (progress_text p) = str_nat (nat (p div 10000))"
    "dropWhile is_digit (progress_text p) = CHR ''.'' # frac"
    using takeWhile_closed [OF str_nat_digits, of "CHR ''.'' # frac"] dot by (simp_all add: shape)
  have split: "minus_split (progress_text p) = (False, progress_text p)"
    using str_nat_Cons [of "nat (p div 10000)"]
    by (auto simp: shape minus_split_def is_digit_def)
  have whole: "takeWhile is_digit frac = frac" "dropWhile is_digit frac = []"
    using takeWhile_closed [OF frac(1), of "[]"] by simp_all
  have "float_token (progress_text p)"
    using frac(2) by (simp add: float_token_def split tw int_part_ok_str_nat fraction_ok_def whole exponent_ok_def)
  moreover have "list_all is_num_char (progress_text p)"
  proof -
    have "list_all is_num_char (str_nat n)" for n
      using str_nat_digits by (rule list.pred_mono_strong) (rule digit_num_char)
    moreover have "list_all is_num_char frac"
      using frac(1) by (rule list.pred_mono_strong) (rule digit_num_char)
    moreover have "is_num_char (CHR ''.'')" by code_simp
    ultimately show ?thesis by (simp add: shape)
  qed
  ultimately show ?thesis by (simp add: num_text_def)
qed

text \<open>The events of the backend: a readable payload with the attempt, a progress of at least zero.\<close>

definition event_of_attempt :: "int \<Rightarrow> job_event \<Rightarrow> bool" where
  "event_of_attempt n ev \<longleftrightarrow> json_ok (JDict (ev_payload ev)) \<and>
     map_of (ev_payload ev) ''attempt'' = Some (JInt n) \<and> 0 \<le> ev_progress ev"

lemma stored_attempt:
  assumes "event_of_attempt n ev" and "jsonb_keeps_integers cfg"
    and "pg_jsonb cfg (dumps (event_payload ev)) = Some (er_payload row)"
  shows "row_attempt row = Some (str_int n)"
proof -
  have "json_ok (event_payload ev)"
    using assms(1) by (simp add: event_of_attempt_def event_payload_def progress_num)
  moreover have "member_of (event_payload ev) ''data'' ''attempt'' = Some (JInt n)"
    using assms(1) by (simp add: event_of_attempt_def event_payload_def member_of_def)
  ultimately obtain v where "loads (er_payload row) = Some v" "member_of v ''data'' ''attempt'' = Some (JInt n)"
    using assms(2,3) unfolding jsonb_keeps_integers_def by blast
  then show ?thesis by (auto simp: row_attempt_def member_of_def bind_eq_Some_conv)
qed

lemma log_ok_append:
  assumes "log_ok w" and "er_sequence row = next_sequence (er_job_id row) (db_events w)"
  shows "log_ok (w\<lparr>db_events := db_events w @ [row]\<rparr>)"
  using assms next_sequence_ok [OF assms(1), of "er_job_id row"]
  by (auto simp: log_ok_def events_of_job_def)


definition failed_event :: job_event where
  "failed_event = \<lparr>ev_job_id = 11, ev_event_type = ''job.failed'', ev_state = FAILED, ev_progress = 0,
     ev_request_id = ''req'', ev_payload = [(''attempt'', JInt 1)], ev_sequence = 0, ev_occurred_at = 9\<rparr>"


section \<open>The two event repositories agree\<close>

text \<open>A stored event of the in-memory repository and a row of the table with the same identity.\<close>

definition same_event :: "job_event \<Rightarrow> event_row \<Rightarrow> bool" where
  "same_event e r \<longleftrightarrow> ev_event_type e = er_event_type r \<and> ev_sequence e = er_sequence r \<and>
     (\<exists>n. event_attempt e = Some (JInt n) \<and> row_attempt r = Some (str_int n))"

definition same_logs :: "mem \<Rightarrow> 'z db_scheme \<Rightarrow> bool" where
  "same_logs m w \<longleftrightarrow> (\<forall>jid. list_all2 same_event (events_of m jid) (events_of_job jid w))"

lemma find_list_all2:
  assumes "list_all2 R xs ys" and "\<And>x y. R x y \<Longrightarrow> p x \<longleftrightarrow> q y"
  shows "rel_option R (find p xs) (find q ys)"
  using assms by (induction rule: list_all2_induct) auto

lemma find_filter: "find q (filter p xs) = find (\<lambda>x. p x \<and> q x) xs"
  by (induction xs) auto

lemma events_of_update:
  "events_of (m\<lparr>m_events := AList.update jid evs (m_events m)\<rparr>) k = (if k = jid then evs else events_of m k)"
  by (simp add: events_of_def)

lemma same_terminals:
  assumes "same_logs m w" and "event_of_attempt n ev"
  shows "rel_option same_event (find_terminal ev (events_of m (ev_job_id ev)))
    (stored_terminal ev (db_events w))"
proof -
  have attempts: "event_attempt ev = Some (JInt n)" "attempt_text ev = str_int n"
    using assms(2) by (simp_all add: event_of_attempt_def event_attempt_def attempt_text_def)
  have "rel_option same_event
      (find (\<lambda>x. ev_event_type x = ev_event_type ev \<and> event_attempt x = event_attempt ev)
        (events_of m (ev_job_id ev)))
      (find (\<lambda>r. er_event_type r = ev_event_type ev \<and> row_attempt r = Some (attempt_text ev))
        (events_of_job (ev_job_id ev) w))"
    using assms(1) by (intro find_list_all2) (auto simp: same_logs_def same_event_def attempts)
  moreover have "find (\<lambda>r. er_event_type r = ev_event_type ev \<and> row_attempt r = Some (attempt_text ev))
        (events_of_job (ev_job_id ev) w) = find (repeats ev) (db_events w)"
    by (simp add: events_of_job_def find_filter repeats_def [abs_def])
  ultimately show ?thesis
    by (simp add: find_terminal_def terminal_event_types_def stored_terminal_def)
qed



end
