(* ===== verification/Retention.thy ===== *)
theory Retention
  imports Persistence Config
begin

text \<open>
  Removal of expired data: the repository \<open>AsyncpgRetentionRepository\<close> of
  \<^verbatim>\<open>infrastructure/persistence.py\<close>, the cleanup service of
  \<^verbatim>\<open>application/retention.py\<close> and the loop of \<^verbatim>\<open>retention_main.py\<close>.

  A claiming statement runs as one step: rows that another transaction has locked are skipped
  by the server, and in a sequence of steps there are none. \<open>RETURNING\<close> lists the rows in the
  order of the candidates. Object keys sort by their bytes.
\<close>

section \<open>Claims\<close>

definition claimable_job :: "time \<Rightarrow> job_row \<Rightarrow> bool" where
  "claimable_job now r \<longleftrightarrow>
     jr_status r \<in> {''succeeded'', ''failed'', ''cancelled''} \<and> jr_expires_at r \<le> now \<and>
     (jr_claim_token r = None \<or>
      (case jr_lease_expires_at r of Some t \<Rightarrow> t \<le> now | None \<Rightarrow> False))"

definition claimable_upload :: "job_row list \<Rightarrow> time \<Rightarrow> upload_row \<Rightarrow> bool" where
  "claimable_upload jobs now r \<longleftrightarrow>
     ur_expires_at r \<le> now \<and> \<not> (\<exists>j \<in> set jobs. jr_upload_id j = ur_id r) \<and>
     (ur_claim_token r = None \<or>
      (case ur_lease_expires_at r of Some t \<Rightarrow> t \<le> now | None \<Rightarrow> False))"

definition expired_jobs :: "time \<Rightarrow> nat \<Rightarrow> job_row list \<Rightarrow> job_row list" where
  "expired_jobs now limit rows =
     take limit (sort_key (\<lambda>r. (jr_expires_at r, jr_id r)) (filter (claimable_job now) rows))"

definition expired_uploads :: "job_row list \<Rightarrow> time \<Rightarrow> nat \<Rightarrow> upload_row list \<Rightarrow> upload_row list" where
  "expired_uploads jobs now limit rows =
     take limit (sort_key (\<lambda>r. (ur_expires_at r, ur_id r)) (filter (claimable_upload jobs now) rows))"

definition claim_job_row :: "uuid \<Rightarrow> time \<Rightarrow> time \<Rightarrow> job_row \<Rightarrow> job_row" where
  "claim_job_row token lease now r =
     r\<lparr>jr_claim_token := Some token, jr_lease_expires_at := Some lease, jr_updated_at := now\<rparr>"

definition claim_upload_row :: "uuid \<Rightarrow> time \<Rightarrow> time \<Rightarrow> upload_row \<Rightarrow> upload_row" where
  "claim_upload_row token lease now r =
     r\<lparr>ur_claim_token := Some token, ur_lease_expires_at := Some lease, ur_updated_at := now\<rparr>"

text \<open>
  The keys that the pages and artifacts of a job refer to, of any attempt, under the prefix of
  the job; \<open>UNION\<close> removes duplicates.
\<close>

definition job_prefix :: "uuid \<Rightarrow> string" where
  "job_prefix jid = ''jobs/'' @ uuid_str jid @ ''/''"

fun opt_list :: "'a option \<Rightarrow> 'a list" where
  "opt_list None = []"
| "opt_list (Some x) = [x]"

definition page_refs :: "page_row \<Rightarrow> string list" where
  "page_refs r = pr_source_object_key r # opt_list (pr_result_object_key r) @ opt_list (pr_visualization_object_key r)"

definition job_object_keys :: "page_row list \<Rightarrow> artifact_row list \<Rightarrow> uuid \<Rightarrow> string list" where
  "job_object_keys pages artifacts jid =
     sort (remdups (filter (\<lambda>k. k \<noteq> [] \<and> starts_with (job_prefix jid) k)
       (concat (map page_refs (filter (\<lambda>r. pr_job_id r = jid) pages)) @
        map tr_object_key (filter (\<lambda>r. tr_job_id r = jid) artifacts))))"

definition job_candidate :: "uuid \<Rightarrow> 'z db_scheme \<Rightarrow> job_row \<Rightarrow> retention_candidate" where
  "job_candidate token w r =
     \<lparr>cand_aggregate_kind = AGG_JOB, cand_aggregate_id = jr_id r, cand_claim_token = token,
      cand_object_keys = job_object_keys (db_pages w) (db_artifacts w) (jr_id r),
      cand_multipart_upload_id = None\<rparr>"

definition upload_candidate :: "uuid \<Rightarrow> upload_row \<Rightarrow> retention_candidate" where
  "upload_candidate token r =
     \<lparr>cand_aggregate_kind = AGG_UPLOAD, cand_aggregate_id = ur_id r, cand_claim_token = token,
      cand_object_keys = [ur_object_key r],
      cand_multipart_upload_id =
        (if ur_status r = ''pending'' then ur_multipart_upload_id r else None)\<rparr>"

definition claim_jobs :: "time \<Rightarrow> nat \<Rightarrow> time \<Rightarrow> ('z, retention_candidate list) sql" where
  "claim_jobs now limit lease =
     bind_prog fresh_uuid (\<lambda>token.
     bind_prog (sql_get (\<lambda>w. expired_jobs now limit (db_jobs w))) (\<lambda>rows.
     bind_prog (sql_put (\<lambda>w. w\<lparr>db_jobs := update_where (\<lambda>r. jr_id r \<in> jr_id ` set rows)
        (claim_job_row token lease (db_now w)) (db_jobs w)\<rparr>)) (\<lambda>_.
     sql_get (\<lambda>w. map (job_candidate token w) rows))))"

definition claim_uploads :: "time \<Rightarrow> nat \<Rightarrow> time \<Rightarrow> ('z, retention_candidate list) sql" where
  "claim_uploads now limit lease =
     bind_prog fresh_uuid (\<lambda>token.
     bind_prog (sql_get (\<lambda>w. expired_uploads (db_jobs w) now limit (db_uploads w))) (\<lambda>rows.
     bind_prog (sql_put (\<lambda>w. w\<lparr>db_uploads := update_where (\<lambda>r. ur_id r \<in> ur_id ` set rows)
        (claim_upload_row token lease (db_now w)) (db_uploads w)\<rparr>)) (\<lambda>_.
     ret (map (upload_candidate token) rows))))"

definition claim_expired :: "time \<Rightarrow> int \<Rightarrow> int \<Rightarrow> ('z, retention_candidate list) sql" where
  "claim_expired now limit lease_seconds =
     (if limit < 1 then ret []
      else connected (transaction
        (bind_prog (claim_jobs now (nat limit) (now + lease_seconds * 1000000)) (\<lambda>jobs.
         if 0 < limit - int (length jobs)
         then bind_prog (claim_uploads now (nat limit - length jobs) (now + lease_seconds * 1000000))
                (\<lambda>uploads. ret (jobs @ uploads))
         else ret jobs))))"

definition holds_job :: "retention_candidate \<Rightarrow> job_row \<Rightarrow> bool" where
  "holds_job c r \<longleftrightarrow> jr_id r = cand_aggregate_id c \<and> jr_claim_token r = Some (cand_claim_token c)"

definition holds_upload :: "retention_candidate \<Rightarrow> upload_row \<Rightarrow> bool" where
  "holds_upload c r \<longleftrightarrow> ur_id r = cand_aggregate_id c \<and> ur_claim_token r = Some (cand_claim_token c)"

text \<open>Deleting a job also deletes the rows that refer to it.\<close>

definition delete_job :: "retention_candidate \<Rightarrow> 'z db_scheme \<Rightarrow> 'z db_scheme" where
  "delete_job c w =
     w\<lparr>db_jobs := filter (\<lambda>r. \<not> holds_job c r) (db_jobs w),
       db_attempts := filter (\<lambda>r. ar_job_id r \<noteq> cand_aggregate_id c) (db_attempts w),
       db_pages := filter (\<lambda>r. pr_job_id r \<noteq> cand_aggregate_id c) (db_pages w),
       db_artifacts := filter (\<lambda>r. tr_job_id r \<noteq> cand_aggregate_id c) (db_artifacts w),
       db_events := filter (\<lambda>r. er_job_id r \<noteq> cand_aggregate_id c) (db_events w)\<rparr>"

definition delete_outbox :: "uuid \<Rightarrow> 'z db_scheme \<Rightarrow> 'z db_scheme" where
  "delete_outbox jid w =
     w\<lparr>db_outbox := filter (\<lambda>r. \<not> (or_aggregate_type r = ''ocr_job'' \<and> or_aggregate_id r = jid)) (db_outbox w)\<rparr>"

definition removable_upload :: "retention_candidate \<Rightarrow> job_row list \<Rightarrow> upload_row \<Rightarrow> bool" where
  "removable_upload c jobs r \<longleftrightarrow>
     holds_upload c r \<and> \<not> (\<exists>j \<in> set jobs. jr_upload_id j = ur_id r)"

definition complete_claim :: "retention_candidate \<Rightarrow> ('z, bool) sql" where
  "complete_claim c =
     connected (transaction
       (if cand_aggregate_kind c = AGG_JOB then
          bind_prog (sql_get (\<lambda>w. \<exists>r \<in> set (db_jobs w). holds_job c r)) (\<lambda>claimed.
          if \<not> claimed then ret False
          else
            bind_prog (sql_put (delete_outbox (cand_aggregate_id c))) (\<lambda>_.
            bind_prog (sql_get (\<lambda>w. count_where (holds_job c) (db_jobs w))) (\<lambda>deleted.
            bind_prog (sql_put (delete_job c)) (\<lambda>_.
            ret (deleted = 1)))))
        else
          bind_prog (sql_get (\<lambda>w. count_where (removable_upload c (db_jobs w)) (db_uploads w))) (\<lambda>deleted.
          bind_prog (sql_put (\<lambda>w. w\<lparr>db_uploads :=
             filter (\<lambda>r. \<not> removable_upload c (db_jobs w) r) (db_uploads w)\<rparr>)) (\<lambda>_.
          ret (deleted = 1)))))"

definition defer_claim :: "retention_candidate \<Rightarrow> time \<Rightarrow> ('z, unit) sql" where
  "defer_claim c retry_at =
     connected
       (if cand_aggregate_kind c = AGG_JOB then
          sql_put (\<lambda>w. w\<lparr>db_jobs := update_where (holds_job c)
            (\<lambda>r. r\<lparr>jr_lease_expires_at := Some retry_at, jr_updated_at := db_now w\<rparr>) (db_jobs w)\<rparr>)
        else
          sql_put (\<lambda>w. w\<lparr>db_uploads := update_where (holds_upload c)
            (\<lambda>r. r\<lparr>ur_lease_expires_at := Some retry_at, ur_updated_at := db_now w\<rparr>) (db_uploads w)\<rparr>))"

section \<open>The cleanup service\<close>

record 'w cleanup =
  cl_now :: "('w, time) op"
  cl_claim_expired :: "time \<Rightarrow> int \<Rightarrow> int \<Rightarrow> ('w, retention_candidate list) op"
  cl_complete :: "retention_candidate \<Rightarrow> ('w, bool) op"
  cl_defer :: "retention_candidate \<Rightarrow> time \<Rightarrow> ('w, unit) op"
  cl_abort_multipart_upload :: "string \<Rightarrow> string \<Rightarrow> ('w, unit) op"
  cl_delete_object :: "string \<Rightarrow> ('w, unit) op"
  cl_logger_info :: "string \<Rightarrow> (string \<times> json) list \<Rightarrow> ('w, unit) op"
  cl_logger_error :: "string \<Rightarrow> (string \<times> json) list \<Rightarrow> ('w, unit) op"
  cl_retry_delay_seconds :: int

record batch_result =
  batch_claimed :: int
  batch_completed :: int
  batch_deferred :: int
  batch_deleted_objects :: int

text \<open>\<open>dict.fromkeys\<close>: the first occurrence of every key.\<close>

definition fromkeys :: "'a list \<Rightarrow> 'a list" where
  "fromkeys xs = rev (remdups (rev xs))"

text \<open>
  \<open>gather(..., return_exceptions=True)\<close>: every deletion runs, and the first exception in the
  order of the keys is raised afterwards.
\<close>

definition outcome_of :: "('w, unit) op \<Rightarrow> ('w, exn option) op" where
  "outcome_of m = catch_prog (bind_prog m (\<lambda>_. ret None)) (\<lambda>e. ret (Some e))"

definition delete_objects :: "'w cleanup \<Rightarrow> retention_candidate \<Rightarrow> ('w, int) op" where
  "delete_objects env c =
     (let keys = fromkeys (filter (\<lambda>k. k \<noteq> []) (cand_object_keys c));
          abort =
            (case cand_multipart_upload_id c of
               None \<Rightarrow> ret ()
             | Some mid \<Rightarrow>
                 if mid = [] then ret ()
                 else if length keys \<noteq> 1 then
                   raise_exc (ValueError ''multipart upload cleanup requires one source object'')
                 else cl_abort_multipart_upload env (hd keys) mid)
      in bind_prog abort (\<lambda>_.
         bind_prog (map_prog (\<lambda>k. outcome_of (cl_delete_object env k)) keys) (\<lambda>results.
         case List.find (\<lambda>r. r \<noteq> None) results of
           Some (Some e) \<Rightarrow> raise_exc e
         | _ \<Rightarrow> ret (int (length keys)))))"

definition kind_text :: "retention_candidate \<Rightarrow> string" where
  "kind_text c = (if cand_aggregate_kind c = AGG_JOB then ''job'' else ''upload'')"

definition cand_fields :: "retention_candidate \<Rightarrow> (string \<times> json) list" where
  "cand_fields c = [(''aggregate_kind'', JStr (kind_text c)),
     (''aggregate_id'', JStr (uuid_str (cand_aggregate_id c)))]"

text \<open>The body of the \<open>try\<close>: an exception carries the counters as they stood.\<close>

definition candidate_try ::
    "'w cleanup \<Rightarrow> batch_result \<Rightarrow> retention_candidate \<Rightarrow> ('w, exn \<times> batch_result, batch_result) prog" where
  "candidate_try env b c =
     bind_prog (at_local b (delete_objects env c)) (\<lambda>n.
     let b1 = b\<lparr>batch_deleted_objects := batch_deleted_objects b + n\<rparr>
     in bind_prog (at_local b1 (cl_complete env c)) (\<lambda>completed.
        if completed then
          let b2 = b1\<lparr>batch_completed := batch_completed b1 + 1\<rparr>
          in bind_prog (at_local b2 (cl_logger_info env ''retention_candidate_deleted''
               (cand_fields c @ [(''object_count'', JInt (int (length (cand_object_keys c))))]))) (\<lambda>_. ret b2)
        else
          let b2 = b1\<lparr>batch_deferred := batch_deferred b1 + 1\<rparr>
          in bind_prog (at_local b2 (cl_logger_error env ''retention_candidate_claim_lost''
               (cand_fields c))) (\<lambda>_. ret b2)))"

definition candidate_failed ::
    "'w cleanup \<Rightarrow> retention_candidate \<Rightarrow> exn \<Rightarrow> batch_result \<Rightarrow> ('w, batch_result) op" where
  "candidate_failed env c e b =
     bind_prog (cl_now env) (\<lambda>now.
     bind_prog
       (catch_prog (cl_defer env c (now + cl_retry_delay_seconds env * 1000000)) (\<lambda>e'.
          if is_exception e'
          then cl_logger_error env ''retention_candidate_defer_failed''
                 (cand_fields c @ [(''error_type'', JStr (exn_name e'))])
          else raise_exc e')) (\<lambda>_.
     bind_prog
       (cl_logger_error env ''retention_candidate_failed''
          (cand_fields c @ [(''error_type'', JStr (exn_name e))])) (\<lambda>_.
     ret (b\<lparr>batch_deferred := batch_deferred b + 1\<rparr>))))"

definition candidate_turn ::
    "'w cleanup \<Rightarrow> batch_result \<Rightarrow> retention_candidate \<Rightarrow> ('w, batch_result) op" where
  "candidate_turn env b c =
     catch_prog (candidate_try env b c) (\<lambda>(e, b').
       if is_exception e then candidate_failed env c e b' else raise_exc e)"

fun candidate_loop ::
    "'w cleanup \<Rightarrow> retention_candidate list \<Rightarrow> batch_result \<Rightarrow> ('w, batch_result) op" where
  "candidate_loop env [] b = ret b"
| "candidate_loop env (c # cs) b = bind_prog (candidate_turn env b c) (candidate_loop env cs)"

definition run_batch ::
    "'w cleanup \<Rightarrow> int \<Rightarrow> int \<Rightarrow> time option \<Rightarrow> ('w, batch_result) op" where
  "run_batch env limit lease_seconds now =
     (if limit < 1 then raise_exc (ValueError ''limit must be positive'')
      else if lease_seconds < 1 then raise_exc (ValueError ''lease_seconds must be positive'')
      else
        bind_prog (case now of Some t \<Rightarrow> ret t | None \<Rightarrow> cl_now env) (\<lambda>current_time.
        bind_prog (cl_claim_expired env current_time limit lease_seconds) (\<lambda>candidates.
        candidate_loop env candidates
          \<lparr>batch_claimed = int (length candidates), batch_completed = 0, batch_deferred = 0,
           batch_deleted_objects = 0\<rparr>)))"

text \<open>The constructor refuses counts below one.\<close>

definition make_cleanup :: "'w cleanup \<Rightarrow> int \<Rightarrow> exn + 'w cleanup" where
  "make_cleanup env delete_concurrency =
     (if delete_concurrency < 1 then Inl (ValueError ''delete_concurrency must be positive'')
      else if cl_retry_delay_seconds env < 1 then Inl (ValueError ''retry_delay_seconds must be positive'')
      else Inr env)"

section \<open>The process\<close>

definition batch_fields :: "batch_result \<Rightarrow> (string \<times> json) list" where
  "batch_fields b = [(''claimed'', JInt (batch_claimed b)), (''completed'', JInt (batch_completed b)),
     (''deferred'', JInt (batch_deferred b)), (''deleted_objects'', JInt (batch_deleted_objects b))]"

definition batch_step :: "settings \<Rightarrow> 'w cleanup \<Rightarrow> ('w, batch_result) op" where
  "batch_step s env =
     bind_prog (run_batch env (retention_cleanup_batch_size s) (retention_cleanup_lease_seconds s) None) (\<lambda>b.
     bind_prog
       (if batch_claimed b \<noteq> 0 then cl_logger_info env ''retention_batch_completed'' (batch_fields b)
        else ret ()) (\<lambda>_. ret b))"

fun retention_run ::
    "settings \<Rightarrow> 'w cleanup \<Rightarrow> (int \<Rightarrow> ('w, unit) op) \<Rightarrow> bool \<Rightarrow> nat \<Rightarrow> ('w, unit) op" where
  "retention_run s env sleep once 0 = diverge"
| "retention_run s env sleep once (Suc n) =
     bind_prog
       (catch_prog (bind_prog (batch_step s env) (\<lambda>b. ret (Some b))) (\<lambda>e.
          if e = CancelledError then raise_exc e
          else
            bind_prog (cl_logger_error env ''retention_batch_failed'' [(''error_type'', JStr (exn_name e))]) (\<lambda>_.
            if once then raise_exc e
            else bind_prog (sleep (retention_cleanup_interval s)) (\<lambda>_. ret None)))) (\<lambda>result.
     case result of
       None \<Rightarrow> retention_run s env sleep once n
     | Some b \<Rightarrow>
         if once then ret ()
         else
           bind_prog
             (if retention_cleanup_batch_size s \<le> batch_claimed b then sleep 0
              else sleep (retention_cleanup_interval s)) (\<lambda>_.
           retention_run s env sleep once n))"

end
