(* ===== verification/Retention_Laws.thy ===== *)
theory Retention_Laws
  imports Retention Persistence_Laws
begin

text \<open>
  What a cleanup batch over the tables may remove: jobs in a final state whose time has passed, and
  only after their objects; and what a claim does to the other operations.
\<close>

section \<open>The service over the tables\<close>

definition pg_cleanup ::
    "(string \<Rightarrow> ('z, unit) sql) \<Rightarrow> (string \<Rightarrow> string \<Rightarrow> ('z, unit) sql) \<Rightarrow>
     (string \<Rightarrow> (string \<times> json) list \<Rightarrow> ('z, unit) sql) \<Rightarrow> int \<Rightarrow> 'z db_scheme cleanup" where
  "pg_cleanup delete_object abort log delay =
     \<lparr>cl_now = clock_now, cl_claim_expired = claim_expired, cl_complete = complete_claim,
      cl_defer = defer_claim, cl_abort_multipart_upload = abort, cl_delete_object = delete_object,
      cl_logger_info = log, cl_logger_error = log, cl_retry_delay_seconds = delay\<rparr>"

text \<open>
  The storage and the log live beside the tables: \<open>present\<close> reads the keys of the stored objects
  from the rest of the world. A deletion that returns has removed its key, and no other.
\<close>

definition same_tables :: "'z db_scheme \<Rightarrow> 'z db_scheme \<Rightarrow> bool" where
  "same_tables w w' \<longleftrightarrow> db_api_keys w' = db_api_keys w \<and> db_uploads w' = db_uploads w \<and>
     db_jobs w' = db_jobs w \<and> db_attempts w' = db_attempts w \<and> db_pages w' = db_pages w \<and>
     db_artifacts w' = db_artifacts w \<and> db_outbox w' = db_outbox w \<and> db_events w' = db_events w"

definition deletes :: "('z \<Rightarrow> string set) \<Rightarrow> string \<Rightarrow> ('z, unit) sql \<Rightarrow> bool" where
  "deletes present k m \<longleftrightarrow>
     (\<forall>w r w'. m w = (r, w') \<longrightarrow> same_tables w w' \<and>
        present (db.more w') \<subseteq> present (db.more w) \<and>
        present (db.more w) - {k} \<subseteq> present (db.more w') \<and>
        (r = Done () \<longrightarrow> k \<notin> present (db.more w')))"

definition leaves :: "('z \<Rightarrow> string set) \<Rightarrow> ('z, unit) sql \<Rightarrow> bool" where
  "leaves present m \<longleftrightarrow>
     (\<forall>w. same_tables w (snd (m w)) \<and> present (db.more (snd (m w))) = present (db.more w))"

text \<open>Every row that belongs to a job.\<close>

definition job_data ::
    "uuid \<Rightarrow> 'z db_scheme \<Rightarrow> job_row list \<times> attempt_row list \<times> page_row list \<times> artifact_row list \<times>
       event_row list \<times> outbox_row list" where
  "job_data jid w =
     (filter (\<lambda>r. jr_id r = jid) (db_jobs w), filter (\<lambda>r. ar_job_id r = jid) (db_attempts w),
      filter (\<lambda>r. pr_job_id r = jid) (db_pages w), filter (\<lambda>r. tr_job_id r = jid) (db_artifacts w),
      filter (\<lambda>r. er_job_id r = jid) (db_events w),
      filter (\<lambda>r. or_aggregate_id r = jid) (db_outbox w))"

definition job_keys :: "'z db_scheme \<Rightarrow> uuid \<Rightarrow> string set" where
  "job_keys w jid = set (job_object_keys (db_pages w) (db_artifacts w) jid)"

definition removable_keys :: "time \<Rightarrow> 'z db_scheme \<Rightarrow> string set" where
  "removable_keys now w =
     (\<Union>j \<in> {j \<in> set (db_jobs w). claimable_job now j}. job_keys w (jr_id j)) \<union>
     ur_object_key ` {u \<in> set (db_uploads w). claimable_upload (db_jobs w) now u}"

lemma same_tables_refl [simp]: "same_tables w w"
  by (simp add: same_tables_def)

lemma same_tables_data: "same_tables w w' \<Longrightarrow> job_data jid w' = job_data jid w"
  by (simp add: same_tables_def job_data_def)

lemma set_expired_jobs: "set (expired_jobs now limit rows) \<subseteq> {r \<in> set rows. claimable_job now r}"
  unfolding expired_jobs_def by (auto dest!: in_set_takeD)

lemma set_expired_uploads:
  "set (expired_uploads jobs now limit rows) \<subseteq> {r \<in> set rows. claimable_upload jobs now r}"
  unfolding expired_uploads_def by (auto dest!: in_set_takeD)

lemma job_keys_nonempty: "[] \<notin> job_keys w jid"
  by (auto simp: job_keys_def job_object_keys_def)

section \<open>The invariant of a batch\<close>

text \<open>\<open>w\<close> is reached in a batch that started in \<open>w0\<close>.\<close>

definition batch_inv :: "('z \<Rightarrow> string set) \<Rightarrow> time \<Rightarrow> 'z db_scheme \<Rightarrow> 'z db_scheme \<Rightarrow> bool" where
  "batch_inv present now w0 w \<longleftrightarrow>
     (\<forall>j \<in> set (db_jobs w0). \<not> claimable_job now j \<longrightarrow> job_data (jr_id j) w = job_data (jr_id j) w0) \<and>
     (\<forall>j \<in> set (db_jobs w0). claimable_job now j \<longrightarrow> jr_id j \<notin> jr_id ` set (db_jobs w) \<longrightarrow>
        job_keys w0 (jr_id j) \<inter> present (db.more w) = {}) \<and>
     present (db.more w) \<subseteq> present (db.more w0) \<and>
     present (db.more w0) - present (db.more w) \<subseteq> removable_keys now w0"

text \<open>A candidate stands for a claimable job with its keys, or for a claimable upload.\<close>

definition good_candidate :: "time \<Rightarrow> 'z db_scheme \<Rightarrow> retention_candidate \<Rightarrow> bool" where
  "good_candidate now w0 c \<longleftrightarrow>
     (if cand_aggregate_kind c = AGG_JOB
      then \<exists>j \<in> set (db_jobs w0). claimable_job now j \<and> cand_aggregate_id c = jr_id j \<and>
             set (cand_object_keys c) = job_keys w0 (jr_id j)
      else set (cand_object_keys c) \<subseteq> removable_keys now w0)"

lemma batch_inv_start: "batch_inv present now w w"
  by (auto simp: batch_inv_def)

lemma batch_inv_more:
  assumes "batch_inv present now w0 w" and "same_tables w w'"
    and "present (db.more w') \<subseteq> present (db.more w)"
    and "present (db.more w) - K \<subseteq> present (db.more w')" and "K \<subseteq> removable_keys now w0"
  shows "batch_inv present now w0 w'"
proof -
  have "db_jobs w' = db_jobs w" using assms(2) by (simp add: same_tables_def)
  note inv = assms(1) [unfolded batch_inv_def]
  show ?thesis
    unfolding batch_inv_def same_tables_data [OF assms(2)] \<open>db_jobs w' = db_jobs w\<close>
  proof (intro conjI)
    show "present (db.more w0) - present (db.more w') \<subseteq> removable_keys now w0"
      using inv assms(4,5) by blast
  qed (use inv assms(3) in blast)+
qed

lemma maintains_leaves: "leaves present m \<Longrightarrow> maintains (batch_inv present now w0) P m (\<lambda>_ _. True)"
  unfolding leaves_def
  by (rule maintainsI) (metis batch_inv_more [where K = "{}"] Diff_empty empty_subsetI order_refl snd_conv)

text \<open>Changing only the claim of rows keeps the invariant when those rows are claimable.\<close>

lemma batch_inv_rows:
  assumes "batch_inv present now w0 w"
    and "map jr_id (db_jobs w') = map jr_id (db_jobs w)"
    and "\<And>j. j \<in> set (db_jobs w0) \<Longrightarrow> \<not> claimable_job now j \<Longrightarrow>
        job_data (jr_id j) w' = job_data (jr_id j) w"
    and "db.more w' = db.more w"
  shows "batch_inv present now w0 w'"
proof -
  have "jr_id ` set (db_jobs w') = jr_id ` set (db_jobs w)" using assms(2) by (metis image_set)
  then show ?thesis using assms(1,3,4) unfolding batch_inv_def by auto
qed

lemma filter_update_other:
  "(\<And>r. p r \<Longrightarrow> \<not> q r) \<Longrightarrow> (\<And>r. p r \<Longrightarrow> \<not> q (f r)) \<Longrightarrow> filter q (update_where p f rows) = filter q rows"
  by (induction rows) (auto simp: update_where_def)

section \<open>Steps of a batch\<close>

lemma claim_jobs_Done:
  assumes "claim_jobs now limit lease w = (Done cs, w')"
  obtains token where
    "w' = w\<lparr>db_next_id := db_next_id w + 1, db_jobs := update_where
       (\<lambda>r. jr_id r \<in> jr_id ` set (expired_jobs now limit (db_jobs w)))
       (claim_job_row token lease (db_now w)) (db_jobs w)\<rparr>"
    and "cs = map (job_candidate token w) (expired_jobs now limit (db_jobs w))"
    and "token = of_nat (db_next_id w)"
  using assms by (auto simp: claim_jobs_def bind_Done_iff job_candidate_def)

lemma claim_uploads_Done:
  assumes "claim_uploads now limit lease w = (Done cs, w')"
  obtains token where
    "w' = w\<lparr>db_next_id := db_next_id w + 1, db_uploads := update_where
       (\<lambda>r. ur_id r \<in> ur_id ` set (expired_uploads (db_jobs w) now limit (db_uploads w)))
       (claim_upload_row token lease (db_now w)) (db_uploads w)\<rparr>"
    and "cs = map (upload_candidate token) (expired_uploads (db_jobs w) now limit (db_uploads w))"
    and "token = of_nat (db_next_id w)"
  using assms by (auto simp: claim_uploads_def bind_Done_iff)

lemma good_job_candidate:
  assumes "r \<in> set (expired_jobs now limit (db_jobs w))"
  shows "good_candidate now w (job_candidate token w r)"
proof -
  have "r \<in> set (db_jobs w)" "claimable_job now r" using assms set_expired_jobs by fast+
  then show ?thesis by (auto simp: good_candidate_def job_candidate_def job_keys_def)
qed

lemma good_upload_candidate:
  assumes "r \<in> set (expired_uploads jobs now limit (db_uploads w0))"
    and "\<And>u. claimable_upload jobs now u \<Longrightarrow> claimable_upload (db_jobs w0) now u"
  shows "good_candidate now w0 (upload_candidate token r)"
proof -
  have "r \<in> set (db_uploads w0)" "claimable_upload jobs now r" using assms(1) set_expired_uploads by fast+
  with assms(2) show ?thesis
    by (auto simp: good_candidate_def upload_candidate_def removable_keys_def)
qed

lemma claimed_uploads_jobs:
  "map jr_upload_id rows = map jr_upload_id rows' \<Longrightarrow> claimable_upload rows now u = claimable_upload rows' now u"
proof -
  assume "map jr_upload_id rows = map jr_upload_id rows'"
  then have "jr_upload_id ` set rows = jr_upload_id ` set rows'" by (metis image_set)
  then have "(\<exists>j \<in> set rows. jr_upload_id j = ur_id u) = (\<exists>j \<in> set rows'. jr_upload_id j = ur_id u)"
    by (metis imageE imageI)
  then show ?thesis by (simp add: claimable_upload_def)
qed

lemma claim_job_row_sel [simp]:
  "jr_id (claim_job_row t l n r) = jr_id r" "jr_upload_id (claim_job_row t l n r) = jr_upload_id r"
  by (simp_all add: claim_job_row_def)

lemma claim_expired_inv:
  assumes keys: "distinct (map jr_id (db_jobs w))"
    and run: "claim_expired now limit lease w = (r, w')"
  shows "batch_inv present now w w' \<and> (\<forall>cs. r = Done cs \<longrightarrow> (\<forall>c \<in> set cs. good_candidate now w c))"
proof (cases "limit < 1 \<or> \<not> db_up w")
  case True
  with run show ?thesis
    by (auto simp: claim_expired_def connected_def batch_inv_start split: if_splits)
next
  case False
  let ?lease = "now + lease * 1000000"
  obtain w1 js where 1: "claim_jobs now (nat limit) ?lease w = (Done js, w1)"
    by (auto simp: claim_jobs_def bind_prog_def)
  from 1 obtain token where w1: "w1 = w\<lparr>db_next_id := db_next_id w + 1, db_jobs := update_where
       (\<lambda>r. jr_id r \<in> jr_id ` set (expired_jobs now (nat limit) (db_jobs w)))
       (claim_job_row token ?lease (db_now w)) (db_jobs w)\<rparr>"
    and js: "js = map (job_candidate token w) (expired_jobs now (nat limit) (db_jobs w))"
    by (rule claim_jobs_Done)
  have good1: "\<forall>c \<in> set js. good_candidate now w c" by (auto simp: js intro: good_job_candidate)
  have other: "jr_id j \<notin> jr_id ` set (expired_jobs now (nat limit) (db_jobs w))"
    if "j \<in> set (db_jobs w)" "\<not> claimable_job now j" for j
    using that set_expired_jobs [of now "nat limit" "db_jobs w"] distinct_key_eq [OF keys] by blast
  have inv1: "batch_inv present now w w1"
  proof (rule batch_inv_rows [OF batch_inv_start])
    show "map jr_id (db_jobs w1) = map jr_id (db_jobs w)"
      by (simp add: w1 update_where_keys)
    show "job_data (jr_id j) w1 = job_data (jr_id j) w"
      if "j \<in> set (db_jobs w)" "\<not> claimable_job now j" for j
      using other [OF that]
      by (auto simp: w1 job_data_def intro!: filter_update_other simp del: image_iff)
         (metis imageI)+
  qed (simp add: w1)
  have ups: "map jr_upload_id (db_jobs w1) = map jr_upload_id (db_jobs w)"
    by (simp add: w1 update_where_keys)
  show ?thesis
  proof (cases "0 < limit - int (length js)")
    case True
    obtain w2 us where 2: "claim_uploads now (nat limit - length js) ?lease w1 = (Done us, w2)"
      by (auto simp: claim_uploads_def bind_prog_def)
    then obtain token' where w2: "w2 = w1\<lparr>db_next_id := db_next_id w1 + 1, db_uploads := update_where
         (\<lambda>r. ur_id r \<in> ur_id ` set (expired_uploads (db_jobs w1) now (nat limit - length js) (db_uploads w1)))
         (claim_upload_row token' ?lease (db_now w1)) (db_uploads w1)\<rparr>"
      and us: "us = map (upload_candidate token') (expired_uploads (db_jobs w1) now (nat limit - length js) (db_uploads w1))"
      by (rule claim_uploads_Done)
    have "db_uploads w1 = db_uploads w" by (simp add: w1)
    then have good2: "\<forall>c \<in> set us. good_candidate now w c"
      using claimed_uploads_jobs [OF ups] by (auto simp: us intro!: good_upload_candidate)
    have "batch_inv present now w w2"
      using inv1 by (rule batch_inv_rows) (simp_all add: w2 job_data_def)
    moreover have "r = Done (js @ us)" "w' = w2"
      using run False True 1 2 by (auto simp: claim_expired_def connected_def transaction_def bind_prog_def)
    ultimately show ?thesis using good1 good2 by auto
  next
    case False': False
    then have "r = Done js" "w' = w1"
      using run False 1 by (auto simp: claim_expired_def connected_def transaction_def bind_prog_def)
    with inv1 good1 show ?thesis by auto
  qed
qed

definition gone :: "('z \<Rightarrow> string set) \<Rightarrow> string set \<Rightarrow> 'z db_scheme \<Rightarrow> bool" where
  "gone present A w \<longleftrightarrow> A \<inter> present (db.more w) = {}"

lemma maintains_delete_one:
  assumes del: "deletes present k m" and k: "k \<in> removable_keys now w0"
  shows "maintains (batch_inv present now w0) (gone present A) (outcome_of m)
     (\<lambda>r. gone present (if r = None then insert k A else A))"
proof (rule maintainsI)
  fix w r w'
  assume inv: "batch_inv present now w0 w" and g: "gone present A w" and run: "outcome_of m w = (r, w')"
  obtain r1 where r1: "m w = (r1, w')" and
    r: "r1 = Done () \<and> r = Done None \<or> (\<exists>e. r1 = Raised e \<and> r = Done (Some e)) \<or> r = Diverged"
    using run by (auto simp: outcome_of_def bind_prog_def catch_prog_def split: prod.splits outcome.splits)
  have eff: "same_tables w w'" "present (db.more w') \<subseteq> present (db.more w)"
      "present (db.more w) - {k} \<subseteq> present (db.more w')" "r1 = Done () \<Longrightarrow> k \<notin> present (db.more w')"
    using del r1 unfolding deletes_def by blast+
  have "batch_inv present now w0 w'"
    by (rule batch_inv_more [OF inv eff(1-3)]) (simp add: k)
  then show "batch_inv present now w0 w' \<and>
      (\<forall>x. r = Done x \<longrightarrow> gone present (if x = None then insert k A else A) w')"
    using r g eff(2,4) by (auto simp: gone_def)
qed

lemma maintains_delete_all:
  assumes "\<And>k. k \<in> set ks \<Longrightarrow> deletes present k (f k) \<and> k \<in> removable_keys now w0"
  shows "maintains (batch_inv present now w0) (gone present A) (map_prog (\<lambda>k. outcome_of (f k)) ks)
     (\<lambda>rs w. (\<forall>r \<in> set rs. r = None) \<longrightarrow> gone present (A \<union> set ks) w)"
  using assms
proof (induction ks arbitrary: A)
  case Nil
  show ?case unfolding map_prog.simps by (rule maintains_ret) simp
next
  case (Cons k ks)
  show ?case
    unfolding map_prog.simps
  proof (rule maintains_bind [OF maintains_delete_one])
    fix r
    show "maintains (batch_inv present now w0) (gone present (if r = None then insert k A else A))
       (bind_prog (map_prog (\<lambda>k. outcome_of (f k)) ks) (\<lambda>rs. ret (r # rs)))
       (\<lambda>rs w. (\<forall>r \<in> set rs. r = None) \<longrightarrow> gone present (A \<union> set (k # ks)) w)"
      by (rule maintains_bind [OF Cons.IH]) (use Cons.prems in \<open>auto intro!: maintains_ret\<close>)
  qed (use Cons.prems in auto)
qed

lemma set_fromkeys [simp]: "set (fromkeys xs) = set xs"
  by (simp add: fromkeys_def)

lemma maintains_delete_objects:
  assumes good: "good_candidate now w0 c" and del: "\<And>k. deletes present k (cl_delete_object env k)"
    and abort: "\<And>k m. leaves present (cl_abort_multipart_upload env k m)"
  shows "maintains (batch_inv present now w0) (\<lambda>_. True) (delete_objects env c)
     (\<lambda>_. gone present (set (cand_object_keys c) - {[]}))"
proof -
  let ?ks = "fromkeys (filter (\<lambda>k. k \<noteq> []) (cand_object_keys c))"
  have rem: "k \<in> removable_keys now w0" if "k \<in> set ?ks" for k
    using good that by (auto simp: good_candidate_def removable_keys_def split: if_splits)
  have ks: "set (cand_object_keys c) - {[]} = {} \<union> set ?ks" by auto
  show ?thesis
    unfolding delete_objects_def Let_def ks
  proof (rule maintains_bind [where Q = "\<lambda>_. gone present {}"], goal_cases)
    case 1
    show ?case
      by (auto split: option.splits simp: gone_def intro!: maintains_ret maintains_raise
          intro: maintains_weaken [OF maintains_leaves [OF abort]])
  next
    case (2 x)
    show ?case
    proof (rule maintains_bind [OF maintains_delete_all], goal_cases)
      case (2 rs)
      show ?case
        by (auto split: option.splits simp: find_None_iff intro!: maintains_ret maintains_raise)
           (auto simp: find_Some_iff)
    qed (use rem del in auto)
  qed
qed

lemma job_data_delete:
  "jid \<noteq> cand_aggregate_id c \<Longrightarrow> job_data jid (delete_job c (delete_outbox (cand_aggregate_id c) w)) = job_data jid w"
  by (auto simp: job_data_def delete_job_def delete_outbox_def holds_job_def filter_filter intro!: filter_cong)

lemma maintains_complete:
  assumes keys: "distinct (map jr_id (db_jobs w0))" and good: "good_candidate now w0 c"
  shows "maintains (batch_inv present now w0) (gone present (set (cand_object_keys c) - {[]}))
     (complete_claim c) (\<lambda>_ _. True)"
proof (rule maintainsI)
  fix w r w'
  assume inv: "batch_inv present now w0 w" and g: "gone present (set (cand_object_keys c) - {[]}) w"
    and run: "complete_claim c w = (r, w')"
  have "batch_inv present now w0 w'"
  proof (cases "w' = w \<or> cand_aggregate_kind c \<noteq> AGG_JOB")
    case True
    then show ?thesis
    proof
      assume kind: "cand_aggregate_kind c \<noteq> AGG_JOB"
      show ?thesis
        using inv by (rule batch_inv_rows)
          (use run kind in \<open>auto simp: complete_claim_def connected_def transaction_def job_data_def bind_prog_def split: if_splits\<close>)
    qed (use inv in simp)
  next
    case False
    then have w': "w' = delete_job c (delete_outbox (cand_aggregate_id c) w)"
      using run by (auto simp: complete_claim_def connected_def transaction_def bind_prog_def split: if_splits)
    obtain j0 where j0: "j0 \<in> set (db_jobs w0)" "claimable_job now j0" "cand_aggregate_id c = jr_id j0"
        "set (cand_object_keys c) = job_keys w0 (jr_id j0)"
      using good False by (auto simp: good_candidate_def)
    have eq: "j = j0" if "j \<in> set (db_jobs w0)" "jr_id j = cand_aggregate_id c" for j
      using distinct_key_eq [OF keys that(1) j0(1)] that(2) j0(3) by simp
    have 1: "job_data (jr_id j) w' = job_data (jr_id j) w0"
      if "j \<in> set (db_jobs w0)" "\<not> claimable_job now j" for j
    proof -
      have "jr_id j \<noteq> cand_aggregate_id c" using that eq [OF that(1)] j0(2) by blast
      with that inv show ?thesis by (simp add: w' job_data_delete batch_inv_def)
    qed
    have more: "db.more w' = db.more w" by (simp add: w' delete_job_def delete_outbox_def)
    have 2: "job_keys w0 (jr_id j) \<inter> present (db.more w') = {}"
      if j: "j \<in> set (db_jobs w0)" "claimable_job now j" and out: "jr_id j \<notin> jr_id ` set (db_jobs w')" for j
    proof (cases "j = j0")
      case True
      with g j0(4) job_keys_nonempty [of w0 "jr_id j"] show ?thesis by (auto simp: gone_def more)
    next
      case False
      then have "jr_id j \<noteq> cand_aggregate_id c" using eq j(1) by blast
      with out have "jr_id j \<notin> jr_id ` set (db_jobs w)"
        by (auto simp: w' delete_job_def delete_outbox_def holds_job_def)
      with inv j show ?thesis by (auto simp: batch_inv_def more)
    qed
    from 1 2 inv show ?thesis unfolding batch_inv_def more by blast
  qed
  then show "batch_inv present now w0 w' \<and> (\<forall>x. r = Done x \<longrightarrow> True)" by simp
qed

lemma maintains_defer:
  assumes keys: "distinct (map jr_id (db_jobs w0))" and good: "good_candidate now w0 c"
  shows "maintains (batch_inv present now w0) (\<lambda>_. True) (defer_claim c t) (\<lambda>_ _. True)"
proof (rule maintainsI)
  fix w r w'
  assume inv: "batch_inv present now w0 w" and run: "defer_claim c t w = (r, w')"
  from inv have "batch_inv present now w0 w'"
  proof (rule batch_inv_rows)
    show "map jr_id (db_jobs w') = map jr_id (db_jobs w)"
      using run by (auto simp: defer_claim_def connected_def update_where_keys split: if_splits)
    show "job_data (jr_id j) w' = job_data (jr_id j) w"
      if j: "j \<in> set (db_jobs w0)" "\<not> claimable_job now j" for j
    proof (cases "cand_aggregate_kind c = AGG_JOB")
      case True
      then obtain j0 where "j0 \<in> set (db_jobs w0)" "claimable_job now j0" "cand_aggregate_id c = jr_id j0"
        using good by (auto simp: good_candidate_def)
      then have "jr_id j \<noteq> cand_aggregate_id c" using distinct_key_eq [OF keys j(1)] j(2) by metis
      with run True show ?thesis
        by (auto simp: defer_claim_def connected_def job_data_def holds_job_def
            intro!: filter_update_other split: if_splits)
    qed (use run in \<open>auto simp: defer_claim_def connected_def job_data_def split: if_splits\<close>)
    show "db.more w' = db.more w"
      using run by (auto simp: defer_claim_def connected_def split: if_splits)
  qed
  then show "batch_inv present now w0 w' \<and> (\<forall>x. r = Done x \<longrightarrow> True)" by simp
qed

lemma maintains_clock: "maintains (batch_inv present now w0) P clock_now (\<lambda>_ _. True)"
  by (rule maintainsI) (auto intro: batch_inv_rows simp: job_data_def)

lemma maintains_turn:
  assumes keys: "distinct (map jr_id (db_jobs w0))" and good: "good_candidate now w0 c"
    and del: "\<And>k. deletes present k (del k)" and abort: "\<And>k m. leaves present (abort k m)"
    and log: "\<And>e f. leaves present (log e f)"
  shows "maintains (batch_inv present now w0) (\<lambda>_. True)
     (candidate_turn (pg_cleanup del abort log delay) b c) (\<lambda>_ _. True)"
proof -
  let ?env = "pg_cleanup del abort log delay"
  have quiet: "maintains (batch_inv present now w0) P (log e f) (\<lambda>_ _. True)" for P e f
    by (rule maintains_leaves [OF log])
  have body: "maintains (batch_inv present now w0) (\<lambda>_. True) (candidate_try ?env b c) (\<lambda>_ _. True)"
    unfolding candidate_try_def Let_def
  proof (rule maintains_bind [OF maintains_at_local [OF maintains_delete_objects [OF good]]], goal_cases)
    case (3 n)
    show ?case
      by (rule maintains_bind [OF maintains_at_local])
         (auto simp: pg_cleanup_def intro!: maintains_complete [OF keys good] maintains_bind maintains_at_local
            maintains_ret quiet)
  qed (auto simp: pg_cleanup_def del abort)
  have put_off: "maintains (batch_inv present now w0) (\<lambda>_. True) (cl_defer ?env c t) (\<lambda>_ _. True)" for t
    by (simp add: pg_cleanup_def maintains_defer [OF keys good])
  have failed: "maintains (batch_inv present now w0) (\<lambda>_. True) (candidate_failed ?env c e b') (\<lambda>_ _. True)" for e b'
    unfolding candidate_failed_def
  proof (rule maintains_seq, goal_cases)
    case 1
    show ?case by (simp add: pg_cleanup_def maintains_clock)
  next
    case (2 t)
    show ?case
      by (intro maintains_seq maintains_catch put_off maintains_ret)
         (simp_all add: pg_cleanup_def quiet maintains_raise)
  qed
  show ?thesis
    unfolding candidate_turn_def by (rule maintains_catch [OF body]) (auto intro: failed maintains_raise)
qed

lemma maintains_loop:
  assumes "\<And>b c. c \<in> set cs \<Longrightarrow> maintains I (\<lambda>_. True) (candidate_turn env b c) (\<lambda>_ _. True)"
  shows "maintains I (\<lambda>_. True) (candidate_loop env cs b) (\<lambda>_ _. True)"
  using assms
proof (induction cs arbitrary: b)
  case Nil
  show ?case unfolding candidate_loop.simps by (rule maintains_ret) simp
next
  case (Cons c cs)
  show ?case
    unfolding candidate_loop.simps by (intro maintains_seq Cons.IH) (use Cons.prems in auto)
qed

text \<open>
  C17. A cleanup batch over the tables, whatever its outcome and however its storage and its log
  fail: a job that is not in a final state past its time, or that another process holds, keeps
  every row of its own (the job, its attempts, pages, artifacts, events and outbox rows). A job
  that is removed was in a final state past its time, and every object that its rows referred to
  is gone by then: no object is orphaned. Only objects of such jobs, and of expired uploads
  without jobs, are ever removed.
\<close>

theorem retention_removes_only_expired:
  assumes keys: "distinct (map jr_id (db_jobs w))"
    and del: "\<And>k. deletes present k (del k)" and abort: "\<And>k m. leaves present (abort k m)"
    and log: "\<And>e f. leaves present (log e f)"
    and run: "run_batch (pg_cleanup del abort log delay) limit lease (Some now) w = (r, w')"
  shows "(\<forall>j \<in> set (db_jobs w).
       if claimable_job now j
       then jr_id j \<in> jr_id ` set (db_jobs w') \<or> job_keys w (jr_id j) \<inter> present (db.more w') = {}
       else job_data (jr_id j) w' = job_data (jr_id j) w) \<and>
     present (db.more w') \<subseteq> present (db.more w) \<and>
     present (db.more w) - present (db.more w') \<subseteq> removable_keys now w"
proof -
  let ?env = "pg_cleanup del abort log delay"
  have "batch_inv present now w w'"
  proof (cases "limit < 1 \<or> lease < 1")
    case True
    with run show ?thesis by (auto simp: run_batch_def batch_inv_start split: if_splits)
  next
    case False
    let ?start = "\<lambda>cs. \<lparr>batch_claimed = int (length cs), batch_completed = 0, batch_deferred = 0,
           batch_deleted_objects = 0\<rparr>"
    have "bind_prog (claim_expired now limit lease) (\<lambda>cs. candidate_loop ?env cs (?start cs)) w = (r, w')"
      using run False by (simp add: run_batch_def pg_cleanup_def)
    then show ?thesis
    proof (cases rule: bind_prog_cases)
      case (Done cs w1)
      with claim_expired_inv [OF keys Done(1), of present]
      have 1: "batch_inv present now w w1" and good: "\<And>c. c \<in> set cs \<Longrightarrow> good_candidate now w c" by auto
      have "maintains (batch_inv present now w) (\<lambda>_. True) (candidate_loop ?env cs (?start cs)) (\<lambda>_ _. True)"
        by (rule maintains_loop) (rule maintains_turn [OF keys good del abort log])
      with 1 Done(2) show ?thesis unfolding maintains_def by blast
    qed (use claim_expired_inv [OF keys, of now limit lease] in blast)+
  qed
  then show ?thesis unfolding batch_inv_def by auto
qed

definition archive :: "string list db_scheme" where
  "archive = db.extend (empty_db\<lparr>db_jobs := [sample_row\<lparr>jr_status := ''succeeded''\<rparr>,
     sample_row\<lparr>jr_id := 12, jr_idempotency_key := Some ''k''\<rparr>]\<rparr>) [''jobs/x'']"

definition drop_object :: "string \<Rightarrow> (string list, unit) sql" where
  "drop_object k w = (Done (), db.more_update (removeAll k) w)"

lemma retention_removes_only_expired_witness:
  "let w' = snd (run_batch (pg_cleanup drop_object (\<lambda>_ _. ret ()) (\<lambda>_ _. ret ()) 30) 20 3600
              (Some 9000000000000) archive)
   in (12 \<in> jr_id ` set (db_jobs archive) \<and> job_data 12 w' = job_data 12 archive) \<and>
      (11 \<in> jr_id ` set (db_jobs w') \<or> job_keys archive 11 \<inter> set (db.more w') = {})"
proof -
  have jobs: "db_jobs archive = [sample_row\<lparr>jr_status := ''succeeded''\<rparr>,
     sample_row\<lparr>jr_id := 12, jr_idempotency_key := Some ''k''\<rparr>]"
    by (simp add: archive_def db.defs empty_db_def)
  have ids: "jr_id sample_row = 11" "jr_status sample_row = ''queued''" "jr_claim_token sample_row = None"
      "jr_expires_at sample_row \<le> 9000000000000"
    by (simp_all add: sample_row_def new_job_row_def new_job_def sample_pg_def days_def)
  have keys: "distinct (map jr_id (db_jobs archive))" by (simp add: jobs ids)
  note effects = deletes_def leaves_def drop_object_def same_tables_def db.defs
  let ?run = "run_batch (pg_cleanup drop_object (\<lambda>_ _. ret ()) (\<lambda>_ _. ret ()) 30) 20 3600
              (Some 9000000000000) archive"
  have del: "deletes set k (drop_object k)" for k by (auto simp: effects)
  have quiet: "leaves set (ret () :: (string list, unit) sql)" by (auto simp: effects)
  have "?run = (fst ?run, snd ?run)" by simp
  note retention_removes_only_expired [OF keys del quiet quiet this]
  then show ?thesis by (auto simp: Let_def jobs ids claimable_job_def)
qed

section \<open>Claims are exclusive\<close>

lemma claim_expired_Done:
  assumes "claim_expired now limit lease w = (Done cs, w')"
  obtains (none) "limit < 1" "cs = []" "w' = w"
  | (jobs) "claim_jobs now (nat limit) (now + lease * 1000000) w = (Done cs, w')"
  | (both) w1 js us where "claim_jobs now (nat limit) (now + lease * 1000000) w = (Done js, w1)"
      and "claim_uploads now (nat limit - length js) (now + lease * 1000000) w1 = (Done us, w')"
      and "cs = js @ us"
  using assms by (auto simp: claim_expired_def sql_steps split: if_splits)

lemma claimed_job_rows:
  assumes "claim_jobs now limit lease w = (Done cs, w')" and "c \<in> set cs"
    and "r \<in> set (db_jobs w')" "jr_id r = cand_aggregate_id c"
  shows "jr_claim_token r = Some (cand_claim_token c) \<and> jr_lease_expires_at r = Some lease"
  using assms
  by (auto elim!: claim_jobs_Done simp: set_update_where job_candidate_def claim_job_row_def split: if_splits)

lemma claim_uploads_frame:
  assumes "claim_uploads now limit lease w = (Done us, w')"
  shows "db_jobs w' = db_jobs w" "c \<in> set us \<Longrightarrow> cand_aggregate_kind c = AGG_UPLOAD" "length us \<le> limit"
  using assms by (auto elim!: claim_uploads_Done simp: upload_candidate_def expired_uploads_def)

lemma claimed_rows:
  assumes run: "claim_expired now limit lease w = (Done cs, w')"
    and c: "c \<in> set cs" "cand_aggregate_kind c = AGG_JOB"
    and r: "r \<in> set (db_jobs w')" "jr_id r = cand_aggregate_id c"
  shows "jr_claim_token r = Some (cand_claim_token c) \<and> jr_lease_expires_at r = Some (now + lease * 1000000)"
  using run
proof (cases rule: claim_expired_Done)
  case (both w1 js us)
  then have "c \<in> set js" using c claim_uploads_frame(2) [OF both(2)] by auto
  with both(1) r claim_uploads_frame(1) [OF both(2)] show ?thesis by (auto dest: claimed_job_rows)
qed (use c r in \<open>auto dest: claimed_job_rows\<close>)

lemma claim_limit:
  assumes "claim_expired now limit lease w = (Done cs, w')"
  shows "length cs \<le> nat limit"
proof -
  have len: "length js \<le> nat limit" if "claim_jobs now (nat limit) t w = (Done js, w1)" for js t w1
    using that by (auto elim!: claim_jobs_Done simp: expired_jobs_def)
  from assms show ?thesis
  proof (cases rule: claim_expired_Done)
    case (both w1 js us)
    with len [OF both(1)] claim_uploads_frame(3) [OF both(2)] show ?thesis by simp
  qed (auto dest: len)
qed

lemma claim_jobs_claimable:
  assumes "claim_jobs now limit lease w = (Done cs, w')" and "c \<in> set cs"
  shows "\<exists>r \<in> set (db_jobs w). jr_id r = cand_aggregate_id c \<and> claimable_job now r"
proof -
  from assms obtain r where "r \<in> set (expired_jobs now limit (db_jobs w))" "jr_id r = cand_aggregate_id c"
    by (auto elim!: claim_jobs_Done simp: job_candidate_def)
  then show ?thesis using set_expired_jobs [of now limit "db_jobs w"] by blast
qed

lemma claimed_again:
  assumes "claim_expired now limit lease w = (Done cs, w')"
    and "c \<in> set cs" "cand_aggregate_kind c = AGG_JOB"
  shows "\<exists>r \<in> set (db_jobs w). jr_id r = cand_aggregate_id c \<and> claimable_job now r"
  using assms(1)
proof (cases rule: claim_expired_Done)
  case (both w1 js us)
  with assms(2,3) claim_uploads_frame(2) [OF both(2)] have "c \<in> set js" by auto
  with both(1) show ?thesis by (rule claim_jobs_claimable)
qed (use assms(2) claim_jobs_claimable in auto)

text \<open>
  C18. A claim: at most \<open>limit\<close> candidates; a claimed job is no longer read, no save of it
  succeeds (so no worker or request can revive a job that is being removed), and until the lease
  runs out no other cleanup process claims it.
\<close>

theorem claim_is_exclusive:
  assumes run: "claim_expired now limit lease w = (Done cs, w')"
    and c: "c \<in> set cs" "cand_aggregate_kind c = AGG_JOB"
    and lease: "now' < now + lease * 1000000"
  shows "length cs \<le> nat limit \<and>
    (\<forall>j. sql_jobs_get (cand_aggregate_id c) w' \<noteq> (Done (Some j), w')) \<and>
    (\<forall>cfg j j'. job_id j = cand_aggregate_id c \<longrightarrow> fst (sql_jobs_save cfg j w') \<noteq> Done j') \<and>
    (\<forall>limit' lease' cs' w'' c'. claim_expired now' limit' lease' w' = (Done cs', w'') \<longrightarrow> c' \<in> set cs' \<longrightarrow>
       cand_aggregate_kind c' = AGG_JOB \<longrightarrow> cand_aggregate_id c' \<noteq> cand_aggregate_id c)"
proof (intro conjI allI impI notI)
  note held = claimed_rows [OF run c]
  show "length cs \<le> nat limit" by (rule claim_limit [OF run])
  have unread: "find (\<lambda>r. jr_id r = cand_aggregate_id c \<and> jr_claim_token r = None) (db_jobs w') = None"
    using held by (auto simp: find_None_iff)
  show False if "sql_jobs_get (cand_aggregate_id c) w' = (Done (Some j), w')" for j
    using that by (simp add: sql_jobs_get_def sql_steps unread)
  show False if "job_id j = cand_aggregate_id c" "fst (sql_jobs_save cfg j w') = Done j'" for cfg j j'
  proof -
    have none: "find (current_row j) (db_jobs w') = None"
      using held that(1) by (auto simp: find_None_iff current_row_def)
    have "sql_jobs_save cfg j w' = (Done j', snd (sql_jobs_save cfg j w'))"
      using that(2) by (metis prod.collapse)
    then show False
      by (auto simp: sql_jobs_save_def sql_save_job_def sql_steps cancel_stamp_def sql_json_Done none
          split: if_splits)
  qed
  show False if "claim_expired now' limit' lease' w' = (Done cs', w'')" "c' \<in> set cs'"
      "cand_aggregate_kind c' = AGG_JOB" "cand_aggregate_id c' = cand_aggregate_id c" for limit' lease' cs' w'' c'
    using claimed_again [OF that(1-3)] held that(4) lease by (auto simp: claimable_job_def)
qed

definition hidden :: job_row where
  "hidden = sample_row\<lparr>jr_status := ''succeeded''\<rparr>"

lemma claim_is_exclusive_witness:
  "\<exists>c w'. claim_expired 9000000000000 20 3600 (empty_db\<lparr>db_jobs := [hidden]\<rparr>) = (Done [c], w') \<and>
     cand_aggregate_id c = 11 \<and> (\<forall>j. sql_jobs_get 11 w' \<noteq> (Done (Some j), w'))"
proof -
  let ?w = "empty_db\<lparr>db_jobs := [hidden]\<rparr>"
  have ids: "jr_id hidden = 11" "claimable_job 9000000000000 hidden"
    by (simp_all add: hidden_def claimable_job_def sample_row_def new_job_row_def new_job_def sample_pg_def days_def)
  obtain c w' where run: "claim_expired 9000000000000 20 3600 ?w = (Done [c], w')"
    and c: "cand_aggregate_id c = 11" "cand_aggregate_kind c = AGG_JOB"
    using ids
    by (simp add: claim_expired_def claim_jobs_def claim_uploads_def connected_def transaction_def bind_prog_def
        expired_jobs_def expired_uploads_def empty_db_def job_candidate_def)
  with claim_is_exclusive [OF run, of c 0] show ?thesis by auto
qed

end
