(* ===== verification/Storage.thy ===== *)
theory Storage
  imports Wire "HOL-Library.Product_Lexorder" "HOL-Library.List_Lexorder" "HOL-Library.Char_ord"
begin

text \<open>
  The durable object storages of \<^verbatim>\<open>infrastructure/storage.py\<close>: the adapter of an S3 client and
  the adapter of the storage service. The S3 client and the HTTP client are records of programs;
  an answer of either is the decoded value the code reads. A digest in the metadata that is no text is
  carried as its text.
\<close>

section \<open>S3\<close>

record 'w s3_client =
  s3_generate_presigned_url :: "string \<Rightarrow> (string \<times> json) list \<Rightarrow> int \<Rightarrow> ('w, string) op"
  s3_head_object :: "string \<Rightarrow> string \<Rightarrow> ('w, json) op"
  s3_get_object :: "string \<Rightarrow> string \<Rightarrow> ('w, ('w, bytes) op) op"
  s3_put_object :: "string \<Rightarrow> string \<Rightarrow> bytes \<Rightarrow> string \<Rightarrow> (string \<times> json) list \<Rightarrow> ('w, unit) op"
  s3_create_multipart_upload :: "(string \<times> json) list \<Rightarrow> ('w, json) op"
  s3_complete_multipart_upload :: "string \<Rightarrow> string \<Rightarrow> string \<Rightarrow> (int \<times> string) list \<Rightarrow> ('w, unit) op"
  s3_delete_object :: "string \<Rightarrow> string \<Rightarrow> ('w, unit) op"
  s3_abort_multipart_upload :: "string \<Rightarrow> string \<Rightarrow> string \<Rightarrow> ('w, unit) op"

record 'w s3_storage =
  s3_client :: "'w s3_client"
  s3_store_bucket :: string
  s3_presign_ttl :: int
  s3_multipart_threshold :: int
  s3_part_size :: int

text \<open>The defaults of the constructor.\<close>

definition multipart_threshold :: int where
  "multipart_threshold = 16 * 1024 * 1024"

definition part_count :: "int \<Rightarrow> int \<Rightarrow> int" where
  "part_count size_bytes part_size = (size_bytes + part_size - 1) div part_size"

definition upload_params :: "'w s3_storage \<Rightarrow> string \<Rightarrow> string \<Rightarrow> int \<Rightarrow> string \<Rightarrow> (string \<times> json) list" where
  "upload_params st key content_type size_bytes sha =
     [(''Bucket'', JStr (s3_store_bucket st)), (''Key'', JStr key), (''ContentType'', JStr content_type),
      (''Metadata'', JDict [(''sha256'', JStr sha), (''expected-size'', JStr (str_int size_bytes))])]"

definition part_params :: "'w s3_storage \<Rightarrow> string \<Rightarrow> string \<Rightarrow> int \<Rightarrow> (string \<times> json) list" where
  "part_params st key uid n =
     [(''Bucket'', JStr (s3_store_bucket st)), (''Key'', JStr key), (''UploadId'', JStr uid),
      (''PartNumber'', JInt n)]"

definition presign_part :: "'w s3_storage \<Rightarrow> string \<Rightarrow> string \<Rightarrow> int \<Rightarrow> ('w, int \<times> string) op" where
  "presign_part st key uid n =
     bind_prog (s3_generate_presigned_url (s3_client st) ''upload_part'' (part_params st key uid n)
        (s3_presign_ttl st)) (\<lambda>url. ret (n, url))"

text \<open>\<open>range(1, part_count + 1)\<close>.\<close>

definition part_numbers :: "int \<Rightarrow> int list" where
  "part_numbers count = [1..count]"

definition multipart_target :: "string \<Rightarrow> int \<Rightarrow> (int \<times> string) list \<Rightarrow> upload_target" where
  "multipart_target uid part_size parts =
     \<lparr>target_url = [], target_method = ''PUT'', target_headers = [], target_upload_id = Some uid,
      target_part_size_bytes = Some part_size, target_part_urls = parts\<rparr>"

definition s3_create_upload_target ::
    "'w s3_storage \<Rightarrow> string \<Rightarrow> string \<Rightarrow> int \<Rightarrow> string \<Rightarrow> ('w, upload_target) op" where
  "s3_create_upload_target st key content_type size_bytes sha =
     (if s3_multipart_threshold st \<le> size_bytes then
        bind_prog (s3_create_multipart_upload (s3_client st) (upload_params st key content_type size_bytes sha)) (\<lambda>created.
        bind_prog (lift_sum (json_item created ''UploadId'')) (\<lambda>uid.
        if s3_part_size st = 0 then raise_exc (OtherError ''ZeroDivisionError'')
        else
          bind_prog (map_prog (presign_part st key (py_str uid))
             (part_numbers (part_count size_bytes (s3_part_size st)))) (\<lambda>parts.
          ret (multipart_target (py_str uid) (s3_part_size st) parts))))
      else
        bind_prog (s3_generate_presigned_url (s3_client st) ''put_object''
            (upload_params st key content_type size_bytes sha) (s3_presign_ttl st)) (\<lambda>url.
        ret \<lparr>target_url = url, target_method = ''PUT'',
             target_headers = [(''Content-Type'', content_type), (''x-amz-meta-sha256'', sha),
               (''x-amz-meta-expected-size'', str_int size_bytes)],
             target_upload_id = None, target_part_size_bytes = None, target_part_urls = []\<rparr>))"

definition s3_complete_upload ::
    "'w s3_storage \<Rightarrow> string \<Rightarrow> string option \<Rightarrow> (int \<times> string) list \<Rightarrow> ('w, unit) op" where
  "s3_complete_upload st key mid parts =
     (case mid of
        None \<Rightarrow> ret ()
      | Some uid \<Rightarrow>
          if parts = [] then raise_exc (ValueError ''multipart completion requires parts'')
          else s3_complete_multipart_upload (s3_client st) (s3_store_bucket st) key uid (sort parts))"

text \<open>\<open>exc.response["Error"]["Code"]\<close>; an exception without a dictionary \<open>response\<close> has none.\<close>

definition response_code :: "exn \<Rightarrow> exn + json" where
  "response_code e =
     (case e of
        ResponseError _ (JDict kvs) \<Rightarrow>
          json_lookup (or_empty (case map_of kvs ''Error'' of Some v \<Rightarrow> v | None \<Rightarrow> JNull)) ''Code''
      | _ \<Rightarrow> Inr JNull)"

definition is_not_found :: "exn \<Rightarrow> exn + bool" where
  "is_not_found e =
     bind_sum (response_code e) (\<lambda>code.
     case code of
       JStr s \<Rightarrow> Inr (s \<in> {''404'', ''NoSuchKey'', ''NotFound''})
     | JList _ \<Rightarrow> Inl TypeError
     | JDict _ \<Rightarrow> Inl TypeError
     | _ \<Rightarrow> Inr False)"

definition is_no_such_upload :: "exn \<Rightarrow> exn + bool" where
  "is_no_such_upload e = bind_sum (response_code e) (\<lambda>code. Inr (code = JStr ''NoSuchUpload''))"

definition digest_text :: "json \<Rightarrow> string option" where
  "digest_text v = (if v = JNull then None else Some (py_str v))"

definition s3_object_info :: "string \<Rightarrow> json \<Rightarrow> exn + object_info" where
  "s3_object_info key response =
     bind_sum (json_lookup response ''Metadata'') (\<lambda>metadata.
     bind_sum (bind_sum (json_item response ''ContentLength'') py_int) (\<lambda>size_bytes.
     bind_sum (json_lookup (or_empty metadata) ''sha256'') (\<lambda>digest.
     Inr \<lparr>info_object_key = key, info_size_bytes = size_bytes, info_sha256 = digest_text digest,
          info_content_type =
            (case json_get response ''ContentType'' of Some t \<Rightarrow> py_str t
             | None \<Rightarrow> ''application/octet-stream'')\<rparr>)))"

definition s3_stat :: "'w s3_storage \<Rightarrow> string \<Rightarrow> ('w, object_info option) op" where
  "s3_stat st key =
     bind_prog
       (catch_prog
          (bind_prog (s3_head_object (s3_client st) (s3_store_bucket st) key) (\<lambda>r. ret (Some r)))
          (\<lambda>e. if is_exception e
               then bind_prog (lift_sum (is_not_found e)) (\<lambda>missing.
                    if missing then ret None else raise_exc e)
               else raise_exc e)) (\<lambda>response.
     case response of
       None \<Rightarrow> ret None
     | Some r \<Rightarrow> bind_prog (lift_sum (s3_object_info key r)) (\<lambda>info. ret (Some info)))"

definition s3_get_bytes :: "'w s3_storage \<Rightarrow> string \<Rightarrow> ('w, bytes) op" where
  "s3_get_bytes st key =
     bind_prog (s3_get_object (s3_client st) (s3_store_bucket st) key) (\<lambda>body. body)"

definition stored_as :: "(bytes \<Rightarrow> string) \<Rightarrow> string \<Rightarrow> bytes \<Rightarrow> string \<Rightarrow> stored_object" where
  "stored_as sha key data content_type =
     \<lparr>stored_object_key = key, stored_size_bytes = int (length data), stored_sha256 = sha data,
      stored_content_type = content_type\<rparr>"

definition s3_put_bytes ::
    "(bytes \<Rightarrow> string) \<Rightarrow> 'w s3_storage \<Rightarrow> string \<Rightarrow> bytes \<Rightarrow> string \<Rightarrow> ('w, stored_object) op" where
  "s3_put_bytes sha st key data content_type =
     bind_prog (s3_put_object (s3_client st) (s3_store_bucket st) key data content_type
        [(''sha256'', JStr (sha data))]) (\<lambda>_.
     ret (stored_as sha key data content_type))"

definition s3_remove_object :: "'w s3_storage \<Rightarrow> string \<Rightarrow> ('w, unit) op" where
  "s3_remove_object st key = s3_delete_object (s3_client st) (s3_store_bucket st) key"

definition s3_abort_upload :: "'w s3_storage \<Rightarrow> string \<Rightarrow> string \<Rightarrow> ('w, unit) op" where
  "s3_abort_upload st key uid =
     catch_prog (s3_abort_multipart_upload (s3_client st) (s3_store_bucket st) key uid) (\<lambda>e.
       if is_exception e
       then bind_prog (lift_sum (is_no_such_upload e)) (\<lambda>missing. if missing then ret () else raise_exc e)
       else raise_exc e)"

definition s3_create_download_url :: "'w s3_storage \<Rightarrow> string \<Rightarrow> ('w, string) op" where
  "s3_create_download_url st key =
     s3_generate_presigned_url (s3_client st) ''get_object''
       [(''Bucket'', JStr (s3_store_bucket st)), (''Key'', JStr key)] (s3_presign_ttl st)"

section \<open>The storage service\<close>

record 'w storage_service =
  ss_base_url :: string
  ss_service_token :: string
  ss_bucket :: string
  ss_client :: "'w http_client"
  ss_presign_ttl :: int
  ss_multipart_threshold :: int
  ss_part_size :: int

text \<open>The constructor strips the trailing slashes of the URL.\<close>

definition make_service_storage :: "string \<Rightarrow> string \<Rightarrow> string \<Rightarrow> 'w http_client \<Rightarrow> int \<Rightarrow> int \<Rightarrow> 'w storage_service" where
  "make_service_storage base_url token bucket client ttl part_size =
     \<lparr>ss_base_url = rstrip_slash base_url, ss_service_token = token, ss_bucket = bucket,
      ss_client = client, ss_presign_ttl = ttl, ss_multipart_threshold = multipart_threshold,
      ss_part_size = part_size\<rparr>"

definition ss_headers :: "'w storage_service \<Rightarrow> headers" where
  "ss_headers st = [(''X-Storage-Service-Token'', ss_service_token st)]"

text \<open>\<open>_unwrap\<close>: the data of a success envelope; a missing object is a \<open>FileNotFoundError\<close>.\<close>

definition missing_reason :: "string \<Rightarrow> bool" where
  "missing_reason reason \<longleftrightarrow> reason \<in> {''object_not_found'', ''resource_not_found'', ''storage_object_not_found''}"

definition failure_reason :: "(string \<times> json) list \<Rightarrow> string" where
  "failure_reason payload =
     (case map_of payload ''error_reason'' of
        Some v \<Rightarrow> if json_truthy v then py_str v else ''storage_service_error''
      | None \<Rightarrow> ''storage_service_error'')"

definition unwrap :: "http_response \<Rightarrow> exn + (string \<times> json) list" where
  "unwrap response =
     (if http_status response \<noteq> 200 then
        if http_status response = 404 then Inl FileNotFoundError
        else Inl (RuntimeError (''storage-service returned HTTP '' @ str_int (http_status response)))
      else
        bind_sum (http_json response) (\<lambda>payload.
        case payload of
          JDict kvs \<Rightarrow>
            (case map_of kvs ''internal_code'' of
               None \<Rightarrow> Inl (RuntimeError ''storage-service returned an invalid ApiEnvelope'')
             | Some code \<Rightarrow>
                 bind_sum (py_int code) (\<lambda>internal_code.
                 if internal_code \<noteq> 0 then
                   if internal_code = 10002 \<or> missing_reason (failure_reason kvs)
                   then Inl FileNotFoundError
                   else Inl (RuntimeError (''storage-service failed: '' @ failure_reason kvs @ '' ('' @
                          str_int internal_code @ '')''))
                 else
                   (case map_of kvs ''data'' of
                      Some (JDict data) \<Rightarrow> Inr data
                    | _ \<Rightarrow> Inl (RuntimeError ''storage-service response data is invalid''))))
        | _ \<Rightarrow> Inl (RuntimeError ''storage-service returned an invalid ApiEnvelope'')))"

definition ss_call :: "'w storage_service \<Rightarrow> string \<Rightarrow> (string \<times> json) list \<Rightarrow> ('w, (string \<times> json) list) op" where
  "ss_call st path body =
     bind_prog (http_post (ss_client st) (ss_base_url st @ path) (ss_headers st) (JDict body)) (\<lambda>response.
     lift_sum (unwrap response))"

definition object_ref :: "'w storage_service \<Rightarrow> string \<Rightarrow> (string \<times> json) list" where
  "object_ref st key = [(''bucket'', JStr (ss_bucket st)), (''object_key'', JStr key)]"

fun part_of :: "json \<Rightarrow> exn + int \<times> string" where
  "part_of part =
     bind_sum (bind_sum (json_item part ''part_number'') py_int) (\<lambda>n.
     bind_sum (json_item part ''url'') (\<lambda>url. Inr (n, py_str url)))"

fun parts_of :: "json list \<Rightarrow> exn + (int \<times> string) list" where
  "parts_of [] = Inr []"
| "parts_of (p # ps) = bind_sum (part_of p) (\<lambda>x. bind_sum (parts_of ps) (\<lambda>xs. Inr (x # xs)))"

text \<open>Iterating over the member \<open>parts\<close>; an element that is no object raises.\<close>

definition data_parts :: "(string \<times> json) list \<Rightarrow> exn + (int \<times> string) list" where
  "data_parts data =
     bind_sum (json_item (JDict data) ''parts'') (\<lambda>v.
     case v of
       JList ps \<Rightarrow> parts_of ps
     | JStr s \<Rightarrow> if s = [] then Inr [] else Inl TypeError
     | JDict kvs \<Rightarrow> if kvs = [] then Inr [] else Inl TypeError
     | _ \<Rightarrow> Inl TypeError)"

definition ss_create_upload_target ::
    "'w storage_service \<Rightarrow> string \<Rightarrow> string \<Rightarrow> int \<Rightarrow> string \<Rightarrow> ('w, upload_target) op" where
  "ss_create_upload_target st key content_type size_bytes sha =
     (if ss_multipart_threshold st \<le> size_bytes then
        if ss_part_size st = 0 then raise_exc (OtherError ''ZeroDivisionError'')
        else
          bind_prog (ss_call st ''/multipart/create''
            (object_ref st key @
             [(''content_type'', JStr content_type),
              (''metadata'', JDict [(''sha256'', JStr sha), (''expected-size'', JStr (str_int size_bytes))]),
              (''part_count'', JInt (part_count size_bytes (ss_part_size st))),
              (''expires_in'', JInt (ss_presign_ttl st))])) (\<lambda>data.
          lift_sum
            (bind_sum (json_item (JDict data) ''upload_id'') (\<lambda>uid.
             bind_sum (data_parts data) (\<lambda>parts.
             Inr (multipart_target (py_str uid) (ss_part_size st) parts)))))
      else
        bind_prog (ss_call st ''/presign/put''
            (object_ref st key @ [(''content_type'', JStr content_type), (''expires_in'', JInt (ss_presign_ttl st))])) (\<lambda>data.
        bind_prog (lift_sum (json_item (JDict data) ''url'')) (\<lambda>url.
        ret \<lparr>target_url = py_str url, target_method = ''PUT'',
             target_headers = [(''Content-Type'', content_type)], target_upload_id = None,
             target_part_size_bytes = None, target_part_urls = []\<rparr>)))"

definition part_json :: "int \<times> string \<Rightarrow> json" where
  "part_json p = JDict [(''part_number'', JInt (fst p)), (''etag'', JStr (snd p))]"

definition ss_complete_upload ::
    "'w storage_service \<Rightarrow> string \<Rightarrow> string option \<Rightarrow> (int \<times> string) list \<Rightarrow> ('w, unit) op" where
  "ss_complete_upload st key mid parts =
     (case mid of
        None \<Rightarrow> ret ()
      | Some uid \<Rightarrow>
          bind_prog (ss_call st ''/multipart/complete''
            (object_ref st key @ [(''upload_id'', JStr uid), (''parts'', JList (map part_json (sort parts)))])) (\<lambda>_.
          ret ()))"

definition ss_object_info :: "string \<Rightarrow> (string \<times> json) list \<Rightarrow> exn + object_info" where
  "ss_object_info key data =
     bind_sum (json_lookup (JDict data) ''metadata'') (\<lambda>metadata.
     bind_sum (bind_sum (json_item (JDict data) ''size'') py_int) (\<lambda>size_bytes.
     bind_sum (json_lookup (or_empty metadata) ''sha256'') (\<lambda>digest.
     Inr \<lparr>info_object_key = key, info_size_bytes = size_bytes, info_sha256 = digest_text digest,
          info_content_type =
            (case map_of data ''content_type'' of
               Some t \<Rightarrow> if json_truthy t then py_str t else ''application/octet-stream''
             | None \<Rightarrow> ''application/octet-stream'')\<rparr>)))"

definition ss_stat :: "'w storage_service \<Rightarrow> string \<Rightarrow> ('w, object_info option) op" where
  "ss_stat st key =
     bind_prog (http_post (ss_client st) (ss_base_url st @ ''/objects/stat'') (ss_headers st)
        (JDict (object_ref st key @ [(''expires_in'', JInt 0)]))) (\<lambda>response.
     case unwrap response of
       Inl e \<Rightarrow> if e = FileNotFoundError then ret None else raise_exc e
     | Inr data \<Rightarrow> bind_prog (lift_sum (ss_object_info key data)) (\<lambda>info. ret (Some info)))"

definition object_url :: "'w storage_service \<Rightarrow> string \<Rightarrow> string" where
  "object_url st key = ss_base_url st @ ''/objects/'' @ quote [] (ss_bucket st) @ ''/'' @ quote ''/'' key"

definition is_enveloped :: "http_response \<Rightarrow> bool" where
  "is_enveloped response \<longleftrightarrow>
     (\<exists>h \<in> set (http_headers response). map to_lower (fst h) = ''x-monkeyocr-internal-code'')"

definition ss_get_bytes :: "'w storage_service \<Rightarrow> string \<Rightarrow> ('w, bytes) op" where
  "ss_get_bytes st key =
     bind_prog (http_get (ss_client st) (object_url st key) (ss_headers st)) (\<lambda>response.
     if is_enveloped response then
       bind_prog (lift_sum (unwrap response)) (\<lambda>_.
       raise_exc (RuntimeError ''storage-service returned an unexpected success envelope for object data''))
     else if http_status response \<noteq> 200 then
       if http_status response = 404 then raise_exc FileNotFoundError
       else raise_exc (RuntimeError (''storage-service returned HTTP '' @ str_int (http_status response) @
              '' for object data''))
     else ret (http_content response))"

definition ss_put_bytes ::
    "(bytes \<Rightarrow> string) \<Rightarrow> 'w storage_service \<Rightarrow> string \<Rightarrow> bytes \<Rightarrow> string \<Rightarrow> ('w, stored_object) op" where
  "ss_put_bytes sha st key data content_type =
     bind_prog (http_put (ss_client st) (object_url st key)
        (AList.update ''Content-Type'' content_type (ss_headers st)) data) (\<lambda>response.
     bind_prog (lift_sum (unwrap response)) (\<lambda>_.
     ret (stored_as sha key data content_type)))"

definition ss_delete_object :: "'w storage_service \<Rightarrow> string \<Rightarrow> ('w, unit) op" where
  "ss_delete_object st key = bind_prog (ss_call st ''/objects/delete'' (object_ref st key)) (\<lambda>_. ret ())"

definition ss_abort_upload :: "'w storage_service \<Rightarrow> string \<Rightarrow> string \<Rightarrow> ('w, unit) op" where
  "ss_abort_upload st key uid =
     bind_prog (ss_call st ''/multipart/abort''
       (object_ref st key @ [(''upload_id'', JStr uid), (''parts'', JList [])])) (\<lambda>_. ret ())"

definition ss_create_download_url :: "'w storage_service \<Rightarrow> string \<Rightarrow> ('w, string) op" where
  "ss_create_download_url st key =
     bind_prog (ss_call st ''/presign/get'' (object_ref st key @ [(''expires_in'', JInt (ss_presign_ttl st))])) (\<lambda>data.
     bind_prog (lift_sum (json_item (JDict data) ''url'')) (\<lambda>url. ret (py_str url)))"

end
