(* ===== verification/Storage_Laws.thy ===== *)
theory Storage_Laws
  imports Storage
begin

text \<open>
  The parts of a multipart upload cover the file, what is put is read back, and no two objects share
  a URL of the storage service.
\<close>

section \<open>Parts\<close>

lemma div_bounds:
  fixes i p :: int
  assumes "0 < p"
  shows "i div p * p \<le> i" "i < (i div p + 1) * p"
proof -
  have "i div p * p + i mod p = i" by (rule div_mult_mod_eq)
  with pos_mod_sign [OF assms, of i] pos_mod_bound [OF assms, of i]
  show "i div p * p \<le> i" "i < (i div p + 1) * p" by (simp_all only: distrib_right mult_1)
qed

lemma part_count_bounds:
  assumes "0 < p"
  shows "(part_count size_bytes p - 1) * p < size_bytes" "size_bytes \<le> part_count size_bytes p * p"
  using div_bounds [OF assms, of "size_bytes + p - 1"]
  by (simp_all only: part_count_def left_diff_distrib distrib_right mult_1)

lemma one_part_per_byte:
  assumes p: "0 < p" and i: "0 \<le> i" "i < size_bytes"
  shows "\<exists>!k. k \<in> set [1..part_count size_bytes p] \<and> (k - 1) * p \<le> i \<and> i < k * p"
proof (rule ex1I [of _ "i div p + 1"])
  note div = div_bounds [OF p, of i]
  have "i div p * p < part_count size_bytes p * p"
    using div(1) i part_count_bounds(2) [OF p, of size_bytes] by linarith
  then have "i div p < part_count size_bytes p" using p by simp
  with div i p show "i div p + 1 \<in> set [1..part_count size_bytes p] \<and>
      (i div p + 1 - 1) * p \<le> i \<and> i < (i div p + 1) * p"
    by (simp add: pos_imp_zdiv_nonneg_iff)
  fix k
  assume k: "k \<in> set [1..part_count size_bytes p] \<and> (k - 1) * p \<le> i \<and> i < k * p"
  then have "(k - 1) * p < (i div p + 1) * p" "i div p * p < k * p"
    using div by linarith+
  then show "k = i div p + 1" using p by simp
qed

lemma map_prog_fst:
  assumes "\<And>x w y w'. f x w = (Done y, w') \<Longrightarrow> fst y = x" and "map_prog f xs w = (Done ys, w')"
  shows "map fst ys = xs"
  using assms(2)
proof (induction xs arbitrary: w ys)
  case (Cons x xs)
  from Cons.prems obtain y w1 zs where "f x w = (Done y, w1)" "map_prog f xs w1 = (Done zs, w')" "ys = y # zs"
    by (auto elim!: bind_prog_cases)
  with assms(1) Cons.IH show ?case by auto
qed simp

lemma presign_part_number: "presign_part st key uid n w = (Done y, w') \<Longrightarrow> fst y = n"
  by (auto simp: presign_part_def elim!: bind_prog_cases)

text \<open>
  C19. The upload target of the S3 storage. At or above the threshold: the parts are numbered from
  one without a gap, every byte of the file belongs to exactly one of them, and only the last one
  may be short. Below it: one URL and no upload id.
\<close>

theorem multipart_covers_file:
  assumes run: "s3_create_upload_target st key content_type size_bytes sha w = (Done t, w')"
    and p: "0 < s3_part_size st"
  shows "if s3_multipart_threshold st \<le> size_bytes then
      target_upload_id t \<noteq> None \<and> target_part_size_bytes t = Some (s3_part_size st) \<and>
      map fst (target_part_urls t) = [1..part_count size_bytes (s3_part_size st)] \<and>
      (part_count size_bytes (s3_part_size st) - 1) * s3_part_size st < size_bytes \<and>
      (\<forall>i \<in> {0..<size_bytes}. \<exists>!k. k \<in> set (map fst (target_part_urls t)) \<and>
         (k - 1) * s3_part_size st \<le> i \<and> i < k * s3_part_size st)
    else target_upload_id t = None \<and> target_part_urls t = []"
proof (cases "s3_multipart_threshold st \<le> size_bytes")
  case True
  from run True p obtain created uid parts w1 w2 w3 where
      parts: "map_prog (presign_part st key (py_str uid)) (part_numbers (part_count size_bytes (s3_part_size st))) w2 =
        (Done parts, w3)"
    and t: "t = multipart_target (py_str uid) (s3_part_size st) parts"
    by (auto simp: s3_create_upload_target_def elim!: bind_prog_cases)
  have "map fst parts = [1..part_count size_bytes (s3_part_size st)]"
    using map_prog_fst [OF presign_part_number parts] by (simp add: part_numbers_def)
  with True t part_count_bounds(1) [OF p] one_part_per_byte [OF p] show ?thesis
    by (simp add: multipart_target_def)
next
  case False
  with run show ?thesis by (auto simp: s3_create_upload_target_def elim!: bind_prog_cases)
qed

definition map_client :: "(string \<times> string \<Rightarrow> (bytes \<times> string \<times> (string \<times> json) list) option) s3_client" where
  "map_client =
     \<lparr>s3_generate_presigned_url = (\<lambda>operation params ttl. ret (''https://s3/'' @ operation)),
      s3_head_object = (\<lambda>b k w. case w (b, k) of
         Some (data, t, md) \<Rightarrow> (Done (JDict [(''ContentLength'', JInt (int (length data))),
           (''ContentType'', JStr t), (''Metadata'', JDict md)]), w)
       | None \<Rightarrow> (Raised (ResponseError ''ClientError'' (JDict [(''Error'', JDict [(''Code'', JStr ''404'')])])), w)),
      s3_get_object = (\<lambda>b k w. case w (b, k) of
         Some obj \<Rightarrow> (Done (ret (fst obj)), w) | None \<Rightarrow> (Raised KeyError, w)),
      s3_put_object = (\<lambda>b k data t md w. (Done (), w((b, k) \<mapsto> (data, t, md)))),
      s3_create_multipart_upload = (\<lambda>params. ret (JDict [(''UploadId'', JStr ''u1'')])),
      s3_complete_multipart_upload = (\<lambda>_ _ _ _. ret ()),
      s3_delete_object = (\<lambda>b k w. (Done (), w((b, k) := None))),
      s3_abort_multipart_upload = (\<lambda>_ _ _. ret ())\<rparr>"

definition small_parts :: "(string \<times> string \<Rightarrow> (bytes \<times> string \<times> (string \<times> json) list) option) s3_storage" where
  "small_parts = \<lparr>s3_client = map_client, s3_store_bucket = ''documents'', s3_presign_ttl = 900,
     s3_multipart_threshold = 10, s3_part_size = 4\<rparr>"

lemma multipart_covers_file_witness:
  "\<exists>t. fst (s3_create_upload_target small_parts ''k'' ''text/plain'' 10 ''d'' Map.empty) = Done t \<and>
     map fst (target_part_urls t) = [1, 2, 3]"
proof -
  have count: "part_count 10 4 = 3" by (simp add: part_count_def)
  have upto: "[1..3] = [1, 2, 3::int]" by (simp add: upto.simps)
  obtain t w' where run: "s3_create_upload_target small_parts ''k'' ''text/plain'' 10 ''d'' Map.empty = (Done t, w')"
    by (simp add: s3_create_upload_target_def small_parts_def map_client_def json_item_def count part_numbers_def
        upto presign_part_def bind_prog_def)
  have "map fst (target_part_urls t) = [1, 2, 3]"
    using multipart_covers_file [OF run] by (simp add: small_parts_def count upto)
  with run show ?thesis by auto
qed

section \<open>Reading back\<close>

text \<open>
  What S3 promises, over \<open>content\<close>, the objects of the world by bucket and key: a returned put has
  stored its body, type and metadata; a get and a head answer for the stored object; a head of a
  missing key raises the client error 404; a returned delete has removed the object.
\<close>

type_synonym s3_content = "string \<times> string \<Rightarrow> (bytes \<times> string \<times> (string \<times> json) list) option"

definition s3_head_answer :: "bytes \<times> string \<times> (string \<times> json) list \<Rightarrow> json" where
  "s3_head_answer obj = (case obj of (data, content_type, metadata) \<Rightarrow>
     JDict [(''ContentLength'', JInt (int (length data))), (''ContentType'', JStr content_type),
       (''Metadata'', JDict metadata)])"

definition s3_missing :: exn where
  "s3_missing = ResponseError ''ClientError'' (JDict [(''Error'', JDict [(''Code'', JStr ''404'')])])"

definition s3_promises :: "('w \<Rightarrow> s3_content) \<Rightarrow> 'w s3_client \<Rightarrow> bool" where
  "s3_promises content c \<longleftrightarrow>
     (\<forall>b k data t md w w'. s3_put_object c b k data t md w = (Done (), w') \<longrightarrow>
        content w' = (content w)((b, k) \<mapsto> (data, t, md))) \<and>
     (\<forall>b k w obj. content w (b, k) = Some obj \<longrightarrow>
        (\<exists>body w'. s3_get_object c b k w = (Done body, w') \<and> fst (body w') = Done (fst obj))) \<and>
     (\<forall>b k w. fst (s3_head_object c b k w) =
        (case content w (b, k) of Some obj \<Rightarrow> Done (s3_head_answer obj) | None \<Rightarrow> Raised s3_missing)) \<and>
     (\<forall>b k w w'. s3_delete_object c b k w = (Done (), w') \<longrightarrow> content w' = (content w)((b, k) := None))"

lemma s3_promisesD:
  assumes "s3_promises content c"
  shows "s3_put_object c b k data t md w = (Done (), w') \<Longrightarrow> content w' = (content w)((b, k) \<mapsto> (data, t, md))"
    and "content w (b, k) = Some obj \<Longrightarrow>
      \<exists>body w'. s3_get_object c b k w = (Done body, w') \<and> fst (body w') = Done (fst obj)"
    and "fst (s3_head_object c b k w) =
      (case content w (b, k) of Some obj \<Rightarrow> Done (s3_head_answer obj) | None \<Rightarrow> Raised s3_missing)"
    and "s3_delete_object c b k w = (Done (), w') \<Longrightarrow> content w' = (content w)((b, k) := None)"
  using assms unfolding s3_promises_def by blast+

lemma missing_is_not_found: "is_not_found s3_missing = Inr True" "is_exception s3_missing"
  by (simp_all add: is_not_found_def response_code_def s3_missing_def or_empty_def json_lookup_def)

lemma s3_stat_present:
  assumes "s3_promises content (s3_client st)" and "content w (s3_store_bucket st, key) = Some obj"
  shows "fst (s3_stat st key w) =
    (case s3_object_info key (s3_head_answer obj) of Inr info \<Rightarrow> Done (Some info) | Inl e \<Rightarrow> Raised e)"
proof -
  have "fst (s3_head_object (s3_client st) (s3_store_bucket st) key w) = Done (s3_head_answer obj)"
    using s3_promisesD(3) [OF assms(1)] assms(2) by simp
  then obtain w1 where "s3_head_object (s3_client st) (s3_store_bucket st) key w = (Done (s3_head_answer obj), w1)"
    by (metis prod.collapse)
  then show ?thesis
    by (simp add: s3_stat_def bind_prog_def catch_prog_def lift_sum_def split: sum.splits)
qed

lemma s3_stat_absent:
  assumes "s3_promises content (s3_client st)" and "content w (s3_store_bucket st, key) = None"
  shows "fst (s3_stat st key w) = Done None"
proof -
  have "fst (s3_head_object (s3_client st) (s3_store_bucket st) key w) = Raised s3_missing"
    using s3_promisesD(3) [OF assms(1)] assms(2) by simp
  then obtain w1 where "s3_head_object (s3_client st) (s3_store_bucket st) key w = (Raised s3_missing, w1)"
    by (metis prod.collapse)
  then show ?thesis
    by (simp add: s3_stat_def bind_prog_def catch_prog_def missing_is_not_found)
qed

text \<open>
  C20. Bytes put through the S3 storage are read back unchanged; a stat of the key reports their
  size and type and the digest that \<open>complete_upload\<close> compares; after a deletion the key is missing.
  Both \<open>put_bytes\<close> and the reading of the metadata are the adapter's.
\<close>

theorem s3_put_then_read:
  assumes s3: "s3_promises content (s3_client st)"
    and put: "s3_put_bytes sha st key data content_type w = (Done stored, w')"
  shows "fst (s3_get_bytes st key w') = Done data \<and>
    fst (s3_stat st key w') =
      Done (Some \<lparr>info_object_key = key, info_size_bytes = int (length data),
        info_sha256 = Some (stored_sha256 stored), info_content_type = content_type\<rparr>) \<and>
    (\<forall>w''. s3_remove_object st key w' = (Done (), w'') \<longrightarrow> fst (s3_stat st key w'') = Done None)"
proof -
  from put have "s3_put_object (s3_client st) (s3_store_bucket st) key data content_type
        [(''sha256'', JStr (sha data))] w = (Done (), w')"
    and stored: "stored = stored_as sha key data content_type"
    by (auto simp: s3_put_bytes_def elim!: bind_prog_cases)
  with s3 have here: "content w' (s3_store_bucket st, key) = Some (data, content_type, [(''sha256'', JStr (sha data))])"
    by (auto dest: s3_promisesD(1))
  obtain body w1 where "s3_get_object (s3_client st) (s3_store_bucket st) key w' = (Done body, w1)"
      "fst (body w1) = Done data"
    using s3_promisesD(2) [OF s3 here] by auto
  then have 1: "fst (s3_get_bytes st key w') = Done data" by (simp add: s3_get_bytes_def bind_prog_def)
  have 2: "fst (s3_stat st key w') = Done (Some \<lparr>info_object_key = key, info_size_bytes = int (length data),
        info_sha256 = Some (stored_sha256 stored), info_content_type = content_type\<rparr>)"
    using s3_stat_present [OF s3 here]
    by (simp add: s3_object_info_def s3_head_answer_def json_lookup_def json_item_def or_empty_def
        digest_text_def stored stored_as_def)
  have 3: "fst (s3_stat st key w'') = Done None" if "s3_remove_object st key w' = (Done (), w'')" for w''
  proof (rule s3_stat_absent [OF s3])
    show "content w'' (s3_store_bucket st, key) = None"
      using s3_promisesD(4) [OF s3 that [unfolded s3_remove_object_def]] by simp
  qed
  from 1 2 3 show ?thesis by blast
qed

lemma s3_put_then_read_witness:
  "let w' = snd (s3_put_bytes (\<lambda>_. ''digest'') small_parts ''k'' ''page'' ''text/plain'' Map.empty)
   in fst (s3_get_bytes small_parts ''k'' w') = Done ''page''"
proof -
  have "s3_promises (\<lambda>w. w) (s3_client small_parts)"
    by (auto simp: s3_promises_def small_parts_def map_client_def s3_head_answer_def s3_missing_def
        split: option.splits)
  moreover have "s3_put_bytes (\<lambda>_. ''digest'') small_parts ''k'' ''page'' ''text/plain'' Map.empty =
      (Done (stored_as (\<lambda>_. ''digest'') ''k'' ''page'' ''text/plain''),
       snd (s3_put_bytes (\<lambda>_. ''digest'') small_parts ''k'' ''page'' ''text/plain'' Map.empty))"
    by (simp add: s3_put_bytes_def small_parts_def map_client_def bind_prog_def)
  ultimately show ?thesis unfolding Let_def by (rule s3_put_then_read [THEN conjunct1])
qed

section \<open>URLs\<close>

lemma upper_hex_inject: "a < 16 \<Longrightarrow> b < 16 \<Longrightarrow> upper_hex a = upper_hex b \<Longrightarrow> a = b"
proof -
  have "\<forall>a \<in> set [0..<16]. \<forall>b \<in> set [0..<16]. upper_hex a = upper_hex b \<longrightarrow> a = b" by code_simp
  then show "a < 16 \<Longrightarrow> b < 16 \<Longrightarrow> upper_hex a = upper_hex b \<Longrightarrow> a = b" by simp
qed

lemma quote_char_inject:
  assumes eq: "quote_char safe c @ x = quote_char safe d @ y" and safe: "CHR 0x25 \<notin> set safe"
  shows "c = d \<and> x = y"
proof -
  have percent: "\<not> unreserved safe (CHR 0x25)" using safe by (simp add: unreserved_def)
  show ?thesis
  proof (cases "unreserved safe c \<or> unreserved safe d")
    case True
    with eq percent show ?thesis by (auto simp: quote_char_def split: if_splits)
  next
    case False
    with eq have hex: "upper_hex (of_char c div 16) = upper_hex (of_char d div 16)"
        "upper_hex (of_char c mod 16) = upper_hex (of_char d mod 16)" and "x = y"
      by (simp_all add: quote_char_def)
    have byte: "(of_char e :: nat) div 16 < 16" for e :: char
    proof -
      have "(of_char e :: nat) < 256" by (metis of_char_mod_256 mod_less_divisor zero_less_numeral)
      then show ?thesis by (simp add: less_mult_imp_div_less)
    qed
    have "(of_char c :: nat) div 16 = of_char d div 16" "(of_char c :: nat) mod 16 = of_char d mod 16"
      using upper_hex_inject [OF byte byte hex(1)] upper_hex_inject [OF _ _ hex(2)] by simp_all
    then have "(of_char c :: nat) = of_char d" by (metis div_mult_mod_eq)
    with \<open>x = y\<close> show ?thesis by simp
  qed
qed

lemma quote_char_nonempty: "quote_char safe c \<noteq> []"
  by (simp add: quote_char_def)

lemma quote_inject: "CHR 0x25 \<notin> set safe \<Longrightarrow> quote safe s = quote safe t \<longleftrightarrow> s = t"
proof (induction s arbitrary: t)
  case Nil
  then show ?case by (cases t) (simp_all add: quote_def quote_char_nonempty)
next
  case (Cons c s)
  show ?case
  proof (cases t)
    case Nil
    then show ?thesis by (simp add: quote_def quote_char_nonempty)
  next
    case (Cons d u)
    with quote_char_inject [of safe c "quote safe s" d "quote safe u"] Cons.prems Cons.IH [of u]
    show ?thesis by (auto simp: quote_def)
  qed
qed

text \<open>
  Percent encoding keeps the URLs of the storage service apart: two keys have the same URL
  only if they are the same key, whatever bytes they contain.
\<close>

theorem object_url_inject: "object_url st key = object_url st key' \<longleftrightarrow> key = key'"
  by (simp add: object_url_def quote_inject)

end
