(* ===== verification/Engine.thy ===== *)
theory Engine
  imports Wire
begin

text \<open>
  The adapter of the PaddleOCR-VL server in \<^verbatim>\<open>infrastructure/engine.py\<close> over an HTTP client: the
  request, the classification of failures, and the reading of the answer. The property: only the
  engine errors that the worker knows leave it, with one exception that the code overlooks.
\<close>

section \<open>The request\<close>

record 'w paddle =
  pd_url :: string
  pd_client :: "'w http_client"
  pd_model_name :: string
  pd_engine_version :: string

definition make_paddle :: "string \<Rightarrow> 'w http_client \<Rightarrow> string \<Rightarrow> string \<Rightarrow> string \<Rightarrow> 'w paddle" where
  "make_paddle base_url client endpoint_path model_name engine_version =
     \<lparr>pd_url = rstrip_slash base_url @ ''/'' @ lstrip_slash endpoint_path, pd_client = client,
      pd_model_name = model_name, pd_engine_version = engine_version\<rparr>"

definition option_or :: "json \<Rightarrow> string \<Rightarrow> json \<Rightarrow> json" where
  "option_or options k d = (case json_get options k of Some v \<Rightarrow> v | None \<Rightarrow> d)"

definition request_body :: "bytes \<Rightarrow> json \<Rightarrow> json" where
  "request_body img options =
     JDict [(''file'', JStr (b64encode img)), (''fileType'', JInt 1),
       (''useDocOrientationClassify'', option_or options ''use_doc_orientation_classify'' (JBool False)),
       (''useDocUnwarping'', option_or options ''use_doc_unwarping'' (JBool False)),
       (''useLayoutDetection'', option_or options ''use_layout_detection'' (JBool True)),
       (''useChartRecognition'', option_or options ''use_chart_recognition'' (JBool True)),
       (''visualize'', option_or options ''visualize'' (JBool True))]"

definition ends_with :: "string \<Rightarrow> string \<Rightarrow> bool" where
  "ends_with suffix s \<longleftrightarrow> starts_with (rev suffix) (rev s)"

definition transport_error :: "exn \<Rightarrow> exn" where
  "transport_error e =
     (if e = TimeoutError then EngineTimeoutError
      else if ends_with ''timeout'' (map to_lower (exn_name e)) then EngineTimeoutError
      else EngineUnavailableError)"

section \<open>The answer\<close>

definition member :: "(string \<times> json) list \<Rightarrow> string \<Rightarrow> json" where
  "member kvs k = (case map_of kvs k of Some v \<Rightarrow> v | None \<Rightarrow> JNull)"

text \<open>\<open>x or y\<close>.\<close>

definition json_or :: "json \<Rightarrow> json \<Rightarrow> json" where
  "json_or x y = (if json_truthy x then x else y)"

text \<open>\<open>code in {None, 0, "0"}\<close>: equal numbers are equal members, and a list or an object cannot be hashed.\<close>

definition float_zero :: "string \<Rightarrow> bool" where
  "float_zero s \<longleftrightarrow> s \<noteq> ''NaN'' \<and> \<not> contains ''Infinity'' s \<and>
     list_all (\<lambda>c. is_digit c \<longrightarrow> c = CHR ''0'') (takeWhile (\<lambda>c. c \<noteq> CHR ''e'' \<and> c \<noteq> CHR ''E'') s)"

fun error_code_ok :: "json \<Rightarrow> exn + bool" where
  "error_code_ok JNull = Inr True"
| "error_code_ok (JInt i) = Inr (i = 0)"
| "error_code_ok (JBool b) = Inr (\<not> b)"
| "error_code_ok (JFloat s) = Inr (float_zero s)"
| "error_code_ok (JStr s) = Inr (s = ''0'')"
| "error_code_ok _ = Inl TypeError"

definition decode_optional_image :: "json \<Rightarrow> bytes option" where
  "decode_optional_image v =
     (case v of JStr s \<Rightarrow> if s = [] then None else b64decode s | _ \<Rightarrow> None)"

definition png_magic :: bytes where
  "png_magic = [CHR 0x89, CHR ''P'', CHR ''N'', CHR ''G'', CHR 0x0D, CHR 0x0A, CHR 0x1A, CHR 0x0A]"

definition image_content_type :: "bytes option \<Rightarrow> string" where
  "image_content_type v =
     (case v of
        None \<Rightarrow> ''image/jpeg''
      | Some b \<Rightarrow>
          if starts_with png_magic b then ''image/png''
          else if starts_with ''RIFF'' b \<and> take 4 (drop 8 b) = ''WEBP'' then ''image/webp''
          else ''image/jpeg'')"

fun first_image :: "(string \<times> json) list \<Rightarrow> bytes option" where
  "first_image [] = None"
| "first_image ((k, v) # kvs) =
     (case decode_optional_image v of Some b \<Rightarrow> Some b | None \<Rightarrow> first_image kvs)"

definition visualization_of :: "(string \<times> json) list \<Rightarrow> bytes option" where
  "visualization_of first =
     (case (case member first ''outputImages'' of JDict kvs \<Rightarrow> first_image kvs | _ \<Rightarrow> None) of
        Some b \<Rightarrow> Some b
      | None \<Rightarrow> decode_optional_image (member first ''inputImage''))"

definition markdown_of :: "(string \<times> json) list \<Rightarrow> (string \<times> json) list \<Rightarrow> string option" where
  "markdown_of result first =
     (let m = json_or (member first ''markdown'') (member result ''markdown'');
          m' = (case m of JDict kvs \<Rightarrow> json_or (member kvs ''text'') (member kvs ''markdown'') | _ \<Rightarrow> m)
      in case m' of
           JStr s \<Rightarrow> Some s
         | _ \<Rightarrow> (case member first ''markdownText'' of JStr s \<Rightarrow> Some s | _ \<Rightarrow> None))"

definition recognised_page ::
    "'w paddle \<Rightarrow> (string \<times> json) list \<Rightarrow> (string \<times> json) list \<Rightarrow> (string \<times> json) list \<Rightarrow> int \<Rightarrow> string \<Rightarrow>
     ocr_result" where
  "recognised_page env payload result first page markdown =
     \<lparr>result_markdown = markdown,
      result_structured = [(''page_number'', JInt page),
        (''pruned_result'', JDict (case member first ''prunedResult'' of JDict kvs \<Rightarrow> kvs | _ \<Rightarrow> [])),
        (''data_info'', member result ''dataInfo'')],
      result_visualization = visualization_of first,
      result_visualization_content_type = image_content_type (visualization_of first),
      result_engine_metadata = [(''engine'', JStr ''paddleocr-vl''), (''version'', JStr (pd_engine_version env)),
        (''model'', json_or (json_or (member result ''modelName'') (member payload ''modelName''))
           (JStr (pd_model_name env))),
        (''log_id'', member payload ''logId'')]\<rparr>"

definition parse_result :: "'w paddle \<Rightarrow> (string \<times> json) list \<Rightarrow> int \<Rightarrow> exn + ocr_result" where
  "parse_result env payload page =
     (case (case map_of payload ''result'' of Some v \<Rightarrow> v | None \<Rightarrow> JDict payload) of
        JDict result \<Rightarrow>
          (case json_or (json_or (member result ''layoutParsingResults'') (member result ''results''))
                  (JList [JDict result]) of
             JList (JDict first # _) \<Rightarrow>
               (case markdown_of result first of
                  Some markdown \<Rightarrow> Inr (recognised_page env payload result first page markdown)
                | None \<Rightarrow> Inl EngineProtocolError)
           | _ \<Rightarrow> Inl EngineProtocolError)
      | _ \<Rightarrow> Inl EngineProtocolError)"

definition read_answer :: "'w paddle \<Rightarrow> http_response \<Rightarrow> int \<Rightarrow> exn + ocr_result" where
  "read_answer env response page =
     (if http_status response = 504 then Inl EngineTimeoutError
      else if 500 \<le> http_status response then Inl EngineUnavailableError
      else if http_status response \<noteq> 200 then Inl EngineProtocolError
      else
        (case http_json response of
           Inl e \<Rightarrow> Inl (if is_exception e then EngineProtocolError else e)
         | Inr (JDict payload) \<Rightarrow>
             bind_sum (error_code_ok (member payload ''errorCode'')) (\<lambda>ok.
             if \<not> ok then Inl EngineProtocolError else parse_result env payload page)
         | Inr _ \<Rightarrow> Inl EngineProtocolError))"

definition paddle_recognize :: "'w paddle \<Rightarrow> bytes \<Rightarrow> int \<Rightarrow> json \<Rightarrow> string \<Rightarrow> ('w, ocr_result) op" where
  "paddle_recognize env img page options request_id =
     bind_prog
       (catch_prog
          (http_post (pd_client env) (pd_url env) [(''X-Request-ID'', request_id)] (request_body img options))
          (\<lambda>e. raise_exc (if is_exception e then transport_error e else e))) (\<lambda>response.
     lift_sum (read_answer env response page))"

section \<open>Only engine errors leave the adapter\<close>

lemma parse_result_error: "parse_result env payload page = Inl e \<Longrightarrow> e = EngineProtocolError"
  by (auto simp: parse_result_def split: json.splits option.splits list.splits)

lemma error_code_error: "error_code_ok v = Inl e \<Longrightarrow> e = TypeError \<and> ((\<exists>xs. v = JList xs) \<or> (\<exists>kvs. v = JDict kvs))"
  by (cases v) auto

text \<open>An answer whose error code cannot be a member of a set.\<close>

definition unhashable_code :: "http_response \<Rightarrow> bool" where
  "unhashable_code response \<longleftrightarrow> http_status response = 200 \<and>
     (case http_json response of
        Inr (JDict payload) \<Rightarrow>
          (case member payload ''errorCode'' of JList _ \<Rightarrow> True | JDict _ \<Rightarrow> True | _ \<Rightarrow> False)
      | _ \<Rightarrow> False)"

lemma read_answer_error:
  assumes "read_answer env response page = Inl e"
  shows "e \<in> {EngineTimeoutError, EngineUnavailableError, EngineProtocolError} \<or>
    http_json response = Inl e \<and> \<not> is_exception e \<or> e = TypeError \<and> unhashable_code response"
proof (cases "http_status response = 200")
  case False
  with assms show ?thesis by (auto simp: read_answer_def split: if_splits)
next
  case True
  show ?thesis
  proof (cases "http_json response")
    case (Inl f)
    with True assms show ?thesis by (auto simp: read_answer_def split: if_splits)
  next
    case (Inr v)
    show ?thesis
    proof (cases "\<exists>payload. v = JDict payload")
      case False
      with True Inr assms show ?thesis by (cases v) (auto simp: read_answer_def)
    next
      case 2: True
      then obtain payload where v: "v = JDict payload" by blast
      show ?thesis
      proof (cases "error_code_ok (member payload ''errorCode'')")
        case (Inl f)
        with True Inr v assms error_code_error [OF Inl] show ?thesis
          by (auto simp: read_answer_def unhashable_code_def)
      next
        case (Inr ok)
        with True \<open>http_json response = Inr v\<close> v assms show ?thesis
          by (auto simp: read_answer_def dest: parse_result_error split: if_splits)
      qed
    qed
  qed
qed

text \<open>
  C21. What the recogniser raises. Whatever the server sends and however the client fails, the worker
  sees a timeout, an unavailable engine or a protocol error, with one exception: an answer whose
  \<open>errorCode\<close> is a list or an object ends in a \<open>TypeError\<close>, which is no engine error. The error is one
  that the worker retries exactly when no answer came or its status was at least 500. A returned
  result carries the page number it was asked for.
\<close>

theorem recognize_outcome:
  assumes run: "paddle_recognize env img page options request_id w = (r, w')"
    and post: "http_post (pd_client env) (pd_url env) [(''X-Request-ID'', request_id)]
        (request_body img options) w = (answer, w')"
  shows "case answer of
      Done response \<Rightarrow>
        (case r of
           Done result \<Rightarrow> map_of (result_structured result) ''page_number'' = Some (JInt page)
         | Raised e \<Rightarrow>
             (if is_transient_engine_error e then 500 \<le> http_status response
              else e = EngineProtocolError \<and> http_status response < 500 \<or> e = TypeError \<and> unhashable_code response
                   \<or> \<not> is_exception e)
         | Diverged \<Rightarrow> False)
    | Raised e \<Rightarrow> (\<exists>f. r = Raised f \<and> (if is_exception e then is_transient_engine_error f else f = e))
    | Diverged \<Rightarrow> r = Diverged"
proof (cases answer)
  case (Done response)
  with run post have r: "r = (case read_answer env response page of Inl e \<Rightarrow> Raised e | Inr x \<Rightarrow> Done x)"
    by (simp add: paddle_recognize_def bind_prog_def catch_prog_def lift_sum_def split: sum.splits)
  show ?thesis
  proof (cases "read_answer env response page")
    case (Inl e)
    have high: "http_status response \<ge> 500" if "e = EngineTimeoutError \<or> e = EngineUnavailableError"
      using Inl that read_answer_error [OF Inl] parse_result_error
      by (auto simp: read_answer_def bind_sum_Inl split: if_splits sum.splits json.splits dest: error_code_error)
    have low: "http_status response < 500" if "e = EngineProtocolError"
      using Inl that by (auto simp: read_answer_def split: if_splits)
    from read_answer_error [OF Inl] show ?thesis
      using Inl Done r high low by (auto simp: unhashable_code_def)
  next
    case (Inr x)
    then have "map_of (result_structured x) ''page_number'' = Some (JInt page)"
      by (auto simp: read_answer_def parse_result_def recognised_page_def bind_sum_Inr
          split: if_splits sum.splits json.splits option.splits list.splits)
    with Inr Done r show ?thesis by simp
  qed
next
  case (Raised e)
  with run post have "r = Raised (if is_exception e then transport_error e else e)"
    by (simp add: paddle_recognize_def bind_prog_def catch_prog_def)
  with Raised show ?thesis by (cases "is_exception e") (simp_all add: transport_error_def)
next
  case Diverged
  with run post show ?thesis by (simp add: paddle_recognize_def bind_prog_def catch_prog_def)
qed

definition busy_client :: "unit http_client" where
  "busy_client =
     \<lparr>http_post = (\<lambda>url hs body. ret \<lparr>http_status = 503, http_json = Inl JSONDecodeError, http_content = [],
        http_headers = []\<rparr>),
      http_get = (\<lambda>url hs. raise_exc TimeoutError), http_put = (\<lambda>url hs data. raise_exc TimeoutError)\<rparr>"

lemma recognize_outcome_witness:
  "\<exists>e. fst (paddle_recognize (make_paddle ''http://ocr/'' busy_client ''/layout-parsing'' ''m'' ''1'') [] 3 (JDict []) ''r'' ()) =
      Raised e \<and> e \<noteq> TypeError \<and> e \<noteq> EngineProtocolError"
proof -
  let ?env = "make_paddle ''http://ocr/'' busy_client ''/layout-parsing'' ''m'' ''1''"
  have run: "paddle_recognize ?env [] 3 (JDict []) ''r'' () = (Raised EngineUnavailableError, ())"
    by (simp add: paddle_recognize_def make_paddle_def busy_client_def bind_prog_def catch_prog_def read_answer_def)
  have post: "http_post (pd_client ?env) (pd_url ?env) [(''X-Request-ID'', ''r'')] (request_body [] (JDict [])) () =
      (Done \<lparr>http_status = 503, http_json = Inl JSONDecodeError, http_content = [], http_headers = []\<rparr>, ())"
    by (simp add: make_paddle_def busy_client_def)
  from recognize_outcome [OF run post] run show ?thesis by auto
qed

end
