(* ===== verification/Logging.thy ===== *)
theory Logging
  imports Wire
begin

text \<open>
  The structured loggers of \<^verbatim>\<open>infrastructure/logger_client.py\<close>: the redaction of sensitive fields,
  the client of the logging service with its local fallback, and the local logger. The validation
  of an answer by the pydantic model is a parameter; the local log takes the level and the value
  that \<open>json.dumps\<close> prints. The property: what leaves the process does not depend on what a
  sensitive field contains.
\<close>

section \<open>Redaction\<close>

definition safe_identity_fields :: "string list" where
  "safe_identity_fields = [''api_key_id'', ''api_key_fingerprint'', ''content_type'']"

definition sensitive_names :: "string list" where
  "sensitive_names = [''authorization'', ''api_key'', ''content'', ''document_content'', ''file_content'',
     ''markdown'', ''ocr_content'', ''ocr_text'', ''presigned_url'', ''request_body'', ''response_body'']"

definition sensitive_markers :: "string list" where
  "sensitive_markers = [''password'', ''secret'', ''token'', ''presigned'', ''api_key_value'']"

definition is_sensitive_field :: "string \<Rightarrow> bool" where
  "is_sensitive_field key =
     (let normalized = map to_lower (py_strip key)
      in if normalized \<in> set safe_identity_fields then False
         else if normalized \<in> set sensitive_names then True
         else list_ex (\<lambda>marker. contains marker normalized) sensitive_markers)"

fun sanitize_value :: "json \<Rightarrow> json" where
  "sanitize_value (JDict kvs) =
     JDict (map (\<lambda>(k, v). (k, if is_sensitive_field k then JStr ''[REDACTED]'' else sanitize_value v)) kvs)"
| "sanitize_value (JList xs) = JList (map sanitize_value xs)"
| "sanitize_value v = v"

definition sanitize_fields :: "(string \<times> json) list \<Rightarrow> (string \<times> json) list" where
  "sanitize_fields kvs =
     map (\<lambda>(k, v). (k, if is_sensitive_field k then JStr ''[REDACTED]'' else sanitize_value v)) kvs"

section \<open>The logging service\<close>

record 'w log_service =
  lg_base_url :: string
  lg_client :: "'w http_client"
  lg_service_token :: string
  lg_service_name :: string
  lg_uuid7 :: "('w, uuid) op"
  lg_now :: "('w, time) op"
  lg_validate :: "json \<Rightarrow> exn + api_envelope"
  lg_fallback :: "bool \<Rightarrow> json \<Rightarrow> ('w, unit) op"

definition log_url :: "'w log_service \<Rightarrow> string" where
  "log_url env = rstrip_slash (lg_base_url env) @ ''/v1/log-events''"

definition field_or :: "(string \<times> json) list \<Rightarrow> string \<Rightarrow> json" where
  "field_or kvs k = (case map_of kvs k of Some v \<Rightarrow> v | None \<Rightarrow> JNull)"

definition trace_id :: "(string \<times> json) list \<Rightarrow> string" where
  "trace_id safe =
     (if json_truthy (field_or safe ''request_id'') then py_str (field_or safe ''request_id'')
      else if json_truthy (field_or safe ''trace_id'') then py_str (field_or safe ''trace_id'')
      else [])"

definition to_upper :: "char \<Rightarrow> char" where
  "to_upper c = (let n = of_char c :: nat in if 97 \<le> n \<and> n \<le> 122 then char_of (n - 32) else c)"

definition log_payload :: "'w log_service \<Rightarrow> uuid \<Rightarrow> time \<Rightarrow> string \<Rightarrow> string \<Rightarrow> (string \<times> json) list \<Rightarrow> json" where
  "log_payload env event_id now level event safe =
     JDict [(''event'', JDict
       [(''event_id'', JStr (uuid_str event_id)), (''timestamp'', JStr (isoformat now)),
        (''level'', JStr (map to_upper level)), (''service'', JStr (lg_service_name env)),
        (''message'', JStr event), (''trace_id'', JStr (trace_id safe)), (''metadata'', JDict safe)])]"

text \<open>\<open>data.get("accepted") != 1\<close>: the values that equal one.\<close>

fun equals_one :: "json \<Rightarrow> bool" where
  "equals_one (JInt i) = (i = 1)"
| "equals_one (JBool b) = b"
| "equals_one (JFloat s) = (s = ''1.0'')"
| "equals_one _ = False"

definition accepted :: "http_response \<Rightarrow> api_envelope \<Rightarrow> bool" where
  "accepted response envelope \<longleftrightarrow>
     http_status response = 200 \<and> env_internal_code envelope = SUCCESS \<and>
     (case env_data envelope of
        Some (JDict kvs) \<Rightarrow> (case map_of kvs ''accepted'' of Some v \<Rightarrow> equals_one v | None \<Rightarrow> False)
      | _ \<Rightarrow> False)"

definition post_event :: "'w log_service \<Rightarrow> json \<Rightarrow> ('w, unit) op" where
  "post_event env payload =
     bind_prog (http_post (lg_client env) (log_url env)
        [(''X-Logging-Service-Token'', lg_service_token env)] payload) (\<lambda>response.
     bind_prog (lift_sum (bind_sum (http_json response) (lg_validate env))) (\<lambda>envelope.
     if accepted response envelope then ret ()
     else raise_exc (RuntimeError ''logging-service rejected event'')))"

definition log_send :: "'w log_service \<Rightarrow> string \<Rightarrow> string \<Rightarrow> (string \<times> json) list \<Rightarrow> ('w, unit) op" where
  "log_send env level event kvs =
     bind_prog (lg_uuid7 env) (\<lambda>event_id.
     bind_prog (lg_now env) (\<lambda>now.
     let payload = log_payload env event_id now level event (sanitize_fields kvs)
     in catch_prog (post_event env payload) (\<lambda>e.
          if is_exception e then lg_fallback env (level = ''error'') payload else raise_exc e)))"

definition log_info :: "'w log_service \<Rightarrow> string \<Rightarrow> (string \<times> json) list \<Rightarrow> ('w, unit) op" where
  "log_info env = log_send env ''info''"

definition log_error :: "'w log_service \<Rightarrow> string \<Rightarrow> (string \<times> json) list \<Rightarrow> ('w, unit) op" where
  "log_error env = log_send env ''error''"

text \<open>The local logger; \<open>{"event": event, **fields}\<close> lets a field of that name win, in its place.\<close>

definition merge_fields :: "(string \<times> json) list \<Rightarrow> (string \<times> json) list \<Rightarrow> (string \<times> json) list" where
  "merge_fields kvs kvs' = fold (\<lambda>(k, v). AList.update k v) kvs' kvs"

definition stdlib_write ::
    "(bool \<Rightarrow> json \<Rightarrow> ('w, unit) op) \<Rightarrow> bool \<Rightarrow> string \<Rightarrow> (string \<times> json) list \<Rightarrow> ('w, unit) op" where
  "stdlib_write log is_error event kvs =
     log is_error (JDict (merge_fields [(''event'', JStr event)] (sanitize_fields kvs)))"

section \<open>Laws\<close>

text \<open>Two values that differ at most in the contents of sensitive fields.\<close>

inductive same_public :: "json \<Rightarrow> json \<Rightarrow> bool" where
  refl: "same_public v v"
| items: "list_all2 same_public xs ys \<Longrightarrow> same_public (JList xs) (JList ys)"
| members: "list_all2 (\<lambda>p q. fst p = fst q \<and> (is_sensitive_field (fst p) \<or> same_public (snd p) (snd q))) kvs kvs'
    \<Longrightarrow> same_public (JDict kvs) (JDict kvs')"

lemma sanitize_same: "same_public v v' \<Longrightarrow> sanitize_value v = sanitize_value v'"
proof (induction rule: same_public.induct)
  case (items xs ys)
  then have "map sanitize_value xs = map sanitize_value ys"
    by (auto simp: list_all2_conv_all_nth intro!: nth_equalityI)
  then show ?case by simp
next
  case (members kvs kvs')
  then show ?case
    by (auto simp: list_all2_conv_all_nth split_beta intro!: nth_equalityI)
qed simp

text \<open>Nothing sensitive is left at any depth.\<close>

fun redacted :: "json \<Rightarrow> bool" where
  "redacted (JDict kvs) \<longleftrightarrow>
     (\<forall>(k, v) \<in> set kvs. if is_sensitive_field k then v = JStr ''[REDACTED]'' else redacted v)"
| "redacted (JList xs) \<longleftrightarrow> (\<forall>x \<in> set xs. redacted x)"
| "redacted v \<longleftrightarrow> True"

lemma sanitize_redacts: "redacted (sanitize_value v)"
  by (induction v rule: sanitize_value.induct) (auto split: if_splits)

lemma redacted_fixed: "redacted v \<Longrightarrow> sanitize_value v = v"
proof (induction v rule: redacted.induct)
  case (1 kvs)
  then show ?case by (auto simp: split_beta intro!: map_idI split: if_splits)
next
  case (2 xs)
  then show ?case by (auto intro!: map_idI)
qed simp_all

lemma sanitize_fields_value: "JDict (sanitize_fields kvs) = sanitize_value (JDict kvs)"
  by (simp add: sanitize_fields_def)

text \<open>
  C22. Secrets stay in the process. Two calls of the logger with fields that agree outside sensitive
  names, at any depth, are the same program: they post the same payload, and write the same line
  to the local log when the service does not accept it. Every field under a sensitive name is the
  constant \<open>[REDACTED]\<close> in it, and redacting twice changes nothing.
\<close>

theorem log_hides_secrets:
  assumes "same_public (JDict kvs) (JDict kvs')"
  shows "log_send env level event kvs = log_send env level event kvs' \<and>
    stdlib_write log is_error event kvs = stdlib_write log is_error event kvs' \<and>
    redacted (JDict (sanitize_fields kvs)) \<and> sanitize_fields (sanitize_fields kvs) = sanitize_fields kvs"
proof -
  have "JDict (sanitize_fields kvs) = JDict (sanitize_fields kvs')"
    unfolding sanitize_fields_value using assms by (rule sanitize_same)
  moreover have red: "redacted (JDict (sanitize_fields kvs))"
    unfolding sanitize_fields_value by (rule sanitize_redacts)
  moreover have "JDict (sanitize_fields (sanitize_fields kvs)) = JDict (sanitize_fields kvs)"
    unfolding sanitize_fields_value [of "sanitize_fields kvs"] using red by (rule redacted_fixed)
  ultimately show ?thesis by (simp add: log_send_def stdlib_write_def)
qed

lemma log_hides_secrets_witness:
  "stdlib_write (\<lambda>_ v w. (Done (), v # w)) True ''login''
      [(''user'', JDict [('' Access_Token'', JStr ''t1''), (''api_key_id'', JStr ''5'')])] =
   stdlib_write (\<lambda>_ v w. (Done (), v # w)) True ''login''
      [(''user'', JDict [('' Access_Token'', JList []), (''api_key_id'', JStr ''5'')])]"
proof -
  have key: "is_sensitive_field '' Access_Token''" by code_simp
  have "same_public (JDict [(''user'', JDict [('' Access_Token'', JStr ''t1''), (''api_key_id'', JStr ''5'')])])
      (JDict [(''user'', JDict [('' Access_Token'', JList []), (''api_key_id'', JStr ''5'')])])"
    by (auto intro!: same_public.intros simp: key)
  then show ?thesis by (rule log_hides_secrets [THEN conjunct2, THEN conjunct1])
qed

end
