(* ===== verification/Api_Keys.thy ===== *)
theory Api_Keys
  imports Persistence Config
begin

text \<open>
  API keys: the hash, the prefix and the authenticators of \<^verbatim>\<open>infrastructure/api_keys.py\<close> and the
  commands of \<^verbatim>\<open>interfaces/cli/api_keys.py\<close>. The PBKDF2 function is a parameter, a function of
  the password and the salt; the random texts and the salt that the operating system draws are
  arguments. A comparison in constant time is equality.
\<close>

section \<open>Keys\<close>

definition hash_api_key :: "(bytes \<Rightarrow> bytes \<Rightarrow> bytes) \<Rightarrow> string \<Rightarrow> bytes \<Rightarrow> string \<Rightarrow> exn + bytes" where
  "hash_api_key pbkdf2 plaintext salt pepper =
     (if pepper = [] then Inl (ValueError ''API key pepper must not be empty'')
      else Inr (pbkdf2 (plaintext @ pepper) salt))"

definition verify_api_key ::
    "(bytes \<Rightarrow> bytes \<Rightarrow> bytes) \<Rightarrow> string \<Rightarrow> bytes \<Rightarrow> string \<Rightarrow> bytes \<Rightarrow> exn + bool" where
  "verify_api_key pbkdf2 plaintext salt pepper digest =
     bind_sum (hash_api_key pbkdf2 plaintext salt pepper) (\<lambda>h. Inr (h = digest))"

text \<open>\<open>s.split("_", n)\<close>.\<close>

fun split_underscore :: "nat \<Rightarrow> string \<Rightarrow> string list" where
  "split_underscore 0 s = [s]"
| "split_underscore (Suc n) s =
     (case dropWhile (\<lambda>c. c \<noteq> CHR ''_'') s of
        [] \<Rightarrow> [s]
      | _ # rest \<Rightarrow> takeWhile (\<lambda>c. c \<noteq> CHR ''_'') s # split_underscore n rest)"

definition key_prefix :: "string \<Rightarrow> string option" where
  "key_prefix plaintext =
     (case split_underscore 2 plaintext of
        [a, b, c] \<Rightarrow> if a = ''mocr'' \<and> b \<noteq> [] \<and> c \<noteq> [] then Some (''mocr_'' @ b) else None
      | _ \<Rightarrow> None)"

record generated_api_key =
  gen_plaintext :: string
  gen_prefix :: string
  gen_salt :: bytes
  gen_digest :: bytes

definition short_token :: "string \<Rightarrow> string" where
  "short_token t =
     take 12 (map (\<lambda>c. if c = CHR ''_'' then CHR ''B'' else c) (map (\<lambda>c. if c = CHR ''-'' then CHR ''A'' else c) t))"

definition generate_api_key ::
    "(bytes \<Rightarrow> bytes \<Rightarrow> bytes) \<Rightarrow> string \<Rightarrow> string \<Rightarrow> string \<Rightarrow> bytes \<Rightarrow> exn + generated_api_key" where
  "generate_api_key pbkdf2 pepper token9 token32 salt =
     (let prefix = short_token token9; plaintext = ''mocr_'' @ prefix @ ''_'' @ token32
      in bind_sum (hash_api_key pbkdf2 plaintext salt pepper) (\<lambda>digest.
         Inr \<lparr>gen_plaintext = plaintext, gen_prefix = ''mocr_'' @ prefix, gen_salt = salt,
              gen_digest = digest\<rparr>))"

section \<open>Authentication\<close>

definition user_unauthorized :: exn where
  "user_unauthorized = BusinessError USER_UNAUTHORIZED ''user_unauthorized'' None"

definition api_key_revoked :: exn where
  "api_key_revoked = BusinessError API_KEY_REVOKED ''api_key_revoked'' None"

definition touch_key :: "uuid \<Rightarrow> ('z, unit) sql" where
  "touch_key kid =
     sql_put (\<lambda>w. w\<lparr>db_api_keys := update_where (\<lambda>r. ak_id r = kid)
       (\<lambda>r. r\<lparr>ak_last_used_at := Some (db_now w), ak_updated_at := db_now w\<rparr>) (db_api_keys w)\<rparr>)"

definition authenticate ::
    "(bytes \<Rightarrow> bytes \<Rightarrow> bytes) \<Rightarrow> string \<Rightarrow> string \<Rightarrow> ('z, string) sql" where
  "authenticate pbkdf2 pepper plaintext =
     (case key_prefix plaintext of
        None \<Rightarrow> raise_exc user_unauthorized
      | Some prefix \<Rightarrow>
          catch_prog
            (connected
              (bind_prog (sql_get (\<lambda>w. find (\<lambda>r. ak_key_prefix r = prefix) (db_api_keys w))) (\<lambda>row.
               case row of
                 None \<Rightarrow> raise_exc user_unauthorized
               | Some r \<Rightarrow>
                   if ak_status r = ''revoked'' then raise_exc api_key_revoked
                   else
                     bind_prog (lift_sum (verify_api_key pbkdf2 plaintext (ak_salt r) pepper (ak_key_hash r))) (\<lambda>ok.
                     if \<not> ok then raise_exc user_unauthorized
                     else bind_prog (touch_key (ak_id r)) (\<lambda>_. ret (uuid_str (ak_id r)))))))
            (\<lambda>e. if is_business_error e \<or> is_dependency_error e \<or> \<not> is_exception e then raise_exc e
                 else raise_exc DatabaseUnavailableError))"

definition development_authenticate :: "string \<Rightarrow> string \<Rightarrow> ('w, string) op" where
  "development_authenticate owner plaintext = ret owner"

section \<open>Commands\<close>

text \<open>The columns that the statement does not name take their defaults of the schema.\<close>

definition new_key_row :: "uuid \<Rightarrow> string \<Rightarrow> generated_api_key \<Rightarrow> time \<Rightarrow> api_key_row" where
  "new_key_row kid name g now =
     \<lparr>ak_id = kid, ak_name = name, ak_key_prefix = gen_prefix g, ak_key_hash = gen_digest g,
      ak_salt = gen_salt g, ak_status = ''active'', ak_last_used_at = None, ak_revoked_at = None,
      ak_created_at = now, ak_updated_at = now\<rparr>"

definition insert_key :: "string \<Rightarrow> generated_api_key \<Rightarrow> ('z, uuid) sql" where
  "insert_key name g =
     bind_prog fresh_uuid (\<lambda>kid.
     bind_prog (sql_get (\<lambda>w. new_key_row kid name g (db_now w))) (\<lambda>row.
     bind_prog (sql_check (api_key_row_ok row) ''22001'' ''api_keys'') (\<lambda>_.
     bind_prog (sql_get db_api_keys) (\<lambda>rows.
     bind_prog (sql_check (ak_id row \<notin> ak_id ` set rows) ''23505'' ''api_keys_pkey'') (\<lambda>_.
     bind_prog (sql_check (ak_key_prefix row \<notin> ak_key_prefix ` set rows) ''23505'' ''uq_api_keys_prefix'') (\<lambda>_.
     bind_prog (sql_put (\<lambda>w. w\<lparr>db_api_keys := db_api_keys w @ [row]\<rparr>)) (\<lambda>_. ret kid)))))))"

definition created_text :: "uuid \<Rightarrow> string \<Rightarrow> string" where
  "created_text kid plaintext =
     ''API key created: '' @ uuid_str kid @ [CHR 0x0A] @
     ''Copy this value now; it cannot be recovered later:'' @ [CHR 0x0A] @ plaintext"

definition create_key ::
    "(bytes \<Rightarrow> bytes \<Rightarrow> bytes) \<Rightarrow> string \<Rightarrow> string \<Rightarrow> bytes \<Rightarrow> string \<Rightarrow> string \<Rightarrow> ('z, string) sql" where
  "create_key pbkdf2 token9 token32 salt name pepper =
     bind_prog (lift_sum (generate_api_key pbkdf2 pepper token9 token32 salt)) (\<lambda>g.
     bind_prog (insert_key name g) (\<lambda>kid. ret (created_text kid (gen_plaintext g))))"

text \<open>\<open>str(value or "-")\<close>; a date prints with a blank where \<open>isoformat\<close> has a \<open>T\<close>.\<close>

definition datetime_str :: "time \<Rightarrow> string" where
  "datetime_str t = map (\<lambda>c. if c = CHR ''T'' then CHR '' '' else c) (isoformat t)"

definition text_or_dash :: "string \<Rightarrow> string" where
  "text_or_dash s = (if s = [] then ''-'' else s)"

fun join :: "string \<Rightarrow> string list \<Rightarrow> string" where
  "join sep [] = []"
| "join sep [x] = x"
| "join sep (x # xs) = x @ sep @ join sep xs"

definition tab :: string where
  "tab = [CHR 0x09]"

definition key_line :: "api_key_row \<Rightarrow> string" where
  "key_line r =
     join tab [uuid_str (ak_id r), text_or_dash (ak_status r), text_or_dash (ak_key_prefix r),
       text_or_dash (ak_name r), datetime_str (ak_created_at r),
       (case ak_last_used_at r of Some t \<Rightarrow> datetime_str t | None \<Rightarrow> ''-'')]"

definition list_keys :: "('z, string) sql" where
  "list_keys =
     bind_prog (sql_get (\<lambda>w. sort_key (\<lambda>r. - ak_created_at r) (db_api_keys w))) (\<lambda>rows.
     ret (if rows = [] then ''No API keys found.''
          else join [CHR 0x0A]
            (join tab [''id'', ''status'', ''prefix'', ''name'', ''created_at'', ''last_used_at''] # map key_line rows)))"

definition names_key :: "string \<Rightarrow> api_key_row \<Rightarrow> bool" where
  "names_key identifier r \<longleftrightarrow> uuid_str (ak_id r) = identifier \<or> ak_key_prefix r = identifier"

definition revoke_key :: "string \<Rightarrow> ('z, string) sql" where
  "revoke_key identifier =
     bind_prog (sql_get (\<lambda>w. count_where (names_key identifier) (db_api_keys w))) (\<lambda>updated.
     bind_prog (sql_put (\<lambda>w. w\<lparr>db_api_keys := update_where (names_key identifier)
        (\<lambda>r. r\<lparr>ak_status := ''revoked'', ak_revoked_at := Some (db_now w), ak_updated_at := db_now w\<rparr>)
        (db_api_keys w)\<rparr>)) (\<lambda>_.
     if updated = 0 then raise_exc (ValueError ''API key was not found'')
     else ret (''API key revoked: '' @ identifier)))"

datatype cli_command = Create_Key string | List_Keys | Revoke_Key string

text \<open>The command line: the environment is a map from names to values.\<close>

definition cli_database_url :: "(string \<Rightarrow> string option) \<Rightarrow> string option" where
  "cli_database_url env =
     (let url = (if given (env ''MONKEYOCR_DATABASE_URL'') then env ''MONKEYOCR_DATABASE_URL'' else env ''DATABASE_URL'')
      in if given url
         then map_option (\<lambda>u. replace_all_from 0 ''postgresql+asyncpg://'' ''postgresql://''
                (replace_all_from 0 ''postgresql+psycopg://'' ''postgresql://'' u)) url
         else None)"

definition run_cli ::
    "(bytes \<Rightarrow> bytes \<Rightarrow> bytes) \<Rightarrow> string \<Rightarrow> string \<Rightarrow> bytes \<Rightarrow> (string \<Rightarrow> string option) \<Rightarrow> cli_command \<Rightarrow> ('z, string) sql" where
  "run_cli pbkdf2 token9 token32 salt env command =
     (if cli_database_url env = None then raise_exc (ValueError ''MONKEYOCR_DATABASE_URL is required'')
      else connected
        (case command of
           Create_Key name \<Rightarrow>
             (if \<not> given (env ''MONKEYOCR_API_KEY_PEPPER'')
              then raise_exc (ValueError ''MONKEYOCR_API_KEY_PEPPER is required for key creation'')
              else create_key pbkdf2 token9 token32 salt name (the (env ''MONKEYOCR_API_KEY_PEPPER'')))
         | List_Keys \<Rightarrow> list_keys
         | Revoke_Key identifier \<Rightarrow> revoke_key identifier))"

text \<open>The exit status and the text on the standard output.\<close>

definition cli_main ::
    "(bytes \<Rightarrow> bytes \<Rightarrow> bytes) \<Rightarrow> string \<Rightarrow> string \<Rightarrow> bytes \<Rightarrow> (string \<Rightarrow> string option) \<Rightarrow> cli_command \<Rightarrow>
     ('z, int \<times> string) sql" where
  "cli_main pbkdf2 token9 token32 salt env command =
     catch_prog (bind_prog (run_cli pbkdf2 token9 token32 salt env command) (\<lambda>out. ret (0, out @ [CHR 0x0A])))
       (\<lambda>e. if is_exception e then ret (1, []) else raise_exc e)"

section \<open>A key from issue to revocation\<close>

lemma split_at_underscore:
  assumes "CHR ''_'' \<notin> set a"
  shows "split_underscore (Suc n) (a @ CHR ''_'' # rest) = a # split_underscore n rest"
proof -
  have "\<forall>c \<in> set a. c \<noteq> CHR ''_''" using assms by metis
  then have "takeWhile (\<lambda>c. c \<noteq> CHR ''_'') (a @ CHR ''_'' # rest) = a"
      "dropWhile (\<lambda>c. c \<noteq> CHR ''_'') (a @ CHR ''_'' # rest) = CHR ''_'' # rest"
    by (simp_all add: takeWhile_append2 dropWhile_append2)
  then show ?thesis by simp
qed

lemma key_prefix_issued:
  assumes "CHR ''_'' \<notin> set p" and "p \<noteq> []" and "t \<noteq> []"
  shows "key_prefix (''mocr_'' @ p @ ''_'' @ t) = Some (''mocr_'' @ p)"
proof -
  have "split_underscore 2 (''mocr_'' @ p @ ''_'' @ t) = ''mocr'' # split_underscore 1 (p @ CHR ''_'' # t)"
    using split_at_underscore [of "''mocr''" 1 "p @ CHR ''_'' # t"] by (simp add: numeral_2_eq_2)
  also have "split_underscore 1 (p @ CHR ''_'' # t) = [p, t]"
    using split_at_underscore [OF assms(1), of 0 t] by simp
  finally show ?thesis using assms(2,3) by (simp add: key_prefix_def)
qed

lemma short_token_plain: "CHR ''_'' \<notin> set (short_token t)"
  by (auto simp: short_token_def dest!: in_set_takeD split: if_splits)

lemma find_append: "find p (xs @ ys) = (case find p xs of Some x \<Rightarrow> Some x | None \<Rightarrow> find p ys)"
  by (induction xs) simp_all

lemma insert_key_Done:
  assumes "insert_key name g w = (Done kid, w')"
  obtains row where "row = new_key_row kid name g (db_now w)"
    and "w' = w\<lparr>db_next_id := db_next_id w + 1, db_api_keys := db_api_keys w @ [row]\<rparr>"
    and "ak_key_prefix row \<notin> ak_key_prefix ` set (db_api_keys w)" and "ak_id row \<notin> ak_id ` set (db_api_keys w)"
  using assms by (auto simp: insert_key_def sql_steps new_key_row_def)

lemma authenticate_row:
  assumes "key_prefix guess = Some q" and "find (\<lambda>r. ak_key_prefix r = q) (db_api_keys w) = Some r"
    and "db_up w" and "pepper \<noteq> []"
  shows "fst (authenticate pbkdf2 pepper guess w) =
    (if ak_status r = ''revoked'' then Raised api_key_revoked
     else if pbkdf2 (guess @ pepper) (ak_salt r) = ak_key_hash r then Done (uuid_str (ak_id r))
     else Raised user_unauthorized)"
  using assms
  by (simp add: authenticate_def connected_def bind_prog_def catch_prog_def verify_api_key_def hash_api_key_def
      user_unauthorized_def api_key_revoked_def touch_key_def)

lemma revoked_key_refused:
  assumes prefix: "key_prefix plain = Some q" and found: "find (\<lambda>r. ak_key_prefix r = q) (db_api_keys w) = Some row"
    and up: "db_up w" and pepper: "pepper \<noteq> []"
  shows "fst (bind_prog (revoke_key q) (\<lambda>_. authenticate pbkdf2 pepper plain) w) = Raised api_key_revoked"
proof -
  let ?f = "\<lambda>r. r\<lparr>ak_status := ''revoked'', ak_revoked_at := Some (db_now w), ak_updated_at := db_now w\<rparr>"
  let ?w = "w\<lparr>db_api_keys := update_where (names_key q) ?f (db_api_keys w)\<rparr>"
  have row: "names_key q row" "row \<in> set (db_api_keys w)"
    using found by (auto simp: names_key_def find_Some_iff dest: nth_mem)
  then have "count_where (names_key q) (db_api_keys w) \<noteq> 0"
    by (auto simp: count_where_def filter_empty_conv)
  then have run: "revoke_key q w = (Done (''API key revoked: '' @ q), ?w)"
    using up by (simp add: revoke_key_def bind_prog_def)
  have "find (\<lambda>r. ak_key_prefix r = q) (db_api_keys ?w) = Some (?f row)"
    using found row(1) by (simp add: find_update_where)
  then have "fst (authenticate pbkdf2 pepper plain ?w) = Raised api_key_revoked"
    using authenticate_row [OF prefix _ _ pepper, of ?w "?f row"] up by simp
  moreover have "bind_prog (revoke_key q) (\<lambda>_. authenticate pbkdf2 pepper plain) w = authenticate pbkdf2 pepper plain ?w"
    by (rule bind_Done) (rule run)
  ultimately show ?thesis by simp
qed

text \<open>
  C23. The life of a key. \<open>create\<close> prints a key that the server then accepts, as the identity of
  the row it created; another text with the same prefix is accepted only if its hash is the same;
  and after \<open>revoke\<close> by the prefix the key is refused as revoked.
\<close>

theorem api_key_lifecycle:
  assumes create: "create_key pbkdf2 token9 token32 salt name pepper w = (Done out, w')"
    and up: "db_up w" and tokens: "token9 \<noteq> []" "token32 \<noteq> []"
  shows "\<exists>kid plaintext. out = created_text kid plaintext \<and>
    fst (authenticate pbkdf2 pepper plaintext w') = Done (uuid_str kid) \<and>
    (\<forall>guess. key_prefix guess = key_prefix plaintext \<longrightarrow>
       fst (authenticate pbkdf2 pepper guess w') =
         (if pbkdf2 (guess @ pepper) salt = pbkdf2 (plaintext @ pepper) salt
          then Done (uuid_str kid) else Raised user_unauthorized)) \<and>
    fst (bind_prog (revoke_key (the (key_prefix plaintext))) (\<lambda>_. authenticate pbkdf2 pepper plaintext) w') =
      Raised api_key_revoked"
proof -
  obtain q plain where q: "q = ''mocr_'' @ short_token token9"
    and plain: "plain = ''mocr_'' @ short_token token9 @ ''_'' @ token32" by simp
  have "short_token token9 \<noteq> []" using tokens(1) by (simp add: short_token_def)
  then have prefix: "key_prefix plain = Some q"
    unfolding q plain by (rule key_prefix_issued [OF short_token_plain _ tokens(2)])
  from create obtain g kid where gen: "generate_api_key pbkdf2 pepper token9 token32 salt = Inr g"
    and ins: "insert_key name g w = (Done kid, w')" and out: "out = created_text kid (gen_plaintext g)"
    by (auto simp: create_key_def lift_sum_def bind_Done_iff split: sum.splits)
  from gen have pepper: "pepper \<noteq> []"
    and g: "g = \<lparr>gen_plaintext = plain, gen_prefix = q, gen_salt = salt, gen_digest = pbkdf2 (plain @ pepper) salt\<rparr>"
    by (auto simp: generate_api_key_def hash_api_key_def Let_def q plain split: if_splits)
  from ins obtain row where row: "row = new_key_row kid name g (db_now w)"
    and w': "w' = w\<lparr>db_next_id := db_next_id w + 1, db_api_keys := db_api_keys w @ [row]\<rparr>"
    and new: "ak_key_prefix row \<notin> ak_key_prefix ` set (db_api_keys w)"
    by (rule insert_key_Done)
  have sel: "ak_key_prefix row = q" "ak_id row = kid" "ak_status row = ''active''" "ak_salt row = salt"
      "ak_key_hash row = pbkdf2 (plain @ pepper) salt"
    by (simp_all add: row new_key_row_def g)
  have "find (\<lambda>r. ak_key_prefix r = q) (db_api_keys w) = None"
    using new unfolding find_None_iff sel by (metis imageI)
  then have found: "find (\<lambda>r. ak_key_prefix r = q) (db_api_keys w') = Some row"
    by (simp add: w' find_append sel)
  have auth: "fst (authenticate pbkdf2 pepper guess w') =
       (if pbkdf2 (guess @ pepper) salt = pbkdf2 (plain @ pepper) salt
        then Done (uuid_str kid) else Raised user_unauthorized)" if "key_prefix guess = key_prefix plain" for guess
    using authenticate_row [OF that [unfolded prefix] found _ pepper] up by (simp add: w' sel)
  have revoked: "fst (bind_prog (revoke_key q) (\<lambda>_. authenticate pbkdf2 pepper plain) w') = Raised api_key_revoked"
    using revoked_key_refused [OF prefix found _ pepper] up by (simp add: w')
  show ?thesis
    using out auth revoked prefix by (intro exI [of _ kid] exI [of _ plain]) (simp add: g)
qed

lemma api_key_lifecycle_witness:
  "\<exists>out w'. create_key (\<lambda>pw salt. pw @ salt) ''a-b_c'' ''xyz'' ''s'' ''ci'' ''pepper'' empty_db = (Done out, w') \<and>
     (\<exists>kid plaintext. out = created_text kid plaintext \<and>
        fst (authenticate (\<lambda>pw salt. pw @ salt) ''pepper'' plaintext w') = Done (uuid_str kid))"
proof -
  have tok: "short_token ''a-b_c'' = ''aAbBc''" by code_simp
  have ok: "fits 120 ''ci''" "fits 24 ''mocr_aAbBc''" "fits 24 ''active''" by code_simp+
  obtain out w' where run: "create_key (\<lambda>pw salt. pw @ salt) ''a-b_c'' ''xyz'' ''s'' ''ci'' ''pepper'' empty_db =
      (Done out, w')"
    using ok by (simp add: create_key_def generate_api_key_def hash_api_key_def Let_def tok insert_key_def
        bind_prog_def new_key_row_def sql_check_def api_key_row_ok_def empty_db_def)
  moreover have "db_up empty_db" by (simp add: empty_db_def)
  ultimately show ?thesis using api_key_lifecycle [OF run] by blast
qed

end
