(* ===== verification/Readiness.thy ===== *)
theory Readiness
  imports Wire
begin

text \<open>
  \<^verbatim>\<open>application/readiness.py\<close> and the probes of \<^verbatim>\<open>infrastructure/readiness.py\<close>. The probes run
  one after the other here; the service gathers them and looks at their results in the same
  order. \<open>asyncio.wait_for\<close> turns a probe that does not answer in time into \<open>TimeoutError\<close>, so
  a probe that would never return counts as failed. The pool, the Kafka metadata, the HTTP
  client and the files are parameters.
\<close>

section \<open>The service\<close>

record 'w readiness_check =
  chk_name :: string
  chk_code :: internal_status_code
  chk_probe :: "('w, unit) op"

record readiness_report =
  rep_checks :: "(string \<times> string) list"
  rep_code :: "internal_status_code option"
  rep_reason :: "string option"

definition report_ready :: "readiness_report \<Rightarrow> bool" where
  "report_ready r \<longleftrightarrow> rep_code r = None"

definition run_probe :: "'w readiness_check \<Rightarrow> ('w, bool) op" where
  "run_probe c w =
     (case chk_probe c w of
        (Done _, w') \<Rightarrow> (Done True, w')
      | (Raised e, w') \<Rightarrow> if is_exception e then (Done False, w') else (Raised e, w')
      | (Diverged, w') \<Rightarrow> (Done False, w'))"

definition probe_text :: "bool \<Rightarrow> string" where
  "probe_text ok = (if ok then ''ok'' else ''unavailable'')"

definition make_report :: "'w readiness_check list \<Rightarrow> bool list \<Rightarrow> readiness_report" where
  "make_report checks results =
     (let table = fold (\<lambda>(c, ok). AList.update (chk_name c) (probe_text ok)) (zip checks results)
                    [(''application'', ''ok'')]
      in case find (\<lambda>(c, ok). \<not> ok) (zip checks results) of
           None \<Rightarrow> \<lparr>rep_checks = table, rep_code = None, rep_reason = None\<rparr>
         | Some (c, _) \<Rightarrow>
             \<lparr>rep_checks = table, rep_code = Some (chk_code c),
              rep_reason = Some (''readiness_'' @ chk_name c @ ''_unavailable'')\<rparr>)"

definition readiness_service :: "'w readiness_check list \<Rightarrow> ('w, readiness_report) op" where
  "readiness_service checks =
     bind_prog (map_prog run_probe checks) (\<lambda>results. ret (make_report checks results))"

section \<open>The probes\<close>

definition postgres_probe :: "(string \<Rightarrow> ('w, json) op) \<Rightarrow> ('w, unit) op" where
  "postgres_probe fetchval =
     bind_prog (fetchval ''SELECT 1'') (\<lambda>v.
     if v \<in> {JInt 1, JBool True, JFloat ''1.0''} then ret ()
     else raise_exc (RuntimeError ''postgres readiness query failed''))"

definition storage_probe :: "(string \<Rightarrow> ('w, object_info option) op) \<Rightarrow> ('w, unit) op" where
  "storage_probe stat = bind_prog (stat ''.monkeyocr-readiness-probe'') (\<lambda>_. ret ())"

definition kafka_probe :: "(string \<Rightarrow> ('w, int list option) op) \<Rightarrow> string \<Rightarrow> ('w, unit) op" where
  "kafka_probe partitions_for_topic topic =
     bind_prog (partitions_for_topic topic) (\<lambda>ps.
     case ps of
       None \<Rightarrow> raise_exc (RuntimeError ''Kafka topic metadata is unavailable'')
     | Some xs \<Rightarrow>
         if xs = [] then raise_exc (RuntimeError ''Kafka topic metadata is unavailable'') else ret ())"

definition http_probe :: "'w http_client \<Rightarrow> string \<Rightarrow> ('w, unit) op" where
  "http_probe client url =
     bind_prog (http_get client url []) (\<lambda>response.
     if http_status response \<noteq> 200
     then raise_exc (RuntimeError ''dependency readiness endpoint is unavailable'') else ret ())"

definition heartbeat_filename :: string where
  "heartbeat_filename = ''.heartbeat.json''"

text \<open>Ages are compared in microseconds.\<close>

definition check_heartbeat :: "int \<Rightarrow> int \<Rightarrow> string \<Rightarrow> exn + unit" where
  "check_heartbeat max_age now text =
     (case loads text of
        None \<Rightarrow> Inl JSONDecodeError
      | Some (JDict kvs) \<Rightarrow>
          (if map_of kvs ''status'' \<noteq> Some (JStr ''ok'')
           then Inl (RuntimeError ''sandbox heartbeat is invalid'')
           else
             bind_sum (json_item (JDict kvs) ''updated_at_unix'') (\<lambda>v.
             bind_sum (float_at 6 v) (\<lambda>updated_at.
             if now - updated_at < - 1000000 \<or> max_age < now - updated_at
             then Inl (RuntimeError ''sandbox heartbeat is stale'') else Inr ())))
      | Some _ \<Rightarrow> Inl (OtherError ''AttributeError''))"

definition heartbeat_probe ::
    "(string \<Rightarrow> ('w, string) op) \<Rightarrow> ('w, time) op \<Rightarrow> string \<Rightarrow> int \<Rightarrow> ('w, unit) op" where
  "heartbeat_probe read_text clock exchange_dir max_age =
     bind_prog (read_text (exchange_dir @ ''/'' @ heartbeat_filename)) (\<lambda>text.
     bind_prog clock (\<lambda>now.
     lift_sum (check_heartbeat max_age now text)))"

section \<open>What a report says\<close>

lemma map_prog_length: "map_prog f xs w = (Done ys, w') \<Longrightarrow> length ys = length xs"
proof (induction xs arbitrary: w ys)
  case (Cons x xs)
  from Cons.prems obtain y w1 ys' where "map_prog f xs w1 = (Done ys', w')" "ys = y # ys'"
    unfolding map_prog.simps by (auto elim!: bind_prog_cases simp: ret_def)
  with Cons.IH show ?case by simp
qed simp

lemma fold_update_map_of:
  assumes "distinct (map fst kvs)"
  shows "map_of (fold (\<lambda>(k, v). AList.update k v) kvs acc) k =
    (case map_of kvs k of Some v \<Rightarrow> Some v | None \<Rightarrow> map_of acc k)"
  using assms
proof (induction kvs arbitrary: acc)
  case (Cons kv kvs)
  obtain k1 v1 where kv: "kv = (k1, v1)" by fastforce
  have "map_of kvs k1 = None" using Cons.prems kv by (simp add: map_of_eq_None_iff)
  with Cons kv show ?case by (auto split: option.splits)
qed simp

lemma zip_keys: "length xs = length ys \<Longrightarrow> map fst (map (\<lambda>(x, y). (f x, g y)) (zip xs ys)) = map f xs"
  by (induction xs ys rule: list_induct2) auto

lemma make_report_table:
  assumes "length results = length checks"
    and "distinct (''application'' # map chk_name checks)" and "i < length checks"
  shows "map_of (rep_checks (make_report checks results)) (chk_name (checks ! i)) =
    Some (probe_text (results ! i))"
proof -
  let ?kvs = "map (\<lambda>(c, ok). (chk_name c, probe_text ok)) (zip checks results)"
  have keys: "map fst ?kvs = map chk_name checks"
    by (rule zip_keys) (simp add: assms(1))
  have "(chk_name (checks ! i), probe_text (results ! i)) \<in> set ?kvs"
    using assms(1,3) by (force simp: set_zip)
  then have found: "map_of ?kvs (chk_name (checks ! i)) = Some (probe_text (results ! i))"
    using keys assms(2) by (intro map_of_is_SomeI) simp_all
  have "fold (\<lambda>(c, ok). AList.update (chk_name c) (probe_text ok)) (zip checks results) acc =
    fold (\<lambda>(k, v). AList.update k v) ?kvs acc" for acc
    by (simp add: fold_map comp_def case_prod_unfold)
  with found keys assms(2) show ?thesis
    by (auto simp: make_report_def Let_def fold_update_map_of split: option.splits)
qed

lemma find_zip_first:
  assumes "length results = length checks"
  shows "find (\<lambda>(c, ok). \<not> ok) (zip checks results) =
    (if \<forall>ok \<in> set results. ok then None
     else (let i = length (takeWhile (\<lambda>ok. ok) results) in Some (checks ! i, False)))"
  using assms
proof (induction checks results rule: list_induct2')
  case (4 c checks ok results)
  then show ?case by (cases ok) (auto simp: Let_def)
qed simp_all

text \<open>
  C13. A probe run whose probes answered (in time or not) gives a report that is ready exactly
  when every probe succeeded; otherwise it carries the code and the name of the first failing
  check, and the table states for every check whether it succeeded.
\<close>

theorem readiness_report_correct:
  assumes "map_prog run_probe checks w = (Done results, w')"
    and "distinct (''application'' # map chk_name checks)"
  shows "\<exists>rep. readiness_service checks w = (Done rep, w') \<and>
    (report_ready rep \<longleftrightarrow> (\<forall>ok \<in> set results. ok)) \<and>
    (\<forall>i < length checks.
       map_of (rep_checks rep) (chk_name (checks ! i)) = Some (probe_text (results ! i))) \<and>
    (\<not> report_ready rep \<longrightarrow>
       (let first = checks ! length (takeWhile (\<lambda>ok. ok) results)
        in rep_code rep = Some (chk_code first) \<and>
           rep_reason rep = Some (''readiness_'' @ chk_name first @ ''_unavailable'')))"
proof -
  have len: "length results = length checks" by (rule map_prog_length [OF assms(1)])
  let ?rep = "make_report checks results"
  have "readiness_service checks w = (Done ?rep, w')"
    using assms(1) by (simp add: readiness_service_def bind_prog_def)
  moreover have "report_ready ?rep \<longleftrightarrow> (\<forall>ok \<in> set results. ok)"
    by (simp add: make_report_def report_ready_def Let_def find_zip_first [OF len])
  moreover have "\<not> report_ready ?rep \<longrightarrow>
     (let first = checks ! length (takeWhile (\<lambda>ok. ok) results)
      in rep_code ?rep = Some (chk_code first) \<and>
         rep_reason ?rep = Some (''readiness_'' @ chk_name first @ ''_unavailable''))"
    by (simp add: make_report_def report_ready_def Let_def find_zip_first [OF len])
  ultimately show ?thesis using make_report_table [OF len assms(2)] by blast
qed

definition sample_checks :: "unit readiness_check list" where
  "sample_checks =
     [\<lparr>chk_name = ''postgresql'', chk_code = DATABASE_UNAVAILABLE,
       chk_probe = postgres_probe (\<lambda>_. ret (JInt 1))\<rparr>,
      \<lparr>chk_name = ''kafka'', chk_code = QUEUE_UNAVAILABLE,
       chk_probe = kafka_probe (\<lambda>_. ret (Some [])) ''jobs''\<rparr>,
      \<lparr>chk_name = ''paddleocr_vl'', chk_code = ENGINE_UNAVAILABLE, chk_probe = diverge\<rparr>]"

lemma readiness_report_correct_witness:
  "\<exists>rep. readiness_service sample_checks () = (Done rep, ()) \<and>
    (report_ready rep \<longleftrightarrow> (\<forall>ok \<in> set [True, False, False]. ok)) \<and>
    (\<forall>i < length sample_checks.
       map_of (rep_checks rep) (chk_name (sample_checks ! i)) = Some (probe_text ([True, False, False] ! i))) \<and>
    (\<not> report_ready rep \<longrightarrow>
       (let first = sample_checks ! length (takeWhile (\<lambda>ok. ok) [True, False, False])
        in rep_code rep = Some (chk_code first) \<and>
           rep_reason rep = Some (''readiness_'' @ chk_name first @ ''_unavailable'')))"
proof (rule readiness_report_correct)
  show "map_prog run_probe sample_checks () = (Done [True, False, False], ())"
    by (simp add: sample_checks_def bind_prog_def run_probe_def postgres_probe_def kafka_probe_def
        diverge_def)
  show "distinct (''application'' # map chk_name sample_checks)"
    by (simp add: sample_checks_def)
qed

end
