(* ===== verification/Sandbox.thy ===== *)
theory Sandbox
  imports Preprocessing_Laws Readiness
begin

text \<open>
  The isolated parser: the mailbox daemon \<^verbatim>\<open>infrastructure/sandbox/daemon.py\<close> and the renderer
  \<^verbatim>\<open>infrastructure/sandbox/validate_and_render.py\<close>. The PDF, image and file type libraries are a
  record of programs; sizes are millionths of a point. The text of an exception is a parameter.
  The properties tie the two sides of the exchange directory together: what the daemon writes is
  what the backend accepts.
\<close>

section \<open>The renderer\<close>

record pdf_info =
  pdf_needs_pass :: bool
  pdf_page_sizes :: "(int \<times> int) list"

record 'w renderer =
  rd_files :: "'w files"
  rd_sha256 :: "bytes \<Rightarrow> string"
  rd_mime :: "path \<Rightarrow> ('w, string) op"
  rd_open_pdf :: "path \<Rightarrow> ('w, pdf_info) op"
  rd_pixmap :: "path \<Rightarrow> nat \<Rightarrow> int \<Rightarrow> ('w, bytes) op"
  rd_verify_image :: "path \<Rightarrow> int \<Rightarrow> ('w, unit) op"
  rd_image_size :: "path \<Rightarrow> ('w, int \<times> int) op"
  rd_rgb_png :: "path \<Rightarrow> ('w, bytes) op"
  rd_exception_text :: "exn \<Rightarrow> string"

definition allowed_mime :: "string set" where
  "allowed_mime = {''application/pdf'', ''image/jpeg'', ''image/png'', ''image/tiff'', ''image/webp'', ''image/bmp''}"

definition file_sha256 :: "'w renderer \<Rightarrow> path \<Rightarrow> ('w, string) op" where
  "file_sha256 env p = bind_prog (f_read (rd_files env) p) (\<lambda>data. ret (rd_sha256 env data))"

text \<open>\<open>int(size * dpi / 72 + 0.5)\<close>, truncated towards zero.\<close>

definition pixels :: "int \<Rightarrow> int \<Rightarrow> int" where
  "pixels dpi size_points =
     (let n = 2 * size_points * dpi + 72000000
      in if n < 0 then - (- n div 144000000) else n div 144000000)"

definition page_file :: "int \<Rightarrow> string" where
  "page_file number = ''page-'' @ fmt06d number @ ''.png''"

definition page_entry :: "int \<Rightarrow> string \<Rightarrow> json" where
  "page_entry number digest =
     JDict [(''page_number'', JInt number), (''path'', JStr (page_file number)), (''sha256'', JStr digest)]"

fun render_pages ::
    "'w renderer \<Rightarrow> path \<Rightarrow> path \<Rightarrow> int \<Rightarrow> int \<Rightarrow> nat \<Rightarrow> (int \<times> int) list \<Rightarrow> ('w, json list) op" where
  "render_pages env source output max_pixels dpi i [] = ret []"
| "render_pages env source output max_pixels dpi i ((w, h) # sizes) =
     (let width = pixels dpi w; height = pixels dpi h; target = output @ [page_file (int i + 1)]
      in if width \<le> 0 \<or> height \<le> 0 \<or> max_pixels < width * height
         then raise_exc (ValueError ''image_pixel_limit'')
         else
           bind_prog (rd_pixmap env source i dpi) (\<lambda>png.
           bind_prog (f_write (rd_files env) target png) (\<lambda>_.
           bind_prog (file_sha256 env target) (\<lambda>digest.
           bind_prog (render_pages env source output max_pixels dpi (i + 1) sizes) (\<lambda>rest.
           ret (page_entry (int i + 1) digest # rest))))))"

definition render_pdf ::
    "'w renderer \<Rightarrow> path \<Rightarrow> path \<Rightarrow> int \<Rightarrow> int \<Rightarrow> int \<Rightarrow> ('w, json list) op" where
  "render_pdf env source output max_pages max_pixels dpi =
     bind_prog (rd_open_pdf env source) (\<lambda>document.
     let count = int (length (pdf_page_sizes document))
     in if pdf_needs_pass document then raise_exc (ValueError ''encrypted_pdf'')
        else if count < 1 \<or> max_pages < count then raise_exc (ValueError ''invalid_page_count'')
        else render_pages env source output max_pixels dpi 0 (pdf_page_sizes document))"

definition normalize_image :: "'w renderer \<Rightarrow> path \<Rightarrow> path \<Rightarrow> int \<Rightarrow> ('w, json list) op" where
  "normalize_image env source output max_pixels =
     bind_prog (rd_verify_image env source max_pixels) (\<lambda>_.
     bind_prog (rd_image_size env source) (\<lambda>(width, height).
     if max_pixels < width * height then raise_exc (ValueError ''image_pixel_limit'')
     else
       bind_prog (rd_rgb_png env source) (\<lambda>png.
       bind_prog (f_write (rd_files env) (output @ [page_file 1]) png) (\<lambda>_.
       bind_prog (file_sha256 env (output @ [page_file 1])) (\<lambda>digest.
       ret [page_entry 1 digest])))))"

definition manifest_json :: "string \<Rightarrow> string \<Rightarrow> json list \<Rightarrow> json" where
  "manifest_json digest mime pages =
     JDict [(''sha256'', JStr digest), (''detected_content_type'', JStr mime), (''pages'', JList pages)]"

definition validate_and_render ::
    "'w renderer \<Rightarrow> path \<Rightarrow> path \<Rightarrow> string \<Rightarrow> int \<Rightarrow> int \<Rightarrow> int \<Rightarrow> ('w, json) op" where
  "validate_and_render env source output expected max_pages max_pixels dpi =
     bind_prog (f_mkdir (rd_files env) output) (\<lambda>_.
     bind_prog (file_sha256 env source) (\<lambda>actual.
     if actual \<noteq> map to_lower expected then raise_exc (ValueError ''hash_mismatch'')
     else
       bind_prog (rd_mime env source) (\<lambda>mime.
       if mime \<notin> allowed_mime then raise_exc (ValueError ''unsupported_file_type'')
       else
         bind_prog
           (if mime = ''application/pdf'' then render_pdf env source output max_pages max_pixels dpi
            else normalize_image env source output max_pixels) (\<lambda>pages.
         bind_prog (f_write (rd_files env) (output @ [''manifest.json'']) (dumps (manifest_json actual mime pages))) (\<lambda>_.
         ret (manifest_json actual mime pages))))))"

section \<open>The daemon\<close>

text \<open>\<open>path.with_suffix(".tmp")\<close> of the file names the daemon writes.\<close>

definition stem :: "string \<Rightarrow> string" where
  "stem name =
     (let after = takeWhile (\<lambda>c. c \<noteq> CHR ''.'') (rev name)
      in if length after + 1 < length name \<and> after \<noteq> [] then take (length name - length after - 1) name else name)"

definition atomic_json :: "'w files \<Rightarrow> path \<Rightarrow> string \<Rightarrow> json \<Rightarrow> ('w, unit) op" where
  "atomic_json fs dir name payload =
     bind_prog (f_write fs (dir @ [stem name @ ''.tmp'']) (dumps payload)) (\<lambda>_.
     f_replace fs (dir @ [stem name @ ''.tmp'']) (dir @ [name]))"

definition int_or :: "json \<Rightarrow> string \<Rightarrow> int \<Rightarrow> exn + int" where
  "int_or request k dflt =
     (case request of
        JDict kvs \<Rightarrow> (case map_of kvs k of Some v \<Rightarrow> py_int v | None \<Rightarrow> Inr dflt)
      | _ \<Rightarrow> Inl (OtherError ''AttributeError''))"

definition handle_request :: "'w renderer \<Rightarrow> path \<Rightarrow> ('w, unit) op" where
  "handle_request env dir =
     bind_prog (read_json (rd_files env) (dir @ [''processing.json''])) (\<lambda>request.
     bind_prog (lift_sum (json_item request ''input'')) (\<lambda>inp.
     bind_prog (f_resolve (rd_files env) (path_join dir (py_str inp))) (\<lambda>source.
     bind_prog (f_resolve (rd_files env) (dir @ [''output''])) (\<lambda>output.
     bind_prog (f_resolve (rd_files env) dir) (\<lambda>root.
     if \<not> below root source \<or> \<not> below root output then raise_exc (ValueError ''sandbox_path_escape'')
     else
       bind_prog (lift_sum (json_item request ''sha256'')) (\<lambda>expected.
       bind_prog (lift_sum (int_or request ''max_pages'' 500)) (\<lambda>max_pages.
       bind_prog (lift_sum (int_or request ''max_pixels'' 100000000)) (\<lambda>max_pixels.
       bind_prog (lift_sum (int_or request ''dpi'' 180)) (\<lambda>dpi.
       bind_prog (validate_and_render env source output (py_str expected) max_pages max_pixels dpi) (\<lambda>_.
       atomic_json (rd_files env) dir ''response.json'' (JDict [(''ok'', JBool True)])))))))))))"

definition error_response :: "'w renderer \<Rightarrow> exn \<Rightarrow> json" where
  "error_response env e =
     JDict [(''ok'', JBool False),
       (''error_reason'', JStr (let m = take 160 (rd_exception_text env e) in if m = [] then exn_name e else m))]"

definition process_request :: "'w renderer \<Rightarrow> path \<Rightarrow> ('w, unit) op" where
  "process_request env dir =
     bind_prog
       (catch_prog
          (bind_prog (f_replace (rd_files env) (dir @ [''request.json'']) (dir @ [''processing.json''])) (\<lambda>_. ret True))
          (\<lambda>e. if e = FileNotFoundError then ret False else raise_exc e)) (\<lambda>claimed.
     if \<not> claimed then ret ()
     else
       catch_prog (handle_request env dir) (\<lambda>e.
         if is_exception e
         then atomic_json (rd_files env) dir ''response.json'' (error_response env e)
         else raise_exc e))"

text \<open>\<open>stamp\<close> is the text of \<open>time.time()\<close>.\<close>

definition heartbeat_json :: "string \<Rightarrow> json" where
  "heartbeat_json stamp = JDict [(''status'', JStr ''ok''), (''updated_at_unix'', JFloat stamp)]"

definition write_heartbeat :: "'w files \<Rightarrow> path \<Rightarrow> string \<Rightarrow> ('w, unit) op" where
  "write_heartbeat fs root stamp = atomic_json fs root heartbeat_filename (heartbeat_json stamp)"

fun heartbeat_loop :: "'w files \<Rightarrow> ('w, string) op \<Rightarrow> ('w, unit) op \<Rightarrow> path \<Rightarrow> nat \<Rightarrow> ('w, unit) op" where
  "heartbeat_loop fs clock sleep root 0 = diverge"
| "heartbeat_loop fs clock sleep root (Suc n) =
     bind_prog clock (\<lambda>stamp.
     bind_prog (write_heartbeat fs root stamp) (\<lambda>_.
     bind_prog sleep (\<lambda>_. heartbeat_loop fs clock sleep root n)))"

fun daemon_loop :: "'w renderer \<Rightarrow> ('w, path list) op \<Rightarrow> ('w, unit) op \<Rightarrow> nat \<Rightarrow> ('w, unit) op" where
  "daemon_loop env requests sleep 0 = diverge"
| "daemon_loop env requests sleep (Suc n) =
     bind_prog requests (\<lambda>dirs.
     bind_prog (map_prog (process_request env) dirs) (\<lambda>_.
     bind_prog sleep (\<lambda>_. daemon_loop env requests sleep n)))"

section \<open>The heartbeat\<close>

text \<open>
  The heartbeat that the daemon writes, read by the readiness probe of the backend: it is
  accepted exactly while it is at most \<open>max_age\<close> old and not more than a second in the future.
\<close>

theorem heartbeat_accepted:
  assumes stamp: "num_text stamp" and time: "float_scaled 6 stamp = Inr t"
  shows "check_heartbeat max_age now (dumps (heartbeat_json stamp)) = Inr () \<longleftrightarrow>
    - 1000000 \<le> now - t \<and> now - t \<le> max_age"
proof -
  have "loads (dumps (heartbeat_json stamp)) = Some (heartbeat_json stamp)"
    using stamp by (intro loads_dumps) (simp add: heartbeat_json_def)
  moreover have "json_item (heartbeat_json stamp) ''updated_at_unix'' = Inr (JFloat stamp)"
    and "json_item (heartbeat_json stamp) ''status'' = Inr (JStr ''ok'')"
    by (simp_all add: heartbeat_json_def json_item_def)
  ultimately show ?thesis
    using time by (cases "heartbeat_json stamp") (auto simp: heartbeat_json_def check_heartbeat_def split: if_splits)
qed

lemma heartbeat_accepted_witness:
  "check_heartbeat 5000000 15000000 (dumps (heartbeat_json ''12.25'')) = Inr ()"
proof -
  have stamp: "num_text ''12.25''" by code_simp
  have time: "float_scaled 6 ''12.25'' = Inr 12250000" by code_simp
  show ?thesis unfolding heartbeat_accepted [OF stamp time] by simp
qed

section \<open>The manifest\<close>

lemma render_pages_entries:
  "render_pages env source output max_pixels dpi i sizes w = (Done pages, w') \<Longrightarrow>
     \<exists>digests. length digests = length sizes \<and>
       pages = map (\<lambda>(k, d). page_entry (int k + 1) d) (enumerate i digests)"
proof (induction sizes arbitrary: i w pages)
  case (Cons size_points sizes)
  obtain x y where "size_points = (x, y)" by (cases size_points)
  with Cons.prems obtain digest rest w1 where
      rest: "render_pages env source output max_pixels dpi (i + 1) sizes w1 = (Done rest, w')"
      and pages: "pages = page_entry (int i + 1) digest # rest"
    by (auto simp: Let_def elim!: bind_prog_cases split: if_splits)
  from Cons.IH [OF rest] obtain digests where "length digests = length sizes"
      "rest = map (\<lambda>(k, d). page_entry (int k + 1) d) (enumerate (i + 1) digests)" by blast
  with pages show ?case by (intro exI [of _ "digest # digests"]) simp
qed simp

lemma entry_ok: "json_ok (page_entry n d)"
  by (simp add: page_entry_def)

lemma rendered_pages:
  assumes "validate_and_render env source output expected max_pages max_pixels dpi w = (Done manifest, w')"
    and "1 \<le> max_pages"
  obtains actual mime digests where "1 \<le> length digests" "int (length digests) \<le> max_pages"
    "manifest = manifest_json actual mime (map (\<lambda>(k, d). page_entry (int k + 1) d) (enumerate 0 digests))"
proof -
  define source_pages where "source_pages mime =
      (if mime = ''application/pdf'' then render_pdf env source output max_pages max_pixels dpi
       else normalize_image env source output max_pixels)" for mime
  from assms(1) obtain actual mime pages w1 w2 where
      pages: "source_pages mime w1 = (Done pages, w2)"
      and manifest: "manifest = manifest_json actual mime pages"
    unfolding validate_and_render_def source_pages_def [symmetric]
    by (auto simp del: if_split split: if_split_asm elim!: bind_prog_cases)
  show ?thesis
  proof (cases "mime = ''application/pdf''")
    case True
    with pages have "render_pdf env source output max_pages max_pixels dpi w1 = (Done pages, w2)"
      by (simp add: source_pages_def)
    then obtain sizes w3 where count: "1 \<le> length sizes"
        "int (length sizes) \<le> max_pages"
      and run: "render_pages env source output max_pixels dpi 0 sizes w3 = (Done pages, w2)"
      by (auto simp: render_pdf_def Let_def Suc_le_eq not_less elim!: bind_prog_cases split: if_splits)
    from render_pages_entries [OF run] obtain digests where "length digests = length sizes"
      "pages = map (\<lambda>(k, d). page_entry (int k + 1) d) (enumerate 0 digests)" by blast
    with count manifest show ?thesis by (intro that [of digests actual mime]) simp_all
  next
    case False
    with pages have "normalize_image env source output max_pixels w1 = (Done pages, w2)"
      by (simp add: source_pages_def)
    then obtain digest where "pages = [page_entry 1 digest]"
      by (auto simp: normalize_image_def elim!: bind_prog_cases split: if_splits)
    with manifest that [of "[digest]"] assms(2) show ?thesis by simp
  qed
qed

lemma split_slash_plain: "CHR ''/'' \<notin> set s \<Longrightarrow> split_slash s = [s]"
  by (induction s) auto

lemma page_file_plain:
  assumes "1 \<le> n"
  shows "path_join out (page_file n) = out @ [page_file n]"
proof -
  have "CHR ''/'' \<notin> set (str_nat k)" for k
    using str_nat_digits [of k] by (auto simp: list_all_iff is_digit_def)
  then have "CHR ''/'' \<notin> set (page_file n)"
    using assms by (auto simp: page_file_def fmt06d_def pad_zeros_def)
  then show ?thesis
    by (simp add: path_join_def path_parts_def split_slash_plain) (simp add: page_file_def)
qed

text \<open>
  C26. The two halves of the exchange fit together: a manifest that the renderer wrote is read back
  by the backend, within the same page limit; its entry at position \<open>i\<close> has number \<open>i + 1\<close> and names a
  file directly in the output directory, which is what the import requires.
\<close>

theorem manifest_accepted:
  assumes run: "validate_and_render env source output expected max_pages max_pixels dpi w = (Done manifest, w')"
    and pages: "1 \<le> max_pages"
  shows "loads (dumps manifest) = Some manifest \<and>
    (\<exists>ds. descriptors_of max_pages manifest = Inr ds \<and>
       (\<forall>i < length ds. \<exists>kvs name. ds ! i = JDict kvs \<and> map_of kvs ''page_number'' = Some (JInt (int i + 1)) \<and>
          map_of kvs ''path'' = Some (JStr name) \<and> (\<forall>out. path_join out name = out @ [name])))"
proof -
  from run pages obtain actual mime digests where n: "1 \<le> length digests" "int (length digests) \<le> max_pages"
    and manifest: "manifest = manifest_json actual mime (map (\<lambda>(k, d). page_entry (int k + 1) d) (enumerate 0 digests))"
    by (rule rendered_pages)
  let ?ds = "map (\<lambda>(k, d). page_entry (int k + 1) d) (enumerate 0 digests)"
  have "json_ok manifest"
    by (auto simp: manifest manifest_json_def entry_ok)
  moreover have "descriptors_of max_pages manifest = Inr ?ds"
    using n by (simp add: descriptors_of_def manifest manifest_json_def)
  moreover have "\<exists>kvs name. ?ds ! i = JDict kvs \<and> map_of kvs ''page_number'' = Some (JInt (int i + 1)) \<and>
          map_of kvs ''path'' = Some (JStr name) \<and> (\<forall>out. path_join out name = out @ [name])"
    if "i < length ?ds" for i
    using that page_file_plain [of "int i + 1"] by (auto simp: nth_enumerate_eq page_entry_def)
  ultimately show ?thesis by (auto simp: loads_dumps)
qed

definition image_renderer :: "unit renderer" where
  "image_renderer =
     \<lparr>rd_files = mapped_files (\<lambda>_. Some ''bytes''), rd_sha256 = (\<lambda>_. ''abc''), rd_mime = (\<lambda>_. ret ''image/png''),
      rd_open_pdf = (\<lambda>_. raise_exc KeyError), rd_pixmap = (\<lambda>_ _ _. ret ''png''), rd_verify_image = (\<lambda>_ _. ret ()),
      rd_image_size = (\<lambda>_. ret (10, 20)), rd_rgb_png = (\<lambda>_. ret ''png''), rd_exception_text = exn_name\<rparr>"

lemma manifest_accepted_witness:
  "\<exists>manifest. fst (validate_and_render image_renderer [''x'', ''input''] [''x'', ''output''] ''ABC'' 5 1000 180 ()) = Done manifest \<and>
     (\<exists>ds. descriptors_of 5 manifest = Inr ds)"
proof -
  have "map to_lower ''ABC'' = ''abc''" by code_simp
  then obtain manifest w' where run: "validate_and_render image_renderer [''x'', ''input''] [''x'', ''output''] ''ABC'' 5 1000 180 () =
      (Done manifest, w')"
    by (simp add: validate_and_render_def image_renderer_def mapped_files_def bind_prog_def file_sha256_def
        allowed_mime_def normalize_image_def)
  from manifest_accepted [OF run] run show ?thesis by fastforce
qed

end
