(* ===== verification/Dto.thy ===== *)
theory Dto
  imports Services Persistence
begin

text \<open>
  The request models of \<^verbatim>\<open>application/dto.py\<close> that \<^theory_text>\<open>Services\<close> does not need, and the JSON that
  FastAPI's encoder prints for the response models and the envelope: a model is an object with its
  fields in declaration order, a UUID and a time are texts (the time as \<open>isoformat\<close> with the suffix
  \<open>Z\<close>), an enumeration is its value. A request arrives here with its fields already parsed to their
  types; the length and range constraints are checked by the constructors.
\<close>

section \<open>Requests\<close>

definition validate_optional_sha256 :: "string option \<Rightarrow> string option option" where
  "validate_optional_sha256 value =
     (case value of None \<Rightarrow> Some None | Some v \<Rightarrow> map_option Some (validate_sha256 v))"

record complete_upload_part =
  cup_part_number :: int
  cup_etag :: string

record complete_upload_request =
  cpr_sha256 :: "string option"
  cpr_multipart_upload_id :: "string option"
  cpr_parts :: "complete_upload_part list"

definition part_ok :: "complete_upload_part \<Rightarrow> bool" where
  "part_ok p \<longleftrightarrow> 1 \<le> cup_part_number p \<and> 1 \<le> length (cup_etag p) \<and> length (cup_etag p) \<le> 256"

definition make_complete_upload_request ::
    "string option \<Rightarrow> string option \<Rightarrow> complete_upload_part list \<Rightarrow> complete_upload_request option" where
  "make_complete_upload_request sha multipart_id parts =
     (case validate_optional_sha256 sha of
        None \<Rightarrow> None
      | Some digest \<Rightarrow>
          if list_all part_ok parts
          then Some \<lparr>cpr_sha256 = digest, cpr_multipart_upload_id = multipart_id, cpr_parts = parts\<rparr>
          else None)"

fun is_object :: "json \<Rightarrow> bool" where
  "is_object (JDict kvs) = True"
| "is_object _ = False"

definition make_create_job_request :: "uuid \<Rightarrow> json option \<Rightarrow> create_job_request option" where
  "make_create_job_request uid options =
     (case options of
        None \<Rightarrow> Some \<lparr>cjr_upload_id = uid, cjr_options = JDict []\<rparr>
      | Some v \<Rightarrow> if is_object v then Some \<lparr>cjr_upload_id = uid, cjr_options = v\<rparr> else None)"

definition upload_from_request ::
    "create_upload_request \<Rightarrow> string \<Rightarrow> string \<Rightarrow> uuid \<Rightarrow> time \<Rightarrow> upload" where
  "upload_from_request req owner key uid created =
     \<lparr>upload_owner_id = owner, upload_filename = cur_filename req, upload_size_bytes = cur_size_bytes req,
      upload_content_type = cur_content_type req, upload_sha256 = cur_sha256 req, upload_object_key = key,
      upload_id = uid, upload_state = UPLOADING, upload_created_at = created, upload_completed_at = None,
      upload_detected_content_type = None, upload_multipart_upload_id = None\<rparr>"

section \<open>Responses as JSON\<close>

definition json_time :: "time \<Rightarrow> json" where
  "json_time t = JStr (remove_suffix ''+00:00'' (isoformat t) @ ''Z'')"

definition opt_json :: "('a \<Rightarrow> json) \<Rightarrow> 'a option \<Rightarrow> json" where
  "opt_json f v = (case v of None \<Rightarrow> JNull | Some x \<Rightarrow> f x)"

definition progress_json :: "int \<Rightarrow> json" where
  "progress_json p = JFloat (progress_text p)"

definition upload_json :: "upload_dto \<Rightarrow> json" where
  "upload_json d =
     JDict [(''upload_id'', JStr (uuid_str (ud_upload_id d))), (''object_key'', JStr (ud_object_key d)),
       (''upload_url'', JStr (ud_upload_url d)), (''upload_method'', JStr (ud_upload_method d)),
       (''upload_headers'', JDict (map (map_prod id JStr) (ud_upload_headers d))),
       (''multipart_upload_id'', opt_json JStr (ud_multipart_upload_id d)),
       (''part_size_bytes'', opt_json JInt (ud_part_size_bytes d)),
       (''parts'', JList (map (\<lambda>(number, url).
          JDict [(''part_number'', JInt number), (''upload_url'', JStr url)]) (ud_parts d))),
       (''status'', JStr (upload_state_str (ud_status d))), (''expires_in_seconds'', JInt 900)]"

definition complete_upload_json :: "complete_upload_dto \<Rightarrow> json" where
  "complete_upload_json d =
     JDict [(''upload_id'', JStr (uuid_str (cud_upload_id d))),
       (''status'', JStr (upload_state_str (cud_status d))),
       (''detected_content_type'', JStr (cud_detected_content_type d))]"

definition page_json :: "page_dto \<Rightarrow> json" where
  "page_json d =
     JDict [(''page_number'', JInt (pd_page_number d)), (''status'', JStr (page_state_str (pd_status d))),
       (''processing_attempts'', JInt (pd_processing_attempts d)),
       (''internal_code'', JInt (pd_internal_code d)), (''error_reason'', opt_json JStr (pd_error_reason d))]"

definition job_json :: "job_dto \<Rightarrow> json" where
  "job_json d =
     (case (jd_engine d, jd_times d) of
        ((engine, version, model), (created, updated, started, completed)) \<Rightarrow>
          JDict [(''job_id'', JStr (uuid_str (jd_job_id d))), (''upload_id'', JStr (uuid_str (jd_upload_id d))),
            (''filename'', JStr (jd_filename d)), (''status'', JStr (job_state_str (jd_status d))),
            (''attempt'', JInt (jd_attempt d)), (''progress'', progress_json (jd_progress d)),
            (''completed_pages'', JInt (jd_completed_pages d)), (''total_pages'', JInt (jd_total_pages d)),
            (''pages'', JList (map page_json (jd_pages d))), (''options'', jd_options d),
            (''engine_name'', opt_json JStr engine), (''engine_version'', opt_json JStr version),
            (''model_name'', opt_json JStr model), (''internal_code'', JInt (jd_internal_code d)),
            (''error_reason'', opt_json JStr (jd_error_reason d)), (''created_at'', json_time created),
            (''updated_at'', json_time updated), (''started_at'', opt_json json_time started),
            (''completed_at'', opt_json json_time completed)])"

definition job_list_json :: "job_list_dto \<Rightarrow> json" where
  "job_list_json d =
     JDict [(''items'', JList (map job_json (jl_items d))), (''total'', JInt (jl_total d)),
       (''page'', JInt (jl_page d)), (''page_size'', JInt (jl_page_size d))]"

definition artifact_json :: "artifact_dto \<Rightarrow> json" where
  "artifact_json d =
     (let a = ad_artifact d in
      JDict [(''kind'', JStr (artifact_kind_str (artifact_kind a))), (''object_key'', JStr (artifact_object_key a)),
        (''download_url'', JStr (ad_download_url d)), (''sha256'', JStr (artifact_sha256 a)),
        (''size_bytes'', JInt (artifact_size_bytes a)), (''content_type'', JStr (artifact_content_type a)),
        (''page_number'', opt_json JInt (artifact_page_number a))])"

definition artifact_list_json :: "artifact_dto list \<Rightarrow> json" where
  "artifact_list_json ds = JDict [(''items'', JList (map artifact_json ds))]"

definition job_event_json :: "job_event \<Rightarrow> json" where
  "job_event_json ev =
     JDict [(''event_id'', JInt (ev_sequence ev)), (''job_id'', JStr (uuid_str (ev_job_id ev))),
       (''event_type'', JStr (ev_event_type ev)), (''status'', JStr (job_state_str (ev_state ev))),
       (''progress'', progress_json (ev_progress ev)), (''payload'', JDict (ev_payload ev)),
       (''occurred_at'', json_time (ev_occurred_at ev))]"

definition health_json :: "string \<Rightarrow> (string \<times> string) list \<Rightarrow> json" where
  "health_json status checks =
     JDict [(''status'', JStr status), (''checks'', JDict (map (map_prod id JStr) checks))]"

definition envelope_json :: "api_envelope \<Rightarrow> json" where
  "envelope_json e =
     JDict [(''internal_code'', JInt (code_value (env_internal_code e))), (''message'', JStr (env_message e)),
       (''data'', opt_json id (env_data e)), (''timestamp'', json_time (env_timestamp e)),
       (''request_id'', JStr (env_request_id e)), (''error_reason'', opt_json JStr (env_error_reason e))]"

end
