(* ===== verification/Api.thy ===== *)
theory Api
  imports Dto Config Readiness
begin

text \<open>
  The HTTP interface: the dependencies and routes of \<^verbatim>\<open>interfaces/http/v1\<close>, and from \<^verbatim>\<open>main.py\<close> the
  request identifier middleware and the exception handlers. A request is a value of \<open>api_call\<close>, a
  route with its parameters after FastAPI has parsed them to their types; \<open>answer\<close> runs the
  middleware, the dependencies, the route and the handlers.

  The generator of an event stream is \<open>event_stream\<close>: a \<open>yield\<close> is a call of \<open>api_send\<close>, and the loop
  takes fuel, one unit for each round.

  Parameters: the authenticator, the readiness service, the connection of the client, what pydantic
  reports for a refused request, and the texts of business errors, which \<^const>\<open>BusinessError\<close> leaves out.
\<close>

section \<open>Texts\<close>

definition utf8_bytes :: "nat list \<Rightarrow> string" where
  "utf8_bytes = map char_of"

definition operation_succeeded :: string where
  "operation_succeeded = utf8_bytes [230, 147, 141, 228, 189, 156, 230, 136, 144, 229, 138, 159]"

definition arguments_invalid :: string where
  "arguments_invalid =
     utf8_bytes [232, 175, 183, 230, 177, 130, 229, 143, 130, 230, 149, 176, 230, 151, 160, 230, 149, 136]"

definition route_missing :: string where
  "route_missing =
     utf8_bytes [232, 175, 183, 230, 177, 130, 231, 154, 132, 230, 142, 165, 229, 143, 163, 230, 136, 150,
       232, 181, 132, 230, 186, 144, 228, 184, 141, 229, 173, 152, 229, 156, 168]"

definition no_proper_response :: string where
  "no_proper_response =
     utf8_bytes [230, 156, 141, 229, 138, 161, 230, 156, 170, 232, 131, 189, 229, 189, 162, 230, 136, 144,
       230, 173, 163, 229, 184, 184, 229, 147, 141, 229, 186, 148]"

definition service_not_ready :: string where
  "service_not_ready =
     utf8_bytes [230, 156, 141, 229, 138, 161, 228, 190, 157, 232, 181, 150, 229, 176, 154, 230, 156, 170,
       229, 176, 177, 231, 187, 170]"

fun dep_public_message :: "exn \<Rightarrow> string" where
  "dep_public_message DatabaseUnavailableError =
     utf8_bytes [230, 149, 176, 230, 141, 174, 229, 186, 147, 230, 154, 130, 230, 151, 182, 228, 184, 141,
       229, 143, 175, 231, 148, 168]"
| "dep_public_message StorageUnavailableError =
     utf8_bytes [229, 175, 185, 232, 177, 161, 229, 173, 152, 229, 130, 168, 230, 154, 130, 230, 151, 182,
       228, 184, 141, 229, 143, 175, 231, 148, 168]"
| "dep_public_message QueueUnavailableError =
     utf8_bytes [230, 182, 136, 230, 129, 175, 233, 152, 159, 229, 136, 151, 230, 154, 130, 230, 151, 182,
       228, 184, 141, 229, 143, 175, 231, 148, 168]"
| "dep_public_message EngineTimeoutError =
     utf8_bytes [79, 67, 82, 32, 229, 188, 149, 230, 147, 142, 229, 147, 141, 229, 186, 148, 232, 182, 133,
       230, 151, 182]"
| "dep_public_message e =
     (if e \<in> {EngineError, TransientEngineError, EngineUnavailableError, EngineProtocolError}
      then utf8_bytes [79, 67, 82, 32, 229, 188, 149, 230, 147, 142, 230, 154, 130, 230, 151, 182, 228, 184,
             141, 229, 143, 175, 231, 148, 168]
      else utf8_bytes [228, 190, 157, 232, 181, 150, 230, 156, 141, 229, 138, 161, 230, 154, 130, 230, 151,
             182, 228, 184, 141, 229, 143, 175, 231, 148, 168])"

section \<open>Requests\<close>

datatype api_call =
  CreateUpload string int string string
| CompleteUpload uuid "(string option \<times> string option \<times> complete_upload_part list) option"
| CreateJob uuid "json option" "string option"
| ListJobs int int
| GetJob uuid
| CancelJob uuid
| RetryJob uuid
| ListArtifacts uuid
| StreamEvents uuid "string option"
| Malformed
| Live
| Ready
| UnknownRoute

record 'w api_env =
  api_settings :: settings
  api_ports :: "'w ports"
  api_authenticate :: "string \<Rightarrow> ('w, string) op"
  api_readiness :: "('w, readiness_report) op"
  api_wait_after :: "uuid \<Rightarrow> int \<Rightarrow> int \<Rightarrow> ('w, job_event list) op"
  api_disconnected :: "('w, bool) op"
  api_send :: "string \<Rightarrow> ('w, unit) op"
  api_refusal :: "api_call \<Rightarrow> json list"
  api_text :: "exn \<Rightarrow> string"

section \<open>Dependencies\<close>

definition user_error :: "string \<Rightarrow> exn" where
  "user_error reason = BusinessError USER_UNAUTHORIZED reason None"

text \<open>\<open>authorization.partition(" ")\<close>: the scheme, whether there is a separator, the token.\<close>

definition partition_space :: "string \<Rightarrow> string \<times> bool \<times> string" where
  "partition_space s =
     (takeWhile (\<lambda>c. c \<noteq> CHR '' '') s, CHR '' '' \<in> set s, drop 1 (dropWhile (\<lambda>c. c \<noteq> CHR '' '') s))"

definition authenticated_owner :: "'w api_env \<Rightarrow> string option \<Rightarrow> ('w, string) op" where
  "authenticated_owner env authorization =
     (if authorization \<noteq> None \<and> authorization \<noteq> Some [] then
        (case partition_space (the authorization) of
           (scheme, separator, token) \<Rightarrow>
             if map to_lower scheme \<noteq> ''bearer'' \<or> \<not> separator \<or> token = []
             then raise_exc (user_error ''invalid_authorization_scheme'')
             else api_authenticate env token)
      else if require_gateway_identity (api_settings env) then
        raise_exc (user_error ''gateway_identity_missing'')
      else ret (dev_api_key_id (api_settings env)))"

section \<open>Routes\<close>

datatype api_result = Reply api_envelope | EventStream uuid int string

definition validation_error :: "json list \<Rightarrow> exn" where
  "validation_error details = ResponseError ''RequestValidationError'' (JList details)"

definition of_option :: "exn \<Rightarrow> 'a option \<Rightarrow> ('w, 'a) op" where
  "of_option e v = (case v of Some x \<Rightarrow> ret x | None \<Rightarrow> raise_exc e)"

text \<open>\<open>ApiEnvelope.success(data, request_id=...)\<close> and \<open>ApiEnvelope.failure(...)\<close> at the current time.\<close>

definition success :: "'w ports \<Rightarrow> string \<Rightarrow> json \<Rightarrow> ('w, api_envelope) op" where
  "success ps request_id data =
     bind_prog (p_utc_now ps) (\<lambda>now.
     of_option (OtherError ''ValidationError'') (envelope_success now data request_id operation_succeeded))"

definition failure ::
    "'w ports \<Rightarrow> string \<Rightarrow> internal_status_code \<Rightarrow> string \<Rightarrow> string \<Rightarrow> json option \<Rightarrow> ('w, api_envelope) op" where
  "failure ps request_id code message reason data =
     bind_prog (p_utc_now ps) (\<lambda>now.
     of_option (OtherError ''ValidationError'') (envelope_failure now code message request_id reason data))"

definition reply :: "'w api_env \<Rightarrow> string \<Rightarrow> ('a \<Rightarrow> json) \<Rightarrow> ('w, 'a) op \<Rightarrow> ('w, api_result) op" where
  "reply env request_id encode m =
     bind_prog m (\<lambda>x. bind_prog (success (api_ports env) request_id (encode x)) (\<lambda>e. ret (Reply e)))"

definition invalid_last_event_id :: exn where
  "invalid_last_event_id = BusinessError COMMON_INVALID_ARGUMENT ''invalid_last_event_id'' None"

definition last_event_sequence :: "string option \<Rightarrow> exn + int" where
  "last_event_sequence header =
     (case header of
        None \<Rightarrow> Inr 0
      | Some t \<Rightarrow>
          if t = [] then Inr 0
          else (case int_text t of
                  None \<Rightarrow> Inl invalid_last_event_id
                | Some n \<Rightarrow> if n < 0 then Inl invalid_last_event_id else Inr n))"

definition readiness_reply :: "'w api_env \<Rightarrow> string \<Rightarrow> ('w, api_envelope) op" where
  "readiness_reply env request_id =
     bind_prog (api_readiness env) (\<lambda>report.
     let data = health_json (if report_ready report then ''ready'' else ''not_ready'') (rep_checks report)
     in if report_ready report then success (api_ports env) request_id data
        else failure (api_ports env) request_id
               (case rep_code report of
                  Some c \<Rightarrow> if code_value c \<noteq> 0 then c else INTERNAL_CONTROLLED_ERROR
                | None \<Rightarrow> INTERNAL_CONTROLLED_ERROR)
               service_not_ready
               (case rep_reason report of
                  Some r \<Rightarrow> if r \<noteq> [] then r else ''readiness_dependency_unavailable''
                | None \<Rightarrow> ''readiness_dependency_unavailable'')
               (Some data))"

definition route_complete_upload ::
    "'w api_env \<Rightarrow> string \<Rightarrow> uuid \<Rightarrow> (string option \<times> string option \<times> complete_upload_part list) option \<Rightarrow>
     ('w, complete_upload_dto) op" where
  "route_complete_upload env owner uid body =
     (case body of
        None \<Rightarrow> complete_upload (api_ports env) uid owner None None []
      | Some (sha, multipart_id, parts) \<Rightarrow>
          bind_prog (of_option (validation_error (api_refusal env (CompleteUpload uid body)))
            (make_complete_upload_request sha multipart_id parts)) (\<lambda>req.
          complete_upload (api_ports env) uid owner (cpr_sha256 req) (cpr_multipart_upload_id req)
            (map (\<lambda>p. (cup_part_number p, cup_etag p)) (cpr_parts req))))"

definition route_create_job ::
    "'w api_env \<Rightarrow> string \<Rightarrow> string \<Rightarrow> uuid \<Rightarrow> json option \<Rightarrow> string option \<Rightarrow> ('w, job_dto) op" where
  "route_create_job env request_id owner uid options key =
     bind_prog (of_option (validation_error (api_refusal env (CreateJob uid options key)))
       (make_create_job_request uid options)) (\<lambda>req.
     if key \<noteq> None \<and> \<not> (1 \<le> length (the key) \<and> length (the key) \<le> 160)
     then raise_exc (BusinessError COMMON_INVALID_ARGUMENT ''invalid_idempotency_key'' None)
     else create_job (api_ports env) req owner request_id key)"

definition route_stream :: "'w api_env \<Rightarrow> string \<Rightarrow> uuid \<Rightarrow> string option \<Rightarrow> ('w, api_result) op" where
  "route_stream env owner jid header =
     bind_prog (owned_job (api_ports env) jid owner) (\<lambda>_.
     bind_prog (lift_sum (last_event_sequence header)) (\<lambda>seq. ret (EventStream jid seq owner)))"

text \<open>A route behind authentication: the owner is known before the body is validated.\<close>

definition route :: "'w api_env \<Rightarrow> string \<Rightarrow> string \<Rightarrow> api_call \<Rightarrow> ('w, api_result) op" where
  "route env request_id owner call =
     (let ps = api_ports env in
      case call of
        CreateUpload filename size_bytes content_type sha \<Rightarrow>
          reply env request_id upload_json
            (bind_prog (of_option (validation_error (api_refusal env call))
               (make_create_upload_request filename size_bytes content_type sha)) (\<lambda>req.
             create_upload ps (max_upload_bytes (api_settings env)) req owner))
      | CompleteUpload uid body \<Rightarrow>
          reply env request_id complete_upload_json (route_complete_upload env owner uid body)
      | CreateJob uid options key \<Rightarrow>
          reply env request_id job_json (route_create_job env request_id owner uid options key)
      | ListJobs page_no page_size \<Rightarrow>
          if 1 \<le> page_no \<and> 1 \<le> page_size \<and> page_size \<le> 100
          then reply env request_id job_list_json (list_jobs ps owner page_no page_size)
          else raise_exc (validation_error (api_refusal env call))
      | GetJob jid \<Rightarrow> reply env request_id job_json (get_job ps jid owner)
      | CancelJob jid \<Rightarrow> reply env request_id job_json (cancel_job ps jid owner request_id)
      | RetryJob jid \<Rightarrow> reply env request_id job_json (retry_job ps jid owner request_id)
      | ListArtifacts jid \<Rightarrow> reply env request_id artifact_list_json (list_artifacts ps jid owner)
      | StreamEvents jid header \<Rightarrow> route_stream env owner jid header
      | _ \<Rightarrow> raise_exc (validation_error (api_refusal env call)))"

definition dispatch :: "'w api_env \<Rightarrow> string \<Rightarrow> string option \<Rightarrow> api_call \<Rightarrow> ('w, api_result) op" where
  "dispatch env request_id authorization call =
     (case call of
        Live \<Rightarrow> reply env request_id (\<lambda>_. health_json ''ok'' []) (ret ())
      | Ready \<Rightarrow> bind_prog (readiness_reply env request_id) (\<lambda>e. ret (Reply e))
      | UnknownRoute \<Rightarrow> raise_exc (ResponseError ''HTTPException'' (JInt 404))
      | _ \<Rightarrow> bind_prog (authenticated_owner env authorization) (\<lambda>owner. route env request_id owner call))"

section \<open>Exception handlers\<close>

definition refusal_detail :: "json \<Rightarrow> json" where
  "refusal_detail err =
     (let get = (\<lambda>k d. case json_get err k of Some v \<Rightarrow> v | None \<Rightarrow> d)
      in JDict [(''location'', JList (case get ''loc'' (JList []) of
                    JList xs \<Rightarrow> map (\<lambda>v. JStr (py_str v)) xs | _ \<Rightarrow> [])),
                (''message'', get ''msg'' (JStr ''invalid value'')),
                (''type'', get ''type'' (JStr ''validation_error''))])"

definition handle_error :: "'w api_env \<Rightarrow> string \<Rightarrow> exn \<Rightarrow> ('w, api_envelope) op" where
  "handle_error env request_id e =
     (case e of
        BusinessError code reason data \<Rightarrow> failure (api_ports env) request_id code (api_text env e) reason data
      | ResponseError name v \<Rightarrow>
          if name = ''RequestValidationError'' then
            failure (api_ports env) request_id COMMON_INVALID_ARGUMENT arguments_invalid
              ''request_validation_failed''
              (Some (JDict [(''errors'', JList (case v of JList errs \<Rightarrow> map refusal_detail errs | _ \<Rightarrow> []))]))
          else if name = ''HTTPException'' then
            failure (api_ports env) request_id COMMON_RESOURCE_NOT_FOUND route_missing
              ''http_resource_not_found'' None
          else raise_exc e
      | _ \<Rightarrow>
          if is_dependency_error e then
            failure (api_ports env) request_id (dep_internal_code e) (dep_public_message e) (dep_error_reason e) None
          else raise_exc e)"

definition unexpected_error :: "'w api_env \<Rightarrow> string \<Rightarrow> ('w, api_envelope) op" where
  "unexpected_error env request_id =
     failure (api_ports env) request_id TRANSPORT_INTERNAL_ERROR no_proper_response
       ''transport_internal_error'' None"

section \<open>The middleware\<close>

record http_answer =
  ans_status :: int
  ans_result :: api_result
  ans_request_id :: "string option"

definition request_identifier :: "'w ports \<Rightarrow> string option \<Rightarrow> ('w, string) op" where
  "request_identifier ps header =
     (case header of
        None \<Rightarrow> bind_prog (p_uuid7 ps) (\<lambda>u. ret (uuid_str u))
      | Some candidate \<Rightarrow>
          if candidate = [] then bind_prog (p_uuid7 ps) (\<lambda>u. ret (uuid_str u)) else ret (take 128 candidate))"

definition handled_result ::
    "'w api_env \<Rightarrow> string \<Rightarrow> string option \<Rightarrow> api_call \<Rightarrow> ('w, api_result) op" where
  "handled_result env request_id authorization call =
     catch_prog (dispatch env request_id authorization call) (\<lambda>e.
       bind_prog (handle_error env request_id e) (\<lambda>v. ret (Reply v)))"

text \<open>
  The handler of \<open>Exception\<close> runs outside the middleware: its answer has the status 500 and no
  identifier header.
\<close>

definition answer ::
    "'w api_env \<Rightarrow> string option \<Rightarrow> string option \<Rightarrow> api_call \<Rightarrow> ('w, http_answer) op" where
  "answer env header authorization call =
     bind_prog (request_identifier (api_ports env) header) (\<lambda>request_id.
     catch_prog
       (bind_prog (handled_result env request_id authorization call) (\<lambda>result.
        ret \<lparr>ans_status = 200, ans_result = result, ans_request_id = Some request_id\<rparr>))
       (\<lambda>e. if is_exception e
            then bind_prog (unexpected_error env request_id) (\<lambda>v.
                 ret \<lparr>ans_status = 500, ans_result = Reply v, ans_request_id = None\<rparr>)
            else raise_exc e))"

section \<open>Event streams\<close>

definition newline :: string where
  "newline = [CHR 0x0A]"

definition heartbeat_chunk :: string where
  "heartbeat_chunk = '': heartbeat'' @ newline @ newline"

definition event_chunk :: "job_event \<Rightarrow> api_envelope \<Rightarrow> string" where
  "event_chunk ev e =
     ''id: '' @ str_int (ev_sequence ev) @ newline @ ''event: '' @ ev_event_type ev @ newline @
     ''data: '' @ dumps (envelope_json e) @ newline @ newline"

definition send_event :: "'w api_env \<Rightarrow> job_event \<Rightarrow> ('w, unit) op" where
  "send_event env ev =
     bind_prog (success (api_ports env) (ev_request_id ev) (job_event_json ev)) (\<lambda>e.
     api_send env (event_chunk ev e))"

fun send_events :: "'w api_env \<Rightarrow> job_event list \<Rightarrow> ('w, unit) op" where
  "send_events env [] = ret ()"
| "send_events env (ev # evs) = bind_prog (send_event env ev) (\<lambda>_. send_events env evs)"

definition final_event :: "job_event \<Rightarrow> job \<Rightarrow> bool" where
  "final_event ev latest \<longleftrightarrow>
     job_terminal latest \<and> ev_state ev = job_state latest \<and>
     (case map_of (ev_payload ev) ''attempt'' of
        Some v \<Rightarrow> json_eq v (JInt (job_attempt latest)) | None \<Rightarrow> False)"

definition pending_events :: "'w api_env \<Rightarrow> uuid \<Rightarrow> int \<Rightarrow> ('w, job_event list) op" where
  "pending_events env jid seq =
     bind_prog (p_events_list_after (api_ports env) jid seq) (\<lambda>pending.
     if pending = [] then api_wait_after env jid seq (sse_heartbeat (api_settings env)) else ret pending)"

fun event_stream :: "'w api_env \<Rightarrow> uuid \<Rightarrow> string \<Rightarrow> int \<Rightarrow> nat \<Rightarrow> ('w, unit) op" where
  "event_stream env jid owner seq 0 = diverge"
| "event_stream env jid owner seq (Suc n) =
     bind_prog (pending_events env jid seq) (\<lambda>pending.
     if pending = [] then
       bind_prog (api_disconnected env) (\<lambda>gone.
       if gone then ret ()
       else
         bind_prog (owned_job (api_ports env) jid owner) (\<lambda>latest.
         if job_terminal latest then ret ()
         else bind_prog (api_send env heartbeat_chunk) (\<lambda>_. event_stream env jid owner seq n)))
     else
       bind_prog (send_events env pending) (\<lambda>_.
       bind_prog (owned_job (api_ports env) jid owner) (\<lambda>latest.
       if final_event (last pending) latest then ret ()
       else event_stream env jid owner (ev_sequence (last pending)) n)))"

end
