(* ===== verification/Api_Errors.thy ===== *)
theory Api_Errors
  imports Api
begin

text \<open>
  What the HTTP interface raises. \<open>raises_only E m\<close> says that \<open>m\<close> raises only exceptions in \<open>E\<close>, from any
  world. The locale \<open>api_adapters\<close> states what the use cases rely on: a conflict is raised only by the
  operations that the code documents to raise it, and the file validator raises controlled errors.
\<close>

section \<open>Raised exceptions\<close>

definition raises_only :: "('e \<Rightarrow> bool) \<Rightarrow> ('w, 'e, 'a) prog \<Rightarrow> bool" where
  "raises_only E m \<longleftrightarrow> (\<forall>w e w'. m w = (Raised e, w') \<longrightarrow> E e)"

lemma raises_onlyI: "(\<And>w e w'. m w = (Raised e, w') \<Longrightarrow> E e) \<Longrightarrow> raises_only E m"
  by (auto simp: raises_only_def)

lemma raises_onlyD: "raises_only E m \<Longrightarrow> m w = (Raised e, w') \<Longrightarrow> E e"
  by (auto simp: raises_only_def)

lemma raises_weaken: "raises_only E m \<Longrightarrow> (\<And>e. E e \<Longrightarrow> F e) \<Longrightarrow> raises_only F m"
  by (auto simp: raises_only_def)

lemma raises_ret [intro!]: "raises_only E (ret x)"
  by (auto simp: raises_only_def)

lemma raises_raise [intro!]: "E e \<Longrightarrow> raises_only E (raise_exc e)"
  by (auto simp: raises_only_def)

lemma raises_bind [intro!]:
  assumes "raises_only E m" and "\<And>x. raises_only E (k x)"
  shows "raises_only E (bind_prog m k)"
  by (rule raises_onlyI, elim bind_prog_cases) (use assms in \<open>auto dest: raises_onlyD\<close>)

text \<open>An optimistic attempt: \<open>None\<close> asks for another round, which only \<open>again\<close> allows.\<close>

lemma raises_attempt:
  assumes "raises_only F m" and "\<And>e. F e \<Longrightarrow> (again \<and> h e = ret None) \<or> (\<exists>f. h e = raise_exc f \<and> E f)"
    and "\<And>x. raises_only E (k (Some x))" and "again \<Longrightarrow> raises_only E (k None)"
  shows "raises_only E (bind_prog (catch_prog (bind_prog m (\<lambda>x. ret (Some x))) h) k)"
proof (rule raises_onlyI, elim bind_prog_cases)
  fix w e w' v w1
  assume k: "k v w1 = (Raised e, w')" and run: "catch_prog (bind_prog m (\<lambda>x. ret (Some x))) h w = (Done v, w1)"
  from run assms(1,2) have "v = None \<Longrightarrow> again"
    by (fastforce simp: catch_prog_def bind_prog_def raises_only_def split: prod.splits outcome.splits)
  with k assms(3,4) show "E e" by (cases v) (auto dest: raises_onlyD)
next
  fix w e w' e'
  assume "catch_prog (bind_prog m (\<lambda>x. ret (Some x))) h w = (Raised e', w')" and "Raised e = Raised e'"
  with assms(1,2) show "E e"
    by (fastforce simp: catch_prog_def bind_prog_def raises_only_def split: prod.splits outcome.splits)
qed auto

lemma raises_catch:
  assumes "raises_only F m" and "\<And>e. F e \<Longrightarrow> raises_only E (h e)"
  shows "raises_only E (catch_prog m h)"
  by (rule raises_onlyI) (use assms in \<open>fastforce simp: catch_prog_def raises_only_def split: prod.splits outcome.splits\<close>)

lemma raises_lift [intro!]: "(\<And>e. r = Inl e \<Longrightarrow> E e) \<Longrightarrow> raises_only E (lift_sum r)"
  by (cases r) auto

lemma raises_map [intro!]: "(\<And>x. raises_only E (f x)) \<Longrightarrow> raises_only E (map_prog f xs)"
  by (induction xs) auto

lemma raises_of_option [intro!]: "(v = None \<Longrightarrow> E e) \<Longrightarrow> raises_only E (of_option e v)"
  by (cases v) (auto simp: of_option_def)

lemma raises_if:
  "(b \<Longrightarrow> raises_only E m) \<Longrightarrow> (\<not> b \<Longrightarrow> raises_only E m') \<Longrightarrow> raises_only E (if b then m else m')"
  by simp

lemma raises_sum:
  "(\<And>x. v = Inl x \<Longrightarrow> raises_only E (f x)) \<Longrightarrow> (\<And>y. v = Inr y \<Longrightarrow> raises_only E (g y)) \<Longrightarrow>
   raises_only E (case v of Inl x \<Rightarrow> f x | Inr y \<Rightarrow> g y)"
  by (cases v) auto

lemma raises_any: "raises_only (\<lambda>_. True) m"
  by (simp add: raises_only_def)

section \<open>Controlled errors\<close>

text \<open>
  The exceptions that a handler of \<^verbatim>\<open>main.py\<close> turns into an answer with status 200, and those that
  are no \<open>Exception\<close> and end the request.
\<close>

fun handled :: "exn \<Rightarrow> bool" where
  "handled (BusinessError code reason data) = (code \<noteq> SUCCESS \<and> reason \<noteq> [])"
| "handled (ResponseError name v) = (name \<in> {''RequestValidationError'', ''HTTPException''})"
| "handled CancelledError = True"
| "handled e = is_dependency_error e"

lemma handled_dependency: "is_dependency_error e \<Longrightarrow> handled e"
  by (cases e) auto

lemma handled_not_exception: "\<not> is_exception e \<Longrightarrow> handled e"
  by (cases e) auto

lemma handled_unavailable [simp]: "handled DatabaseUnavailableError" "handled StorageUnavailableError"
  by simp_all

text \<open>What an adapter may raise: its business errors, if any, are well formed.\<close>

definition wrapped :: "exn \<Rightarrow> bool" where
  "wrapped e \<longleftrightarrow> (is_business_error e \<longrightarrow> handled e)"

definition conflict :: "exn \<Rightarrow> bool" where
  "conflict e \<longleftrightarrow> e = ConcurrentJobUpdateError \<or> e = DuplicateIdempotencyKeyError"

lemma service_database_raises:
  assumes "raises_only (\<lambda>e. wrapped e \<and> F e) m"
  shows "raises_only (\<lambda>e. handled e \<or> conflict e \<and> F e) (service_database m)"
  unfolding service_database_def
  by (rule raises_catch [OF assms])
     (auto simp: wrapped_def conflict_def handled_not_exception intro: handled_dependency
       simp del: is_dependency_error.simps handled.simps)

lemma service_database_handled:
  assumes "raises_only (\<lambda>e. wrapped e \<and> \<not> conflict e) m"
  shows "raises_only handled (service_database m)"
  using service_database_raises [OF assms] by (rule raises_weaken) auto

lemma service_storage_raises:
  assumes "raises_only wrapped m"
  shows "raises_only (\<lambda>e. handled e \<or> e = FileNotFoundError) (service_storage m)"
  unfolding service_storage_def
  by (rule raises_catch [OF assms])
     (auto simp: wrapped_def handled_not_exception intro: handled_dependency
       simp del: is_dependency_error.simps handled.simps)

section \<open>The use cases\<close>

locale api_adapters =
  fixes ps :: "'w ports"
  assumes clock: "raises_only handled (p_utc_now ps)"
    and ids: "raises_only handled (p_uuid7 ps)"
    and uploads_get: "raises_only (\<lambda>e. wrapped e \<and> \<not> conflict e) (p_uploads_get ps uid)"
    and uploads_add: "raises_only (\<lambda>e. wrapped e \<and> \<not> conflict e) (p_uploads_add ps u)"
    and uploads_save: "raises_only (\<lambda>e. wrapped e \<and> \<not> conflict e) (p_uploads_save ps u)"
    and jobs_get: "raises_only (\<lambda>e. wrapped e \<and> \<not> conflict e) (p_jobs_get ps jid)"
    and jobs_find: "raises_only (\<lambda>e. wrapped e \<and> \<not> conflict e) (p_jobs_find_by_idempotency_key ps owner k)"
    and jobs_list: "raises_only (\<lambda>e. wrapped e \<and> \<not> conflict e) (p_jobs_list ps owner offset limit)"
    and save_event: "raises_only (\<lambda>e. wrapped e \<and> e \<noteq> DuplicateIdempotencyKeyError) (p_jobs_save_with_event ps j ev)"
    and save_outbox:
      "raises_only (\<lambda>e. wrapped e \<and> e \<noteq> DuplicateIdempotencyKeyError) (p_jobs_save_with_outbox_and_event ps j ob ev)"
    and add_outbox:
      "raises_only (\<lambda>e. wrapped e \<and> e \<noteq> ConcurrentJobUpdateError \<and>
         (e = DuplicateIdempotencyKeyError \<longrightarrow> job_idempotency_key j \<noteq> None))
       (p_jobs_add_with_outbox_and_event ps j ob ev)"
    and create_target: "raises_only wrapped (p_storage_create_upload_target ps key ct n sha)"
    and complete_object: "raises_only wrapped (p_storage_complete_upload ps key mid parts)"
    and stat_object: "raises_only wrapped (p_storage_stat ps key)"
    and get_object: "raises_only wrapped (p_storage_get_bytes ps key)"
    and download: "raises_only wrapped (p_storage_create_download_url ps key)"
    and validator: "raises_only handled (p_validator_validate ps u data)"
begin

lemmas reads = uploads_get [THEN service_database_handled] uploads_add [THEN service_database_handled]
  uploads_save [THEN service_database_handled] jobs_get [THEN service_database_handled]
  jobs_find [THEN service_database_handled] jobs_list [THEN service_database_handled]

lemma owned_upload_handled: "raises_only handled (owned_upload ps uid owner)"
  by (auto simp: owned_upload_def not_found_upload_def unauthorized_def intro!: reads split: option.split)

lemma owned_job_handled: "raises_only handled (owned_job ps jid owner)"
  by (auto simp: owned_job_def unauthorized_def intro!: reads split: option.split)

lemma to_job_dto_handled: "raises_only handled (to_job_dto ps j)"
  by (auto simp: to_job_dto_def intro!: reads)

lemma service_job_event_handled: "raises_only handled (service_job_event ps j t p)"
  by (auto simp: service_job_event_def intro!: clock)

lemma get_job_handled: "raises_only handled (get_job ps jid owner)"
  by (auto simp: get_job_def intro!: owned_job_handled to_job_dto_handled)

lemma list_jobs_handled: "raises_only handled (list_jobs ps owner page_no page_size)"
  by (auto simp: list_jobs_def intro!: reads to_job_dto_handled split: prod.split)

lemma list_artifacts_handled: "raises_only handled (list_artifacts ps jid owner)"
proof -
  have "raises_only handled (artifact_link ps a)" for a
    unfolding artifact_link_def
    by (rule raises_bind, rule raises_catch [OF service_storage_raises [OF download]]) auto
  then show ?thesis by (auto simp: list_artifacts_def intro!: owned_job_handled)
qed

lemma save_and_emit_handled:
  "raises_only (\<lambda>e. handled e \<or> e = ConcurrentJobUpdateError) (service_save_and_emit ps j t)"
  unfolding service_save_and_emit_def
  by (intro raises_bind raises_weaken [OF service_job_event_handled]
        raises_weaken [OF service_database_raises [OF save_event]])
     (auto simp: conflict_def split: prod.split)

lemma cancel_loop_handled: "0 < n \<Longrightarrow> raises_only handled (cancel_loop ps jid owner request_id n)"
proof (induction n)
  case (Suc n)
  have "raises_only (\<lambda>e. handled e \<or> e = ConcurrentJobUpdateError \<or> is_value_error e)
      (cancel_try ps request_id j)" for j
    unfolding cancel_try_def
    by (intro raises_bind raises_weaken [OF clock] raises_weaken [OF save_and_emit_handled] raises_lift)
       (auto simp: job_request_cancel_def job_cancel_def job_transition_def
         intro!: raises_weaken [OF clock] split: if_splits sum.splits)
  note attempt = raises_attempt [where again = "n \<noteq> 0", OF this]
  have round: "raises_only handled
      (bind_prog (catch_prog (bind_prog (cancel_try ps request_id j) (\<lambda>j'. ret (Some j')))
           (\<lambda>e. if e = ConcurrentJobUpdateError then
                  (if n \<noteq> 0 then ret None else raise_exc DatabaseUnavailableError)
                else if is_value_error e then raise_exc not_cancellable
                else raise_exc e))
         (\<lambda>r. case r of
                Some j' \<Rightarrow> to_job_dto ps j'
              | None \<Rightarrow> cancel_loop ps jid owner request_id n))" for j
    by (rule attempt) (auto simp: not_cancellable_def to_job_dto_handled Suc.IH simp del: is_value_error.simps)
  show ?case
    unfolding cancel_loop.simps
    by (rule raises_bind [OF owned_job_handled])
       (intro raises_if round to_job_dto_handled raises_raise, simp add: not_cancellable_def)
qed simp

lemma cancel_job_handled: "raises_only handled (cancel_job ps jid owner request_id)"
  by (simp add: cancel_job_def cancel_loop_handled)

lemma retry_loop_handled: "0 < n \<Longrightarrow> raises_only handled (retry_loop ps jid owner request_id n)"
proof (induction n)
  case (Suc n)
  have "raises_only (\<lambda>e. handled e \<or> e = ConcurrentJobUpdateError) (retry_save ps request_id j)" for j
    unfolding retry_save_def
    by (intro raises_bind raises_weaken [OF clock] raises_weaken [OF ids]
          raises_weaken [OF service_job_event_handled] raises_weaken [OF service_database_raises [OF save_outbox]])
       (auto simp: conflict_def split: prod.split)
  note attempt = raises_attempt [where again = "n \<noteq> 0", OF this]
  have round: "raises_only handled
      (bind_prog (catch_prog (bind_prog (retry_save ps request_id j) (\<lambda>j'. ret (Some j')))
             (\<lambda>e. if e = ConcurrentJobUpdateError then
                    (if n \<noteq> 0 then ret None else raise_exc DatabaseUnavailableError)
                  else raise_exc e))
           (\<lambda>r. case r of
                  Some j' \<Rightarrow> to_job_dto ps j'
                | None \<Rightarrow> retry_loop ps jid owner request_id n))" for j
    by (rule attempt) (auto simp: to_job_dto_handled Suc.IH)
  show ?case
    unfolding retry_loop.simps
    by (rule raises_bind [OF owned_job_handled], rule raises_bind [OF clock])
       (intro raises_sum raises_if round to_job_dto_handled raises_raise, simp add: not_retryable_def)
qed simp

lemma retry_job_handled: "raises_only handled (retry_job ps jid owner request_id)"
  by (simp add: retry_job_def retry_loop_handled)

lemma replay_job_handled: "raises_only handled (replay_job ps u req existing)"
  by (auto simp: replay_job_def idempotency_conflict_def intro!: to_job_dto_handled)

lemma insert_job_handled:
  assumes "key \<noteq> Some []"
  shows "raises_only handled (insert_job ps u req owner request_id key)"
proof -
  have "raises_only (\<lambda>e. handled e \<or> e = DuplicateIdempotencyKeyError \<and> key \<noteq> None)
      (bind_prog (service_job_event ps (new_job owner uid request_id options key jid t1 t2) et p) (\<lambda>ev.
       bind_prog (service_database (p_jobs_add_with_outbox_and_event ps
         (new_job owner uid request_id options key jid t1 t2) ob ev)) (\<lambda>_. ret None)))" for uid options jid t1 t2 et p ob
    by (intro raises_bind raises_weaken [OF service_job_event_handled]
          raises_weaken [OF service_database_raises [OF add_outbox]])
       (auto simp: conflict_def new_job_def)
  note attempt = raises_catch [OF this]
  show ?thesis
    unfolding insert_job_def Let_def
    by (intro raises_bind attempt)
       (use assms in \<open>auto intro!: ids clock reads replay_job_handled to_job_dto_handled split: option.split\<close>)
qed

lemma create_job_handled:
  "key \<noteq> Some [] \<Longrightarrow> raises_only handled (create_job ps req owner request_id key)"
  by (auto simp: create_job_def intro!: owned_upload_handled reads replay_job_handled insert_job_handled
      split: option.split)

text \<open>The uploads let a missing object through.\<close>

lemma create_upload_raises:
  "raises_only (\<lambda>e. handled e \<or> e = FileNotFoundError) (create_upload ps limit req owner)"
  unfolding create_upload_def Let_def
  by (auto intro!: raises_weaken [OF ids] raises_weaken [OF clock] service_storage_raises create_target
      raises_weaken [OF reads(2)])

lemma verify_upload_raises:
  assumes "upload_state u = UPLOADING"
  shows "raises_only (\<lambda>e. handled e \<or> e = FileNotFoundError) (verify_upload ps u parts)"
proof -
  have reject: "raises_only (\<lambda>e. handled e \<or> e = FileNotFoundError) (reject_upload ps v)" for v
    by (auto simp: reject_upload_def hash_mismatch_def intro!: raises_weaken [OF reads(3)])
  note read = raises_catch [OF service_storage_raises [OF get_object]]
  show ?thesis
    unfolding verify_upload_def
    using assms
    by (auto simp: object_missing_def upload_complete_def
        intro!: service_storage_raises complete_object stat_object reject read raises_weaken [OF validator]
          raises_weaken [OF clock] raises_weaken [OF reads(3)] split: option.split)
qed

lemma complete_upload_raises:
  "raises_only (\<lambda>e. handled e \<or> e = FileNotFoundError) (complete_upload ps uid owner sha mid parts)"
  unfolding complete_upload_def
  by (auto intro!: raises_weaken [OF owned_upload_handled] verify_upload_raises)

end

end
