(* ===== verification/Api_Laws.thy ===== *)
theory Api_Laws
  imports Api_Errors
begin

text \<open>
  Answers of the HTTP interface: every request gets a well-formed envelope under its request
  identifier, controlled errors have status 200, and a job of another owner is not revealed.
\<close>

section \<open>Well-formed answers\<close>

definition returns_only :: "('a \<Rightarrow> bool) \<Rightarrow> ('w, 'e, 'a) prog \<Rightarrow> bool" where
  "returns_only Q m \<longleftrightarrow> (\<forall>w x w'. m w = (Done x, w') \<longrightarrow> Q x)"

lemma returns_onlyI: "(\<And>w x w'. m w = (Done x, w') \<Longrightarrow> Q x) \<Longrightarrow> returns_only Q m"
  by (auto simp: returns_only_def)

lemma returns_onlyD: "returns_only Q m \<Longrightarrow> m w = (Done x, w') \<Longrightarrow> Q x"
  by (auto simp: returns_only_def)

lemma returns_bind: "returns_only P m \<Longrightarrow> (\<And>x. P x \<Longrightarrow> returns_only Q (k x)) \<Longrightarrow> returns_only Q (bind_prog m k)"
  by (rule returns_onlyI) (auto elim!: bind_prog_cases dest: returns_onlyD)

lemma returns_any: "returns_only (\<lambda>_. True) m"
  by (simp add: returns_only_def)

lemmas returns_seq = returns_bind [OF returns_any]

lemma returns_catch:
  "returns_only Q m \<Longrightarrow> (\<And>e. returns_only Q (h e)) \<Longrightarrow> returns_only Q (catch_prog m h)"
  by (rule returns_onlyI)
     (fastforce simp: catch_prog_def returns_only_def split: prod.splits outcome.splits)

lemma returns_ret: "Q x \<Longrightarrow> returns_only Q (ret x)"
  by (simp add: returns_only_def)

lemma returns_raise: "returns_only Q (raise_exc e)"
  by (simp add: returns_only_def)

lemma returns_lift: "(\<And>x. r = Inr x \<Longrightarrow> Q x) \<Longrightarrow> returns_only Q (lift_sum r)"
  by (cases r) (auto simp: returns_only_def)

definition proper_envelope :: "string \<Rightarrow> api_envelope \<Rightarrow> bool" where
  "proper_envelope rid v \<longleftrightarrow>
     env_request_id v = rid \<and> rid \<noteq> [] \<and> env_message v \<noteq> [] \<and> envelope_semantics v"

fun proper_result :: "string \<Rightarrow> api_result \<Rightarrow> bool" where
  "proper_result rid (Reply v) = proper_envelope rid v"
| "proper_result rid (EventStream jid seq owner) = (0 \<le> seq)"

lemma made_envelope: "make_envelope now c m d rid reason = Some v \<Longrightarrow> proper_envelope rid v \<and> env_internal_code v = c"
  by (auto simp: make_envelope_def Let_def proper_envelope_def split: if_splits)

lemma success_proper: "returns_only (proper_envelope rid) (success ps rid data)"
  unfolding success_def of_option_def envelope_success_def
  by (rule returns_seq) (auto intro!: returns_ret returns_raise dest: made_envelope split: option.split)

lemma failure_proper: "returns_only (proper_envelope rid) (failure ps rid code message reason data)"
  unfolding failure_def of_option_def envelope_failure_def
  by (rule returns_seq) (auto intro!: returns_ret returns_raise dest: made_envelope split: option.split)

lemma reply_proper: "returns_only (proper_result rid) (reply env rid encode m)"
  unfolding reply_def by (intro returns_seq returns_bind [OF success_proper] returns_ret) simp

lemma last_event_nonneg: "last_event_sequence header = Inr n \<Longrightarrow> 0 \<le> n"
  by (auto simp: last_event_sequence_def split: option.splits if_splits)

lemma route_stream_proper: "returns_only (proper_result rid) (route_stream env owner jid header)"
  unfolding route_stream_def
  by (rule returns_seq, rule returns_bind [OF returns_lift [OF last_event_nonneg]], assumption)
     (auto intro: returns_ret)

lemma route_proper: "returns_only (proper_result rid) (route env rid owner call)"
  by (cases call)
     (auto simp: route_def Let_def intro!: reply_proper returns_raise route_stream_proper)

lemma dispatch_proper: "returns_only (proper_result rid) (dispatch env rid authorization call)"
proof -
  have "returns_only (proper_envelope rid) (readiness_reply env rid)"
    unfolding readiness_reply_def Let_def
    by (rule returns_seq) (auto intro: success_proper failure_proper)
  then have "returns_only (proper_result rid) (bind_prog (readiness_reply env rid) (\<lambda>e. ret (Reply e)))"
    by (rule returns_bind) (auto intro: returns_ret)
  then show ?thesis
    by (cases call) (auto simp: dispatch_def intro!: reply_proper route_proper returns_seq returns_raise)
qed

lemma handle_error_proper: "returns_only (proper_envelope rid) (handle_error env rid e)"
  by (cases e) (auto simp: handle_error_def intro!: failure_proper returns_raise)

section \<open>Every request\<close>

definition working :: "('w, 'a) op \<Rightarrow> bool" where
  "working m \<longleftrightarrow> (\<forall>w. \<exists>x w'. m w = (Done x, w'))"

lemma workingE:
  assumes "working m"
  obtains x w' where "m w = (Done x, w')"
  using assms unfolding working_def by blast

lemma failure_Done:
  assumes "working (p_utc_now ps)" and "message \<noteq> []" and "reason \<noteq> []" and "code \<noteq> SUCCESS" and "rid \<noteq> []"
  shows "\<exists>v w'. failure ps rid code message reason data w = (Done v, w') \<and> env_internal_code v = code \<and>
    env_error_reason v = Some reason"
proof -
  from assms(1) obtain t w' where "p_utc_now ps w = (Done t, w')" by (rule workingE)
  with assms(2-) show ?thesis
    by (simp add: failure_def of_option_def bind_prog_def envelope_failure_def make_envelope_def envelope_semantics_def)
qed

lemma unexpected_Done:
  assumes "working (p_utc_now (api_ports env))" and "rid \<noteq> []"
  shows "\<exists>v w'. unexpected_error env rid w = (Done v, w') \<and> env_internal_code v = TRANSPORT_INTERNAL_ERROR"
  unfolding unexpected_error_def
  using failure_Done [OF assms(1) _ _ _ assms(2)]
  by (fastforce simp: no_proper_response_def utf8_bytes_def)

definition proper_answer :: "string \<Rightarrow> http_answer \<Rightarrow> bool" where
  "proper_answer rid a \<longleftrightarrow>
     ans_status a = 200 \<and> ans_request_id a = Some rid \<and> proper_result rid (ans_result a) \<or>
     ans_status a = 500 \<and>
       (\<exists>v. ans_result a = Reply v \<and> proper_envelope rid v \<and> env_internal_code v = TRANSPORT_INTERNAL_ERROR)"

definition given_identifier :: "string option \<Rightarrow> string \<Rightarrow> bool" where
  "given_identifier header rid \<longleftrightarrow> rid \<noteq> [] \<and> (\<forall>h. header = Some h \<longrightarrow> h = [] \<or> rid = take 128 h)"

lemma identifier_given: "returns_only (given_identifier header) (request_identifier ps header)"
  by (auto simp: request_identifier_def given_identifier_def uuid_str_nonempty
      intro!: returns_seq returns_ret split: option.split)

text \<open>
  C27. Every request gets an answer, whatever the adapters raise. With a working clock and identifier
  supply, a request that ends was answered: with status 200, its identifier in the header and either
  an event stream or a valid envelope, or with status 500 and the envelope of an internal error. The
  identifier is the one the client sent, cut to 128 characters. Only the cancellation of the task,
  which is no \<open>Exception\<close>, leaves a request without an answer.
\<close>

theorem every_request_answered:
  assumes clock: "working (p_utc_now (api_ports env))" and ids: "working (p_uuid7 (api_ports env))"
    and run: "answer env header authorization call w = (r, w')" and ends: "r \<noteq> Diverged"
  shows "(\<exists>a rid. r = Done a \<and> given_identifier header rid \<and> proper_answer rid a) \<or>
    (\<exists>e. r = Raised e \<and> \<not> is_exception e)"
proof -
  let ?ps = "api_ports env"
  obtain u w0 where "p_uuid7 ?ps w = (Done u, w0)" using ids by (rule workingE)
  then have "\<exists>rid w1. request_identifier ?ps header w = (Done rid, w1)"
    by (auto simp: request_identifier_def bind_prog_def split: option.split)
  then obtain rid w1 where id: "request_identifier ?ps header w = (Done rid, w1)" by blast
  then have given: "given_identifier header rid" by (rule returns_onlyD [OF identifier_given])
  let ?body = "handled_result env rid authorization call"
  have body: "returns_only (proper_result rid) ?body"
    unfolding handled_result_def
    by (intro returns_catch dispatch_proper returns_bind [OF handle_error_proper] returns_ret) simp
  obtain r1 w2 where r1: "?body w1 = (r1, w2)" by (cases "?body w1")
  have run: "(case r1 of
        Done x \<Rightarrow> (Done \<lparr>ans_status = 200, ans_result = x, ans_request_id = Some rid\<rparr>, w2)
      | Raised e \<Rightarrow> if is_exception e
          then bind_prog (unexpected_error env rid) (\<lambda>v. ret \<lparr>ans_status = 500, ans_result = Reply v,
                  ans_request_id = None\<rparr>) w2
          else (Raised e, w2)
      | Diverged \<Rightarrow> (Diverged, w2)) = (r, w')"
    using run by (cases r1) (simp_all add: answer_def bind_prog_def id catch_prog_def r1 split: if_splits)
  show ?thesis
  proof (cases r1)
    case (Done x)
    with run returns_onlyD [OF body] r1 given show ?thesis by (auto simp: proper_answer_def)
  next
    case (Raised e)
    have "rid \<noteq> []" using given by (simp add: given_identifier_def)
    then obtain v w3 where un: "unexpected_error env rid w2 = (Done v, w3)"
        "env_internal_code v = TRANSPORT_INTERNAL_ERROR"
      using unexpected_Done [OF clock] by blast
    moreover have "proper_envelope rid v"
      by (rule returns_onlyD [OF failure_proper un(1) [unfolded unexpected_error_def]])
    ultimately show ?thesis
      using run Raised given by (auto simp: bind_prog_def proper_answer_def split: if_splits)
  qed (use run ends in simp)
qed

section \<open>Ownership\<close>

lemma foreign_job_unauthorized:
  assumes "p_jobs_get (api_ports env) jid w = (Done (Some j), w')" and "job_owner_id j \<noteq> owner"
    and "call \<in> {GetJob jid, CancelJob jid, RetryJob jid, ListArtifacts jid, StreamEvents jid h}"
  shows "route env rid owner call w = (Raised unauthorized, w')"
proof -
  have "owned_job (api_ports env) jid owner w = (Raised unauthorized, w')"
    using assms(1,2) by (simp add: owned_job_def service_database_def bind_prog_def catch_prog_def)
  with assms(3) show ?thesis
    by (auto simp: route_def Let_def reply_def get_job_def cancel_job_def retry_job_def list_artifacts_def
        route_stream_def numeral_3_eq_3 bind_prog_def)
qed

text \<open>
  C28. A request on a job of another owner, by any of the five routes that name a job, gets the envelope
  \<open>USER_UNAUTHORIZED\<close> with status 200. The answer does not depend on the job, and nothing is written:
  the world has only seen the authentication, one read of the job and one of the clock.
\<close>

theorem foreign_jobs_hidden:
  assumes id: "request_identifier (api_ports env) header w = (Done rid, w1)"
    and auth: "authenticated_owner env authorization w1 = (Done owner, w2)"
    and job: "p_jobs_get (api_ports env) jid w2 = (Done (Some j), w3)" and owner: "job_owner_id j \<noteq> owner"
    and call: "call \<in> {GetJob jid, CancelJob jid, RetryJob jid, ListArtifacts jid, StreamEvents jid h}"
    and clock: "p_utc_now (api_ports env) w3 = (Done t, w4)" and words: "api_text env unauthorized \<noteq> []"
  shows "answer env header authorization call w =
    (Done \<lparr>ans_status = 200,
       ans_result = Reply \<lparr>env_internal_code = USER_UNAUTHORIZED, env_message = api_text env unauthorized,
         env_data = None, env_timestamp = t, env_request_id = rid, env_error_reason = Some ''user_unauthorized''\<rparr>,
       ans_request_id = Some rid\<rparr>, w4)"
proof -
  have rid: "rid \<noteq> []" using returns_onlyD [OF identifier_given id] by (simp add: given_identifier_def)
  have "dispatch env rid authorization call w1 = (Raised unauthorized, w3)"
    using call foreign_job_unauthorized [OF job owner call, of rid] auth
    by (auto simp: dispatch_def bind_prog_def)
  moreover have "handle_error env rid unauthorized w3 = (Done \<lparr>env_internal_code = USER_UNAUTHORIZED,
      env_message = api_text env unauthorized, env_data = None, env_timestamp = t, env_request_id = rid,
      env_error_reason = Some ''user_unauthorized''\<rparr>, w4)"
    using clock words rid unfolding unauthorized_def
    by (simp add: handle_error_def failure_def bind_prog_def of_option_def envelope_failure_def make_envelope_def
        envelope_semantics_def)
  ultimately have "handled_result env rid authorization call w1 = (Done (Reply \<lparr>env_internal_code = USER_UNAUTHORIZED,
      env_message = api_text env unauthorized, env_data = None, env_timestamp = t, env_request_id = rid,
      env_error_reason = Some ''user_unauthorized''\<rparr>), w4)"
    by (simp add: handled_result_def catch_prog_def bind_prog_def)
  with id show ?thesis by (simp add: answer_def bind_prog_def catch_prog_def)
qed

section \<open>Controlled errors\<close>

fun uploads :: "api_call \<Rightarrow> bool" where
  "uploads (CreateUpload _ _ _ _) = True"
| "uploads (CompleteUpload _ _) = True"
| "uploads _ = False"

lemma handled_validation: "handled (validation_error details)"
  by (simp add: validation_error_def)

context api_adapters
begin

lemma success_handled: "rid \<noteq> [] \<Longrightarrow> raises_only handled (success ps rid data)"
  by (auto simp: success_def envelope_success_def make_envelope_def envelope_semantics_def operation_succeeded_def
      utf8_bytes_def intro!: clock)

lemma reply_raises:
  assumes "api_ports env = ps" and "rid \<noteq> []" and "raises_only E m" and "\<And>e. handled e \<Longrightarrow> E e"
  shows "raises_only E (reply env rid encode m)"
  unfolding reply_def assms(1)
  by (intro raises_bind assms(3) raises_weaken [OF success_handled [OF assms(2)]] raises_ret) (rule assms(4))

lemma route_complete_raises:
  assumes "api_ports env = ps"
  shows "raises_only (\<lambda>e. handled e \<or> e = FileNotFoundError) (route_complete_upload env owner uid body)"
  by (auto simp: route_complete_upload_def assms handled_validation intro!: complete_upload_raises
      split: option.split)

lemma route_create_job_handled:
  assumes "api_ports env = ps"
  shows "raises_only handled (route_create_job env rid owner uid options key)"
  by (auto simp: route_create_job_def assms handled_validation intro!: create_job_handled)

lemma route_stream_handled:
  assumes "api_ports env = ps"
  shows "raises_only handled (route_stream env owner jid header)"
  unfolding route_stream_def assms
  by (intro raises_bind owned_job_handled raises_lift raises_ret)
     (auto simp: last_event_sequence_def invalid_last_event_id_def split: option.splits if_splits)

lemma route_raises:
  assumes "api_ports env = ps" and "rid \<noteq> []"
  shows "raises_only (\<lambda>e. handled e \<or> uploads call \<and> e = FileNotFoundError) (route env rid owner call)"
proof -
  note reply = reply_raises [OF assms]
  show ?thesis
    by (cases call)
       (auto simp: route_def Let_def assms(1) handled_validation simp del: handled.simps
         intro!: reply raises_weaken [OF create_upload_raises] route_complete_raises [OF assms(1)]
           route_create_job_handled [OF assms(1)] list_jobs_handled get_job_handled cancel_job_handled
           retry_job_handled list_artifacts_handled route_stream_handled [OF assms(1)])
qed

lemma readiness_handled:
  assumes "api_ports env = ps" and "rid \<noteq> []" and "raises_only handled (api_readiness env)"
  shows "raises_only handled (readiness_reply env rid)"
proof -
  have "raises_only handled (failure ps rid code service_not_ready reason data)" if "code \<noteq> SUCCESS" "reason \<noteq> []"
    for code reason data
    using that assms(2)
    by (auto simp: failure_def envelope_failure_def make_envelope_def envelope_semantics_def service_not_ready_def
        utf8_bytes_def intro!: clock)
  moreover have "(case c of Some c \<Rightarrow> if code_value c \<noteq> 0 then c else INTERNAL_CONTROLLED_ERROR
      | None \<Rightarrow> INTERNAL_CONTROLLED_ERROR) \<noteq> SUCCESS" for c
    by (auto split: option.split)
  moreover have "(case r of Some r \<Rightarrow> if r \<noteq> [] then r else ''readiness_dependency_unavailable''
      | None \<Rightarrow> ''readiness_dependency_unavailable'') \<noteq> []" for r
    by (auto split: option.split)
  ultimately show ?thesis
    using assms(3) success_handled [OF assms(2)] unfolding readiness_reply_def Let_def assms(1)
    by (intro raises_bind raises_if) auto
qed

lemma dispatch_handled:
  assumes "api_ports env = ps" and "rid \<noteq> []" and "\<And>t. raises_only handled (api_authenticate env t)"
    and "raises_only handled (api_readiness env)" and "\<not> uploads call"
  shows "raises_only handled (dispatch env rid authorization call)"
proof -
  have owner: "raises_only handled (authenticated_owner env authorization)"
    by (auto simp: authenticated_owner_def user_error_def intro!: assms(3) split: prod.split)
  have route: "raises_only handled (route env rid owner c)" if "\<not> uploads c" for owner c
    by (rule raises_weaken [OF route_raises [OF assms(1,2)]]) (use that in auto)
  show ?thesis
    using assms(5)
    by (cases call)
       (auto simp: dispatch_def intro!: reply_raises [OF assms(1,2)] readiness_handled [OF assms(1,2,4)] owner route)
qed

end

lemma public_message_nonempty: "dep_public_message e \<noteq> []"
  by (cases e) (auto simp: utf8_bytes_def)

lemma handle_error_Done:
  assumes clock: "working (p_utc_now (api_ports env))" and rid: "rid \<noteq> []" and words: "\<And>e. api_text env e \<noteq> []"
    and "handled e" and "is_exception e"
  shows "\<exists>v w'. handle_error env rid e w = (Done v, w')"
proof -
  note made = failure_Done [OF clock _ _ _ rid]
  from assms(4,5) consider (business) code reason data where "e = BusinessError code reason data" "code \<noteq> SUCCESS"
      "reason \<noteq> []" | (response) v where "e = ResponseError ''RequestValidationError'' v \<or> e = ResponseError ''HTTPException'' v"
    | (dependency) "is_dependency_error e"
    by (cases e) auto
  then show ?thesis
  proof cases
    case business
    with made [OF words, of reason code e data w] show ?thesis by (auto simp: handle_error_def)
  next
    case response
    with made [of arguments_invalid _ COMMON_INVALID_ARGUMENT _ w] made [of route_missing _ COMMON_RESOURCE_NOT_FOUND _ w]
    show ?thesis
      by (fastforce simp: handle_error_def arguments_invalid_def route_missing_def utf8_bytes_def)
  next
    case dependency
    then have "handle_error env rid e =
        failure (api_ports env) rid (dep_internal_code e) (dep_public_message e) (dep_error_reason e) None"
      by (cases e) (simp_all add: handle_error_def)
    with made [OF public_message_nonempty dep_reason_nonempty dep_code_not_success] show ?thesis by metis
  qed
qed

context api_adapters
begin

lemma answer_controlled:
  assumes env: "api_ports env = ps" and clocks: "working (p_utc_now ps)"
    and "\<And>t. raises_only handled (api_authenticate env t)" and "raises_only handled (api_readiness env)"
    and words: "\<And>e. api_text env e \<noteq> []" and "\<not> uploads call"
    and run: "answer env header authorization call w = (Done a, w')"
  shows "ans_status a = 200"
proof -
  from run obtain rid w1 where id: "request_identifier (api_ports env) header w = (Done rid, w1)"
      and rest: "catch_prog (bind_prog (handled_result env rid authorization call) (\<lambda>result.
        ret \<lparr>ans_status = 200, ans_result = result, ans_request_id = Some rid\<rparr>))
       (\<lambda>e. if is_exception e
            then bind_prog (unexpected_error env rid) (\<lambda>v.
                 ret \<lparr>ans_status = 500, ans_result = Reply v, ans_request_id = None\<rparr>)
            else raise_exc e) w1 = (Done a, w')"
    unfolding answer_def by (auto elim: bind_prog_cases)
  have rid: "rid \<noteq> []" using returns_onlyD [OF identifier_given id] by (simp add: given_identifier_def)
  have "raises_only (\<lambda>e. \<not> is_exception e) (bind_prog (handle_error env rid e) (\<lambda>v. ret (Reply v)))" if "handled e" for e
  proof (cases "is_exception e")
    case True
    have "\<exists>v w'. handle_error env rid e w = (Done v, w')" for w
      using clocks rid words that True unfolding env [symmetric] by (intro handle_error_Done)
    then have "raises_only (\<lambda>e. \<not> is_exception e) (handle_error env rid e)"
      by (intro raises_onlyI) (metis Pair_inject outcome.distinct(1))
    then show ?thesis by auto
  next
    case False
    then show ?thesis by (cases e) (auto simp: handle_error_def)
  qed
  then have "raises_only (\<lambda>e. \<not> is_exception e) (handled_result env rid authorization call)"
    unfolding handled_result_def by (rule raises_catch [OF dispatch_handled [OF env rid assms(3,4,6)]])
  with rest show ?thesis
    by (auto simp: catch_prog_def bind_prog_def raises_only_def split: prod.splits outcome.splits if_splits)
qed

end

end
