(* ===== verification/Container.thy ===== *)
theory Container
  imports Api Messaging Retention Storage Engine Logging Api_Keys Preprocessing
begin

text \<open>
  The composition of the program: \<^verbatim>\<open>container.py\<close> and the service factory of \<^verbatim>\<open>retention_main.py\<close>. The
  settings select the adapters; \<open>with_runtime\<close> opens the connections in the order of the code, runs the
  program it is given on the container and closes what was opened in reverse order, as the exit stack
  does. \<open>run_outbox\<close> is the background task that dispatches the outbox under an advisory lock.

  The libraries and the operating system are the fields of \<open>backing\<close>: the connections and their
  factories, the HTTP and S3 clients, the producer, the file system and the processes, the hash
  functions, the clocks. The world contains the tables of \<^theory_text>\<open>Tables\<close>.
\<close>

section \<open>Adapters\<close>

record 'w object_storage =
  os_create_upload_target :: "string \<Rightarrow> string \<Rightarrow> int \<Rightarrow> string \<Rightarrow> ('w, upload_target) op"
  os_complete_upload :: "string \<Rightarrow> string option \<Rightarrow> (int \<times> string) list \<Rightarrow> ('w, unit) op"
  os_stat :: "string \<Rightarrow> ('w, object_info option) op"
  os_get_bytes :: "string \<Rightarrow> ('w, bytes) op"
  os_put_bytes :: "string \<Rightarrow> bytes \<Rightarrow> string \<Rightarrow> ('w, stored_object) op"
  os_delete_object :: "string \<Rightarrow> ('w, unit) op"
  os_abort_multipart_upload :: "string \<Rightarrow> string \<Rightarrow> ('w, unit) op"
  os_create_download_url :: "string \<Rightarrow> ('w, string) op"

record 'w backing =
  bk_create_pool :: "string \<Rightarrow> int \<Rightarrow> ('w, unit) op"
  bk_close_pool :: "('w, unit) op"
  bk_open_http :: "('w, unit) op"
  bk_close_http :: "('w, unit) op"
  bk_http :: "'w http_client"
  bk_open_s3 :: "settings \<Rightarrow> ('w, 'w s3_client) op"
  bk_close_s3 :: "('w, unit) op"
  bk_start_producer :: "string \<Rightarrow> string \<Rightarrow> ('w, unit) op"
  bk_stop_producer :: "('w, unit) op"
  bk_send :: "string \<Rightarrow> bytes \<Rightarrow> bytes \<Rightarrow> ('w, unit) op"
  bk_partitions :: "string \<Rightarrow> ('w, int list option) op"
  bk_fetchval :: "string \<Rightarrow> ('w, json) op"
  bk_start_task :: "(nat \<Rightarrow> ('w, unit) op) \<Rightarrow> ('w, unit) op"
  bk_request_cancel :: "('w, unit) op"
  bk_await_task :: "('w, unit) op"
  bk_acquire :: "('w, unit) op"
  bk_release :: "('w, unit) op"
  bk_try_lock :: "string \<Rightarrow> ('w, bool) op"
  bk_unlock :: "string \<Rightarrow> ('w, unit) op"
  bk_files :: "'w files"
  bk_read_text :: "string \<Rightarrow> ('w, string) op"
  bk_make_temp :: "('w, path) op"
  bk_path_variable :: "('w, string) op"
  bk_spawn :: "string list \<Rightarrow> path \<Rightarrow> (string \<times> string) list \<Rightarrow> ('w, unit) op"
  bk_communicate :: "time \<Rightarrow> ('w, int \<times> bytes) op"
  bk_kill :: "('w, unit) op"
  bk_uuid4 :: "('w, uuid) op"
  bk_monotonic :: "('w, time) op"
  bk_wall :: "('w, time) op"
  bk_sleep :: "time \<Rightarrow> ('w, unit) op"
  bk_log :: "string \<Rightarrow> bool \<Rightarrow> json \<Rightarrow> ('w, unit) op"
  bk_validate :: "json \<Rightarrow> exn + api_envelope"
  bk_sha256 :: "bytes \<Rightarrow> string"
  bk_pbkdf2 :: "bytes \<Rightarrow> bytes \<Rightarrow> bytes"
  bk_jsonb :: "string \<Rightarrow> string option"
  bk_poll_fuel :: nat

definition s3_adapter :: "(bytes \<Rightarrow> string) \<Rightarrow> 'w s3_storage \<Rightarrow> 'w object_storage" where
  "s3_adapter sha st =
     \<lparr>os_create_upload_target = s3_create_upload_target st, os_complete_upload = s3_complete_upload st,
      os_stat = s3_stat st, os_get_bytes = s3_get_bytes st, os_put_bytes = s3_put_bytes sha st,
      os_delete_object = s3_remove_object st, os_abort_multipart_upload = s3_abort_upload st,
      os_create_download_url = s3_create_download_url st\<rparr>"

definition service_adapter :: "(bytes \<Rightarrow> string) \<Rightarrow> 'w storage_service \<Rightarrow> 'w object_storage" where
  "service_adapter sha st =
     \<lparr>os_create_upload_target = ss_create_upload_target st, os_complete_upload = ss_complete_upload st,
      os_stat = ss_stat st, os_get_bytes = ss_get_bytes st, os_put_bytes = ss_put_bytes sha st,
      os_delete_object = ss_delete_object st, os_abort_multipart_upload = ss_abort_upload st,
      os_create_download_url = ss_create_download_url st\<rparr>"

text \<open>
  The storage of the settings, given the part size and the message of the refusal. The S3 client
  is a context of its own, closed after the program \<open>k\<close> that uses the storage.
\<close>

definition with_storage ::
    "'w backing \<Rightarrow> settings \<Rightarrow> int \<Rightarrow> string \<Rightarrow> ('w object_storage \<Rightarrow> ('w, 'a) op) \<Rightarrow> ('w, 'a) op" where
  "with_storage bk s part_size refusal k =
     (if storage_adapter s = ''storage-service'' then
        if \<not> given (storage_service_url s) \<or> \<not> given (storage_service_token s)
        then raise_exc (RuntimeError ''storage-service URL and token are required'')
        else k (service_adapter (bk_sha256 bk)
               (make_service_storage (the (storage_service_url s)) (the (storage_service_token s)) (s3_bucket s)
                  (bk_http bk) (s3_presign_ttl_seconds s) part_size))
      else if storage_adapter s = ''s3'' then
        bind_prog (bk_open_s3 bk s) (\<lambda>client.
        finally_prog
          (k (s3_adapter (bk_sha256 bk)
             \<lparr>s3_client = client, s3_store_bucket = s3_bucket s, s3_presign_ttl = s3_presign_ttl_seconds s,
              s3_multipart_threshold = multipart_threshold, s3_part_size = part_size\<rparr>))
          (bk_close_s3 bk))
      else raise_exc (RuntimeError refusal))"

text \<open>The polling interval of the exchange directory is the default of the constructor, a tenth of a second.\<close>

definition runtime_preprocessor ::
    "'w backing \<Rightarrow> settings \<Rightarrow> 'w object_storage \<Rightarrow> exn + (upload \<Rightarrow> job \<Rightarrow> ('w, prepared_page list) op)" where
  "runtime_preprocessor bk s st =
     (if preprocessor_adapter s = ''sandbox'' then
        if given (sandbox_exchange_dir s) then
          Inr (directory_prepare
            \<lparr>ds_get_bytes = os_get_bytes st, ds_put_bytes = os_put_bytes st, ds_files = bk_files bk,
             ds_uuid4 = bk_uuid4 bk, ds_clock = bk_monotonic bk, ds_sleep = bk_sleep bk,
             ds_exchange_dir = path_join [] (the (sandbox_exchange_dir s)), ds_timeout = sandbox_timeout s,
             ds_poll_interval = 100000, ds_max_pages = sandbox_max_pages s,
             ds_max_pixels = sandbox_max_pixels s, ds_dpi = sandbox_pdf_dpi s\<rparr> (bk_poll_fuel bk))
        else if given (sandbox_command s) then
          bind_sum (make_command (the (sandbox_command s))) (\<lambda>command.
          Inr (subprocess_prepare
            \<lparr>sp_get_bytes = os_get_bytes st, sp_put_bytes = os_put_bytes st, sp_files = bk_files bk,
             sp_make_temp = bk_make_temp bk, sp_path_variable = bk_path_variable bk, sp_spawn = bk_spawn bk,
             sp_communicate = bk_communicate bk, sp_kill = bk_kill bk, sp_command = command,
             sp_timeout = sandbox_timeout s, sp_max_pages = sandbox_max_pages s\<rparr>))
        else if given (sandbox_base_url s) then
          Inr (sandbox_prepare \<lparr>sb_base_url = the (sandbox_base_url s), sb_client = bk_http bk\<rparr>)
        else Inl (RuntimeError ''sandbox preprocessor configuration is required'')
      else Inr (\<lambda>u j. ret [\<lparr>prepared_page_number = 1, prepared_object_key = upload_object_key u\<rparr>]))"

text \<open>The fake engine of the defaults never fails; its picture is \<open>fake-visualization\<close>.\<close>

definition runtime_engine ::
    "'w backing \<Rightarrow> settings \<Rightarrow> exn + (bytes \<Rightarrow> int \<Rightarrow> json \<Rightarrow> string \<Rightarrow> ('w, ocr_result) op)" where
  "runtime_engine bk s =
     (if engine_adapter s = ''paddleocr-vl'' then
        if \<not> given (paddleocr_vl_base_url s) then Inl (RuntimeError ''OCR_ENGINE_URL is required'')
        else Inr (paddle_recognize (make_paddle (the (paddleocr_vl_base_url s)) (bk_http bk)
               (paddleocr_vl_endpoint_path s) (paddleocr_vl_model_name s) (paddleocr_vl_engine_version s)))
      else Inr (\<lambda>img number options request_id.
             ret (fake_result (bk_sha256 bk) (Some ''fake-visualization'') img number request_id)))"

text \<open>The two methods of a structured logger.\<close>

definition runtime_logger ::
    "'z db_scheme backing \<Rightarrow> settings \<Rightarrow> string \<Rightarrow> string \<Rightarrow>
     (string \<Rightarrow> (string \<times> json) list \<Rightarrow> ('z, unit) sql) \<times> (string \<Rightarrow> (string \<times> json) list \<Rightarrow> ('z, unit) sql)" where
  "runtime_logger bk s service_name fallback_name =
     (if given (logging_service_url s) \<and> given (logging_service_token s) then
        (let env = \<lparr>lg_base_url = the (logging_service_url s), lg_client = bk_http bk,
                    lg_service_token = the (logging_service_token s), lg_service_name = service_name,
                    lg_uuid7 = fresh_uuid, lg_now = clock_now, lg_validate = bk_validate bk,
                    lg_fallback = bk_log bk service_name\<rparr>
         in (log_info env, log_error env))
      else (stdlib_write (bk_log bk fallback_name) False, stdlib_write (bk_log bk fallback_name) True))"

definition runtime_pg :: "'w backing \<Rightarrow> settings \<Rightarrow> pg" where
  "runtime_pg bk s =
     \<lparr>pg_topic = kafka_jobs_topic s, pg_retention_days = job_retention_days s,
      pg_upload_ttl = upload_session_ttl_seconds s, pg_jsonb = bk_jsonb bk\<rparr>"

definition runtime_ports ::
    "'z db_scheme backing \<Rightarrow> settings \<Rightarrow> 'z db_scheme object_storage \<Rightarrow>
     (upload \<Rightarrow> job \<Rightarrow> ('z, prepared_page list) sql) \<Rightarrow>
     (bytes \<Rightarrow> int \<Rightarrow> json \<Rightarrow> string \<Rightarrow> ('z, ocr_result) sql) \<Rightarrow> 'z db_scheme ports" where
  "runtime_ports bk s st preprocessor engine =
     (let cfg = runtime_pg bk s;
          (info, error) = runtime_logger bk s (logging_service_name s) ''monkeyocr-backend''
      in \<lparr>p_utc_now = clock_now, p_uuid7 = fresh_uuid, p_sha256 = bk_sha256 bk,
          p_uploads_add = sql_uploads_add cfg, p_uploads_get = sql_uploads_get,
          p_uploads_save = sql_uploads_save, p_jobs_get = sql_jobs_get,
          p_jobs_save_with_event = sql_jobs_save_with_event cfg,
          p_jobs_find_by_idempotency_key = sql_jobs_find, p_jobs_list = sql_jobs_list,
          p_jobs_add_with_outbox_and_event = sql_jobs_add_with_outbox_and_event cfg,
          p_jobs_save_with_outbox_and_event = sql_jobs_save_with_outbox_and_event cfg,
          p_events_append = sql_events_append cfg, p_events_list_after = sql_events_list_after,
          p_outbox_pending = sql_outbox_pending, p_outbox_mark_published = sql_outbox_mark_published,
          p_storage_create_upload_target = os_create_upload_target st, p_storage_stat = os_stat st,
          p_storage_complete_upload = os_complete_upload st, p_storage_get_bytes = os_get_bytes st,
          p_storage_put_bytes = os_put_bytes st, p_storage_create_download_url = os_create_download_url st,
          p_validator_validate = magic_validate, p_preprocessor_prepare = preprocessor,
          p_engine_recognize = engine,
          p_publisher_publish = kafka_publish (bk_send bk) (kafka_jobs_topic s),
          p_logger_info = info, p_logger_error = error, p_sleeper = bk_sleep bk\<rparr>)"

section \<open>The outbox task\<close>

definition outbox_lock_name :: string where
  "outbox_lock_name = ''monkeyocr:outbox-dispatcher''"

definition failure_fields :: "exn \<Rightarrow> (string \<times> json) list" where
  "failure_fields e =
     (''error_type'', JStr (exn_name e)) #
     (if is_dependency_error e
      then [(''internal_code'', JInt (code_value (dep_internal_code e))),
            (''internal_status_name'', JStr (code_name (dep_internal_code e))),
            (''error_reason'', JStr (dep_error_reason e))]
      else [])"

record 'w outbox_task =
  ot_acquire :: "('w, unit) op"
  ot_release :: "('w, unit) op"
  ot_try_lock :: "string \<Rightarrow> ('w, bool) op"
  ot_unlock :: "string \<Rightarrow> ('w, unit) op"
  ot_dispatch :: "nat \<Rightarrow> ('w, nat) op"
  ot_sleep :: "time \<Rightarrow> ('w, unit) op"
  ot_error :: "string \<Rightarrow> (string \<times> json) list \<Rightarrow> ('w, unit) op"

definition dispatch_failed :: "'w outbox_task \<Rightarrow> exn \<Rightarrow> ('w, unit) op" where
  "dispatch_failed t e =
     (if is_exception e
      then bind_prog (ot_error t ''outbox_dispatch_failed'' (failure_fields e)) (\<lambda>_. ot_sleep t 1000000)
      else raise_exc e)"

definition dispatch_round :: "'w outbox_task \<Rightarrow> ('w, unit) op" where
  "dispatch_round t =
     catch_prog
       (bind_prog (ot_dispatch t 100) (\<lambda>count. ot_sleep t (if count \<noteq> 0 then 100000 else 500000)))
       (dispatch_failed t)"

fun dispatch_loop :: "'w outbox_task \<Rightarrow> nat \<Rightarrow> ('w, unit) op" where
  "dispatch_loop t 0 = diverge"
| "dispatch_loop t (Suc n) = bind_prog (dispatch_round t) (\<lambda>_. dispatch_loop t n)"

text \<open>
  One round: the \<open>finally\<close> clause releases the lock when it was taken, then the connection when there
  is one; the handlers run before it.
\<close>

definition unlock_quietly :: "'w outbox_task \<Rightarrow> ('w, unit) op" where
  "unlock_quietly t =
     catch_prog (ot_unlock t outbox_lock_name) (\<lambda>e. if is_exception e then ret () else raise_exc e)"

definition outbox_round :: "'w outbox_task \<Rightarrow> nat \<Rightarrow> ('w, unit) op" where
  "outbox_round t n =
     bind_prog (catch_prog (bind_prog (ot_acquire t) (\<lambda>_. ret None)) (\<lambda>e. ret (Some e))) (\<lambda>acquired.
     case acquired of
       Some e \<Rightarrow> dispatch_failed t e
     | None \<Rightarrow>
         bind_prog
           (catch_prog (bind_prog (ot_try_lock t outbox_lock_name) (\<lambda>b. ret (Inr b))) (\<lambda>e. ret (Inl e))) (\<lambda>lock.
         case lock of
           Inl e \<Rightarrow> finally_prog (dispatch_failed t e) (ot_release t)
         | Inr False \<Rightarrow> finally_prog (catch_prog (ot_sleep t 1000000) (dispatch_failed t)) (ot_release t)
         | Inr True \<Rightarrow>
             finally_prog (catch_prog (dispatch_loop t n) (dispatch_failed t))
               (bind_prog (unlock_quietly t) (\<lambda>_. ot_release t))))"

fun run_outbox :: "'w outbox_task \<Rightarrow> nat \<Rightarrow> nat \<Rightarrow> ('w, unit) op" where
  "run_outbox t k 0 = diverge"
| "run_outbox t k (Suc n) = bind_prog (outbox_round t k) (\<lambda>_. run_outbox t k n)"

section \<open>Readiness\<close>

definition readiness_checks ::
    "'w backing \<Rightarrow> settings \<Rightarrow> 'w object_storage \<Rightarrow> bool \<Rightarrow> 'w readiness_check list" where
  "readiness_checks bk s st with_producer =
     [\<lparr>chk_name = ''postgresql'', chk_code = DATABASE_UNAVAILABLE, chk_probe = postgres_probe (bk_fetchval bk)\<rparr>,
      \<lparr>chk_name = ''object_storage'', chk_code = STORAGE_UNAVAILABLE, chk_probe = storage_probe (os_stat st)\<rparr>] @
     (if with_producer
      then [\<lparr>chk_name = ''kafka'', chk_code = QUEUE_UNAVAILABLE,
             chk_probe = kafka_probe (bk_partitions bk) (kafka_jobs_topic s)\<rparr>]
      else []) @
     (if engine_adapter s = ''paddleocr-vl'' \<and> given (paddleocr_vl_base_url s)
      then [\<lparr>chk_name = ''paddleocr_vl'', chk_code = ENGINE_UNAVAILABLE,
             chk_probe = http_probe (bk_http bk) (rstrip_slash (the (paddleocr_vl_base_url s)) @ ''/health/ready'')\<rparr>]
      else []) @
     (if given (sandbox_exchange_dir s)
      then [\<lparr>chk_name = ''sandbox'', chk_code = INTERNAL_CONTROLLED_ERROR,
             chk_probe = heartbeat_probe (bk_read_text bk) (bk_wall bk) (the (sandbox_exchange_dir s)) 5000000\<rparr>]
      else [])"

section \<open>Containers\<close>

record 'w container =
  ct_settings :: settings
  ct_ports :: "'w ports"
  ct_authenticate :: "string \<Rightarrow> ('w, string) op"
  ct_readiness :: "'w readiness_check list"
  ct_wait_after :: "uuid \<Rightarrow> int \<Rightarrow> int \<Rightarrow> ('w, job_event list) op"

definition outbox_task_of :: "'w backing \<Rightarrow> 'w ports \<Rightarrow> 'w outbox_task" where
  "outbox_task_of bk ps =
     \<lparr>ot_acquire = bk_acquire bk, ot_release = bk_release bk, ot_try_lock = bk_try_lock bk,
      ot_unlock = bk_unlock bk, ot_dispatch = dispatch_once ps, ot_sleep = bk_sleep bk,
      ot_error = p_logger_error ps\<rparr>"

definition runtime_container ::
    "'z db_scheme backing \<Rightarrow> settings \<Rightarrow> 'z db_scheme object_storage \<Rightarrow> string \<Rightarrow> bool \<Rightarrow> 'z db_scheme ports \<Rightarrow>
     'z db_scheme container" where
  "runtime_container bk s st pepper with_producer ps =
     \<lparr>ct_settings = s, ct_ports = ps, ct_authenticate = authenticate (bk_pbkdf2 bk) pepper,
      ct_readiness = readiness_checks bk s st with_producer,
      ct_wait_after = sql_events_wait_after (bk_monotonic bk) (bk_sleep bk) (bk_poll_fuel bk)\<rparr>"

text \<open>Awaiting a cancelled task raises its cancellation, unless it ended before.\<close>

definition cancel_task :: "'w backing \<Rightarrow> ('w, unit) op" where
  "cancel_task bk =
     bind_prog (bk_request_cancel bk) (\<lambda>_.
     catch_prog (bk_await_task bk) (\<lambda>e. if e = CancelledError then ret () else raise_exc e))"

text \<open>The producer and the outbox task, when the container starts them.\<close>

definition with_outbox ::
    "'w backing \<Rightarrow> settings \<Rightarrow> 'w ports \<Rightarrow> bool \<Rightarrow> ('w, 'a) op \<Rightarrow> ('w, 'a) op" where
  "with_outbox bk s ps start m =
     (if \<not> start then m
      else if \<not> given (kafka_bootstrap_servers s) then raise_exc (RuntimeError ''KAFKA_BROKERS is required'')
      else
        bind_prog (bk_start_producer bk (the (kafka_bootstrap_servers s)) (kafka_client_id s @ ''-outbox'')) (\<lambda>_.
        finally_prog
          (bind_prog (bk_start_task bk (run_outbox (outbox_task_of bk ps) (bk_poll_fuel bk))) (\<lambda>_.
           finally_prog m (cancel_task bk)))
          (bk_stop_producer bk)))"

definition with_runtime ::
    "'z db_scheme backing \<Rightarrow> settings \<Rightarrow> bool \<Rightarrow> ('z db_scheme container \<Rightarrow> ('z, 'a) sql) \<Rightarrow> ('z, 'a) sql" where
  "with_runtime bk s start k =
     (if repository_adapter s \<noteq> ''postgres'' \<or> \<not> given (database_url s)
      then raise_exc (RuntimeError ''durable runtime requires DATABASE_URL'')
      else
        bind_prog (bk_create_pool bk (the (database_url s)) (database_pool_size s)) (\<lambda>_.
        finally_prog
          (bind_prog (bk_open_http bk) (\<lambda>_.
           finally_prog
             (with_storage bk s (multipart_part_size_bytes s) ''durable runtime cannot use memory storage'' (\<lambda>st.
              bind_prog (lift_sum (runtime_preprocessor bk s st)) (\<lambda>preprocessor.
              bind_prog (lift_sum (runtime_engine bk s)) (\<lambda>engine.
              if \<not> given (api_key_pepper s)
              then raise_exc (RuntimeError ''MONKEYOCR_API_KEY_PEPPER is required with PostgreSQL'')
              else
                (let ps = runtime_ports bk s st preprocessor engine
                 in with_outbox bk s ps start
                      (k (runtime_container bk s st (the (api_key_pepper s)) start ps)))))))
             (bk_close_http bk)))
          (bk_close_pool bk)))"

text \<open>
  The container of the tests and of development without a database. The wait for an event runs the
  other tasks until one notifies or the time is over: \<open>others\<close> says which.
\<close>

definition mem_events_wait_after :: "bool mop \<Rightarrow> uuid \<Rightarrow> int \<Rightarrow> int \<Rightarrow> job_event list mop" where
  "mem_events_wait_after others jid seq timeout =
     bind_prog (mem_events_list_after jid seq) (\<lambda>existing.
     if existing \<noteq> [] then ret existing
     else
       bind_prog others (\<lambda>notified.
       if notified then mem_events_list_after jid seq else ret []))"

definition memory_container :: "(bytes \<Rightarrow> string) \<Rightarrow> bool mop \<Rightarrow> settings \<Rightarrow> mem container" where
  "memory_container sha others s =
     \<lparr>ct_settings = s,
      ct_ports = mem_ports sha magic_validate passthrough_prepare (fake_recognize sha 0 (Some ''fake-visualization'')),
      ct_authenticate = development_authenticate (dev_api_key_id s), ct_readiness = [],
      ct_wait_after = mem_events_wait_after others\<rparr>"

text \<open>The HTTP interface of a container.\<close>

definition container_api ::
    "'w container \<Rightarrow> ('w, bool) op \<Rightarrow> (string \<Rightarrow> ('w, unit) op) \<Rightarrow> (api_call \<Rightarrow> json list) \<Rightarrow> (exn \<Rightarrow> string) \<Rightarrow> 'w api_env"
where
  "container_api c disconnected send refusal words =
     \<lparr>api_settings = ct_settings c, api_ports = ct_ports c, api_authenticate = ct_authenticate c,
      api_readiness = readiness_service (ct_readiness c), api_wait_after = ct_wait_after c,
      api_disconnected = disconnected, api_send = send, api_refusal = refusal, api_text = words\<rparr>"

section \<open>The retention process\<close>

definition retention_cleanup ::
    "'z db_scheme backing \<Rightarrow> settings \<Rightarrow> 'z db_scheme object_storage \<Rightarrow> 'z db_scheme cleanup" where
  "retention_cleanup bk s st =
     (let (info, error) = runtime_logger bk s ''monkeyocr-retention-cleanup'' ''monkeyocr-retention-cleanup''
      in \<lparr>cl_now = clock_now, cl_claim_expired = claim_expired, cl_complete = complete_claim,
          cl_defer = defer_claim, cl_abort_multipart_upload = os_abort_multipart_upload st,
          cl_delete_object = os_delete_object st, cl_logger_info = info, cl_logger_error = error,
          cl_retry_delay_seconds = retention_cleanup_retry_seconds s\<rparr>)"

definition with_retention ::
    "'z db_scheme backing \<Rightarrow> settings \<Rightarrow> ('z db_scheme cleanup \<Rightarrow> ('z, 'a) sql) \<Rightarrow> ('z, 'a) sql" where
  "with_retention bk s k =
     (if repository_adapter s \<noteq> ''postgres'' \<or> \<not> given (database_url s)
      then raise_exc (RuntimeError ''retention cleanup requires DATABASE_URL'')
      else
        bind_prog (bk_create_pool bk (the (database_url s)) 2) (\<lambda>_.
        finally_prog
          (bind_prog (bk_open_http bk) (\<lambda>_.
           finally_prog
             (with_storage bk s (8 * 1024 * 1024) ''retention cleanup requires durable object storage'' (\<lambda>st.
              bind_prog (lift_sum (make_cleanup (retention_cleanup bk s st) (retention_cleanup_delete_concurrency s))) k))
             (bk_close_http bk)))
          (bk_close_pool bk)))"

definition retention_main :: "'z db_scheme backing \<Rightarrow> settings \<Rightarrow> bool \<Rightarrow> nat \<Rightarrow> ('z, unit) sql" where
  "retention_main bk s once fuel =
     with_retention bk s (\<lambda>env. retention_run s env (bk_sleep bk) once fuel)"

end
