(* ===== verification/Adapter_Errors.thy ===== *)
theory Adapter_Errors
  imports Api_Laws Container
begin

text \<open>
  The adapters meet the contract of \<^theory_text>\<open>Api_Errors\<close>: what the PostgreSQL repositories and the in-memory
  repositories raise. A decoding error of a row, a constraint and a lost connection are \<open>plain\<close>.
\<close>

section \<open>Plain errors\<close>

definition plain :: "exn \<Rightarrow> bool" where
  "plain e \<longleftrightarrow> \<not> is_business_error e \<and> \<not> conflict e"

lemma plain_simps [simp]:
  "plain (SqlError a b)" "plain (OSError n)" "plain (ValueError m)" "plain (RuntimeError m)"
  "plain (OtherError n)" "plain JSONDecodeError" "plain KeyError" "plain TypeError" "plain FileNotFoundError"
  by (simp_all add: plain_def conflict_def)

lemma plain_wrapped: "plain e \<Longrightarrow> wrapped e \<and> \<not> conflict e"
  by (simp add: plain_def wrapped_def)

text \<open>Failures of a computation in the error sum.\<close>

definition fails_only :: "('e \<Rightarrow> bool) \<Rightarrow> 'e + 'a \<Rightarrow> bool" where
  "fails_only E r \<longleftrightarrow> (\<forall>e. r = Inl e \<longrightarrow> E e)"

lemma fails_Inl [simp]: "fails_only E (Inl e) = E e"
  and fails_Inr [simp]: "fails_only E (Inr x)"
  by (simp_all add: fails_only_def)

lemma fails_bind [intro!]:
  "fails_only E r \<Longrightarrow> (\<And>x. fails_only E (k x)) \<Longrightarrow> fails_only E (bind_sum r k)"
  by (cases r) (auto simp: fails_only_def)

lemma fails_map [intro!]: "(\<And>x. fails_only E (f x)) \<Longrightarrow> fails_only E (map_sum f xs)"
  by (induction xs) auto

lemma raises_lift_sum: "fails_only E r \<Longrightarrow> raises_only E (lift_sum r)"
  by (cases r) auto

lemma fails_enum: "fails_only plain (enum_of str members s)"
  by (simp add: enum_of_def split: option.split)

lemma fails_states [intro!]:
  "fails_only plain (upload_state_of s)" "fails_only plain (job_state_of s)"
  "fails_only plain (page_state_of s)" "fails_only plain (artifact_kind_of s)"
  by (simp_all add: upload_state_of_def job_state_of_def page_state_of_def artifact_kind_of_def fails_enum)

lemma fails_decode [intro!]: "fails_only plain (decode_json t)"
  by (simp add: decode_json_def split: option.split)

lemma fails_owner [intro!]: "fails_only plain (parse_owner s)"
  by (simp add: parse_owner_def split: option.split)

lemma fails_rows [intro!]:
  "fails_only plain (upload_of_row u)" "fails_only plain (page_of_row p)"
  "fails_only plain (artifact_of_row a)" "fails_only plain (job_of_rows r at ps ts)"
  by (auto simp: upload_of_row_def page_of_row_def artifact_of_row_def job_of_rows_def)

definition duplicate_key :: exn where
  "duplicate_key = SqlError ''23505'' ''uq_ocr_jobs_api_key_idempotency''"

text \<open>An error other than the conflict of the idempotency key.\<close>

definition ordinary :: "exn \<Rightarrow> bool" where
  "ordinary e \<longleftrightarrow> plain e \<and> e \<noteq> duplicate_key"

lemma ordinary_sql [simp]:
  "ordinary (SqlError a b) \<longleftrightarrow> \<not> (a = ''23505'' \<and> b = ''uq_ocr_jobs_api_key_idempotency'')"
  by (simp add: ordinary_def duplicate_key_def)

lemma ordinary_plain: "ordinary e \<Longrightarrow> plain e"
  by (simp add: ordinary_def)

lemma fails_py_int: "fails_only ordinary (py_int v)"
  by (cases v) (auto simp: float_trunc_def float_scaled_def Let_def ordinary_def duplicate_key_def
      split: option.split prod.split)

lemma fails_event_code: "fails_only ordinary (event_internal_code ev)"
  using fails_py_int by (auto simp: event_internal_code_def Let_def fails_only_def split: option.splits sum.splits if_splits)

section \<open>Statements\<close>

lemma raises_pair [intro!]: "raises_only E (Pair (Done x))"
  by (simp add: raises_only_def)

lemma raises_connected [intro!]: "E (OSError ''ConnectionRefusedError'') \<Longrightarrow> raises_only E m \<Longrightarrow> raises_only E (connected m)"
  by (auto simp: raises_only_def connected_def split: if_splits)

lemma raises_transaction [intro!]: "raises_only E m \<Longrightarrow> raises_only E (transaction m)"
  by (auto simp: raises_only_def transaction_def split: prod.splits outcome.splits)

lemma raises_sql [intro!]:
  "raises_only E (sql_get f)" "raises_only E (sql_put g)" "raises_only E clock_now" "raises_only E fresh_uuid"
  by (auto simp: raises_only_def)

lemma raises_check [intro!]: "(\<not> ok \<Longrightarrow> E (SqlError st c)) \<Longrightarrow> raises_only E (sql_check ok st c)"
  by (auto simp: raises_only_def sql_check_def split: if_splits)

lemma raises_sql_json [intro!]: "E (SqlError ''22P02'' []) \<Longrightarrow> raises_only E (sql_json cfg v)"
  by (auto simp: sql_json_def split: option.split)

lemma sql_uploads_raise:
  "raises_only plain (sql_uploads_get uid)" "raises_only plain (sql_uploads_add cfg u)"
  "raises_only plain (sql_uploads_save u)"
  by (auto simp: sql_uploads_get_def sql_uploads_add_def sql_uploads_save_def Let_def
      intro!: raises_lift_sum split: option.split)

lemma sql_jobs_get_raises [intro!]: "raises_only plain (sql_jobs_get jid)"
  by (auto simp: sql_jobs_get_def intro!: raises_lift_sum split: option.split)

lemma get_present_raises: "raises_only plain (get_present rows)"
  by (induction rows) auto

lemma sql_jobs_read_raise:
  "raises_only plain (sql_jobs_find owner k)" "raises_only plain (sql_jobs_list owner offset limit)"
  by (auto simp: sql_jobs_find_def sql_jobs_list_def intro!: raises_lift_sum get_present_raises
      split: option.split prod.split)

lemma append_event_raises: "raises_only ordinary (append_event cfg ev)"
  by (auto simp: append_event_def Let_def intro!: raises_lift_sum fails_event_code split: option.split)

lemma upsert_attempt_raises: "raises_only ordinary (upsert_attempt j)"
  by (auto simp: upsert_attempt_def split: option.split)

lemmas append_event_plain = append_event_raises [THEN raises_weaken, OF ordinary_plain]
lemmas upsert_attempt_plain = upsert_attempt_raises [THEN raises_weaken, OF ordinary_plain]

lemma store_job_raises: "raises_only plain (store_job cfg j options at old)"
  by (auto simp: store_job_def Let_def upsert_page_def replace_artifacts_def insert_artifact_def
      intro!: upsert_attempt_plain)

lemma sql_save_job_raises: "raises_only (\<lambda>e. plain e \<or> e = ConcurrentJobUpdateError) (sql_save_job cfg j)"
  by (auto simp: sql_save_job_def cancel_stamp_def intro!: raises_weaken [OF store_job_raises]
      split: option.split)

lemma sql_insert_outbox_raises: "(\<And>a b. E (SqlError a b)) \<Longrightarrow> raises_only E (sql_insert_outbox cfg ob)"
  by (auto simp: sql_insert_outbox_def Let_def)

lemma sql_saves_raise:
  "raises_only (\<lambda>e. plain e \<or> e = ConcurrentJobUpdateError) (sql_jobs_save_with_event cfg j ev)"
  "raises_only (\<lambda>e. plain e \<or> e = ConcurrentJobUpdateError) (sql_jobs_save_with_outbox_and_event cfg j ob ev)"
  by (auto simp: sql_jobs_save_with_event_def sql_jobs_save_with_outbox_and_event_def
      intro!: sql_save_job_raises raises_weaken [OF append_event_plain] sql_insert_outbox_raises)

lemma sql_insert_job_raises:
  "raises_only (\<lambda>e. plain e \<and> (e = duplicate_key \<longrightarrow> job_idempotency_key j \<noteq> None)) (sql_insert_job cfg j)"
proof -
  have "fails_only (\<lambda>e. plain e \<and> (e = duplicate_key \<longrightarrow> job_idempotency_key j \<noteq> None)) (parse_owner s)" for s
    by (simp add: parse_owner_def duplicate_key_def split: option.split)
  then show ?thesis
    unfolding sql_insert_job_def Let_def
    by (intro raises_bind raises_lift_sum raises_sql raises_sql_json raises_check raises_weaken [OF upsert_attempt_raises])
       (auto simp: duplicate_key_def ordinary_def new_job_row_def)
qed

lemma sql_add_raises:
  "raises_only (\<lambda>e. wrapped e \<and> e \<noteq> ConcurrentJobUpdateError \<and>
      (e = DuplicateIdempotencyKeyError \<longrightarrow> job_idempotency_key j \<noteq> None))
    (sql_jobs_add_with_outbox_and_event cfg j ob ev)"
proof -
  have "raises_only (\<lambda>e. plain e \<and> (e = duplicate_key \<longrightarrow> job_idempotency_key j \<noteq> None))
      (connected (transaction
         (bind_prog (sql_insert_job cfg j) (\<lambda>_.
          bind_prog (sql_insert_outbox cfg ob) (\<lambda>_.
          append_event cfg ev)))))"
    by (intro raises_connected raises_transaction raises_bind sql_insert_job_raises raises_weaken [OF append_event_raises])
       (auto simp: ordinary_def duplicate_key_def sql_insert_outbox_def Let_def)
  then show ?thesis
    unfolding sql_jobs_add_with_outbox_and_event_def
    by (rule raises_catch) (auto simp: plain_def conflict_def wrapped_def duplicate_key_def)
qed

section \<open>The contract\<close>

lemma magic_validate_handled: "raises_only handled (magic_validate u data)"
  by (auto simp: magic_validate_def validate_file_def security_rejected_def fails_only_def
      intro!: raises_lift_sum split: option.splits if_splits)

definition storage_raises :: "'w object_storage \<Rightarrow> bool" where
  "storage_raises st \<longleftrightarrow>
     (\<forall>key ct n sha. raises_only wrapped (os_create_upload_target st key ct n sha)) \<and>
     (\<forall>key mid parts. raises_only wrapped (os_complete_upload st key mid parts)) \<and>
     (\<forall>key. raises_only wrapped (os_stat st key)) \<and> (\<forall>key. raises_only wrapped (os_get_bytes st key)) \<and>
     (\<forall>key. raises_only wrapped (os_create_download_url st key))"

lemma runtime_ports_sel:
  "p_utc_now (runtime_ports bk s st p e) = clock_now" "p_uuid7 (runtime_ports bk s st p e) = fresh_uuid"
  "p_uploads_get (runtime_ports bk s st p e) = sql_uploads_get"
  "p_uploads_add (runtime_ports bk s st p e) = sql_uploads_add (runtime_pg bk s)"
  "p_uploads_save (runtime_ports bk s st p e) = sql_uploads_save"
  "p_jobs_get (runtime_ports bk s st p e) = sql_jobs_get"
  "p_jobs_find_by_idempotency_key (runtime_ports bk s st p e) = sql_jobs_find"
  "p_jobs_list (runtime_ports bk s st p e) = sql_jobs_list"
  "p_jobs_save_with_event (runtime_ports bk s st p e) = sql_jobs_save_with_event (runtime_pg bk s)"
  "p_jobs_save_with_outbox_and_event (runtime_ports bk s st p e) = sql_jobs_save_with_outbox_and_event (runtime_pg bk s)"
  "p_jobs_add_with_outbox_and_event (runtime_ports bk s st p e) = sql_jobs_add_with_outbox_and_event (runtime_pg bk s)"
  "p_storage_create_upload_target (runtime_ports bk s st p e) = os_create_upload_target st"
  "p_storage_complete_upload (runtime_ports bk s st p e) = os_complete_upload st"
  "p_storage_stat (runtime_ports bk s st p e) = os_stat st"
  "p_storage_get_bytes (runtime_ports bk s st p e) = os_get_bytes st"
  "p_storage_create_download_url (runtime_ports bk s st p e) = os_create_download_url st"
  "p_validator_validate (runtime_ports bk s st p e) = magic_validate"
  by (simp_all add: runtime_ports_def Let_def split: prod.split)

lemma runtime_adapters:
  assumes "storage_raises st"
  shows "api_adapters (runtime_ports bk s st p e)"
proof -
  have plain: "raises_only plain m \<Longrightarrow> raises_only (\<lambda>x. wrapped x \<and> \<not> conflict x) m" for m :: "('z, 'b) sql"
    by (erule raises_weaken) (rule plain_wrapped)
  have save: "raises_only (\<lambda>x. plain x \<or> x = ConcurrentJobUpdateError) m \<Longrightarrow>
      raises_only (\<lambda>x. wrapped x \<and> x \<noteq> DuplicateIdempotencyKeyError) m" for m :: "('z, 'b) sql"
    by (erule raises_weaken) (auto simp: plain_def conflict_def wrapped_def)
  have adapters: "raises_only wrapped (os_create_upload_target st key ct n sha)"
      "raises_only wrapped (os_complete_upload st key mid parts)" "raises_only wrapped (os_stat st key)"
      "raises_only wrapped (os_get_bytes st key)" "raises_only wrapped (os_create_download_url st key)"
    for key ct n sha mid parts
    using assms unfolding storage_raises_def by blast+
  show ?thesis
    by unfold_locales
       (unfold runtime_ports_sel,
        (rule raises_sql adapters magic_validate_handled sql_add_raises
          sql_uploads_raise [THEN plain] sql_jobs_get_raises [THEN plain] sql_jobs_read_raise [THEN plain]
          sql_saves_raise [THEN save])+)
qed

lemma mem_reads_plain:
  "raises_only plain (mem_uploads_get uid)" "raises_only plain (mem_uploads_add u)"
  "raises_only plain (mem_uploads_save u)" "raises_only plain (mem_jobs_get jid)"
  "raises_only plain (mem_jobs_find owner k)" "raises_only plain (mem_jobs_list owner offset limit)"
  by (auto simp: raises_only_def mem_uploads_get_def mem_uploads_add_def mem_uploads_save_def mem_jobs_get_def
      mem_jobs_find_def mem_jobs_list_def Let_def split: if_splits)

lemma mem_append_silent: "raises_only E (mem_events_append ev)"
  by (auto simp: raises_only_def mem_events_append_def Let_def split: option.splits)

lemma mem_save_raises: "raises_only (\<lambda>e. plain e \<or> e = ConcurrentJobUpdateError) (mem_jobs_save_with_event j ev)"
  using raises_onlyD [OF mem_append_silent [of "\<lambda>_. False"]]
  by (auto simp: raises_only_def mem_jobs_save_with_event_def Let_def split: if_splits option.splits prod.splits outcome.splits)

lemma mem_resave_raises:
  "raises_only (\<lambda>e. plain e \<or> e = ConcurrentJobUpdateError) (mem_jobs_save_with_outbox_and_event j ob ev)"
proof -
  have "raises_only E (mem_outbox_add ob)" for E by (simp add: raises_only_def mem_outbox_add_def)
  then show ?thesis
    unfolding mem_jobs_save_with_outbox_and_event_def by (intro raises_bind mem_save_raises raises_ret)
qed

lemma mem_add_raises:
  "raises_only (\<lambda>e. wrapped e \<and> e \<noteq> ConcurrentJobUpdateError \<and>
      (e = DuplicateIdempotencyKeyError \<longrightarrow> job_idempotency_key j \<noteq> None))
    (mem_jobs_add_with_outbox_and_event j ob ev)"
proof -
  have outbox: "raises_only E (mem_outbox_add ob)" for E by (simp add: raises_only_def mem_outbox_add_def)
  have append: "raises_only E (\<lambda>w. if m_events_configured w then mem_events_append ev w
      else (Raised (RuntimeError m), w))" if "E (RuntimeError m)" for E m
    using that mem_append_silent [of E ev] by (auto simp: raises_only_def)
  show ?thesis
    unfolding mem_jobs_add_with_outbox_and_event_def
    by (intro raises_bind outbox append)
       (auto simp: raises_only_def mem_jobs_add_def truthy_str_def wrapped_def split: if_splits option.splits)
qed

lemma mem_objects_plain:
  "raises_only wrapped (mem_create_upload_target key ct n sha)" "raises_only wrapped (mem_complete_upload key mid parts)"
  "raises_only wrapped (mem_stat key)" "raises_only wrapped (mem_get_bytes key)"
  "raises_only wrapped (mem_create_download_url key)"
proof -
  show "raises_only wrapped (mem_stat key)" by (simp add: raises_only_def mem_stat_def)
  then show "raises_only wrapped (mem_create_download_url key)"
    by (auto simp: mem_create_download_url_def wrapped_def split: option.split)
qed (auto simp: raises_only_def mem_create_upload_target_def mem_complete_upload_def mem_get_bytes_def wrapped_def
    split: option.splits)

interpretation memory: api_adapters "mem_ports sha magic_validate preprocessor engine"
proof -
  have plain: "raises_only plain m \<Longrightarrow> raises_only (\<lambda>x. wrapped x \<and> \<not> conflict x) m" for m :: "'b mop"
    by (erule raises_weaken) (rule plain_wrapped)
  have save: "raises_only (\<lambda>x. plain x \<or> x = ConcurrentJobUpdateError) m \<Longrightarrow>
      raises_only (\<lambda>x. wrapped x \<and> x \<noteq> DuplicateIdempotencyKeyError) m" for m :: "'b mop"
    by (erule raises_weaken) (auto simp: plain_def conflict_def wrapped_def)
  have clock: "raises_only handled mem_utc_now" "raises_only handled mem_uuid7"
    by (simp_all add: raises_only_def mem_utc_now_def mem_uuid7_def)
  show "api_adapters (mem_ports sha magic_validate preprocessor engine)"
    by unfold_locales
       (unfold mem_ports_def ports.simps,
        (rule clock mem_objects_plain magic_validate_handled mem_add_raises mem_reads_plain [THEN plain]
          mem_save_raises [THEN save] mem_resave_raises [THEN save])+)
qed

section \<open>Requests\<close>

lemma authenticate_handled: "raises_only handled (authenticate pbkdf2 pepper plaintext)"
proof -
  have body: "raises_only (\<lambda>e. is_business_error e \<longrightarrow> handled e) m \<Longrightarrow> raises_only handled
      (catch_prog m (\<lambda>e. if is_business_error e \<or> is_dependency_error e \<or> \<not> is_exception e then raise_exc e
                 else raise_exc DatabaseUnavailableError))" for m :: "('z, string) sql"
    by (erule raises_catch)
       (auto simp: handled_not_exception intro: handled_dependency simp del: is_dependency_error.simps handled.simps)
  show ?thesis
    unfolding authenticate_def
    by (auto simp: user_unauthorized_def api_key_revoked_def verify_api_key_def hash_api_key_def touch_key_def
        intro!: body simp del: is_dependency_error.simps split: option.split)
qed

lemma readiness_service_handled: "raises_only handled (readiness_service checks)"
proof -
  have "raises_only handled (run_probe c)" for c
    by (auto simp: raises_only_def run_probe_def handled_not_exception split: prod.splits outcome.splits if_splits)
  then show ?thesis by (auto simp: readiness_service_def)
qed

text \<open>
  C29. With the durable runtime, status 500 is the answer of no request but the two of an upload: every
  failure of the database, the storage, the authentication and the probes, and every refusal, comes
  back as an envelope with status 200. The object storage may raise what it likes, as long as its
  business errors, if it has any, have a code and a reason. An upload can end with 500 when the storage
  reports a missing object where the service does not expect it.
\<close>

theorem requests_are_controlled:
  assumes storage: "storage_raises st" and words: "\<And>e. words e \<noteq> []" and "\<not> uploads call"
    and run: "answer (container_api (runtime_container bk s st pepper started (runtime_ports bk s st preprocessor engine))
      gone send refusal words) header authorization call w = (Done a, w')"
  shows "ans_status a = 200"
  by (rule api_adapters.answer_controlled [OF runtime_adapters [OF storage] _ _ _ _ _ assms(3) run])
     (auto simp: container_api_def runtime_container_def runtime_ports_sel working_def words
       intro!: authenticate_handled readiness_service_handled)

end
