(* ===== verification/Container_Laws.thy ===== *)
theory Container_Laws
  imports Adapter_Errors
begin

text \<open>
  The composition: settings that the validators accept for production are enough to build the container
  and the retention process, what a container opens is closed again, and the outbox is dispatched only
  under the lock.
\<close>

section \<open>Configuration\<close>

lemma raises_finally: "raises_only E m \<Longrightarrow> raises_only E f \<Longrightarrow> raises_only E (finally_prog m f)"
  unfolding finally_prog_def
  by (intro raises_onlyI) (auto elim!: bind_prog_cases dest: raises_onlyD
      simp: catch_prog_def bind_prog_def lift_sum_def split: prod.splits outcome.splits sum.splits)

definition backing_raises :: "(exn \<Rightarrow> bool) \<Rightarrow> 'w backing \<Rightarrow> bool" where
  "backing_raises E bk \<longleftrightarrow>
     (\<forall>u n. raises_only E (bk_create_pool bk u n)) \<and> raises_only E (bk_close_pool bk) \<and>
     raises_only E (bk_open_http bk) \<and> raises_only E (bk_close_http bk) \<and>
     (\<forall>s. raises_only E (bk_open_s3 bk s)) \<and> raises_only E (bk_close_s3 bk) \<and>
     (\<forall>b c. raises_only E (bk_start_producer bk b c)) \<and> raises_only E (bk_stop_producer bk) \<and>
     (\<forall>m. raises_only E (bk_start_task bk m)) \<and> raises_only E (bk_request_cancel bk) \<and>
     raises_only (\<lambda>e. E e \<or> e = CancelledError) (bk_await_task bk)"

lemma accepted_bounds: "load_settings raw = Inr s \<Longrightarrow> bounds_ok s"
proof -
  have checked: "production_must_not_use_dev_adapters s' = Inr s \<Longrightarrow> s' = s" for s'
    by (auto simp: production_must_not_use_dev_adapters_def split: if_splits option.splits)
  have inferred: "bounds_ok (infer_durable_adapters s') = bounds_ok s'" for s'
    by (simp add: bounds_ok_def infer_durable_adapters_def)
  assume "load_settings raw = Inr s"
  then obtain s' where "bounds_ok s'" "production_must_not_use_dev_adapters (infer_durable_adapters s') = Inr s"
    unfolding load_settings_def Let_def by (metis Inl_Inr_False)
  with checked inferred show ?thesis by metis
qed

lemma with_storage_raises:
  assumes "storage_adapter s = ''storage-service'' \<and> given (storage_service_url s) \<and> given (storage_service_token s) \<or>
      storage_adapter s = ''s3''"
    and "backing_raises E bk" and "\<And>st. raises_only E (k st)"
  shows "raises_only E (with_storage bk s n m k)"
  using assms by (auto simp: with_storage_def backing_raises_def intro!: raises_finally)

lemma cancel_task_raises: "backing_raises E bk \<Longrightarrow> raises_only E (cancel_task bk)"
  unfolding cancel_task_def
  by (rule raises_bind, simp add: backing_raises_def, rule raises_catch [where F = "\<lambda>e. E e \<or> e = CancelledError"])
    (auto simp: backing_raises_def)

lemma with_outbox_raises:
  assumes "given (kafka_bootstrap_servers s)" and "backing_raises E bk" and "raises_only E m"
  shows "raises_only E (with_outbox bk s ps start m)"
  using assms cancel_task_raises [OF assms(2)] by (auto simp: with_outbox_def backing_raises_def intro!: raises_finally)

text \<open>
  What a production container offers: identities are required, and every dependency has a probe.
\<close>

definition production_container :: "settings \<Rightarrow> bool \<Rightarrow> 'w container \<Rightarrow> bool" where
  "production_container s start c \<longleftrightarrow>
     ct_settings c = s \<and> require_gateway_identity s \<and>
     {''postgresql'', ''object_storage'', ''paddleocr_vl''} \<subseteq> set (map chk_name (ct_readiness c)) \<and>
     (start \<longrightarrow> ''kafka'' \<in> set (map chk_name (ct_readiness c)))"


section \<open>Connections\<close>

text \<open>
  \<open>stack\<close> reads the open resources off the world, the last one opened first. Opening pushes a
  resource unless it raises; closing pops it, also when it raises; a balanced program that ends
  leaves the stack as it was.
\<close>

definition opens :: "('w \<Rightarrow> 'r list) \<Rightarrow> 'r \<Rightarrow> ('w, 'a) op \<Rightarrow> bool" where
  "opens stack r m \<longleftrightarrow> (\<forall>w. case m w of
     (Done x, w') \<Rightarrow> stack w' = r # stack w | (Raised e, w') \<Rightarrow> stack w' = stack w | (Diverged, w') \<Rightarrow> True)"

definition closes :: "('w \<Rightarrow> 'r list) \<Rightarrow> 'r \<Rightarrow> ('w, unit) op \<Rightarrow> bool" where
  "closes stack r m \<longleftrightarrow> (\<forall>w rest. stack w = r # rest \<longrightarrow> fst (m w) \<noteq> Diverged \<longrightarrow> stack (snd (m w)) = rest)"

definition balanced :: "('w \<Rightarrow> 'r list) \<Rightarrow> ('w, 'a) op \<Rightarrow> bool" where
  "balanced stack m \<longleftrightarrow> (\<forall>w. fst (m w) \<noteq> Diverged \<longrightarrow> stack (snd (m w)) = stack w)"

lemma balanced_raise: "balanced stack (raise_exc e)"
  by (simp add: balanced_def)

lemma balanced_lift_bind: "(\<And>x. balanced stack (k x)) \<Longrightarrow> balanced stack (bind_prog (lift_sum r) k)"
  by (cases r) (auto simp: balanced_def bind_prog_def)

lemma balanced_scope:
  assumes "opens stack r m" and "\<And>x. balanced stack (k x)" and "closes stack r f"
  shows "balanced stack (bind_prog m (\<lambda>x. finally_prog (k x) f))"
proof -
  have "stack (snd (finally_prog (k x) f w)) = rest"
    if "stack w = r # rest" and "fst (finally_prog (k x) f w) \<noteq> Diverged" for x w rest
  proof -
    obtain o1 w1 where k: "k x w = (o1, w1)" by (cases "k x w")
    with that(2) have "o1 \<noteq> Diverged" by (auto simp: finally_prog_def catch_prog_def bind_prog_def)
    with assms(2) [of x] k that(1) have "stack w1 = r # rest" unfolding balanced_def by (metis fst_conv snd_conv)
    moreover have "finally_prog (k x) f w = bind_prog f (\<lambda>_. lift_sum (case o1 of Done y \<Rightarrow> Inr y | Raised e \<Rightarrow> Inl e)) w1"
      using k \<open>o1 \<noteq> Diverged\<close> by (cases o1) (simp_all add: finally_prog_def catch_prog_def bind_prog_def)
    ultimately show ?thesis
      using assms(3) that(2) unfolding closes_def
      by (auto simp: bind_prog_def lift_sum_def split: prod.splits outcome.splits sum.splits)
         (metis fst_conv snd_conv outcome.distinct)+
  qed
  with assms(1) show ?thesis
    unfolding balanced_def opens_def
    by (auto simp: bind_prog_def split: prod.splits outcome.splits) (metis fst_conv snd_conv)+
qed

definition accounted :: "('w \<Rightarrow> string list) \<Rightarrow> 'w backing \<Rightarrow> bool" where
  "accounted stack bk \<longleftrightarrow>
     (\<forall>u n. opens stack ''pool'' (bk_create_pool bk u n)) \<and> closes stack ''pool'' (bk_close_pool bk) \<and>
     opens stack ''http'' (bk_open_http bk) \<and> closes stack ''http'' (bk_close_http bk) \<and>
     (\<forall>s. opens stack ''s3'' (bk_open_s3 bk s)) \<and> closes stack ''s3'' (bk_close_s3 bk) \<and>
     (\<forall>b c. opens stack ''producer'' (bk_start_producer bk b c)) \<and> closes stack ''producer'' (bk_stop_producer bk) \<and>
     (\<forall>m. opens stack ''task'' (bk_start_task bk m)) \<and>
     (\<forall>w. \<exists>w'. bk_request_cancel bk w = (Done (), w') \<and> stack w' = stack w) \<and> closes stack ''task'' (bk_await_task bk)"

lemma cancel_task_closes:
  assumes "accounted stack bk"
  shows "closes stack ''task'' (cancel_task bk)"
  unfolding closes_def
proof (intro allI impI)
  fix w rest
  assume top: "stack w = ''task'' # rest" and ended: "fst (cancel_task bk w) \<noteq> Diverged"
  obtain w1 where w1: "bk_request_cancel bk w = (Done (), w1)" "stack w1 = ''task'' # rest"
    using assms top unfolding accounted_def by metis
  obtain r w2 where await: "bk_await_task bk w1 = (r, w2)" by (cases "bk_await_task bk w1")
  have "r \<noteq> Diverged" using ended w1 await by (auto simp: cancel_task_def bind_prog_def catch_prog_def)
  then have "stack w2 = rest" using assms w1(2) await unfolding accounted_def closes_def by (metis fst_conv snd_conv)
  then show "stack (snd (cancel_task bk w)) = rest"
    using w1 await by (cases r) (auto simp: cancel_task_def bind_prog_def catch_prog_def)
qed

lemma runtime_scopes:
  assumes libraries: "accounted stack bk"
  shows "(\<And>c. balanced stack (k c)) \<Longrightarrow> balanced stack (with_runtime bk s start k)"
    and "(\<And>env. balanced stack (k' env)) \<Longrightarrow> balanced stack (with_retention bk s k')"
proof -
  have starts: "opens stack ''pool'' (bk_create_pool bk u n)" "opens stack ''http'' (bk_open_http bk)"
      "opens stack ''s3'' (bk_open_s3 bk s)" "opens stack ''producer'' (bk_start_producer bk b c)"
      "opens stack ''task'' (bk_start_task bk m)" for u n b c m
    using libraries by (simp_all add: accounted_def)
  have stops: "closes stack ''pool'' (bk_close_pool bk)" "closes stack ''http'' (bk_close_http bk)"
      "closes stack ''s3'' (bk_close_s3 bk)" "closes stack ''producer'' (bk_stop_producer bk)"
      "closes stack ''task'' (cancel_task bk)"
    using libraries cancel_task_closes [OF libraries] by (simp_all add: accounted_def)
  note scopes = balanced_scope [OF starts(1) _ stops(1)] balanced_scope [OF starts(2) _ stops(2)]
    balanced_scope [OF starts(3) _ stops(3)] balanced_scope [OF starts(4) _ stops(4)]
    balanced_scope [OF starts(5) _ stops(5)]
  note steps = scopes balanced_raise balanced_lift_bind
  show "balanced stack (with_runtime bk s start k)" if "\<And>c. balanced stack (k c)"
    unfolding with_runtime_def with_storage_def with_outbox_def Let_def by (simp add: steps that)
  show "balanced stack (with_retention bk s k')" if "\<And>env. balanced stack (k' env)"
    unfolding with_retention_def with_storage_def Let_def by (simp add: steps that)
qed

text \<open>
  C31. Whatever happens, a container and the retention process close what they opened: with libraries
  that account for their resources, and a program that leaves them alone, the resources open at the end
  are those open at the start. Each is closed while it is on top, that is in reverse order, also when
  the construction itself or a later close fails.
\<close>

theorem runtime_closes_connections:
  assumes libraries: "accounted stack bk" and program: "\<And>c. balanced stack (k c)"
    and cleanup: "\<And>env. balanced stack (k' env)"
  shows "balanced stack (with_runtime bk s start k) \<and> balanced stack (with_retention bk s k')"
  by (intro conjI runtime_scopes [OF libraries] program cleanup)

section \<open>The outbox lock\<close>

definition keeps :: "('w \<Rightarrow> bool) \<Rightarrow> ('w, 'a) op \<Rightarrow> bool" where
  "keeps P m \<longleftrightarrow> (\<forall>w. P w \<longrightarrow> P (snd (m w)))"

lemma keeps_bind: "keeps P m \<Longrightarrow> (\<And>x. keeps P (k x)) \<Longrightarrow> keeps P (bind_prog m k)"
  by (auto simp: keeps_def bind_prog_def split: prod.split outcome.split)

lemma keeps_catch: "keeps P m \<Longrightarrow> (\<And>e. keeps P (h e)) \<Longrightarrow> keeps P (catch_prog m h)"
  by (auto simp: keeps_def catch_prog_def split: prod.split outcome.split)

lemma bind_at: "(\<And>x w'. m w = (Done x, w') \<Longrightarrow> k x w' = k' x w') \<Longrightarrow> bind_prog m k w = bind_prog m k' w"
  by (simp add: bind_prog_def split: prod.split outcome.split)

lemma finally_at: "m w = m' w \<Longrightarrow> finally_prog (catch_prog m h) f w = finally_prog (catch_prog m' h) f w"
  by (simp add: finally_prog_def catch_prog_def bind_prog_def)

lemma dispatch_loop_locked:
  assumes dispatch: "\<And>m. keeps held (ot_dispatch t m)" and sleep: "\<And>d. keeps held (ot_sleep t d)"
    and log: "\<And>e kvs. keeps held (ot_error t e kvs)"
    and agree: "\<And>m w. held w \<Longrightarrow> d m w = ot_dispatch t m w"
  shows "held w \<Longrightarrow> dispatch_loop (t\<lparr>ot_dispatch := d\<rparr>) n w = dispatch_loop t n w"
proof (induction n arbitrary: w)
  case (Suc n)
  have failed: "dispatch_failed (t\<lparr>ot_dispatch := d\<rparr>) = dispatch_failed t"
    by (simp add: dispatch_failed_def fun_eq_iff)
  have "dispatch_round (t\<lparr>ot_dispatch := d\<rparr>) w = dispatch_round t w"
    using agree [OF Suc.prems] by (simp add: dispatch_round_def failed catch_prog_def bind_prog_def)
  moreover have "keeps held (bind_prog (ot_error t ev kvs) (\<lambda>_. ot_sleep t x))" for ev kvs x
    by (intro keeps_bind log sleep)
  then have "keeps held (dispatch_failed t e)" for e
    by (simp add: dispatch_failed_def) (simp add: keeps_def)
  then have "keeps held (dispatch_round t)"
    unfolding dispatch_round_def by (intro keeps_catch keeps_bind dispatch sleep)
  then have "dispatch_round t w = (Done x, w') \<Longrightarrow> held w'" for x w'
    using Suc.prems unfolding keeps_def by (metis snd_conv)
  ultimately show ?case
    using Suc.IH by (simp add: bind_prog_def split: prod.split outcome.split)
qed simp

text \<open>
  C32. The task dispatches the outbox only while it holds the advisory lock. With a server that grants
  the lock only as \<open>held\<close>, and a lock that the dispatcher, the sleep and the logger do not give up, the
  task behaves the same for any two dispatchers that agree where the lock is held: it never calls
  the dispatcher anywhere else, in any round, also after errors.
\<close>

theorem outbox_needs_lock:
  assumes lock: "\<And>w w'. ot_try_lock t outbox_lock_name w = (Done True, w') \<Longrightarrow> held w'"
    and "\<And>m. keeps held (ot_dispatch t m)" and "\<And>d. keeps held (ot_sleep t d)"
    and "\<And>e kvs. keeps held (ot_error t e kvs)"
    and "\<And>m w. held w \<Longrightarrow> d m w = ot_dispatch t m w"
  shows "run_outbox (t\<lparr>ot_dispatch := d\<rparr>) k n = run_outbox t k n"
proof -
  let ?t = "t\<lparr>ot_dispatch := d\<rparr>"
  have same: "dispatch_failed ?t = dispatch_failed t" "unlock_quietly ?t = unlock_quietly t"
    by (simp_all add: dispatch_failed_def unlock_quietly_def fun_eq_iff)
  have loop: "held w \<Longrightarrow> dispatch_loop ?t k w = dispatch_loop t k w" for w
    using assms(2-5) by (rule dispatch_loop_locked)
  have taken: "catch_prog (bind_prog (ot_try_lock t outbox_lock_name) (\<lambda>b. ret (Inr b))) (\<lambda>e. ret (Inl e)) v =
      (Done (Inr True), w) \<Longrightarrow> held w" for v w
    using lock by (auto simp: catch_prog_def bind_prog_def split: prod.splits outcome.splits)
  have "outbox_round ?t k w = outbox_round t k w" for w
    unfolding outbox_round_def same
    by (simp, rule bind_at)
       (auto intro!: bind_at finally_at loop dest: taken split: option.split sum.split bool.split)
  then have "outbox_round ?t k = outbox_round t k" by (rule ext)
  then show ?thesis by (induction n) simp_all
qed

end
