(* ===== verification/Application.thy ===== *)
theory Application
  imports Container_Laws
begin

text \<open>
  The application object of \<^verbatim>\<open>main.py\<close>: \<open>create_app\<close>, its lifespan, the identifier that
  its handlers read, and the schema it publishes. The routes, the middleware and the handlers are in theory
  \<open>Api\<close>, the containers in theory \<open>Container\<close>. The two ways to make a container are
  arguments of the lifespan; \<open>with_runtime\<close> is one of them. The schema that the framework generates
  is an argument, too: what \<open>constrained_openapi\<close> does to it is modelled.
\<close>

section \<open>The application\<close>

record 'w application =
  app_settings :: settings
  app_docs_url :: "string option"
  app_container :: "'w container option"
  app_openapi_schema :: "json option"

definition create_app :: "exn + settings \<Rightarrow> settings option \<Rightarrow> 'w container option \<Rightarrow> exn + 'w application" where
  "create_app environment_settings given_settings given_container =
     (case (case given_settings of
              Some s \<Rightarrow> Inr s
            | None \<Rightarrow> (case given_container of Some c \<Rightarrow> Inr (ct_settings c) | None \<Rightarrow> environment_settings)) of
        Inl e \<Rightarrow> Inl e
      | Inr s \<Rightarrow> Inr \<lparr>app_settings = s,
          app_docs_url = (if environment s \<noteq> ''production'' then Some ''/docs'' else None),
          app_container = given_container, app_openapi_schema = None\<rparr>)"

definition lifespan ::
    "'w container option \<Rightarrow> (settings \<Rightarrow> 'w container) \<Rightarrow> (settings \<Rightarrow> ('w container \<Rightarrow> ('w, 'a) op) \<Rightarrow> ('w, 'a) op) \<Rightarrow>
     'w application \<Rightarrow> ('w application \<Rightarrow> ('w, 'a) op) \<Rightarrow> ('w, 'a) op" where
  "lifespan given_container create_memory with_durable app serve =
     (case given_container of
        Some c \<Rightarrow> serve (app\<lparr>app_container := Some c\<rparr>)
      | None \<Rightarrow>
          if repository_adapter (app_settings app) = ''memory'' \<and> storage_adapter (app_settings app) = ''memory''
          then serve (app\<lparr>app_container := Some (create_memory (app_settings app))\<rparr>)
          else with_durable (app_settings app) (\<lambda>c. serve (app\<lparr>app_container := Some c\<rparr>)))"

text \<open>The identifier of a handler. The default of \<open>getattr\<close> is computed whether it is needed or not.\<close>

definition handler_request_id :: "'w ports \<Rightarrow> string option \<Rightarrow> string option \<Rightarrow> ('w, string) op" where
  "handler_request_id ps state header =
     bind_prog (p_uuid7 ps) (\<lambda>u.
     ret (case state of
            Some rid \<Rightarrow> rid
          | None \<Rightarrow> (case header of Some h \<Rightarrow> h | None \<Rightarrow> uuid_str u)))"

section \<open>The published schema\<close>

text \<open>The values of a dictionary are changed one after the other, in place.\<close>

definition map_values :: "(json \<Rightarrow> exn + json) \<Rightarrow> (string \<times> json) list \<Rightarrow> exn + (string \<times> json) list" where
  "map_values f = map_sum (\<lambda>(k, v). case f v of Inl e \<Rightarrow> Inl e | Inr v' \<Rightarrow> Inr (k, v'))"

fun pop_422 :: "json \<Rightarrow> exn + json" where
  "pop_422 (JDict rs) = Inr (JDict (filter (\<lambda>(k, _). k \<noteq> ''422'') rs))"
| "pop_422 (JList _) = Inl TypeError"
| "pop_422 _ = Inl (OtherError ''AttributeError'')"

fun constrain_operation :: "json \<Rightarrow> exn + json" where
  "constrain_operation (JDict kvs) =
     (case map_of kvs ''responses'' of
        None \<Rightarrow> Inr (JDict kvs)
      | Some rs \<Rightarrow> (case pop_422 rs of
            Inl e \<Rightarrow> Inl e
          | Inr rs' \<Rightarrow> Inr (JDict (map (\<lambda>(k, v). (k, if k = ''responses'' then rs' else v)) kvs))))"
| "constrain_operation op = Inr op"

fun constrain_path :: "json \<Rightarrow> exn + json" where
  "constrain_path (JDict ops) = (case map_values constrain_operation ops of Inl e \<Rightarrow> Inl e | Inr ops' \<Rightarrow> Inr (JDict ops'))"
| "constrain_path _ = Inl (OtherError ''AttributeError'')"

fun constrain_paths :: "json \<Rightarrow> exn + json" where
  "constrain_paths (JDict ps) = (case map_values constrain_path ps of Inl e \<Rightarrow> Inl e | Inr ps' \<Rightarrow> Inr (JDict ps'))"
| "constrain_paths _ = Inl (OtherError ''AttributeError'')"

fun constrain_schema :: "json \<Rightarrow> exn + json" where
  "constrain_schema (JDict kvs) =
     (case map_of kvs ''paths'' of
        None \<Rightarrow> Inr (JDict kvs)
      | Some ps \<Rightarrow> (case constrain_paths ps of
            Inl e \<Rightarrow> Inl e
          | Inr ps' \<Rightarrow> Inr (JDict (map (\<lambda>(k, v). (k, if k = ''paths'' then ps' else v)) kvs))))"
| "constrain_schema _ = Inl (OtherError ''AttributeError'')"

definition constrained_openapi :: "json \<Rightarrow> 'w application \<Rightarrow> exn + json \<times> 'w application" where
  "constrained_openapi original app =
     (case filter json_truthy (case app_openapi_schema app of None \<Rightarrow> [] | Some schema \<Rightarrow> [schema]) of
        schema # _ \<Rightarrow> Inr (schema, app)
      | [] \<Rightarrow> (case constrain_schema original of
                 Inl e \<Rightarrow> Inl e
               | Inr schema \<Rightarrow> Inr (schema, app\<lparr>app_openapi_schema := Some schema\<rparr>)))"

text \<open>What the published schema still says about an operation: no route documents the status 422.\<close>

fun documents_422 :: "json \<Rightarrow> bool" where
  "documents_422 op \<longleftrightarrow>
     (case json_get op ''responses'' of Some (JDict rs) \<Rightarrow> ''422'' \<in> fst ` set rs | _ \<Rightarrow> False)"

fun json_values :: "json \<Rightarrow> json list" where
  "json_values (JDict kvs) = map snd kvs"
| "json_values _ = []"

definition schema_operations :: "json \<Rightarrow> json list" where
  "schema_operations schema =
     (case json_get schema ''paths'' of Some ps \<Rightarrow> concat (map json_values (json_values ps)) | None \<Rightarrow> [])"

lemma map_values_all:
  "map_values f kvs = Inr kvs' \<Longrightarrow> (\<And>v v'. f v = Inr v' \<Longrightarrow> P v') \<Longrightarrow> \<forall>v \<in> snd ` set kvs'. P v"
  unfolding map_values_def by (induction kvs arbitrary: kvs') (auto simp: bind_sum_def split: sum.splits prod.splits)

lemma map_of_put: "map_of (map (\<lambda>(k, v). (k, if k = key then x else v)) kvs) key = map_option (\<lambda>_. x) (map_of kvs key)"
  by (induction kvs) auto

fun_cases pop_422_InrE: "pop_422 rs = Inr rs'"

lemma constrain_operation_documents: "constrain_operation op = Inr op' \<Longrightarrow> \<not> documents_422 op'"
  by (cases op) (auto simp: map_of_put split: option.splits sum.splits elim!: pop_422_InrE)

lemma constrain_path_documents:
  "constrain_path p = Inr p' \<Longrightarrow> \<forall>op \<in> set (json_values p'). \<not> documents_422 op"
  by (cases p) (auto split: sum.splits simp del: documents_422.simps
      dest!: map_values_all [where P = "\<lambda>op. \<not> documents_422 op", OF _ constrain_operation_documents])

lemma openapi_without_422:
  assumes "constrain_schema original = Inr schema"
  shows "\<forall>op \<in> set (schema_operations schema). \<not> documents_422 op"
proof (cases "json_get schema ''paths''")
  case (Some ps)
  obtain kvs where original: "original = JDict kvs" using assms by (cases original) auto
  with assms Some obtain ps0 where "constrain_paths ps0 = Inr ps"
    by (auto split: option.splits sum.splits simp: map_of_put)
  then obtain entries entries' where ps: "map_values constrain_path entries = Inr entries'" "ps = JDict entries'"
    by (cases ps0) (auto split: sum.splits)
  have "\<forall>p \<in> snd ` set entries'. \<forall>op \<in> set (json_values p). \<not> documents_422 op"
    by (rule map_values_all [OF ps(1)]) (rule constrain_path_documents)
  then show ?thesis unfolding schema_operations_def Some by (auto simp: ps(2) simp del: documents_422.simps)
qed (simp add: schema_operations_def)

text \<open>The schema is computed once.\<close>

lemma openapi_cached:
  assumes "constrained_openapi original app = Inr (schema, app')" and "json_truthy schema"
  shows "constrained_openapi later app' = Inr (schema, app')"
  using assms by (auto simp: constrained_openapi_def split: option.splits if_splits sum.splits)

section \<open>Which container serves\<close>

text \<open>An application made for a container serves with it, under its settings unless others were given.\<close>

lemma given_container_serves:
  assumes "create_app env given_settings (Some c) = Inr app"
  shows "lifespan (Some c) create_memory with_durable app serve = serve app"
    "app_container app = Some c" "given_settings = None \<Longrightarrow> app_settings app = ct_settings c"
  using assms by (auto simp: create_app_def lifespan_def split: option.splits)

text \<open>
  An application for accepted production settings publishes no documentation page and serves with the durable
  container.
\<close>

lemma production_is_durable:
  assumes accepted: "load_settings raw = Inr s" and production: "environment s = ''production''"
    and app: "create_app (Inr s) None None = Inr app"
  shows "app_docs_url app = None"
    "lifespan None create_memory with_durable app serve = with_durable s (\<lambda>c. serve (app\<lparr>app_container := Some c\<rparr>))"
proof -
  have "repository_adapter s = ''postgres''"
    using load_settings_production [OF accepted production] by (auto simp: production_checks_def)
  then show "lifespan None create_memory with_durable app serve = with_durable s (\<lambda>c. serve (app\<lparr>app_container := Some c\<rparr>))"
    using app by (auto simp: create_app_def lifespan_def)
  show "app_docs_url app = None" using app production by (auto simp: create_app_def)
qed

text \<open>The lifespan of the application ends with the connections it found open, when serving leaves them alone.\<close>

lemma lifespan_balanced:
  assumes "accounted stack bk" and "\<And>a. balanced stack (serve a)"
  shows "balanced stack (lifespan given_container create_memory (\<lambda>s. with_runtime bk s start) app serve)"
  unfolding lifespan_def by (auto split: option.split intro: assms(2) runtime_scopes(1) [OF assms(1)])

text \<open>Inside a request the middleware has set the identifier: the handlers read what it answers with.\<close>

lemma handler_reads_identifier:
  assumes "p_uuid7 ps w = (Done u, w')"
  shows "handler_request_id ps (Some rid) header w = (Done rid, w')"
  using assms by (simp add: handler_request_id_def bind_prog_def)

end
