(* ===== verification/Migration.thy ===== *)
theory Migration
  imports Errors Prelude
begin

text \<open>
  The order of the statements of the initial migration
  (\<^verbatim>\<open>alembic/versions/20260711_0001_initial_ocr_platform.py\<close>), up and down, over a catalog
  of tables with the tables they reference and of indexes. What the tables hold and their constraints
  are in theory \<open>Tables\<close>. A table and an index share one name space; a table that another one
  references cannot be dropped; the indexes of a table go with it.
\<close>

record catalog =
  cat_tables :: "(string \<times> string list) list"
  cat_indexes :: "(string \<times> string) list"

definition relation_names :: "catalog \<Rightarrow> string set" where
  "relation_names c = set (map fst (cat_tables c)) \<union> set (map fst (cat_indexes c))"

datatype ddl = Create_Table string "string list" | Create_Index string string | Drop_Table string

fun run_ddl :: "ddl \<Rightarrow> catalog \<Rightarrow> exn + catalog" where
  "run_ddl (Create_Table t refs) c =
     (if t \<in> relation_names c then Inl (SqlError ''42P07'' t)
      else if \<not> list_all (\<lambda>r. r \<in> set (map fst (cat_tables c)) \<or> r = t) refs then Inl (SqlError ''42P01'' t)
      else Inr (c\<lparr>cat_tables := (t, refs) # cat_tables c\<rparr>))"
| "run_ddl (Create_Index i t) c =
     (if t \<notin> set (map fst (cat_tables c)) then Inl (SqlError ''42P01'' t)
      else if i \<in> relation_names c then Inl (SqlError ''42P07'' i)
      else Inr (c\<lparr>cat_indexes := (i, t) # cat_indexes c\<rparr>))"
| "run_ddl (Drop_Table t) c =
     (if t \<notin> set (map fst (cat_tables c)) then Inl (SqlError ''42P01'' t)
      else if list_ex (\<lambda>(u, refs). u \<noteq> t \<and> t \<in> set refs) (cat_tables c) then Inl (SqlError ''2BP01'' t)
      else Inr (c\<lparr>cat_tables := filter (\<lambda>e. fst e \<noteq> t) (cat_tables c),
                  cat_indexes := filter (\<lambda>e. snd e \<noteq> t) (cat_indexes c)\<rparr>))"

fun run_ddls :: "ddl list \<Rightarrow> catalog \<Rightarrow> exn + catalog" where
  "run_ddls [] c = Inr c"
| "run_ddls (d # ds) c = (case run_ddl d c of Inl e \<Rightarrow> Inl e | Inr c' \<Rightarrow> run_ddls ds c')"

definition upgrade :: "ddl list" where
  "upgrade =
     [Create_Table ''api_keys'' [], Create_Index ''uq_api_keys_prefix'' ''api_keys'',
      Create_Table ''upload_sessions'' [''api_keys''],
      Create_Index ''uq_upload_sessions_object_key'' ''upload_sessions'',
      Create_Index ''ix_upload_sessions_expiry'' ''upload_sessions'',
      Create_Table ''ocr_jobs'' [''api_keys'', ''upload_sessions''],
      Create_Index ''uq_ocr_jobs_api_key_idempotency'' ''ocr_jobs'',
      Create_Index ''ix_ocr_jobs_owner_created'' ''ocr_jobs'', Create_Index ''ix_ocr_jobs_cleanup'' ''ocr_jobs'',
      Create_Table ''ocr_job_attempts'' [''ocr_jobs''],
      Create_Table ''ocr_job_pages'' [''ocr_jobs''], Create_Index ''ix_ocr_job_pages_claim'' ''ocr_job_pages'',
      Create_Table ''ocr_artifacts'' [''ocr_jobs''], Create_Index ''ix_ocr_artifacts_job'' ''ocr_artifacts'',
      Create_Table ''outbox_events'' [], Create_Index ''ix_outbox_events_unpublished'' ''outbox_events'',
      Create_Table ''job_events'' [''ocr_jobs'']]"

definition downgrade :: "ddl list" where
  "downgrade = map Drop_Table
     [''job_events'', ''outbox_events'', ''ocr_artifacts'', ''ocr_job_pages'', ''ocr_job_attempts'', ''ocr_jobs'',
      ''upload_sessions'', ''api_keys'']"

text \<open>
  In any database whose own relations have other names and do not refer to the tables of the program, the
  statements do what they do in an empty one: \<open>beside\<close> puts two catalogs together.
\<close>

fun names_of :: "ddl \<Rightarrow> string list" where
  "names_of (Create_Table t refs) = t # refs"
| "names_of (Create_Index i t) = [i, t]"
| "names_of (Drop_Table t) = [t]"

definition beside :: "catalog \<Rightarrow> catalog \<Rightarrow> catalog" where
  "beside c d = \<lparr>cat_tables = cat_tables c @ cat_tables d, cat_indexes = cat_indexes c @ cat_indexes d\<rparr>"

definition empty_catalog :: catalog where
  "empty_catalog = \<lparr>cat_tables = [], cat_indexes = []\<rparr>"

lemma beside_empty [simp]: "beside empty_catalog c = c"
  by (simp add: beside_def empty_catalog_def)

definition apart :: "string set \<Rightarrow> catalog \<Rightarrow> bool" where
  "apart names c \<longleftrightarrow> names \<inter> relation_names c = {} \<and> (\<forall>(t, refs) \<in> set (cat_tables c). names \<inter> set refs = {}) \<and>
     (\<forall>(i, t) \<in> set (cat_indexes c). t \<notin> names)"

lemma apart_free:
  assumes "apart names c" and "t \<in> names"
  shows "t \<notin> fst ` set (cat_tables c)" "t \<notin> fst ` set (cat_indexes c)"
    "\<not> list_ex (\<lambda>(u, refs). u \<noteq> t \<and> t \<in> set refs) (cat_tables c)"
    "filter (\<lambda>e. fst e \<noteq> t) (cat_tables c) = cat_tables c" "filter (\<lambda>e. snd e \<noteq> t) (cat_indexes c) = cat_indexes c"
  using assms by (auto simp: apart_def relation_names_def list_ex_iff filter_id_conv)

lemma run_ddl_beside:
  assumes apart: "apart names d" and names: "set (names_of x) \<subseteq> names"
  shows "run_ddl x (beside c d) = (case run_ddl x c of Inl e \<Rightarrow> Inl e | Inr c' \<Rightarrow> Inr (beside c' d))"
proof -
  have relations: "relation_names (beside c d) = relation_names c \<union> relation_names d"
    by (auto simp: relation_names_def beside_def)
  have free: "t \<notin> relation_names d" if "t \<in> names" for t using apart that by (auto simp: apart_def)
  note frame = apart_free [OF apart] free
  show ?thesis
  proof (cases x)
    case (Create_Table t refs)
    have "list_all (\<lambda>r. r \<in> set (map fst (cat_tables (beside c d))) \<or> r = t) refs \<longleftrightarrow>
        list_all (\<lambda>r. r \<in> set (map fst (cat_tables c)) \<or> r = t) refs"
      using names frame(1) unfolding Create_Table by (auto simp: list_all_iff beside_def) (meson frame(1) subsetD)
    then show ?thesis using names frame unfolding Create_Table by (simp add: relations) (simp add: beside_def)
  next
    case (Create_Index i t)
    then show ?thesis using names frame by (simp add: relations) (auto simp: beside_def image_Un)
  next
    case (Drop_Table t)
    then show ?thesis using names frame by (simp add: beside_def)
  qed
qed

lemma run_ddls_beside:
  assumes apart: "apart names d"
  shows "\<Union>(set (map (set \<circ> names_of) xs)) \<subseteq> names \<Longrightarrow>
    run_ddls xs (beside c d) = (case run_ddls xs c of Inl e \<Rightarrow> Inl e | Inr c' \<Rightarrow> Inr (beside c' d))"
  by (induction xs arbitrary: c) (auto simp: run_ddl_beside [OF apart] split: sum.split)

text \<open>The migration succeeds and makes the eight tables; going down again restores the catalog.\<close>

definition own_names :: "string set" where
  "own_names = \<Union>(set (map (set \<circ> names_of) upgrade))"

lemma downgrade_names: "\<Union>(set (map (set \<circ> names_of) (upgrade @ downgrade))) \<subseteq> own_names"
  unfolding own_names_def downgrade_def upgrade_def by auto

lemma upgrade_tables:
  assumes "apart own_names c"
  obtains c' where "run_ddls upgrade c = Inr c'" "length (cat_tables c') = 8 + length (cat_tables c)"
proof -
  have "run_ddls upgrade (beside empty_catalog c) = (case run_ddls upgrade empty_catalog of Inl e \<Rightarrow> Inl e | Inr c' \<Rightarrow> Inr (beside c' c))"
    by (rule run_ddls_beside [OF assms]) (simp add: own_names_def)
  moreover have "case run_ddls upgrade empty_catalog of Inl e \<Rightarrow> False | Inr c' \<Rightarrow> length (cat_tables c') = 8" by code_simp
  then obtain c0 where "run_ddls upgrade empty_catalog = Inr c0" "length (cat_tables c0) = 8"
    by (auto split: sum.splits)
  ultimately show thesis using that [of "beside c0 c"] by (simp add: beside_def [of c0])
qed

lemma downgrade_restores:
  assumes "apart own_names c"
  shows "run_ddls (upgrade @ downgrade) c = Inr c"
proof -
  have "run_ddls (upgrade @ downgrade) (beside empty_catalog c) =
      (case run_ddls (upgrade @ downgrade) empty_catalog of Inl e \<Rightarrow> Inl e | Inr c' \<Rightarrow> Inr (beside c' c))"
    by (rule run_ddls_beside [OF assms downgrade_names])
  moreover have "run_ddls (upgrade @ downgrade) empty_catalog = Inr empty_catalog" by code_simp
  ultimately show ?thesis by simp
qed

end
