(* ===== verification/Container_Examples.thy ===== *)
theory Container_Examples
  imports Container_Laws
begin

text \<open>
  A runtime whose libraries do nothing, one that counts its resources, and settings of a production
  deployment, with the answers that the theorems on the HTTP interface and the container give there.
\<close>

section \<open>Libraries\<close>

definition silent_client :: "'w http_client" where
  "silent_client =
     \<lparr>http_post = (\<lambda>url hs body. raise_exc TimeoutError), http_get = (\<lambda>url hs. raise_exc TimeoutError),
      http_put = (\<lambda>url hs data. raise_exc TimeoutError)\<rparr>"

definition silent_s3 :: "'w s3_client" where
  "silent_s3 =
     \<lparr>s3_generate_presigned_url = (\<lambda>n kvs ttl. ret ''url''), s3_head_object = (\<lambda>b k. raise_exc TimeoutError),
      s3_get_object = (\<lambda>b k. raise_exc TimeoutError), s3_put_object = (\<lambda>b k d t m. ret ()),
      s3_create_multipart_upload = (\<lambda>kvs. raise_exc TimeoutError), s3_complete_multipart_upload = (\<lambda>b k u ps. ret ()),
      s3_delete_object = (\<lambda>b k. ret ()), s3_abort_multipart_upload = (\<lambda>b k u. ret ())\<rparr>"

definition silent_files :: "'w files" where
  "silent_files =
     \<lparr>f_read = (\<lambda>p. raise_exc FileNotFoundError), f_write = (\<lambda>p b. ret ()), f_replace = (\<lambda>p q. ret ()),
      f_exists = (\<lambda>p. ret False), f_mkdir = (\<lambda>p. ret ()), f_rmtree = (\<lambda>p. ret ()), f_resolve = ret\<rparr>"

text \<open>Opening and closing, given what a change of the open resources does to the world.\<close>

definition backing_with :: "(string \<Rightarrow> ('w, unit) op) \<Rightarrow> (string \<Rightarrow> ('w, unit) op) \<Rightarrow> 'w backing" where
  "backing_with start stop =
     \<lparr>bk_create_pool = (\<lambda>u n. start ''pool''), bk_close_pool = stop ''pool'', bk_open_http = start ''http'',
      bk_close_http = stop ''http'', bk_http = silent_client,
      bk_open_s3 = (\<lambda>s. bind_prog (start ''s3'') (\<lambda>_. ret silent_s3)), bk_close_s3 = stop ''s3'',
      bk_start_producer = (\<lambda>b c. start ''producer''), bk_stop_producer = stop ''producer'',
      bk_send = (\<lambda>t v k. ret ()), bk_partitions = (\<lambda>t. ret None), bk_fetchval = (\<lambda>q. ret (JInt 1)),
      bk_start_task = (\<lambda>m. start ''task''), bk_request_cancel = ret (), bk_await_task = stop ''task'', bk_acquire = ret (), bk_release = ret (),
      bk_try_lock = (\<lambda>n. ret False), bk_unlock = (\<lambda>n. ret ()), bk_files = silent_files,
      bk_read_text = (\<lambda>p. raise_exc FileNotFoundError), bk_make_temp = ret [''tmp''], bk_path_variable = ret ''/bin'',
      bk_spawn = (\<lambda>a d e. ret ()), bk_communicate = (\<lambda>t. ret (1, [])), bk_kill = ret (), bk_uuid4 = ret 4,
      bk_monotonic = ret 0, bk_wall = ret 0, bk_sleep = (\<lambda>t. ret ()), bk_log = (\<lambda>n b v. ret ()),
      bk_validate = (\<lambda>v. Inl KeyError), bk_sha256 = (\<lambda>d. ''digest''), bk_pbkdf2 = (\<lambda>p s. p @ s), bk_jsonb = Some,
      bk_poll_fuel = 3\<rparr>"

definition counted_backing :: "string list db_scheme backing" where
  "counted_backing =
     backing_with (\<lambda>r w. (Done (), db.more_update (\<lambda>rs. r # rs) w)) (\<lambda>r w. (Done (), db.more_update tl w))"

definition memory_storage :: "'w object_storage" where
  "memory_storage = s3_adapter (\<lambda>d. ''digest'')
     \<lparr>s3_client = silent_s3, s3_store_bucket = ''b'', s3_presign_ttl = 60, s3_multipart_threshold = 16, s3_part_size = 8\<rparr>"

section \<open>Requests\<close>

definition memory_api :: "mem api_env" where
  "memory_api = container_api (memory_container (\<lambda>d. ''digest'') (ret False) default_settings) (ret False)
     (\<lambda>c. ret ()) (\<lambda>call. []) (\<lambda>e. exn_name e)"

lemma memory_api_sel:
  "api_ports memory_api = mem_ports (\<lambda>d. ''digest'') magic_validate passthrough_prepare
     (fake_recognize (\<lambda>d. ''digest'') 0 (Some ''fake-visualization''))"
  "api_settings memory_api = default_settings" "api_text memory_api = exn_name"
  "api_authenticate memory_api = development_authenticate ''development''"
  by (simp_all add: memory_api_def container_api_def memory_container_def default_settings_def)

lemma memory_clock:
  "working (p_utc_now (api_ports memory_api))" "working (p_uuid7 (api_ports memory_api))"
  by (simp_all add: memory_api_sel mem_ports_def working_def mem_utc_now_def mem_uuid7_def)

lemma every_request_answered_witness:
  "\<exists>a w'. answer memory_api (Some ''trace-1'') None Live empty_mem = (Done a, w') \<and>
     (\<exists>rid. given_identifier (Some ''trace-1'') rid \<and> proper_answer rid a)"
proof -
  obtain a w' where run: "answer memory_api (Some ''trace-1'') None Live empty_mem = (Done a, w')"
    by (simp add: answer_def request_identifier_def handled_result_def dispatch_def reply_def success_def
        memory_api_sel mem_ports_def mem_utc_now_def bind_prog_def catch_prog_def of_option_def
        envelope_success_def make_envelope_def envelope_semantics_def operation_succeeded_def utf8_bytes_def)
  with every_request_answered [OF memory_clock run] show ?thesis by auto
qed

definition foreign_mem :: mem where
  "foreign_mem = empty_mem\<lparr>m_jobs := [new_job ''owner'' 7 ''req'' (JDict []) None 11 5 5]\<rparr>"

lemma foreign_jobs_hidden_witness:
  "answer memory_api (Some ''trace-1'') None (CancelJob 11) foreign_mem =
    (Done \<lparr>ans_status = 200,
       ans_result = Reply \<lparr>env_internal_code = USER_UNAUTHORIZED, env_message = ''BusinessError'',
         env_data = None, env_timestamp = 0, env_request_id = ''trace-1'', env_error_reason = Some ''user_unauthorized''\<rparr>,
       ans_request_id = Some ''trace-1''\<rparr>, foreign_mem\<lparr>m_clock := 1\<rparr>)"
proof -
  have "request_identifier (api_ports memory_api) (Some ''trace-1'') foreign_mem = (Done ''trace-1'', foreign_mem)"
    by (simp add: request_identifier_def)
  moreover have "authenticated_owner memory_api None foreign_mem = (Done ''development'', foreign_mem)"
    by (simp add: authenticated_owner_def memory_api_sel default_settings_def)
  moreover have "p_jobs_get (api_ports memory_api) 11 foreign_mem =
      (Done (Some (new_job ''owner'' 7 ''req'' (JDict []) None 11 5 5)), foreign_mem)"
    by (simp add: memory_api_sel mem_ports_def mem_jobs_get_def foreign_mem_def lookup_by_def new_job_def)
  moreover have "p_utc_now (api_ports memory_api) foreign_mem = (Done 0, foreign_mem\<lparr>m_clock := 1\<rparr>)"
    by (simp add: memory_api_sel mem_ports_def mem_utc_now_def foreign_mem_def empty_mem_def)
  moreover have "job_owner_id (new_job ''owner'' 7 ''req'' (JDict []) None 11 5 5) \<noteq> ''development''"
    by (simp add: new_job_def)
  moreover have "api_text memory_api unauthorized = ''BusinessError''"
    by (simp add: memory_api_sel unauthorized_def)
  ultimately show ?thesis
    using foreign_jobs_hidden [of memory_api "Some ''trace-1''" foreign_mem "''trace-1''" foreign_mem None
        "''development''" foreign_mem 11 _ foreign_mem "CancelJob 11"]
    by simp
qed

section \<open>Production\<close>

definition production_settings :: settings where
  "production_settings = default_settings\<lparr>
     environment := ''production'', database_url := Some ''postgresql+asyncpg://db/ocr'',
     storage_service_url := Some ''http://storage:8080'',
     storage_service_token := Some ''0123456789abcdef0123456789abcdef'',
     engine_adapter := ''paddle'', paddleocr_vl_base_url := Some ''http://engine:8080'',
     sandbox_exchange_dir := Some ''/exchange'', api_key_pepper := Some ''fedcba9876543210fedcba9876543210'',
     logging_service_url := Some ''http://logging:8080'',
     logging_service_token := Some ''00112233445566778899aabbccddeeff'',
     kafka_bootstrap_servers := Some ''kafka:9092''\<rparr>"

definition accepted_settings :: settings where
  "accepted_settings = production_settings\<lparr>database_url := Some ''postgresql://db/ocr'',
     engine_adapter := ''paddleocr-vl'', repository_adapter := ''postgres'',
     storage_adapter := ''storage-service'', preprocessor_adapter := ''sandbox'',
     require_gateway_identity := True\<rparr>"

lemma production_settings_accepted: "load_settings production_settings = Inr accepted_settings"
  by code_simp

lemma counted_backing_sel:
  "bk_create_pool counted_backing u n = (\<lambda>w. (Done (), db.more_update (\<lambda>rs. ''pool'' # rs) w))"
  "bk_open_http counted_backing = (\<lambda>w. (Done (), db.more_update (\<lambda>rs. ''http'' # rs) w))"
  "bk_start_producer counted_backing b c = (\<lambda>w. (Done (), db.more_update (\<lambda>rs. ''producer'' # rs) w))"
  "bk_start_task counted_backing m = (\<lambda>w. (Done (), db.more_update (\<lambda>rs. ''task'' # rs) w))"
  "bk_open_s3 counted_backing s = (\<lambda>w. (Done silent_s3, db.more_update (\<lambda>rs. ''s3'' # rs) w))"
  "bk_close_pool counted_backing = (\<lambda>w. (Done (), db.more_update tl w))"
  "bk_close_http counted_backing = (\<lambda>w. (Done (), db.more_update tl w))"
  "bk_close_s3 counted_backing = (\<lambda>w. (Done (), db.more_update tl w))"
  "bk_stop_producer counted_backing = (\<lambda>w. (Done (), db.more_update tl w))"
  "bk_request_cancel counted_backing = ret ()" "bk_await_task counted_backing = (\<lambda>w. (Done (), db.more_update tl w))"
  by (simp_all add: counted_backing_def backing_with_def bind_prog_def fun_eq_iff)


lemma runtime_closes_connections_witness:
  "balanced db.more (with_runtime counted_backing accepted_settings True (\<lambda>c. ret ())) \<and>
   balanced db.more (with_retention counted_backing accepted_settings (\<lambda>env. raise_exc TimeoutError))"
proof (rule runtime_closes_connections)
  show "accounted db.more counted_backing"
    by (simp add: accounted_def counted_backing_sel opens_def closes_def)
qed (simp_all add: balanced_def)

lemma memory_storage_raises: "storage_raises memory_storage"
  by (auto simp: storage_raises_def memory_storage_def s3_adapter_def silent_s3_def s3_create_upload_target_def
      s3_complete_upload_def s3_stat_def s3_get_bytes_def s3_create_download_url_def is_not_found_def
      response_code_def bind_prog_def catch_prog_def raises_only_def wrapped_def split: option.splits if_splits)

lemma requests_are_controlled_witness:
  "\<exists>a w'. answer (container_api (runtime_container counted_backing accepted_settings memory_storage ''pepper'' True
      (runtime_ports counted_backing accepted_settings memory_storage (\<lambda>u j. ret []) (\<lambda>i n opts r. raise_exc EngineError)))
      (ret False) (\<lambda>c. ret ()) (\<lambda>call. []) (\<lambda>e. ''error'')) (Some ''trace-1'') (Some ''Basic x'') (GetJob 11)
      (db.extend empty_db []) = (Done a, w') \<and> ans_status a = 200"
proof -
  let ?bk = counted_backing and ?s = accepted_settings
  let ?st = "memory_storage :: string list db_scheme object_storage"
  let ?env = "container_api (runtime_container ?bk ?s ?st ''pepper'' True
      (runtime_ports ?bk ?s ?st (\<lambda>u j. ret []) (\<lambda>i n opts r. raise_exc EngineError)))
      (ret False) (\<lambda>c. ret ()) (\<lambda>call. []) (\<lambda>e. ''error'')"
  have sel: "api_ports ?env = runtime_ports ?bk ?s ?st (\<lambda>u j. ret []) (\<lambda>i n opts r. raise_exc EngineError)"
    by (simp add: container_api_def runtime_container_def)
  have "dispatch ?env ''trace-1'' (Some ''Basic x'') (GetJob 11) w = (Raised (user_error ''invalid_authorization_scheme''), w)" for w
    by (simp add: dispatch_def authenticated_owner_def partition_space_def bind_prog_def)
  moreover obtain v w' where "handle_error ?env ''trace-1'' (user_error ''invalid_authorization_scheme'')
      (db.extend empty_db []) = (Done v, w')"
    by (simp add: handle_error_def failure_def sel runtime_ports_sel runtime_container_def user_error_def bind_prog_def of_option_def
        envelope_failure_def make_envelope_def envelope_semantics_def container_api_def clock_now_def)
  ultimately obtain a where run: "answer ?env (Some ''trace-1'') (Some ''Basic x'') (GetJob 11) (db.extend empty_db []) = (Done a, w')"
    by (simp add: answer_def request_identifier_def handled_result_def bind_prog_def catch_prog_def)
  have "ans_status a = 200"
    by (rule requests_are_controlled [OF memory_storage_raises _ _ run]) simp_all
  with run show ?thesis by blast
qed

text \<open>A lock that is granted at once, a dispatcher that finds nothing; the world says who holds the lock.\<close>

definition sample_task :: "bool outbox_task" where
  "sample_task =
     \<lparr>ot_acquire = ret (), ot_release = ret (), ot_try_lock = (\<lambda>n w. (Done (\<not> w), True)),
      ot_unlock = (\<lambda>n w. (Done (), False)), ot_dispatch = (\<lambda>n. ret 0), ot_sleep = (\<lambda>t. ret ()),
      ot_error = (\<lambda>e kvs. ret ())\<rparr>"

lemma outbox_needs_lock_witness:
  "run_outbox (sample_task\<lparr>ot_dispatch := (\<lambda>m w. if w then (Done 0, w) else (Raised QueueUnavailableError, w))\<rparr>) 2 3 =
   run_outbox sample_task 2 3"
  by (rule outbox_needs_lock [where held = "\<lambda>w. w"]) (simp_all add: sample_task_def keeps_def)

end
