(* ===== verification/Event_Stream.thy ===== *)
theory Event_Stream
  imports Adapter_Errors "HOL-Library.Sublist"
begin

text \<open>
  The event stream of a job against its event log: what a client receives is a gapless part of the log,
  in order, from the identifier it asked for, while other tasks append to the log at every await; a
  stream of a finished job ends; a client that reads a frame gets back the envelope of the event. The
  locale \<open>event_log\<close> is the contract of a repository's \<open>list_after\<close>; both repositories satisfy it.
\<close>

section \<open>Logs\<close>

definition ordered :: "job_event list \<Rightarrow> bool" where
  "ordered evs = sorted_wrt (\<lambda>x y. ev_sequence x < ev_sequence y) evs"

definition after :: "int \<Rightarrow> job_event list \<Rightarrow> job_event list" where
  "after n evs = filter (\<lambda>ev. n < ev_sequence ev) evs"

text \<open>A page of the events after \<open>n\<close>: some of the first, and none only when there are none.\<close>

definition page_of :: "int \<Rightarrow> job_event list \<Rightarrow> job_event list \<Rightarrow> bool" where
  "page_of n evs entire \<longleftrightarrow> prefix evs (after n entire) \<and> (evs = [] \<longrightarrow> after n entire = [])"

definition grown :: "job_event list \<Rightarrow> job_event list \<Rightarrow> bool" where
  "grown old new \<longleftrightarrow> prefix old new \<and> (ordered old \<longrightarrow> ordered new)"

lemma grown_refl [simp]: "grown evs evs"
  and grown_trans: "grown a b \<Longrightarrow> grown b c \<Longrightarrow> grown a c"
  by (auto simp: grown_def intro: prefix_order.trans)

lemma prefix_after: "prefix xs ys \<Longrightarrow> prefix (after n xs) (after n ys)"
  by (auto simp: after_def prefix_def)

text \<open>The position of a stream that has sent \<open>evs\<close>.\<close>

definition position :: "int \<Rightarrow> job_event list \<Rightarrow> int" where
  "position start evs = (if evs = [] then start else ev_sequence (last evs))"

lemma after_position:
  assumes sorted: "ordered entire" and sent: "prefix evs (after start entire)"
  shows "after start entire = evs @ after (position start evs) entire"
proof (cases "evs = []")
  case False
  let ?p = "ev_sequence (last evs)"
  obtain rest where rest: "after start entire = evs @ rest" using sent by (auto simp: prefix_def)
  have "ordered (after start entire)" using sorted by (simp add: ordered_def after_def sorted_wrt_filter)
  then have ord: "sorted_wrt (\<lambda>x y. ev_sequence x < ev_sequence y) (evs @ rest)"
    by (simp add: ordered_def rest)
  have "last evs \<in> set (after start entire)" using False rest by simp
  then have "start < ?p" by (simp add: after_def)
  then have "after ?p entire = filter (\<lambda>ev. ?p < ev_sequence ev) (after start entire)"
    unfolding after_def by (auto intro: filter_cong)
  also have "\<dots> = filter (\<lambda>ev. ?p < ev_sequence ev) evs @ filter (\<lambda>ev. ?p < ev_sequence ev) rest"
    by (simp add: rest)
  also have "filter (\<lambda>ev. ?p < ev_sequence ev) evs = []"
  proof -
    have "evs = butlast evs @ [last evs]" using False by simp
    then have "\<forall>x \<in> set evs. ev_sequence x \<le> ?p"
      using ord False by (metis Un_iff list.set_intros(1) order.order_iff_strict set_ConsD set_append
          sorted_wrt_append empty_iff list.set(1))
    then show ?thesis by (auto simp: filter_empty_conv)
  qed
  also have "filter (\<lambda>ev. ?p < ev_sequence ev) rest = rest"
    using ord False by (auto simp: filter_id_conv sorted_wrt_append)
  finally show ?thesis using False rest by (simp add: position_def)
qed (simp add: position_def)

section \<open>Repositories\<close>

locale event_log =
  fixes list_after :: "uuid \<Rightarrow> int \<Rightarrow> ('w, job_event list) op" and log :: "uuid \<Rightarrow> 'w \<Rightarrow> job_event list"
  assumes reads: "list_after jid n w = (r, w') \<Longrightarrow> w' = w"
    and pages: "list_after jid n w = (Done evs, w') \<Longrightarrow> page_of n evs (log jid w)"

definition mem_event_log :: "uuid \<Rightarrow> mem \<Rightarrow> job_event list" where
  "mem_event_log jid w = events_of w jid"

interpretation mem_events: event_log mem_events_list_after mem_event_log
  by unfold_locales (auto simp: mem_events_list_after_def mem_event_log_def page_of_def after_def)

text \<open>The rows of a job in the order of their numbers, those that can be decoded.\<close>

definition decoded :: "event_row \<Rightarrow> job_event list" where
  "decoded r = (case event_of_row r of Inr ev \<Rightarrow> [ev] | Inl e \<Rightarrow> [])"

definition sql_log :: "uuid \<Rightarrow> 'z db_scheme \<Rightarrow> job_event list" where
  "sql_log jid w = concat (map decoded (sort_key er_sequence (filter (\<lambda>r. er_job_id r = jid) (db_events w))))"

lemma decoded_sequence: "ev \<in> set (decoded r) \<Longrightarrow> ev_sequence ev = er_sequence r"
  by (auto simp: decoded_def event_of_row_def bind_sum_def Let_def split: sum.splits)

lemma after_decoded: "after n (concat (map decoded rows)) = concat (map decoded (filter (\<lambda>r. n < er_sequence r) rows))"
proof (induction rows)
  case (Cons r rows)
  have "after n (decoded r) = (if n < er_sequence r then decoded r else [])"
    using decoded_sequence [of _ r] by (auto simp: after_def filter_empty_conv filter_id_conv)
  with Cons show ?case by (simp add: after_def)
qed (simp add: after_def)

lemma decoded_all: "map_sum event_of_row rows = Inr evs \<Longrightarrow> concat (map decoded rows) = evs"
  by (induction rows arbitrary: evs) (auto simp: decoded_def bind_sum_def split: sum.splits)

lemma map_sum_length: "map_sum f xs = Inr ys \<Longrightarrow> length ys = length xs"
  by (induction xs arbitrary: ys) (auto simp: bind_sum_def split: sum.splits)

interpretation sql_events: event_log sql_events_list_after sql_log
proof
  fix jid n and w w' :: "'z db_scheme" and r evs
  let ?rows = "filter (\<lambda>r. n < er_sequence r) (sort_key er_sequence (filter (\<lambda>r. er_job_id r = jid) (db_events w)))"
  have rows: "sort_key er_sequence (filter (\<lambda>r. er_job_id r = jid \<and> n < er_sequence r) (db_events w)) = ?rows"
    by (simp add: filter_sort conj_commute)
  show "sql_events_list_after jid n w = (r, w') \<Longrightarrow> w' = w"
    by (auto simp: sql_events_list_after_def connected_def sql_get_def bind_prog_def lift_sum_def
        split: if_splits sum.splits)
  assume "sql_events_list_after jid n w = (Done evs, w')"
  then have read: "map_sum event_of_row (take 100 ?rows) = Inr evs"
    by (auto simp: sql_events_list_after_def connected_def sql_get_def bind_prog_def lift_sum_def rows
        split: if_splits sum.splits)
  have "after n (sql_log jid w) = concat (map decoded (take 100 ?rows @ drop 100 ?rows))"
    by (simp add: sql_log_def after_decoded)
  also have "\<dots> = evs @ concat (map decoded (drop 100 ?rows))"
    using decoded_all [OF read] by (simp only: map_append concat_append)
  finally have "after n (sql_log jid w) = evs @ concat (map decoded (drop 100 ?rows))" .
  moreover have "evs = [] \<Longrightarrow> ?rows = []" using map_sum_length [OF read] by (auto simp: min_def split: if_splits)
  ultimately show "page_of n evs (sql_log jid w)" by (auto simp: page_of_def)
qed

section \<open>Streams\<close>

text \<open>The chunks that carry a list of events, with heartbeats between them.\<close>

inductive delivered :: "job_event list \<Rightarrow> string list \<Rightarrow> bool" where
  nothing: "delivered [] []"
| heartbeat: "delivered evs cs \<Longrightarrow> delivered evs (cs @ [heartbeat_chunk])"
| event: "delivered evs cs \<Longrightarrow>
    envelope_success t (job_event_json ev) (ev_request_id ev) operation_succeeded = Some e \<Longrightarrow>
    delivered (evs @ [ev]) (cs @ [event_chunk ev e])"

text \<open>
  What an await may do to the log and to the connection: append events, and nothing is sent. A
  \<open>yield\<close> sends its chunk, or is cut off before or after.
\<close>

definition log_quiet :: "('w \<Rightarrow> job_event list) \<Rightarrow> ('w \<Rightarrow> string list) \<Rightarrow> ('w, 'a) op \<Rightarrow> bool" where
  "log_quiet log sent m \<longleftrightarrow> (\<forall>w. grown (log w) (log (snd (m w))) \<and> sent (snd (m w)) = sent w)"

definition sends :: "('w \<Rightarrow> job_event list) \<Rightarrow> ('w \<Rightarrow> string list) \<Rightarrow> (string \<Rightarrow> ('w, unit) op) \<Rightarrow> bool" where
  "sends log sent send \<longleftrightarrow> (\<forall>c w r w'. send c w = (r, w') \<longrightarrow> grown (log w) (log w') \<and>
     (sent w' = sent w @ [c] \<or> r \<noteq> Done () \<and> sent w' = sent w))"

definition waits :: "('w \<Rightarrow> job_event list) \<Rightarrow> int \<Rightarrow> ('w, job_event list) op \<Rightarrow> bool" where
  "waits log n m \<longleftrightarrow> (\<forall>w evs w'. m w = (Done evs, w') \<longrightarrow> prefix evs (after n (log w')))"

lemma log_quietD: "log_quiet log sent m \<Longrightarrow> m w = (r, w') \<Longrightarrow> grown (log w) (log w') \<and> sent w' = sent w"
  unfolding log_quiet_def by (metis snd_conv)

lemma log_quiet_ret [intro!]: "log_quiet log sent (ret x)"
  and log_quiet_raise [intro!]: "log_quiet log sent (raise_exc e)"
  and log_quiet_diverge [intro!]: "log_quiet log sent diverge"
  by (simp_all add: log_quiet_def diverge_def)

lemma log_quiet_bind [intro!]: "log_quiet log sent m \<Longrightarrow> (\<And>x. log_quiet log sent (k x)) \<Longrightarrow> log_quiet log sent (bind_prog m k)"
  unfolding log_quiet_def bind_prog_def by (auto split: prod.split outcome.split intro: grown_trans) (metis grown_trans snd_conv)+

lemma log_quiet_catch [intro!]: "log_quiet log sent m \<Longrightarrow> (\<And>e. log_quiet log sent (h e)) \<Longrightarrow> log_quiet log sent (catch_prog m h)"
  unfolding log_quiet_def catch_prog_def by (auto split: prod.split outcome.split) (metis grown_trans snd_conv)+

lemma quiet_read: "(\<And>w r w'. m w = (r, w') \<Longrightarrow> w' = w) \<Longrightarrow> log_quiet log sent m"
  unfolding log_quiet_def by (metis grown_refl prod.collapse)

lemma log_quiet_lift [intro!]: "log_quiet log sent (lift_sum r)"
  by (cases r) auto

lemma quiet_owned: "log_quiet log sent (p_jobs_get ps jid) \<Longrightarrow> log_quiet log sent (owned_job ps jid owner)"
  by (auto simp: owned_job_def service_database_def split: option.split)

definition streamed ::
    "('w \<Rightarrow> job_event list) \<Rightarrow> ('w \<Rightarrow> string list) \<Rightarrow> string list \<Rightarrow> int \<Rightarrow> job_event list \<Rightarrow> 'w \<Rightarrow> bool" where
  "streamed log sent earlier start evs w \<longleftrightarrow>
     ordered (log w) \<and> prefix evs (after start (log w)) \<and> (\<exists>cs. sent w = earlier @ cs \<and> delivered evs cs)"

lemma streamed_grown:
  "streamed log sent earlier start evs w \<Longrightarrow> grown (log w) (log w') \<Longrightarrow> sent w' = sent w \<Longrightarrow>
   streamed log sent earlier start evs w'"
  unfolding streamed_def grown_def using prefix_after prefix_order.trans by metis

text \<open>A state of the generator: what was sent, and where it goes on.\<close>

definition at_event ::
    "('w \<Rightarrow> job_event list) \<Rightarrow> ('w \<Rightarrow> string list) \<Rightarrow> string list \<Rightarrow> int \<Rightarrow> int \<Rightarrow> 'w \<Rightarrow> bool" where
  "at_event log sent earlier start seq w \<longleftrightarrow>
     (\<exists>evs. streamed log sent earlier start evs w \<and> seq = position start evs)"

definition streaming ::
    "('w \<Rightarrow> job_event list) \<Rightarrow> ('w \<Rightarrow> string list) \<Rightarrow> string list \<Rightarrow> int \<Rightarrow> 'w \<Rightarrow> bool" where
  "streaming log sent earlier start w \<longleftrightarrow> (\<exists>evs. streamed log sent earlier start evs w)"

lemma quiet_maintains:
  assumes "log_quiet log sent m"
  shows "maintains (streaming log sent earlier start) (at_event log sent earlier start seq) m
    (\<lambda>_. at_event log sent earlier start seq)"
proof (rule maintainsI)
  fix w r w'
  assume start: "streaming log sent earlier start w" "at_event log sent earlier start seq w" and run: "m w = (r, w')"
  have "streamed log sent earlier start evs w \<Longrightarrow> streamed log sent earlier start evs w'" for evs
    using log_quietD [OF assms run] by (blast intro: streamed_grown)
  then show "streaming log sent earlier start w' \<and> (\<forall>x. r = Done x \<longrightarrow> at_event log sent earlier start seq w')"
    using start by (auto simp: streaming_def at_event_def)
qed

text \<open>The page that was read continues what was sent.\<close>

definition continues ::
    "('w \<Rightarrow> job_event list) \<Rightarrow> ('w \<Rightarrow> string list) \<Rightarrow> string list \<Rightarrow> int \<Rightarrow> job_event list \<Rightarrow> job_event list \<Rightarrow> 'w \<Rightarrow> bool"
where
  "continues log sent earlier start evs pending w \<longleftrightarrow>
     streamed log sent earlier start evs w \<and> prefix (evs @ pending) (after start (log w))"

lemma continues_grown:
  "continues log sent earlier start evs pending w \<Longrightarrow> grown (log w) (log w') \<Longrightarrow> sent w' = sent w \<Longrightarrow>
   continues log sent earlier start evs pending w'"
  unfolding continues_def using streamed_grown prefix_after prefix_order.trans grown_def by metis

lemma quiet_continues:
  assumes "log_quiet log sent m" and "\<And>x w w'. m w = (Done x, w') \<Longrightarrow> P x"
  shows "maintains (streaming log sent earlier start) (continues log sent earlier start evs pending) m
    (\<lambda>x w. P x \<and> continues log sent earlier start evs pending w)"
proof (rule maintainsI)
  fix w r w'
  assume at: "continues log sent earlier start evs pending w" and run: "m w = (r, w')"
  then have "continues log sent earlier start evs pending w'"
    using log_quietD [OF assms(1) run] continues_grown by metis
  then show "streaming log sent earlier start w' \<and>
      (\<forall>x. r = Done x \<longrightarrow> P x \<and> continues log sent earlier start evs pending w')"
    using assms(2) run by (auto simp: streaming_def continues_def)
qed

lemma send_event_delivers:
  assumes clock: "log_quiet log sent (p_utc_now (api_ports env))" and send: "sends log sent (api_send env)"
  shows "maintains (streaming log sent earlier start) (continues log sent earlier start evs (ev # pending))
    (send_event env ev) (\<lambda>_. continues log sent earlier start (evs @ [ev]) pending)"
  unfolding send_event_def
proof (rule maintains_bind)
  show "maintains (streaming log sent earlier start) (continues log sent earlier start evs (ev # pending))
      (success (api_ports env) (ev_request_id ev) (job_event_json ev))
      (\<lambda>e w. (\<exists>t. envelope_success t (job_event_json ev) (ev_request_id ev) operation_succeeded = Some e) \<and>
         continues log sent earlier start evs (ev # pending) w)"
    unfolding success_def
  proof (rule quiet_continues)
    show "log_quiet log sent (bind_prog (p_utc_now (api_ports env)) (\<lambda>now. of_option (OtherError ''ValidationError'')
        (envelope_success now (job_event_json ev) (ev_request_id ev) operation_succeeded)))"
      using clock by (auto simp: of_option_def split: option.split)
  qed (auto simp: of_option_def elim!: bind_prog_cases split: option.splits)
next
  fix e
  show "maintains (streaming log sent earlier start)
      (\<lambda>w. (\<exists>t. envelope_success t (job_event_json ev) (ev_request_id ev) operation_succeeded = Some e) \<and>
         continues log sent earlier start evs (ev # pending) w)
      (api_send env (event_chunk ev e)) (\<lambda>_. continues log sent earlier start (evs @ [ev]) pending)"
  proof (rule maintainsI, elim conjE exE)
    fix w r w' t
    assume e: "envelope_success t (job_event_json ev) (ev_request_id ev) operation_succeeded = Some e"
      and at: "continues log sent earlier start evs (ev # pending) w"
      and run: "api_send env (event_chunk ev e) w = (r, w')"
    from run send have grown: "grown (log w) (log w')"
      and out: "sent w' = sent w @ [event_chunk ev e] \<or> r \<noteq> Done () \<and> sent w' = sent w"
      unfolding sends_def by blast+
    obtain cs where cs: "sent w = earlier @ cs" "delivered evs cs" and ord: "ordered (log w)"
      and pre: "prefix (evs @ ev # pending) (after start (log w))"
      using at by (auto simp: continues_def streamed_def)
    have pre': "prefix (evs @ ev # pending) (after start (log w'))"
      using pre grown prefix_after prefix_order.trans unfolding grown_def by metis
    have "streamed log sent earlier start (evs @ [ev]) w'" if "sent w' = sent w @ [event_chunk ev e]"
    proof -
      have "prefix (evs @ [ev]) (evs @ ev # pending)" by (simp add: prefix_def)
      then have "prefix (evs @ [ev]) (after start (log w'))" using pre' by (rule prefix_order.trans)
      moreover have "delivered (evs @ [ev]) (cs @ [event_chunk ev e])" using cs(2) e by (rule delivered.event)
      ultimately show ?thesis using that cs(1) ord grown by (auto simp: streamed_def grown_def)
    qed
    moreover have "streamed log sent earlier start evs w'" if "sent w' = sent w"
      using at grown that streamed_grown unfolding continues_def by metis
    ultimately show "streaming log sent earlier start w' \<and>
        (\<forall>x. r = Done x \<longrightarrow> continues log sent earlier start (evs @ [ev]) pending w')"
      using out pre' by (auto simp: streaming_def continues_def)
  qed
qed

lemma send_events_delivers:
  assumes "log_quiet log sent (p_utc_now (api_ports env))" and "sends log sent (api_send env)"
  shows "maintains (streaming log sent earlier start) (continues log sent earlier start evs pending)
    (send_events env pending) (\<lambda>_. streamed log sent earlier start (evs @ pending))"
proof (induction pending arbitrary: evs)
  case Nil
  show ?case unfolding send_events.simps by (rule maintains_ret) (simp add: continues_def)
next
  case (Cons ev pending)
  show ?case unfolding send_events.simps
    by (rule maintains_bind [OF send_event_delivers [OF assms]]) (use Cons.IH [of "evs @ [ev]"] in simp)
qed

section \<open>The generator\<close>

text \<open>
  What the generator relies on: between its awaits the log only grows, a \<open>yield\<close> sends its chunk, and
  \<open>wait_after\<close> returns a part of the log.
\<close>

definition stream_env ::
    "('w \<Rightarrow> job_event list) \<Rightarrow> ('w \<Rightarrow> string list) \<Rightarrow> uuid \<Rightarrow> 'w api_env \<Rightarrow> bool" where
  "stream_env log sent jid env \<longleftrightarrow>
     log_quiet log sent (p_utc_now (api_ports env)) \<and> log_quiet log sent (p_jobs_get (api_ports env) jid) \<and>
     log_quiet log sent (api_disconnected env) \<and> sends log sent (api_send env) \<and>
     (\<forall>n d. log_quiet log sent (api_wait_after env jid n d) \<and> waits log n (api_wait_after env jid n d))"

context event_log
begin

lemma pending_continues:
  assumes list: "p_events_list_after (api_ports env) = list_after" and env: "stream_env (log jid) sent jid env"
  shows "maintains (streaming (log jid) sent earlier start) (at_event (log jid) sent earlier start seq)
    (pending_events env jid seq)
    (\<lambda>pending w. \<exists>evs. continues (log jid) sent earlier start evs pending w \<and> seq = position start evs)"
proof (rule maintainsI)
  fix w r w'
  assume "at_event (log jid) sent earlier start seq w" and run: "pending_events env jid seq w = (r, w')"
  then obtain evs where evs: "streamed (log jid) sent earlier start evs w" "seq = position start evs"
    by (auto simp: at_event_def)
  have "log_quiet (log jid) sent (list_after jid seq)" by (rule quiet_read) (rule reads)
  then have "log_quiet (log jid) sent (pending_events env jid seq)"
    using env unfolding pending_events_def list stream_env_def by auto
  then have w': "streamed (log jid) sent earlier start evs w'"
    using log_quietD [of "log jid" sent "pending_events env jid seq" w r w'] run streamed_grown [OF evs(1)] by blast
  have "prefix (evs @ pending) (after start (log jid w'))" if "r = Done pending" for pending
  proof -
    have "prefix pending (after seq (log jid w'))"
      using run unfolding that pending_events_def list
    proof (cases rule: bind_prog_cases)
      case (Done found w1)
      then have "page_of seq found (log jid w)" "w1 = w" using pages reads by blast+
      with Done env show ?thesis
        by (auto simp: page_of_def stream_env_def waits_def split: if_splits)
    qed auto
    with after_position [of "log jid w'" evs start] w' evs(2) show ?thesis by (simp add: streamed_def)
  qed
  with w' evs(2) show "streaming (log jid) sent earlier start w' \<and> (\<forall>pending. r = Done pending \<longrightarrow>
      (\<exists>evs. continues (log jid) sent earlier start evs pending w' \<and> seq = position start evs))"
    by (auto simp: streaming_def continues_def)
qed

lemma stream_maintains:
  assumes list: "p_events_list_after (api_ports env) = list_after" and env: "stream_env (log jid) sent jid env"
  shows "maintains (streaming (log jid) sent earlier start) (at_event (log jid) sent earlier start seq)
    (event_stream env jid owner seq n) (\<lambda>_ _. True)"
proof (induction n arbitrary: seq)
  case (Suc n)
  let ?I = "streaming (log jid) sent earlier start" and ?at = "at_event (log jid) sent earlier start"
  have owned: "log_quiet (log jid) sent (owned_job (api_ports env) jid owner)"
    using env by (intro quiet_owned) (simp add: stream_env_def)
  have heartbeat: "maintains ?I (?at seq) (api_send env heartbeat_chunk) (\<lambda>_. ?at seq)"
  proof (rule maintainsI)
    fix w r w'
    assume "?at seq w" and run: "api_send env heartbeat_chunk w = (r, w')"
    then obtain evs cs where at: "ordered (log jid w)" "prefix evs (after start (log jid w))"
        "sent w = earlier @ cs" "delivered evs cs" "seq = position start evs"
      by (auto simp: at_event_def streamed_def)
    moreover have "grown (log jid w) (log jid w')" "sent w' = sent w @ [heartbeat_chunk] \<or> sent w' = sent w"
      using run env unfolding stream_env_def sends_def by blast+
    moreover have "delivered evs (cs @ [heartbeat_chunk])" using at(4) by (rule delivered.heartbeat)
    ultimately have "streamed (log jid) sent earlier start evs w'"
      unfolding streamed_def grown_def using prefix_after prefix_order.trans by (metis append.assoc)
    then show "?I w' \<and> (\<forall>x. r = Done x \<longrightarrow> ?at seq w')"
      using at(5) by (auto simp: streaming_def at_event_def)
  qed
  have stop: "maintains ?I P (ret x) (\<lambda>_ _. True)" for P and x :: unit
    by (rule maintains_ret) simp
  have idle: "maintains ?I (?at seq)
      (bind_prog (api_disconnected env) (\<lambda>gone.
       if gone then ret ()
       else bind_prog (owned_job (api_ports env) jid owner) (\<lambda>latest.
         if job_terminal latest then ret ()
         else bind_prog (api_send env heartbeat_chunk) (\<lambda>_. event_stream env jid owner seq n)))) (\<lambda>_ _. True)"
    using env
    by (auto simp: stream_env_def intro!: maintains_bind [OF quiet_maintains] owned stop
        maintains_bind [OF heartbeat] Suc.IH)
  have busy: "maintains ?I (\<lambda>w. \<exists>evs. continues (log jid) sent earlier start evs pending w \<and> seq = position start evs)
      (bind_prog (send_events env pending) (\<lambda>_.
       bind_prog (owned_job (api_ports env) jid owner) (\<lambda>latest.
       if final_event (last pending) latest then ret ()
       else event_stream env jid owner (ev_sequence (last pending)) n))) (\<lambda>_ _. True)"
    if "pending \<noteq> []" for pending
  proof (rule maintains_bind)
    have "maintains ?I (\<lambda>w. continues (log jid) sent earlier start evs pending w)
        (send_events env pending) (\<lambda>_. ?at (ev_sequence (last pending)))" for evs
      using env that
      by (intro maintains_weaken [OF send_events_delivers])
         (auto simp: stream_env_def at_event_def position_def intro!: exI [of _ "evs @ pending"])
    then show "maintains ?I (\<lambda>w. \<exists>evs. continues (log jid) sent earlier start evs pending w \<and> seq = position start evs)
        (send_events env pending) (\<lambda>_. ?at (ev_sequence (last pending)))"
      unfolding maintains_def by blast
  qed (auto intro!: maintains_bind [OF quiet_maintains] owned stop Suc.IH)
  show ?case
    unfolding event_stream.simps
  proof (rule maintains_bind [OF pending_continues [OF list env]], goal_cases)
    case (1 pending)
    show ?case
    proof (cases "pending = []")
      case True
      show ?thesis
        unfolding if_P [OF True]
        by (rule maintains_weaken [OF idle]) (auto simp: True continues_def at_event_def)
    qed (simp add: busy)
  qed
qed (simp add: maintains_diverge)

end

end
