(* ===== verification/Event_Examples.thy ===== *)
theory Event_Examples
  imports Event_Stream Container_Examples Persistence_Laws
begin

text \<open>
  The event stream of the two containers, frames as a client reads them, and an event that a stream
  leaves out.
\<close>

section \<open>The runtime container\<close>

text \<open>The chunks are read off the part of the world that the tables leave open.\<close>

definition chunks_of :: "('z \<Rightarrow> string list) \<Rightarrow> 'z db_scheme \<Rightarrow> string list" where
  "chunks_of chunks w = chunks (db.more w)"

lemma quiet_clock: "log_quiet (sql_log jid) (chunks_of chunks) clock_now"
  by (simp add: log_quiet_def clock_now_def sql_log_def chunks_of_def)

lemma quiet_connected: "log_quiet log sent m \<Longrightarrow> log_quiet log sent (connected m)"
  by (simp add: log_quiet_def connected_def)

lemma quiet_sql_get: "log_quiet log sent (sql_get f)"
  by (simp add: log_quiet_def)

lemma quiet_jobs_get: "log_quiet log sent (sql_jobs_get jid)"
  by (auto simp: sql_jobs_get_def intro!: quiet_connected quiet_sql_get split: option.split)

lemma wait_loop_quiet:
  assumes "log_quiet (sql_log jid) sent clock" and "\<And>t. log_quiet (sql_log jid) sent (sleep t)"
  shows "log_quiet (sql_log jid) sent (wait_loop clock sleep jid n deadline fuel)"
proof (induction fuel)
  case (Suc fuel)
  have "log_quiet (sql_log jid) sent (sql_events_list_after jid n)" by (rule quiet_read) (rule sql_events.reads)
  with Suc assms show ?case by auto
qed auto

lemma wait_loop_waits: "waits (sql_log jid) n (wait_loop clock sleep jid n deadline fuel)"
proof (induction fuel)
  case (Suc fuel)
  show ?case
    unfolding waits_def
  proof (intro allI impI)
    fix w evs w'
    assume "wait_loop clock sleep jid n deadline (Suc fuel) w = (Done evs, w')"
    then show "prefix evs (after n (sql_log jid w'))"
      using Suc sql_events.reads sql_events.pages
      by (auto elim!: bind_prog_cases simp: waits_def page_of_def split: if_splits) blast+
  qed
qed (simp add: waits_def diverge_def)

lemma sql_wait_after_waits: "waits (sql_log jid) n (sql_events_wait_after clock sleep fuel jid n timeout)"
  unfolding waits_def sql_events_wait_after_def
  by (auto elim!: bind_prog_cases dest: wait_loop_waits [unfolded waits_def, rule_format])

lemma sql_wait_after_quiet:
  assumes "log_quiet (sql_log jid) sent clock" and "\<And>t. log_quiet (sql_log jid) sent (sleep t)"
  shows "log_quiet (sql_log jid) sent (sql_events_wait_after clock sleep fuel jid n timeout)"
  unfolding sql_events_wait_after_def by (intro log_quiet_bind wait_loop_quiet assms)

text \<open>
  C33. A stream of the durable container sends a gapless part of the log: whatever the other tasks append
  while it waits, and however it ends, the chunks are the events after the identifier of the client, in
  order, each once and in its envelope, with heartbeats between them.
\<close>

theorem stream_delivers_log:
  assumes others: "log_quiet (sql_log jid) (chunks_of chunks) (bk_monotonic bk)"
      "\<And>t. log_quiet (sql_log jid) (chunks_of chunks) (bk_sleep bk t)" "log_quiet (sql_log jid) (chunks_of chunks) gone"
    and connection: "sends (sql_log jid) (chunks_of chunks) send" and log: "ordered (sql_log jid w)"
    and run: "event_stream (container_api (runtime_container bk s st pepper started
      (runtime_ports bk s st preprocessor engine)) gone send refusal words) jid owner seq n w = (r, w')"
  shows "\<exists>evs cs. chunks_of chunks w' = chunks_of chunks w @ cs \<and> delivered evs cs \<and>
    prefix evs (filter (\<lambda>ev. seq < ev_sequence ev) (sql_log jid w'))"
proof -
  let ?env = "container_api (runtime_container bk s st pepper started
      (runtime_ports bk s st preprocessor engine)) gone send refusal words"
  have sel: "p_events_list_after (api_ports ?env) = sql_events_list_after"
    by (simp add: container_api_def runtime_container_def runtime_ports_def Let_def split: prod.split)
  have "stream_env (sql_log jid) (chunks_of chunks) jid ?env"
    by (simp add: stream_env_def container_api_def runtime_container_def runtime_ports_sel others(3) connection
        quiet_clock quiet_jobs_get sql_wait_after_quiet [OF others(1,2)] sql_wait_after_waits)
  note keeps = sql_events.stream_maintains [OF sel this, of "chunks_of chunks w" seq seq owner n]
  have "streamed (sql_log jid) (chunks_of chunks) (chunks_of chunks w) seq [] w"
    using log by (auto simp: streamed_def intro: delivered.nothing)
  then have "streaming (sql_log jid) (chunks_of chunks) (chunks_of chunks w) seq w"
      "at_event (sql_log jid) (chunks_of chunks) (chunks_of chunks w) seq seq w"
    by (auto simp: streaming_def at_event_def position_def intro!: exI [of _ "[]"])
  with keeps run have "streaming (sql_log jid) (chunks_of chunks) (chunks_of chunks w) seq w'"
    unfolding maintains_def by blast
  then show ?thesis by (auto simp: streaming_def streamed_def after_def)
qed

definition sample_event_row :: event_row where
  "sample_event_row = \<lparr>er_job_id = 11, er_sequence = 1, er_event_type = ''job.queued'', er_internal_code = 0,
     er_payload = ''{\"state\":\"queued\",\"progress\":0.0,\"request_id\":\"req\",\"data\":{}}'', er_created_at = 5\<rparr>"

section \<open>The memory container\<close>

text \<open>An await during which nothing happens to the job, its events and the connection.\<close>

definition steady :: "(mem \<Rightarrow> string list) \<Rightarrow> 'a mop \<Rightarrow> bool" where
  "steady sent m \<longleftrightarrow>
     (\<forall>w. \<exists>x w'. m w = (Done x, w') \<and> m_jobs w' = m_jobs w \<and> m_events w' = m_events w \<and> sent w' = sent w)"

definition delivers :: "(mem \<Rightarrow> string list) \<Rightarrow> (string \<Rightarrow> unit mop) \<Rightarrow> bool" where
  "delivers sent send \<longleftrightarrow>
     (\<forall>c w. \<exists>w'. send c w = (Done (), w') \<and> m_jobs w' = m_jobs w \<and> m_events w' = m_events w \<and>
        sent w' = sent w @ [c])"

lemma delivered_more: "delivered new cs' \<Longrightarrow> delivered evs cs \<Longrightarrow> delivered (evs @ new) (cs @ cs')"
proof (induction rule: delivered.induct)
  case (event new cs' t ev e)
  then show ?case using delivered.event [of "evs @ new" "cs @ cs'"] by simp
next
  case (heartbeat new cs')
  then show ?case using delivered.heartbeat [of "evs @ new" "cs @ cs'"] by simp
qed simp

lemma send_events_steady:
  assumes clock: "steady sent (p_utc_now (api_ports env))" and send: "delivers sent (api_send env)"
    and ids: "\<forall>ev \<in> set evs. ev_request_id ev \<noteq> []"
  shows "\<exists>w' cs. send_events env evs w = (Done (), w') \<and> m_jobs w' = m_jobs w \<and> m_events w' = m_events w \<and>
    sent w' = sent w @ cs \<and> delivered evs cs"
  using ids
proof (induction evs arbitrary: w)
  case Nil
  then show ?case by (auto intro: delivered.nothing)
next
  case (Cons ev evs)
  obtain t w1 where w1: "p_utc_now (api_ports env) w = (Done t, w1)" "m_jobs w1 = m_jobs w"
      "m_events w1 = m_events w" "sent w1 = sent w"
    using clock unfolding steady_def by metis
  have "operation_succeeded \<noteq> []" by (simp add: operation_succeeded_def utf8_bytes_def)
  then obtain e where e: "envelope_success t (job_event_json ev) (ev_request_id ev) operation_succeeded = Some e"
    using Cons.prems by (simp add: envelope_success_def make_envelope_def envelope_semantics_def)
  obtain w2 where w2: "api_send env (event_chunk ev e) w1 = (Done (), w2)" "m_jobs w2 = m_jobs w1"
      "m_events w2 = m_events w1" "sent w2 = sent w1 @ [event_chunk ev e]"
    using send unfolding delivers_def by metis
  obtain w' cs where w': "send_events env evs w2 = (Done (), w')" "m_jobs w' = m_jobs w2"
      "m_events w' = m_events w2" "sent w' = sent w2 @ cs" "delivered evs cs"
    using Cons.IH [of w2] Cons.prems by auto
  have "send_events env (ev # evs) w = (Done (), w')"
    using w1(1) w2(1) w'(1) by (simp add: send_event_def success_def bind_prog_def of_option_def e)
  moreover have "delivered ([ev] @ evs) ([event_chunk ev e] @ cs)"
    using delivered_more [OF w'(5) delivered.event [OF delivered.nothing e]] by simp
  ultimately show ?case
    using w1 w2 w' by (intro exI [of _ w'] exI [of _ "event_chunk ev e # cs"]) simp
qed

lemma last_after:
  assumes numbered: "map ev_sequence evs = map int [1 ..< length evs + 1]"
    and some: "filter (\<lambda>ev. seq < ev_sequence ev) evs \<noteq> []"
  shows "last (filter (\<lambda>ev. seq < ev_sequence ev) evs) = last evs"
proof -
  have evs: "evs \<noteq> []" using some by auto
  then have "ev_sequence (last evs) = int (length evs)"
    using numbered by (metis last_map map_is_Nil_conv last_upt diff_Suc_1
        length_greater_0_conv less_add_same_cancel1 plus_1_eq_Suc Suc_eq_plus1)
  moreover have "ev_sequence ev \<le> int (length evs)" if "ev \<in> set evs" for ev
  proof -
    have "ev_sequence ev \<in> set (map int [1 ..< length evs + 1])" using that unfolding numbered [symmetric] by simp
    then show ?thesis by auto
  qed
  ultimately have "seq < ev_sequence (last evs)" using some by (fastforce simp: filter_empty_conv)
  then have "filter (\<lambda>ev. seq < ev_sequence ev) (butlast evs @ [last evs]) =
      filter (\<lambda>ev. seq < ev_sequence ev) (butlast evs) @ [last evs]"
    by simp
  then show ?thesis using evs by simp
qed

text \<open>
  C34. The stream of a finished job ends: when nothing else happens, one round sends every event after the
  identifier of the client, in order and once, and then the stream is closed, also when the client
  has seen all of them before.
\<close>

theorem finished_stream_ends:
  assumes job: "lookup_by job_id (m_jobs w) jid = Some j" "job_owner_id j = owner" "job_terminal j"
    and final: "events_of w jid \<noteq> []" "final_event (last (events_of w jid)) j"
    and numbered: "map ev_sequence (events_of w jid) = map int [1 ..< length (events_of w jid) + 1]"
    and ids: "\<forall>ev \<in> set (events_of w jid). ev_request_id ev \<noteq> []"
    and awaits: "steady sent others" "steady sent gone" "delivers sent send" "\<And>v t. sent (v\<lparr>m_clock := t\<rparr>) = sent v"
  shows "\<exists>w' cs. event_stream (container_api (memory_container sha others s) gone send refusal words) jid owner seq
      (Suc n) w = (Done (), w') \<and> sent w' = sent w @ cs \<and>
    delivered (filter (\<lambda>ev. seq < ev_sequence ev) (events_of w jid)) cs"
proof -
  let ?env = "container_api (memory_container sha others s) gone send refusal words"
  let ?new = "filter (\<lambda>ev. seq < ev_sequence ev) (events_of w jid)"
  have sel: "p_utc_now (api_ports ?env) = mem_utc_now" "p_events_list_after (api_ports ?env) = mem_events_list_after"
      "p_jobs_get (api_ports ?env) = mem_jobs_get" "api_send ?env = send" "api_disconnected ?env = gone"
      "api_wait_after ?env = mem_events_wait_after others"
    by (simp_all add: container_api_def memory_container_def mem_ports_def)
  have owned: "owned_job (api_ports ?env) jid owner v = (Done j, v)" if "m_jobs v = m_jobs w" for v
    using job that by (simp add: owned_job_def service_database_def sel mem_jobs_get_def bind_prog_def catch_prog_def)
  show ?thesis
  proof (cases "?new = []")
    case False
    have clock: "steady sent (p_utc_now (api_ports ?env))"
      using awaits(4) by (simp add: sel steady_def mem_utc_now_def)
    have "last ?new = last (events_of w jid)" by (rule last_after [OF numbered]) (use False in simp)
    moreover obtain w' cs where "send_events ?env ?new w = (Done (), w')" "m_jobs w' = m_jobs w"
        "sent w' = sent w @ cs" "delivered ?new cs"
      using send_events_steady [OF clock, of ?new w] awaits(3) ids by (auto simp: sel)
    ultimately show ?thesis
      using False owned final(2)
      by (intro exI [of _ w'] exI [of _ cs])
         (simp add: pending_events_def sel mem_events_list_after_def bind_prog_def)
  next
    case True
    obtain b w1 where w1: "others w = (Done b, w1)" "m_jobs w1 = m_jobs w" "m_events w1 = m_events w" "sent w1 = sent w"
      using awaits(1) unfolding steady_def by metis
    obtain g w2 where w2: "gone w1 = (Done g, w2)" "m_jobs w2 = m_jobs w1" "sent w2 = sent w1"
      using awaits(2) unfolding steady_def by metis
    have "events_of w1 jid = events_of w jid" using w1(3) by (simp add: events_of_def)
    then have "pending_events ?env jid seq w = (Done [], w1)"
      using True w1(1) by (simp add: pending_events_def sel mem_events_list_after_def mem_events_wait_after_def bind_prog_def)
    then show ?thesis
      using True w1 w2 owned [of w2] job(3)
      by (intro exI [of _ w2] exI [of _ "[]"]) (auto simp: bind_prog_def sel intro: delivered.nothing)
  qed
qed

section \<open>Frames\<close>

text \<open>How a client reads the text of a stream: lines up to an empty one, each a field and a value.\<close>

definition line_end :: "char \<Rightarrow> bool" where
  "line_end c \<longleftrightarrow> c = CHR 0x0A \<or> c = CHR 0x0D"

fun frame_lines :: "string \<Rightarrow> string list" where
  "frame_lines [] = [[]]"
| "frame_lines (c # cs) =
     (if line_end c then [] # frame_lines cs
      else (case frame_lines cs of [] \<Rightarrow> [[c]] | l # ls \<Rightarrow> (c # l) # ls))"

definition frame_field :: "string \<Rightarrow> string \<times> string" where
  "frame_field l =
     (let v = drop 1 (dropWhile (\<lambda>c. c \<noteq> CHR '':'') l)
      in (takeWhile (\<lambda>c. c \<noteq> CHR '':'') l, if starts_with '' '' v then drop 1 v else v))"

definition read_frame :: "string \<Rightarrow> (string \<times> string) list" where
  "read_frame chunk = map frame_field (takeWhile (\<lambda>l. l \<noteq> []) (frame_lines chunk))"

lemma frame_lines_newline: "list_all (\<lambda>c. \<not> line_end c) l \<Longrightarrow> frame_lines (l @ newline @ rest) = l # frame_lines rest"
  by (induction l) (auto simp: newline_def line_end_def)

definition visible :: "char \<Rightarrow> bool" where
  "visible c \<longleftrightarrow> 32 \<le> (of_char c :: nat)"

lemma visible_line: "visible c \<Longrightarrow> \<not> line_end c"
  by (auto simp: visible_def line_end_def)

lemma visible_chars [simp]:
  "visible (CHR ''n'')" "visible (CHR ''u'')" "visible (CHR ''l'')" "visible (CHR ''t'')" "visible (CHR ''r'')"
  "visible (CHR ''e'')" "visible (CHR ''f'')" "visible (CHR ''a'')" "visible (CHR ''s'')"
  "visible (CHR ''['')" "visible (CHR '']'')" "visible (CHR ''{'')" "visible (CHR ''}'')" "visible (CHR '','')"
  "visible (CHR '':'')" "visible (CHR 0x22)" "visible (CHR 0x5C)"
  by (simp_all add: visible_def)

lemma visible_num: "list_all is_num_char s \<Longrightarrow> list_all visible s"
  by (erule list.pred_mono_strong) (auto simp: is_num_char_def is_digit_def visible_def)

lemma visible_hex: "list_all visible (hex_fixed k n)"
  using hex_fixed_chars by (rule list.pred_mono_strong) (auto simp: hex_char_def visible_def)

lemma visible_escaped: "list_all visible (json_escape_char c)"
  using visible_hex [of 4] by (simp add: json_escape_char_def hex4_def) (simp add: visible_def)

lemma visible_json_string [simp]: "list_all visible (json_string s)"
  using visible_escaped by (induction s) (auto simp: json_string_def)

lemma dumps_visible:
  "json_ok v \<Longrightarrow> list_all visible (dumps v)"
  "\<forall>x \<in> set xs. json_ok x \<Longrightarrow> list_all visible (dumps_items xs)"
  "\<forall>kv \<in> set kvs. json_ok (snd kv) \<Longrightarrow> list_all visible (dumps_members kvs)"
proof (induction v and xs and kvs rule: dumps_dumps_items_dumps_members.induct)
  case (3 i)
  then show ?case by (simp add: visible_num str_int_num_chars)
next
  case (4 s)
  then show ?case
  proof (cases "num_text s")
    case False
    with 4 show ?thesis by (auto simp: visible_def)
  qed (simp add: num_text_def visible_num)
qed auto

lemma event_json_ok:
  assumes "envelope_success t (job_event_json ev) rid message = Some e"
    and "json_ok (JDict (ev_payload ev))" and "0 \<le> ev_progress ev"
  shows "json_ok (envelope_json e)"
  using assms progress_num [of "ev_progress ev"]
  by (auto simp: envelope_success_def make_envelope_def Let_def envelope_json_def opt_json_def json_time_def
      job_event_json_def progress_json_def split: if_splits)

lemma digits_tail: "list_all is_digit s \<Longrightarrow> int_digits_tail s"
proof (induction s)
  case (Cons c s)
  have "is_digit c \<Longrightarrow> c \<noteq> CHR ''_''" by (auto simp: is_digit_def)
  with Cons show ?case by simp
qed simp

lemma int_text_number:
  assumes "0 \<le> n"
  shows "int_text (str_int n) = Some n"
proof -
  let ?s = "str_nat (nat n)"
  have digits: "list_all is_digit ?s" by (rule str_nat_digits)
  have no_space: "\<not> py_space c" and no_sign: "c \<noteq> CHR ''-''" "c \<noteq> CHR ''+''" if "is_digit c" for c
    using that by (auto simp: is_digit_def py_space_def Let_def)
  obtain c r where s: "?s = c # r" "is_digit c" using digits str_nat_nonempty [of "nat n"] by (cases ?s) auto
  have "dropWhile py_space ?s = ?s" using s no_space by simp
  moreover have "dropWhile py_space (rev ?s) = rev ?s"
    using digits no_space str_nat_nonempty [of "nat n"]
    by (cases "rev ?s") (auto simp: list_all_iff simp flip: set_rev [of ?s])
  ultimately have strip: "py_strip ?s = ?s" by (simp add: py_strip_def)
  have "int_digits_ok ?s" using digits digits_tail by (simp add: s)
  moreover have "filter is_digit ?s = ?s" using digits by (simp add: filter_id_conv list_all_iff)
  moreover have "\<not> starts_with ''-'' ?s" "\<not> starts_with ''+'' ?s" using s no_sign by auto
  ultimately show ?thesis
    using assms by (simp add: int_text_def str_int_def strip digits_value_str_nat Let_def)
qed

text \<open>
  C35. A frame that the stream sends is read back by the client: its three fields are the number of the
  event, its type and a line of JSON that parses to the envelope, and a client that returns the
  number as \<open>Last-Event-ID\<close> goes on behind that event.
\<close>

theorem event_frame_roundtrip:
  assumes name: "\<forall>c \<in> set (ev_event_type ev). \<not> line_end c" and payload: "json_ok (JDict (ev_payload ev))"
    and numbers: "0 \<le> ev_progress ev" "0 \<le> ev_sequence ev"
    and envelope: "envelope_success t (job_event_json ev) (ev_request_id ev) operation_succeeded = Some e"
  shows "read_frame (event_chunk ev e) =
      [(''id'', str_int (ev_sequence ev)), (''event'', ev_event_type ev), (''data'', dumps (envelope_json e))] \<and>
    loads (dumps (envelope_json e)) = Some (envelope_json e) \<and>
    last_event_sequence (Some (str_int (ev_sequence ev))) = Inr (ev_sequence ev)"
proof -
  have ok: "json_ok (envelope_json e)" using envelope payload numbers(1) by (rule event_json_ok)
  have "list_all (\<lambda>c. \<not> line_end c) (''data: '' @ dumps (envelope_json e))"
      "list_all (\<lambda>c. \<not> line_end c) (''id: '' @ str_int (ev_sequence ev))"
      "list_all (\<lambda>c. \<not> line_end c) (''event: '' @ ev_event_type ev)"
    using name dumps_visible(1) [OF ok] visible_num [OF str_int_num_chars] visible_line
    by (auto simp: list_all_iff line_end_def)
  note lines = this [THEN frame_lines_newline]
  have "frame_lines (event_chunk ev e) =
      [''id: '' @ str_int (ev_sequence ev), ''event: '' @ ev_event_type ev, ''data: '' @ dumps (envelope_json e), [], []]"
    using lines(2) [of "''event: '' @ ev_event_type ev @ newline @ ''data: '' @ dumps (envelope_json e) @ newline @ newline"]
      lines(3) [of "''data: '' @ dumps (envelope_json e) @ newline @ newline"] lines(1) [of newline]
    by (simp add: event_chunk_def) (simp add: newline_def line_end_def)
  then show ?thesis
    using loads_dumps [OF ok] numbers(2) str_int_nonempty [of "ev_sequence ev"]
    by (simp add: read_frame_def frame_field_def last_event_sequence_def int_text_number)
qed

section \<open>Examples\<close>

text \<open>A stream over one stored event; the world counts the chunks.\<close>

definition streaming_db :: "string list db_scheme" where
  "streaming_db = db.extend (empty_db\<lparr>db_events := [sample_event_row]\<rparr>) []"

definition send_chunk :: "string \<Rightarrow> (string list, unit) sql" where
  "send_chunk c w = (Done (), db.more_update (\<lambda>cs. cs @ [c]) w)"

lemma stream_delivers_log_witness:
  "\<exists>r w'. event_stream (container_api (runtime_container counted_backing accepted_settings memory_storage ''pepper'' True
      (runtime_ports counted_backing accepted_settings memory_storage (\<lambda>u j. ret []) (\<lambda>i n opts r. raise_exc EngineError)))
      (ret False) send_chunk (\<lambda>call. []) (\<lambda>e. ''error'')) 11 ''owner'' 0 2 streaming_db = (r, w') \<and>
    (\<exists>evs cs. chunks_of id w' = chunks_of id streaming_db @ cs \<and> delivered evs cs \<and>
      prefix evs (filter (\<lambda>ev. 0 < ev_sequence ev) (sql_log 11 w')))"
proof -
  let ?log = "sql_log 11 :: string list db_scheme \<Rightarrow> _"
  have others: "log_quiet ?log (chunks_of id) (bk_monotonic counted_backing)"
      "\<And>t. log_quiet ?log (chunks_of id) (bk_sleep counted_backing t)" "log_quiet ?log (chunks_of id) (ret False)"
    by (auto simp: counted_backing_def backing_with_def)
  have send: "sends ?log (chunks_of id) send_chunk"
    by (simp add: sends_def send_chunk_def sql_log_def chunks_of_def)
  have "ordered (?log streaming_db)"
    by (simp add: sql_log_def streaming_db_def db.defs empty_db_def sample_event_row_def decoded_def ordered_def
        split: sum.split)
  then show ?thesis
    using stream_delivers_log [OF others send] by (metis prod.collapse)
qed

definition finished_job :: job where
  "finished_job = (new_job ''owner'' 7 ''req'' (JDict []) None 11 5 5)\<lparr>job_state := FAILED\<rparr>"

definition finished_mem :: mem where
  "finished_mem = empty_mem\<lparr>m_jobs := [finished_job], m_events := [(11, [failed_event\<lparr>ev_sequence := 1\<rparr>])]\<rparr>"

text \<open>The client of the memory container: the chunks are kept in the log.\<close>

definition note_chunk :: "string \<Rightarrow> unit mop" where
  "note_chunk c w = (Done (), w\<lparr>m_log := m_log w @ [[(''chunk'', JStr c)]]\<rparr>)"

definition noted_chunks :: "mem \<Rightarrow> string list" where
  "noted_chunks w = map (\<lambda>entry. case entry of [(k, JStr c)] \<Rightarrow> c | _ \<Rightarrow> []) (m_log w)"

lemma finished_stream_ends_witness:
  "\<exists>w' cs. event_stream (container_api (memory_container (\<lambda>d. ''digest'') (ret False) default_settings) (ret False)
      note_chunk (\<lambda>call. []) (\<lambda>e. ''error'')) 11 ''owner'' 0 (Suc 0) finished_mem = (Done (), w') \<and>
    noted_chunks w' = noted_chunks finished_mem @ cs \<and>
    delivered (filter (\<lambda>ev. 0 < ev_sequence ev) (events_of finished_mem 11)) cs"
proof (rule finished_stream_ends)
  show "lookup_by job_id (m_jobs finished_mem) 11 = Some finished_job"
    by (simp add: lookup_by_def finished_mem_def finished_job_def new_job_def)
  show "job_owner_id finished_job = ''owner''" "job_terminal finished_job"
    by (simp_all add: finished_job_def new_job_def job_terminal_def)
  have events: "events_of finished_mem 11 = [failed_event\<lparr>ev_sequence := 1\<rparr>]"
    by (simp add: events_of_def finished_mem_def)
  then show "events_of finished_mem 11 \<noteq> []"
      "map ev_sequence (events_of finished_mem 11) = map int [1 ..< length (events_of finished_mem 11) + 1]"
      "\<forall>ev \<in> set (events_of finished_mem 11). ev_request_id ev \<noteq> []"
    by (simp_all add: failed_event_def)
  show "final_event (last (events_of finished_mem 11)) finished_job"
    by (simp add: events final_event_def failed_event_def finished_job_def new_job_def job_terminal_def)
qed (auto simp: steady_def delivers_def note_chunk_def noted_chunks_def)

lemma event_frame_roundtrip_witness:
  "\<exists>e. envelope_success 7 (job_event_json failed_event) ''req'' operation_succeeded = Some e \<and>
    read_frame (event_chunk failed_event e) =
      [(''id'', str_int (ev_sequence failed_event)), (''event'', ev_event_type failed_event),
       (''data'', dumps (envelope_json e))] \<and>
    loads (dumps (envelope_json e)) = Some (envelope_json e) \<and>
    last_event_sequence (Some (str_int (ev_sequence failed_event))) = Inr (ev_sequence failed_event)"
proof -
  have "operation_succeeded \<noteq> []" by (simp add: operation_succeeded_def utf8_bytes_def)
  then obtain e where "envelope_success 7 (job_event_json failed_event) ''req'' operation_succeeded = Some e"
    by (simp add: envelope_success_def make_envelope_def envelope_semantics_def)
  then show ?thesis
    using event_frame_roundtrip [of failed_event 7 e] by (simp add: failed_event_def line_end_def)
qed

text \<open>
  A stream that waits in vain reads the job before it decides to go on. When the job finishes between
  the end of the wait and that read, here while the connection is checked, the stream closes without its last event: the log is not read
  again.
\<close>

definition finishes_meanwhile :: "bool mop" where
  "finishes_meanwhile w =
     (Done False, w\<lparr>m_jobs := [finished_job], m_events := [(11, [failed_event\<lparr>ev_sequence := 1\<rparr>])]\<rparr>)"

lemma stream_can_miss_final_event:
  "\<exists>w'. event_stream (container_api (memory_container (\<lambda>d. ''digest'') (ret False) default_settings) finishes_meanwhile
      note_chunk (\<lambda>call. []) (\<lambda>e. ''error'')) 11 ''owner'' 0 (Suc 0)
      (empty_mem\<lparr>m_jobs := [finished_job\<lparr>job_state := RUNNING\<rparr>]\<rparr>) = (Done (), w') \<and>
    noted_chunks w' = [] \<and> events_of w' 11 = [failed_event\<lparr>ev_sequence := 1\<rparr>]"
  by (simp add: pending_events_def container_api_def memory_container_def mem_ports_def mem_events_list_after_def
      mem_events_wait_after_def finishes_meanwhile_def owned_job_def service_database_def mem_jobs_get_def
      bind_prog_def catch_prog_def lookup_by_def finished_job_def new_job_def job_terminal_def noted_chunks_def
      events_of_def empty_mem_def)

end
