(* ===== verification/Consumer.thy ===== *)
theory Consumer
  imports Container Worker
begin

text \<open>
  The worker process: \<^verbatim>\<open>worker_main.py\<close>. A record is processed in a task of its own while the consumer
  is polled with its partitions paused; its offset is committed afterwards. The consumer, the producer
  of the dead letter queue, the tasks and the stop event are parameters.

  \<open>asyncio.wait_for(asyncio.shield(task), t)\<close> is \<open>tk_wait\<close>: it returns or raises what the task did, or
  raises \<open>TimeoutError\<close> when the time is over. The loops take fuel, one unit for each round.
\<close>

section \<open>Polling beside an operation\<close>

type_synonym partition = "string \<times> int"

record kafka_record =
  rec_topic :: string
  rec_partition :: int
  rec_offset :: int
  rec_key :: "bytes option"
  rec_value :: bytes

record 'w consumer =
  cs_assignment :: "('w, partition set) op"
  cs_paused :: "('w, partition set) op"
  cs_pause :: "partition set \<Rightarrow> ('w, unit) op"
  cs_resume :: "partition set \<Rightarrow> ('w, unit) op"
  cs_getmany :: "int \<Rightarrow> ('w, (partition \<times> kafka_record list) list) op"
  cs_commit :: "partition \<Rightarrow> int \<Rightarrow> ('w, unit) op"

record 'w task =
  tk_wait :: "time \<Rightarrow> ('w, unit) op"
  tk_done :: "('w, bool) op"
  tk_cancel :: "('w, unit) op"

definition safe_poll_interval :: time where
  "safe_poll_interval = 30 * 1000000"

definition pause_current_assignment :: "'w consumer \<Rightarrow> partition set \<Rightarrow> ('w, partition set) op" where
  "pause_current_assignment c by_helper =
     bind_prog (cs_assignment c) (\<lambda>assigned.
     bind_prog (cs_paused c) (\<lambda>already.
     let to_pause = assigned - already
     in if to_pause \<noteq> {} then bind_prog (cs_pause c to_pause) (\<lambda>_. ret (by_helper \<union> to_pause))
        else ret by_helper))"

definition keepalive_poll :: "'w consumer \<Rightarrow> ('w, unit) op" where
  "keepalive_poll c =
     bind_prog (cs_getmany c 0) (\<lambda>records.
     if list_ex (\<lambda>(_, messages). messages \<noteq> []) records
     then raise_exc (RuntimeError ''safe Kafka poll returned records while work was in progress'')
     else ret ())"

text \<open>The loop; an exception carries the partitions that the helper has paused so far.\<close>

fun poll_loop ::
    "'w consumer \<Rightarrow> 'w task \<Rightarrow> time \<Rightarrow> nat \<Rightarrow> partition set \<Rightarrow> ('w, exn \<times> partition set, partition set) prog"
where
  "poll_loop c t interval 0 by_helper = diverge"
| "poll_loop c t interval (Suc n) by_helper =
     bind_prog
       (catch_prog (bind_prog (tk_wait t interval) (\<lambda>_. ret True)) (\<lambda>e.
          if e = TimeoutError then ret False else raise_exc (e, by_helper))) (\<lambda>finished.
     if finished then ret by_helper
     else
       bind_prog (at_local by_helper (pause_current_assignment c by_helper)) (\<lambda>by_helper'.
       bind_prog (at_local by_helper' (keepalive_poll c)) (\<lambda>_.
       poll_loop c t interval n by_helper')))"

text \<open>The \<open>finally\<close> clause.\<close>

definition release_polls :: "'w consumer \<Rightarrow> 'w task \<Rightarrow> partition set \<Rightarrow> ('w, unit) op" where
  "release_polls c t by_helper =
     bind_prog (tk_done t) (\<lambda>finished.
     bind_prog (if finished then ret () else tk_cancel t) (\<lambda>_.
     bind_prog (cs_assignment c) (\<lambda>assigned.
     bind_prog (cs_paused c) (\<lambda>paused.
     let resumable = by_helper \<inter> assigned \<inter> paused
     in if resumable \<noteq> {} then cs_resume c resumable else ret ()))))"

definition polls_body ::
    "'w consumer \<Rightarrow> 'w task \<Rightarrow> time \<Rightarrow> nat \<Rightarrow> ('w, exn \<times> partition set, partition set) prog" where
  "polls_body c t interval fuel =
     bind_prog (at_local {} (pause_current_assignment c {})) (poll_loop c t interval fuel)"

definition await_with_safe_consumer_polls ::
    "'w consumer \<Rightarrow> ('w, 'w task) op \<Rightarrow> time \<Rightarrow> nat \<Rightarrow> ('w, unit) op" where
  "await_with_safe_consumer_polls c start interval fuel =
     (if interval \<le> 0 then raise_exc (ValueError ''poll_interval_seconds must be positive'')
      else
        bind_prog start (\<lambda>t.
        bind_prog
          (catch_prog (bind_prog (polls_body c t interval fuel) (\<lambda>by_helper. ret (Inr by_helper)))
             (\<lambda>failure. ret (Inl failure))) (\<lambda>r.
        case r of
          Inr by_helper \<Rightarrow> release_polls c t by_helper
        | Inl (e, by_helper) \<Rightarrow> bind_prog (release_polls c t by_helper) (\<lambda>_. raise_exc e))))"

section \<open>Readiness\<close>

text \<open>
  \<open>asyncio.wait_for(stop.wait(), t)\<close> returns when the worker is stopped and raises \<open>TimeoutError\<close>
  otherwise; both end the round.
\<close>

record 'w readiness_wait =
  rw_check :: "('w, readiness_report) op"
  rw_stopped :: "('w, bool) op"
  rw_wait_stop :: "time \<Rightarrow> ('w, unit) op"
  rw_time :: "('w, time) op"
  rw_error :: "string \<Rightarrow> (string \<times> json) list \<Rightarrow> ('w, unit) op"

definition readiness_timeout_fields :: "readiness_report \<Rightarrow> (string \<times> json) list" where
  "readiness_timeout_fields report =
     [(''internal_code'', JInt (case rep_code report of Some c \<Rightarrow> code_value c | None \<Rightarrow> 0)),
      (''error_reason'', JStr (case rep_reason report of
         Some r \<Rightarrow> if r \<noteq> [] then r else ''runtime_not_ready'' | None \<Rightarrow> ''runtime_not_ready''))]"

definition readiness_pause :: "'w readiness_wait \<Rightarrow> time \<Rightarrow> ('w, unit) op" where
  "readiness_pause rw poll =
     catch_prog (rw_wait_stop rw poll) (\<lambda>e. if e = TimeoutError then ret () else raise_exc e)"

fun readiness_loop :: "'w readiness_wait \<Rightarrow> time \<Rightarrow> time \<Rightarrow> nat \<Rightarrow> ('w, bool) op" where
  "readiness_loop rw deadline poll 0 = diverge"
| "readiness_loop rw deadline poll (Suc n) =
     bind_prog (rw_stopped rw) (\<lambda>stopped.
     if stopped then ret False
     else
       bind_prog (rw_check rw) (\<lambda>report.
       if report_ready report then ret True
       else
         bind_prog (rw_time rw) (\<lambda>now.
         if deadline \<le> now then
           bind_prog (rw_error rw ''worker_readiness_timeout'' (readiness_timeout_fields report)) (\<lambda>_.
           raise_exc (RuntimeError ''worker dependencies did not become ready''))
         else bind_prog (readiness_pause rw poll) (\<lambda>_. readiness_loop rw deadline poll n))))"

definition wait_for_runtime_readiness :: "'w readiness_wait \<Rightarrow> time \<Rightarrow> time \<Rightarrow> nat \<Rightarrow> ('w, bool) op" where
  "wait_for_runtime_readiness rw timeout poll fuel =
     bind_prog (rw_time rw) (\<lambda>now. readiness_loop rw (now + timeout) poll fuel)"

section \<open>Records\<close>

record 'w worker_runtime =
  wr_consumer :: "'w consumer"
  wr_spawn :: "('w, unit) op \<Rightarrow> ('w, 'w task) op"
  wr_stopped :: "('w, bool) op"
  wr_error :: "string \<Rightarrow> (string \<times> json) list \<Rightarrow> ('w, unit) op"
  wr_send_dlq :: "bytes option \<Rightarrow> bytes \<Rightarrow> (string \<times> bytes) list \<Rightarrow> ('w, unit) op"
  wr_process :: "job_work_message \<Rightarrow> ('w, unit) op"

definition process_record :: "'w worker_runtime \<Rightarrow> kafka_record \<Rightarrow> ('w, unit) op" where
  "process_record rt r =
     (case decode_job_message (rec_value r) of
        Inl e \<Rightarrow>
          if is_exception e then
            bind_prog (wr_error rt ''ocr_job_message_invalid''
              [(''error_type'', JStr (exn_name e)), (''topic'', JStr (rec_topic r)),
               (''partition'', JInt (rec_partition r)), (''offset'', JInt (rec_offset r))]) (\<lambda>_.
            wr_send_dlq rt (rec_key r) (rec_value r) [(''error_reason'', ''invalid_job_message'')])
          else raise_exc e
      | Inr message \<Rightarrow> wr_process rt message)"

fun consume_records ::
    "'w worker_runtime \<Rightarrow> nat \<Rightarrow> partition \<Rightarrow> kafka_record list \<Rightarrow> ('w, unit) op" where
  "consume_records rt fuel tp [] = ret ()"
| "consume_records rt fuel tp (r # rs) =
     bind_prog (await_with_safe_consumer_polls (wr_consumer rt) (wr_spawn rt (process_record rt r))
        safe_poll_interval fuel) (\<lambda>_.
     bind_prog (cs_commit (wr_consumer rt) tp (rec_offset r + 1)) (\<lambda>_.
     consume_records rt fuel tp rs))"

fun consume_partitions ::
    "'w worker_runtime \<Rightarrow> nat \<Rightarrow> (partition \<times> kafka_record list) list \<Rightarrow> ('w, unit) op" where
  "consume_partitions rt fuel [] = ret ()"
| "consume_partitions rt fuel ((tp, messages) # rest) =
     bind_prog (consume_records rt fuel tp messages) (\<lambda>_. consume_partitions rt fuel rest)"

fun consume_loop :: "'w worker_runtime \<Rightarrow> nat \<Rightarrow> nat \<Rightarrow> ('w, unit) op" where
  "consume_loop rt fuel 0 = diverge"
| "consume_loop rt fuel (Suc n) =
     bind_prog (wr_stopped rt) (\<lambda>stopped.
     if stopped then ret ()
     else
       bind_prog (cs_getmany (wr_consumer rt) 1000000) (\<lambda>records.
       bind_prog (consume_partitions rt fuel records) (\<lambda>_. consume_loop rt fuel n)))"

section \<open>The process\<close>

text \<open>What \<open>run_worker\<close> opens beside the container.\<close>

record 'w worker_backing =
  wb_open_consumer :: "string \<Rightarrow> string \<Rightarrow> string \<Rightarrow> string \<Rightarrow> ('w, unit) op"
  wb_stop_consumer :: "('w, unit) op"
  wb_start_dlq :: "string \<Rightarrow> string \<Rightarrow> ('w, unit) op"
  wb_stop_dlq :: "('w, unit) op"
  wb_send_dlq :: "string \<Rightarrow> bytes option \<Rightarrow> bytes \<Rightarrow> (string \<times> bytes) list \<Rightarrow> ('w, unit) op"
  wb_consumer :: "'w consumer"
  wb_spawn :: "('w, unit) op \<Rightarrow> ('w, 'w task) op"
  wb_stopped :: "('w, bool) op"
  wb_wait_stop :: "time \<Rightarrow> ('w, unit) op"

definition worker_runtime_of ::
    "'w worker_backing \<Rightarrow> settings \<Rightarrow> 'w ports \<Rightarrow> worker_config \<Rightarrow> nat \<Rightarrow> 'w worker_runtime" where
  "worker_runtime_of wb s ps cfg fuel =
     \<lparr>wr_consumer = wb_consumer wb, wr_spawn = wb_spawn wb, wr_stopped = wb_stopped wb,
      wr_error = p_logger_error ps, wr_send_dlq = wb_send_dlq wb (kafka_jobs_dlq_topic s),
      wr_process = (\<lambda>message. bind_prog (process ps cfg fuel message) (\<lambda>_. ret ()))\<rparr>"

definition readiness_wait_of :: "'z db_scheme backing \<Rightarrow> 'z db_scheme worker_backing \<Rightarrow> 'z db_scheme container \<Rightarrow>
    'z db_scheme readiness_wait" where
  "readiness_wait_of bk wb c =
     \<lparr>rw_check = readiness_service (ct_readiness c), rw_stopped = wb_stopped wb, rw_wait_stop = wb_wait_stop wb,
      rw_time = bk_monotonic bk, rw_error = p_logger_error (ct_ports c)\<rparr>"

definition worker_session ::
    "'z db_scheme worker_backing \<Rightarrow> settings \<Rightarrow> 'z db_scheme container \<Rightarrow> nat \<Rightarrow> ('z, unit) sql" where
  "worker_session wb s c fuel =
     bind_prog (wb_open_consumer wb (kafka_jobs_topic s) (the (kafka_bootstrap_servers s)) (kafka_consumer_group s)
        (kafka_client_id s @ ''-ocr-worker'')) (\<lambda>_.
     bind_prog (wb_start_dlq wb (the (kafka_bootstrap_servers s)) (kafka_client_id s @ ''-ocr-worker-dlq'')) (\<lambda>_.
     bind_prog (lift_sum (make_worker (worker_max_page_retries s) (worker_retry_base s))) (\<lambda>cfg.
     finally_prog (consume_loop (worker_runtime_of wb s (ct_ports c) cfg fuel) fuel fuel)
       (bind_prog (wb_stop_consumer wb) (\<lambda>_. wb_stop_dlq wb)))))"

definition run_worker :: "'z db_scheme backing \<Rightarrow> 'z db_scheme worker_backing \<Rightarrow> settings \<Rightarrow> nat \<Rightarrow> ('z, unit) sql" where
  "run_worker bk wb s fuel =
     (if \<not> given (kafka_bootstrap_servers s) then raise_exc (RuntimeError ''KAFKA_BROKERS is required'')
      else
        with_runtime bk s False (\<lambda>c.
          bind_prog (wait_for_runtime_readiness (readiness_wait_of bk wb c) (worker_readiness_timeout s)
            (worker_readiness_poll s) fuel) (\<lambda>ready.
          if \<not> ready then ret () else worker_session wb s c fuel)))"

end
