(* ===== verification/Consumer_Laws.thy ===== *)
theory Consumer_Laws
  imports Consumer Container_Examples
begin

text \<open>
  The worker process: an offset is committed only for a record that was processed or put in the dead letter
  queue; the partitions that the helper pauses are consumed again; the wait for the dependencies ends.
\<close>

section \<open>Offsets\<close>

text \<open>What is seen of the world: committed offsets, fetched records, processed messages, dead letters.\<close>

record 'w consumer_view =
  vw_committed :: "'w \<Rightarrow> (partition \<times> int) set"
  vw_fetched :: "'w \<Rightarrow> (partition \<times> kafka_record) set"
  vw_processed :: "'w \<Rightarrow> job_work_message set"
  vw_dead :: "'w \<Rightarrow> (bytes option \<times> bytes) set"

definition handled_record :: "'w consumer_view \<Rightarrow> kafka_record \<Rightarrow> 'w \<Rightarrow> bool" where
  "handled_record v r w \<longleftrightarrow> (rec_key r, rec_value r) \<in> vw_dead v w \<or>
     (\<exists>message \<in> vw_processed v w. decode_job_message (rec_value r) = Inr message)"

text \<open>Nothing is forgotten and nothing committed.\<close>

definition later :: "'w consumer_view \<Rightarrow> 'w \<Rightarrow> 'w \<Rightarrow> bool" where
  "later v w w' \<longleftrightarrow> vw_fetched v w \<subseteq> vw_fetched v w' \<and> vw_processed v w \<subseteq> vw_processed v w' \<and>
     vw_dead v w \<subseteq> vw_dead v w'"

definition commits_nothing :: "'w consumer_view \<Rightarrow> ('w, 'e, 'a) prog \<Rightarrow> bool" where
  "commits_nothing v m \<longleftrightarrow> (\<forall>w. later v w (snd (m w)) \<and> vw_committed v (snd (m w)) \<subseteq> vw_committed v w)"

lemma commits_nothing_ret [intro!]: "commits_nothing v (ret x)"
  and commits_nothing_raise [intro!]: "commits_nothing v (raise_exc e)"
  by (simp_all add: commits_nothing_def later_def)

definition consumer_contract :: "'w consumer_view \<Rightarrow> 'w worker_runtime \<Rightarrow> bool" where
  "consumer_contract v rt \<longleftrightarrow>
     commits_nothing v (wr_stopped rt) \<and> commits_nothing v (cs_assignment (wr_consumer rt)) \<and>
     commits_nothing v (cs_paused (wr_consumer rt)) \<and> (\<forall>ps. commits_nothing v (cs_pause (wr_consumer rt) ps)) \<and>
     (\<forall>ps. commits_nothing v (cs_resume (wr_consumer rt) ps)) \<and>
     (\<forall>t. commits_nothing v (cs_getmany (wr_consumer rt) t)) \<and>
     (\<forall>t w records w'. cs_getmany (wr_consumer rt) t w = (Done records, w') \<longrightarrow>
        (\<forall>(tp, rs) \<in> set records. \<forall>r \<in> set rs. (tp, r) \<in> vw_fetched v w')) \<and>
     (\<forall>tp n w r w'. cs_commit (wr_consumer rt) tp n w = (r, w') \<longrightarrow>
        later v w w' \<and> vw_committed v w' \<subseteq> insert (tp, n) (vw_committed v w)) \<and>
     (\<forall>e kvs. commits_nothing v (wr_error rt e kvs)) \<and>
     (\<forall>key value hs. commits_nothing v (wr_send_dlq rt key value hs)) \<and>
     (\<forall>message. commits_nothing v (wr_process rt message)) \<and>
     (\<forall>key value hs w w'. wr_send_dlq rt key value hs w = (Done (), w') \<longrightarrow> (key, value) \<in> vw_dead v w') \<and>
     (\<forall>message w w'. wr_process rt message w = (Done (), w') \<longrightarrow> message \<in> vw_processed v w')"

text \<open>
  The tasks of the event loop: a wait for the task of a program that returns comes after an end of the
  program.
\<close>

definition task_contract :: "'w consumer_view \<Rightarrow> (('w, unit) op \<Rightarrow> ('w, 'w task) op) \<Rightarrow> bool" where
  "task_contract v spawn \<longleftrightarrow>
     (\<forall>m. commits_nothing v (spawn m) \<and>
        (\<forall>w t w1. commits_nothing v m \<longrightarrow> spawn m w = (Done t, w1) \<longrightarrow>
           commits_nothing v (tk_done t) \<and> commits_nothing v (tk_cancel t) \<and>
           (\<forall>i. commits_nothing v (tk_wait t i) \<and>
              (\<forall>u u'. tk_wait t i u = (Done (), u') \<longrightarrow> (\<exists>x x'. m x = (Done (), x') \<and> later v x' u')))))"

text \<open>The invariant: an offset beyond those of the start belongs to a fetched and handled record.\<close>

definition offsets_handled :: "'w consumer_view \<Rightarrow> (partition \<times> int) set \<Rightarrow> 'w \<Rightarrow> bool" where
  "offsets_handled v start w \<longleftrightarrow>
     (\<forall>(tp, n) \<in> vw_committed v w - start.
        \<exists>r. (tp, r) \<in> vw_fetched v w \<and> handled_record v r w \<and> n = rec_offset r + 1)"

lemma handled_later: "handled_record v r w \<Longrightarrow> later v w w' \<Longrightarrow> handled_record v r w'"
  by (auto simp: handled_record_def later_def)

lemma later_trans: "later v a b \<Longrightarrow> later v b c \<Longrightarrow> later v a c"
  by (auto simp: later_def)

lemma offsets_later:
  assumes "offsets_handled v start w" and "later v w w'" and "vw_committed v w' \<subseteq> vw_committed v w"
  shows "offsets_handled v start w'"
  unfolding offsets_handled_def
proof (clarify)
  fix s i n
  assume "((s, i), n) \<in> vw_committed v w'" "((s, i), n) \<notin> start"
  then obtain r where "((s, i), r) \<in> vw_fetched v w" "handled_record v r w" "n = rec_offset r + 1"
    using assms(1,3) by (force simp: offsets_handled_def)
  then show "\<exists>r. ((s, i), r) \<in> vw_fetched v w' \<and> handled_record v r w' \<and> n = rec_offset r + 1"
    using assms(2) handled_later [OF _ assms(2)] unfolding later_def by blast
qed

lemma silentD:
  "commits_nothing v m \<Longrightarrow> m w = (r, w') \<Longrightarrow> later v w w' \<and> vw_committed v w' \<subseteq> vw_committed v w"
  unfolding commits_nothing_def by (metis snd_conv)

lemma silentI:
  "(\<And>w r w'. m w = (r, w') \<Longrightarrow> later v w w' \<and> vw_committed v w' \<subseteq> vw_committed v w) \<Longrightarrow> commits_nothing v m"
  unfolding commits_nothing_def by (metis prod.collapse)

lemma later_refl [simp]: "later v w w"
  by (simp add: later_def)

definition was_fetched :: "'w consumer_view \<Rightarrow> partition \<Rightarrow> kafka_record list \<Rightarrow> 'w \<Rightarrow> bool" where
  "was_fetched v tp rs w \<longleftrightarrow> (\<forall>r \<in> set rs. (tp, r) \<in> vw_fetched v w)"

lemma fetched_later: "was_fetched v tp rs w \<Longrightarrow> later v w w' \<Longrightarrow> was_fetched v tp rs w'"
  by (auto simp: was_fetched_def later_def)

lemma silent_maintains:
  assumes "commits_nothing v m" and "\<And>w w'. P w \<Longrightarrow> later v w w' \<Longrightarrow> P w'"
  shows "maintains (offsets_handled v start) P m (\<lambda>_. P)"
proof (rule maintainsI)
  fix w r w'
  assume "offsets_handled v start w" "P w" and run: "m w = (r, w')"
  then show "offsets_handled v start w' \<and> (\<forall>x. r = Done x \<longrightarrow> P w')"
    using silentD [OF assms(1) run] offsets_later assms(2) by metis
qed

lemma silent_bind [intro!]:
  assumes "commits_nothing v m" and "\<And>x. commits_nothing v (k x)"
  shows "commits_nothing v (bind_prog m k)"
proof (rule silentI)
  fix w r w'
  assume "bind_prog m k w = (r, w')"
  then show "later v w w' \<and> vw_committed v w' \<subseteq> vw_committed v w"
  proof (cases rule: bind_prog_cases)
    case (Done x w1)
    with silentD [OF assms(1)] silentD [OF assms(2)] show ?thesis using later_trans by (meson subset_trans)
  qed (use silentD [OF assms(1)] in auto)
qed

lemma silent_catch [intro!]:
  assumes "commits_nothing v m" and "\<And>e. commits_nothing v (h e)"
  shows "commits_nothing v (catch_prog m h)"
proof (rule silentI)
  fix w r w'
  assume run: "catch_prog m h w = (r, w')"
  obtain r1 w1 where m: "m w = (r1, w1)" by (cases "m w")
  note first = silentD [OF assms(1) m]
  show "later v w w' \<and> vw_committed v w' \<subseteq> vw_committed v w"
  proof (cases r1)
    case (Raised e)
    with run m have "h e w1 = (r, w')" by (simp add: catch_prog_def)
    with silentD [OF assms(2)] first show ?thesis using later_trans by (meson subset_trans)
  qed (use run m first in \<open>auto simp: catch_prog_def\<close>)
qed

lemma silent_at_local [intro!]: "commits_nothing v m \<Longrightarrow> commits_nothing v (at_local l m)"
  unfolding at_local_def by auto

lemma silent_if [intro!]: "commits_nothing v a \<Longrightarrow> commits_nothing v b \<Longrightarrow> commits_nothing v (if p then a else b)"
  by simp

lemma silent_diverge [intro!]: "commits_nothing v diverge"
  by (simp add: commits_nothing_def diverge_def)

lemma process_record_handles:
  assumes "consumer_contract v rt" and "process_record rt r w = (Done (), w')"
  shows "handled_record v r w'"
  using assms unfolding consumer_contract_def process_record_def handled_record_def
  by (auto elim!: bind_prog_cases split: sum.splits if_splits)

lemma consumer_silent:
  assumes "consumer_contract v rt"
  shows "commits_nothing v (cs_assignment (wr_consumer rt))" "commits_nothing v (cs_paused (wr_consumer rt))"
    "commits_nothing v (cs_pause (wr_consumer rt) ps)" "commits_nothing v (cs_resume (wr_consumer rt) ps)"
    "commits_nothing v (cs_getmany (wr_consumer rt) t)" "commits_nothing v (wr_stopped rt)"
  using assms by (simp_all add: consumer_contract_def)

lemma process_record_silent: "consumer_contract v rt \<Longrightarrow> commits_nothing v (process_record rt r)"
  by (auto simp: process_record_def consumer_contract_def split: sum.split)

lemma contract_fetch:
  assumes "consumer_contract v rt" and "cs_getmany (wr_consumer rt) t w = (Done records, w')"
    and "(tp, rs) \<in> set records" and "r \<in> set rs"
  shows "(tp, r) \<in> vw_fetched v w'"
proof -
  have "\<forall>(tp, rs) \<in> set records. \<forall>r \<in> set rs. (tp, r) \<in> vw_fetched v w'"
    using assms(1,2) by (simp add: consumer_contract_def)
  with assms(3,4) show ?thesis by blast
qed

lemma release_silent:
  assumes "consumer_contract v rt" and "commits_nothing v (tk_done t)" and "commits_nothing v (tk_cancel t)"
  shows "commits_nothing v (release_polls (wr_consumer rt) t h)"
  using assms(2,3) consumer_silent [OF assms(1)] by (auto simp: release_polls_def Let_def)

lemma await_silent:
  assumes rt: "consumer_contract v rt" and start: "commits_nothing v start"
    and task: "\<And>w t w1. start w = (Done t, w1) \<Longrightarrow>
      commits_nothing v (tk_done t) \<and> commits_nothing v (tk_cancel t) \<and> (\<forall>i. commits_nothing v (tk_wait t i))"
  shows "commits_nothing v (await_with_safe_consumer_polls (wr_consumer rt) start interval fuel)"
proof (rule silentI)
  let ?c = "wr_consumer rt"
  note consumer = consumer_silent [OF rt]
  have pause: "commits_nothing v (pause_current_assignment ?c h)" for h
    unfolding pause_current_assignment_def by (auto simp: Let_def intro!: consumer)
  have poll: "commits_nothing v (keepalive_poll ?c)"
    unfolding keepalive_poll_def by (auto intro!: consumer)
  fix w r w'
  assume run: "await_with_safe_consumer_polls ?c start interval fuel w = (r, w')"
  have loop: "commits_nothing v (poll_loop ?c t interval n h)" if "\<forall>i. commits_nothing v (tk_wait t i)" for t n h
    using that pause poll by (induction n arbitrary: h) auto
  have release: "commits_nothing v (release_polls ?c t h)"
    if "commits_nothing v (tk_done t)" "commits_nothing v (tk_cancel t)" for t h
    using release_silent [OF rt that] .
  show "later v w w' \<and> vw_committed v w' \<subseteq> vw_committed v w"
  proof (cases "interval \<le> 0")
    case True
    with run show ?thesis by (simp add: await_with_safe_consumer_polls_def)
  next
    case False
    with run have run: "bind_prog start (\<lambda>t.
        bind_prog
          (catch_prog (bind_prog (polls_body ?c t interval fuel) (\<lambda>by_helper. ret (Inr by_helper)))
             (\<lambda>failure. ret (Inl failure))) (\<lambda>r.
        case r of
          Inr by_helper \<Rightarrow> release_polls ?c t by_helper
        | Inl (e, by_helper) \<Rightarrow> bind_prog (release_polls ?c t by_helper) (\<lambda>_. raise_exc e))) w = (r, w')"
      by (simp add: await_with_safe_consumer_polls_def)
    then show ?thesis
    proof (cases rule: bind_prog_cases)
      case (Done t w1)
      note t = task [OF Done(1)]
      have "commits_nothing v (bind_prog
          (catch_prog (bind_prog (polls_body ?c t interval fuel) (\<lambda>by_helper. ret (Inr by_helper)))
             (\<lambda>failure. ret (Inl failure))) (\<lambda>r.
        case r of
          Inr by_helper \<Rightarrow> release_polls ?c t by_helper
        | Inl (e, by_helper) \<Rightarrow> bind_prog (release_polls ?c t by_helper) (\<lambda>_. raise_exc e)))"
        using t pause loop release
        by (auto simp: polls_body_def split: sum.split prod.split)
      from silentD [OF this Done(2)] silentD [OF start Done(1)] show ?thesis
        using later_trans by (meson subset_trans)
    qed (use silentD [OF start] in auto)
  qed
qed

text \<open>When the helper returns, the operation has returned.\<close>

lemma poll_loop_finished:
  assumes "poll_loop c t interval n h w = (Done h', w')"
  shows "\<exists>u. tk_wait t interval u = (Done (), w')"
  using assms
proof (induction n arbitrary: h w)
  case (Suc n)
  then show ?case
    by (auto simp: bind_prog_def catch_prog_def at_local_def split: prod.splits outcome.splits if_splits)
qed (simp add: diverge_def)

lemma await_handles:
  assumes rt: "consumer_contract v rt" and tasks: "task_contract v (wr_spawn rt)"
    and run: "await_with_safe_consumer_polls (wr_consumer rt) (wr_spawn rt (process_record rt r)) interval fuel w = (Done (), w')"
  shows "handled_record v r w'"
proof -
  let ?c = "wr_consumer rt" and ?m = "process_record rt r"
  have "0 < interval" using run by (auto simp: await_with_safe_consumer_polls_def split: if_splits)
  with run obtain t w1 h w2 where t: "wr_spawn rt ?m w = (Done t, w1)"
      and polls: "polls_body ?c t interval fuel w1 = (Done h, w2)" and fin: "release_polls ?c t h w2 = (Done (), w')"
    by (auto simp: await_with_safe_consumer_polls_def catch_prog_def elim!: bind_prog_cases
        split: prod.splits outcome.splits sum.splits)
  obtain u where "tk_wait t interval u = (Done (), w2)"
    using polls poll_loop_finished unfolding polls_body_def by (metis bind_prog_cases outcome.distinct(1,3))
  then obtain x x' where "?m x = (Done (), x')" "later v x' w2"
    using tasks t process_record_silent [OF rt] unfolding task_contract_def by metis
  then have "handled_record v r w2"
    using process_record_handles [OF rt] handled_later by metis
  moreover have "commits_nothing v (release_polls ?c t h)"
    using tasks t process_record_silent [OF rt] unfolding task_contract_def by (intro release_silent [OF rt]) metis+
  ultimately show ?thesis using silentD [of v "release_polls ?c t h", OF _ fin] handled_later by metis
qed

lemma consume_records_offsets:
  assumes rt: "consumer_contract v rt" and tasks: "task_contract v (wr_spawn rt)"
    and kept: "\<And>w w'. P w \<Longrightarrow> later v w w' \<Longrightarrow> P w'"
  shows "maintains (offsets_handled v start) (\<lambda>w. was_fetched v tp rs w \<and> P w) (consume_records rt fuel tp rs) (\<lambda>_. P)"
proof (induction rs)
  case Nil
  show ?case unfolding consume_records.simps by (rule maintains_ret) simp
next
  case (Cons r rs)
  let ?await = "await_with_safe_consumer_polls (wr_consumer rt) (wr_spawn rt (process_record rt r)) safe_poll_interval fuel"
  let ?fetched = "\<lambda>w. was_fetched v tp (r # rs) w \<and> P w"
  have "commits_nothing v ?await"
    by (rule await_silent [OF rt]) (use tasks process_record_silent [OF rt] in \<open>auto simp: task_contract_def\<close>)
  then have silent: "maintains (offsets_handled v start) ?fetched ?await (\<lambda>_. ?fetched)"
    by (rule silent_maintains) (elim conjE, intro conjI, erule (1) fetched_later, erule (1) kept)
  have await: "maintains (offsets_handled v start) ?fetched ?await (\<lambda>_ w. ?fetched w \<and> handled_record v r w)"
  proof (rule maintainsI)
    fix w x w'
    assume "offsets_handled v start w" "?fetched w" and run: "?await w = (x, w')"
    with silent have "offsets_handled v start w'" "\<And>y. x = Done y \<Longrightarrow> ?fetched w'" unfolding maintains_def by blast+
    moreover have "handled_record v r w'" if "x = Done y" for y
      using await_handles [OF rt tasks, of r safe_poll_interval fuel w w'] run that by simp
    ultimately show "offsets_handled v start w' \<and> (\<forall>y. x = Done y \<longrightarrow> ?fetched w' \<and> handled_record v r w')"
      by simp
  qed
  have commit: "maintains (offsets_handled v start) (\<lambda>w. ?fetched w \<and> handled_record v r w)
      (cs_commit (wr_consumer rt) tp (rec_offset r + 1)) (\<lambda>_ w. was_fetched v tp rs w \<and> P w)"
  proof (rule maintainsI)
    fix w x w'
    assume inv: "offsets_handled v start w" and now: "?fetched w \<and> handled_record v r w"
      and run: "cs_commit (wr_consumer rt) tp (rec_offset r + 1) w = (x, w')"
    have step: "later v w w'" "vw_committed v w' \<subseteq> insert (tp, rec_offset r + 1) (vw_committed v w)"
      using rt run unfolding consumer_contract_def by metis+
    have mine: "(tp, r) \<in> vw_fetched v w' \<and> handled_record v r w'"
      using now handled_later [OF _ step(1), of r] step(1) by (auto simp: was_fetched_def later_def)
    have "offsets_handled v start w'"
      unfolding offsets_handled_def
    proof clarify
      fix s i n
      assume new: "((s, i), n) \<in> vw_committed v w'" "((s, i), n) \<notin> start"
      show "\<exists>r. ((s, i), r) \<in> vw_fetched v w' \<and> handled_record v r w' \<and> n = rec_offset r + 1"
      proof (cases "((s, i), n) \<in> vw_committed v w")
        case True
        with inv new(2) obtain r' where "((s, i), r') \<in> vw_fetched v w" "handled_record v r' w" "n = rec_offset r' + 1"
          by (force simp: offsets_handled_def)
        then show ?thesis using step(1) handled_later [OF _ step(1)] unfolding later_def by blast
      next
        case False
        with new(1) step(2) have "(s, i) = tp" "n = rec_offset r + 1" by auto
        with mine show ?thesis by blast
      qed
    qed
    moreover have "was_fetched v tp rs w' \<and> P w'" using now step(1) kept by (auto simp: was_fetched_def later_def)
    ultimately show "offsets_handled v start w' \<and> (\<forall>y. x = Done y \<longrightarrow> was_fetched v tp rs w' \<and> P w')" by blast
  qed
  show ?case
    unfolding consume_records.simps by (rule maintains_bind [OF await], rule maintains_bind [OF commit], rule Cons.IH)
qed

definition all_fetched :: "'w consumer_view \<Rightarrow> (partition \<times> kafka_record list) list \<Rightarrow> 'w \<Rightarrow> bool" where
  "all_fetched v records u \<longleftrightarrow> (\<forall>(tp, rs) \<in> set records. was_fetched v tp rs u)"

lemma all_fetched_later: "all_fetched v records u \<Longrightarrow> later v u u' \<Longrightarrow> all_fetched v records u'"
  using fetched_later unfolding all_fetched_def by fast

lemma consume_partitions_offsets:
  assumes rt: "consumer_contract v rt" and tasks: "task_contract v (wr_spawn rt)"
  shows "maintains (offsets_handled v I) (all_fetched v records) (consume_partitions rt fuel records) (\<lambda>_ _. True)"
proof (induction records)
  case Nil
  show ?case unfolding consume_partitions.simps by (rule maintains_ret) simp
next
  case (Cons pr records)
  obtain tp rs where pr: "pr = (tp, rs)" by (cases pr)
  have "maintains (offsets_handled v I) (all_fetched v (pr # records)) (consume_records rt fuel tp rs)
      (\<lambda>_. all_fetched v records)"
    by (rule maintains_weaken [OF consume_records_offsets [OF rt tasks all_fetched_later]]) (auto simp: pr all_fetched_def)
  then show ?case unfolding pr consume_partitions.simps by (rule maintains_bind) (rule Cons.IH)
qed

lemma getmany_offsets:
  assumes rt: "consumer_contract v rt"
  shows "maintains (offsets_handled v I) (\<lambda>_. True) (cs_getmany (wr_consumer rt) t) (all_fetched v)"
proof (rule maintainsI)
  fix u x u'
  assume inv: "offsets_handled v I u" and run: "cs_getmany (wr_consumer rt) t u = (x, u')"
  have "offsets_handled v I u'"
    using silentD [OF consumer_silent(5) [OF rt] run] by (intro offsets_later [OF inv]) simp_all
  moreover have "all_fetched v records u'" if "x = Done records" for records
    using contract_fetch [OF rt, of t u records u'] run that by (auto simp: was_fetched_def all_fetched_def)
  ultimately show "offsets_handled v I u' \<and> (\<forall>records. x = Done records \<longrightarrow> all_fetched v records u')"
    by blast
qed

text \<open>
  C36. An offset is committed only after its record was dealt with: whatever happens, every offset that the
  worker has committed is one more than the offset of a record that it fetched from that partition
  and that was processed or, when it is no message, put in the dead letter queue.
\<close>

theorem offsets_follow_processing:
  assumes rt: "consumer_contract v rt" and tasks: "task_contract v (wr_spawn rt)"
    and run: "consume_loop rt fuel n w = (r, w')" and new: "(tp, offset) \<in> vw_committed v w' - vw_committed v w"
  shows "\<exists>record. (tp, record) \<in> vw_fetched v w' \<and> handled_record v record w' \<and> offset = rec_offset record + 1"
proof -
  let ?I = "offsets_handled v (vw_committed v w)"
  note partitions = consume_partitions_offsets [OF rt tasks, where I = "vw_committed v w"]
  note fetch = getmany_offsets [OF rt, where I = "vw_committed v w"]
  have "maintains ?I (\<lambda>_. True) (consume_loop rt fuel n) (\<lambda>_ _. True)"
  proof (induction n)
    case (Suc n)
    have stopped: "maintains ?I (\<lambda>_. True) (wr_stopped rt) (\<lambda>_ _. True)"
      by (rule silent_maintains [OF consumer_silent(6) [OF rt]]) simp
    have round: "maintains ?I (\<lambda>_. True)
        (bind_prog (cs_getmany (wr_consumer rt) 1000000) (\<lambda>records.
         bind_prog (consume_partitions rt fuel records) (\<lambda>_. consume_loop rt fuel n))) (\<lambda>_ _. True)"
      by (rule maintains_bind [OF fetch], rule maintains_bind [OF partitions], rule Suc.IH)
    show ?case
      unfolding consume_loop.simps
    proof (rule maintains_bind [OF stopped], goal_cases)
      case (1 stopped)
      then show ?case using round by (cases stopped) (simp_all add: maintains_ret)
    qed
  qed (simp add: maintains_diverge)
  moreover have "?I w" by (simp add: offsets_handled_def)
  ultimately have "?I w'" using run unfolding maintains_def by blast
  with new show ?thesis by (cases tp) (force simp: offsets_handled_def)
qed

section \<open>A consumer\<close>

text \<open>One record that is no message, in a world of lists; a task runs when it is waited for.\<close>

record consumed =
  cd_queue :: "(partition \<times> kafka_record list) list"
  cd_committed :: "(partition \<times> int) list"
  cd_fetched :: "(partition \<times> kafka_record) list"
  cd_dead :: "(bytes option \<times> bytes) list"
  cd_assigned :: "partition set"
  cd_paused :: "partition set"

definition sample_consumer :: "consumed consumer" where
  "sample_consumer =
     \<lparr>cs_assignment = (\<lambda>w. (Done (cd_assigned w), w)), cs_paused = (\<lambda>w. (Done (cd_paused w), w)),
      cs_pause = (\<lambda>ps w. (Done (), w\<lparr>cd_paused := cd_paused w \<union> ps\<rparr>)),
      cs_resume = (\<lambda>ps w. (Done (), w\<lparr>cd_paused := cd_paused w - ps\<rparr>)),
      cs_getmany = (\<lambda>t w. (Done (cd_queue w),
        w\<lparr>cd_queue := [], cd_fetched := concat (map (\<lambda>q. map (Pair (fst q)) (snd q)) (cd_queue w)) @ cd_fetched w\<rparr>)),
      cs_commit = (\<lambda>tp n w. (Done (), w\<lparr>cd_committed := (tp, n) # cd_committed w\<rparr>))\<rparr>"

definition run_on_wait :: "('w, unit) op \<Rightarrow> ('w, 'w task) op" where
  "run_on_wait m = ret \<lparr>tk_wait = (\<lambda>t. m), tk_done = ret True, tk_cancel = ret ()\<rparr>"

definition sample_runtime :: "consumed worker_runtime" where
  "sample_runtime =
     \<lparr>wr_consumer = sample_consumer, wr_spawn = run_on_wait, wr_stopped = (\<lambda>w. (Done (cd_committed w \<noteq> []), w)),
      wr_error = (\<lambda>e kvs. ret ()), wr_send_dlq = (\<lambda>k x hs w. (Done (), w\<lparr>cd_dead := (k, x) # cd_dead w\<rparr>)),
      wr_process = (\<lambda>message. raise_exc DatabaseUnavailableError)\<rparr>"

definition sample_view :: "consumed consumer_view" where
  "sample_view =
     \<lparr>vw_committed = set \<circ> cd_committed, vw_fetched = set \<circ> cd_fetched, vw_processed = (\<lambda>w. {}),
      vw_dead = set \<circ> cd_dead\<rparr>"

definition bad_record :: kafka_record where
  "bad_record = \<lparr>rec_topic = ''jobs'', rec_partition = 0, rec_offset = 41, rec_key = None, rec_value = ''?''\<rparr>"

definition bad_queue :: consumed where
  "bad_queue = \<lparr>cd_queue = [((''jobs'', 0), [bad_record])], cd_committed = [], cd_fetched = [], cd_dead = [],
     cd_assigned = {(''jobs'', 0)}, cd_paused = {}\<rparr>"

lemma offsets_follow_processing_witness:
  "\<exists>w'. consume_loop sample_runtime 5 2 bad_queue = (Done (), w') \<and>
    (\<exists>record. ((''jobs'', 0), record) \<in> vw_fetched sample_view w' \<and> handled_record sample_view record w' \<and>
      42 = rec_offset record + 1)"
proof -
  have bad: "decode_job_message ''?'' = Inl JSONDecodeError" by code_simp
  obtain w' where run: "consume_loop sample_runtime 5 2 bad_queue = (Done (), w')"
      and committed: "cd_committed w' = [((''jobs'', 0), 42)]"
    by (simp add: numeral_eq_Suc bad_queue_def sample_runtime_def sample_consumer_def run_on_wait_def
        await_with_safe_consumer_polls_def safe_poll_interval_def polls_body_def pause_current_assignment_def
        release_polls_def process_record_def bad_record_def bad bind_prog_def catch_prog_def at_local_def Let_def)
  have "consumer_contract sample_view sample_runtime"
    by (auto simp: consumer_contract_def sample_runtime_def sample_consumer_def sample_view_def commits_nothing_def later_def)
       force
  moreover have "task_contract sample_view (wr_spawn sample_runtime)"
    by (auto simp: task_contract_def sample_runtime_def run_on_wait_def intro: later_refl)
  moreover have "((''jobs'', 0), 42) \<in> vw_committed sample_view w' - vw_committed sample_view bad_queue"
    by (simp add: sample_view_def committed bad_queue_def)
  ultimately show ?thesis using offsets_follow_processing [OF _ _ run] run by blast
qed

section \<open>Pauses\<close>

text \<open>
  How the consumer keeps its partitions: pausing and resuming do what they say, the other calls may change
  the assignment but pause nothing.
\<close>

definition pauses_nothing :: "('w \<Rightarrow> partition set) \<Rightarrow> ('w, 'e, 'a) prog \<Rightarrow> bool" where
  "pauses_nothing paused m \<longleftrightarrow> (\<forall>w. paused (snd (m w)) \<subseteq> paused w)"

definition pausing_consumer :: "('w \<Rightarrow> partition set) \<Rightarrow> ('w \<Rightarrow> partition set) \<Rightarrow> 'w consumer \<Rightarrow> bool" where
  "pausing_consumer assigned paused c \<longleftrightarrow>
     (\<forall>w. cs_assignment c w = (Done (assigned w), w)) \<and> (\<forall>w. cs_paused c w = (Done (paused w), w)) \<and>
     (\<forall>ps w. \<exists>w'. cs_pause c ps w = (Done (), w') \<and> assigned w' = assigned w \<and> paused w' \<subseteq> paused w \<union> ps) \<and>
     (\<forall>ps w. \<exists>w'. cs_resume c ps w = (Done (), w') \<and> assigned w' = assigned w \<and> paused w' = paused w - ps) \<and>
     (\<forall>t. pauses_nothing paused (cs_getmany c t))"

definition quiet_task :: "('w \<Rightarrow> partition set) \<Rightarrow> 'w task \<Rightarrow> bool" where
  "quiet_task paused t \<longleftrightarrow>
     (\<forall>i. pauses_nothing paused (tk_wait t i)) \<and>
     (\<forall>w. \<exists>b w'. tk_done t w = (Done b, w') \<and> paused w' \<subseteq> paused w) \<and>
     (\<forall>w. \<exists>w'. tk_cancel t w = (Done (), w') \<and> paused w' \<subseteq> paused w)"

lemma pause_current_paused:
  assumes "pausing_consumer assigned paused c" and "paused w \<subseteq> P \<union> h"
  obtains h' w' where "pause_current_assignment c h w = (Done h', w')" "paused w' \<subseteq> P \<union> h'"
proof -
  let ?new = "assigned w - paused w"
  obtain w' where pause: "cs_pause c ?new w = (Done (), w')" "paused w' \<subseteq> paused w \<union> ?new"
    using assms(1) unfolding pausing_consumer_def by metis
  have reads: "cs_assignment c w = (Done (assigned w), w)" "cs_paused c w = (Done (paused w), w)"
    using assms(1) by (simp_all add: pausing_consumer_def)
  show thesis
  proof (cases "?new = {}")
    case True
    then show ?thesis
      using assms(2) by (intro that [of h w]) (simp_all add: pause_current_assignment_def bind_prog_def reads)
  next
    case False
    have "paused w' \<subseteq> P \<union> (h \<union> ?new)" using assms(2) pause(2) by blast
    then show ?thesis
      using False pause(1)
      by (intro that [of "h \<union> ?new" w']) (simp_all add: pause_current_assignment_def bind_prog_def reads Let_def)
  qed
qed

lemma poll_loop_paused:
  assumes c: "pausing_consumer assigned paused c" and t: "quiet_task paused t"
    and run: "poll_loop c t interval n h w = (r, w')" and "paused w \<subseteq> P \<union> h"
  shows "case r of Done h' \<Rightarrow> paused w' \<subseteq> P \<union> h' | Raised (e, h') \<Rightarrow> paused w' \<subseteq> P \<union> h' | Diverged \<Rightarrow> True"
  using run assms(4)
proof (induction n arbitrary: h w)
  case (Suc n)
  obtain r1 w1 where wait: "tk_wait t interval w = (r1, w1)" by (cases "tk_wait t interval w")
  have "paused w1 \<subseteq> paused w" using t wait unfolding quiet_task_def pauses_nothing_def by (metis snd_conv)
  with Suc.prems(2) have w1: "paused w1 \<subseteq> P \<union> h" by blast
  show ?case
  proof (cases "r1 = Raised TimeoutError")
    case True
    obtain h' w2 where pause: "pause_current_assignment c h w1 = (Done h', w2)" "paused w2 \<subseteq> P \<union> h'"
      using pause_current_paused [OF c w1] .
    obtain r3 w3 where poll: "keepalive_poll c w2 = (r3, w3)" by (cases "keepalive_poll c w2")
    have "paused w3 \<subseteq> paused w2"
    proof -
      obtain r4 w4 where "cs_getmany c 0 w2 = (r4, w4)" by (cases "cs_getmany c 0 w2")
      moreover from this have "paused w4 \<subseteq> paused w2"
        using c unfolding pausing_consumer_def pauses_nothing_def by (metis snd_conv)
      ultimately show ?thesis
        using poll by (auto simp: keepalive_poll_def bind_prog_def split: outcome.splits if_splits)
    qed
    with pause(2) have w3: "paused w3 \<subseteq> P \<union> h'" by blast
    have step: "poll_loop c t interval (Suc n) h w =
        (case r3 of Done x \<Rightarrow> poll_loop c t interval n h' w3 | Raised e \<Rightarrow> (Raised (e, h'), w3) | Diverged \<Rightarrow> (Diverged, w3))"
      using wait True pause(1) poll
      by (simp add: bind_prog_def catch_prog_def at_local_def split: outcome.split)
    show ?thesis
      using Suc.prems(1) Suc.IH [OF _ w3] w3 unfolding step by (auto split: outcome.splits)
  next
    case False
    then show ?thesis
      using Suc.prems(1) wait w1 by (auto simp: bind_prog_def catch_prog_def split: outcome.splits)
  qed
qed (simp add: diverge_def)

lemma release_paused:
  assumes c: "pausing_consumer assigned paused c" and t: "quiet_task paused t" and "paused w \<subseteq> P \<union> h"
  obtains w' where "release_polls c t h w = (Done (), w')" "paused w' \<inter> assigned w' \<subseteq> P"
proof -
  obtain b w1 where w1: "tk_done t w = (Done b, w1)" "paused w1 \<subseteq> paused w"
    using t unfolding quiet_task_def by metis
  obtain w2 where w2: "(if b then ret () else tk_cancel t) w1 = (Done (), w2)" "paused w2 \<subseteq> paused w1"
    using t unfolding quiet_task_def by (cases b) (auto, metis)
  let ?ps = "h \<inter> assigned w2 \<inter> paused w2"
  obtain w3 where w3: "cs_resume c ?ps w2 = (Done (), w3)" "assigned w3 = assigned w2" "paused w3 = paused w2 - ?ps"
    using c unfolding pausing_consumer_def by metis
  have reads: "cs_assignment c v = (Done (assigned v), v)" "cs_paused c v = (Done (paused v), v)" for v
    using c by (simp_all add: pausing_consumer_def)
  have "release_polls c t h w = (if ?ps \<noteq> {} then cs_resume c ?ps else ret ()) w2"
    using w1(1) w2(1) reads by (simp add: release_polls_def bind_prog_def Let_def)
  moreover have "paused w2 \<subseteq> P \<union> h" using assms(3) w1(2) w2(2) by blast
  ultimately show thesis
    using w3 that by (cases "?ps = {}") auto
qed



text \<open>
  The helper takes every \<open>TimeoutError\<close> for the end of an interval: an operation that fails with one
  is polled forever, whatever the fuel.
\<close>

lemma timeout_error_polled_forever:
  "fst (await_with_safe_consumer_polls sample_consumer (run_on_wait (raise_exc TimeoutError)) 5 n
     (bad_queue\<lparr>cd_queue := []\<rparr>)) = Diverged"
proof -
  let ?t = "\<lparr>tk_wait = (\<lambda>t. raise_exc TimeoutError), tk_done = ret True, tk_cancel = ret ()\<rparr>"
  have consumer: "cs_assignment sample_consumer = (\<lambda>w. (Done (cd_assigned w), w))"
      "cs_paused sample_consumer = (\<lambda>w. (Done (cd_paused w), w))"
      "cs_pause sample_consumer = (\<lambda>ps w. (Done (), w\<lparr>cd_paused := cd_paused w \<union> ps\<rparr>))"
      "cs_getmany sample_consumer = (\<lambda>t w. (Done (cd_queue w),
        w\<lparr>cd_queue := [], cd_fetched := concat (map (\<lambda>q. map (Pair (fst q)) (snd q)) (cd_queue w)) @ cd_fetched w\<rparr>))"
    by (simp_all add: sample_consumer_def)
  have loop: "fst (poll_loop sample_consumer ?t 5 n h w) = Diverged" if "cd_queue w = []" for h w
    using that
  proof (induction n arbitrary: h w)
    case (Suc n)
    then show ?case
      by (simp add: pause_current_assignment_def keepalive_poll_def consumer at_local_def
          bind_prog_def catch_prog_def Let_def)
  qed (simp add: diverge_def)
  let ?w = "bad_queue\<lparr>cd_queue := [], cd_paused := {(''jobs'', 0)}\<rparr>"
  obtain w' where "poll_loop sample_consumer ?t 5 n {(''jobs'', 0)} ?w = (Diverged, w')"
    using loop [of ?w "{(''jobs'', 0)}"] by (cases "poll_loop sample_consumer ?t 5 n {(''jobs'', 0)} ?w") simp
  then show ?thesis
    by (simp add: await_with_safe_consumer_polls_def run_on_wait_def polls_body_def pause_current_assignment_def
        bad_queue_def consumer at_local_def bind_prog_def catch_prog_def Let_def)
qed

section \<open>Readiness\<close>

text \<open>
  The monotonic clock: no call turns it back, and a pause that ends by its timeout takes the whole time. A
  pause that returns was ended by the stop event.
\<close>

definition clock_contract :: "('w \<Rightarrow> time) \<Rightarrow> ('w \<Rightarrow> bool) \<Rightarrow> 'w readiness_wait \<Rightarrow> bool" where
  "clock_contract clock stopped rw \<longleftrightarrow>
     (\<forall>w. rw_time rw w = (Done (clock w), w)) \<and> (\<forall>w. rw_stopped rw w = (Done (stopped w), w)) \<and>
     (\<forall>w r w'. rw_check rw w = (r, w') \<longrightarrow> r \<noteq> Diverged \<and> clock w \<le> clock w') \<and>
     (\<forall>e kvs w. fst (rw_error rw e kvs w) \<noteq> Diverged) \<and>
     (\<forall>d w r w'. rw_wait_stop rw d w = (r, w') \<longrightarrow> r \<noteq> Diverged \<and>
        (r = Done () \<longrightarrow> stopped w') \<and> (r = Raised TimeoutError \<longrightarrow> clock w + d \<le> clock w'))"

lemma readiness_loop_ends:
  assumes contract: "clock_contract clock stopped rw"
  shows "deadline - clock w < int n * poll \<Longrightarrow> 0 < poll \<Longrightarrow> fst (readiness_loop rw deadline poll (Suc (Suc n)) w) \<noteq> Diverged"
proof (induction n arbitrary: w)
  case 0
  have reads: "rw_time rw v = (Done (clock v), v)" "rw_stopped rw v = (Done (stopped v), v)" for v
    using contract by (simp_all add: clock_contract_def)
  obtain r w1 where check: "rw_check rw w = (r, w1)" by (cases "rw_check rw w")
  have "r \<noteq> Diverged" "clock w \<le> clock w1" using contract check unfolding clock_contract_def by blast+
  moreover have "rw_error rw e kvs v \<noteq> (Diverged, v')" for e kvs v v'
    using contract unfolding clock_contract_def by (metis fst_conv)
  ultimately show ?case
    using 0 check by (auto simp: reads bind_prog_def split: outcome.splits prod.splits)
next
  case (Suc n)
  have reads: "rw_time rw v = (Done (clock v), v)" "rw_stopped rw v = (Done (stopped v), v)" for v
    using contract by (simp_all add: clock_contract_def)
  obtain r w1 where check: "rw_check rw w = (r, w1)" by (cases "rw_check rw w")
  have checked: "r \<noteq> Diverged" "clock w \<le> clock w1" using contract check unfolding clock_contract_def by blast+
  have error: "rw_error rw e kvs v \<noteq> (Diverged, v')" for e kvs v v'
    using contract unfolding clock_contract_def by (metis fst_conv)
  obtain r2 w2 where pause: "rw_wait_stop rw poll w1 = (r2, w2)" by (cases "rw_wait_stop rw poll w1")
  have paused: "r2 \<noteq> Diverged" "r2 = Done () \<Longrightarrow> stopped w2" "r2 = Raised TimeoutError \<Longrightarrow> clock w1 + poll \<le> clock w2"
    using contract pause unfolding clock_contract_def by blast+
  have again: "fst (readiness_loop rw deadline poll (Suc (Suc n)) w2) \<noteq> Diverged" if "r2 = Done () \<or> r2 = Raised TimeoutError"
  proof (cases "r2 = Done ()")
    case True
    then show ?thesis using paused(2) by (simp add: reads bind_prog_def)
  next
    case False
    then have "deadline - clock w2 < int n * poll"
      using that paused(3) checked(2) Suc.prems(1) by (simp add: algebra_simps)
    then show ?thesis using Suc.IH Suc.prems(2) by blast
  qed
  have "readiness_loop rw deadline poll (Suc (Suc (Suc n))) w =
      (if stopped w then (Done False, w)
       else case r of
         Done report \<Rightarrow>
           if report_ready report then (Done True, w1)
           else if deadline \<le> clock w1 then
             bind_prog (rw_error rw ''worker_readiness_timeout'' (readiness_timeout_fields report)) (\<lambda>_.
               raise_exc (RuntimeError ''worker dependencies did not become ready'')) w1
           else (case r2 of
             Done x \<Rightarrow> readiness_loop rw deadline poll (Suc (Suc n)) w2
           | Raised e \<Rightarrow> if e = TimeoutError then readiness_loop rw deadline poll (Suc (Suc n)) w2 else (Raised e, w2)
           | Diverged \<Rightarrow> (Diverged, w2))
       | Raised e \<Rightarrow> (Raised e, w1) | Diverged \<Rightarrow> (Diverged, w1))"
    by (subst readiness_loop.simps)
       (simp add: reads check pause readiness_pause_def bind_prog_def catch_prog_def del: readiness_loop.simps
          split: outcome.split prod.split)
  then show ?case
    using checked(1) paused(1) again error
    by (auto simp del: readiness_loop.simps simp: bind_prog_def split: outcome.splits prod.splits)
qed

lemma ready_only_when_reported:
  "readiness_loop rw deadline poll n w = (Done True, w') \<Longrightarrow>
   \<exists>u report. rw_check rw u = (Done report, w') \<and> report_ready report"
proof (induction n arbitrary: w)
  case (Suc n)
  then show ?case
    by (auto elim!: bind_prog_cases split: if_splits) blast
qed (simp add: diverge_def)


text \<open>Dependencies that never get ready, with a clock that the pauses drive.\<close>

definition never_ready :: "int readiness_wait" where
  "never_ready =
     \<lparr>rw_check = ret \<lparr>rep_checks = [(''kafka'', ''unavailable'')], rep_code = Some QUEUE_UNAVAILABLE,
        rep_reason = Some ''queue_unavailable''\<rparr>,
      rw_stopped = ret False, rw_wait_stop = (\<lambda>d w. (Raised TimeoutError, w + d)), rw_time = (\<lambda>w. (Done w, w)),
      rw_error = (\<lambda>e kvs. ret ())\<rparr>"


end
