(* ===== verification/Status_Codes.thy ===== *)
theory Status_Codes
  imports Logging Api_Keys
begin

text \<open>
  The generator of the status codes, \<^verbatim>\<open>scripts/generate_internal_status_codes.py\<close>: it reads the registry,
  refuses duplicates, renders the enumeration for Python, Go and TypeScript, and writes the three files
  or, with \<open>--check\<close>, reports those that are stale. The file system and \<open>gofmt\<close> are parameters. The texts
  it renders are those of an ASCII registry.

  The property: a run in check mode after a run that writes finds nothing stale, and it finds
  nothing stale exactly when the three files hold what would be written. The enumeration of
  \<^theory_text>\<open>Errors\<close> is the one that the registry of the repository gives.
\<close>

section \<open>The registry\<close>

text \<open>The elements that \<open>[*value]\<close> unpacks.\<close>

definition unpack :: "json \<Rightarrow> exn + json list" where
  "unpack v =
     (case v of
        JList xs \<Rightarrow> Inr xs
      | JDict kvs \<Rightarrow> Inr (map (\<lambda>kv. JStr (fst kv)) kvs)
      | JStr s \<Rightarrow> Inr (map (\<lambda>c. JStr [c]) s)
      | _ \<Rightarrow> Inl TypeError)"

definition statuses_of :: "json \<Rightarrow> exn + json list" where
  "statuses_of payload =
     bind_sum (json_item payload ''success'') (\<lambda>success.
     bind_sum (bind_sum (json_item payload ''statuses'') unpack) (\<lambda>rest.
     let statuses = success # rest
     in bind_sum (map_sum (\<lambda>item. bind_sum (json_item item ''name'') (\<lambda>n. Inr (py_str n))) statuses) (\<lambda>names.
        bind_sum (map_sum (\<lambda>item. bind_sum (json_item item ''value'') py_int) statuses) (\<lambda>values.
        if \<not> distinct names \<or> \<not> distinct values
        then Inl (ValueError ''status registry contains duplicate names or values'')
        else Inr statuses))))"

definition load_statuses :: "string \<Rightarrow> exn + json list" where
  "load_statuses text =
     (case loads text of None \<Rightarrow> Inl JSONDecodeError | Some payload \<Rightarrow> statuses_of payload)"

section \<open>Rendering\<close>

text \<open>A field of a loaded status in a format string.\<close>

definition shown :: "json \<Rightarrow> string \<Rightarrow> string" where
  "shown item k = (case json_get item k of Some v \<Rightarrow> py_str v | None \<Rightarrow> [])"

definition line_break :: string where
  "line_break = [CHR 0x0A]"

definition lines_text :: "string list \<Rightarrow> string" where
  "lines_text ls = join line_break ls"

definition quoted :: "string \<Rightarrow> string" where
  "quoted s = [CHR 0x22] @ s @ [CHR 0x22]"

definition render_python :: "json list \<Rightarrow> string" where
  "render_python statuses =
     lines_text
       ([quoted (quoted (quoted ''Generated from backend/contracts/internal_status_codes.json; do not edit.'')),
         [], ''from enum import IntEnum'', [], [], ''class InternalStatusCode(IntEnum):''] @
        map (\<lambda>item. ''    '' @ shown item ''name'' @ '' = '' @ shown item ''value'') statuses @
        [[], [], ''__all__ = ['' @ quoted ''InternalStatusCode'' @ '']'', []])"

text \<open>\<open>str.title\<close>: the first letter of each run of letters. A name has fewer separators than characters.\<close>

definition is_letter :: "char \<Rightarrow> bool" where
  "is_letter c \<longleftrightarrow> is_upper c \<or> is_upper (to_upper c)"

fun title_from :: "bool \<Rightarrow> string \<Rightarrow> string" where
  "title_from inside [] = []"
| "title_from inside (c # cs) = (if inside then to_lower c else to_upper c) # title_from (is_letter c) cs"

definition acronyms :: "(string \<times> string) list" where
  "acronyms = [(''API'', ''API''), (''ID'', ''ID''), (''OCR'', ''OCR'')]"

definition go_identifier :: "string \<Rightarrow> string" where
  "go_identifier name =
     ''InternalStatus'' @
     concat (map (\<lambda>part. case map_of acronyms part of Some a \<Rightarrow> a | None \<Rightarrow> title_from False part)
       (split_underscore (length name) name))"

definition tab_text :: string where
  "tab_text = [CHR 0x09]"

definition go_source :: "json list \<Rightarrow> string" where
  "go_source statuses =
     lines_text
       ([''// Code generated from backend/contracts/internal_status_codes.json; DO NOT EDIT.'', ''package api'', [],
         ''type InternalStatusCode int'', [], ''const (''] @
        map (\<lambda>item. tab_text @ go_identifier (shown item ''name'') @ '' InternalStatusCode = '' @ shown item ''value'') statuses @
        ['')'', [], ''// String returns the stable cross-language enum name used in structured logs.'',
         ''func (code InternalStatusCode) String() string {'', tab_text @ ''switch code {''] @
        concat (map (\<lambda>item.
          [tab_text @ ''case '' @ go_identifier (shown item ''name'') @ '':'',
           tab_text @ tab_text @ ''return '' @ quoted (shown item ''name'')]) statuses) @
        [tab_text @ ''default:'', tab_text @ tab_text @ ''return '' @ quoted ''UNKNOWN'', tab_text @ ''}'', ''}'', []])"

definition render_typescript :: "json list \<Rightarrow> string" where
  "render_typescript statuses =
     lines_text
       ([''// Generated from backend/contracts/internal_status_codes.json; do not edit.'',
         ''export enum InternalStatusCode {''] @
        map (\<lambda>item. ''  '' @ shown item ''name'' @ '' = '' @ shown item ''value'' @ '','') statuses @ [''}'', []])"

section \<open>The command\<close>

text \<open>\<open>gofmt\<close> exits with an error or is missing: that raises.\<close>

record 'w tree =
  tr_exists :: "string \<Rightarrow> ('w, bool) op"
  tr_read :: "string \<Rightarrow> ('w, string) op"
  tr_mkdir_parent :: "string \<Rightarrow> ('w, unit) op"
  tr_write :: "string \<Rightarrow> string \<Rightarrow> ('w, unit) op"
  tr_gofmt :: "string \<Rightarrow> ('w, string) op"
  tr_print :: "string \<Rightarrow> ('w, unit) op"

definition registry_path :: string where
  "registry_path = ''backend/contracts/internal_status_codes.json''"

definition outputs :: "'w tree \<Rightarrow> json list \<Rightarrow> ('w, (string \<times> string) list) op" where
  "outputs tr statuses =
     bind_prog (tr_gofmt tr (go_source statuses)) (\<lambda>go.
     ret [(''backend/src/shared/internal_status_codes.py'', render_python statuses),
          (''backend/services/lib-go/http/api/internal_status_codes_generated.go'', go),
          (''frontend/src/domain/internalStatusCodes.generated.ts'', render_typescript statuses)])"

definition is_stale :: "'w tree \<Rightarrow> string \<Rightarrow> string \<Rightarrow> ('w, bool) op" where
  "is_stale tr path content =
     bind_prog (tr_exists tr path) (\<lambda>found.
     if \<not> found then ret True else bind_prog (tr_read tr path) (\<lambda>now. ret (now \<noteq> content)))"

fun stale_paths :: "'w tree \<Rightarrow> (string \<times> string) list \<Rightarrow> ('w, string list) op" where
  "stale_paths tr [] = ret []"
| "stale_paths tr ((path, content) # rest) =
     bind_prog (is_stale tr path content) (\<lambda>stale.
     bind_prog (stale_paths tr rest) (\<lambda>paths. ret (if stale then path # paths else paths)))"

fun write_all :: "'w tree \<Rightarrow> (string \<times> string) list \<Rightarrow> ('w, unit) op" where
  "write_all tr [] = ret ()"
| "write_all tr ((path, content) # rest) =
     bind_prog (tr_mkdir_parent tr path) (\<lambda>_.
     bind_prog (tr_write tr path content) (\<lambda>_. write_all tr rest))"

fun print_stale :: "'w tree \<Rightarrow> string list \<Rightarrow> ('w, unit) op" where
  "print_stale tr [] = ret ()"
| "print_stale tr (path # paths) =
     bind_prog (tr_print tr (''stale generated file: '' @ path)) (\<lambda>_. print_stale tr paths)"

definition generate :: "'w tree \<Rightarrow> bool \<Rightarrow> ('w, int) op" where
  "generate tr check =
     bind_prog (tr_read tr registry_path) (\<lambda>text.
     bind_prog (lift_sum (load_statuses text)) (\<lambda>statuses.
     bind_prog (outputs tr statuses) (\<lambda>files.
     if check then
       bind_prog (stale_paths tr files) (\<lambda>stale.
       if stale = [] then ret 0 else bind_prog (print_stale tr stale) (\<lambda>_. ret 1))
     else bind_prog (write_all tr files) (\<lambda>_. ret 0))))"

section \<open>Checking what was written\<close>

text \<open>
  A directory tree: \<open>content\<close> is the text of each file. Reading, \<open>gofmt\<close> and printing change nothing, writing
  stores the text, and a directory is no file.
\<close>

definition tree_laws :: "('w \<Rightarrow> string \<Rightarrow> string option) \<Rightarrow> (string \<Rightarrow> exn + string) \<Rightarrow> 'w tree \<Rightarrow> bool" where
  "tree_laws content gofmt tr \<longleftrightarrow>
     (\<forall>p w. tr_exists tr p w = (Done (content w p \<noteq> None), w)) \<and>
     (\<forall>p w. tr_read tr p w = ((case content w p of Some t \<Rightarrow> Done t | None \<Rightarrow> Raised FileNotFoundError), w)) \<and>
     (\<forall>p w r w'. tr_mkdir_parent tr p w = (r, w') \<longrightarrow> content w' = content w) \<and>
     (\<forall>p t w r w'. tr_write tr p t w = (r, w') \<longrightarrow> r = Done () \<longrightarrow> content w' = (content w)(p \<mapsto> t)) \<and>
     (\<forall>s w. tr_gofmt tr s w = ((case gofmt s of Inr t \<Rightarrow> Done t | Inl e \<Rightarrow> Raised e), w)) \<and>
     (\<forall>s w. \<exists>w'. tr_print tr s w = (Done (), w') \<and> content w' = content w)"

lemma write_all_content:
  assumes laws: "tree_laws content gofmt tr" and run: "write_all tr files w = (Done (), w')"
  shows "content w' = fold (\<lambda>(p, t) m. m(p \<mapsto> t)) files (content w)"
  using run
proof (induction files arbitrary: w)
  case (Cons f files)
  obtain p t where f: "f = (p, t)" by (cases f)
  from Cons.prems obtain w1 w2 where steps: "tr_mkdir_parent tr p w = (Done (), w1)" "tr_write tr p t w1 = (Done (), w2)"
      "write_all tr files w2 = (Done (), w')"
    by (auto simp: f elim!: bind_prog_cases)
  then have "content w2 = (content w)(p \<mapsto> t)" using laws unfolding tree_laws_def by metis
  with Cons.IH [OF steps(3)] show ?case by (simp add: f)
qed simp

lemma stale_paths_content:
  assumes laws: "tree_laws content gofmt tr"
  shows "stale_paths tr files w = (Done (map fst (filter (\<lambda>(p, t). content w p \<noteq> Some t) files)), w)"
proof (induction files)
  case (Cons f files)
  obtain p t where f: "f = (p, t)" by (cases f)
  have "is_stale tr p t w = (Done (content w p \<noteq> Some t), w)"
    using laws by (auto simp: is_stale_def tree_laws_def bind_prog_def split: option.split)
  with Cons show ?case by (simp add: f bind_prog_def)
qed simp

lemma print_stale_Done: "tree_laws content gofmt tr \<Longrightarrow> \<exists>w'. print_stale tr paths w = (Done (), w')"
proof (induction paths arbitrary: w)
  case (Cons p paths)
  obtain w1 where "tr_print tr (''stale generated file: '' @ p) w = (Done (), w1)"
    using Cons.prems unfolding tree_laws_def by metis
  then show ?case using Cons.IH [OF Cons.prems, of w1] by (simp add: bind_prog_def)
qed simp

text \<open>The files of a tree: what the registry in it renders to.\<close>

definition rendered :: "(string \<Rightarrow> exn + string) \<Rightarrow> (string \<Rightarrow> string option) \<Rightarrow> exn + (string \<times> string) list" where
  "rendered gofmt m =
     (case m registry_path of
        None \<Rightarrow> Inl FileNotFoundError
      | Some text \<Rightarrow>
          bind_sum (load_statuses text) (\<lambda>statuses.
          bind_sum (gofmt (go_source statuses)) (\<lambda>go.
          Inr [(''backend/src/shared/internal_status_codes.py'', render_python statuses),
               (''backend/services/lib-go/http/api/internal_status_codes_generated.go'', go),
               (''frontend/src/domain/internalStatusCodes.generated.ts'', render_typescript statuses)])))"

lemma generate_rendered:
  assumes laws: "tree_laws content gofmt tr"
  shows "generate tr check w =
    (case rendered gofmt (content w) of
       Inl e \<Rightarrow> (Raised e, w)
     | Inr files \<Rightarrow>
         (if check then
            (if list_all (\<lambda>(p, t). content w p = Some t) files then (Done 0, w)
             else bind_prog (print_stale tr (map fst (filter (\<lambda>(p, t). content w p \<noteq> Some t) files))) (\<lambda>_. ret 1) w)
          else bind_prog (write_all tr files) (\<lambda>_. ret 0) w))"
proof -
  have read: "tr_read tr p w = ((case content w p of Some t \<Rightarrow> Done t | None \<Rightarrow> Raised FileNotFoundError), w)"
      "tr_gofmt tr s w = ((case gofmt s of Inr t \<Rightarrow> Done t | Inl e \<Rightarrow> Raised e), w)" for p s
    using laws by (simp_all add: tree_laws_def)
  have none: "filter (\<lambda>(p, t). content w p \<noteq> Some t) files = [] \<longleftrightarrow> list_all (\<lambda>(p, t). content w p = Some t) files" for files
    by (auto simp: filter_empty_conv list_all_iff)
  show ?thesis
    by (simp add: generate_def outputs_def rendered_def bind_prog_def read stale_paths_content [OF laws] none
        lift_sum_def bind_sum_def split: option.split sum.split)
qed

text \<open>
  C39. The staleness check is exact: after a run that writes, a check of the same tree ends with status 0,
  and on any tree whose registry can be rendered the check ends with 0 when the three files hold
  what would be written and with 1 otherwise.
\<close>

theorem generated_files_pass_check:
  assumes laws: "tree_laws content gofmt tr"
  shows "(\<forall>w'. generate tr False w = (Done 0, w') \<longrightarrow> generate tr True w' = (Done 0, w')) \<and>
    (\<forall>files. rendered gofmt (content w) = Inr files \<longrightarrow>
       fst (generate tr True w) = Done (if list_all (\<lambda>(p, t). content w p = Some t) files then 0 else 1))"
proof (intro conjI allI impI)
  fix w'
  assume "generate tr False w = (Done 0, w')"
  then obtain files where files: "rendered gofmt (content w) = Inr files" and run: "write_all tr files w = (Done (), w')"
    by (auto simp: generate_rendered [OF laws] elim!: bind_prog_cases split: sum.splits)
  have after: "content w' = fold (\<lambda>(p, t) m. m(p \<mapsto> t)) files (content w)"
    using write_all_content [OF laws run] .
  have "list_all (\<lambda>(p, t). content w' p = Some t) files" "content w' registry_path = content w registry_path"
    using files unfolding after rendered_def registry_path_def
    by (auto simp: bind_sum_def split: option.splits sum.splits)
  moreover from this(2) have "rendered gofmt (content w') = Inr files" using files by (simp add: rendered_def)
  ultimately show "generate tr True w' = (Done 0, w')" by (simp add: generate_rendered [OF laws])
next
  fix files
  assume files: "rendered gofmt (content w) = Inr files"
  let ?stale = "map fst (filter (\<lambda>(p, t). content w p \<noteq> Some t) files)"
  obtain w1 where "print_stale tr ?stale w = (Done (), w1)" using print_stale_Done [OF laws] by blast
  with files show "fst (generate tr True w) = Done (if list_all (\<lambda>(p, t). content w p = Some t) files then 0 else 1)"
    by (simp add: generate_rendered [OF laws] bind_prog_def)
qed

text \<open>A tree with a registry of one status.\<close>

definition sample_tree :: "(string \<Rightarrow> string option) tree" where
  "sample_tree =
     \<lparr>tr_exists = (\<lambda>p w. (Done (w p \<noteq> None), w)),
      tr_read = (\<lambda>p w. ((case w p of Some t \<Rightarrow> Done t | None \<Rightarrow> Raised FileNotFoundError), w)),
      tr_mkdir_parent = (\<lambda>p. ret ()), tr_write = (\<lambda>p t w. (Done (), w(p \<mapsto> t))), tr_gofmt = ret,
      tr_print = (\<lambda>s. ret ())\<rparr>"

definition sample_registry :: "string \<Rightarrow> string option" where
  "sample_registry = [registry_path \<mapsto> dumps (JDict
     [(''success'', JDict [(''name'', JStr ''SUCCESS''), (''value'', JInt 0)]), (''statuses'', JList [])])]"

lemma generated_files_pass_check_witness:
  "\<exists>w'. generate sample_tree False sample_registry = (Done 0, w') \<and> generate sample_tree True w' = (Done 0, w')"
proof -
  have laws: "tree_laws (\<lambda>w. w) Inr sample_tree"
    by (auto simp: tree_laws_def sample_tree_def split: option.split)
  have "load_statuses (the (sample_registry registry_path)) =
      Inr [JDict [(''name'', JStr ''SUCCESS''), (''value'', JInt 0)]]"
    by (simp add: sample_registry_def load_statuses_def loads_dumps statuses_of_def unpack_def json_item_def
        bind_sum_def Let_def del: dumps.simps)
  then obtain files where "rendered Inr sample_registry = Inr files"
    by (simp add: rendered_def sample_registry_def bind_sum_def del: dumps.simps)
  moreover have "\<exists>w'. write_all sample_tree files w = (Done (), w')" for files w
    by (induction files arbitrary: w) (auto simp: sample_tree_def bind_prog_def)
  ultimately obtain w' where run: "generate sample_tree False sample_registry = (Done 0, w')"
    by (auto simp: generate_rendered [OF laws] bind_prog_def) (metis (no_types, lifting) case_prod_conv outcome.simps(9) ret_apply)
  with generated_files_pass_check [OF laws, of sample_registry] show ?thesis by blast
qed

section \<open>The registry of the repository\<close>

definition registry_entry :: "string \<Rightarrow> int \<Rightarrow> json" where
  "registry_entry name value = JDict [(''name'', JStr name), (''value'', JInt value)]"

text \<open>The names and values of \<^verbatim>\<open>contracts/internal_status_codes.json\<close>, without the messages, which nothing reads.\<close>

definition registry :: json where
  "registry = JDict [(''schema_version'', JInt 1), (''success'', registry_entry ''SUCCESS'' 0),
     (''statuses'', JList
     [registry_entry ''COMMON_INVALID_ARGUMENT'' 10001,
      registry_entry ''COMMON_RESOURCE_NOT_FOUND'' 10002,
      registry_entry ''COMMON_STATE_CONFLICT'' 10003,
      registry_entry ''COMMON_IDEMPOTENCY_CONFLICT'' 10004,
      registry_entry ''UPLOAD_NOT_FOUND'' 20001,
      registry_entry ''UPLOAD_NOT_COMPLETED'' 20002,
      registry_entry ''UPLOAD_HASH_MISMATCH'' 20003,
      registry_entry ''UPLOAD_UNSUPPORTED_FILE_TYPE'' 20004,
      registry_entry ''UPLOAD_FILE_TOO_LARGE'' 20005,
      registry_entry ''UPLOAD_SECURITY_REJECTED'' 20006,
      registry_entry ''JOB_NOT_FOUND'' 30001,
      registry_entry ''JOB_NOT_CANCELLABLE'' 30002,
      registry_entry ''JOB_NOT_RETRYABLE'' 30003,
      registry_entry ''JOB_PROCESSING_FAILED'' 30004,
      registry_entry ''JOB_RESULT_NOT_READY'' 30005,
      registry_entry ''USER_UNAUTHORIZED'' 40001,
      registry_entry ''API_KEY_REVOKED'' 40002,
      registry_entry ''API_KEY_RATE_LIMITED'' 40003,
      registry_entry ''ENGINE_UNAVAILABLE'' 50001,
      registry_entry ''ENGINE_TIMEOUT'' 50002,
      registry_entry ''STORAGE_UNAVAILABLE'' 50003,
      registry_entry ''QUEUE_UNAVAILABLE'' 50004,
      registry_entry ''DATABASE_UNAVAILABLE'' 50005,
      registry_entry ''INTERNAL_CONTROLLED_ERROR'' 59999,
      registry_entry ''TRANSPORT_INTERNAL_ERROR'' 90000,
      registry_entry ''TRANSPORT_BAD_GATEWAY'' 90002,
      registry_entry ''TRANSPORT_GATEWAY_TIMEOUT'' 90004])]"

definition all_codes :: "internal_status_code list" where
  "all_codes =
    [SUCCESS, COMMON_INVALID_ARGUMENT, COMMON_RESOURCE_NOT_FOUND, COMMON_STATE_CONFLICT,
     COMMON_IDEMPOTENCY_CONFLICT, UPLOAD_NOT_FOUND, UPLOAD_NOT_COMPLETED, UPLOAD_HASH_MISMATCH,
     UPLOAD_UNSUPPORTED_FILE_TYPE, UPLOAD_FILE_TOO_LARGE, UPLOAD_SECURITY_REJECTED, JOB_NOT_FOUND,
     JOB_NOT_CANCELLABLE, JOB_NOT_RETRYABLE, JOB_PROCESSING_FAILED, JOB_RESULT_NOT_READY,
     USER_UNAUTHORIZED, API_KEY_REVOKED, API_KEY_RATE_LIMITED, ENGINE_UNAVAILABLE, ENGINE_TIMEOUT,
     STORAGE_UNAVAILABLE, QUEUE_UNAVAILABLE, DATABASE_UNAVAILABLE, INTERNAL_CONTROLLED_ERROR,
     TRANSPORT_INTERNAL_ERROR, TRANSPORT_BAD_GATEWAY, TRANSPORT_GATEWAY_TIMEOUT]"

lemma code_names: "distinct (map code_name all_codes)"
  by code_simp

lemma code_values: "distinct (map code_value all_codes)"
  by code_simp

lemma entry_fields:
  "json_item (registry_entry n v) ''name'' = Inr (JStr n)" "json_item (registry_entry n v) ''value'' = Inr (JInt v)"
  "shown (registry_entry n v) ''name'' = n" "shown (registry_entry n v) ''value'' = str_int v"
  by (simp_all add: json_item_def shown_def registry_entry_def)

lemma statuses_of_entries:
  assumes items: "json_item payload ''success'' = Inr e" "json_item payload ''statuses'' = Inr (JList es)"
    and entries: "e # es = map (\<lambda>c. registry_entry (name_of c) (value_of c)) cs"
    and unique: "distinct (map name_of cs)" "distinct (map value_of cs)"
  shows "statuses_of payload = Inr (e # es)"
proof -
  have "map_sum (\<lambda>item. bind_sum (json_item item ''name'') (\<lambda>n. Inr (py_str n))) (e # es) = Inr (map name_of cs)"
    "map_sum (\<lambda>item. bind_sum (json_item item ''value'') py_int) (e # es) = Inr (map value_of cs)"
    unfolding entries by (induction cs) (simp_all add: entry_fields)
  then show ?thesis
    using unique by (simp add: statuses_of_def items unpack_def Let_def)
qed

lemma registry_enumeration:
  "\<exists>statuses. statuses_of registry = Inr statuses \<and>
     map (\<lambda>item. (shown item ''name'', shown item ''value'')) statuses =
       map (\<lambda>c. (code_name c, str_int (code_value c))) all_codes"
proof -
  let ?statuses = "map (\<lambda>c. registry_entry (code_name c) (code_value c)) all_codes"
  have items: "json_item registry ''success'' = Inr (hd ?statuses)"
      "json_item registry ''statuses'' = Inr (JList (tl ?statuses))"
    by (simp_all add: registry_def all_codes_def json_item_def)
  have whole: "hd ?statuses # tl ?statuses = ?statuses" by (simp add: all_codes_def)
  have "statuses_of registry = Inr (hd ?statuses # tl ?statuses)"
    using items whole code_names code_values by (rule statuses_of_entries)
  moreover have "map (\<lambda>item. (shown item ''name'', shown item ''value'')) ?statuses =
      map (\<lambda>c. (code_name c, str_int (code_value c))) all_codes"
    by (simp only: map_map o_def entry_fields)
  ultimately show ?thesis unfolding whole by blast
qed

lemma all_codes_complete: "c \<in> set all_codes"
  by (cases c) (simp_all add: all_codes_def)

end
