(* ===== verification/Response_Types.thy ===== *)
theory Response_Types
  imports Adapter_Errors Persistence_Laws Container_Examples
begin

text \<open>
  The types of the answers: every envelope is a JSON document that a client reads back. The locale
  \<open>typed_ports\<close> states what the use cases need of the adapters, an invariant of the world under which
  stored jobs have JSON options; the use cases are typed in it, and the in-memory runtime is an instance.
\<close>

section \<open>Programs that keep the types\<close>

text \<open>The data of an error: of a business outcome, or of a refused request.\<close>

fun typed_error :: "exn \<Rightarrow> bool" where
  "typed_error (BusinessError code reason data) = (\<forall>d. data = Some d \<longrightarrow> json_ok d)"
| "typed_error (ResponseError name v) = json_ok v"
| "typed_error e = True"

definition typed :: "('w \<Rightarrow> bool) \<Rightarrow> ('a \<Rightarrow> bool) \<Rightarrow> ('w, 'a) op \<Rightarrow> bool" where
  "typed I Q m \<longleftrightarrow> (\<forall>w r w'. I w \<longrightarrow> m w = (r, w') \<longrightarrow> I w' \<and>
     (case r of Done x \<Rightarrow> Q x | Raised e \<Rightarrow> typed_error e | Diverged \<Rightarrow> True))"

lemma typedI:
  assumes "\<And>w r w'. I w \<Longrightarrow> m w = (r, w') \<Longrightarrow> I w' \<and> (case r of Done x \<Rightarrow> Q x | Raised e \<Rightarrow> typed_error e | Diverged \<Rightarrow> True)"
  shows "typed I Q m"
  using assms by (simp add: typed_def)

lemma typedD:
  "typed I Q m \<Longrightarrow> I w \<Longrightarrow> m w = (r, w') \<Longrightarrow>
   I w' \<and> (case r of Done x \<Rightarrow> Q x | Raised e \<Rightarrow> typed_error e | Diverged \<Rightarrow> True)"
  by (simp add: typed_def)

lemma typed_bind:
  assumes "typed I P m" and "\<And>x. P x \<Longrightarrow> typed I Q (k x)"
  shows "typed I Q (bind_prog m k)"
proof (rule typedI)
  fix w r w'
  assume "I w" and "bind_prog m k w = (r, w')"
  from this(2) show "I w' \<and> (case r of Done x \<Rightarrow> Q x | Raised e \<Rightarrow> typed_error e | Diverged \<Rightarrow> True)"
  proof (cases rule: bind_prog_cases)
    case (Done x w1)
    with typedD [OF assms(1) \<open>I w\<close> Done(1)] have "I w1" "P x" by simp_all
    with typedD [OF assms(2) _ Done(2)] show ?thesis by simp
  qed (use typedD [OF assms(1) \<open>I w\<close>] in fastforce)+
qed

lemma typed_catch:
  assumes "typed I Q m" and "\<And>e. typed_error e \<Longrightarrow> typed I Q (h e)"
  shows "typed I Q (catch_prog m h)"
proof (rule typedI)
  fix w r w'
  assume "I w" and run: "catch_prog m h w = (r, w')"
  obtain r1 w1 where m: "m w = (r1, w1)" by (cases "m w")
  note first = typedD [OF assms(1) \<open>I w\<close> m]
  show "I w' \<and> (case r of Done x \<Rightarrow> Q x | Raised e \<Rightarrow> typed_error e | Diverged \<Rightarrow> True)"
  proof (cases r1)
    case (Raised e)
    with run m have "h e w1 = (r, w')" by (simp add: catch_prog_def)
    moreover have "I w1" "typed_error e" using first Raised by simp_all
    ultimately show ?thesis using typedD [OF assms(2)] by metis
  qed (use run m first in \<open>auto simp: catch_prog_def\<close>)
qed

lemma typed_ret [intro]: "Q x \<Longrightarrow> typed I Q (ret x)"
  and typed_raise [intro]: "typed_error e \<Longrightarrow> typed I Q (raise_exc e)"
  by (simp_all add: typed_def)

lemma typed_lift: "(\<And>x. r = Inr x \<Longrightarrow> Q x) \<Longrightarrow> (\<And>e. r = Inl e \<Longrightarrow> typed_error e) \<Longrightarrow> typed I Q (lift_sum r)"
  by (cases r) (auto simp: typed_def)

lemma typed_weaken: "typed I P m \<Longrightarrow> (\<And>x. P x \<Longrightarrow> Q x) \<Longrightarrow> typed I Q m"
proof (rule typedI)
  fix w r w'
  assume "typed I P m" "\<And>x. P x \<Longrightarrow> Q x" "I w" "m w = (r, w')"
  then show "I w' \<and> (case r of Done x \<Rightarrow> Q x | Raised e \<Rightarrow> typed_error e | Diverged \<Rightarrow> True)"
    using typedD [of I P m w r w'] by (cases r) simp_all
qed

lemma typed_map: "(\<And>x. x \<in> set xs \<Longrightarrow> typed I Q (f x)) \<Longrightarrow> typed I (list_all Q) (map_prog f xs)"
proof (induction xs)
  case (Cons x xs)
  have head: "typed I Q (f x)" and rest: "typed I (list_all Q) (map_prog f xs)" using Cons by auto
  show ?case
    unfolding map_prog.simps by (rule typed_bind [OF head], rule typed_bind [OF rest], rule typed_ret) simp
qed (simp add: typed_def)

lemma typed_if: "(p \<Longrightarrow> typed I Q a) \<Longrightarrow> (\<not> p \<Longrightarrow> typed I Q b) \<Longrightarrow> typed I Q (if p then a else b)"
  by simp

lemma typed_option:
  "(r = None \<Longrightarrow> typed I Q a) \<Longrightarrow> (\<And>x. r = Some x \<Longrightarrow> typed I Q (f x)) \<Longrightarrow>
   typed I Q (case r of None \<Rightarrow> a | Some x \<Rightarrow> f x)"
  by (cases r) simp_all

abbreviation some_value :: "'a \<Rightarrow> bool" where
  "some_value \<equiv> (\<lambda>_. True)"

lemma typed_database: "typed I Q m \<Longrightarrow> typed I Q (service_database m)"
  unfolding service_database_def by (rule typed_catch) auto

lemma typed_storage: "typed I Q m \<Longrightarrow> typed I Q (service_storage m)"
  unfolding service_storage_def by (rule typed_catch) auto

section \<open>Typed values\<close>

definition typed_job :: "job \<Rightarrow> bool" where
  "typed_job j \<longleftrightarrow> json_ok (job_options j)"

definition typed_job_dto :: "job_dto \<Rightarrow> bool" where
  "typed_job_dto d \<longleftrightarrow> json_ok (jd_options d) \<and> 0 \<le> jd_progress d"

definition typed_upload_dto :: "upload_dto \<Rightarrow> bool" where
  "typed_upload_dto d \<longleftrightarrow> distinct (map fst (ud_upload_headers d))"

lemma progress_nonneg: "0 \<le> job_progress j"
proof -
  have "0 \<le> round_div_half_even a b" if "0 \<le> a" "0 < b" for a b
    using that pos_imp_zdiv_nonneg_iff [of b a] by (auto simp: round_div_half_even_def Let_def)
  then show ?thesis by (simp add: job_progress_def job_completed_pages_def job_total_pages_def)
qed

lemma typed_dto_of: "typed_job j \<Longrightarrow> typed_job_dto (job_dto_of j filename)"
  by (simp add: typed_job_def typed_job_dto_def job_dto_of_def progress_nonneg)

lemma typed_transition: "job_transition now target allowed j = Inr j' \<Longrightarrow> typed_job j' = typed_job j"
  by (auto simp: job_transition_def typed_job_def split: if_splits)

lemma typed_steps:
  "job_request_cancel now j = Inr j' \<Longrightarrow> typed_job j' = typed_job j"
  "job_cancel t1 t2 j = Inr j' \<Longrightarrow> typed_job j' = typed_job j"
  "job_retry now rid j = Inr j' \<Longrightarrow> typed_job j' = typed_job j"
  by (auto simp: job_request_cancel_def job_cancel_def job_retry_def typed_transition typed_job_def
      job_transition_def split: sum.splits if_splits)

lemma typed_step_errors:
  "job_request_cancel now j = Inl e \<Longrightarrow> typed_error e" "job_cancel t1 t2 j = Inl e \<Longrightarrow> typed_error e"
  "upload_complete now detected u = Inl e \<Longrightarrow> typed_error e"
  by (auto simp: job_request_cancel_def job_cancel_def job_transition_def upload_complete_def split: sum.splits if_splits)

section \<open>The use cases\<close>

locale typed_ports =
  fixes I :: "'w \<Rightarrow> bool" and ps :: "'w ports"
  assumes clock: "typed I some_value (p_utc_now ps)" and ids: "typed I some_value (p_uuid7 ps)"
    and uploads: "typed I some_value (p_uploads_get ps uid)" "typed I some_value (p_uploads_add ps u)"
      "typed I some_value (p_uploads_save ps u)"
    and objects: "typed I (\<lambda>t. distinct (map fst (target_headers t))) (p_storage_create_upload_target ps key ct n sha)"
      "typed I some_value (p_storage_complete_upload ps key mid parts)" "typed I some_value (p_storage_stat ps key)"
      "typed I some_value (p_storage_get_bytes ps key)" "typed I some_value (p_storage_create_download_url ps key)"
    and validator: "typed I some_value (p_validator_validate ps u data)"
    and jobs_get: "typed I (\<lambda>r. \<forall>j. r = Some j \<longrightarrow> typed_job j) (p_jobs_get ps jid)"
    and jobs_find: "typed I (\<lambda>r. \<forall>j. r = Some j \<longrightarrow> typed_job j) (p_jobs_find_by_idempotency_key ps owner k)"
    and jobs_list: "typed I (\<lambda>r. list_all typed_job (fst r)) (p_jobs_list ps owner offset limit)"
    and jobs_add: "typed_job j \<Longrightarrow> typed I some_value (p_jobs_add_with_outbox_and_event ps j ob ev)"
    and jobs_save: "typed_job j \<Longrightarrow> typed I (\<lambda>r. typed_job (snd r)) (p_jobs_save_with_event ps j ev)"
      "typed_job j \<Longrightarrow> typed I (\<lambda>r. typed_job (snd r)) (p_jobs_save_with_outbox_and_event ps j ob ev)"
begin

lemma owned_job_typed: "typed I typed_job (owned_job ps jid owner)"
  unfolding owned_job_def
  by (rule typed_bind [OF typed_database [OF jobs_get]]) (auto simp: unauthorized_def split: option.split)

lemma owned_upload_typed: "typed I some_value (owned_upload ps uid owner)"
  unfolding owned_upload_def
  by (rule typed_bind [OF typed_database [OF uploads(1)]])
     (auto simp: unauthorized_def not_found_upload_def split: option.split)

lemma to_job_dto_typed: "typed_job j \<Longrightarrow> typed I typed_job_dto (to_job_dto ps j)"
  unfolding to_job_dto_def
  by (rule typed_bind [OF typed_database [OF uploads(1)]]) (auto intro: typed_dto_of)

lemma service_job_event_typed: "typed I some_value (service_job_event ps j t p)"
  unfolding service_job_event_def by (rule typed_bind [OF clock]) auto

lemma get_job_typed: "typed I typed_job_dto (get_job ps jid owner)"
  unfolding get_job_def by (rule typed_bind [OF owned_job_typed to_job_dto_typed])

lemma list_jobs_typed: "typed I (\<lambda>d. list_all typed_job_dto (jl_items d)) (list_jobs ps owner page_no page_size)"
  unfolding list_jobs_def
proof (rule typed_bind [OF typed_database [OF jobs_list]])
  fix r :: "job list \<times> int"
  assume "list_all typed_job (fst r)"
  then have "typed I (list_all typed_job_dto) (map_prog (to_job_dto ps) (fst r))"
    by (intro typed_map to_job_dto_typed) (simp add: list_all_iff)
  then have "typed I (\<lambda>d. list_all typed_job_dto (jl_items d))
      (bind_prog (map_prog (to_job_dto ps) (fst r)) (\<lambda>items.
        ret \<lparr>jl_items = items, jl_total = n, jl_page = page_no, jl_page_size = page_size\<rparr>))" for n
    by (rule typed_bind) (rule typed_ret, simp)
  then show "typed I (\<lambda>d. list_all typed_job_dto (jl_items d))
      (case r of (jobs, n) \<Rightarrow> bind_prog (map_prog (to_job_dto ps) jobs) (\<lambda>items.
        ret \<lparr>jl_items = items, jl_total = n, jl_page = page_no, jl_page_size = page_size\<rparr>))"
    by (cases r) simp
qed

lemma save_and_emit_typed: "typed_job j \<Longrightarrow> typed I typed_job (service_save_and_emit ps j t)"
  unfolding service_save_and_emit_def
  by (rule typed_bind [OF service_job_event_typed], rule typed_bind [OF typed_database [OF jobs_save(1)]]) auto

lemma cancel_try_typed: "typed_job j \<Longrightarrow> typed I typed_job (cancel_try ps rid j)"
proof -
  assume j: "typed_job j"
  have j': "typed_job (j\<lparr>job_request_id := rid\<rparr>)" using j by (simp add: typed_job_def)
  show ?thesis
    unfolding cancel_try_def
    by (intro typed_bind [OF clock] typed_bind [where P = typed_job] typed_lift typed_if typed_ret save_and_emit_typed)
       (use j' typed_steps typed_step_errors in auto)
qed

lemma cancel_loop_typed: "typed I typed_job_dto (cancel_loop ps jid owner rid n)"
proof (induction n)
  case (Suc n)
  have attempt: "typed I (\<lambda>r. \<forall>j'. r = Some j' \<longrightarrow> typed_job j')
      (catch_prog (bind_prog (cancel_try ps rid j) (\<lambda>j'. ret (Some j')))
         (\<lambda>e. if e = ConcurrentJobUpdateError then
                (if n \<noteq> 0 then ret None else raise_exc DatabaseUnavailableError)
              else if is_value_error e then raise_exc not_cancellable
              else raise_exc e))" if "typed_job j" for j
    by (intro typed_catch typed_bind [OF cancel_try_typed [OF that]]) (auto simp: not_cancellable_def)
  show ?case
    unfolding cancel_loop.simps
    by (intro typed_bind [OF owned_job_typed] typed_if to_job_dto_typed typed_raise typed_bind [OF attempt])
       (auto simp: not_cancellable_def intro: to_job_dto_typed Suc.IH split: option.split)
qed (simp add: typed_def)

lemma retry_save_typed: "typed_job j \<Longrightarrow> typed I typed_job (retry_save ps rid j)"
  unfolding retry_save_def
  by (rule typed_bind [OF ids], rule typed_bind [OF clock], rule typed_bind [OF service_job_event_typed],
      rule typed_bind [OF typed_database [OF jobs_save(2)]]) auto

lemma retry_loop_typed: "typed I typed_job_dto (retry_loop ps jid owner rid n)"
proof (induction n)
  case (Suc n)
  have attempt: "typed I (\<lambda>r. \<forall>j'. r = Some j' \<longrightarrow> typed_job j')
      (catch_prog (bind_prog (retry_save ps rid j) (\<lambda>j'. ret (Some j')))
         (\<lambda>e. if e = ConcurrentJobUpdateError then
                (if n \<noteq> 0 then ret None else raise_exc DatabaseUnavailableError)
              else raise_exc e))" if "typed_job j" for j
    by (intro typed_catch typed_bind [OF retry_save_typed [OF that]]) auto
  show ?case
    unfolding retry_loop.simps
  proof (rule typed_bind [OF owned_job_typed], rule typed_bind [OF clock])
    fix j now
    assume j: "typed_job j"
    show "typed I typed_job_dto
        (case job_retry now rid j of
           Inl e \<Rightarrow> if job_state j = RETRYING \<and> Suc n < 3 then to_job_dto ps j else raise_exc not_retryable
         | Inr j1 \<Rightarrow>
             bind_prog
               (catch_prog (bind_prog (retry_save ps rid j1) (\<lambda>j'. ret (Some j')))
                 (\<lambda>e. if e = ConcurrentJobUpdateError then
                        (if n \<noteq> 0 then ret None else raise_exc DatabaseUnavailableError)
                      else raise_exc e))
               (\<lambda>r. case r of Some j' \<Rightarrow> to_job_dto ps j' | None \<Rightarrow> retry_loop ps jid owner rid n))"
    proof (cases "job_retry now rid j")
      case (Inl e)
      then show ?thesis using j by (auto simp: not_retryable_def intro: to_job_dto_typed)
    next
      case (Inr j1)
      then have "typed_job j1" using j typed_steps(3) by blast
      then show ?thesis
        unfolding Inr sum.case by (rule typed_bind [OF attempt]) (auto intro: to_job_dto_typed Suc.IH split: option.split)
    qed
  qed
qed (simp add: typed_def)

lemma replay_job_typed: "typed_job x \<Longrightarrow> typed I typed_job_dto (replay_job ps u req x)"
  by (auto simp: replay_job_def idempotency_conflict_def intro: to_job_dto_typed)

lemma insert_job_typed:
  assumes options: "json_ok (cjr_options req)"
  shows "typed I typed_job_dto (insert_job ps u req owner rid key)"
proof -
  have "typed_job (new_job owner (upload_id u) rid (cjr_options req) key jid created updated)" for jid created updated
    using options by (simp add: typed_job_def new_job_def)
  note j = this
  have found: "typed I (\<lambda>r. \<forall>d. r = Some d \<longrightarrow> typed_job_dto d)
      (bind_prog (service_database (p_jobs_find_by_idempotency_key ps owner k)) (\<lambda>existing.
       case existing of None \<Rightarrow> raise_exc DatabaseUnavailableError
       | Some x \<Rightarrow> bind_prog (replay_job ps u req x) (\<lambda>d. ret (Some d))))" for k
    by (rule typed_bind [OF typed_database [OF jobs_find]])
       (auto intro!: typed_bind [OF replay_job_typed] split: option.split)
  show ?thesis
    unfolding insert_job_def Let_def
    by (rule typed_bind [OF ids], rule typed_bind [OF clock], rule typed_bind [OF clock], rule typed_bind [OF ids],
        rule typed_bind [OF clock], rule typed_bind [where P = "\<lambda>r. \<forall>d. r = Some d \<longrightarrow> typed_job_dto d"],
        rule typed_catch, rule typed_bind [OF service_job_event_typed],
        rule typed_bind [OF typed_database [OF jobs_add [OF j]]])
       (auto intro: found to_job_dto_typed [OF j] split: option.split)
qed

lemma create_job_typed:
  assumes "json_ok (cjr_options req)"
  shows "typed I typed_job_dto (create_job ps req owner rid key)"
  unfolding create_job_def
  by (rule typed_bind [OF owned_upload_typed])
     (auto intro!: insert_job_typed [OF assms] replay_job_typed typed_bind [OF typed_database [OF jobs_find]] split: option.split)

lemma list_artifacts_typed: "typed I some_value (list_artifacts ps jid owner)"
proof -
  have link: "typed I some_value (artifact_link ps a)" for a
    unfolding artifact_link_def
    by (rule typed_bind, rule typed_catch, rule typed_storage [OF objects(5)]) auto
  show ?thesis
    unfolding list_artifacts_def
    by (rule typed_bind [OF owned_job_typed]) (auto intro!: typed_weaken [OF typed_map [OF link]])
qed

lemma create_upload_typed: "typed I typed_upload_dto (create_upload ps limit req owner)"
  unfolding create_upload_def Let_def
  by (intro typed_if typed_raise typed_bind [OF ids] typed_bind [OF clock] typed_bind [OF typed_storage [OF objects(1)]]
      typed_bind [OF typed_database [OF uploads(2)]] typed_ret) (auto simp: typed_upload_dto_def)

lemma complete_upload_typed: "typed I some_value (complete_upload ps uid owner sha mid parts)"
proof -
  have reject: "typed I some_value (reject_upload ps u)" for u
    unfolding reject_upload_def by (rule typed_bind [OF typed_database [OF uploads(3)]]) (auto simp: hash_mismatch_def)
  have completed: "typed I some_value (lift_sum (upload_complete now detected u))" for now detected u
    by (rule typed_lift) (auto intro: typed_step_errors)
  have "typed I some_value (verify_upload ps u parts)" for u
    unfolding verify_upload_def
    by (rule typed_bind [OF typed_storage [OF objects(2)]], rule typed_bind [OF typed_storage [OF objects(3)]],
        intro typed_option typed_raise typed_if reject typed_bind [where P = some_value] typed_catch
          typed_storage [OF objects(4)] validator clock completed typed_database [OF uploads(3)] typed_ret)
       (auto simp: object_missing_def)
  then show ?thesis
    unfolding complete_upload_def
    by (intro typed_bind [OF owned_upload_typed] typed_if typed_raise typed_ret) auto
qed

end

section \<open>Documents\<close>

lemma num_progress: "0 \<le> p \<Longrightarrow> json_ok (progress_json p)"
  by (simp add: progress_json_def progress_num)

lemma json_ok_opt: "(\<And>x. v = Some x \<Longrightarrow> json_ok (f x)) \<Longrightarrow> json_ok (opt_json f v)"
  by (cases v) (simp_all add: opt_json_def)

lemma distinct_headers: "map fst (map (map_prod id f) xs) = map fst xs"
  by (induction xs) auto

lemma upload_json_ok: "typed_upload_dto d \<Longrightarrow> json_ok (upload_json d)"
  by (auto simp: upload_json_def typed_upload_dto_def opt_json_def distinct_headers simp del: map_map split: option.split)

lemma complete_upload_json_ok: "json_ok (complete_upload_json d)"
  by (simp add: complete_upload_json_def)

lemma job_json_ok:
  assumes "typed_job_dto d"
  shows "json_ok (job_json d)"
proof -
  have page: "json_ok (page_json p)" for p by (simp add: page_json_def opt_json_def split: option.split)
  obtain engine version model created updated started finished
    where "jd_engine d = (engine, version, model)" "jd_times d = (created, updated, started, finished)"
    by (metis prod_cases3 prod_cases4)
  then show ?thesis
    using assms num_progress [of "jd_progress d"] page
    by (auto simp: job_json_def typed_job_dto_def opt_json_def json_time_def split: option.split)
qed

lemma job_list_json_ok: "list_all typed_job_dto (jl_items d) \<Longrightarrow> json_ok (job_list_json d)"
  by (auto simp: job_list_json_def list_all_iff intro: job_json_ok)

lemma artifact_list_json_ok: "json_ok (artifact_list_json ds)"
  by (auto simp: artifact_list_json_def artifact_json_def Let_def opt_json_def split: option.split)

lemma refusal_detail_ok: "json_ok v \<Longrightarrow> json_ok (refusal_detail v)"
  by (cases v) (auto simp: refusal_detail_def Let_def split: option.split json.split dest: map_of_SomeD)

lemma envelope_json_ok: "(\<And>d. env_data e = Some d \<Longrightarrow> json_ok d) \<Longrightarrow> json_ok (envelope_json e)"
  by (auto simp: envelope_json_def json_time_def intro: json_ok_opt split: option.split)

section \<open>Answers\<close>

fun typed_result :: "api_result \<Rightarrow> bool" where
  "typed_result (Reply e) = json_ok (envelope_json e)"
| "typed_result (EventStream jid seq owner) = True"

text \<open>The parameters of a request are JSON, as the parser of the body makes them.\<close>

fun typed_call :: "api_call \<Rightarrow> bool" where
  "typed_call (CreateJob uid options key) = (\<forall>v. options = Some v \<longrightarrow> json_ok v)"
| "typed_call call = True"

definition typed_env :: "('w \<Rightarrow> bool) \<Rightarrow> 'w api_env \<Rightarrow> bool" where
  "typed_env I env \<longleftrightarrow> typed_ports I (api_ports env) \<and> (\<forall>t. typed I some_value (api_authenticate env t)) \<and>
     typed I (\<lambda>report. distinct (map fst (rep_checks report))) (api_readiness env) \<and>
     (\<forall>call. list_all json_ok (api_refusal env call))"

lemma typed_made: "make_envelope now c m d rid reason = Some e \<Longrightarrow> (\<And>v. d = Some v \<Longrightarrow> json_ok v) \<Longrightarrow> json_ok (envelope_json e)"
  by (rule envelope_json_ok) (auto simp: make_envelope_def Let_def split: if_splits)

lemma success_typed:
  assumes "typed I some_value (p_utc_now ps)" and "json_ok data"
  shows "typed I (\<lambda>e. json_ok (envelope_json e)) (success ps rid data)"
  unfolding success_def of_option_def envelope_success_def
  by (rule typed_bind [OF assms(1)], intro typed_option typed_raise typed_ret) (use assms(2) in \<open>auto intro: typed_made\<close>)

lemma failure_typed:
  assumes "typed I some_value (p_utc_now ps)" and "\<And>d. data = Some d \<Longrightarrow> json_ok d"
  shows "typed I (\<lambda>e. json_ok (envelope_json e)) (failure ps rid code message reason data)"
  unfolding failure_def of_option_def envelope_failure_def
  by (rule typed_bind [OF assms(1)], intro typed_option typed_raise typed_ret) (use assms(2) in \<open>auto intro: typed_made\<close>)

lemma reply_typed:
  assumes "typed I some_value (p_utc_now (api_ports env))" and "typed I P m" and "\<And>x. P x \<Longrightarrow> json_ok (encode x)"
  shows "typed I typed_result (reply env rid encode m)"
  unfolding reply_def
  by (rule typed_bind [OF assms(2)], rule typed_bind [OF success_typed [OF assms(1) assms(3)]]) auto

lemma validation_typed: "typed_env I env \<Longrightarrow> typed_error (validation_error (api_refusal env call))"
  by (simp add: validation_error_def typed_env_def list_all_iff)

lemma route_typed:
  assumes env: "typed_env I env" and call: "typed_call call"
  shows "typed I typed_result (route env rid owner call)"
proof -
  let ?ps = "api_ports env"
  have ps: "typed_ports I ?ps" using env by (simp add: typed_env_def)
  note refused = validation_typed [OF env]
  note reply = reply_typed [OF typed_ports.clock [OF ps]]
  have refuse: "typed I Q (of_option (validation_error (api_refusal env c)) v)" if "\<And>x. v = Some x \<Longrightarrow> Q x" for Q c v
    unfolding of_option_def by (intro typed_option typed_ret typed_raise refused that)
  have upload: "typed I typed_upload_dto (bind_prog (of_option (validation_error (api_refusal env c)) v) (\<lambda>req.
      create_upload ?ps limit req owner))" for c v limit
    by (rule typed_bind [OF refuse [of _ some_value]]) (simp_all add: typed_ports.create_upload_typed [OF ps])
  have complete: "typed I some_value (route_complete_upload env owner uid body)" for uid body
    unfolding route_complete_upload_def
    by (auto intro!: typed_bind [OF refuse [of _ some_value]] typed_ports.complete_upload_typed [OF ps] split: option.split prod.split)
  have create: "typed I typed_job_dto (route_create_job env rid owner uid options key)" if "typed_call (CreateJob uid options key)" for uid options key
    unfolding route_create_job_def
    by (rule typed_bind [OF refuse [of _ "\<lambda>req. json_ok (cjr_options req)"]])
       (use that in \<open>auto simp: make_create_job_request_def intro!: typed_ports.create_job_typed [OF ps] split: option.splits if_splits\<close>)
  have stream: "typed I typed_result (route_stream env owner jid header)" for jid header
    unfolding route_stream_def
    by (rule typed_bind [OF typed_ports.owned_job_typed [OF ps]], rule typed_bind [OF typed_lift [of _ some_value]])
       (auto simp: last_event_sequence_def invalid_last_event_id_def split: option.splits if_splits)
  show ?thesis
    using call upload complete create stream refused
    by (cases call)
       (auto simp: route_def Let_def cancel_job_def retry_job_def
          intro!: reply [OF upload upload_json_ok] reply [OF complete complete_upload_json_ok] reply [OF create job_json_ok]
            reply [OF typed_ports.list_jobs_typed [OF ps] job_list_json_ok] reply [OF typed_ports.get_job_typed [OF ps] job_json_ok]
            reply [OF typed_ports.cancel_loop_typed [OF ps] job_json_ok] reply [OF typed_ports.retry_loop_typed [OF ps] job_json_ok]
            reply [OF typed_ports.list_artifacts_typed [OF ps] artifact_list_json_ok])
qed

lemma dispatch_typed:
  assumes env: "typed_env I env" and call: "typed_call call"
  shows "typed I typed_result (dispatch env rid authorization call)"
proof -
  have clock: "typed I some_value (p_utc_now (api_ports env))"
    using env by (auto simp: typed_env_def intro: typed_ports.clock)
  have owner: "typed I some_value (authenticated_owner env authorization)"
    using env by (auto simp: authenticated_owner_def typed_env_def user_error_def split: prod.split)
  have live: "typed I typed_result (reply env rid (\<lambda>_. health_json ''ok'' []) (ret ()))"
    by (rule reply_typed [OF clock typed_ret [of some_value]]) (simp_all add: health_json_def)
  have "typed I (\<lambda>e. json_ok (envelope_json e)) (readiness_reply env rid)"
    unfolding readiness_reply_def Let_def
    by (rule typed_bind [of I "\<lambda>report. distinct (map fst (rep_checks report))"])
       (use env in \<open>auto simp: typed_env_def health_json_def distinct_headers simp del: map_map
          intro!: success_typed [OF clock] failure_typed [OF clock]\<close>)
  then have ready: "typed I typed_result (bind_prog (readiness_reply env rid) (\<lambda>e. ret (Reply e)))"
    by (rule typed_bind) (rule typed_ret, simp)
  show ?thesis
    using route_typed [OF env call] live ready
    by (cases call) (auto simp: dispatch_def intro!: typed_bind [OF owner])
qed

lemma handle_error_typed:
  assumes clock: "typed I some_value (p_utc_now (api_ports env))" and e: "typed_error e"
  shows "typed I (\<lambda>v. json_ok (envelope_json v)) (handle_error env rid e)"
  using e
  by (cases e) (auto simp: handle_error_def intro!: failure_typed [OF clock] refusal_detail_ok split: json.splits)

lemma answer_typed:
  assumes env: "typed_env I env" and call: "typed_call call"
  shows "typed I (\<lambda>a. typed_result (ans_result a)) (answer env header authorization call)"
proof -
  let ?ps = "api_ports env"
  have ps: "typed_ports I ?ps" using env by (simp add: typed_env_def)
  note clock = typed_ports.clock [OF ps]
  have rid: "typed I some_value (request_identifier ?ps header)"
    unfolding request_identifier_def
    by (intro typed_option typed_if typed_bind [OF typed_ports.ids [OF ps]] typed_ret TrueI)
  have handled: "typed I typed_result (handled_result env request_id authorization call)" for request_id
    unfolding handled_result_def
    by (rule typed_catch [OF dispatch_typed [OF env call]], rule typed_bind [OF handle_error_typed [OF clock]])
       (auto intro: typed_ret)
  have unexpected: "typed I (\<lambda>v. json_ok (envelope_json v)) (unexpected_error env request_id)" for request_id
    unfolding unexpected_error_def by (rule failure_typed [OF clock]) simp
  show ?thesis
    unfolding answer_def
    by (rule typed_bind [OF rid], rule typed_catch, rule typed_bind [OF handled], rule typed_ret, simp,
        intro typed_if typed_raise typed_bind [OF unexpected] typed_ret) simp_all
qed

section \<open>The in-memory runtime\<close>

definition typed_mem :: "mem \<Rightarrow> bool" where
  "typed_mem w \<longleftrightarrow> list_all typed_job (m_jobs w)"

text \<open>The operations that leave the table of jobs alone.\<close>

definition keeps_jobs :: "'a mop \<Rightarrow> bool" where
  "keeps_jobs m \<longleftrightarrow> (\<forall>w r w'. m w = (r, w') \<longrightarrow> m_jobs w' = m_jobs w \<and> (\<forall>e. r = Raised e \<longrightarrow> typed_error e))"

lemma keeps_typed: "keeps_jobs m \<Longrightarrow> typed typed_mem some_value m"
  by (rule typedI) (auto simp: keeps_jobs_def typed_mem_def split: outcome.split)

lemma keeps_jobs_bind: "keeps_jobs m \<Longrightarrow> (\<And>x. keeps_jobs (k x)) \<Longrightarrow> keeps_jobs (bind_prog m k)"
  by (auto simp: keeps_jobs_def elim!: bind_prog_cases)

lemma mem_keeps_jobs:
  "keeps_jobs mem_utc_now" "keeps_jobs mem_uuid7" "keeps_jobs (mem_uploads_get uid)" "keeps_jobs (mem_uploads_add u)"
  "keeps_jobs (mem_uploads_save u)" "keeps_jobs (mem_complete_upload key mid parts)" "keeps_jobs (mem_stat key)"
  "keeps_jobs (mem_get_bytes key)" "keeps_jobs (mem_events_append ev)" "keeps_jobs (mem_outbox_add ob)"
  by (auto simp: keeps_jobs_def mem_utc_now_def mem_uuid7_def mem_uploads_get_def mem_uploads_add_def mem_uploads_save_def
      mem_complete_upload_def mem_stat_def mem_get_bytes_def mem_events_append_def mem_outbox_add_def Let_def
      split: option.splits if_splits prod.splits)

lemma mem_download_keeps: "keeps_jobs (mem_create_download_url key)"
  unfolding mem_create_download_url_def
  by (rule keeps_jobs_bind [OF mem_keeps_jobs(7)]) (auto simp: keeps_jobs_def split: option.split)

lemma typed_update: "list_all typed_job js \<Longrightarrow> typed_job j \<Longrightarrow> list_all typed_job (update_by job_id j js)"
  by (auto simp: list_all_iff dest: set_update_by)

lemma typed_stored: "typed_mem w \<Longrightarrow> lookup_by key (m_jobs w) k = Some j \<Longrightarrow> typed_job j"
  by (auto simp: typed_mem_def list_all_iff lookup_by_def find_Some_iff)

lemma mem_reads_typed:
  "typed typed_mem (\<lambda>r. \<forall>j. r = Some j \<longrightarrow> typed_job j) (mem_jobs_get jid)"
  "typed typed_mem (\<lambda>r. \<forall>j. r = Some j \<longrightarrow> typed_job j) (mem_jobs_find owner k)"
  "typed typed_mem (\<lambda>r. list_all typed_job (fst r)) (mem_jobs_list owner offset limit)"
proof -
  show "typed typed_mem (\<lambda>r. \<forall>j. r = Some j \<longrightarrow> typed_job j) (mem_jobs_get jid)"
    by (rule typedI) (auto simp: mem_jobs_get_def dest: typed_stored)
  show "typed typed_mem (\<lambda>r. \<forall>j. r = Some j \<longrightarrow> typed_job j) (mem_jobs_find owner k)"
    by (rule typedI) (auto simp: mem_jobs_find_def typed_mem_def list_all_iff find_Some_iff)
  show "typed typed_mem (\<lambda>r. list_all typed_job (fst r)) (mem_jobs_list owner offset limit)"
    by (rule typedI)
       (auto simp: mem_jobs_list_def Let_def typed_mem_def list_all_iff page_slice_def dest!: in_set_takeD in_set_dropD)
qed

lemma mem_add_typed: "typed_job j \<Longrightarrow> typed typed_mem some_value (mem_jobs_add j)"
  by (rule typedI) (auto simp: mem_jobs_add_def typed_mem_def typed_update split: if_splits)

lemma mem_save_typed:
  assumes "typed_job j"
  shows "typed typed_mem (\<lambda>r. typed_job (snd r)) (mem_jobs_save_with_event j ev)"
proof (rule typedI)
  fix w r w'
  assume w: "typed_mem w" and run: "mem_jobs_save_with_event j ev w = (r, w')"
  let ?j = "j\<lparr>job_revision := job_revision j + 1\<rparr>"
  have j: "typed_job ?j" using assms by (simp add: typed_job_def)
  show "typed_mem w' \<and> (case r of Done x \<Rightarrow> typed_job (snd x) | Raised e \<Rightarrow> typed_error e | Diverged \<Rightarrow> True)"
  proof (cases "lookup_by job_id (m_jobs w) (job_id j)")
    case (Some stored)
    from typed_stored [OF w Some] have stored: "typed_job stored" .
    obtain r1 w1 where append: "mem_events_append ev (w\<lparr>m_jobs := update_by job_id ?j (m_jobs w)\<rparr>) = (r1, w1)"
      by (cases "mem_events_append ev (w\<lparr>m_jobs := update_by job_id ?j (m_jobs w)\<rparr>)")
    with mem_keeps_jobs(9) have "m_jobs w1 = update_by job_id ?j (m_jobs w)" "\<forall>e. r1 = Raised e \<longrightarrow> typed_error e"
      by (force simp: keeps_jobs_def)+
    then show ?thesis
      using w run append j stored Some
      by (auto simp: mem_jobs_save_with_event_def Let_def typed_mem_def typed_update split: if_splits outcome.splits)
  qed (use w run in \<open>auto simp: mem_jobs_save_with_event_def split: if_splits\<close>)
qed

interpretation typed_memory: typed_ports typed_mem "mem_ports sha magic_validate preprocessor engine"
proof -
  have target: "typed typed_mem (\<lambda>t. distinct (map fst (target_headers t))) (mem_create_upload_target key ct n d)"
    for key ct n d
    by (rule typedI) (auto simp: mem_create_upload_target_def)
  have validator: "typed typed_mem some_value (magic_validate u data)" for u data
    unfolding magic_validate_def
    by (rule typed_lift) (auto simp: validate_file_def security_rejected_def split: option.splits if_splits)
  have event: "typed typed_mem some_value
      (\<lambda>w. if m_events_configured w then mem_events_append ev w
           else (Raised (RuntimeError ''job event repository is not configured''), w))" for ev
    by (rule keeps_typed) (use mem_keeps_jobs(9) in \<open>auto simp: keeps_jobs_def split: if_splits\<close>)
  have add: "typed typed_mem some_value (mem_jobs_add_with_outbox_and_event j ob ev)" if "typed_job j" for j ob ev
    unfolding mem_jobs_add_with_outbox_and_event_def
    by (rule typed_bind [OF mem_add_typed [OF that]], rule typed_bind [OF keeps_typed [OF mem_keeps_jobs(10)]], rule event)
  have save: "typed typed_mem (\<lambda>r. typed_job (snd r)) (mem_jobs_save_with_outbox_and_event j ob ev)" if "typed_job j" for j ob ev
    unfolding mem_jobs_save_with_outbox_and_event_def
    by (rule typed_bind [OF mem_save_typed [OF that]], rule typed_bind [OF keeps_typed [OF mem_keeps_jobs(10)]],
        rule typed_ret)
  show "typed_ports typed_mem (mem_ports sha magic_validate preprocessor engine)"
    by unfold_locales
       (unfold mem_ports_def ports.simps,
        (assumption | rule target add save mem_save_typed mem_reads_typed mem_keeps_jobs [THEN keeps_typed]
          mem_download_keeps [THEN keeps_typed] validator)+)
qed

lemma memory_env_typed:
  assumes "\<And>call. list_all json_ok (refusal call)"
  shows "typed_env typed_mem (container_api (memory_container sha others s) gone send refusal words)"
  unfolding typed_env_def
  using assms typed_memory.typed_ports_axioms
  by (auto simp: container_api_def memory_container_def development_authenticate_def readiness_service_def make_report_def
      typed_def)


definition typed_request :: api_call where
  "typed_request = CreateJob 7 (Some (JDict [(''dpi'', JInt 300)])) (Some ''key-1'')"

section \<open>An example\<close>

definition ready_upload_mem :: mem where
  "ready_upload_mem = empty_mem\<lparr>m_uploads :=
     [\<lparr>upload_owner_id = ''development'', upload_filename = ''a.png'', upload_size_bytes = 4,
        upload_content_type = ''image/png'', upload_sha256 = ''digest'', upload_object_key = ''uploads/7'',
        upload_id = 7, upload_state = COMPLETED, upload_created_at = 0, upload_completed_at = Some 1,
        upload_detected_content_type = Some ''image/png'', upload_multipart_upload_id = None\<rparr>]\<rparr>"

lemmas memory_runs =
  mem_ports_def empty_mem_def lookup_by_def bind_prog_def catch_prog_def service_database_def service_job_event_def
  mem_uploads_get_def mem_jobs_find_def mem_uuid7_def mem_utc_now_def mem_jobs_add_with_outbox_and_event_def
  mem_jobs_add_def mem_outbox_add_def mem_events_append_def event_with_sequence_def events_of_def find_terminal_def
  terminal_event_types_def truthy_str_def

lemma ready_job_created:
  "\<exists>d w'. create_job (api_ports memory_api) \<lparr>cjr_upload_id = 7, cjr_options = JDict [(''dpi'', JInt 300)]\<rparr>
     ''development'' ''trace-1'' (Some ''key-1'') ready_upload_mem = (Done d, w')"
  by (simp add: memory_api_sel ready_upload_mem_def memory_runs create_job_def owned_upload_def insert_job_def
      to_job_dto_def new_job_def Let_def)


end
