(* ===== verification/Spec2Isabelle.thy ===== *)
theory Spec2Isabelle
  imports End_To_End Config Persistence_Laws File_Validation Retention_Laws Storage_Laws Engine Logging Api_Keys Sandbox
  Application Migration Container_Examples Event_Examples Consumer_Laws Status_Codes Response_Types
begin

text \<open>
  Verification library of the MonkeyOCR backend, the Python program under \<^verbatim>\<open>src/backend\<close>. Paths below
  are relative to \<^verbatim>\<open>src/backend/src\<close>, those under \<^verbatim>\<open>alembic\<close>, \<^verbatim>\<open>scripts\<close>, \<^verbatim>\<open>contracts\<close> and
  \<^verbatim>\<open>infrastructure/sandbox\<close> to \<^verbatim>\<open>src/backend\<close>; \<^verbatim>\<open>application\<close> and \<^verbatim>\<open>domain\<close> stand for the directories
  of \<^verbatim>\<open>contexts/ocr\<close>, and the command line for keys is \<^verbatim>\<open>interfaces/cli/api_keys.py\<close>.

  \<^bold>\<open>The program.\<close> A client uploads a document and asks for its recognition. The HTTP interface
  (\<^verbatim>\<open>main.py\<close>, \<^verbatim>\<open>contexts/ocr/interfaces\<close>) authenticates the caller and calls the application service
  (\<^verbatim>\<open>application/services.py\<close>), which stores a job together with its first event and a request in an
  outbox. A task of the container publishes the outbox to Kafka. The worker process takes a message, reads
  the job, lets an isolated parser split the document into pages, recognises page after page,
  stores a checkpoint after each, assembles the artifacts and stores the outcome. The same job may
  be cancelled or retried over HTTP at any moment, and a message may be delivered twice; the only
  synchronisation is the revision number of the stored job. Clients follow a job over an event stream. A
  further process removes what has expired.

  \<^bold>\<open>The form of the model.\<close> A method is a program \<open>'w \<Rightarrow> ('e, 'a) outcome \<times> 'w\<close> (theory \<open>Prelude\<close>):
  it returns, raises or diverges, and carries the world. An exception is a value of \<open>exn\<close>, a
  raise or early return of the source a branch. The adapters are the fields of one record of programs,
  \<open>ports\<close>, as the source passes them to constructors; an implementation is a value of the record.
  An await is a call of a port: what other tasks do meanwhile is part of that call. Concurrency is
  therefore a property of the ports, and the theorems on it quantify over schedules. Identifiers are
  words of 128 bits, Python integers \<open>int\<close>, times microseconds, progress ten-thousandths, texts
  lists of bytes in UTF-8. A dictionary is an association list in insertion order.

  \<^bold>\<open>Theories and sources.\<close>
  \<^item> \<open>Prelude\<close>: the combinators of programs with their rules (\<open>prog_simps\<close>, triples), keyed lists.
  \<^item> \<open>Errors\<close>: \<^verbatim>\<open>shared/internal_status_codes.py\<close>, \<^verbatim>\<open>shared/api.py\<close>, \<^verbatim>\<open>shared/errors.py\<close>,
    \<^verbatim>\<open>application/exceptions.py\<close>. \<open>Status_Codes\<close>: \<^verbatim>\<open>scripts/generate_internal_status_codes.py\<close>
    and the registry \<^verbatim>\<open>contracts/internal_status_codes.json\<close>.
  \<^item> \<open>Codec\<close>, \<open>Codec_Laws\<close>, \<open>Wire\<close>: decimal integers, identifiers, JSON and UTF-8 of the
    standard library, with their round trips.
  \<^item> \<open>Domain\<close>: \<^verbatim>\<open>domain/models.py\<close>. \<open>Ports\<close>: \<^verbatim>\<open>application/ports.py\<close> and the wrappers that turn failures
    of adapters into dependency errors. \<open>Memory\<close>: \<^verbatim>\<open>infrastructure/memory.py\<close>, the fake engine and
    the static preprocessor. \<open>File_Validation\<close>: \<^verbatim>\<open>infrastructure/file_validation.py\<close>.
  \<^item> \<open>Services\<close>, \<open>Dto\<close>: \<^verbatim>\<open>application/services.py\<close>, \<^verbatim>\<open>application/dto.py\<close>.
    \<open>Worker\<close>: \<^verbatim>\<open>application/worker.py\<close>.
  \<^item> \<open>Lifecycle\<close>, \<open>Interference\<close>: the abstract life cycle of a job, the specification of service and worker.
    \<open>Worker_Safety\<close>, \<open>Worker_Proof\<close>, \<open>Worker_Pages\<close>, \<open>Worker_Loop\<close>, \<open>Worker_Process\<close> and \<open>Service_Safety\<close>
    show it for each operation; \<open>Interleaving\<close> and \<open>Concurrency\<close> for the program under every schedule.
  \<^item> \<open>Worker_Success\<close>, \<open>Worker_Delivers\<close>, \<open>End_To_End\<close>: total correctness of an undisturbed run.
  \<^item> \<open>Messaging\<close>: \<^verbatim>\<open>infrastructure/messaging.py\<close>. \<open>Consumer\<close>, \<open>Consumer_Laws\<close>: \<^verbatim>\<open>worker_main.py\<close>.
  \<^item> \<open>Tables\<close>, \<open>Migration\<close>: the schema and the order of the statements of
    \<^verbatim>\<open>alembic/versions/20260711_0001_initial_ocr_platform.py\<close>. \<open>Persistence\<close>, \<open>Persistence_Laws\<close>:
    \<^verbatim>\<open>infrastructure/persistence.py\<close>. \<open>Retention\<close>, \<open>Retention_Laws\<close>: its retention repository,
    \<^verbatim>\<open>application/retention.py\<close> and the loop of \<^verbatim>\<open>retention_main.py\<close>.
  \<^item> \<open>Storage\<close>, \<open>Storage_Laws\<close>: \<^verbatim>\<open>infrastructure/storage.py\<close>. \<open>Engine\<close>: \<^verbatim>\<open>infrastructure/engine.py\<close>.
    \<open>Preprocessing\<close>, \<open>Preprocessing_Laws\<close>: \<^verbatim>\<open>infrastructure/preprocessor.py\<close>.
    \<open>Sandbox\<close>: \<^verbatim>\<open>infrastructure/sandbox\<close>, the other side of the exchange directory.
    \<open>Logging\<close>: \<^verbatim>\<open>infrastructure/logger_client.py\<close>. \<open>Api_Keys\<close>: \<^verbatim>\<open>infrastructure/api_keys.py\<close> and the command
    line for keys. \<open>Readiness\<close>: \<^verbatim>\<open>application/readiness.py\<close>, \<^verbatim>\<open>infrastructure/readiness.py\<close>.
    \<open>Config\<close>: \<^verbatim>\<open>config.py\<close>.
  \<^item> \<open>Api\<close>, \<open>Api_Errors\<close>, \<open>Api_Laws\<close>, \<open>Adapter_Errors\<close>, \<open>Response_Types\<close>: the routes, dependencies and
    handlers. \<open>Event_Stream\<close>, \<open>Event_Examples\<close>: the event stream. \<open>Application\<close>: \<open>create_app\<close>, its
    lifespan and the published schema. \<open>Container\<close>, \<open>Container_Laws\<close>, \<open>Container_Examples\<close>:
    \<^verbatim>\<open>container.py\<close> and the composition of \<^verbatim>\<open>retention_main.py\<close>.

  \<^bold>\<open>Interfaces.\<close> The laws between components are locales, each interpreted on the model of the code.
  \<^item> \<open>worker_world\<close> (optimistic locking, and other tasks make API steps only) is what the worker needs of
    the store; \<open>mem_worker\<close> gives it for the in-memory runtime, \<open>sim_worker\<close> for that runtime with requests
    between the awaits. \<open>service_world\<close> is the same for the service: \<open>mem_service\<close>, and \<open>sim_service\<close>
    with requests and whole runs of the worker in between.
  \<^item> \<open>api_adapters\<close> (which exceptions an adapter raises) is interpreted for the in-memory runtime; the durable
    one meets the same rules except for uploads, which is where the statement on it stops.
  \<^item> \<open>event_log\<close> (a page of events after a number) is interpreted on both event repositories.
  \<^item> \<open>typed_ports\<close> (stored values have their types) is interpreted on the in-memory runtime.

  \<^bold>\<open>What is shown.\<close>
  \<^item> The life of a job (C1--C9): the worker against any schedule of cancellations and retries follows the life
    cycle, always returns or raises, returns only for a job that is finished, superseded or gone, repeats no
    recognised page, overwrites no cancellation and stays within the retry budget; without disturbance it
    delivers the document; an accepted request is delivered through service, outbox, message and worker; a
    cancellation or retry that was answered has been stored.
  \<^item> Messages and processes (C10--C13, C36--C38): round trip of the request, delivery at least once, draining
    of the outbox, commits of offsets after processing, partitions not left paused, a bounded wait.
  \<^item> Stores (C14--C20): reading back what was saved, gapless event logs, agreement of the two event
    repositories, removal of expired data only, exclusive claims, parts that cover an upload.
  \<^item> Adapters (C21--C26): outcomes of the recogniser, redaction, keys, confinement and numbering
    of pages, the exchange with the isolated parser.
  \<^item> HTTP and composition (C27--C35, C39, C40): every request is answered with a well-formed envelope, other
    owners' jobs are hidden, controlled errors, sufficient production settings, closing of connections, the
    outbox lock, the event stream, the generated status codes, typed answers.

  \<^bold>\<open>Bounds and fuel.\<close> A loop of the source that no structure bounds takes fuel and diverges without it.
  \<open>enough_fuel\<close>, one turn more than the retry budget of a page, is enough for the worker: C2 and C5 show
  that it returns or raises with it. The conflict loops of the service count down as in the source. The
  stream of a finished job needs one unit (C34), the readiness wait one for each pause and three
  more (C38). The other loops of the source are meant to run until they are stopped (the outbox task,
  the consumer, the mailbox daemon, the retention process, an open stream): what is shown of them holds for any fuel and
  any number of rounds. The reader of JSON takes the length of the text as fuel, and \<open>Codec_Laws\<close> shows that
  it suffices for what the writer prints.

  \<^bold>\<open>Parameters.\<close> Code that is not part of the repository is an argument of the definitions that use it: the S3 and
  HTTP clients, the Kafka producer and consumer, asyncpg's pool, PBKDF2 and SHA-256, the PDF, image and
  file type libraries, \<open>gofmt\<close>, the file system, processes, tasks and clocks. Where a theorem relies on
  one, its contract is a named hypothesis, and a witness gives a concrete instance. The server's normal
  form of JSONB and the words of a validation report are parameters of which nothing is assumed.

  \<^bold>\<open>Not modelled.\<close> Argument parsing, signal handlers and the configuration of alembic: calls into libraries
  without logic of their own. Parsing of a request to its types and the generation of the OpenAPI schema:
  FastAPI and pydantic do it; the constraints of the request models are modelled. Protocol classes and constructors
  that only store their arguments: the record fields stand for them. Ranges of integer
  columns, column defaults that the statements always override. Row locks: a claiming statement runs
  as one step. The Go services under \<^verbatim>\<open>services\<close>, the
  frontend, the deployment files and the tests are programs of their own.
\<close>

end
